(* ===== verification/Prelude.thy ===== *)
theory Prelude
  imports Main "HOL-Library.Word" "HOL-Library.Char_ord" "HOL-Library.List_Lexorder"
begin

text \<open>
  The shared vocabulary of the development: the Go strings and big integers the
  packages use, the error values they return, the SQL table operations their
  statements perform and the transaction monad in which a statement sequence runs.

  Conventions.
  \<^item> A Go \<open>string\<close> is a HOL \<open>string\<close>, a list of bytes. Case mapping and
    trimming are those of ASCII text: a byte above 127 is left alone.
  \<^item> \<open>*big.Int\<close> is \<open>int\<close>, \<open>uint64\<close> is a 64-bit word, \<open>int\<close> and
    \<open>int64\<close> values that the code only stores and compares are \<open>int\<close>.
  \<^item> A point in time is an \<open>int\<close>, milliseconds since the epoch, the precision of
    the schema's \<open>DATETIME(3)\<close> columns; \<open>time.Now()\<close> is an argument.
  \<^item> A table is the list of its rows in insertion order, a nullable column an
    \<open>option\<close>. String columns are compared by \<open>sql_eq\<close>, the
    \<open>utf8mb4_unicode_ci\<close> collation that \<open>indexer/mysql.go\<close> declares, on
    ASCII text: letter case and trailing blanks do not count.
  \<^item> A fallible call returns \<open>go_error + 'a\<close>, \<open>Inl\<close> for the error.
\<close>

named_theorems str_simps "rewrite rules for the string helpers"
named_theorems tx_simps "rewrite rules for the transaction monad"
named_theorems tbl_simps "rewrite rules for the table operations"

type_synonym u64 = "64 word"
type_synonym time = int

subsection \<open>Errors\<close>

datatype go_error =
    ErrNoRows
  | ErrDupEntry string
  | ErrInvalidWei
  | ErrInsufficientBalance
  | ErrInvalidWithdrawState
  | ErrNoHotWallet
  | ErrWithdrawAlreadyHandled
  | ErrWalletNotFound
  | ErrWalletDisabled
  | ErrDepositRequiresUserID
  | ErrWalletOwnerConflict
  | ErrWalletTypeImmutable
  | ErrIdempotencyConflict
  | ErrNotEnabled
  | ErrMerchantNotFound
  | ErrMerchantDisabled
  | ErrDuplicateBinding
  | ErrDuplicatePayment
  | ErrInvalidWebhookURL
  | ErrOutboxNotFound
  | ErrKMSNotConfigured
  | GoErr string
  | GoPanic string

type_synonym 'a res = "go_error + 'a"

fun err_text :: "go_error \<Rightarrow> string" where
  "err_text ErrNoRows = ''sql: no rows in result set''"
| "err_text (ErrDupEntry k) = ''Error 1062 (23000): Duplicate entry for key '' @ k"
| "err_text ErrInvalidWei = ''invalid wei amount''"
| "err_text ErrInsufficientBalance = ''insufficient available balance''"
| "err_text ErrInvalidWithdrawState = ''invalid withdraw state transition''"
| "err_text ErrNoHotWallet = ''no hot wallet configured''"
| "err_text ErrWithdrawAlreadyHandled = ''withdraw already being processed or completed''"
| "err_text ErrWalletNotFound = ''wallet not registered''"
| "err_text ErrWalletDisabled = ''wallet is disabled''"
| "err_text ErrDepositRequiresUserID = ''deposit wallet requires user_id''"
| "err_text ErrWalletOwnerConflict = ''address already registered to another user''"
| "err_text ErrWalletTypeImmutable = ''wallet_type cannot be changed after registration''"
| "err_text ErrIdempotencyConflict = ''idempotency key already used by another transaction''"
| "err_text ErrNotEnabled = ''webhook module not enabled''"
| "err_text ErrMerchantNotFound = ''merchant not found''"
| "err_text ErrMerchantDisabled = ''merchant disabled''"
| "err_text ErrDuplicateBinding = ''binding already exists''"
| "err_text ErrDuplicatePayment = ''duplicate payment order''"
| "err_text ErrInvalidWebhookURL = ''invalid webhook url''"
| "err_text ErrOutboxNotFound = ''outbox item not found''"
| "err_text ErrKMSNotConfigured = ''KMS signer not configured (production should use HSM/MPC)''"
| "err_text (GoErr s) = s"
| "err_text (GoPanic s) = s"

subsection \<open>Strings\<close>

text \<open>\<open>strings.ToLower\<close>, \<open>strings.TrimSpace\<close>, \<open>strings.EqualFold\<close>,
  \<open>strings.HasPrefix\<close>, \<open>strings.Contains\<close> on ASCII text.\<close>

definition lower_char :: "char \<Rightarrow> char" where
  "lower_char c = (let n = of_char c :: nat in if 65 \<le> n \<and> n \<le> 90 then char_of (n + 32) else c)"

definition to_lower :: "string \<Rightarrow> string" where
  "to_lower s = map lower_char s"

definition is_space :: "char \<Rightarrow> bool" where
  "is_space c = (let n = of_char c :: nat in n = 32 \<or> (9 \<le> n \<and> n \<le> 13))"

definition trim_right :: "(char \<Rightarrow> bool) \<Rightarrow> string \<Rightarrow> string" where
  "trim_right p s = rev (dropWhile p (rev s))"

definition trim_space :: "string \<Rightarrow> string" where
  "trim_space s = trim_right is_space (dropWhile is_space s)"

definition equal_fold :: "string \<Rightarrow> string \<Rightarrow> bool" where
  "equal_fold a b \<longleftrightarrow> to_lower a = to_lower b"

fun has_prefix :: "string \<Rightarrow> string \<Rightarrow> bool" where
  "has_prefix s [] = True"
| "has_prefix [] (c # cs) = False"
| "has_prefix (x # xs) (c # cs) \<longleftrightarrow> x = c \<and> has_prefix xs cs"

fun str_contains :: "string \<Rightarrow> string \<Rightarrow> bool" where
  "str_contains [] sub \<longleftrightarrow> sub = []"
| "str_contains (x # xs) sub \<longleftrightarrow> has_prefix (x # xs) sub \<or> str_contains xs sub"

text \<open>Equality of string columns under the schema's collation.\<close>

definition coll :: "string \<Rightarrow> string" where
  "coll s = trim_right (\<lambda>c. c = CHR '' '') (to_lower s)"

definition sql_eq :: "string \<Rightarrow> string \<Rightarrow> bool" where
  "sql_eq a b \<longleftrightarrow> coll a = coll b"

text \<open>\<open>nullStr\<close> of the stores, and the inverse that a scan into a
  \<open>sql.NullString\<close> followed by the validity test performs.\<close>

definition nullStr :: "string \<Rightarrow> string option" where
  "nullStr s = (if s = [] then None else Some s)"

definition fromNull :: "string option \<Rightarrow> string" where
  "fromNull v = (case v of None \<Rightarrow> [] | Some s \<Rightarrow> s)"

text \<open>Decimal text of integers: \<open>strconv.Itoa\<close>, \<open>%d\<close>, \<open>(*big.Int).String\<close>.\<close>

definition digit_char :: "nat \<Rightarrow> char" where
  "digit_char n = char_of (48 + n)"

fun nat_str :: "nat \<Rightarrow> string" where
  "nat_str n = (if n < 10 then [digit_char n] else nat_str (n div 10) @ [digit_char (n mod 10)])"

declare nat_str.simps [simp del]

definition int_str :: "int \<Rightarrow> string" where
  "int_str i = (if i < 0 then CHR ''-'' # nat_str (nat (- i)) else nat_str (nat i))"

text \<open>\<open>(*big.Int).SetString(s, 10)\<close>: an optional sign, then digits only, at least one.\<close>

definition is_digit :: "char \<Rightarrow> bool" where
  "is_digit c = (let n = of_char c :: nat in 48 \<le> n \<and> n \<le> 57)"

definition digits_val :: "string \<Rightarrow> nat" where
  "digits_val s = foldl (\<lambda>acc c. 10 * acc + (of_char c - 48)) 0 s"

definition parse_digits :: "string \<Rightarrow> nat option" where
  "parse_digits s = (if s \<noteq> [] \<and> list_all is_digit s then Some (digits_val s) else None)"

definition big_set_string :: "string \<Rightarrow> int option" where
  "big_set_string s =
     (case s of
        [] \<Rightarrow> None
      | c # cs \<Rightarrow>
          if c = CHR ''-'' then map_option (\<lambda>n. - int n) (parse_digits cs)
          else if c = CHR ''+'' then map_option int (parse_digits cs)
          else map_option int (parse_digits s))"

subsection \<open>Results\<close>

text \<open>\<open>if err != nil { return err }\<close> outside a statement sequence, and
  \<open>fmt.Errorf("...: %w", err)\<close>.\<close>

definition bindR :: "'a res \<Rightarrow> ('a \<Rightarrow> 'b res) \<Rightarrow> 'b res" where
  "bindR r k = (case r of Inl e \<Rightarrow> Inl e | Inr x \<Rightarrow> k x)"

definition wrapR :: "string \<Rightarrow> 'a res \<Rightarrow> 'a res" where
  "wrapR prefix r = (case r of Inl e \<Rightarrow> Inl (GoErr (prefix @ '': '' @ err_text e)) | Inr x \<Rightarrow> Inr x)"

lemma bindR_simps [simp]: "bindR (Inl e) k = Inl e" "bindR (Inr x) k = k x"
  by (simp_all add: bindR_def)

lemma bindR_InrE:
  assumes "bindR r k = Inr y"
  obtains x where "r = Inr x" "k x = Inr y"
  using assms by (cases r) auto

lemma wrapR_Inr [simp]: "wrapR p r = Inr x \<longleftrightarrow> r = Inr x"
  by (auto simp: wrapR_def split: sum.splits)

lemma wrapR_simps [simp]:
  "wrapR p (Inr x) = Inr x" "wrapR p (Inl e) = Inl (GoErr (p @ '': '' @ err_text e))"
  by (simp_all add: wrapR_def)

subsection \<open>Tables\<close>

text \<open>\<open>UPDATE t SET f WHERE p\<close>: the new rows, and the driver's affected-row count,
  which counts the rows whose contents changed.\<close>

definition upd_where :: "('r \<Rightarrow> bool) \<Rightarrow> ('r \<Rightarrow> 'r) \<Rightarrow> 'r list \<Rightarrow> 'r list" where
  "upd_where p f t = map (\<lambda>r. if p r then f r else r) t"

definition rows_affected :: "('r \<Rightarrow> bool) \<Rightarrow> ('r \<Rightarrow> 'r) \<Rightarrow> 'r list \<Rightarrow> nat" where
  "rows_affected p f t = length (filter (\<lambda>r. p r \<and> f r \<noteq> r) t)"

text \<open>\<open>INSERT ... ON DUPLICATE KEY UPDATE f\<close>: the first row in conflict with the
  new one is updated, otherwise the row is added.\<close>

fun upsert_where :: "('r \<Rightarrow> bool) \<Rightarrow> ('r \<Rightarrow> 'r) \<Rightarrow> 'r \<Rightarrow> 'r list \<Rightarrow> 'r list" where
  "upsert_where p f new [] = [new]"
| "upsert_where p f new (r # rs) = (if p r then f r # rs else r # upsert_where p f new rs)"

text \<open>An \<open>ENUM\<close> column stores a value in the spelling of the declaration; in strict mode
  a value outside it is refused.\<close>

definition enum_value :: "string list \<Rightarrow> string \<Rightarrow> string option" where
  "enum_value decl v = List.find (sql_eq v) decl"

text \<open>\<open>LIMIT n\<close> and the clamp the list methods put on their limit.\<close>

definition sql_limit :: "int \<Rightarrow> 'r list \<Rightarrow> 'r list" where
  "sql_limit n t = take (nat n) t"

definition clamp_limit :: "int \<Rightarrow> int \<Rightarrow> int \<Rightarrow> int" where
  "clamp_limit mx dflt limit = (if limit \<le> 0 \<or> limit > mx then dflt else limit)"

subsection \<open>Statement sequences and transactions\<close>

text \<open>
  A statement sequence maps the database it sees to a result and the database it
  leaves. \<open>bindT\<close> is Go's \<open>if err != nil { return err }\<close>.
\<close>

type_synonym ('d, 'a) tx = "'d \<Rightarrow> 'a res \<times> 'd"

definition retT :: "'a \<Rightarrow> ('d, 'a) tx" where
  "retT x = (\<lambda>d. (Inr x, d))"

definition failT :: "go_error \<Rightarrow> ('d, 'a) tx" where
  "failT e = (\<lambda>d. (Inl e, d))"

definition bindT :: "('d, 'a) tx \<Rightarrow> ('a \<Rightarrow> ('d, 'b) tx) \<Rightarrow> ('d, 'b) tx" where
  "bindT m k = (\<lambda>d. case m d of (Inl e, d') \<Rightarrow> (Inl e, d') | (Inr x, d') \<Rightarrow> k x d')"

definition liftT :: "'a res \<Rightarrow> ('d, 'a) tx" where
  "liftT r = (\<lambda>d. (r, d))"

definition getT :: "('d \<Rightarrow> 'a) \<Rightarrow> ('d, 'a) tx" where
  "getT f = (\<lambda>d. (Inr (f d), d))"

definition readT :: "('d \<Rightarrow> 'a res) \<Rightarrow> ('d, 'a) tx" where
  "readT f = (\<lambda>d. (f d, d))"

definition modT :: "('d \<Rightarrow> 'd) \<Rightarrow> ('d, unit) tx" where
  "modT f = (\<lambda>d. (Inr (), f d))"

text \<open>A call whose error the caller throws away (\<open>_ = f()\<close>, or a log line): only a
  panic gets through.\<close>

definition ignoreT :: "('d, 'a) tx \<Rightarrow> ('d, unit) tx" where
  "ignoreT m = (\<lambda>d. case m d of (Inl (GoPanic p), d') \<Rightarrow> (Inl (GoPanic p), d') | (_, d') \<Rightarrow> (Inr (), d'))"

text \<open>A \<open>for\<close> loop over a slice whose body may return an error.\<close>

fun forT :: "'x list \<Rightarrow> ('x \<Rightarrow> ('d, unit) tx) \<Rightarrow> ('d, unit) tx" where
  "forT [] f = retT ()"
| "forT (x # xs) f = bindT (f x) (\<lambda>_. forT xs f)"

subsection \<open>Lemmas: strings\<close>

lemma of_char_lt_256 [simp]: "(of_char c :: nat) < 256"
  using nat_of_char_less_256 [of c] by simp

lemma of_char_char_of_lt [str_simps]: "n < 256 \<Longrightarrow> (of_char (char_of n) :: nat) = n"
  by simp

lemma lower_char_idem [simp]: "lower_char (lower_char c) = lower_char c"
  by (simp add: lower_char_def Let_def)

lemma to_lower_idem [simp]: "to_lower (to_lower s) = to_lower s"
  by (simp add: to_lower_def)

lemma to_lower_Nil_iff [simp]: "to_lower s = [] \<longleftrightarrow> s = []" "[] = to_lower s \<longleftrightarrow> s = []"
  by (simp_all add: to_lower_def)

lemma to_lower_Nil [simp]: "to_lower [] = []"
  by (simp add: to_lower_def)

lemma length_to_lower [simp]: "length (to_lower s) = length s"
  by (simp add: to_lower_def)

lemma coll_to_lower [simp]: "coll (to_lower s) = coll s"
  by (simp add: coll_def)

lemma sql_eq_refl [simp]: "sql_eq a a"
  by (simp add: sql_eq_def)

lemma sql_eq_sym: "sql_eq a b \<Longrightarrow> sql_eq b a"
  by (simp add: sql_eq_def)

lemma sql_eq_trans: "sql_eq a b \<Longrightarrow> sql_eq b c \<Longrightarrow> sql_eq a c"
  by (simp add: sql_eq_def)

lemma sql_eq_to_lower [simp]:
  "sql_eq (to_lower a) b \<longleftrightarrow> sql_eq a b" "sql_eq a (to_lower b) \<longleftrightarrow> sql_eq a b"
  by (simp_all add: sql_eq_def)

lemma equal_fold_sql_eq: "equal_fold a b \<Longrightarrow> sql_eq a b"
  by (simp add: equal_fold_def sql_eq_def coll_def)

lemma fromNull_nullStr [simp]: "fromNull (nullStr s) = s"
  by (simp add: fromNull_def nullStr_def)

lemma nullStr_Nil [simp]: "nullStr [] = None"
  by (simp add: nullStr_def)

lemma fromNull_simps [simp]: "fromNull None = []" "fromNull (Some s) = s"
  by (simp_all add: fromNull_def)

subsection \<open>Lemmas: decimal text\<close>

lemma of_char_digit [simp]: "n < 10 \<Longrightarrow> (of_char (digit_char n) :: nat) = 48 + n"
  by (simp add: digit_char_def)

lemma is_digit_digit_char [simp]: "n < 10 \<Longrightarrow> is_digit (digit_char n)"
  by (simp add: is_digit_def Let_def)

lemma nat_str_digits: "nat_str n \<noteq> [] \<and> list_all is_digit (nat_str n)"
proof (induction n rule: nat_str.induct)
  case (1 n)
  show ?case
  proof (cases "n < 10")
    case True
    then show ?thesis by (subst (1 2) nat_str.simps) simp
  next
    case False
    with "1.IH" show ?thesis by (subst (1 2) nat_str.simps) simp
  qed
qed

lemma digits_val_append_one [simp]:
  "digits_val (s @ [c]) = 10 * digits_val s + (of_char c - 48)"
  by (simp add: digits_val_def)

lemma digits_val_nat_str [simp]: "digits_val (nat_str n) = n"
proof (induction n rule: nat_str.induct)
  case (1 n)
  show ?case
  proof (cases "n < 10")
    case True
    then show ?thesis by (subst nat_str.simps) (simp add: digits_val_def)
  next
    case False
    with "1.IH" have "digits_val (nat_str (n div 10)) = n div 10" by simp
    with False show ?thesis by (subst nat_str.simps) simp
  qed
qed

lemma parse_digits_nat_str [simp]: "parse_digits (nat_str n) = Some n"
  using nat_str_digits [of n] by (simp add: parse_digits_def)

lemma nat_str_hd_digit: "\<exists>c cs. nat_str n = c # cs \<and> is_digit c"
  using nat_str_digits [of n] by (cases "nat_str n") auto

lemma not_digit_signs [simp]: "\<not> is_digit CHR ''-''" "\<not> is_digit CHR ''+''"
  by (simp_all add: is_digit_def Let_def)

lemma big_set_string_nat_str [simp]: "big_set_string (nat_str n) = Some (int n)"
proof -
  obtain c cs where s: "nat_str n = c # cs" and "is_digit c"
    using nat_str_hd_digit by blast
  then have "c \<noteq> CHR ''-''" "c \<noteq> CHR ''+''" by auto
  then have "big_set_string (c # cs) = map_option int (parse_digits (c # cs))"
    by (simp add: big_set_string_def)
  then show ?thesis using s [symmetric] by simp
qed

lemma big_set_string_int_str [simp]: "big_set_string (int_str i) = Some i"
proof (cases "i < 0")
  case True
  then show ?thesis by (simp add: int_str_def big_set_string_def)
next
  case False
  then show ?thesis by (simp add: int_str_def)
qed

lemma nat_str_inj: "nat_str m = nat_str n \<Longrightarrow> m = n"
  by (metis digits_val_nat_str)

lemma int_str_inj: "int_str i = int_str j \<Longrightarrow> i = j"
  by (metis big_set_string_int_str option.inject)

subsection \<open>Lemmas: tables\<close>

lemma upd_where_Nil [simp]: "upd_where p f [] = []"
  by (simp add: upd_where_def)

lemma upd_where_Cons [simp]:
  "upd_where p f (r # rs) = (if p r then f r else r) # upd_where p f rs"
  by (simp add: upd_where_def)

lemma upd_where_append [tbl_simps]: "upd_where p f (xs @ ys) = upd_where p f xs @ upd_where p f ys"
  by (simp add: upd_where_def)

lemma upd_where_none [tbl_simps]: "\<forall>r\<in>set t. \<not> p r \<Longrightarrow> upd_where p f t = t"
  by (induction t) auto

lemma length_upd_where [simp]: "length (upd_where p f t) = length t"
  by (simp add: upd_where_def)

lemma set_upd_where: "r \<in> set (upd_where p f t) \<Longrightarrow> \<exists>r0\<in>set t. r = (if p r0 then f r0 else r0)"
  by (auto simp: upd_where_def)

lemma map_upd_where: "(\<And>r. r \<in> set t \<Longrightarrow> p r \<Longrightarrow> g (f r) = g r) \<Longrightarrow> map g (upd_where p f t) = map g t"
  by (induction t) auto

lemma rows_affected_pos: "0 < rows_affected p f t \<longleftrightarrow> (\<exists>r\<in>set t. p r \<and> f r \<noteq> r)"
  by (auto simp: rows_affected_def filter_empty_conv)

lemma find_append [tbl_simps]:
  "List.find p (xs @ ys) = (case List.find p xs of None \<Rightarrow> List.find p ys | Some r \<Rightarrow> Some r)"
  by (induction xs) auto

lemma find_upd_where:
  assumes "\<And>r. r \<in> set t \<Longrightarrow> q r \<Longrightarrow> p' (f r) = p' r"
  shows "List.find p' (upd_where q f t) = map_option (\<lambda>r. if q r then f r else r) (List.find p' t)"
  using assms by (induction t) auto

lemma find_SomeD: "List.find p t = Some r \<Longrightarrow> r \<in> set t \<and> p r"
  by (induction t) (auto split: if_splits)

lemma find_NoneD: "List.find p t = None \<Longrightarrow> r \<in> set t \<Longrightarrow> \<not> p r"
  by (induction t) (auto split: if_splits)

lemma find_None_iff_none: "List.find p t = None \<longleftrightarrow> (\<forall>r\<in>set t. \<not> p r)"
  by (induction t) auto

lemma find_upsert_same:
  assumes "\<And>r. r \<in> set t \<Longrightarrow> p r \<Longrightarrow> p (f r)" and "p new"
  shows "List.find p (upsert_where p f new t) =
    Some (case List.find p t of None \<Rightarrow> new | Some r \<Rightarrow> f r)"
  using assms by (induction t) auto

lemma find_upsert_other:
  assumes "\<And>r. r \<in> set t \<Longrightarrow> p r \<Longrightarrow> \<not> q r \<and> \<not> q (f r)" and "\<not> q new"
  shows "List.find q (upsert_where p f new t) = List.find q t"
  using assms by (induction t) auto

lemma set_upsert_where:
  "r \<in> set (upsert_where p f new t) \<Longrightarrow> r \<in> set t \<or> r = new \<or> (\<exists>r0\<in>set t. p r0 \<and> r = f r0)"
  by (induction t) (auto split: if_splits)

lemma map_upsert_where:
  assumes "\<And>r. r \<in> set t \<Longrightarrow> p r \<Longrightarrow> g (f r) = g r"
  shows "map g (upsert_where p f new t) =
    (if \<exists>r\<in>set t. p r then map g t else map g t @ [g new])"
  using assms by (induction t) auto

lemma sum_list_upsert_where:
  fixes g :: "'r \<Rightarrow> int"
  shows "sum_list (map g (upsert_where p f new t)) =
    sum_list (map g t) + (case List.find p t of None \<Rightarrow> g new | Some r \<Rightarrow> g (f r) - g r)"
  by (induction t) (auto split: option.splits)

lemma upsert_where_None: "List.find p t = None \<Longrightarrow> upsert_where p f new t = t @ [new]"
  by (induction t) (auto split: if_splits)

lemma sql_limit_set: "set (sql_limit n t) \<subseteq> set t"
  by (simp add: sql_limit_def set_take_subset)

lemma length_sql_limit: "0 \<le> n \<Longrightarrow> int (length (sql_limit n t)) \<le> n"
  by (simp add: sql_limit_def)

lemma clamp_limit_bounds:
  "0 < dflt \<Longrightarrow> dflt \<le> mx \<Longrightarrow> 0 < clamp_limit mx dflt l \<and> clamp_limit mx dflt l \<le> mx"
  by (simp add: clamp_limit_def)

subsection \<open>Lemmas: the transaction monad\<close>

lemma retT_apply [simp, tx_simps]: "retT x d = (Inr x, d)"
  by (simp add: retT_def)

lemma failT_apply [simp, tx_simps]: "failT e d = (Inl e, d)"
  by (simp add: failT_def)

lemma liftT_apply [simp, tx_simps]: "liftT r d = (r, d)"
  by (simp add: liftT_def)

lemma getT_apply [simp, tx_simps]: "getT f d = (Inr (f d), d)"
  by (simp add: getT_def)

lemma readT_apply [simp, tx_simps]: "readT f d = (f d, d)"
  by (simp add: readT_def)

lemma modT_apply [simp, tx_simps]: "modT f d = (Inr (), f d)"
  by (simp add: modT_def)

lemma bindT_apply:
  "bindT m k d = (case m d of (Inl e, d') \<Rightarrow> (Inl e, d') | (Inr x, d') \<Rightarrow> k x d')"
  by (simp add: bindT_def)

lemma bindT_Inl [simp, tx_simps]: "m d = (Inl e, d') \<Longrightarrow> bindT m k d = (Inl e, d')"
  by (simp add: bindT_def)

lemma bindT_Inr [simp, tx_simps]: "m d = (Inr x, d') \<Longrightarrow> bindT m k d = k x d'"
  by (simp add: bindT_def)

lemma bindT_InrE:
  assumes "bindT m k d = (Inr y, d'')"
  obtains x d' where "m d = (Inr x, d')" "k x d' = (Inr y, d'')"
  using assms by (auto simp: bindT_def split: prod.splits sum.splits)

lemma bindT_simps [simp]:
  "bindT (retT x) k = k x" "bindT (failT e) k = failT e"
  "bindT (liftT (Inr x)) k = k x" "bindT (liftT (Inl e)) k = failT e"
  by (simp_all add: bindT_def retT_def failT_def liftT_def fun_eq_iff)

lemma bindT_keeps:
  assumes "\<And>r d'. m d = (r, d') \<Longrightarrow> P d'"
    and "\<And>x d' r d''. m d = (Inr x, d') \<Longrightarrow> P d' \<Longrightarrow> k x d' = (r, d'') \<Longrightarrow> P d''"
    and "bindT m k d = (r, d'')"
  shows "P d''"
proof (cases "m d")
  case (Pair a d')
  then show ?thesis using assms by (cases a) (auto simp: bindT_def)
qed

lemma forT_keeps:
  assumes "\<And>x d r d'. x \<in> set xs \<Longrightarrow> P d \<Longrightarrow> f x d = (r, d') \<Longrightarrow> P d'"
    and "P d" and "forT xs f d = (r, d')"
  shows "P d'"
  using assms
proof (induction xs arbitrary: d r d')
  case Nil
  then show ?case by simp
next
  case (Cons x xs)
  show ?case
  proof (rule bindT_keeps [where P = P])
    show "bindT (f x) (\<lambda>_. forT xs f) d = (r, d')" using Cons.prems(3) by simp
    show "P d1" if "f x d = (r1, d1)" for r1 d1
      using Cons.prems(1) [of x d r1 d1] Cons.prems(2) that by simp
    show "P d2" if "P d1" and "forT xs f d1 = (r1, d2)" for d1 d2 r1
      by (rule Cons.IH [OF _ that]) (use Cons.prems(1) in auto)
  qed
qed

lemma snd_ignoreT [simp]: "snd (ignoreT m d) = snd (m d)"
  by (auto simp: ignoreT_def split: prod.splits sum.splits go_error.splits)

lemma ignoreT_Inr [simp]: "m d = (Inr x, d') \<Longrightarrow> ignoreT m d = (Inr (), d')"
  by (simp add: ignoreT_def)

lemma ignoreT_Inl [simp]:
  "m d = (Inl e, d') \<Longrightarrow> (\<And>p. e \<noteq> GoPanic p) \<Longrightarrow> ignoreT m d = (Inr (), d')"
  by (cases e) (auto simp: ignoreT_def)

lemma ignoreT_keeps:
  assumes "\<And>r d'. m d = (r, d') \<Longrightarrow> P d'" "ignoreT m d = (r, d')"
  shows "P d'"
  using assms by (metis prod.exhaust_sel snd_conv snd_ignoreT)

text \<open>Invariants of the state a statement sequence leaves, whatever it returns.\<close>

lemma bindT_snd:
  assumes "P (snd (m d))" "\<And>x d'. m d = (Inr x, d') \<Longrightarrow> P d' \<Longrightarrow> P (snd (k x d'))"
  shows "P (snd (bindT m k d))"
  using assms by (auto simp: bindT_def split: prod.splits sum.splits)

lemma forT_snd:
  assumes "\<And>x d. x \<in> set xs \<Longrightarrow> P d \<Longrightarrow> P (snd (f x d))" "P d"
  shows "P (snd (forT xs f d))"
  using forT_keeps [of xs P f d "fst (forT xs f d)" "snd (forT xs f d)"] assms
  by (metis prod.collapse snd_conv)

subsection \<open>Keyed tables\<close>

text \<open>
  The contract between a table with a unique key and its clients: a put is seen by the
  lookups of an equal key and by no other. \<open>eqk\<close> is the key comparison of the provider,
  which the collation makes coarser than equality; \<open>stored\<close> is what a lookup returns of
  the value that was put.
\<close>

locale keyed_table =
  fixes eqk :: "'k \<Rightarrow> 'k \<Rightarrow> bool"
    and put :: "'k \<Rightarrow> 'v \<Rightarrow> 'd \<Rightarrow> 'd"
    and stored :: "'v \<Rightarrow> 'w"
    and look :: "'d \<Rightarrow> 'k \<Rightarrow> 'w option"
  assumes look_put: "look (put k v d) k' = (if eqk k k' then Some (stored v) else look d k')"
begin

lemma look_put_same: "eqk k k' \<Longrightarrow> look (put k v d) k' = Some (stored v)"
  by (simp add: look_put)

lemma look_put_other: "\<not> eqk k k' \<Longrightarrow> look (put k v d) k' = look d k'"
  by (simp add: look_put)

lemma look_put_twice: "look (put k v2 (put k v1 d)) k' = look (put k v2 d) k'"
  by (simp add: look_put)

lemma look_put_commute:
  assumes "\<And>x. \<not> (eqk k1 x \<and> eqk k2 x)"
  shows "look (put k1 v1 (put k2 v2 d)) x = look (put k2 v2 (put k1 v1 d)) x"
  using assms [of x] by (simp add: look_put)

text \<open>After a sequence of puts, the last one with the key is seen.\<close>

lemma look_puts:
  "look (fold (\<lambda>(k, v). put k v) kvs d) k =
     (case List.find (\<lambda>(k', v). eqk k' k) (rev kvs) of
        None \<Rightarrow> look d k | Some (k', v) \<Rightarrow> Some (stored v))"
  by (induction kvs arbitrary: d) (auto simp: look_put find_append split: option.splits)

end

end
