(* ===== verification/Schema.thy ===== *)
theory Schema
  imports Prelude
begin

text \<open>
  The MySQL schema of the chain back end: one record per table, from the
  \<open>CREATE TABLE\<close> statements of the packages' \<open>schema.go\<close> (and
  \<open>indexer/mysql.go\<close>), and the database as the record of all tables, because a
  transaction of the indexer writes the tables of three packages. A column declared
  \<open>NULL\<close> is an \<open>option\<close>. \<open>AUTO_INCREMENT\<close> counters are kept apart
  from the tables: a rollback restores the tables but never the counters, and an
  \<open>INSERT\<close> that is refused for a duplicate key has already drawn its number.
  Column widths and secondary indexes are not modelled.
\<close>

subsection \<open>The exchange's tables\<close>

datatype ledger_type =
    LedgerDepositCredit
  | LedgerDepositReverse
  | LedgerWithdrawFreeze
  | LedgerWithdrawUnfreeze
  | LedgerWithdrawDebit
  | LedgerPaymentDebit
  | LedgerPaymentCredit

datatype deposit_status = DepositStatusPending | DepositStatusCredited | DepositStatusOrphaned

datatype withdraw_status =
    WithdrawStatusPendingReview
  | WithdrawStatusApproved
  | WithdrawStatusRejected
  | WithdrawStatusBroadcasting
  | WithdrawStatusConfirmed
  | WithdrawStatusFailed
  | WithdrawStatusCancelled

text \<open>\<open>user_ledger_accounts\<close>, and the Go struct \<open>AccountBalance\<close> it is scanned
  into: no column is nullable.\<close>

record account_balance =
  la_chain :: int
  la_user :: string
  la_token :: string
  la_avail :: string
  la_frozen :: string
  la_updated :: time

record ledger_entry_row =
  ler_id :: int
  ler_chain :: int
  ler_user :: string
  ler_token :: string
  ler_type :: ledger_type
  ler_amount :: string
  ler_ref_type :: "string option"
  ler_ref_id :: "int option"
  ler_avail_after :: string
  ler_frozen_after :: string
  ler_created :: time

text \<open>\<open>deposits\<close>, and the Go struct \<open>Deposit\<close>: its one nullable column is a
  pointer there.\<close>

record deposit =
  dep_id :: int
  dep_chain :: int
  dep_user :: string
  dep_address :: string
  dep_token :: string
  dep_amount :: string
  dep_tx_hash :: string
  dep_log_index :: nat
  dep_block :: u64
  dep_status :: deposit_status
  dep_credited_at :: "time option"
  dep_created :: time

record withdraw_row =
  wr_id :: int
  wr_chain :: int
  wr_user :: string
  wr_token :: string
  wr_to :: string
  wr_amount :: string
  wr_status :: withdraw_status
  wr_from_wallet :: "string option"
  wr_tx_hash :: "string option"
  wr_reviewer :: "string option"
  wr_reviewed_at :: "time option"
  wr_reject_reason :: "string option"
  wr_idem_key :: "string option"
  wr_created :: time
  wr_updated :: time

subsection \<open>The balance package's tables\<close>

record balance_row =
  bal_chain :: int
  bal_address :: string
  bal_token :: string
  bal_wei :: string
  bal_block :: u64
  bal_source_tx :: "string option"
  bal_updated :: time

record wallet_row =
  cwr_chain :: int
  cwr_address :: string
  cwr_user :: "string option"
  cwr_label :: "string option"
  cwr_type :: string
  cwr_enabled :: bool
  cwr_created :: time
  cwr_updated :: time

subsection \<open>The transaction tracker's tables\<close>

datatype tx_status =
    StatusSubmitting
  | StatusBroadcastFailed
  | StatusPending
  | StatusConfirmed
  | StatusFailed
  | StatusDropped
  | StatusReplaced

datatype outbox_status = ObPending | ObProcessing | ObDone | ObFailed

record nonce_row =
  wn_chain :: int
  wn_address :: string
  wn_next :: u64
  wn_updated :: time

record tracker_row =
  tr_chain :: int
  tr_hash :: string
  tr_from :: string
  tr_to :: string
  tr_token :: "string option"
  tr_value :: string
  tr_nonce :: u64
  tr_gas_limit :: u64
  tr_gas_price :: "string option"
  tr_max_fee :: "string option"
  tr_max_prio :: "string option"
  tr_format :: string
  tr_type :: string
  tr_status :: tx_status
  tr_block :: u64
  tr_gas_used :: "u64 option"
  tr_confirmations :: u64
  tr_error :: "string option"
  tr_biz_id :: "string option"
  tr_biz_type :: "string option"
  tr_idem_key :: "string option"
  tr_replaces :: "string option"
  tr_replaced_by :: "string option"
  tr_signed_raw :: "string option"
  tr_retry_count :: nat
  tr_created :: time
  tr_updated :: time

text \<open>The JSON object that a status change carries.\<close>

datatype tx_payload =
    TransitionPayload u64 u64 string
  | ReplacedPayload string

record tx_outbox_row =
  txo_id :: int
  txo_chain :: int
  txo_hash :: string
  txo_biz_id :: "string option"
  txo_old :: tx_status
  txo_new :: tx_status
  txo_payload :: tx_payload
  txo_last_error :: "string option"
  txo_status :: outbox_status
  txo_retries :: nat
  txo_next_retry :: time
  txo_created :: time
  txo_updated :: time

subsection \<open>The webhook package's tables\<close>

record merchant_row =
  mer_chain :: int
  mer_id :: string
  mer_name :: string
  mer_url :: string
  mer_secret :: string
  mer_ledger_user :: string
  mer_enabled :: bool
  mer_created :: time
  mer_updated :: time

record binding =
  bind_chain :: int
  bind_merchant :: string
  bind_payer :: string
  bind_created :: time

text \<open>The event bodies: \<open>DepositPayload\<close>, \<open>PaymentPayload\<close> and the map that
  the load test writes.\<close>

record deposit_payload =
  dp_event_type :: string
  dp_merchant :: string
  dp_order :: string
  dp_user :: string
  dp_tx_hash :: string
  dp_amount :: string
  dp_token :: string
  dp_status :: string
  dp_block :: u64
  dp_confirmed_at :: time

record payment_payload =
  pp_event_type :: string
  pp_merchant :: string
  pp_order :: string
  pp_payer :: string
  pp_amount :: string
  pp_token :: string
  pp_status :: string
  pp_paid_at :: time

datatype wh_payload =
    WhDeposit deposit_payload
  | WhPayment payment_payload
  | WhBench string string int

record wh_outbox_row =
  who_id :: int
  who_chain :: int
  who_merchant :: string
  who_event :: string
  who_idem :: string
  who_payload :: wh_payload
  who_status :: outbox_status
  who_retries :: nat
  who_next_retry :: time
  who_created :: time
  who_updated :: time

record delivery_row =
  del_id :: int
  del_chain :: int
  del_outbox :: int
  del_merchant :: string
  del_attempt :: int
  del_http :: int
  del_latency :: int
  del_response :: "string option"
  del_error :: "string option"
  del_created :: time

record payment_row =
  pay_id :: int
  pay_chain :: int
  pay_merchant :: string
  pay_order :: string
  pay_payer :: string
  pay_token :: string
  pay_amount :: string
  pay_status :: string
  pay_idem :: string
  pay_created :: time

subsection \<open>The indexer's tables\<close>

datatype block_status = BlockPending | BlockConfirmed | BlockOrphaned

record checkpoint =
  cp_chain :: u64
  cp_last :: u64
  cp_hash :: string
  cp_confirmed :: u64
  cp_updated :: time

record pending_header =
  ph_chain :: u64
  ph_number :: u64
  ph_hash :: string
  ph_enqueued :: time

record block_row =
  sb_chain :: u64
  sb_number :: u64
  sb_hash :: string
  sb_parent :: string
  sb_timestamp :: u64
  sb_tx_count :: nat
  sb_gas_used :: u64
  sb_status :: block_status
  sb_synced :: time

record synced_tx_row =
  st_chain :: u64
  st_hash :: string
  st_block :: u64
  st_block_hash :: string
  st_index :: nat
  st_from :: string
  st_to :: "string option"
  st_value :: string
  st_gas_used :: "u64 option"
  st_status :: "u64 option"
  st_synced :: time

text \<open>A decoded event argument, by the Go types that the code tells apart: a string, a big
  integer, and any other value with its printed form.\<close>

datatype event_arg = ArgStr string | ArgBig int | ArgOther string

record event_log_row =
  ev_chain :: u64
  ev_tx_hash :: string
  ev_log_index :: nat
  ev_block :: u64
  ev_block_hash :: string
  ev_contract :: string
  ev_name :: string
  ev_topic0 :: string
  ev_topics :: "string list"
  ev_args :: "(string \<times> event_arg) list"
  ev_synced :: time

record transfer_log_row =
  tl_chain :: u64
  tl_tx_hash :: string
  tl_log_index :: nat
  tl_block :: u64
  tl_contract :: string
  tl_from :: string
  tl_to :: string
  tl_value :: string
  tl_synced :: time

datatype sync_payload =
    BlockCached u64 string nat u64 u64
  | EventCached string u64 string string "(string \<times> event_arg) list"

record sync_outbox_row =
  so_id :: int
  so_chain :: u64
  so_event :: string
  so_payload :: sync_payload
  so_status :: outbox_status
  so_retries :: nat
  so_next_retry :: time
  so_created :: time
  so_updated :: time

record gap_scan_row =
  gs_id :: int
  gs_chain :: u64
  gs_head :: u64
  gs_from :: u64
  gs_to :: u64
  gs_gaps :: nat
  gs_mismatches :: nat
  gs_enqueued :: nat
  gs_scanned :: time

subsection \<open>The database\<close>

record counters =
  ai_entries :: int
  ai_deposits :: int
  ai_withdraws :: int
  ai_tx_outbox :: int
  ai_wh_outbox :: int
  ai_deliveries :: int
  ai_payments :: int
  ai_sync_outbox :: int
  ai_gap_scans :: int

record db =
  ctrs :: counters
  accounts :: "account_balance list"
  entries :: "ledger_entry_row list"
  deposits :: "deposit list"
  withdraws :: "withdraw_row list"
  balances :: "balance_row list"
  wallets :: "wallet_row list"
  nonces :: "nonce_row list"
  trackers :: "tracker_row list"
  tx_outbox :: "tx_outbox_row list"
  merchants :: "merchant_row list"
  bindings :: "binding list"
  wh_outbox :: "wh_outbox_row list"
  deliveries :: "delivery_row list"
  payments :: "payment_row list"
  checkpoints :: "checkpoint list"
  pending_headers :: "pending_header list"
  sblocks :: "block_row list"
  stxs :: "synced_tx_row list"
  stransfers :: "transfer_log_row list"
  sevents :: "event_log_row list"
  sync_outbox :: "sync_outbox_row list"
  gap_scans :: "gap_scan_row list"

definition init_counters :: counters where
  "init_counters = \<lparr>ai_entries = 1, ai_deposits = 1, ai_withdraws = 1, ai_tx_outbox = 1,
     ai_wh_outbox = 1, ai_deliveries = 1, ai_payments = 1, ai_sync_outbox = 1, ai_gap_scans = 1\<rparr>"

text \<open>What the \<open>EnsureSchema\<close> functions leave on an empty server.\<close>

definition empty_db :: db where
  "empty_db = \<lparr>ctrs = init_counters, accounts = [], entries = [], deposits = [], withdraws = [],
     balances = [], wallets = [], nonces = [], trackers = [], tx_outbox = [], merchants = [],
     bindings = [], wh_outbox = [], deliveries = [], payments = [], checkpoints = [],
     pending_headers = [], sblocks = [], stxs = [], stransfers = [], sevents = [], sync_outbox = [], gap_scans = []\<rparr>"

type_synonym 'a dbtx = "(db, 'a) tx"

text \<open>
  \<open>BeginTx\<close> ... \<open>Commit\<close> with the deferred \<open>Rollback\<close>: the body's writes
  become the database's state when it reaches the commit, and are undone, counters
  excepted, when it returns an error before.
\<close>

definition rollback :: "db \<Rightarrow> db \<Rightarrow> db" where
  "rollback d d' = d\<lparr>ctrs := ctrs d'\<rparr>"

definition run_tx :: "'a dbtx \<Rightarrow> 'a dbtx" where
  "run_tx m = (\<lambda>d. case m d of (Inl e, d') \<Rightarrow> (Inl e, rollback d d') | (Inr x, d') \<Rightarrow> (Inr x, d'))"

text \<open>Two databases with the same tables, whatever their counters.\<close>

definition same_tables :: "db \<Rightarrow> db \<Rightarrow> bool" where
  "same_tables d d' \<longleftrightarrow> d' = d\<lparr>ctrs := ctrs d'\<rparr>"

lemma same_tables_refl [simp]: "same_tables d d"
  by (simp add: same_tables_def)

lemma rollback_same_tables [simp]: "same_tables d (rollback d d')"
  by (simp add: same_tables_def rollback_def)

lemma same_tables_trans: "same_tables a b \<Longrightarrow> same_tables b c \<Longrightarrow> same_tables a c"
  unfolding same_tables_def by (metis db.surjective db.update_convs(1))

text \<open>A transaction is atomic: an error leaves every table as it was.\<close>

lemma run_tx_Inl_same_tables: "run_tx m d = (Inl e, d') \<Longrightarrow> same_tables d d'"
  by (auto simp: run_tx_def split: prod.splits sum.splits)

lemma run_tx_Inl_iff: "(\<exists>d'. run_tx m d = (Inl e, d')) \<longleftrightarrow> (\<exists>d'. m d = (Inl e, d'))"
  by (auto simp: run_tx_def split: prod.splits sum.splits)

lemma run_tx_InrD: "run_tx m d = (Inr x, d') \<Longrightarrow> m d = (Inr x, d')"
  by (auto simp: run_tx_def split: prod.splits sum.splits)

lemma run_tx_Inr [simp]: "m d = (Inr x, d') \<Longrightarrow> run_tx m d = (Inr x, d')"
  by (simp add: run_tx_def)

lemma run_tx_Inl [simp]: "m d = (Inl e, d') \<Longrightarrow> run_tx m d = (Inl e, rollback d d')"
  by (simp add: run_tx_def)

lemma run_tx_keeps:
  assumes "\<And>r d'. m d = (r, d') \<Longrightarrow> P d'"
    and "\<And>c. P d \<Longrightarrow> P (d\<lparr>ctrs := c\<rparr>)" and "P d"
    and "run_tx m d = (r, d')"
  shows "P d'"
proof (cases "m d")
  case (Pair a d1)
  then show ?thesis using assms by (cases a) (auto simp: rollback_def)
qed

end
