(* ===== verification/Wei.thy ===== *)
theory Wei
  imports Prelude
begin

text \<open>
  \<open>internal/exchange/wei.go\<close>: amounts are decimal strings in the database and
  \<open>*big.Int\<close> in memory. A nil pointer is \<open>None\<close>.
\<close>

definition weiZero :: int where
  "weiZero = 0"

definition parseWei :: "string \<Rightarrow> int res" where
  "parseWei s =
     (case big_set_string s of
        None \<Rightarrow> Inl ErrInvalidWei
      | Some v \<Rightarrow> if v < 0 then Inl ErrInvalidWei else Inr v)"

definition weiString :: "int option \<Rightarrow> string" where
  "weiString v = (case v of None \<Rightarrow> ''0'' | Some i \<Rightarrow> int_str i)"

definition weiAdd :: "int \<Rightarrow> int \<Rightarrow> int" where
  "weiAdd a b = a + b"

definition weiSub :: "int \<Rightarrow> int \<Rightarrow> int res" where
  "weiSub a b = (let out = a - b in if out < 0 then Inl ErrInsufficientBalance else Inr out)"

definition weiCmp :: "int \<Rightarrow> int \<Rightarrow> int" where
  "weiCmp a b = (if a < b then - 1 else if a = b then 0 else 1)"

definition weiGte :: "int \<Rightarrow> int \<Rightarrow> bool" where
  "weiGte a b \<longleftrightarrow> 0 \<le> weiCmp a b"

text \<open>The number a column holds; 0 for a text that is no amount.\<close>

definition wei_val :: "string \<Rightarrow> int" where
  "wei_val s = (case parseWei s of Inl _ \<Rightarrow> 0 | Inr v \<Rightarrow> v)"

definition is_wei :: "string \<Rightarrow> bool" where
  "is_wei s \<longleftrightarrow> (\<exists>v. parseWei s = Inr v)"

lemma is_wei_code [code]: "is_wei s \<longleftrightarrow> (case parseWei s of Inl _ \<Rightarrow> False | Inr _ \<Rightarrow> True)"
  by (auto simp: is_wei_def split: sum.splits)

lemma parseWei_weiString [simp]: "0 \<le> v \<Longrightarrow> parseWei (weiString (Some v)) = Inr v"
  by (simp add: parseWei_def weiString_def)

lemma parseWei_nonneg: "parseWei s = Inr v \<Longrightarrow> 0 \<le> v"
  by (auto simp: parseWei_def split: option.splits if_splits)

lemma parseWei_Inl: "parseWei s = Inl e \<Longrightarrow> e = ErrInvalidWei"
  by (auto simp: parseWei_def split: option.splits if_splits)

lemma wei_val_nonneg [simp]: "0 \<le> wei_val s"
  by (auto simp: wei_val_def parseWei_nonneg split: sum.splits)

lemma wei_val_weiString [simp]: "0 \<le> v \<Longrightarrow> wei_val (weiString (Some v)) = v"
  by (simp add: wei_val_def)

lemma is_wei_weiString [simp]: "0 \<le> v \<Longrightarrow> is_wei (weiString (Some v))"
  by (simp add: is_wei_def)

lemma is_wei_parse: "is_wei s \<Longrightarrow> parseWei s = Inr (wei_val s)"
  by (auto simp: is_wei_def wei_val_def)

lemma parseWei_wei_val: "parseWei s = Inr v \<Longrightarrow> wei_val s = v \<and> is_wei s"
  by (simp add: wei_val_def is_wei_def)

lemma weiString_zero: "weiString (Some 0) = ''0''"
  by code_simp

lemma parseWei_zero [simp]: "parseWei ''0'' = Inr 0"
  using parseWei_weiString [of 0] by (simp add: weiString_zero)

lemma wei_val_zero [simp]: "wei_val ''0'' = 0"
  by (simp add: wei_val_def)

lemma weiGte_iff [simp]: "weiGte a b \<longleftrightarrow> b \<le> a"
  by (simp add: weiGte_def weiCmp_def)

lemma weiCmp_le [simp]: "weiCmp a b \<le> 0 \<longleftrightarrow> a \<le> b"
  by (simp add: weiCmp_def)

lemma weiSub_Inr_iff: "weiSub a b = Inr c \<longleftrightarrow> c = a - b \<and> weiGte a b"
  by (auto simp: weiSub_def Let_def)

lemma weiSub_Inl_iff: "(\<exists>e. weiSub a b = Inl e) \<longleftrightarrow> \<not> weiGte a b"
  by (auto simp: weiSub_def Let_def)

end
