(* ===== verification/Exchange_Ledger.thy ===== *)
theory Exchange_Ledger
  imports Schema Wei
begin

text \<open>
  \<open>internal/exchange/ledger.go\<close>: the seven postings of the off-chain ledger, each a
  call of \<open>applyLedgerTx\<close>, which locks the account row, checks that neither side
  becomes negative, writes the account and appends the journal entry.

  The invariant \<open>ledger_inv\<close> says that account keys are unique, that every balance
  column is a printed non-negative number, that the journal's references fit its entry
  types, and that each account equals the sum of its journal (\<open>books_ok\<close>). Every
  posting keeps it.
\<close>

subsection \<open>Definitions\<close>

definition normToken :: "string \<Rightarrow> string" where
  "normToken token = to_lower (trim_space token)"

record ledger_op =
  op_type :: ledger_type
  op_amount :: int
  op_ref_type :: string
  op_ref_id :: int
  op_delta_avail :: int
  op_delta_frozen :: int

definition acct_match :: "int \<Rightarrow> string \<Rightarrow> string \<Rightarrow> account_balance \<Rightarrow> bool" where
  "acct_match ch user token r \<longleftrightarrow>
     la_chain r = ch \<and> sql_eq (la_user r) user \<and> sql_eq (la_token r) token"

definition select_account :: "int \<Rightarrow> string \<Rightarrow> string \<Rightarrow> db \<Rightarrow> string \<times> string" where
  "select_account ch user token d =
     (case List.find (acct_match ch user token) (accounts d) of
        None \<Rightarrow> (''0'', ''0'')
      | Some r \<Rightarrow> (la_avail r, la_frozen r))"

definition upsert_account :: "int \<Rightarrow> time \<Rightarrow> string \<Rightarrow> string \<Rightarrow> string \<Rightarrow> string \<Rightarrow> db \<Rightarrow> db" where
  "upsert_account ch now user token av fr d =
     d\<lparr>accounts := upsert_where (acct_match ch user token)
         (\<lambda>r. r\<lparr>la_avail := av, la_frozen := fr, la_updated := now\<rparr>)
         \<lparr>la_chain = ch, la_user = user, la_token = token,
          la_avail = av, la_frozen = fr, la_updated = now\<rparr> (accounts d)\<rparr>"

definition insert_entry ::
  "int \<Rightarrow> time \<Rightarrow> string \<Rightarrow> string \<Rightarrow> ledger_op \<Rightarrow> string \<Rightarrow> string \<Rightarrow> db \<Rightarrow> db" where
  "insert_entry ch now user token op av fr d =
     d\<lparr>ctrs := (ctrs d)\<lparr>ai_entries := ai_entries (ctrs d) + 1\<rparr>,
       entries := entries d @ [\<lparr>ler_id = ai_entries (ctrs d), ler_chain = ch, ler_user = user,
         ler_token = token, ler_type = op_type op, ler_amount = weiString (Some (op_amount op)),
         ler_ref_type = (if op_ref_type op \<noteq> [] then Some (op_ref_type op) else None),
         ler_ref_id = (if op_ref_type op \<noteq> [] then Some (op_ref_id op) else None),
         ler_avail_after = av, ler_frozen_after = fr, ler_created = now\<rparr>]\<rparr>"

definition applyLedgerTx :: "int \<Rightarrow> time \<Rightarrow> string \<Rightarrow> string \<Rightarrow> ledger_op \<Rightarrow> unit dbtx" where
  "applyLedgerTx ch now user token0 op =
     (let token = normToken token0 in
      bindT (getT (select_account ch user token)) (\<lambda>(availStr, frozenStr).
      bindT (liftT (parseWei availStr)) (\<lambda>avail.
      bindT (liftT (parseWei frozenStr)) (\<lambda>frozen.
      let newAvail = weiAdd avail (op_delta_avail op) in
      if newAvail < 0 then failT ErrInsufficientBalance
      else
      let newFrozen = weiAdd frozen (op_delta_frozen op) in
      if newFrozen < 0 then failT ErrInsufficientBalance
      else
      bindT (modT (upsert_account ch now user token
               (weiString (Some newAvail)) (weiString (Some newFrozen)))) (\<lambda>_.
      modT (insert_entry ch now user token op
               (weiString (Some newAvail)) (weiString (Some newFrozen))))))))"

definition creditDepositTx :: "int \<Rightarrow> time \<Rightarrow> string \<Rightarrow> string \<Rightarrow> string \<Rightarrow> int \<Rightarrow> unit dbtx" where
  "creditDepositTx ch now user token amount depositID =
     bindT (liftT (parseWei amount)) (\<lambda>amt.
     applyLedgerTx ch now user token
       \<lparr>op_type = LedgerDepositCredit, op_amount = amt, op_ref_type = ''deposit'',
        op_ref_id = depositID, op_delta_avail = amt, op_delta_frozen = weiZero\<rparr>)"

definition reverseDepositTx :: "int \<Rightarrow> time \<Rightarrow> string \<Rightarrow> string \<Rightarrow> string \<Rightarrow> int \<Rightarrow> unit dbtx" where
  "reverseDepositTx ch now user token amount depositID =
     bindT (liftT (parseWei amount)) (\<lambda>amt.
     applyLedgerTx ch now user token
       \<lparr>op_type = LedgerDepositReverse, op_amount = amt, op_ref_type = ''deposit'',
        op_ref_id = depositID, op_delta_avail = - amt, op_delta_frozen = weiZero\<rparr>)"

definition freezeWithdrawTx :: "int \<Rightarrow> time \<Rightarrow> string \<Rightarrow> string \<Rightarrow> string \<Rightarrow> int \<Rightarrow> unit dbtx" where
  "freezeWithdrawTx ch now user token amount withdrawID =
     bindT (liftT (parseWei amount)) (\<lambda>amt.
     applyLedgerTx ch now user token
       \<lparr>op_type = LedgerWithdrawFreeze, op_amount = amt, op_ref_type = ''withdraw'',
        op_ref_id = withdrawID, op_delta_avail = - amt, op_delta_frozen = amt\<rparr>)"

definition unfreezeWithdrawTx :: "int \<Rightarrow> time \<Rightarrow> string \<Rightarrow> string \<Rightarrow> string \<Rightarrow> int \<Rightarrow> unit dbtx" where
  "unfreezeWithdrawTx ch now user token amount withdrawID =
     bindT (liftT (parseWei amount)) (\<lambda>amt.
     applyLedgerTx ch now user token
       \<lparr>op_type = LedgerWithdrawUnfreeze, op_amount = amt, op_ref_type = ''withdraw'',
        op_ref_id = withdrawID, op_delta_avail = amt, op_delta_frozen = - amt\<rparr>)"

definition debitWithdrawTx :: "int \<Rightarrow> time \<Rightarrow> string \<Rightarrow> string \<Rightarrow> string \<Rightarrow> int \<Rightarrow> unit dbtx" where
  "debitWithdrawTx ch now user token amount withdrawID =
     bindT (liftT (parseWei amount)) (\<lambda>amt.
     applyLedgerTx ch now user token
       \<lparr>op_type = LedgerWithdrawDebit, op_amount = amt, op_ref_type = ''withdraw'',
        op_ref_id = withdrawID, op_delta_avail = weiZero, op_delta_frozen = - amt\<rparr>)"

definition TransferInternalTx ::
  "int \<Rightarrow> time \<Rightarrow> string \<Rightarrow> string \<Rightarrow> string \<Rightarrow> string \<Rightarrow> int \<Rightarrow> unit dbtx" where
  "TransferInternalTx ch now payer merchant token amount paymentID =
     bindT (liftT (parseWei amount)) (\<lambda>amt.
     bindT (applyLedgerTx ch now payer token
       \<lparr>op_type = LedgerPaymentDebit, op_amount = amt, op_ref_type = ''payment'',
        op_ref_id = paymentID, op_delta_avail = - amt, op_delta_frozen = weiZero\<rparr>) (\<lambda>_.
     applyLedgerTx ch now merchant token
       \<lparr>op_type = LedgerPaymentCredit, op_amount = amt, op_ref_type = ''payment'',
        op_ref_id = paymentID, op_delta_avail = amt, op_delta_frozen = weiZero\<rparr>))"

subsection \<open>Specification: balances, journal, invariant\<close>

definition acct_avail :: "int \<Rightarrow> string \<Rightarrow> string \<Rightarrow> db \<Rightarrow> int" where
  "acct_avail ch user token d = wei_val (fst (select_account ch user token d))"

definition acct_frozen :: "int \<Rightarrow> string \<Rightarrow> string \<Rightarrow> db \<Rightarrow> int" where
  "acct_frozen ch user token d = wei_val (snd (select_account ch user token d))"

definition acct_key :: "account_balance \<Rightarrow> int \<times> string \<times> string" where
  "acct_key r = (la_chain r, coll (la_user r), coll (la_token r))"

text \<open>What each entry type does to the available and the frozen side.\<close>

fun type_avail :: "ledger_type \<Rightarrow> int" where
  "type_avail LedgerDepositCredit = 1"
| "type_avail LedgerDepositReverse = - 1"
| "type_avail LedgerWithdrawFreeze = - 1"
| "type_avail LedgerWithdrawUnfreeze = 1"
| "type_avail LedgerWithdrawDebit = 0"
| "type_avail LedgerPaymentDebit = - 1"
| "type_avail LedgerPaymentCredit = 1"

fun type_frozen :: "ledger_type \<Rightarrow> int" where
  "type_frozen LedgerWithdrawFreeze = 1"
| "type_frozen LedgerWithdrawUnfreeze = - 1"
| "type_frozen LedgerWithdrawDebit = - 1"
| "type_frozen _ = 0"

fun type_ref :: "ledger_type \<Rightarrow> string" where
  "type_ref LedgerDepositCredit = ''deposit''"
| "type_ref LedgerDepositReverse = ''deposit''"
| "type_ref LedgerPaymentDebit = ''payment''"
| "type_ref LedgerPaymentCredit = ''payment''"
| "type_ref _ = ''withdraw''"

definition entry_match :: "int \<Rightarrow> string \<Rightarrow> string \<Rightarrow> ledger_entry_row \<Rightarrow> bool" where
  "entry_match ch user token e \<longleftrightarrow>
     ler_chain e = ch \<and> sql_eq (ler_user e) user \<and> sql_eq (ler_token e) token"

definition journal_avail :: "int \<Rightarrow> string \<Rightarrow> string \<Rightarrow> db \<Rightarrow> int" where
  "journal_avail ch user token d =
     sum_list (map (\<lambda>e. if entry_match ch user token e
       then type_avail (ler_type e) * wei_val (ler_amount e) else 0) (entries d))"

definition journal_frozen :: "int \<Rightarrow> string \<Rightarrow> string \<Rightarrow> db \<Rightarrow> int" where
  "journal_frozen ch user token d =
     sum_list (map (\<lambda>e. if entry_match ch user token e
       then type_frozen (ler_type e) * wei_val (ler_amount e) else 0) (entries d))"

definition accounts_ok :: "db \<Rightarrow> bool" where
  "accounts_ok d \<longleftrightarrow> distinct (map acct_key (accounts d)) \<and>
     list_all (\<lambda>r. is_wei (la_avail r) \<and> is_wei (la_frozen r)) (accounts d)"

definition refs_ok :: "db \<Rightarrow> bool" where
  "refs_ok d \<longleftrightarrow> list_all (\<lambda>e. ler_ref_type e = Some (type_ref (ler_type e)) \<and>
     ler_ref_id e \<noteq> None) (entries d)"

definition books_ok :: "db \<Rightarrow> bool" where
  "books_ok d \<longleftrightarrow> (\<forall>ch user token.
     acct_avail ch user token d = journal_avail ch user token d \<and>
     acct_frozen ch user token d = journal_frozen ch user token d)"

definition ledger_inv :: "db \<Rightarrow> bool" where
  "ledger_inv d \<longleftrightarrow> accounts_ok d \<and> refs_ok d \<and> books_ok d"

text \<open>The deltas of an operation are those its entry type stands for.\<close>

definition op_ok :: "ledger_op \<Rightarrow> bool" where
  "op_ok op \<longleftrightarrow> 0 \<le> op_amount op \<and> op_ref_type op = type_ref (op_type op) \<and>
     op_delta_avail op = type_avail (op_type op) * op_amount op \<and>
     op_delta_frozen op = type_frozen (op_type op) * op_amount op"

text \<open>The user liabilities of a token: available plus frozen over all accounts.\<close>

definition liab_row :: "int \<Rightarrow> string \<Rightarrow> account_balance \<Rightarrow> int" where
  "liab_row ch token r =
     (if la_chain r = ch \<and> sql_eq (la_token r) token
      then wei_val (la_avail r) + wei_val (la_frozen r) else 0)"

definition liabilities :: "int \<Rightarrow> string \<Rightarrow> db \<Rightarrow> int" where
  "liabilities ch token d = sum_list (map (liab_row ch token) (accounts d))"

text \<open>The part of a database the ledger lives in.\<close>

definition same_but_ledger :: "db \<Rightarrow> db \<Rightarrow> bool" where
  "same_but_ledger d d' \<longleftrightarrow>
     d' = d\<lparr>ctrs := (ctrs d)\<lparr>ai_entries := ai_entries (ctrs d')\<rparr>,
            accounts := accounts d', entries := entries d'\<rparr> \<and>
     ai_entries (ctrs d) \<le> ai_entries (ctrs d')"

subsection \<open>Account lookup\<close>

lemma acct_match_key:
  "acct_match ch user token r \<longleftrightarrow> acct_key r = (ch, coll user, coll token)"
  by (auto simp: acct_match_def acct_key_def sql_eq_def)

lemma acct_match_cong:
  "sql_eq u u' \<Longrightarrow> sql_eq t t' \<Longrightarrow> acct_match ch u t = acct_match ch u' t'"
  by (auto simp: acct_match_def sql_eq_def fun_eq_iff)

lemma entry_match_cong:
  "sql_eq u u' \<Longrightarrow> sql_eq t t' \<Longrightarrow> entry_match ch u t = entry_match ch u' t'"
  by (auto simp: entry_match_def sql_eq_def fun_eq_iff)

lemma select_account_cong:
  "sql_eq u u' \<Longrightarrow> sql_eq t t' \<Longrightarrow> select_account ch u t = select_account ch u' t'"
  by (simp add: select_account_def fun_eq_iff acct_match_cong)

lemma select_account_insert_entry [simp]:
  "select_account ch u t (insert_entry ch' now u' t' op av fr d) = select_account ch u t d"
  by (simp add: select_account_def insert_entry_def)

lemma select_account_upsert:
  "select_account ch u t (upsert_account ch' now u' t' av fr d) =
     (if ch = ch' \<and> sql_eq u u' \<and> sql_eq t t' then (av, fr) else select_account ch u t d)"
proof (cases "ch = ch' \<and> sql_eq u u' \<and> sql_eq t t'")
  case True
  then have ch: "ch = ch'" and eq: "acct_match ch' u t = acct_match ch' u' t'"
    by (simp_all add: acct_match_cong)
  have "List.find (acct_match ch' u' t') (accounts (upsert_account ch' now u' t' av fr d)) =
      Some (case List.find (acct_match ch' u' t') (accounts d) of
        None \<Rightarrow> \<lparr>la_chain = ch', la_user = u', la_token = t', la_avail = av, la_frozen = fr,
                 la_updated = now\<rparr>
      | Some r \<Rightarrow> r\<lparr>la_avail := av, la_frozen := fr, la_updated := now\<rparr>)"
    unfolding upsert_account_def
    by simp (rule find_upsert_same, auto simp: acct_match_def)
  then show ?thesis using True
    by (simp add: ch select_account_def eq split: option.splits)
next
  case False
  have "List.find (acct_match ch u t) (accounts (upsert_account ch' now u' t' av fr d)) =
      List.find (acct_match ch u t) (accounts d)"
    unfolding upsert_account_def using False
    by simp (rule find_upsert_other, auto simp: sql_eq_def acct_match_key acct_key_def)
  then show ?thesis using False by (auto simp: select_account_def)
qed

lemma accounts_okD:
  assumes "accounts_ok d"
  shows "is_wei (fst (select_account ch u t d))" "is_wei (snd (select_account ch u t d))"
  using assms
  by (auto simp: accounts_ok_def select_account_def list_all_iff is_wei_def
      split: option.splits dest!: find_SomeD)

lemma accounts_ok_upsert:
  assumes "accounts_ok d" "is_wei av" "is_wei fr"
  shows "accounts_ok (upsert_account ch now u t av fr d)"
proof -
  have "distinct (map acct_key (accounts (upsert_account ch now u t av fr d)))"
    using assms(1)
    by (auto simp: upsert_account_def accounts_ok_def map_upsert_where acct_key_def acct_match_key)
  moreover have "list_all (\<lambda>r. is_wei (la_avail r) \<and> is_wei (la_frozen r))
      (accounts (upsert_account ch now u t av fr d))"
    using assms by (auto simp: upsert_account_def accounts_ok_def list_all_iff
        dest!: set_upsert_where)
  ultimately show ?thesis by (simp add: accounts_ok_def)
qed

subsection \<open>The posting\<close>

text \<open>The new balances of a posting, and the database it leaves.\<close>

definition post_avail :: "int \<Rightarrow> string \<Rightarrow> string \<Rightarrow> ledger_op \<Rightarrow> db \<Rightarrow> int" where
  "post_avail ch user token op d = acct_avail ch user (normToken token) d + op_delta_avail op"

definition post_frozen :: "int \<Rightarrow> string \<Rightarrow> string \<Rightarrow> ledger_op \<Rightarrow> db \<Rightarrow> int" where
  "post_frozen ch user token op d = acct_frozen ch user (normToken token) d + op_delta_frozen op"

definition posted :: "int \<Rightarrow> time \<Rightarrow> string \<Rightarrow> string \<Rightarrow> ledger_op \<Rightarrow> db \<Rightarrow> db" where
  "posted ch now user token op d =
     (let av = weiString (Some (post_avail ch user token op d));
          fr = weiString (Some (post_frozen ch user token op d))
      in insert_entry ch now user (normToken token) op av fr
           (upsert_account ch now user (normToken token) av fr d))"

lemma applyLedgerTx_eq:
  assumes "accounts_ok d"
  shows "applyLedgerTx ch now user token op d =
    (if 0 \<le> post_avail ch user token op d \<and> 0 \<le> post_frozen ch user token op d
     then (Inr (), posted ch now user token op d) else (Inl ErrInsufficientBalance, d))"
proof -
  obtain a f where s: "select_account ch user (normToken token) d = (a, f)"
    by fastforce
  with accounts_okD [OF assms, of ch user "normToken token"]
  have p: "parseWei a = Inr (acct_avail ch user (normToken token) d)"
    "parseWei f = Inr (acct_frozen ch user (normToken token) d)"
    by (simp_all add: acct_avail_def acct_frozen_def is_wei_parse)
  show ?thesis
    by (simp add: applyLedgerTx_def Let_def s p weiAdd_def posted_def post_avail_def
        post_frozen_def bindT_apply)
qed

lemma applyLedgerTx_keeps_unless_ok:
  "applyLedgerTx ch now user token op d = (Inl e, d') \<Longrightarrow> d' = d"
  by (auto simp: applyLedgerTx_def Let_def bindT_apply
      split: prod.splits sum.splits if_splits)

lemma select_account_posted:
  "select_account ch u t (posted ch' now u' t' op d) =
     (if ch = ch' \<and> sql_eq u u' \<and> sql_eq t (normToken t')
      then (weiString (Some (post_avail ch' u' t' op d)), weiString (Some (post_frozen ch' u' t' op d)))
      else select_account ch u t d)"
  by (simp add: posted_def Let_def select_account_upsert)

lemma acct_avail_posted:
  assumes "0 \<le> post_avail ch' u' t' op d"
  shows "acct_avail ch u t (posted ch' now u' t' op d) =
    acct_avail ch u t d +
      (if ch = ch' \<and> sql_eq u u' \<and> sql_eq t (normToken t') then op_delta_avail op else 0)"
  using assms
  by (auto simp: acct_avail_def select_account_posted post_avail_def
      dest: select_account_cong [of u u' t "normToken t'" ch])

lemma acct_frozen_posted:
  assumes "0 \<le> post_frozen ch' u' t' op d"
  shows "acct_frozen ch u t (posted ch' now u' t' op d) =
    acct_frozen ch u t d +
      (if ch = ch' \<and> sql_eq u u' \<and> sql_eq t (normToken t') then op_delta_frozen op else 0)"
  using assms
  by (auto simp: acct_frozen_def select_account_posted post_frozen_def
      dest: select_account_cong [of u u' t "normToken t'" ch])

lemma entries_posted:
  "entries (posted ch now user token op d) = entries d @
     [\<lparr>ler_id = ai_entries (ctrs d), ler_chain = ch, ler_user = user,
       ler_token = normToken token, ler_type = op_type op,
       ler_amount = weiString (Some (op_amount op)),
       ler_ref_type = (if op_ref_type op \<noteq> [] then Some (op_ref_type op) else None),
       ler_ref_id = (if op_ref_type op \<noteq> [] then Some (op_ref_id op) else None),
       ler_avail_after = weiString (Some (post_avail ch user token op d)),
       ler_frozen_after = weiString (Some (post_frozen ch user token op d)),
       ler_created = now\<rparr>]"
  by (simp add: posted_def Let_def insert_entry_def upsert_account_def)

lemma same_but_ledger_posted: "same_but_ledger d (posted ch now user token op d)"
  by (simp add: same_but_ledger_def posted_def Let_def insert_entry_def upsert_account_def)

lemma accounts_ok_posted:
  assumes "accounts_ok d" "0 \<le> post_avail ch user token op d" "0 \<le> post_frozen ch user token op d"
  shows "accounts_ok (posted ch now user token op d)"
proof -
  let ?av = "weiString (Some (post_avail ch user token op d))"
  let ?fr = "weiString (Some (post_frozen ch user token op d))"
  have "accounts_ok (upsert_account ch now user (normToken token) ?av ?fr d)"
    using assms by (intro accounts_ok_upsert) simp_all
  then show ?thesis
    by (simp add: posted_def Let_def accounts_ok_def insert_entry_def)
qed

lemma type_ref_not_Nil [simp]: "type_ref ty \<noteq> []"
  by (cases ty) simp_all

lemma ledger_inv_posted:
  assumes inv: "ledger_inv d" and op: "op_ok op"
    and nn: "0 \<le> post_avail ch user token op d" "0 \<le> post_frozen ch user token op d"
  shows "ledger_inv (posted ch now user token op d)"
proof -
  let ?d = "posted ch now user token op d"
  have "accounts_ok ?d"
    using inv nn by (simp add: ledger_inv_def accounts_ok_posted)
  moreover have "refs_ok ?d"
    using inv op by (simp add: ledger_inv_def refs_ok_def entries_posted op_ok_def)
  moreover have "books_ok ?d"
    using inv op nn
    by (auto simp: ledger_inv_def books_ok_def acct_avail_posted acct_frozen_posted
        journal_avail_def journal_frozen_def entries_posted op_ok_def entry_match_def
        dest: sql_eq_sym)
  ultimately show ?thesis by (simp add: ledger_inv_def)
qed

lemma applyLedgerTx_inv:
  assumes "ledger_inv d" "op_ok op" "applyLedgerTx ch now user token op d = (r, d')"
  shows "ledger_inv d'"
proof -
  have "accounts_ok d" using assms(1) by (simp add: ledger_inv_def)
  with assms show ?thesis
    by (auto simp: applyLedgerTx_eq ledger_inv_posted split: if_splits)
qed

lemma liabilities_posted:
  assumes "accounts_ok d" "0 \<le> post_avail ch user token op d" "0 \<le> post_frozen ch user token op d"
  shows "liabilities ch' t (posted ch now user token op d) = liabilities ch' t d +
    (if ch' = ch \<and> sql_eq t (normToken token) then op_delta_avail op + op_delta_frozen op else 0)"
proof -
  let ?p = "acct_match ch user (normToken token)"
  let ?in = "ch' = ch \<and> sql_eq t (normToken token)"

  have mt: "sql_eq (normToken token) t \<longleftrightarrow> sql_eq t (normToken token)"
    by (auto dest: sql_eq_sym)
  have row: "liab_row ch' t r = (if ?in then wei_val (la_avail r) + wei_val (la_frozen r) else 0)"
    if "?p r" for r
    using that by (auto simp: liab_row_def acct_match_def sql_eq_def)
  show ?thesis
  proof (cases "List.find ?p (accounts d)")
    case None
    with assms(2,3) show ?thesis
      by (simp add: liabilities_def posted_def Let_def insert_entry_def upsert_account_def
          sum_list_upsert_where liab_row_def mt post_avail_def post_frozen_def acct_avail_def
          acct_frozen_def select_account_def)
  next
    case (Some r)
    have p: "?p r" using Some by (simp add: find_SomeD)
    then have p': "?p (r\<lparr>la_avail := av, la_frozen := fr, la_updated := now\<rparr>)" for av fr
      by (simp add: acct_match_def)
    show ?thesis using Some assms(2,3)
      by (simp add: liabilities_def posted_def Let_def insert_entry_def upsert_account_def
          sum_list_upsert_where row [OF p] row [OF p'] post_avail_def post_frozen_def
          acct_avail_def acct_frozen_def select_account_def)
  qed
qed

subsection \<open>The contract the postings share\<close>

text \<open>
  A posting of entry type \<open>ty\<close> parses its amount and then applies the deltas that
  \<open>ty\<close> stands for. What a client may rely on follows from this contract alone.
\<close>

definition std_op :: "ledger_type \<Rightarrow> int \<Rightarrow> int \<Rightarrow> ledger_op" where
  "std_op ty amt ref =
     \<lparr>op_type = ty, op_amount = amt, op_ref_type = type_ref ty, op_ref_id = ref,
      op_delta_avail = type_avail ty * amt, op_delta_frozen = type_frozen ty * amt\<rparr>"

lemma std_op_ok [simp]: "0 \<le> amt \<Longrightarrow> op_ok (std_op ty amt ref)"
  by (simp add: op_ok_def std_op_def)

lemma std_op_sel [simp]:
  "op_type (std_op ty amt ref) = ty" "op_amount (std_op ty amt ref) = amt"
  "op_ref_type (std_op ty amt ref) = type_ref ty" "op_ref_id (std_op ty amt ref) = ref"
  "op_delta_avail (std_op ty amt ref) = type_avail ty * amt"
  "op_delta_frozen (std_op ty amt ref) = type_frozen ty * amt"
  by (simp_all add: std_op_def)

definition can_post :: "int \<Rightarrow> string \<Rightarrow> string \<Rightarrow> ledger_type \<Rightarrow> int \<Rightarrow> db \<Rightarrow> bool" where
  "can_post ch user token ty amt d \<longleftrightarrow>
     0 \<le> acct_avail ch user (normToken token) d + type_avail ty * amt \<and>
     0 \<le> acct_frozen ch user (normToken token) d + type_frozen ty * amt"

lemma applyLedgerTx_std:
  assumes "accounts_ok d"
  shows "applyLedgerTx ch now user token (std_op ty amt ref) d =
    (if can_post ch user token ty amt d then (Inr (), posted ch now user token (std_op ty amt ref) d)
     else (Inl ErrInsufficientBalance, d))"
  using assms by (simp add: applyLedgerTx_eq can_post_def post_avail_def post_frozen_def)

locale posting =
  fixes post :: "int \<Rightarrow> time \<Rightarrow> string \<Rightarrow> string \<Rightarrow> string \<Rightarrow> int \<Rightarrow> unit dbtx"
    and ty :: ledger_type
  assumes post_eq: "post ch now user token amount ref =
    bindT (liftT (parseWei amount)) (\<lambda>amt. applyLedgerTx ch now user token (std_op ty amt ref))"
begin

lemma post_cases:
  assumes "accounts_ok d"
  shows "post ch now user token amount ref d =
    (case parseWei amount of
       Inl e \<Rightarrow> (Inl e, d)
     | Inr amt \<Rightarrow>
         if can_post ch user token ty amt d
         then (Inr (), posted ch now user token (std_op ty amt ref) d)
         else (Inl ErrInsufficientBalance, d))"
  using assms by (simp add: post_eq applyLedgerTx_std bindT_apply split: sum.split)

lemma post_Inl_same: "post ch now user token amount ref d = (Inl e, d') \<Longrightarrow> d' = d"
  by (auto simp: post_eq bindT_apply dest: applyLedgerTx_keeps_unless_ok split: sum.splits)

lemma post_okE:
  assumes "accounts_ok d" "post ch now user token amount ref d = (Inr u, d')"
  obtains amt where "parseWei amount = Inr amt" "0 \<le> amt" "can_post ch user token ty amt d"
    "d' = posted ch now user token (std_op ty amt ref) d"
  using assms by (auto simp: post_cases parseWei_nonneg split: sum.splits if_splits)

lemma post_inv:
  assumes "ledger_inv d" "post ch now user token amount ref d = (r, d')"
  shows "ledger_inv d'"
proof (cases "parseWei amount")
  case (Inl e)
  with assms show ?thesis by (simp add: post_eq)
next
  case (Inr amt)
  then have "op_ok (std_op ty amt ref)" by (simp add: parseWei_nonneg)
  with assms Inr show ?thesis by (auto simp: post_eq intro: applyLedgerTx_inv)
qed

lemma post_frame:
  assumes "accounts_ok d" "post ch now user token amount ref d = (r, d')"
  shows "same_but_ledger d d'"
  using assms
  by (auto simp: post_cases same_but_ledger_posted split: sum.splits if_splits)
    (simp_all add: same_but_ledger_def)

lemma post_balances:
  assumes "accounts_ok d" "post ch now user token amount ref d = (Inr u, d')"
  shows "acct_avail c v t d' = acct_avail c v t d +
      (if c = ch \<and> sql_eq v user \<and> sql_eq t (normToken token)
       then type_avail ty * wei_val amount else 0)" (is ?A)
    and "acct_frozen c v t d' = acct_frozen c v t d +
      (if c = ch \<and> sql_eq v user \<and> sql_eq t (normToken token)
       then type_frozen ty * wei_val amount else 0)" (is ?F)
proof -
  obtain amt where *: "parseWei amount = Inr amt" "can_post ch user token ty amt d"
    "d' = posted ch now user token (std_op ty amt ref) d"
    using assms by (rule post_okE)
  then have nn: "0 \<le> post_avail ch user token (std_op ty amt ref) d"
    "0 \<le> post_frozen ch user token (std_op ty amt ref) d" and v: "wei_val amount = amt"
    by (simp_all add: can_post_def post_avail_def post_frozen_def wei_val_def)
  show ?A ?F
    by (simp_all add: * acct_avail_posted [OF nn(1)] acct_frozen_posted [OF nn(2)] v)
qed

lemma post_liabilities:
  assumes "accounts_ok d" "post ch now user token amount ref d = (Inr u, d')"
  shows "liabilities c t d' = liabilities c t d +
    (if c = ch \<and> sql_eq t (normToken token)
     then (type_avail ty + type_frozen ty) * wei_val amount else 0)"
proof -
  obtain amt where *: "parseWei amount = Inr amt" "can_post ch user token ty amt d"
    "d' = posted ch now user token (std_op ty amt ref) d"
    using assms by (rule post_okE)
  then have nn: "0 \<le> post_avail ch user token (std_op ty amt ref) d"
    "0 \<le> post_frozen ch user token (std_op ty amt ref) d"
    by (simp_all add: can_post_def post_avail_def post_frozen_def)
  show ?thesis
    by (simp add: * liabilities_posted [OF assms(1) nn] wei_val_def distrib_right)
qed

end

interpretation credit: posting creditDepositTx LedgerDepositCredit
  by unfold_locales (simp add: creditDepositTx_def std_op_def weiZero_def)

interpretation reverse: posting reverseDepositTx LedgerDepositReverse
  by unfold_locales (simp add: reverseDepositTx_def std_op_def weiZero_def)

interpretation freeze: posting freezeWithdrawTx LedgerWithdrawFreeze
  by unfold_locales (simp add: freezeWithdrawTx_def std_op_def weiZero_def)

interpretation unfreeze: posting unfreezeWithdrawTx LedgerWithdrawUnfreeze
  by unfold_locales (simp add: unfreezeWithdrawTx_def std_op_def weiZero_def)

interpretation debit: posting debitWithdrawTx LedgerWithdrawDebit
  by unfold_locales (simp add: debitWithdrawTx_def std_op_def weiZero_def)

text \<open>A payment is a debit posting followed by a credit posting.\<close>

definition paymentDebitTx :: "int \<Rightarrow> time \<Rightarrow> string \<Rightarrow> string \<Rightarrow> string \<Rightarrow> int \<Rightarrow> unit dbtx" where
  "paymentDebitTx ch now user token amount ref =
     bindT (liftT (parseWei amount)) (\<lambda>amt.
     applyLedgerTx ch now user token (std_op LedgerPaymentDebit amt ref))"

definition paymentCreditTx :: "int \<Rightarrow> time \<Rightarrow> string \<Rightarrow> string \<Rightarrow> string \<Rightarrow> int \<Rightarrow> unit dbtx" where
  "paymentCreditTx ch now user token amount ref =
     bindT (liftT (parseWei amount)) (\<lambda>amt.
     applyLedgerTx ch now user token (std_op LedgerPaymentCredit amt ref))"

interpretation pdebit: posting paymentDebitTx LedgerPaymentDebit
  by unfold_locales (simp add: paymentDebitTx_def)

interpretation pcredit: posting paymentCreditTx LedgerPaymentCredit
  by unfold_locales (simp add: paymentCreditTx_def)

lemma TransferInternalTx_eq:
  "TransferInternalTx ch now payer merchant token amount ref =
     bindT (paymentDebitTx ch now payer token amount ref) (\<lambda>_.
       paymentCreditTx ch now merchant token amount ref)"
  by (cases "parseWei amount")
    (simp_all add: TransferInternalTx_def paymentDebitTx_def paymentCreditTx_def std_op_def
      weiZero_def fun_eq_iff bindT_apply)

lemma TransferInternalTx_okE:
  assumes "TransferInternalTx ch now payer merchant token amount ref d = (Inr u, d')"
  obtains u1 d1 u2 where "paymentDebitTx ch now payer token amount ref d = (Inr u1, d1)"
    "paymentCreditTx ch now merchant token amount ref d1 = (Inr u2, d')"
  using assms unfolding TransferInternalTx_eq by (blast elim: bindT_InrE)

lemma TransferInternalTx_inv:
  assumes "ledger_inv d" "TransferInternalTx ch now payer merchant token amount ref d = (r, d')"
  shows "ledger_inv d'"
  by (rule bindT_keeps [where P = ledger_inv, OF _ _ assms(2) [unfolded TransferInternalTx_eq]])
    (auto intro: pdebit.post_inv pcredit.post_inv assms(1))

lemma ledger_inv_accounts_ok [simp]: "ledger_inv d \<Longrightarrow> accounts_ok d"
  by (simp add: ledger_inv_def)

lemma TransferInternalTx_balances:
  assumes "ledger_inv d" "TransferInternalTx ch now payer merchant token amount pid d = (Inr u, d')"
    "\<not> sql_eq payer merchant"
  shows "acct_avail ch payer (normToken token) d' = acct_avail ch payer (normToken token) d - wei_val amount"
    "acct_avail ch merchant (normToken token) d' = acct_avail ch merchant (normToken token) d + wei_val amount"
    "liabilities c t d' = liabilities c t d" "acct_frozen c v t d' = acct_frozen c v t d"
proof -
  obtain u1 d1 u2 where d1: "paymentDebitTx ch now payer token amount pid d = (Inr u1, d1)"
    and d2: "paymentCreditTx ch now merchant token amount pid d1 = (Inr u2, d')"
    using assms(2) by (rule TransferInternalTx_okE)
  have ok: "accounts_ok d" "accounts_ok d1" using assms(1) pdebit.post_inv [OF assms(1) d1] by simp_all
  have ns: "\<not> sql_eq merchant payer" using assms(3) by (auto dest: sql_eq_sym)
  note facts = pdebit.post_balances [OF ok(1) d1] pcredit.post_balances [OF ok(2) d2] pdebit.post_liabilities [OF ok(1) d1]
    pcredit.post_liabilities [OF ok(2) d2]
  show "acct_avail ch payer (normToken token) d' = acct_avail ch payer (normToken token) d - wei_val amount"
    "acct_avail ch merchant (normToken token) d' = acct_avail ch merchant (normToken token) d + wei_val amount"
    "liabilities c t d' = liabilities c t d" "acct_frozen c v t d' = acct_frozen c v t d"
    using facts assms(3) ns by simp_all
qed

text \<open>Which parts of the database the ledger's facts look at.\<close>

lemma ledger_inv_cong:
  assumes "accounts d' = accounts d" "entries d' = entries d"
  shows "ledger_inv d' \<longleftrightarrow> ledger_inv d"
  using assms
  by (simp add: ledger_inv_def accounts_ok_def refs_ok_def books_ok_def acct_avail_def
      acct_frozen_def select_account_def journal_avail_def journal_frozen_def)

lemma acct_cong:
  assumes "accounts d' = accounts d"
  shows "acct_avail ch u t d' = acct_avail ch u t d" "acct_frozen ch u t d' = acct_frozen ch u t d"
    "liabilities ch t d' = liabilities ch t d"
  using assms by (simp_all add: acct_avail_def acct_frozen_def select_account_def liabilities_def)

lemma accounts_ok_cong: "accounts d' = accounts d \<Longrightarrow> accounts_ok d' = accounts_ok d"
  by (simp add: accounts_ok_def)

lemma ledger_inv_empty [simp]: "ledger_inv empty_db"
  by (simp add: ledger_inv_def accounts_ok_def refs_ok_def books_ok_def empty_db_def
      acct_avail_def acct_frozen_def select_account_def journal_avail_def journal_frozen_def)

end
