(* ===== verification/Exchange_Store.thy ===== *)
theory Exchange_Store
  imports Exchange_Ledger
begin

text \<open>
  \<open>internal/exchange/store.go\<close>: the statements on the exchange's tables. A method
  that reads is a function of the database it reads, because the service passes some of
  them the transaction and some the committed database; a method that writes is a
  statement sequence. The first argument is the store's \<open>chainID\<close>.
\<close>

subsection \<open>Go structs\<close>

record ledger_entry =
  le_id :: int
  le_chain :: int
  le_user :: string
  le_token :: string
  le_type :: ledger_type
  le_amount :: string
  le_ref_type :: string
  le_ref_id :: int
  le_avail_after :: string
  le_frozen_after :: string
  le_created :: time

record withdraw_request =
  w_id :: int
  w_chain :: int
  w_user :: string
  w_token :: string
  w_to :: string
  w_amount :: string
  w_status :: withdraw_status
  w_from_wallet :: string
  w_tx_hash :: string
  w_reviewer :: string
  w_reviewed_at :: "time option"
  w_reject_reason :: string
  w_idem_key :: string
  w_created :: time
  w_updated :: time

record create_withdraw_params =
  cw_user :: string
  cw_token :: string
  cw_to :: string
  cw_amount :: string
  cw_idem_key :: string

record capture_deposit_params =
  cd_user :: string
  cd_address :: string
  cd_token :: string
  cd_amount :: string
  cd_tx_hash :: string
  cd_log_index :: nat
  cd_block :: u64

text \<open>The optional columns of \<open>updateWithdrawStatusIf\<close>'s \<open>fields\<close> map.\<close>

datatype withdraw_field =
    SetReviewer string
  | SetReviewedAt time
  | SetFromWallet string
  | SetTxHash string

subsection \<open>Errors\<close>

definition isDup :: "go_error option \<Rightarrow> bool" where
  "isDup err = (case err of
     None \<Rightarrow> False
   | Some e \<Rightarrow> str_contains (err_text e) ''Duplicate'' \<or> str_contains (err_text e) ''1062'')"

subsection \<open>Ledger reads\<close>

definition GetBalance :: "int \<Rightarrow> time \<Rightarrow> string \<Rightarrow> string \<Rightarrow> db \<Rightarrow> account_balance" where
  "GetBalance ch now user token d =
     (case List.find (acct_match ch user (normToken token)) (accounts d) of
        None \<Rightarrow> \<lparr>la_chain = ch, la_user = user, la_token = normToken token,
                  la_avail = ''0'', la_frozen = ''0'', la_updated = now\<rparr>
      | Some r \<Rightarrow> r)"

definition ListBalances :: "int \<Rightarrow> string \<Rightarrow> db \<Rightarrow> account_balance list" where
  "ListBalances ch user d =
     sort_key la_token (filter (\<lambda>r. la_chain r = ch \<and> sql_eq (la_user r) user) (accounts d))"

definition scanEntry :: "ledger_entry_row \<Rightarrow> ledger_entry" where
  "scanEntry r = \<lparr>le_id = ler_id r, le_chain = ler_chain r, le_user = ler_user r,
     le_token = ler_token r, le_type = ler_type r, le_amount = ler_amount r,
     le_ref_type = fromNull (ler_ref_type r),
     le_ref_id = (case ler_ref_id r of None \<Rightarrow> 0 | Some i \<Rightarrow> i),
     le_avail_after = ler_avail_after r, le_frozen_after = ler_frozen_after r,
     le_created = ler_created r\<rparr>"

definition ListEntries :: "int \<Rightarrow> string \<Rightarrow> int \<Rightarrow> db \<Rightarrow> ledger_entry list" where
  "ListEntries ch user limit d =
     map scanEntry (sql_limit (clamp_limit 500 100 limit)
       (rev (sort_key ler_id (filter (\<lambda>r. ler_chain r = ch \<and> sql_eq (ler_user r) user) (entries d)))))"

definition hasLedgerEntryTx :: "int \<Rightarrow> int \<Rightarrow> ledger_type \<Rightarrow> db \<Rightarrow> bool" where
  "hasLedgerEntryTx ch depositID entryType d =
     (List.find (\<lambda>e. ler_chain e = ch \<and> ler_ref_type e = Some ''deposit'' \<and>
        ler_ref_id e = Some depositID \<and> ler_type e = entryType) (entries d) \<noteq> None)"

definition cast_dec65 :: "string \<Rightarrow> int" where
  "cast_dec65 s = min (wei_val s) (10 ^ 65 - 1)"

definition SumUserLiabilities :: "int \<Rightarrow> string \<Rightarrow> db \<Rightarrow> string" where
  "SumUserLiabilities ch token d =
     int_str (sum_list (map (\<lambda>r. cast_dec65 (la_avail r) + cast_dec65 (la_frozen r))
       (filter (\<lambda>r. la_chain r = ch \<and> sql_eq (la_token r) (normToken token)) (accounts d))))"

subsection \<open>Deposits\<close>

definition deposit_match :: "int \<Rightarrow> string \<Rightarrow> nat \<Rightarrow> deposit \<Rightarrow> bool" where
  "deposit_match ch txHash logIndex r \<longleftrightarrow>
     dep_chain r = ch \<and> sql_eq (dep_tx_hash r) txHash \<and> dep_log_index r = logIndex"

definition InsertDepositTx :: "int \<Rightarrow> time \<Rightarrow> capture_deposit_params \<Rightarrow> int dbtx" where
  "InsertDepositTx ch now p = (\<lambda>d.
     let newid = ai_deposits (ctrs d);
         d' = d\<lparr>ctrs := (ctrs d)\<lparr>ai_deposits := newid + 1\<rparr>\<rparr>;
         r = \<lparr>dep_id = newid, dep_chain = ch, dep_user = cd_user p,
              dep_address = to_lower (cd_address p), dep_token = normToken (cd_token p),
              dep_amount = cd_amount p, dep_tx_hash = to_lower (cd_tx_hash p),
              dep_log_index = cd_log_index p, dep_block = cd_block p,
              dep_status = DepositStatusPending, dep_credited_at = None, dep_created = now\<rparr>;
         err = (if List.find (deposit_match ch (to_lower (cd_tx_hash p)) (cd_log_index p)) (deposits d) \<noteq> None
                then Some (ErrDupEntry ''uk_deposit'') else None)
     in case err of
          None \<Rightarrow> (Inr newid, d'\<lparr>deposits := deposits d @ [r]\<rparr>)
        | Some e \<Rightarrow> if isDup err then (Inr 0, d') else (Inl e, d'))"

text \<open>When the \<open>UPDATE\<close> hits no row, the method reads the status only to choose
  between two returns of nil.\<close>

definition MarkDepositCreditedTx :: "int \<Rightarrow> time \<Rightarrow> int \<Rightarrow> unit dbtx" where
  "MarkDepositCreditedTx ch now depositID =
     modT (\<lambda>d. d\<lparr>deposits := upd_where
       (\<lambda>r. dep_id r = depositID \<and> dep_chain r = ch \<and>
            dep_status r \<in> {DepositStatusPending, DepositStatusOrphaned})
       (\<lambda>r. r\<lparr>dep_status := DepositStatusCredited, dep_credited_at := Some now\<rparr>) (deposits d)\<rparr>)"

definition resetDepositForRecreditTx :: "int \<Rightarrow> int \<Rightarrow> u64 \<Rightarrow> unit dbtx" where
  "resetDepositForRecreditTx ch depositID blockNum =
     modT (\<lambda>d. d\<lparr>deposits := upd_where
       (\<lambda>r. dep_id r = depositID \<and> dep_chain r = ch \<and> dep_status r = DepositStatusOrphaned)
       (\<lambda>r. r\<lparr>dep_status := DepositStatusPending, dep_block := blockNum, dep_credited_at := None\<rparr>)
       (deposits d)\<rparr>)"

definition getDepositByKey :: "int \<Rightarrow> string \<Rightarrow> nat \<Rightarrow> db \<Rightarrow> deposit res" where
  "getDepositByKey ch txHash logIndex d =
     (case List.find (deposit_match ch (to_lower txHash) logIndex) (deposits d) of
        None \<Rightarrow> Inl ErrNoRows | Some r \<Rightarrow> Inr r)"

definition GetDepositByKeyTx :: "int \<Rightarrow> string \<Rightarrow> nat \<Rightarrow> deposit dbtx" where
  "GetDepositByKeyTx ch txHash logIndex = readT (getDepositByKey ch txHash logIndex)"

definition ListDeposits :: "int \<Rightarrow> string \<Rightarrow> int \<Rightarrow> db \<Rightarrow> deposit list" where
  "ListDeposits ch user limit d =
     sql_limit (clamp_limit 500 100 limit)
       (rev (sort_key dep_id (filter (\<lambda>r. dep_chain r = ch \<and>
          (user \<noteq> [] \<longrightarrow> sql_eq (dep_user r) user)) (deposits d))))"

definition orphan_where :: "int \<Rightarrow> u64 \<Rightarrow> deposit \<Rightarrow> bool" where
  "orphan_where ch fromBlock r \<longleftrightarrow> dep_chain r = ch \<and> fromBlock \<le> dep_block r \<and>
     dep_status r \<in> {DepositStatusPending, DepositStatusCredited}"

definition OrphanDepositsFromBlockTx :: "int \<Rightarrow> u64 \<Rightarrow> (deposit list) dbtx" where
  "OrphanDepositsFromBlockTx ch fromBlock =
     bindT (getT (\<lambda>d. filter (orphan_where ch fromBlock) (deposits d))) (\<lambda>out.
     bindT (modT (\<lambda>d. d\<lparr>deposits := upd_where (orphan_where ch fromBlock)
              (\<lambda>r. r\<lparr>dep_status := DepositStatusOrphaned\<rparr>) (deposits d)\<rparr>)) (\<lambda>_.
     retT out))"

subsection \<open>Withdraw requests\<close>

definition scanWithdrawRow :: "withdraw_row \<Rightarrow> withdraw_request" where
  "scanWithdrawRow r = \<lparr>w_id = wr_id r, w_chain = wr_chain r, w_user = wr_user r,
     w_token = wr_token r, w_to = wr_to r, w_amount = wr_amount r, w_status = wr_status r,
     w_from_wallet = fromNull (wr_from_wallet r), w_tx_hash = fromNull (wr_tx_hash r),
     w_reviewer = fromNull (wr_reviewer r), w_reviewed_at = wr_reviewed_at r,
     w_reject_reason = fromNull (wr_reject_reason r), w_idem_key = fromNull (wr_idem_key r),
     w_created = wr_created r, w_updated = wr_updated r\<rparr>"

definition withdraw_select :: "int \<Rightarrow> (withdraw_row \<Rightarrow> bool) \<Rightarrow> db \<Rightarrow> withdraw_request res" where
  "withdraw_select ch p d =
     (case List.find (\<lambda>r. wr_chain r = ch \<and> p r) (withdraws d) of
        None \<Rightarrow> Inl ErrNoRows | Some r \<Rightarrow> Inr (scanWithdrawRow r))"

definition null_eq :: "string option \<Rightarrow> string \<Rightarrow> bool" where
  "null_eq c s = (case c of None \<Rightarrow> False | Some v \<Rightarrow> sql_eq v s)"

definition GetWithdraw :: "int \<Rightarrow> int \<Rightarrow> db \<Rightarrow> withdraw_request res" where
  "GetWithdraw ch i = withdraw_select ch (\<lambda>r. wr_id r = i)"

definition GetWithdrawByIdempotency :: "int \<Rightarrow> string \<Rightarrow> db \<Rightarrow> withdraw_request res" where
  "GetWithdrawByIdempotency ch key = withdraw_select ch (\<lambda>r. null_eq (wr_idem_key r) key)"

definition GetWithdrawByIdempotencyTx :: "int \<Rightarrow> string \<Rightarrow> withdraw_request dbtx" where
  "GetWithdrawByIdempotencyTx ch key =
     readT (withdraw_select ch (\<lambda>r. null_eq (wr_idem_key r) key))"

definition GetWithdrawByTxHash :: "int \<Rightarrow> string \<Rightarrow> db \<Rightarrow> withdraw_request res" where
  "GetWithdrawByTxHash ch txHash =
     withdraw_select ch (\<lambda>r. null_eq (wr_tx_hash r) (to_lower txHash))"

text \<open>The \<open>INSERT INTO withdraw_requests\<close> statement: \<open>LastInsertId\<close>, or the
  duplicate-key error of \<open>uk_withdraw_idem\<close>.\<close>

definition insert_withdraw_stmt ::
  "int \<Rightarrow> time \<Rightarrow> create_withdraw_params \<Rightarrow> withdraw_status \<Rightarrow> int dbtx" where
  "insert_withdraw_stmt ch now p status = (\<lambda>d.
     let newid = ai_withdraws (ctrs d);
         d' = d\<lparr>ctrs := (ctrs d)\<lparr>ai_withdraws := newid + 1\<rparr>\<rparr>;
         r = \<lparr>wr_id = newid, wr_chain = ch, wr_user = cw_user p, wr_token = normToken (cw_token p),
              wr_to = to_lower (cw_to p), wr_amount = cw_amount p, wr_status = status,
              wr_from_wallet = None, wr_tx_hash = None, wr_reviewer = None, wr_reviewed_at = None,
              wr_reject_reason = None, wr_idem_key = nullStr (cw_idem_key p),
              wr_created = now, wr_updated = now\<rparr>
     in if cw_idem_key p \<noteq> [] \<and>
           List.find (\<lambda>r. wr_chain r = ch \<and> null_eq (wr_idem_key r) (cw_idem_key p)) (withdraws d) \<noteq> None
        then (Inl (ErrDupEntry ''uk_withdraw_idem''), d')
        else (Inr newid, d'\<lparr>withdraws := withdraws d @ [r]\<rparr>))"

definition InsertWithdraw ::
  "int \<Rightarrow> time \<Rightarrow> create_withdraw_params \<Rightarrow> withdraw_status \<Rightarrow> withdraw_request dbtx" where
  "InsertWithdraw ch now p status = (\<lambda>d.
     case insert_withdraw_stmt ch now p status d of
       (Inl e, d') \<Rightarrow>
         if isDup (Some e) then (GetWithdrawByIdempotency ch (cw_idem_key p) d', d') else (Inl e, d')
     | (Inr i, d') \<Rightarrow> (GetWithdraw ch i d', d'))"

fun withdraw_status_str :: "withdraw_status \<Rightarrow> string" where
  "withdraw_status_str WithdrawStatusPendingReview = ''pending_review''"
| "withdraw_status_str WithdrawStatusApproved = ''approved''"
| "withdraw_status_str WithdrawStatusRejected = ''rejected''"
| "withdraw_status_str WithdrawStatusBroadcasting = ''broadcasting''"
| "withdraw_status_str WithdrawStatusConfirmed = ''confirmed''"
| "withdraw_status_str WithdrawStatusFailed = ''failed''"
| "withdraw_status_str WithdrawStatusCancelled = ''cancelled''"

definition ListWithdraws :: "int \<Rightarrow> string \<Rightarrow> string \<Rightarrow> int \<Rightarrow> db \<Rightarrow> withdraw_request list" where
  "ListWithdraws ch user status limit d =
     map scanWithdrawRow (sql_limit (clamp_limit 500 100 limit)
       (rev (sort_key wr_id (filter (\<lambda>r. wr_chain r = ch \<and>
          (user \<noteq> [] \<longrightarrow> sql_eq (wr_user r) user) \<and>
          (status \<noteq> [] \<longrightarrow> sql_eq (withdraw_status_str (wr_status r)) status)) (withdraws d)))))"

fun apply_field :: "withdraw_field \<Rightarrow> withdraw_row \<Rightarrow> withdraw_row" where
  "apply_field (SetReviewer s) r = r\<lparr>wr_reviewer := Some s\<rparr>"
| "apply_field (SetReviewedAt t) r = r\<lparr>wr_reviewed_at := Some t\<rparr>"
| "apply_field (SetFromWallet s) r = r\<lparr>wr_from_wallet := Some s\<rparr>"
| "apply_field (SetTxHash s) r = r\<lparr>wr_tx_hash := Some s\<rparr>"

definition withdraw_set ::
  "withdraw_status \<Rightarrow> time \<Rightarrow> withdraw_field list \<Rightarrow> withdraw_row \<Rightarrow> withdraw_row" where
  "withdraw_set newStatus now flds r =
     fold apply_field flds (r\<lparr>wr_status := newStatus, wr_updated := now\<rparr>)"

definition withdraw_where :: "int \<Rightarrow> int \<Rightarrow> withdraw_status option \<Rightarrow> withdraw_row \<Rightarrow> bool" where
  "withdraw_where ch i expect r \<longleftrightarrow> wr_chain r = ch \<and> wr_id r = i \<and>
     (case expect of None \<Rightarrow> True | Some st \<Rightarrow> wr_status r = st)"

definition updateWithdrawStatusIf ::
  "int \<Rightarrow> time \<Rightarrow> int \<Rightarrow> withdraw_status option \<Rightarrow> withdraw_status \<Rightarrow> withdraw_field list \<Rightarrow> bool dbtx" where
  "updateWithdrawStatusIf ch now i expect newStatus flds = (\<lambda>d.
     (Inr (0 < rows_affected (withdraw_where ch i expect) (withdraw_set newStatus now flds) (withdraws d)),
      d\<lparr>withdraws := upd_where (withdraw_where ch i expect) (withdraw_set newStatus now flds) (withdraws d)\<rparr>))"

definition updateWithdrawStatus ::
  "int \<Rightarrow> time \<Rightarrow> int \<Rightarrow> withdraw_status \<Rightarrow> withdraw_status option \<Rightarrow> withdraw_field list \<Rightarrow> unit dbtx" where
  "updateWithdrawStatus ch now i status expect flds =
     bindT (updateWithdrawStatusIf ch now i expect status flds) (\<lambda>ok.
     if expect \<noteq> None \<and> \<not> ok then failT ErrInvalidWithdrawState else retT ())"

definition UpdateWithdrawStatus ::
  "int \<Rightarrow> time \<Rightarrow> int \<Rightarrow> withdraw_status \<Rightarrow> withdraw_field list \<Rightarrow> unit dbtx" where
  "UpdateWithdrawStatus ch now i status flds = updateWithdrawStatus ch now i status None flds"

definition UpdateWithdrawStatusIf ::
  "int \<Rightarrow> time \<Rightarrow> int \<Rightarrow> withdraw_status \<Rightarrow> withdraw_status \<Rightarrow> withdraw_field list \<Rightarrow> bool dbtx" where
  "UpdateWithdrawStatusIf ch now i expect newStatus flds =
     updateWithdrawStatusIf ch now i (Some expect) newStatus flds"

definition FailWithdrawAndUnfreezeTx ::
  "int \<Rightarrow> time \<Rightarrow> withdraw_request \<Rightarrow> string \<Rightarrow> unit dbtx" where
  "FailWithdrawAndUnfreezeTx ch now w reason =
     bindT (getT (hasLedgerEntryTx ch (w_id w) LedgerWithdrawUnfreeze)) (\<lambda>hasUnfreeze.
     bindT (if \<not> hasUnfreeze
            then bindT (getT (hasLedgerEntryTx ch (w_id w) LedgerWithdrawFreeze)) (\<lambda>hasFreeze.
                 if hasFreeze
                 then unfreezeWithdrawTx ch now (w_user w) (w_token w) (w_amount w) (w_id w)
                 else retT ())
            else retT ()) (\<lambda>_.
     modT (\<lambda>d. d\<lparr>withdraws := upd_where (withdraw_where ch (w_id w) None)
       (\<lambda>r. r\<lparr>wr_status := WithdrawStatusFailed, wr_reject_reason := Some reason, wr_updated := now\<rparr>)
       (withdraws d)\<rparr>)))"

subsection \<open>Lemmas\<close>

lemma isDup_simps [simp]:
  "\<not> isDup None" "isDup (Some (ErrDupEntry k))" "\<not> isDup (Some ErrNoRows)"
  by (simp_all add: isDup_def)

lemma deposit_match_cong: "sql_eq h h' \<Longrightarrow> deposit_match ch h i = deposit_match ch h' i"
  by (auto simp: deposit_match_def sql_eq_def fun_eq_iff)

lemma deposit_match_lower [simp]: "deposit_match ch (to_lower h) i = deposit_match ch h i"
  by (auto simp: deposit_match_def fun_eq_iff)

lemma InsertDepositTx_dup:
  assumes "List.find (deposit_match ch (cd_tx_hash p) (cd_log_index p)) (deposits d) = Some r"
  shows "InsertDepositTx ch now p d =
    (Inr 0, d\<lparr>ctrs := (ctrs d)\<lparr>ai_deposits := ai_deposits (ctrs d) + 1\<rparr>\<rparr>)"
  using assms by (simp add: InsertDepositTx_def Let_def)

lemma hasLedgerEntryTx_iff:
  "hasLedgerEntryTx ch i ty d \<longleftrightarrow> (\<exists>e\<in>set (entries d). ler_chain e = ch \<and>
     ler_ref_type e = Some ''deposit'' \<and> ler_ref_id e = Some i \<and> ler_type e = ty)"
  by (auto simp: hasLedgerEntryTx_def find_None_iff_none)

text \<open>Entries of withdrawals carry the reference type \<open>withdraw\<close>, so the existence
  test, which asks for \<open>deposit\<close>, never sees them.\<close>

lemma hasLedgerEntryTx_withdraw:
  assumes "refs_ok d" "type_ref ty = ''withdraw''"
  shows "\<not> hasLedgerEntryTx ch i ty d"
  using assms by (auto simp: hasLedgerEntryTx_iff refs_ok_def list_all_iff)

lemma apply_field_keeps [simp]:
  "wr_id (apply_field f r) = wr_id r" "wr_chain (apply_field f r) = wr_chain r"
  "wr_status (apply_field f r) = wr_status r" "wr_user (apply_field f r) = wr_user r"
  "wr_token (apply_field f r) = wr_token r" "wr_amount (apply_field f r) = wr_amount r"
  "wr_idem_key (apply_field f r) = wr_idem_key r" "wr_to (apply_field f r) = wr_to r"
  by (cases f; simp)+

lemma fold_apply_field_keeps [simp]:
  "wr_id (fold apply_field fs r) = wr_id r" "wr_chain (fold apply_field fs r) = wr_chain r"
  "wr_status (fold apply_field fs r) = wr_status r" "wr_user (fold apply_field fs r) = wr_user r"
  "wr_token (fold apply_field fs r) = wr_token r" "wr_amount (fold apply_field fs r) = wr_amount r"
  "wr_idem_key (fold apply_field fs r) = wr_idem_key r" "wr_to (fold apply_field fs r) = wr_to r"
  by (induction fs arbitrary: r) simp_all

lemma withdraw_set_keeps [simp]:
  "wr_id (withdraw_set st now fs r) = wr_id r" "wr_chain (withdraw_set st now fs r) = wr_chain r"
  "wr_status (withdraw_set st now fs r) = st" "wr_user (withdraw_set st now fs r) = wr_user r"
  "wr_token (withdraw_set st now fs r) = wr_token r"
  "wr_amount (withdraw_set st now fs r) = wr_amount r"
  "wr_idem_key (withdraw_set st now fs r) = wr_idem_key r" "wr_to (withdraw_set st now fs r) = wr_to r"
  by (simp_all add: withdraw_set_def)

text \<open>A compare-and-set succeeds exactly when a row with the expected status exists,
  provided the status really changes.\<close>

lemma updateWithdrawStatusIf_ok:
  assumes "st \<noteq> newStatus"
  shows "updateWithdrawStatusIf ch now i (Some st) newStatus flds d =
    (Inr (\<exists>r\<in>set (withdraws d). withdraw_where ch i (Some st) r),
     d\<lparr>withdraws := upd_where (withdraw_where ch i (Some st)) (withdraw_set newStatus now flds) (withdraws d)\<rparr>)"
proof -
  have "withdraw_set newStatus now flds r \<noteq> r" if "withdraw_where ch i (Some st) r" for r
    using that assms by (metis option.simps(5) withdraw_set_keeps(3) withdraw_where_def)
  then show ?thesis
    by (auto simp: updateWithdrawStatusIf_def rows_affected_pos)
qed

lemma cast_dec65_small: "wei_val s < 10 ^ 65 \<Longrightarrow> cast_dec65 s = wei_val s"
  by (simp add: cast_dec65_def)

lemma sum_list_filter_if:
  fixes g :: "'a \<Rightarrow> int"
  shows "sum_list (map g (filter p xs)) = sum_list (map (\<lambda>x. if p x then g x else 0) xs)"
  by (induction xs) auto

lemma SumUserLiabilities_eq:
  assumes "\<forall>r\<in>set (accounts d). wei_val (la_avail r) < 10 ^ 65 \<and> wei_val (la_frozen r) < 10 ^ 65"
  shows "SumUserLiabilities ch token d = int_str (liabilities ch (normToken token) d)"
proof -
  have "sum_list (map (\<lambda>r. cast_dec65 (la_avail r) + cast_dec65 (la_frozen r))
      (filter (\<lambda>r. la_chain r = ch \<and> sql_eq (la_token r) (normToken token)) (accounts d))) =
      liabilities ch (normToken token) d"
    unfolding sum_list_filter_if liabilities_def
    by (rule arg_cong [where f = sum_list], rule map_cong)
      (use assms in \<open>auto simp: liab_row_def cast_dec65_small\<close>)
  then show ?thesis by (simp add: SumUserLiabilities_def)
qed

lemma liabilities_nonneg: "0 \<le> liabilities ch token d"
  by (auto simp: liabilities_def liab_row_def intro!: sum_list_nonneg)

end
