(* ===== verification/Config.thy ===== *)
theory Config
  imports Prelude
begin

text \<open>
  \<open>internal/config/config.go\<close>: the configuration tree, the defaults that
  \<open>validate\<close> fills in, and the list of watched ERC-20 contracts. Reading the YAML
  file (\<open>Load\<close>) is Viper's work and is not modelled.
\<close>

record server_config =
  GinMode :: string
  HTTPAddr :: string
  GRPCAddr :: string
  PublicBaseURL :: string

record jwt_config =
  JwtSecret :: string
  ExpireHours :: int

record user_seed =
  seed_username :: string
  seed_password :: string

record eth_config =
  EthChainID :: int
  HTTPRPC :: string
  WSRPC :: string
  ERC20Contract :: string
  DevSendEnabled :: bool

record listener_config =
  WorkerCount :: int
  ChannelBuffer :: int
  ReconnectBaseMS :: int

record mysql_config =
  MySQLEnabled :: bool
  AdminDSN :: string
  DSN :: string
  MaxOpen :: int
  MaxIdle :: int

record redis_config =
  RedisEnabled :: bool
  RedisAddr :: string
  RedisPassword :: string
  RedisDB :: int

record watch_contract =
  wc_address :: string
  wc_abi :: string
  wc_events :: "string list"

record indexer_config =
  IndexerEnabled :: bool
  IxConfirmDepth :: int
  IxBatchSize :: int
  IxOutboxWorkers :: int
  IxMaxRetries :: int
  GapScanIntervalSec :: int
  HashVerifyWindow :: int
  WatchContracts :: "watch_contract list"

record tx_tracker_config =
  TxTrackerEnabled :: bool
  PollIntervalSec :: int
  TxConfirmDepth :: int
  TxBatchSize :: int
  MaxPendingHours :: int
  UseEIP1559 :: bool
  SpeedUpGasBumpPercent :: int
  RequireIdempotencyKey :: bool
  TxReconcileIntervalSec :: int
  ReconcileGraceSec :: int
  BroadcastMaxRetries :: int
  TxOutboxWorkers :: int

record balance_sync_config =
  BalanceSyncEnabled :: bool
  CustodialOnly :: bool
  OnTxConfirmed :: bool
  OnIndexerTx :: bool
  StaleSec :: int
  BackfillIntervalSec :: int
  RegistryReloadSec :: int
  WatchTokens :: "string list"

record webhook_config =
  WebhookEnabled :: bool
  WhWorkers :: int
  WhBatchSize :: int
  WhMaxRetries :: int
  HTTPTimeoutMS :: int
  MaxConnsPerHost :: int
  DispatchConcurrency :: int
  IdlePollMS :: int
  MockReceiveURL :: string

record signer_config =
  SignerType :: string
  DevPrivateKey :: string

record exchange_config =
  ExchangeEnabled :: bool
  DepositEnabled :: bool
  ExConfirmDepth :: int
  AutoApproveWithdraw :: bool
  HotWithdrawMaxWei :: string
  ExReconcileIntervalSec :: int
  ExSigner :: signer_config

record config =
  Server :: server_config
  JWT :: jwt_config
  Users :: "user_seed list"
  Eth :: eth_config
  Listener :: listener_config
  UploadDir :: string
  MySQL :: mysql_config
  Redis :: redis_config
  Indexer :: indexer_config
  TxTracker :: tx_tracker_config
  BalanceSync :: balance_sync_config
  Exchange :: exchange_config
  Webhook :: webhook_config

subsection \<open>Watched tokens\<close>

text \<open>The closure \<open>add\<close> of \<open>WatchTokenAddresses\<close>, on the pair of the keys seen
  and the output so far.\<close>

definition watch_add :: "string \<Rightarrow> string list \<times> string list \<Rightarrow> string list \<times> string list" where
  "watch_add addr0 st =
     (let (seen, out) = st; addr = trim_space addr0 in
      if addr = [] \<or> \<not> has_prefix (to_lower addr) ''0x'' then (seen, out)
      else let key = to_lower addr in
        if key \<in> set seen then (seen, out) else (key # seen, out @ [addr]))"

definition WatchTokenAddresses :: "config \<Rightarrow> string list" where
  "WatchTokenAddresses c =
     snd (watch_add (ERC20Contract (Eth c)) (fold watch_add (WatchTokens (BalanceSync c)) ([], [])))"

subsection \<open>Defaults\<close>

definition dflt_str :: "string \<Rightarrow> string \<Rightarrow> string" where
  "dflt_str v x = (if x = [] then v else x)"

definition dflt :: "int \<Rightarrow> int \<Rightarrow> int" where
  "dflt v x = (if x \<le> 0 then v else x)"

definition validate_indexer :: "indexer_config \<Rightarrow> indexer_config" where
  "validate_indexer c = c\<lparr>IxConfirmDepth := dflt 2 (IxConfirmDepth c),
     IxBatchSize := dflt 20 (IxBatchSize c), IxOutboxWorkers := dflt 2 (IxOutboxWorkers c),
     IxMaxRetries := dflt 5 (IxMaxRetries c), GapScanIntervalSec := dflt 15 (GapScanIntervalSec c),
     HashVerifyWindow := dflt 64 (HashVerifyWindow c)\<rparr>"

definition validate_tx_tracker :: "int \<Rightarrow> tx_tracker_config \<Rightarrow> tx_tracker_config" where
  "validate_tx_tracker ixDepth c = c\<lparr>PollIntervalSec := dflt 3 (PollIntervalSec c),
     TxConfirmDepth := (if TxConfirmDepth c \<le> 0 then dflt 2 ixDepth else TxConfirmDepth c),
     TxBatchSize := dflt 50 (TxBatchSize c), MaxPendingHours := dflt 24 (MaxPendingHours c),
     SpeedUpGasBumpPercent := dflt 20 (SpeedUpGasBumpPercent c),
     TxOutboxWorkers := dflt 1 (TxOutboxWorkers c),
     TxReconcileIntervalSec := dflt 10 (TxReconcileIntervalSec c),
     ReconcileGraceSec := dflt 5 (ReconcileGraceSec c),
     BroadcastMaxRetries := dflt 5 (BroadcastMaxRetries c)\<rparr>"

definition validate_balance :: "balance_sync_config \<Rightarrow> balance_sync_config" where
  "validate_balance c0 =
     (let c = c0\<lparr>StaleSec := dflt 300 (StaleSec c0),
                 BackfillIntervalSec := dflt 300 (BackfillIntervalSec c0),
                 RegistryReloadSec := dflt 30 (RegistryReloadSec c0)\<rparr>
      in if BalanceSyncEnabled c \<and> \<not> OnTxConfirmed c \<and> \<not> OnIndexerTx c
         then c\<lparr>OnTxConfirmed := True, OnIndexerTx := True\<rparr> else c)"

definition validate_exchange :: "exchange_config \<Rightarrow> exchange_config" where
  "validate_exchange c =
     (if ExchangeEnabled c
      then c\<lparr>ExReconcileIntervalSec := dflt 300 (ExReconcileIntervalSec c), DepositEnabled := True\<rparr>
      else c)"

definition validate_webhook :: "webhook_config \<Rightarrow> webhook_config" where
  "validate_webhook c =
     (if WebhookEnabled c
      then c\<lparr>WhWorkers := dflt 16 (WhWorkers c), WhBatchSize := dflt 100 (WhBatchSize c),
             WhMaxRetries := dflt 8 (WhMaxRetries c), HTTPTimeoutMS := dflt 3000 (HTTPTimeoutMS c),
             MaxConnsPerHost := dflt 300 (MaxConnsPerHost c),
             DispatchConcurrency := dflt 50 (DispatchConcurrency c),
             IdlePollMS := dflt 20 (IdlePollMS c)\<rparr>
      else c)"

definition validate :: "config \<Rightarrow> config" where
  "validate c =
     (let ix = validate_indexer (Indexer c) in
      c\<lparr>Server := (Server c)\<lparr>HTTPAddr := dflt_str '':8080'' (HTTPAddr (Server c)),
                             GRPCAddr := dflt_str '':9090'' (GRPCAddr (Server c))\<rparr>,
        Listener := (Listener c)\<lparr>WorkerCount := dflt 2 (WorkerCount (Listener c)),
                                 ChannelBuffer := dflt 16 (ChannelBuffer (Listener c)),
                                 ReconnectBaseMS := dflt 500 (ReconnectBaseMS (Listener c))\<rparr>,
        UploadDir := dflt_str ''./data/uploads'' (UploadDir c),
        MySQL := (MySQL c)\<lparr>MaxOpen := dflt 25 (MaxOpen (MySQL c)), MaxIdle := dflt 10 (MaxIdle (MySQL c))\<rparr>,
        Redis := (Redis c)\<lparr>RedisAddr := dflt_str ''127.0.0.1:6379'' (RedisAddr (Redis c))\<rparr>,
        Indexer := ix,
        TxTracker := validate_tx_tracker (IxConfirmDepth ix) (TxTracker c),
        BalanceSync := validate_balance (BalanceSync c),
        Exchange := validate_exchange (Exchange c),
        Webhook := validate_webhook (Webhook c)\<rparr>)"

subsection \<open>Lemmas\<close>

lemma dflt_pos [simp]: "0 < v \<Longrightarrow> 0 < dflt v x"
  by (simp add: dflt_def)

lemma dflt_idem [simp]: "0 < v \<Longrightarrow> dflt w (dflt v x) = dflt v x"
  by (simp add: dflt_def)

lemma dflt_str_idem [simp]: "dflt_str v (dflt_str v x) = dflt_str v x"
  by (simp add: dflt_str_def)

lemma dflt_id: "0 < x \<Longrightarrow> dflt v x = x"
  by (simp add: dflt_def)

lemma validate_sections_idem:
  "validate_indexer (validate_indexer i) = validate_indexer i"
  "0 < k \<Longrightarrow> validate_tx_tracker k (validate_tx_tracker k t) = validate_tx_tracker k t"
  "validate_balance (validate_balance b) = validate_balance b"
  "validate_exchange (validate_exchange e) = validate_exchange e"
  "validate_webhook (validate_webhook w) = validate_webhook w"
  by (simp_all add: validate_indexer_def validate_tx_tracker_def validate_balance_def
      validate_exchange_def validate_webhook_def Let_def dflt_id)

lemma validate_indexer_pos:
  "0 < IxConfirmDepth (validate_indexer i)" "0 < IxBatchSize (validate_indexer i)"
  "0 < IxMaxRetries (validate_indexer i)" "0 < HashVerifyWindow (validate_indexer i)"
  "0 < IxOutboxWorkers (validate_indexer i)" "0 < GapScanIntervalSec (validate_indexer i)"
  by (simp_all add: validate_indexer_def)

lemma watch_add_inv:
  assumes "seen = rev (map to_lower out)" "distinct seen" "watch_add a (seen, out) = (seen', out')"
  shows "seen' = rev (map to_lower out') \<and> distinct seen'"
  using assms by (auto simp: watch_add_def Let_def split: if_splits)

lemma watch_add_mem:
  assumes "watch_add a (seen, out) = (seen', out')" "x \<in> set out'"
  shows "x \<in> set out \<or> (x = trim_space a \<and> x \<noteq> [] \<and> has_prefix (to_lower x) ''0x'')"
  using assms by (auto simp: watch_add_def Let_def split: if_splits)

lemma fold_watch_add_inv:
  assumes "fold watch_add as (seen, out) = (seen', out')"
    and "seen = rev (map to_lower out)" "distinct seen"
    and "\<forall>x\<in>set out. x \<noteq> [] \<and> has_prefix (to_lower x) ''0x''"
  shows "seen' = rev (map to_lower out') \<and> distinct seen' \<and>
    (\<forall>x\<in>set out'. x \<noteq> [] \<and> has_prefix (to_lower x) ''0x'')"
  using assms
proof (induction as arbitrary: seen out)
  case Nil
  then show ?case by auto
next
  case (Cons a as)
  obtain s o1 where w: "watch_add a (seen, out) = (s, o1)" by fastforce
  with Cons.prems have "fold watch_add as (s, o1) = (seen', out')" by simp
  moreover have "s = rev (map to_lower o1) \<and> distinct s"
    using watch_add_inv [OF Cons.prems(2,3) w] .
  moreover have "\<forall>x\<in>set o1. x \<noteq> [] \<and> has_prefix (to_lower x) ''0x''"
    using watch_add_mem [OF w] Cons.prems(4) by blast
  ultimately show ?case using Cons.IH by blast
qed

lemma WatchTokenAddresses_fold:
  "WatchTokenAddresses c =
     snd (fold watch_add (WatchTokens (BalanceSync c) @ [ERC20Contract (Eth c)]) ([], []))"
  by (simp add: WatchTokenAddresses_def)

end
