(* ===== verification/Eth.thy ===== *)
theory Eth
  imports Schema
begin

text \<open>
  \<open>internal/eth\<close>: the wrapper of the go-ethereum client that the other packages call.
  go-ethereum itself is not part of the repository: its pure functions are the fields of
  the record \<open>geth\<close>, the answers of the connected node those of \<open>node\<close>, and both
  are arguments of every definition here. What a theorem needs of them is written as a
  named predicate (\<open>rlp_ok\<close>, \<open>pack_ok\<close>).

  The broadcast of a transaction is the one effect outside the database: \<open>sys_sent\<close>
  is the list of the transactions the node accepted.
\<close>

subsection \<open>The types of go-ethereum that the code uses\<close>

type_synonym address = "160 word"
type_synonym hash = "256 word"
type_synonym bytes = "8 word list"
type_synonym privkey = string

datatype tx_type = LegacyTxType | DynamicFeeTxType | OtherTxType nat

record tx_data =
  td_type :: tx_type
  td_nonce :: u64
  td_gas_price :: int
  td_tip :: int
  td_fee_cap :: int
  td_gas :: u64
  td_to :: "address option"
  td_value :: int
  td_data :: bytes

record signed_tx =
  stx_data :: tx_data
  stx_sig :: bytes

record call_msg =
  cm_from :: address
  cm_to :: "address option"
  cm_value :: "int option"
  cm_data :: bytes

record log =
  lg_address :: address
  lg_topics :: "hash list"
  lg_data :: bytes
  lg_block :: u64
  lg_tx_hash :: hash
  lg_index :: nat

record receipt =
  rc_status :: u64
  rc_gas_used :: u64
  rc_block :: u64
  rc_contract :: address
  rc_logs :: "log list"

record block =
  blk_number :: u64
  blk_hash :: hash
  blk_parent :: hash
  blk_time :: u64
  blk_gas_used :: u64
  blk_txs :: "signed_tx list"

datatype abi_json = Erc20ReadABI | CounterABI | Erc20TransferABI

datatype abi_val = AbiAddress address | AbiBig int | AbiU8 "8 word" | AbiStr string

record geth =
  IsHexAddress :: "string \<Rightarrow> bool"
  HexToAddress :: "string \<Rightarrow> address"
  AddressHex :: "address \<Rightarrow> string"
  HexToHash :: "string \<Rightarrow> hash"
  HashHex :: "hash \<Rightarrow> string"
  BytesToAddress :: "bytes \<Rightarrow> address"
  PubkeyToAddress :: "privkey \<Rightarrow> address"
  HexToECDSA :: "string \<Rightarrow> privkey res"
  SignTx :: "tx_data \<Rightarrow> int \<Rightarrow> privkey \<Rightarrow> signed_tx res"
  Sender :: "int \<Rightarrow> signed_tx \<Rightarrow> address res"
  TxHash :: "signed_tx \<Rightarrow> hash"
  MarshalBinary :: "signed_tx \<Rightarrow> bytes res"
  UnmarshalBinary :: "bytes \<Rightarrow> signed_tx res"
  AbiJSON :: "abi_json \<Rightarrow> unit res"
  AbiPack :: "abi_json \<Rightarrow> string \<Rightarrow> abi_val list \<Rightarrow> bytes res"
  AbiUnpack :: "abi_json \<Rightarrow> string \<Rightarrow> bytes \<Rightarrow> (abi_val list) res"

record node =
  rpcChainID :: "int res"
  rpcBlockNumber :: "u64 res"
  rpcBlockByNumber :: "u64 \<Rightarrow> (block option) res"
  rpcHeaderBaseFee :: "(int option) res"
  rpcBalanceAt :: "address \<Rightarrow> int res"
  rpcNonceAt :: "address \<Rightarrow> u64 res"
  rpcPendingNonceAt :: "address \<Rightarrow> u64 res"
  rpcEstimateGas :: "call_msg \<Rightarrow> u64 res"
  rpcSuggestGasPrice :: "int res"
  rpcSuggestGasTipCap :: "int res"
  rpcSendTransaction :: "signed_tx \<Rightarrow> unit res"
  rpcTransactionByHash :: "hash \<Rightarrow> bool res"
  rpcTransactionReceipt :: "hash \<Rightarrow> receipt res"
  rpcCallContract :: "call_msg \<Rightarrow> bytes res"

text \<open>\<open>Backend\<close>: the configured chain id, the library and the HTTP client.\<close>

record backend =
  bk_chain :: int
  bk_geth :: geth
  bk_node :: node

text \<open>The database and the transactions handed to the node.\<close>

record sys =
  sys_db :: db
  sys_sent :: "signed_tx list"

type_synonym 'a systx = "(sys, 'a) tx"

definition dbT :: "'a dbtx \<Rightarrow> 'a systx" where
  "dbT m = (\<lambda>s. case m (sys_db s) of (r, d') \<Rightarrow> (r, s\<lparr>sys_db := d'\<rparr>))"

subsection \<open>\<open>backend.go\<close>\<close>

definition VerifyChainID :: "backend \<Rightarrow> unit res" where
  "VerifyChainID b =
     bindR (wrapR ''chain id'' (rpcChainID (bk_node b))) (\<lambda>chid.
     if chid \<noteq> bk_chain b
     then Inl (GoErr (''chain id mismatch: node='' @ int_str chid @ '' want='' @ int_str (bk_chain b)))
     else Inr ())"

definition TransactionReceipt :: "backend \<Rightarrow> string \<Rightarrow> receipt res" where
  "TransactionReceipt b txHash = rpcTransactionReceipt (bk_node b) (HexToHash (bk_geth b) txHash)"

definition BalanceAt :: "backend \<Rightarrow> string \<Rightarrow> int res" where
  "BalanceAt b addr = rpcBalanceAt (bk_node b) (HexToAddress (bk_geth b) addr)"

definition PendingNonceAt :: "backend \<Rightarrow> address \<Rightarrow> u64 res" where
  "PendingNonceAt b addr = rpcPendingNonceAt (bk_node b) addr"

subsection \<open>\<open>abi_contract.go\<close>\<close>

definition parseABI :: "backend \<Rightarrow> abi_json \<Rightarrow> abi_json res" where
  "parseABI b json = bindR (AbiJSON (bk_geth b) json) (\<lambda>_. Inr json)"

definition unpack_error :: "string \<Rightarrow> (abi_val list) res \<Rightarrow> (abi_val list) res" where
  "unpack_error what r =
     (case r of
        Inl e \<Rightarrow> Inl (GoErr (''unpack '' @ what @ '': '' @ err_text e))
      | Inr [] \<Rightarrow> Inl (GoErr (''unpack '' @ what @ '': %!w(<nil>)''))
      | Inr vals \<Rightarrow> Inr vals)"

definition call_view :: "backend \<Rightarrow> abi_json \<Rightarrow> string \<Rightarrow> abi_val list \<Rightarrow> address \<Rightarrow> (abi_val list) res" where
  "call_view b abi meth args contract =
     bindR (AbiPack (bk_geth b) abi meth args) (\<lambda>data.
     bindR (rpcCallContract (bk_node b)
       \<lparr>cm_from = 0, cm_to = Some contract, cm_value = None, cm_data = data\<rparr>) (\<lambda>out.
     unpack_error meth (AbiUnpack (bk_geth b) abi meth out)))"

fun abi_type_name :: "abi_val \<Rightarrow> string" where
  "abi_type_name (AbiAddress _) = ''common.Address''"
| "abi_type_name (AbiBig _) = ''*big.Int''"
| "abi_type_name (AbiU8 _) = ''uint8''"
| "abi_type_name (AbiStr _) = ''string''"

definition ERC20BalanceOf :: "backend \<Rightarrow> address \<Rightarrow> address \<Rightarrow> int res" where
  "ERC20BalanceOf b token holder =
     bindR (parseABI b Erc20ReadABI) (\<lambda>parsed.
     bindR (call_view b parsed ''balanceOf'' [AbiAddress holder] token) (\<lambda>vals.
     case hd vals of
       AbiBig bal \<Rightarrow> Inr bal
     | v \<Rightarrow> Inl (GoErr (''balanceOf: unexpected type '' @ abi_type_name v))))"

definition ERC20DecimalsSymbol :: "backend \<Rightarrow> address \<Rightarrow> (8 word \<times> string) res" where
  "ERC20DecimalsSymbol b token =
     bindR (parseABI b Erc20ReadABI) (\<lambda>parsed.
     bindR (call_view b parsed ''decimals'' [] token) (\<lambda>dVals.
     bindR (case hd dVals of
              AbiU8 v \<Rightarrow> Inr v
            | v \<Rightarrow> Inl (GoErr (''decimals: unexpected type '' @ abi_type_name v))) (\<lambda>decimals.
     bindR (call_view b parsed ''symbol'' [] token) (\<lambda>sVals.
     case hd sVals of
       AbiStr symb \<Rightarrow> Inr (decimals, symb)
     | v \<Rightarrow> Inl (GoErr (''symbol: unexpected type '' @ abi_type_name v))))))"

definition CounterNumber :: "backend \<Rightarrow> address \<Rightarrow> int res" where
  "CounterNumber b contract =
     bindR (parseABI b CounterABI) (\<lambda>parsed.
     bindR (call_view b parsed ''number'' [] contract) (\<lambda>vals.
     case hd vals of
       AbiBig n \<Rightarrow> Inr n
     | v \<Rightarrow> Inl (GoErr (''number: unexpected type '' @ abi_type_name v))))"

subsection \<open>\<open>txerrors.go\<close> and \<open>rawtx.go\<close>\<close>

definition IsAlreadyKnown :: "go_error option \<Rightarrow> bool" where
  "IsAlreadyKnown err = (case err of
     None \<Rightarrow> False
   | Some e \<Rightarrow>
       let msg = to_lower (err_text e) in
       str_contains msg ''already known'' \<or> str_contains msg ''known transaction'' \<or>
       str_contains msg ''duplicate'' \<and> str_contains msg ''transaction'')"

text \<open>\<open>hex.EncodeToString\<close> and \<open>hex.DecodeString\<close> of the standard library.\<close>

definition hex_digit :: "nat \<Rightarrow> char" where
  "hex_digit n = (if n < 10 then char_of (48 + n) else char_of (87 + n))"

fun hex_encode :: "bytes \<Rightarrow> string" where
  "hex_encode [] = []"
| "hex_encode (b # bs) = hex_digit (unat b div 16) # hex_digit (unat b mod 16) # hex_encode bs"

definition hex_val :: "char \<Rightarrow> nat option" where
  "hex_val c = (let n = of_char c :: nat in
     if 48 \<le> n \<and> n \<le> 57 then Some (n - 48)
     else if 97 \<le> n \<and> n \<le> 102 then Some (n - 87)
     else if 65 \<le> n \<and> n \<le> 70 then Some (n - 55)
     else None)"

fun hex_decode :: "string \<Rightarrow> bytes option" where
  "hex_decode [] = Some []"
| "hex_decode [c] = None"
| "hex_decode (c1 # c2 # cs) =
     (case (hex_val c1, hex_val c2) of
        (Some a, Some b) \<Rightarrow> map_option (\<lambda>bs. word_of_nat (16 * a + b) # bs) (hex_decode cs)
      | _ \<Rightarrow> None)"

definition trim_prefix :: "string \<Rightarrow> string \<Rightarrow> string" where
  "trim_prefix s p = (if has_prefix s p then drop (length p) s else s)"

definition normalizeHex :: "string \<Rightarrow> string" where
  "normalizeHex rawHex = trim_prefix (trim_prefix (trim_space rawHex) ''0x'') ''0X''"

text \<open>The library's own text after the prefix of the first error is abbreviated.\<close>

definition DecodeRawTxHex :: "backend \<Rightarrow> string \<Rightarrow> signed_tx res" where
  "DecodeRawTxHex b rawHex =
     (case hex_decode (normalizeHex rawHex) of
        None \<Rightarrow> Inl (GoErr ''invalid raw tx hex: encoding/hex'')
      | Some data \<Rightarrow> wrapR ''decode tx'' (UnmarshalBinary (bk_geth b) data))"

definition SignedTxToHex :: "backend \<Rightarrow> signed_tx \<Rightarrow> string res" where
  "SignedTxToHex b tx =
     bindR (MarshalBinary (bk_geth b) tx) (\<lambda>raw. Inr (''0x'' @ hex_encode raw))"

definition SendSignedTransaction :: "backend \<Rightarrow> signed_tx \<Rightarrow> unit systx" where
  "SendSignedTransaction b tx = (\<lambda>s.
     case rpcSendTransaction (bk_node b) tx of
       Inr _ \<Rightarrow> (Inr (), s\<lparr>sys_sent := sys_sent s @ [tx]\<rparr>)
     | Inl e \<Rightarrow> if IsAlreadyKnown (Some e) then (Inr (), s) else (Inl e, s))"

definition BroadcastRawTxHex :: "backend \<Rightarrow> string \<Rightarrow> signed_tx systx" where
  "BroadcastRawTxHex b rawHex =
     bindT (liftT (DecodeRawTxHex b rawHex)) (\<lambda>tx.
     bindT (SendSignedTransaction b tx) (\<lambda>_. retT tx))"

definition ValidateSignedTxChainID :: "backend \<Rightarrow> signed_tx \<Rightarrow> unit res" where
  "ValidateSignedTxChainID b tx =
     (case Sender (bk_geth b) (bk_chain b) tx of
        Inl e \<Rightarrow> Inl (GoErr (''invalid signature for chain '' @ int_str (bk_chain b) @ '': '' @ err_text e))
      | Inr _ \<Rightarrow> Inr ())"

subsection \<open>Lemmas\<close>

lemma dbT_apply [simp]: "dbT m s = (fst (m (sys_db s)), s\<lparr>sys_db := snd (m (sys_db s))\<rparr>)"
  by (simp add: dbT_def case_prod_beta)

lemma hex_val_digit [simp]: "n < 16 \<Longrightarrow> hex_val (hex_digit n) = Some n"
  by (simp add: hex_val_def hex_digit_def Let_def)

lemma unat_byte_lt [simp]: "unat (b :: 8 word) < 256"
  using unsigned_less [of b, where ?'a = nat] by simp

lemma hex_decode_encode [simp]: "hex_decode (hex_encode bs) = Some bs"
proof (induction bs)
  case (Cons b bs)
  have "unat b div 16 < 16" using unat_byte_lt [of b] by linarith
  moreover have "16 * (unat b div 16) + unat b mod 16 = unat b" by simp
  ultimately show ?case using Cons by simp
qed simp

lemma hex_digit_not_space [simp]: "n < 16 \<Longrightarrow> \<not> is_space (hex_digit n)"
  by (auto simp: is_space_def hex_digit_def Let_def)

lemma hex_digit_not_X [simp]: "n < 16 \<Longrightarrow> hex_digit n \<noteq> CHR ''X''"
proof
  assume "n < 16" and eq: "hex_digit n = CHR ''X''"
  have "(of_char (hex_digit n) :: nat) = 88" using eq by simp
  with \<open>n < 16\<close> show False by (auto simp: hex_digit_def split: if_splits)
qed

lemma hex_encode_no_space: "c \<in> set (hex_encode bs) \<Longrightarrow> \<not> is_space c"
proof (induction bs)
  case (Cons b bs)
  have "unat b div 16 < 16" using unat_byte_lt [of b] by linarith
  with Cons show ?case by auto
qed simp

lemma dropWhile_all_not: "(\<forall>x\<in>set xs. \<not> p x) \<Longrightarrow> dropWhile p xs = xs"
  by (cases xs) auto

lemma trim_space_id: "(\<forall>c\<in>set s. \<not> is_space c) \<Longrightarrow> trim_space s = s"
  by (simp add: trim_space_def trim_right_def dropWhile_all_not)

lemma trim_prefix_0X_hex: "trim_prefix (hex_encode bs) ''0X'' = hex_encode bs"
proof (cases bs)
  case (Cons b cs)
  have "unat b mod 16 < 16" by simp
  then have "hex_digit (unat b mod 16) \<noteq> CHR ''X''" by (rule hex_digit_not_X)
  with Cons show ?thesis by (simp add: trim_prefix_def)
qed (simp add: trim_prefix_def)

lemma normalizeHex_encode [simp]: "normalizeHex (''0x'' @ hex_encode bs) = hex_encode bs"
proof -
  have "trim_space (''0x'' @ hex_encode bs) = ''0x'' @ hex_encode bs"
    by (rule trim_space_id) (auto simp: is_space_def Let_def dest: hex_encode_no_space)
  then show ?thesis by (simp add: normalizeHex_def trim_prefix_def trim_prefix_0X_hex [unfolded trim_prefix_def])
qed

text \<open>The binary codec of a signed transaction: decoding inverts encoding.\<close>

definition rlp_ok :: "geth \<Rightarrow> bool" where
  "rlp_ok g \<longleftrightarrow> (\<forall>tx raw. MarshalBinary g tx = Inr raw \<longrightarrow> UnmarshalBinary g raw = Inr tx)"

lemma DecodeRawTxHex_SignedTxToHex:
  assumes "rlp_ok (bk_geth b)" "SignedTxToHex b tx = Inr h"
  shows "DecodeRawTxHex b h = Inr tx"
proof -
  obtain raw where raw: "MarshalBinary (bk_geth b) tx = Inr raw" and h: "h = ''0x'' @ hex_encode raw"
    using assms(2) by (auto simp: SignedTxToHex_def elim: bindR_InrE)
  have "hex_decode (normalizeHex h) = Some raw"
    unfolding h normalizeHex_encode by simp
  then show ?thesis using assms(1) raw by (simp add: DecodeRawTxHex_def rlp_ok_def)
qed

lemma SendSignedTransaction_db [simp]: "sys_db (snd (SendSignedTransaction b tx s)) = sys_db s"
  by (simp add: SendSignedTransaction_def split: sum.splits)

lemma SendSignedTransaction_sent:
  "set (sys_sent (snd (SendSignedTransaction b tx s))) \<subseteq> insert tx (set (sys_sent s))"
  by (auto simp: SendSignedTransaction_def split: sum.splits)

end
