(* ===== verification/Balance.thy ===== *)
theory Balance
  imports Config Eth
begin

text \<open>
  \<open>internal/balance\<close>: the table of on-chain balances and of custodial wallets
  (\<open>store.go\<close>), the in-memory registry of enabled wallets (\<open>registry.go\<close>) and the
  syncer that refreshes balances from the node (\<open>syncer.go\<close>). Rows with equal sort
  keys are listed in the order of the table; MySQL leaves that order open.
\<close>

subsection \<open>Types\<close>

definition NativeToken :: string where "NativeToken = []"

definition WalletTypeHot :: string where "WalletTypeHot = ''hot''"
definition WalletTypeDeposit :: string where "WalletTypeDeposit = ''deposit''"
definition WalletTypeTreasury :: string where "WalletTypeTreasury = ''treasury''"

record bal_row =
  br_chain :: int
  br_address :: string
  br_token :: string
  br_wei :: string
  br_block :: u64
  br_source_tx :: string
  br_updated :: time

record custodial_wallet =
  cus_chain :: int
  cus_address :: string
  cus_user :: string
  cus_label :: string
  cus_type :: string
  cus_enabled :: bool
  cus_created :: time
  cus_updated :: time

record register_params =
  rp_address :: string
  rp_user :: string
  rp_label :: string
  rp_type :: string

record tx_parties =
  tp_hash :: string
  tp_from :: string
  tp_to :: string
  tp_token :: string
  tp_type :: string
  tp_block :: u64

subsection \<open>\<open>store.go\<close>: balances\<close>

definition balNormToken :: "string \<Rightarrow> string" where
  "balNormToken token = to_lower (trim_space token)"

definition bal_match :: "int \<Rightarrow> string \<Rightarrow> string \<Rightarrow> balance_row \<Rightarrow> bool" where
  "bal_match ch address token r \<longleftrightarrow>
     bal_chain r = ch \<and> sql_eq (bal_address r) address \<and> sql_eq (bal_token r) token"

definition Upsert :: "int \<Rightarrow> time \<Rightarrow> string \<Rightarrow> string \<Rightarrow> string \<Rightarrow> string \<Rightarrow> u64 \<Rightarrow> unit dbtx" where
  "Upsert ch now address token balanceWei sourceTx blockNum =
     (let src = map_option to_lower (nullStr sourceTx) in
      modT (\<lambda>d. d\<lparr>balances := upsert_where (bal_match ch (to_lower address) (balNormToken token))
        (\<lambda>r. r\<lparr>bal_wei := balanceWei, bal_block := blockNum, bal_source_tx := src, bal_updated := now\<rparr>)
        \<lparr>bal_chain = ch, bal_address = to_lower address, bal_token = balNormToken token,
         bal_wei = balanceWei, bal_block = blockNum, bal_source_tx = src, bal_updated = now\<rparr>
        (balances d)\<rparr>))"

definition scan_balance :: "balance_row \<Rightarrow> bal_row" where
  "scan_balance r = \<lparr>br_chain = bal_chain r, br_address = bal_address r, br_token = bal_token r,
     br_wei = bal_wei r, br_block = bal_block r, br_source_tx = fromNull (bal_source_tx r),
     br_updated = bal_updated r\<rparr>"

definition Get :: "int \<Rightarrow> string \<Rightarrow> string \<Rightarrow> db \<Rightarrow> bal_row res" where
  "Get ch address token d =
     (case List.find (bal_match ch (to_lower address) (balNormToken token)) (balances d) of
        None \<Rightarrow> Inl ErrNoRows | Some r \<Rightarrow> Inr (scan_balance r))"

definition ListByAddress :: "int \<Rightarrow> string \<Rightarrow> db \<Rightarrow> bal_row list" where
  "ListByAddress ch address d =
     map scan_balance (sort_key (\<lambda>r. coll (bal_token r))
       (filter (\<lambda>r. bal_chain r = ch \<and> sql_eq (bal_address r) (to_lower address)) (balances d)))"

subsection \<open>\<open>store.go\<close>: custodial wallets\<close>

definition wallet_match :: "int \<Rightarrow> string \<Rightarrow> wallet_row \<Rightarrow> bool" where
  "wallet_match ch address r \<longleftrightarrow> cwr_chain r = ch \<and> sql_eq (cwr_address r) address"

definition scan_wallet :: "wallet_row \<Rightarrow> custodial_wallet" where
  "scan_wallet r = \<lparr>cus_chain = cwr_chain r, cus_address = cwr_address r,
     cus_user = fromNull (cwr_user r), cus_label = fromNull (cwr_label r), cus_type = cwr_type r,
     cus_enabled = cwr_enabled r, cus_created = cwr_created r, cus_updated = cwr_updated r\<rparr>"

definition GetWallet :: "int \<Rightarrow> string \<Rightarrow> db \<Rightarrow> custodial_wallet res" where
  "GetWallet ch address d =
     (case List.find (wallet_match ch (to_lower address)) (wallets d) of
        None \<Rightarrow> Inl ErrNoRows | Some r \<Rightarrow> Inr (scan_wallet r))"

definition enum_wallet_type :: "string \<Rightarrow> string option" where
  "enum_wallet_type wt = enum_value [''hot'', ''deposit'', ''treasury''] wt"

definition insert_wallet_stmt ::
  "int \<Rightarrow> time \<Rightarrow> string \<Rightarrow> string \<Rightarrow> string \<Rightarrow> string \<Rightarrow> unit dbtx" where
  "insert_wallet_stmt ch now addr userID label wt = (\<lambda>d.
     case enum_wallet_type wt of
       None \<Rightarrow> (Inl (GoErr ''Error 1265 (01000): Data truncated for column 'wallet_type' at row 1''), d)
     | Some ty \<Rightarrow>
         if List.find (wallet_match ch addr) (wallets d) \<noteq> None
         then (Inl (ErrDupEntry ''PRIMARY''), d)
         else (Inr (), d\<lparr>wallets := wallets d @
           [\<lparr>cwr_chain = ch, cwr_address = addr, cwr_user = nullStr userID,
             cwr_label = nullStr label, cwr_type = ty, cwr_enabled = True,
             cwr_created = now, cwr_updated = now\<rparr>]\<rparr>))"

record register_result =
  rr_wallet :: custodial_wallet
  rr_created :: bool

definition RegisterWallet :: "int \<Rightarrow> time \<Rightarrow> register_params \<Rightarrow> register_result dbtx" where
  "RegisterWallet ch now p =
     (let addr = to_lower (trim_space (rp_address p));
          wt0 = trim_space (rp_type p);
          wt = (if wt0 = [] then WalletTypeDeposit else wt0);
          userID = trim_space (rp_user p);
          label = trim_space (rp_label p)
      in
      if wt = WalletTypeDeposit \<and> userID = [] then failT ErrDepositRequiresUserID
      else bindT (getT (GetWallet ch addr)) (\<lambda>found.
      case found of
        Inl e \<Rightarrow>
          if e \<noteq> ErrNoRows then failT e
          else
            bindT (insert_wallet_stmt ch now addr userID label wt) (\<lambda>_.
            bindT (readT (GetWallet ch addr)) (\<lambda>w.
            retT \<lparr>rr_wallet = w, rr_created = True\<rparr>))
      | Inr existing \<Rightarrow>
          if cus_user existing \<noteq> [] \<and> userID \<noteq> [] \<and> \<not> equal_fold (cus_user existing) userID
          then failT ErrWalletOwnerConflict
          else if wt \<noteq> cus_type existing then failT ErrWalletTypeImmutable
          else if cus_type existing = WalletTypeDeposit \<and> cus_user existing = [] \<and> userID = []
          then failT ErrDepositRequiresUserID
          else
            let keepUser = (if userID \<noteq> [] then userID else cus_user existing);
                keepLabel = (if label \<noteq> [] then label else cus_label existing) in
            bindT (modT (\<lambda>d. d\<lparr>wallets := upd_where (wallet_match ch addr)
              (\<lambda>r. r\<lparr>cwr_user := nullStr keepUser, cwr_label := nullStr keepLabel,
                     cwr_enabled := True, cwr_updated := now\<rparr>) (wallets d)\<rparr>)) (\<lambda>_.
            bindT (readT (GetWallet ch addr)) (\<lambda>w.
            retT \<lparr>rr_wallet = w, rr_created = False\<rparr>))))"

definition ListWallets ::
  "int \<Rightarrow> string \<Rightarrow> string \<Rightarrow> bool \<Rightarrow> int \<Rightarrow> db \<Rightarrow> custodial_wallet list" where
  "ListWallets ch userID walletType enabledOnly limit d =
     (let rows = sort_key (\<lambda>r. - cwr_created r) (filter (\<lambda>r. cwr_chain r = ch \<and>
            (userID \<noteq> [] \<longrightarrow> (case cwr_user r of None \<Rightarrow> False | Some u \<Rightarrow> sql_eq u userID)) \<and>
            (walletType \<noteq> [] \<longrightarrow> sql_eq (cwr_type r) walletType) \<and>
            (enabledOnly \<longrightarrow> cwr_enabled r)) (wallets d))
      in map scan_wallet
           (if 0 < limit then sql_limit (if 500 < limit then 500 else limit) rows else rows))"

definition ListEnabledAddresses :: "int \<Rightarrow> int \<Rightarrow> db \<Rightarrow> string list" where
  "ListEnabledAddresses ch limit d =
     (let rows = sort_key coll (map cwr_address
            (filter (\<lambda>r. cwr_chain r = ch \<and> cwr_enabled r) (wallets d)))
      in if 0 < limit then sql_limit limit rows else rows)"

definition SetWalletEnabled :: "int \<Rightarrow> time \<Rightarrow> string \<Rightarrow> bool \<Rightarrow> unit dbtx" where
  "SetWalletEnabled ch now address enabled = (\<lambda>d.
     let p = wallet_match ch (to_lower address);
         f = (\<lambda>r. r\<lparr>cwr_enabled := enabled, cwr_updated := now\<rparr>)
     in (if rows_affected p f (wallets d) = 0 then Inl ErrWalletNotFound else Inr (),
         d\<lparr>wallets := upd_where p f (wallets d)\<rparr>))"

subsection \<open>\<open>registry.go\<close>\<close>

record registry =
  reg_set :: "string set"
  reg_wallets :: "string \<rightharpoonup> custodial_wallet"

definition NewRegistry :: registry where
  "NewRegistry = \<lparr>reg_set = {}, reg_wallets = Map.empty\<rparr>"

definition reload_add :: "custodial_wallet \<Rightarrow> registry \<Rightarrow> registry" where
  "reload_add w r = (let key = to_lower (cus_address w) in
     \<lparr>reg_set = insert key (reg_set r), reg_wallets = (reg_wallets r)(key \<mapsto> w)\<rparr>)"

definition Reload :: "int \<Rightarrow> db \<Rightarrow> registry \<Rightarrow> registry" where
  "Reload ch d r = fold reload_add (ListWallets ch [] [] True 0 d) NewRegistry"

definition RegUpsert :: "custodial_wallet \<Rightarrow> registry \<Rightarrow> registry" where
  "RegUpsert w r = (let key = to_lower (cus_address w) in
     if \<not> cus_enabled w
     then \<lparr>reg_set = reg_set r - {key}, reg_wallets = (reg_wallets r)(key := None)\<rparr>
     else \<lparr>reg_set = insert key (reg_set r), reg_wallets = (reg_wallets r)(key \<mapsto> w)\<rparr>)"

text \<open>The store is nil or a chain id with its database.\<close>

definition RegAdd :: "(int \<times> db) option \<Rightarrow> string \<Rightarrow> registry \<Rightarrow> registry" where
  "RegAdd store address r =
     (case store of
        None \<Rightarrow> r
      | Some (ch, d) \<Rightarrow> (case GetWallet ch address d of Inl _ \<Rightarrow> r | Inr w \<Rightarrow> RegUpsert w r))"

definition RegRemove :: "string \<Rightarrow> registry \<Rightarrow> registry" where
  "RegRemove address r = (let key = to_lower address in
     \<lparr>reg_set = reg_set r - {key}, reg_wallets = (reg_wallets r)(key := None)\<rparr>)"

definition IsRegistered :: "registry \<Rightarrow> string \<Rightarrow> bool" where
  "IsRegistered r address = (if address = [] then False else to_lower address \<in> reg_set r)"

definition RegGet :: "registry \<Rightarrow> string \<Rightarrow> custodial_wallet option" where
  "RegGet r address = (if address = [] then None else reg_wallets r (to_lower address))"

subsection \<open>\<open>syncer.go\<close>\<close>

text \<open>A nil syncer and a syncer without a store behave alike: \<open>sy_store\<close> is then
  \<open>None\<close>, otherwise the store's chain id.\<close>

record syncer =
  sy_cfg :: "config option"
  sy_backend :: backend
  sy_store :: "int option"
  sy_registry :: "registry option"

definition RefreshNative :: "syncer \<Rightarrow> time \<Rightarrow> string \<Rightarrow> string \<Rightarrow> u64 \<Rightarrow> unit dbtx" where
  "RefreshNative s now address0 sourceTx blockNum =
     (case sy_store s of
        None \<Rightarrow> retT ()
      | Some ch \<Rightarrow>
          let address = trim_space address0 in
          if \<not> IsHexAddress (bk_geth (sy_backend s)) address then retT ()
          else bindT (liftT (BalanceAt (sy_backend s) address)) (\<lambda>bal.
               Upsert ch now address NativeToken (int_str bal) sourceTx blockNum))"

definition RefreshERC20 :: "syncer \<Rightarrow> time \<Rightarrow> address \<Rightarrow> string \<Rightarrow> string \<Rightarrow> u64 \<Rightarrow> unit dbtx" where
  "RefreshERC20 s now token holder0 sourceTx blockNum =
     (case sy_store s of
        None \<Rightarrow> retT ()
      | Some ch \<Rightarrow>
          let holder = trim_space holder0; g = bk_geth (sy_backend s) in
          if \<not> IsHexAddress g holder then retT ()
          else bindT (liftT (ERC20BalanceOf (sy_backend s) token (HexToAddress g holder))) (\<lambda>bal.
               Upsert ch now holder (AddressHex g token) (int_str bal) sourceTx blockNum))"

definition filterParties :: "syncer \<Rightarrow> string \<Rightarrow> string \<Rightarrow> string \<times> string" where
  "filterParties s fr to =
     (case (sy_cfg s, sy_registry s) of
        (Some c, Some r) \<Rightarrow>
          if \<not> CustodialOnly (BalanceSync c) then (fr, to)
          else (if fr \<noteq> [] \<and> \<not> IsRegistered r fr then [] else fr,
                if to \<noteq> [] \<and> \<not> IsRegistered r to then [] else to)
      | _ \<Rightarrow> (fr, to))"

definition RefreshForTx :: "syncer \<Rightarrow> time \<Rightarrow> tx_parties \<Rightarrow> unit dbtx" where
  "RefreshForTx s now p =
     (if sy_store s = None then retT ()
      else
        let (fr, to) = filterParties s (tp_from p) (tp_to p) in
        if fr = [] \<and> to = [] then retT ()
        else if tp_type p = ''erc20'' \<and> tp_token p \<noteq> [] then
          let token = HexToAddress (bk_geth (sy_backend s)) (tp_token p) in
          bindT (if fr \<noteq> [] then ignoreT (RefreshERC20 s now token fr (tp_hash p) (tp_block p)) else retT ()) (\<lambda>_.
          if to \<noteq> [] then ignoreT (RefreshERC20 s now token to (tp_hash p) (tp_block p)) else retT ())
        else
          bindT (if fr \<noteq> [] then ignoreT (RefreshNative s now fr (tp_hash p) (tp_block p)) else retT ()) (\<lambda>_.
          if to \<noteq> [] then ignoreT (RefreshNative s now to (tp_hash p) (tp_block p)) else retT ()))"

definition RefreshWallet :: "syncer \<Rightarrow> time \<Rightarrow> string \<Rightarrow> unit dbtx" where
  "RefreshWallet s now address0 =
     (case sy_store s of
        None \<Rightarrow> retT ()
      | Some ch \<Rightarrow>
          let address1 = trim_space address0; g = bk_geth (sy_backend s) in
          if \<not> IsHexAddress g address1 then failT ErrWalletNotFound
          else bindT (getT (GetWallet ch address1)) (\<lambda>found.
          case found of
            Inl e \<Rightarrow> if e = ErrNoRows then failT ErrWalletNotFound else failT e
          | Inr w \<Rightarrow>
              if \<not> cus_enabled w then failT ErrWalletDisabled
              else
                let address = cus_address w in
                bindT (RefreshNative s now address [] 0) (\<lambda>_.
                case sy_cfg s of
                  None \<Rightarrow> failT (GoPanic ''nil pointer dereference'')
                | Some c \<Rightarrow> forT (WatchTokenAddresses c)
                    (\<lambda>tok. ignoreT (RefreshERC20 s now (HexToAddress g tok) address [] 0)))))"

definition RefreshAllRegistered :: "syncer \<Rightarrow> time \<Rightarrow> nat dbtx" where
  "RefreshAllRegistered s now =
     (case sy_store s of
        None \<Rightarrow> retT 0
      | Some ch \<Rightarrow>
          bindT (getT (ListEnabledAddresses ch 0)) (\<lambda>addrs.
          bindT (forT addrs (\<lambda>addr. ignoreT (RefreshWallet s now addr))) (\<lambda>_.
          retT (length addrs))))"

subsection \<open>The balance table is a keyed table\<close>

type_synonym bal_key = "int \<times> string \<times> string"
type_synonym bal_val = "string \<times> u64 \<times> string \<times> time"

definition bal_key_eq :: "bal_key \<Rightarrow> bal_key \<Rightarrow> bool" where
  "bal_key_eq = (\<lambda>(c, a, t) (c', a', t').
     c = c' \<and> sql_eq a a' \<and> sql_eq (balNormToken t) (balNormToken t'))"

definition bal_put :: "bal_key \<Rightarrow> bal_val \<Rightarrow> db \<Rightarrow> db" where
  "bal_put = (\<lambda>(c, a, t) (w, b, src, now) d. snd (Upsert c now a t w src b d))"

definition bal_stored :: "bal_val \<Rightarrow> bal_val" where
  "bal_stored = (\<lambda>(w, b, src, now). (w, b, to_lower src, now))"

definition bal_look :: "db \<Rightarrow> bal_key \<Rightarrow> bal_val option" where
  "bal_look d = (\<lambda>(c, a, t). case Get c a t d of
     Inl _ \<Rightarrow> None | Inr r \<Rightarrow> Some (br_wei r, br_block r, br_source_tx r, br_updated r))"

lemma Upsert_ok [simp]: "fst (Upsert ch now a t w src b d) = Inr ()"
  by (simp add: Upsert_def Let_def)

lemma fromNull_map_lower [simp]: "fromNull (map_option to_lower (nullStr s)) = to_lower s"
  by (simp add: nullStr_def)

lemma bal_match_key:
  "bal_match c (to_lower a) t r \<longleftrightarrow> bal_chain r = c \<and> coll (bal_address r) = coll a \<and> coll (bal_token r) = coll t"
  by (simp add: bal_match_def sql_eq_def)

lemma bal_look_Upsert:
  "bal_look (snd (Upsert c now a t w src b d)) (c', a', t') =
     (if bal_key_eq (c, a, t) (c', a', t') then Some (w, b, to_lower src, now)
      else bal_look d (c', a', t'))"
proof (cases "bal_key_eq (c, a, t) (c', a', t')")
  case True
  let ?p = "bal_match c (to_lower a) (balNormToken t)"
  have eq: "bal_match c' (to_lower a') (balNormToken t') = ?p"
    using True by (auto simp: bal_key_eq_def bal_match_key sql_eq_def fun_eq_iff)
  have "List.find ?p (balances (snd (Upsert c now a t w src b d))) = Some (case List.find ?p (balances d) of
      None \<Rightarrow> \<lparr>bal_chain = c, bal_address = to_lower a, bal_token = balNormToken t, bal_wei = w,
        bal_block = b, bal_source_tx = map_option to_lower (nullStr src), bal_updated = now\<rparr>
    | Some r \<Rightarrow> r\<lparr>bal_wei := w, bal_block := b,
        bal_source_tx := map_option to_lower (nullStr src), bal_updated := now\<rparr>)"
    unfolding Upsert_def Let_def by simp (rule find_upsert_same, auto simp: bal_match_def)
  with True show ?thesis
    by (simp add: bal_look_def Get_def eq scan_balance_def split: option.splits)
next
  case False
  have "List.find (bal_match c' (to_lower a') (balNormToken t')) (balances (snd (Upsert c now a t w src b d))) =
      List.find (bal_match c' (to_lower a') (balNormToken t')) (balances d)"
    unfolding Upsert_def Let_def
    by simp (rule find_upsert_other, use False in \<open>auto simp: bal_key_eq_def bal_match_key sql_eq_def\<close>)
  with False show ?thesis by (simp add: bal_look_def Get_def)
qed

interpretation bal_tbl: keyed_table bal_key_eq bal_put bal_stored bal_look
proof
  fix k :: bal_key and v :: bal_val and d and k' :: bal_key
  show "bal_look (bal_put k v d) k' = (if bal_key_eq k k' then Some (bal_stored v) else bal_look d k')"
    by (cases k; cases k'; cases v) (simp add: bal_put_def bal_stored_def bal_look_Upsert)
qed

subsection \<open>The registry\<close>

text \<open>The registry is a keyed table too, with the exact lower-case address as key.\<close>

definition reg_put :: "string \<Rightarrow> custodial_wallet \<Rightarrow> registry \<Rightarrow> registry" where
  "reg_put key w r = \<lparr>reg_set = insert key (reg_set r), reg_wallets = (reg_wallets r)(key \<mapsto> w)\<rparr>"

interpretation reg_tbl: keyed_table "(=)" reg_put "\<lambda>w. w" reg_wallets
  by unfold_locales (auto simp: reg_put_def)

lemma reload_add_put: "reload_add w = reg_put (to_lower (cus_address w)) w"
  by (simp add: reload_add_def reg_put_def Let_def fun_eq_iff)

definition registry_ok :: "registry \<Rightarrow> bool" where
  "registry_ok r \<longleftrightarrow> reg_set r = dom (reg_wallets r) \<and>
     (\<forall>k w. reg_wallets r k = Some w \<longrightarrow> cus_enabled w \<and> to_lower (cus_address w) = k)"

lemma registry_ok_new [simp]: "registry_ok NewRegistry"
  by (simp add: registry_ok_def NewRegistry_def)

lemma registry_ok_put: "registry_ok r \<Longrightarrow> cus_enabled w \<Longrightarrow> registry_ok (reg_put (to_lower (cus_address w)) w r)"
  by (auto simp: registry_ok_def reg_put_def)

lemma registry_ok_del:
  "registry_ok r \<Longrightarrow> registry_ok \<lparr>reg_set = reg_set r - {key}, reg_wallets = (reg_wallets r)(key := None)\<rparr>"
  by (auto simp: registry_ok_def)

lemma registry_ok_RegUpsert: "registry_ok r \<Longrightarrow> registry_ok (RegUpsert w r)"
  using registry_ok_put [of r w] registry_ok_del [of r]
  by (simp add: RegUpsert_def Let_def reg_put_def)

lemma registry_ok_RegRemove: "registry_ok r \<Longrightarrow> registry_ok (RegRemove a r)"
  by (simp add: RegRemove_def Let_def registry_ok_del)

lemma registry_ok_RegAdd: "registry_ok r \<Longrightarrow> registry_ok (RegAdd st a r)"
  by (auto simp: RegAdd_def registry_ok_RegUpsert split: option.splits sum.splits)

lemma registry_ok_fold:
  "registry_ok r \<Longrightarrow> \<forall>w\<in>set ws. cus_enabled w \<Longrightarrow> registry_ok (fold reload_add ws r)"
  by (induction ws arbitrary: r) (auto simp: reload_add_put registry_ok_put)

lemma set_ListWallets: "set (ListWallets ch [] [] True 0 d) =
    scan_wallet ` {r \<in> set (wallets d). cwr_chain r = ch \<and> cwr_enabled r}"
  by (auto simp: ListWallets_def)

lemma registry_ok_Reload: "registry_ok (Reload ch d r)"
  unfolding Reload_def
  by (rule registry_ok_fold) (auto simp: set_ListWallets scan_wallet_def)

lemma IsRegistered_iff: "registry_ok r \<Longrightarrow> IsRegistered r a \<longleftrightarrow> RegGet r a \<noteq> None"
  by (auto simp: registry_ok_def IsRegistered_def RegGet_def)

text \<open>The wallet table: unique keys, addresses in normal form, known types, and a user for
  every deposit wallet.\<close>

definition wallet_key :: "wallet_row \<Rightarrow> int \<times> string" where
  "wallet_key r = (cwr_chain r, coll (cwr_address r))"

definition wallet_ok :: "wallet_row \<Rightarrow> bool" where
  "wallet_ok r \<longleftrightarrow> coll (cwr_address r) = cwr_address r \<and>
     cwr_type r \<in> {''hot'', ''deposit'', ''treasury''} \<and>
     (cwr_type r = ''deposit'' \<longrightarrow> fromNull (cwr_user r) \<noteq> [])"

definition wallets_ok :: "db \<Rightarrow> bool" where
  "wallets_ok d \<longleftrightarrow> distinct (map wallet_key (wallets d)) \<and> list_all wallet_ok (wallets d)"

lemma last_trim_right: "trim_right p s \<noteq> [] \<Longrightarrow> \<not> p (last (trim_right p s))"
  by (simp add: trim_right_def last_rev hd_dropWhile)

lemma trim_right_id: "s = [] \<or> \<not> p (last s) \<Longrightarrow> trim_right p s = s"
  by (cases s rule: rev_cases) (auto simp: trim_right_def)

lemma lower_char_eq_space: "lower_char c = CHR '' '' \<Longrightarrow> is_space c"
proof -
  assume *: "lower_char c = CHR '' ''"
  then have "(of_char (lower_char c) :: nat) = 32" by simp
  then show ?thesis by (auto simp: lower_char_def is_space_def Let_def split: if_splits)
qed

lemma coll_trim_space [simp]: "coll (trim_space s) = to_lower (trim_space s)"
proof -
  let ?t = "trim_space s"
  have "to_lower ?t = [] \<or> last (to_lower ?t) \<noteq> CHR '' ''"
  proof (cases "?t = []")
    case False
    then have "\<not> is_space (last ?t)" unfolding trim_space_def by (rule last_trim_right)
    then show ?thesis using False lower_char_eq_space by (auto simp: to_lower_def last_map)
  qed simp
  then show ?thesis by (simp add: coll_def trim_right_id)
qed

lemma to_lower_rev: "to_lower (rev s) = rev (to_lower s)"
  by (simp add: to_lower_def rev_map)

lemma to_lower_dropWhile: "to_lower s = s \<Longrightarrow> to_lower (dropWhile p s) = dropWhile p s"
  by (induction s) (auto simp: to_lower_def)

lemma coll_lower [simp]: "to_lower (coll s) = coll s"
  by (simp add: coll_def trim_right_def to_lower_rev to_lower_dropWhile)

lemma wallet_match_key: "wallet_match ch a r \<longleftrightarrow> wallet_key r = (ch, coll a)"
  by (auto simp: wallet_match_def wallet_key_def sql_eq_def)

lemma find_distinct_key:
  assumes "distinct (map f t)" "r \<in> set t"
  shows "List.find (\<lambda>x. f x = f r) t = Some r"
  using assms by (induction t) (auto simp: image_iff)

lemma GetWallet_scan:
  assumes "wallets_ok d"
  shows "GetWallet ch a d = Inr w \<longleftrightarrow> (\<exists>r\<in>set (wallets d). wallet_key r = (ch, coll a) \<and> w = scan_wallet r)"
proof -
  have m: "wallet_match ch (to_lower a) = (\<lambda>r. wallet_key r = (ch, coll a))"
    by (simp add: fun_eq_iff wallet_match_key)
  have *: "List.find (\<lambda>r. wallet_key r = (ch, coll a)) (wallets d) = Some r \<longleftrightarrow>
      r \<in> set (wallets d) \<and> wallet_key r = (ch, coll a)" for r
    using assms find_distinct_key [of wallet_key "wallets d" r]
    by (auto simp: wallets_ok_def dest: find_SomeD)
  have "GetWallet ch a d = Inr w \<longleftrightarrow> (\<exists>r. List.find (\<lambda>r. wallet_key r = (ch, coll a)) (wallets d) = Some r
      \<and> w = scan_wallet r)"
    by (auto simp: GetWallet_def m split: option.splits)
  then show ?thesis using * by blast
qed

lemma find_pairs_key:
  "(case List.find (\<lambda>(k', v). k' = k) (map (\<lambda>w. (f w, w)) ws) of
      None \<Rightarrow> None | Some (k', v) \<Rightarrow> Some v) = List.find (\<lambda>w. f w = k) ws"
  by (induction ws) auto

lemma find_unique: "w \<in> set xs \<Longrightarrow> p w \<Longrightarrow> (\<And>x. x \<in> set xs \<Longrightarrow> p x \<Longrightarrow> x = w) \<Longrightarrow> List.find p xs = Some w"
  by (cases "List.find p xs") (blast dest: find_NoneD find_SomeD)+

lemma RegGet_Reload_find:
  "a \<noteq> [] \<Longrightarrow> RegGet (Reload ch d r) a =
     List.find (\<lambda>w. to_lower (cus_address w) = to_lower a) (rev (ListWallets ch [] [] True 0 d))"
proof -
  let ?ws = "ListWallets ch [] [] True 0 d"
  assume "a \<noteq> []"
  then have "RegGet (Reload ch d r) a =
      reg_wallets (fold (\<lambda>(k, v). reg_put k v) (map (\<lambda>w. (to_lower (cus_address w), w)) ?ws) NewRegistry) (to_lower a)"
    by (simp add: RegGet_def Reload_def reload_add_put [abs_def] fold_map comp_def)
  also have "\<dots> = List.find (\<lambda>w. to_lower (cus_address w) = to_lower a) (rev ?ws)"
    unfolding reg_tbl.look_puts rev_map find_pairs_key [symmetric]
    by (simp add: NewRegistry_def cong: option.case_cong)
  finally show ?thesis .
qed

lemma wallets_key_lower:
  assumes "wallets_ok d" "r \<in> set (wallets d)" "coll a = to_lower a"
  shows "wallet_key r = (ch, coll a) \<longleftrightarrow> cwr_chain r = ch \<and> to_lower (cwr_address r) = to_lower a"
proof -
  have "coll (cwr_address r) = cwr_address r"
    using assms by (simp add: wallets_ok_def list_all_iff wallet_ok_def)
  moreover from this have "to_lower (cwr_address r) = cwr_address r"
    by (metis coll_lower)
  ultimately show ?thesis using assms(3) by (simp add: wallet_key_def)
qed

text \<open>A reload makes the registry answer every address as the table does.\<close>

lemma RegGet_Reload:
  assumes ok: "wallets_ok d" and a: "a \<noteq> []" "coll a = to_lower a"
  shows "RegGet (Reload ch d r) a =
    (case GetWallet ch a d of Inl _ \<Rightarrow> None | Inr w \<Rightarrow> if cus_enabled w then Some w else None)"
proof -
  let ?ws = "ListWallets ch [] [] True 0 d"
  let ?p = "\<lambda>w. to_lower (cus_address w) = to_lower a"
  have mem: "w \<in> set ?ws \<and> ?p w \<longleftrightarrow> GetWallet ch a d = Inr w \<and> cus_enabled w" for w
    unfolding GetWallet_scan [OF ok] set_ListWallets
    using wallets_key_lower [OF ok _ a(2)] by (auto simp: scan_wallet_def)
  show ?thesis
  proof (cases "\<exists>w. GetWallet ch a d = Inr w \<and> cus_enabled w")
    case True
    then obtain w where w: "GetWallet ch a d = Inr w" "cus_enabled w" by blast
    have "w \<in> set ?ws \<and> ?p w" using mem [of w] w by (rule iffD2 [OF _ conjI])
    moreover have "x = w" if "x \<in> set ?ws" "?p x" for x
      using iffD1 [OF mem [of x] conjI [OF that]] w(1) by simp
    ultimately have "List.find ?p (rev ?ws) = Some w" by (intro find_unique) auto
    with w show ?thesis by (simp add: RegGet_Reload_find [OF a(1)])
  next
    case False
    then have "List.find ?p (rev ?ws) = None" using mem by (auto simp: find_None_iff_none)
    with False show ?thesis by (auto simp: RegGet_Reload_find [OF a(1)] split: sum.splits)
  qed
qed

subsection \<open>Registration\<close>

text \<open>The check that the registration handler makes before it calls the store.\<close>

definition type_checked :: "register_params \<Rightarrow> bool" where
  "type_checked p \<longleftrightarrow> trim_space (rp_type p) \<in> {[], ''hot'', ''deposit'', ''treasury''}"

lemma enum_wallet_type_canonical:
  "wt \<in> {''hot'', ''deposit'', ''treasury''} \<Longrightarrow> enum_wallet_type wt = Some wt"
  by (elim insertE emptyE; hypsubst; code_simp)

lemma insert_wallet_stmt_ok:
  assumes "wallets_ok d" "insert_wallet_stmt ch now (to_lower (trim_space a)) u l wt d = (r, d')"
    "wt \<in> {''hot'', ''deposit'', ''treasury''}" "wt = ''deposit'' \<longrightarrow> u \<noteq> []"
  shows "wallets_ok d'"
proof (cases "List.find (wallet_match ch (to_lower (trim_space a))) (wallets d)")
  case None
  let ?r = "\<lparr>cwr_chain = ch, cwr_address = to_lower (trim_space a), cwr_user = nullStr u,
    cwr_label = nullStr l, cwr_type = wt, cwr_enabled = True, cwr_created = now, cwr_updated = now\<rparr>"
  have d': "d' = d\<lparr>wallets := wallets d @ [?r]\<rparr>"
    using assms(2) None by (simp add: insert_wallet_stmt_def enum_wallet_type_canonical [OF assms(3)])
  have "wallet_key ?r \<notin> set (map wallet_key (wallets d))"
    using None by (auto simp: find_None_iff_none wallet_match_key wallet_key_def)
  moreover have "wallet_ok ?r"
    using assms(3,4) by (simp add: wallet_ok_def)
  ultimately show ?thesis using assms(1) unfolding d' by (simp add: wallets_ok_def)
next
  case (Some x)
  then have "d' = d"
    using assms(2) by (simp add: insert_wallet_stmt_def enum_wallet_type_canonical [OF assms(3)])
  with assms(1) show ?thesis by simp
qed

lemma wallets_ok_upd:
  assumes "wallets_ok d"
    and "\<And>r. r \<in> set (wallets d) \<Longrightarrow> p r \<Longrightarrow> wallet_key (f r) = wallet_key r"
    and "\<And>r. r \<in> set (wallets d) \<Longrightarrow> p r \<Longrightarrow> wallet_ok r \<Longrightarrow> wallet_ok (f r)"
  shows "wallets_ok (d\<lparr>wallets := upd_where p f (wallets d)\<rparr>)"
  using assms by (auto simp: wallets_ok_def map_upd_where list_all_iff dest!: set_upd_where)

lemma SetWalletEnabled_ok:
  assumes "wallets_ok d" "SetWalletEnabled ch now a e d = (r, d')"
  shows "wallets_ok d'"
proof -
  have "d' = d\<lparr>wallets := upd_where (wallet_match ch (to_lower a))
      (\<lambda>r. r\<lparr>cwr_enabled := e, cwr_updated := now\<rparr>) (wallets d)\<rparr>"
    using assms(2) by (auto simp: SetWalletEnabled_def Let_def)
  then show ?thesis
    using wallets_ok_upd [OF assms(1)] by (simp add: wallet_key_def wallet_ok_def)
qed

lemma GetWallet_Inl: "GetWallet ch a d = Inl e \<Longrightarrow> e = ErrNoRows"
  by (simp add: GetWallet_def split: option.splits)

lemma RegisterWallet_new:
  assumes "GetWallet ch (to_lower (trim_space (rp_address p))) d = Inl e"
  shows "RegisterWallet ch now p d =
    (let wt = if trim_space (rp_type p) = [] then ''deposit'' else trim_space (rp_type p) in
     if wt = ''deposit'' \<and> trim_space (rp_user p) = [] then (Inl ErrDepositRequiresUserID, d)
     else case insert_wallet_stmt ch now (to_lower (trim_space (rp_address p)))
         (trim_space (rp_user p)) (trim_space (rp_label p)) wt d of
       (Inl e, d1) \<Rightarrow> (Inl e, d1)
     | (Inr _, d1) \<Rightarrow> (map_sum id (\<lambda>w. \<lparr>rr_wallet = w, rr_created = True\<rparr>)
         (GetWallet ch (to_lower (trim_space (rp_address p))) d1), d1))"
  using assms GetWallet_Inl [OF assms]
  by (simp add: RegisterWallet_def Let_def WalletTypeDeposit_def bindT_apply split: prod.split sum.split)

lemma RegisterWallet_old:
  assumes "GetWallet ch (to_lower (trim_space (rp_address p))) d = Inr w"
  shows "RegisterWallet ch now p d =
    (let wt = if trim_space (rp_type p) = [] then ''deposit'' else trim_space (rp_type p);
         userID = trim_space (rp_user p);
         u = if userID \<noteq> [] then userID else cus_user w;
         l = if trim_space (rp_label p) \<noteq> [] then trim_space (rp_label p) else cus_label w;
         d1 = d\<lparr>wallets := upd_where (wallet_match ch (to_lower (trim_space (rp_address p))))
           (\<lambda>r. r\<lparr>cwr_user := nullStr u, cwr_label := nullStr l, cwr_enabled := True,
                  cwr_updated := now\<rparr>) (wallets d)\<rparr>
     in
     if wt = ''deposit'' \<and> userID = [] then (Inl ErrDepositRequiresUserID, d)
     else if cus_user w \<noteq> [] \<and> userID \<noteq> [] \<and> \<not> equal_fold (cus_user w) userID
     then (Inl ErrWalletOwnerConflict, d)
     else if wt \<noteq> cus_type w then (Inl ErrWalletTypeImmutable, d)
     else (map_sum id (\<lambda>w. \<lparr>rr_wallet = w, rr_created = False\<rparr>)
         (GetWallet ch (to_lower (trim_space (rp_address p))) d1), d1))"
  using assms
  by (simp add: RegisterWallet_def Let_def WalletTypeDeposit_def bindT_apply split: sum.split)

abbreviation reg_type :: "register_params \<Rightarrow> string" where
  "reg_type p \<equiv> (if trim_space (rp_type p) = [] then ''deposit'' else trim_space (rp_type p))"

abbreviation reg_addr :: "register_params \<Rightarrow> string" where
  "reg_addr p \<equiv> to_lower (trim_space (rp_address p))"

text \<open>The three outcomes of a registration.\<close>

lemma RegisterWallet_cases:
  assumes "RegisterWallet ch now p d = (r, d')"
  obtains (failed) "d' = d" "\<nexists>x. r = Inr x"
  | (inserted) r1 where "GetWallet ch (reg_addr p) d = Inl ErrNoRows"
      "insert_wallet_stmt ch now (reg_addr p) (trim_space (rp_user p)) (trim_space (rp_label p))
         (reg_type p) d = (r1, d')"
      "reg_type p = ''deposit'' \<longrightarrow> trim_space (rp_user p) \<noteq> []"
  | (updated) w u l where "GetWallet ch (reg_addr p) d = Inr w"
      "d' = d\<lparr>wallets := upd_where (wallet_match ch (reg_addr p))
         (\<lambda>r. r\<lparr>cwr_user := nullStr u, cwr_label := nullStr l, cwr_enabled := True,
                cwr_updated := now\<rparr>) (wallets d)\<rparr>"
      "cus_user w \<noteq> [] \<longrightarrow> equal_fold (cus_user w) u"
      "reg_type p = ''deposit'' \<longrightarrow> u \<noteq> []" "cus_type w = reg_type p"
proof (cases "GetWallet ch (reg_addr p) d")
  case (Inl e)
  show thesis
  proof (cases "reg_type p = ''deposit'' \<and> trim_space (rp_user p) = []")
    case True
    then show thesis using assms RegisterWallet_new [OF Inl, of now]
      by (intro failed) (auto simp: Let_def)
  next
    case False
    then show thesis using assms RegisterWallet_new [OF Inl, of now] Inl GetWallet_Inl [OF Inl]
      by (intro inserted [of "fst (insert_wallet_stmt ch now (reg_addr p) (trim_space (rp_user p))
        (trim_space (rp_label p)) (reg_type p) d)"])
        (auto simp: Let_def split: prod.splits sum.splits)
  qed
next
  case (Inr w)
  let ?u = "if trim_space (rp_user p) \<noteq> [] then trim_space (rp_user p) else cus_user w"
  show thesis
  proof (cases "(reg_type p = ''deposit'' \<and> trim_space (rp_user p) = []) \<or>
      (cus_user w \<noteq> [] \<and> trim_space (rp_user p) \<noteq> [] \<and> \<not> equal_fold (cus_user w) (trim_space (rp_user p))) \<or>
      reg_type p \<noteq> cus_type w")
    case True
    then show thesis using assms RegisterWallet_old [OF Inr, of now]
      by (intro failed) (auto simp: Let_def split: if_splits)
  next
    case False
    let ?l = "if trim_space (rp_label p) \<noteq> [] then trim_space (rp_label p) else cus_label w"
    have n: "\<not> (reg_type p = ''deposit'' \<and> trim_space (rp_user p) = [])"
      "\<not> (cus_user w \<noteq> [] \<and> trim_space (rp_user p) \<noteq> [] \<and> \<not> equal_fold (cus_user w) (trim_space (rp_user p)))"
      "\<not> reg_type p \<noteq> cus_type w" using False by argo+
    show thesis
    proof (rule updated [OF Inr, where u = ?u and l = ?l])
      show "d' = d\<lparr>wallets := upd_where (wallet_match ch (reg_addr p))
          (\<lambda>r. r\<lparr>cwr_user := nullStr ?u, cwr_label := nullStr ?l, cwr_enabled := True, cwr_updated := now\<rparr>) (wallets d)\<rparr>"
        using assms unfolding RegisterWallet_old [OF Inr, of now] Let_def if_not_P [OF n(1)] if_not_P [OF n(2)] if_not_P [OF n(3)]
        by (simp split del: if_split)
      show "cus_user w \<noteq> [] \<longrightarrow> equal_fold (cus_user w) ?u" using n(2) by (auto simp: equal_fold_def)
      show "reg_type p = ''deposit'' \<longrightarrow> ?u \<noteq> []" using n(1) by argo
      show "cus_type w = reg_type p" using n(3) by argo
    qed
  qed
qed

lemma RegisterWallet_ok:
  assumes ok: "wallets_ok d" and p: "type_checked p" and reg: "RegisterWallet ch now p d = (r, d')"
  shows "wallets_ok d'"
  using reg
proof (cases rule: RegisterWallet_cases)
  case failed
  with ok show ?thesis by simp
next
  case (inserted r1)
  show ?thesis
    by (rule insert_wallet_stmt_ok [OF ok inserted(2)]) (use inserted p in \<open>auto simp: type_checked_def\<close>)
next
  case (updated w u l)
  have "cwr_type x = cus_type w" if "x \<in> set (wallets d)" "wallet_match ch (reg_addr p) x" for x
  proof -
    have "GetWallet ch (reg_addr p) d = Inr (scan_wallet x)"
      unfolding GetWallet_scan [OF ok] using that by (auto simp: wallet_match_key)
    with updated(1) show ?thesis by (auto simp: scan_wallet_def)
  qed
  then show ?thesis
    unfolding updated(2) using updated(4,5)
    by (intro wallets_ok_upd [OF ok]) (auto simp: wallet_key_def wallet_ok_def)
qed

end
