(* ===== verification/Exchange_Deposit.thy ===== *)
theory Exchange_Deposit
  imports Exchange_Store Balance
begin

text \<open>
  \<open>internal/exchange/deposit.go\<close>: capturing deposits from indexed blocks, crediting them
  exactly once, and reversing the credits of a reorganised chain. The methods run inside
  the indexer's transaction. The webhook notifier is an interface of the package: it is
  the argument \<open>dpr_webhook\<close>, and \<open>deposit_notifier\<close> is the contract a client of it
  relies on.
\<close>

subsection \<open>Definitions\<close>

record deposit_processor =
  dpr_cfg :: config
  dpr_store :: int
  dpr_registry :: "registry option"
  dpr_tokens :: "string set"
  dpr_webhook :: "(deposit \<Rightarrow> unit dbtx) option"

definition NewDepositProcessor :: "config \<Rightarrow> int \<Rightarrow> registry option \<Rightarrow> deposit_processor" where
  "NewDepositProcessor cfg store reg =
     \<lparr>dpr_cfg = cfg, dpr_store = store, dpr_registry = reg,
      dpr_tokens = set (map to_lower (WatchTokenAddresses cfg)), dpr_webhook = None\<rparr>"

text \<open>A nil receiver is \<open>None\<close>.\<close>

definition Enabled :: "deposit_processor option \<Rightarrow> bool" where
  "Enabled dp = (case dp of
     None \<Rightarrow> False
   | Some p \<Rightarrow> ExchangeEnabled (Exchange (dpr_cfg p)) \<and> DepositEnabled (Exchange (dpr_cfg p)))"

definition SetDepositNotifier :: "(deposit \<Rightarrow> unit dbtx) \<Rightarrow> deposit_processor \<Rightarrow> deposit_processor" where
  "SetDepositNotifier n p = p\<lparr>dpr_webhook := Some n\<rparr>"

definition DepositConfirmDepth :: "deposit_processor \<Rightarrow> int" where
  "DepositConfirmDepth p =
     (if 0 < ExConfirmDepth (Exchange (dpr_cfg p)) then ExConfirmDepth (Exchange (dpr_cfg p))
      else IxConfirmDepth (Indexer (dpr_cfg p)))"

definition IsWatchToken :: "deposit_processor \<Rightarrow> string \<Rightarrow> bool" where
  "IsWatchToken p contract \<longleftrightarrow> to_lower contract \<in> dpr_tokens p"

text \<open>The tail of \<open>captureAndCredit\<close>: credit the ledger once, mark the deposit, notify.\<close>

definition credit_once :: "deposit_processor \<Rightarrow> time \<Rightarrow> capture_deposit_params \<Rightarrow> int \<Rightarrow> unit dbtx" where
  "credit_once dp now p depID =
     (let ch = dpr_store dp in
      bindT (getT (hasLedgerEntryTx ch depID LedgerDepositCredit)) (\<lambda>hasCredit.
      if hasCredit then MarkDepositCreditedTx ch now depID
      else
        bindT (creditDepositTx ch now (cd_user p) (cd_token p) (cd_amount p) depID) (\<lambda>_.
        bindT (MarkDepositCreditedTx ch now depID) (\<lambda>_.
        case dpr_webhook dp of
          None \<Rightarrow> retT ()
        | Some n \<Rightarrow>
            bindT (GetDepositByKeyTx ch (cd_tx_hash p) (cd_log_index p)) (\<lambda>dep. n dep)))))"

definition captureAndCredit :: "deposit_processor \<Rightarrow> time \<Rightarrow> capture_deposit_params \<Rightarrow> unit dbtx" where
  "captureAndCredit dp now p =
     (let ch = dpr_store dp in
      bindT (InsertDepositTx ch now p) (\<lambda>depID0.
      bindT (GetDepositByKeyTx ch (cd_tx_hash p) (cd_log_index p)) (\<lambda>dep.
      let depID = (if depID0 = 0 then dep_id dep else depID0) in
      case dep_status dep of
        DepositStatusCredited \<Rightarrow> retT ()
      | DepositStatusOrphaned \<Rightarrow>
          bindT (resetDepositForRecreditTx ch depID (cd_block p)) (\<lambda>_. credit_once dp now p depID)
      | DepositStatusPending \<Rightarrow> credit_once dp now p depID)))"

definition CaptureNativeTx ::
  "deposit_processor option \<Rightarrow> time \<Rightarrow> u64 \<Rightarrow> string \<Rightarrow> string \<Rightarrow> string \<Rightarrow> string \<Rightarrow> bool \<Rightarrow> unit dbtx" where
  "CaptureNativeTx d now blockNum txHash fr to valueWei txSuccess =
     (case d of
        None \<Rightarrow> retT ()
      | Some dp \<Rightarrow>
          if \<not> Enabled d \<or> \<not> txSuccess \<or> to = [] then retT ()
          else case dpr_registry dp of
            None \<Rightarrow> retT ()
          | Some reg \<Rightarrow>
              (case RegGet reg to of
                 None \<Rightarrow> retT ()
               | Some w \<Rightarrow>
                   if cus_type w \<noteq> WalletTypeDeposit \<or> \<not> cus_enabled w then retT ()
                   else if cus_user w = [] then retT ()
                   else case parseWei valueWei of
                     Inl _ \<Rightarrow> retT ()
                   | Inr val \<Rightarrow>
                       if val \<le> 0 then retT ()
                       else captureAndCredit dp now
                         \<lparr>cd_user = cus_user w, cd_address = to, cd_token = [], cd_amount = valueWei,
                          cd_tx_hash = txHash, cd_log_index = 0, cd_block = blockNum\<rparr>))"

definition CaptureERC20Transfer ::
  "deposit_processor option \<Rightarrow> time \<Rightarrow> u64 \<Rightarrow> string \<Rightarrow> nat \<Rightarrow> string \<Rightarrow> string \<Rightarrow> string \<Rightarrow> string \<Rightarrow> unit dbtx" where
  "CaptureERC20Transfer d now blockNum txHash logIndex contract fr to amountWei =
     (case d of
        None \<Rightarrow> retT ()
      | Some dp \<Rightarrow>
          if \<not> Enabled d \<or> to = [] then retT ()
          else if to_lower contract \<notin> dpr_tokens dp then retT ()
          else case dpr_registry dp of
            None \<Rightarrow> retT ()
          | Some reg \<Rightarrow>
              (case RegGet reg to of
                 None \<Rightarrow> retT ()
               | Some w \<Rightarrow>
                   if cus_type w \<noteq> WalletTypeDeposit \<or> \<not> cus_enabled w then retT ()
                   else if cus_user w = [] then retT ()
                   else case parseWei amountWei of
                     Inl _ \<Rightarrow> retT ()
                   | Inr val \<Rightarrow>
                       if val \<le> 0 then retT ()
                       else captureAndCredit dp now
                         \<lparr>cd_user = cus_user w, cd_address = to, cd_token = contract, cd_amount = amountWei,
                          cd_tx_hash = txHash, cd_log_index = logIndex, cd_block = blockNum\<rparr>))"

text \<open>The loop body of \<open>HandleReorgTx\<close>; \<open>dep\<close> is the row as it was before it was
  marked orphaned.\<close>

definition reverse_one :: "int \<Rightarrow> time \<Rightarrow> deposit \<Rightarrow> unit dbtx" where
  "reverse_one ch now dep =
     (if dep_status dep \<noteq> DepositStatusCredited then retT ()
      else
        bindT (getT (hasLedgerEntryTx ch (dep_id dep) LedgerDepositReverse)) (\<lambda>reversed.
        if reversed then retT ()
        else
          bindT (getT (hasLedgerEntryTx ch (dep_id dep) LedgerDepositCredit)) (\<lambda>hasCredit.
          if \<not> hasCredit then retT ()
          else reverseDepositTx ch now (dep_user dep) (dep_token dep) (dep_amount dep) (dep_id dep))))"

definition HandleReorgTx :: "deposit_processor option \<Rightarrow> time \<Rightarrow> u64 \<Rightarrow> unit dbtx" where
  "HandleReorgTx d now fromBlock =
     (case d of
        None \<Rightarrow> retT ()
      | Some dp \<Rightarrow>
          if \<not> Enabled d then retT ()
          else
            bindT (OrphanDepositsFromBlockTx (dpr_store dp) fromBlock) (\<lambda>deps.
            forT deps (reverse_one (dpr_store dp) now)))"

definition HandleReorg :: "deposit_processor option \<Rightarrow> time \<Rightarrow> u64 \<Rightarrow> unit dbtx" where
  "HandleReorg d now fromBlock =
     (if \<not> Enabled d then retT () else run_tx (HandleReorgTx d now fromBlock))"

subsection \<open>The contract of the notifier\<close>

text \<open>A notifier writes its own outbox and nothing else.\<close>

definition same_but_wh :: "db \<Rightarrow> db \<Rightarrow> bool" where
  "same_but_wh d d' \<longleftrightarrow>
     d' = d\<lparr>ctrs := (ctrs d)\<lparr>ai_wh_outbox := ai_wh_outbox (ctrs d')\<rparr>, wh_outbox := wh_outbox d'\<rparr>"

lemma same_but_wh_refl [simp]: "same_but_wh d d"
  by (simp add: same_but_wh_def)

lemma same_but_wh_frame:
  assumes "same_but_wh d d'"
  shows "accounts d' = accounts d" "entries d' = entries d" "deposits d' = deposits d"
    "withdraws d' = withdraws d"
proof -
  obtain c ob where e: "d' = d\<lparr>ctrs := c, wh_outbox := ob\<rparr>" using assms unfolding same_but_wh_def by blast
  show "accounts d' = accounts d" "entries d' = entries d" "deposits d' = deposits d" "withdraws d' = withdraws d"
    unfolding e by simp_all
qed

locale deposit_capture =
  fixes dp :: deposit_processor
  assumes webhook_frame: "dpr_webhook dp = Some n \<Longrightarrow> same_but_wh d (snd (n dep d))"

interpretation plain_capture: deposit_capture "NewDepositProcessor cfg store reg" for cfg store reg
  by unfold_locales (simp add: NewDepositProcessor_def)

subsection \<open>The statements\<close>

lemma same_but_ledger_frame:
  assumes "same_but_ledger d d'"
  shows "deposits d' = deposits d" "withdraws d' = withdraws d" "ai_deposits (ctrs d') = ai_deposits (ctrs d)"
    "trackers d' = trackers d" "wh_outbox d' = wh_outbox d"
proof -
  note eq = assms [unfolded same_but_ledger_def, THEN conjunct1]
  show "deposits d' = deposits d" using arg_cong [where f = deposits, OF eq] by simp
  show "withdraws d' = withdraws d" using arg_cong [where f = withdraws, OF eq] by simp
  show "ai_deposits (ctrs d') = ai_deposits (ctrs d)"
    using arg_cong [where f = "\<lambda>d. ai_deposits (ctrs d)", OF eq] by simp
  show "trackers d' = trackers d" using arg_cong [where f = trackers, OF eq] by simp
  show "wh_outbox d' = wh_outbox d" using arg_cong [where f = wh_outbox, OF eq] by simp
qed

definition dep_find :: "int \<Rightarrow> capture_deposit_params \<Rightarrow> db \<Rightarrow> deposit option" where
  "dep_find ch p d = List.find (deposit_match ch (cd_tx_hash p) (cd_log_index p)) (deposits d)"

definition new_deposit :: "int \<Rightarrow> time \<Rightarrow> capture_deposit_params \<Rightarrow> db \<Rightarrow> deposit" where
  "new_deposit ch now p d =
     \<lparr>dep_id = ai_deposits (ctrs d), dep_chain = ch, dep_user = cd_user p,
      dep_address = to_lower (cd_address p), dep_token = normToken (cd_token p),
      dep_amount = cd_amount p, dep_tx_hash = to_lower (cd_tx_hash p),
      dep_log_index = cd_log_index p, dep_block = cd_block p,
      dep_status = DepositStatusPending, dep_credited_at = None, dep_created = now\<rparr>"

lemma InsertDepositTx_eq:
  "InsertDepositTx ch now p d =
     (case dep_find ch p d of
        Some r \<Rightarrow> (Inr 0, d\<lparr>ctrs := (ctrs d)\<lparr>ai_deposits := ai_deposits (ctrs d) + 1\<rparr>\<rparr>)
      | None \<Rightarrow> (Inr (ai_deposits (ctrs d)),
          d\<lparr>ctrs := (ctrs d)\<lparr>ai_deposits := ai_deposits (ctrs d) + 1\<rparr>,
            deposits := deposits d @ [new_deposit ch now p d]\<rparr>))"
  by (simp add: InsertDepositTx_def Let_def dep_find_def new_deposit_def split: option.splits)

lemma new_deposit_match: "deposit_match ch (cd_tx_hash p) (cd_log_index p) (new_deposit ch now p d)"
  by (simp add: deposit_match_def new_deposit_def)

lemma dep_find_insert:
  "dep_find ch p (snd (InsertDepositTx ch now p d)) =
     Some (case dep_find ch p d of None \<Rightarrow> new_deposit ch now p d | Some r \<Rightarrow> r)"
proof (cases "dep_find ch p d")
  case None
  then show ?thesis using new_deposit_match [of ch p now d]
    by (simp add: InsertDepositTx_eq dep_find_def find_append)
next
  case (Some r)
  then show ?thesis by (simp add: InsertDepositTx_eq) (simp add: dep_find_def)
qed

lemma captureAndCredit_eq:
  fixes dp now p d
  defines "ch \<equiv> dpr_store dp"
  defines "d0 \<equiv> snd (InsertDepositTx ch now p d)"
    and "dep \<equiv> (case dep_find ch p d of None \<Rightarrow> new_deposit ch now p d | Some r \<Rightarrow> r)"
  shows "captureAndCredit dp now p d =
    (case dep_status dep of
       DepositStatusCredited \<Rightarrow> (Inr (), d0)
     | DepositStatusOrphaned \<Rightarrow>
         credit_once dp now p (dep_id dep) (snd (resetDepositForRecreditTx ch (dep_id dep) (cd_block p) d0))
     | DepositStatusPending \<Rightarrow> credit_once dp now p (dep_id dep) d0)"
proof -
  have get: "GetDepositByKeyTx ch (cd_tx_hash p) (cd_log_index p) d0 = (Inr dep, d0)"
    using dep_find_insert [of ch p now d]
    by (simp add: GetDepositByKeyTx_def getDepositByKey_def d0_def dep_def dep_find_def)
  obtain i where i: "InsertDepositTx ch now p d = (Inr i, d0)" "i = 0 \<or> i = dep_id dep"
    by (cases "dep_find ch p d") (auto simp: InsertDepositTx_eq d0_def dep_def new_deposit_def)
  then show ?thesis using get
    by (auto simp: captureAndCredit_def Let_def ch_def [symmetric] resetDepositForRecreditTx_def
        split: deposit_status.splits)
qed

subsection \<open>The ledger invariant\<close>

lemma posting_inv_snd:
  "ledger_inv d \<Longrightarrow> ledger_inv (snd (creditDepositTx ch now u t a i d))"
  "ledger_inv d \<Longrightarrow> ledger_inv (snd (reverseDepositTx ch now u t a i d))"
  "ledger_inv d \<Longrightarrow> ledger_inv (snd (freezeWithdrawTx ch now u t a i d))"
  "ledger_inv d \<Longrightarrow> ledger_inv (snd (unfreezeWithdrawTx ch now u t a i d))"
  "ledger_inv d \<Longrightarrow> ledger_inv (snd (debitWithdrawTx ch now u t a i d))"
  by (metis prod.collapse credit.post_inv, metis prod.collapse reverse.post_inv,
      metis prod.collapse freeze.post_inv, metis prod.collapse unfreeze.post_inv,
      metis prod.collapse debit.post_inv)

lemma deposit_stmts_inv [simp]:
  "ledger_inv (snd (InsertDepositTx ch now p d)) = ledger_inv d"
  "ledger_inv (snd (MarkDepositCreditedTx ch now i d)) = ledger_inv d"
  "ledger_inv (snd (resetDepositForRecreditTx ch i b d)) = ledger_inv d"
  "ledger_inv (snd (OrphanDepositsFromBlockTx ch b d)) = ledger_inv d"
  "ledger_inv (snd (GetDepositByKeyTx ch h j d)) = ledger_inv d"
  by (rule ledger_inv_cong; simp add: InsertDepositTx_eq MarkDepositCreditedTx_def
      resetDepositForRecreditTx_def OrphanDepositsFromBlockTx_def GetDepositByKeyTx_def bindT_apply
      split: option.splits)+

context deposit_capture
begin

lemma credit_once_inv: "ledger_inv d \<Longrightarrow> ledger_inv (snd (credit_once dp now p i d))"
proof -
  assume d: "ledger_inv d"
  have n: "ledger_inv (snd (n dep x))" if "dpr_webhook dp = Some n" "ledger_inv x" for n dep x
    using ledger_inv_cong [OF same_but_wh_frame(1,2) [OF webhook_frame [OF that(1)]]] that(2) by simp
  show ?thesis
    unfolding credit_once_def Let_def
    by (auto simp: d n intro!: bindT_snd [where P = ledger_inv] posting_inv_snd split: option.splits)
qed

lemma captureAndCredit_inv: "ledger_inv d \<Longrightarrow> ledger_inv (snd (captureAndCredit dp now p d))"
  by (simp add: captureAndCredit_eq credit_once_inv split: deposit_status.splits)

end

lemma reverse_one_inv: "ledger_inv d \<Longrightarrow> ledger_inv (snd (reverse_one ch now dep d))"
  by (simp add: reverse_one_def posting_inv_snd)

lemma HandleReorgTx_inv:
  assumes "ledger_inv d"
  shows "ledger_inv (snd (HandleReorgTx dp now b d))"
  using assms
  by (auto simp: HandleReorgTx_def split: option.splits
      intro!: bindT_snd [where P = ledger_inv] forT_snd [where P = ledger_inv] reverse_one_inv)

subsection \<open>A captured deposit is credited, and stays so\<close>

definition mark_credited :: "int \<Rightarrow> time \<Rightarrow> int \<Rightarrow> deposit list \<Rightarrow> deposit list" where
  "mark_credited ch now i = upd_where
     (\<lambda>r. dep_id r = i \<and> dep_chain r = ch \<and> dep_status r \<in> {DepositStatusPending, DepositStatusOrphaned})
     (\<lambda>r. r\<lparr>dep_status := DepositStatusCredited, dep_credited_at := Some now\<rparr>)"

lemma MarkDepositCreditedTx_eq:
  "MarkDepositCreditedTx ch now i d = (Inr (), d\<lparr>deposits := mark_credited ch now i (deposits d)\<rparr>)"
  by (simp add: MarkDepositCreditedTx_def mark_credited_def)

lemma find_mark_credited:
  assumes "List.find (deposit_match ch h j) t = Some r"
  shows "\<exists>r'. List.find (deposit_match ch h j) (mark_credited ch now (dep_id r) t) = Some r' \<and>
    dep_status r' = DepositStatusCredited"
proof -
  have "List.find (deposit_match ch h j) (mark_credited ch now (dep_id r) t) =
      map_option (\<lambda>r'. if dep_id r' = dep_id r \<and> dep_chain r' = ch \<and>
        dep_status r' \<in> {DepositStatusPending, DepositStatusOrphaned}
        then r'\<lparr>dep_status := DepositStatusCredited, dep_credited_at := Some now\<rparr> else r') (List.find (deposit_match ch h j) t)"
    unfolding mark_credited_def by (rule find_upd_where) (simp add: deposit_match_def)
  moreover have "dep_chain r = ch" using find_SomeD [OF assms] by (simp add: deposit_match_def)
  ultimately show ?thesis using assms by (cases "dep_status r") auto
qed

lemma find_reset:
  "List.find (deposit_match ch h j) (deposits (snd (resetDepositForRecreditTx ch i b d))) =
     map_option (\<lambda>r. if dep_id r = i \<and> dep_chain r = ch \<and> dep_status r = DepositStatusOrphaned
       then r\<lparr>dep_status := DepositStatusPending, dep_block := b, dep_credited_at := None\<rparr> else r)
     (List.find (deposit_match ch h j) (deposits d))"
  by (simp add: resetDepositForRecreditTx_def) (rule find_upd_where, simp add: deposit_match_def)

context deposit_capture
begin

lemma credit_once_okE:
  assumes "accounts_ok d" "credit_once dp now p i d = (Inr u, d')"
  obtains (already) "hasLedgerEntryTx (dpr_store dp) i LedgerDepositCredit d"
      "d' = d\<lparr>deposits := mark_credited (dpr_store dp) now i (deposits d)\<rparr>"
  | (posted) v d1 where "\<not> hasLedgerEntryTx (dpr_store dp) i LedgerDepositCredit d"
      "creditDepositTx (dpr_store dp) now (cd_user p) (cd_token p) (cd_amount p) i d = (Inr v, d1)"
      "same_but_wh (d1\<lparr>deposits := mark_credited (dpr_store dp) now i (deposits d1)\<rparr>) d'"
proof (cases "hasLedgerEntryTx (dpr_store dp) i LedgerDepositCredit d")
  case True
  with assms(2) show thesis by (intro already) (simp_all add: credit_once_def Let_def MarkDepositCreditedTx_eq)
next
  case False
  with assms(2) obtain v d1 where c: "creditDepositTx (dpr_store dp) now (cd_user p) (cd_token p) (cd_amount p) i d = (Inr v, d1)"
    and rest: "(case dpr_webhook dp of None \<Rightarrow> retT ()
       | Some n \<Rightarrow> bindT (GetDepositByKeyTx (dpr_store dp) (cd_tx_hash p) (cd_log_index p)) (\<lambda>dep. n dep))
       (d1\<lparr>deposits := mark_credited (dpr_store dp) now i (deposits d1)\<rparr>) = (Inr u, d')"
    by (auto simp: credit_once_def Let_def MarkDepositCreditedTx_eq elim!: bindT_InrE)
  have "same_but_wh (d1\<lparr>deposits := mark_credited (dpr_store dp) now i (deposits d1)\<rparr>) d'"
  proof (cases "dpr_webhook dp")
    case None
    with rest show ?thesis by simp
  next
    case (Some n)
    with rest obtain dep where "n dep (d1\<lparr>deposits := mark_credited (dpr_store dp) now i (deposits d1)\<rparr>) = (Inr u, d')"
      by (auto simp: GetDepositByKeyTx_def elim!: bindT_InrE)
    then show ?thesis using webhook_frame [OF Some] by (metis snd_conv)
  qed
  with False c show thesis by (rule posted)
qed

lemma credit_once_deposits:
  assumes "accounts_ok d" "credit_once dp now p i d = (Inr u, d')"
  shows "deposits d' = mark_credited (dpr_store dp) now i (deposits d)"
  using assms
proof (cases rule: credit_once_okE)
  case (posted v d1)
  then show ?thesis
    using same_but_wh_frame(3) [OF posted(3)] same_but_ledger_frame(1) [OF credit.post_frame [OF assms(1) posted(2)]]
    by simp
qed simp

lemma captureAndCredit_credited:
  assumes "accounts_ok d" "captureAndCredit dp now p d = (Inr u, d')"
  shows "\<exists>r. dep_find (dpr_store dp) p d' = Some r \<and> dep_status r = DepositStatusCredited"
proof -
  let ?ch = "dpr_store dp"
  define d0 where "d0 = snd (InsertDepositTx ?ch now p d)"
  define dep where "dep = (case dep_find ?ch p d of None \<Rightarrow> new_deposit ?ch now p d | Some r \<Rightarrow> r)"
  have f0: "dep_find ?ch p d0 = Some dep" unfolding d0_def dep_def by (rule dep_find_insert)
  have ok0: "accounts_ok d0" using assms(1)
    by (simp add: accounts_ok_def d0_def InsertDepositTx_eq split: option.splits)
  note eq = captureAndCredit_eq [of dp now p d, folded d0_def dep_def]
  show ?thesis
  proof (cases "dep_status dep")
    case DepositStatusCredited
    with assms(2) eq f0 show ?thesis by auto
  next
    case DepositStatusPending
    with assms(2) eq have "credit_once dp now p (dep_id dep) d0 = (Inr u, d')" by simp
    from credit_once_deposits [OF ok0 this] find_mark_credited [OF f0 [unfolded dep_find_def]]
    show ?thesis by (simp add: dep_find_def)
  next
    case DepositStatusOrphaned
    define d1 where "d1 = snd (resetDepositForRecreditTx ?ch (dep_id dep) (cd_block p) d0)"
    have ok1: "accounts_ok d1" using ok0 by (simp add: accounts_ok_def d1_def resetDepositForRecreditTx_def)
    obtain dep1 where f1: "dep_find ?ch p d1 = Some dep1" "dep_id dep1 = dep_id dep"
      using f0 by (auto simp: d1_def dep_find_def find_reset)
    from DepositStatusOrphaned assms(2) eq have "credit_once dp now p (dep_id dep) d1 = (Inr u, d')"
      by (simp add: d1_def)
    from credit_once_deposits [OF ok1 this] find_mark_credited [OF f1(1) [unfolded dep_find_def]] f1(2)
    show ?thesis by (simp add: dep_find_def)
  qed
qed

lemma captureAndCredit_again:
  assumes "accounts_ok d" "captureAndCredit dp now p d = (Inr u, d')"
    "sql_eq (cd_tx_hash q) (cd_tx_hash p)" "cd_log_index q = cd_log_index p"
  shows "captureAndCredit dp now' q d' =
    (Inr (), d'\<lparr>ctrs := (ctrs d')\<lparr>ai_deposits := ai_deposits (ctrs d') + 1\<rparr>\<rparr>)"
proof -
  obtain r where r: "dep_find (dpr_store dp) p d' = Some r" "dep_status r = DepositStatusCredited"
    using captureAndCredit_credited [OF assms(1,2)] by blast
  then have "dep_find (dpr_store dp) q d' = Some r"
    using assms(3,4) by (simp add: dep_find_def deposit_match_cong)
  with r(2) show ?thesis by (simp add: captureAndCredit_eq InsertDepositTx_eq)
qed

end

subsection \<open>No double credit\<close>

text \<open>How often the journal credits, or reverses, a deposit.\<close>

definition dep_count :: "int \<Rightarrow> int \<Rightarrow> ledger_type \<Rightarrow> db \<Rightarrow> nat" where
  "dep_count ch i ty d = length (filter (\<lambda>e. ler_chain e = ch \<and> ler_ref_type e = Some ''deposit'' \<and>
     ler_ref_id e = Some i \<and> ler_type e = ty) (entries d))"

definition credits_once :: "db \<Rightarrow> bool" where
  "credits_once d \<longleftrightarrow> (\<forall>ch i. dep_count ch i LedgerDepositReverse d \<le> dep_count ch i LedgerDepositCredit d \<and>
     dep_count ch i LedgerDepositCredit d \<le> 1)"

lemma hasLedgerEntryTx_count: "hasLedgerEntryTx ch i ty d \<longleftrightarrow> 0 < dep_count ch i ty d"
  by (auto simp: hasLedgerEntryTx_iff dep_count_def filter_empty_conv)

lemma dep_count_cong: "entries d' = entries d \<Longrightarrow> dep_count ch i ty d' = dep_count ch i ty d"
  by (simp add: dep_count_def)

lemma credits_once_cong: "entries d' = entries d \<Longrightarrow> credits_once d' = credits_once d"
  by (simp add: credits_once_def dep_count_def)

lemma dep_count_posted:
  "dep_count ch i ty (posted ch' now u t (std_op ty' amt ref) d) = dep_count ch i ty d +
     (if ch = ch' \<and> i = ref \<and> ty = ty' \<and> type_ref ty' = ''deposit'' then 1 else 0)"
  by (auto simp: dep_count_def entries_posted)

lemma credits_once_credit:
  assumes "accounts_ok d" "credits_once d" "\<not> hasLedgerEntryTx ch i LedgerDepositCredit d"
  shows "credits_once (snd (creditDepositTx ch now u t a i d))"
  using assms unfolding hasLedgerEntryTx_count
  by (auto simp: credit.post_cases credits_once_def dep_count_posted split: sum.splits) (metis le_SucI)

lemma credits_once_reverse:
  assumes "accounts_ok d" "credits_once d" "\<not> hasLedgerEntryTx ch i LedgerDepositReverse d"
    "hasLedgerEntryTx ch i LedgerDepositCredit d"
  shows "credits_once (snd (reverseDepositTx ch now u t a i d))"
  using assms unfolding hasLedgerEntryTx_count
  by (auto simp: reverse.post_cases credits_once_def dep_count_posted split: sum.splits)

lemma deposit_stmts_once [simp]:
  "credits_once (snd (InsertDepositTx ch now p d)) = credits_once d"
  "credits_once (snd (MarkDepositCreditedTx ch now i d)) = credits_once d"
  "credits_once (snd (resetDepositForRecreditTx ch i b d)) = credits_once d"
  "credits_once (snd (OrphanDepositsFromBlockTx ch b d)) = credits_once d"
  "credits_once (snd (GetDepositByKeyTx ch h j d)) = credits_once d"
  by (rule credits_once_cong; simp add: InsertDepositTx_eq MarkDepositCreditedTx_def
      resetDepositForRecreditTx_def OrphanDepositsFromBlockTx_def GetDepositByKeyTx_def bindT_apply
      split: option.splits)+

context deposit_capture
begin

lemma credit_once_once:
  assumes "accounts_ok d" "credits_once d"
  shows "credits_once (snd (credit_once dp now p i d))"
proof (cases "hasLedgerEntryTx (dpr_store dp) i LedgerDepositCredit d")
  case True
  with assms(2) show ?thesis by (simp add: credit_once_def Let_def)
next
  case False
  have c: "credits_once (snd (creditDepositTx (dpr_store dp) now (cd_user p) (cd_token p) (cd_amount p) i d))"
    by (rule credits_once_credit [OF assms False])
  have n: "credits_once (snd (n dep x))" if "dpr_webhook dp = Some n" "credits_once x" for n dep x
    using credits_once_cong [OF same_but_wh_frame(2) [OF webhook_frame [OF that(1)]]] that(2) by simp
  have "credits_once (snd (bindT (creditDepositTx (dpr_store dp) now (cd_user p) (cd_token p) (cd_amount p) i) (\<lambda>_.
      bindT (MarkDepositCreditedTx (dpr_store dp) now i) (\<lambda>_. case dpr_webhook dp of None \<Rightarrow> retT ()
        | Some n \<Rightarrow> bindT (GetDepositByKeyTx (dpr_store dp) (cd_tx_hash p) (cd_log_index p)) (\<lambda>dep. n dep))) d))"
    by (auto simp: c n GetDepositByKeyTx_def intro!: bindT_snd [where P = credits_once] split: option.splits)
  with False show ?thesis by (simp add: credit_once_def Let_def)
qed

lemma captureAndCredit_once:
  assumes "accounts_ok d" "credits_once d"
  shows "credits_once (snd (captureAndCredit dp now p d))"
proof -
  have "accounts_ok (snd (InsertDepositTx ch now p d))" "accounts_ok (snd (resetDepositForRecreditTx ch i b d0)) = accounts_ok d0"
    for ch i b d0
    using assms(1) by (simp_all add: accounts_ok_def InsertDepositTx_eq resetDepositForRecreditTx_def split: option.splits)
  with assms(2) show ?thesis
    by (simp add: captureAndCredit_eq credit_once_once split: deposit_status.splits)
qed

end

lemma reverse_one_once:
  "accounts_ok d \<Longrightarrow> credits_once d \<Longrightarrow> credits_once (snd (reverse_one ch now dep d))"
  by (simp add: reverse_one_def credits_once_reverse)

lemma HandleReorgTx_once:
  assumes "ledger_inv d" "credits_once d"
  shows "credits_once (snd (HandleReorgTx dp now b d))"
proof (cases "Enabled dp")
  case False
  with assms show ?thesis by (auto simp: HandleReorgTx_def split: option.splits)
next
  case True
  then obtain q where q: "dp = Some q" by (auto simp: Enabled_def split: option.splits)
  have "(\<lambda>d. ledger_inv d \<and> credits_once d) (snd (bindT (OrphanDepositsFromBlockTx (dpr_store q) b)
      (\<lambda>deps. forT deps (reverse_one (dpr_store q) now)) d))"
    by (rule bindT_snd, simp add: assms, rule forT_snd) (auto simp: reverse_one_inv reverse_one_once)
  with True q show ?thesis by (simp add: HandleReorgTx_def)
qed

subsection \<open>Ids\<close>

text \<open>Deposit ids come from the counter, and the journal refers only to ids that were
  drawn.\<close>

definition deposits_inv :: "db \<Rightarrow> bool" where
  "deposits_inv d \<longleftrightarrow> distinct (map dep_id (deposits d)) \<and>
     (\<forall>r\<in>set (deposits d). dep_id r < ai_deposits (ctrs d)) \<and>
     (\<forall>e\<in>set (entries d). \<forall>i. ler_ref_type e = Some ''deposit'' \<and> ler_ref_id e = Some i \<longrightarrow>
        i < ai_deposits (ctrs d))"

lemma deposits_inv_fresh: "deposits_inv d \<Longrightarrow> \<not> hasLedgerEntryTx ch (ai_deposits (ctrs d)) ty d"
  by (auto simp: deposits_inv_def hasLedgerEntryTx_iff)

lemma deposits_inv_cong:
  assumes "map dep_id (deposits d') = map dep_id (deposits d)" "entries d' = entries d"
    "ai_deposits (ctrs d) \<le> ai_deposits (ctrs d')" "deposits_inv d"
  shows "deposits_inv d'"
proof -
  have "dep_id ` set (deposits d') = dep_id ` set (deposits d)"
    using assms(1) by (metis list.set_map)
  then have "\<forall>i\<in>dep_id ` set (deposits d'). i < ai_deposits (ctrs d)" using assms(4) by (simp add: deposits_inv_def)
  then have "\<forall>r\<in>set (deposits d'). dep_id r < ai_deposits (ctrs d)" by simp
  then show ?thesis using assms unfolding deposits_inv_def by fastforce
qed

lemma deposits_inv_insert:
  assumes "deposits_inv d"
  shows "deposits_inv (snd (InsertDepositTx ch now p d))"
proof (cases "dep_find ch p d")
  case None
  with assms show ?thesis
    by (force simp: InsertDepositTx_eq deposits_inv_def new_deposit_def)
next
  case (Some r)
  with assms show ?thesis by (force simp: InsertDepositTx_eq deposits_inv_def)
qed

lemma map_dep_id_mark [simp]: "map dep_id (mark_credited ch now i t) = map dep_id t"
  by (simp add: mark_credited_def map_upd_where)

lemma deposits_inv_reset: "deposits_inv d \<Longrightarrow> deposits_inv (snd (resetDepositForRecreditTx ch i b d))"
  by (rule deposits_inv_cong) (simp_all add: resetDepositForRecreditTx_def map_upd_where)

lemma deposits_inv_orphan: "deposits_inv d \<Longrightarrow> deposits_inv (snd (OrphanDepositsFromBlockTx ch b d))"
  by (rule deposits_inv_cong) (simp_all add: OrphanDepositsFromBlockTx_def bindT_apply map_upd_where)

lemma deposits_inv_posted:
  assumes "deposits_inv d" "ref < ai_deposits (ctrs d)"
  shows "deposits_inv (posted ch now u t (std_op ty amt ref) d)"
proof -
  note f = same_but_ledger_frame [OF same_but_ledger_posted [of d ch now u t "std_op ty amt ref"]]
  show ?thesis using assms unfolding deposits_inv_def f
    by (auto simp: entries_posted)
qed

context deposit_capture
begin

lemma credit_once_deposits_inv:
  assumes "accounts_ok d" "deposits_inv d" "i < ai_deposits (ctrs d)" "credit_once dp now p i d = (Inr u, d')"
  shows "deposits_inv d'"
  using assms(1,4)
proof (cases rule: credit_once_okE)
  case already
  show ?thesis unfolding already(2) by (rule deposits_inv_cong [OF _ _ _ assms(2)]) simp_all
next
  case (posted v d1)
  then obtain amt where "d1 = Exchange_Ledger.posted (dpr_store dp) now (cd_user p) (cd_token p) (std_op LedgerDepositCredit amt i) d"
    using credit.post_okE [OF assms(1) posted(2)] by blast
  then have "deposits_inv d1" using assms(2,3) by (simp add: deposits_inv_posted)
  then have "deposits_inv (d1\<lparr>deposits := mark_credited (dpr_store dp) now i (deposits d1)\<rparr>)" (is "deposits_inv ?d2")
    by (rule deposits_inv_cong [rotated 3]) simp_all
  moreover have "ai_deposits (ctrs ?d2) \<le> ai_deposits (ctrs d')"
    using arg_cong [where f = "\<lambda>d. ai_deposits (ctrs d)", OF posted(3) [unfolded same_but_wh_def]] by simp
  ultimately show ?thesis
    by (intro deposits_inv_cong [where d' = d', OF _ _ _ \<open>deposits_inv ?d2\<close>])
      (simp_all add: same_but_wh_frame [OF posted(3)])
qed

lemma captureAndCredit_deposits_inv:
  assumes "accounts_ok d" "deposits_inv d" "captureAndCredit dp now p d = (Inr u, d')"
  shows "deposits_inv d'"
proof -
  let ?ch = "dpr_store dp"
  define d0 where "d0 = snd (InsertDepositTx ?ch now p d)"
  define dep where "dep = (case dep_find ?ch p d of None \<Rightarrow> new_deposit ?ch now p d | Some r \<Rightarrow> r)"
  define d1 where "d1 = snd (resetDepositForRecreditTx ?ch (dep_id dep) (cd_block p) d0)"
  have i0: "deposits_inv d0" unfolding d0_def by (rule deposits_inv_insert [OF assms(2)])
  have "dep \<in> set (deposits d0)"
    using dep_find_insert [of ?ch p now d] find_SomeD unfolding d0_def dep_def dep_find_def by fastforce
  then have lt: "dep_id dep < ai_deposits (ctrs d0)" using i0 by (simp add: deposits_inv_def)
  have i1: "deposits_inv d1" unfolding d1_def by (rule deposits_inv_reset [OF i0])
  have lt1: "dep_id dep < ai_deposits (ctrs d1)" using lt by (simp add: d1_def resetDepositForRecreditTx_def)
  have a: "accounts_ok d0" "accounts_ok d1" using assms(1)
    by (simp_all add: accounts_ok_def d0_def d1_def InsertDepositTx_eq resetDepositForRecreditTx_def split: option.splits)
  show ?thesis using assms(3) credit_once_deposits_inv [OF a(1) i0 lt] credit_once_deposits_inv [OF a(2) i1 lt1] i0
    unfolding captureAndCredit_eq [of dp now p d, folded d0_def dep_def, folded d1_def]
    by (auto split: deposit_status.splits)
qed

text \<open>What a first capture adds to the ledger.\<close>

lemma captureAndCredit_balances:
  assumes ok: "accounts_ok d" and inv: "deposits_inv d" and new: "dep_find (dpr_store dp) p d = None"
    and run: "captureAndCredit dp now p d = (Inr u, d')"
  shows "acct_avail c v t d' = acct_avail c v t d +
      (if c = dpr_store dp \<and> sql_eq v (cd_user p) \<and> sql_eq t (normToken (cd_token p)) then wei_val (cd_amount p) else 0)"
    "acct_frozen c v t d' = acct_frozen c v t d"
    "liabilities c t d' = liabilities c t d +
      (if c = dpr_store dp \<and> sql_eq t (normToken (cd_token p)) then wei_val (cd_amount p) else 0)"
proof -
  let ?ch = "dpr_store dp"
  define d0 where "d0 = snd (InsertDepositTx ?ch now p d)"
  have acc: "accounts d0 = accounts d" and ent: "entries d0 = entries d"
    using new by (simp_all add: d0_def InsertDepositTx_eq)
  have ok0: "accounts_ok d0" using ok acc by (simp add: accounts_ok_def)
  have c1: "credit_once dp now p (ai_deposits (ctrs d)) d0 = (Inr u, d')"
    using run new by (simp add: captureAndCredit_eq d0_def new_deposit_def)
  have nh: "\<not> hasLedgerEntryTx ?ch (ai_deposits (ctrs d)) LedgerDepositCredit d0"
    using deposits_inv_fresh [OF inv] by (simp add: hasLedgerEntryTx_def ent)
  from ok0 c1 have "acct_avail c v t d' = acct_avail c v t d0 +
      (if c = ?ch \<and> sql_eq v (cd_user p) \<and> sql_eq t (normToken (cd_token p)) then wei_val (cd_amount p) else 0) \<and>
    acct_frozen c v t d' = acct_frozen c v t d0 \<and>
    liabilities c t d' = liabilities c t d0 +
      (if c = ?ch \<and> sql_eq t (normToken (cd_token p)) then wei_val (cd_amount p) else 0)"
  proof (cases rule: credit_once_okE)
    case already
    with nh show ?thesis by simp
  next
    case (posted w d1)
    have "accounts d' = accounts d1" using same_but_wh_frame(1) [OF posted(3)] by simp
    note cong = acct_cong [OF this]
    show ?thesis unfolding cong
      using credit.post_balances [OF ok0 posted(2)] credit.post_liabilities [OF ok0 posted(2)] by simp
  qed
  then show "acct_avail c v t d' = acct_avail c v t d +
      (if c = dpr_store dp \<and> sql_eq v (cd_user p) \<and> sql_eq t (normToken (cd_token p)) then wei_val (cd_amount p) else 0)"
    "acct_frozen c v t d' = acct_frozen c v t d"
    "liabilities c t d' = liabilities c t d +
      (if c = dpr_store dp \<and> sql_eq t (normToken (cd_token p)) then wei_val (cd_amount p) else 0)"
    using acct_cong [OF acc] by simp_all
qed

end

text \<open>A capture after the reversal of the deposit marks it credited and posts nothing: the
  old credit entry counts as the new one.\<close>

lemma recapture_no_credit:
  assumes "dep_find (dpr_store dp) p d = Some r" "dep_status r = DepositStatusOrphaned"
    "hasLedgerEntryTx (dpr_store dp) (dep_id r) LedgerDepositCredit d"
  obtains d' r' where "captureAndCredit dp now p d = (Inr (), d')" "accounts d' = accounts d" "entries d' = entries d"
    "dep_find (dpr_store dp) p d' = Some r'" "dep_status r' = DepositStatusCredited"
proof -
  let ?ch = "dpr_store dp"
  define d0 where "d0 = d\<lparr>ctrs := (ctrs d)\<lparr>ai_deposits := ai_deposits (ctrs d) + 1\<rparr>\<rparr>"
  define d1 where "d1 = snd (resetDepositForRecreditTx ?ch (dep_id r) (cd_block p) d0)"
  define d2 where "d2 = d1\<lparr>deposits := mark_credited ?ch now (dep_id r) (deposits d1)\<rparr>"
  have h: "hasLedgerEntryTx ?ch (dep_id r) LedgerDepositCredit d1"
    using assms(3) by (simp add: hasLedgerEntryTx_def d1_def d0_def resetDepositForRecreditTx_def)
  have run: "captureAndCredit dp now p d = (Inr (), d2)"
    using assms h by (simp add: captureAndCredit_eq InsertDepositTx_eq d0_def [symmetric] d1_def [symmetric]
        credit_once_def Let_def MarkDepositCreditedTx_eq d2_def)
  have f0: "dep_find ?ch p d0 = Some r" using assms(1) by (simp add: dep_find_def d0_def)
  then obtain r1 where f1: "dep_find ?ch p d1 = Some r1" "dep_id r1 = dep_id r"
    by (auto simp: dep_find_def d1_def find_reset)
  obtain r2 where "dep_find ?ch p d2 = Some r2" "dep_status r2 = DepositStatusCredited"
    using find_mark_credited [OF f1(1) [unfolded dep_find_def]] f1(2) by (auto simp: dep_find_def d2_def)
  with run show thesis
    by (intro that) (simp_all add: d2_def d1_def d0_def resetDepositForRecreditTx_def)
qed

subsection \<open>Reorganisations\<close>

definition revertible :: "int \<Rightarrow> db \<Rightarrow> deposit \<Rightarrow> bool" where
  "revertible ch d dep \<longleftrightarrow> dep_status dep = DepositStatusCredited \<and>
     hasLedgerEntryTx ch (dep_id dep) LedgerDepositCredit d \<and>
     \<not> hasLedgerEntryTx ch (dep_id dep) LedgerDepositReverse d"

lemma reverse_one_eq:
  "reverse_one ch now dep d =
     (if revertible ch d dep
      then reverseDepositTx ch now (dep_user dep) (dep_token dep) (dep_amount dep) (dep_id dep) d
      else (Inr (), d))"
  by (simp add: reverse_one_def revertible_def)

lemma revertible_other:
  assumes "accounts_ok d" "reverse_one ch now dep d = (Inr u, d')" "dep_id x \<noteq> dep_id dep"
  shows "revertible ch d' x = revertible ch d x"
proof (cases "revertible ch d dep")
  case True
  with assms(2) have "reverseDepositTx ch now (dep_user dep) (dep_token dep) (dep_amount dep) (dep_id dep) d = (Inr u, d')"
    by (simp add: reverse_one_eq)
  from reverse.post_okE [OF assms(1) this] obtain amt where
    "d' = posted ch now (dep_user dep) (dep_token dep) (std_op LedgerDepositReverse amt (dep_id dep)) d" by blast
  with assms(3) show ?thesis by (simp add: revertible_def hasLedgerEntryTx_count dep_count_posted)
next
  case False
  with assms(2) show ?thesis by (simp add: reverse_one_eq)
qed

definition revert_amount :: "int \<Rightarrow> string \<Rightarrow> db \<Rightarrow> deposit \<Rightarrow> int" where
  "revert_amount ch t d dep =
     (if revertible ch d dep \<and> sql_eq t (normToken (dep_token dep)) then wei_val (dep_amount dep) else 0)"

lemma reverse_one_liabilities:
  assumes "accounts_ok d" "reverse_one ch now dep d = (Inr u, d')"
  shows "liabilities ch t d' = liabilities ch t d - revert_amount ch t d dep"
  using assms reverse.post_liabilities [OF assms(1), of ch now "dep_user dep" "dep_token dep" "dep_amount dep" "dep_id dep" u d' ch t]
  by (auto simp: reverse_one_eq revert_amount_def split: if_splits)

lemma reverse_loop_liabilities:
  assumes "ledger_inv d" "distinct (map dep_id deps)" "forT deps (reverse_one ch now) d = (Inr u, d')"
  shows "liabilities ch t d' = liabilities ch t d - sum_list (map (revert_amount ch t d) deps)"
  using assms
proof (induction deps arbitrary: d)
  case Nil
  then show ?case by simp
next
  case (Cons dep deps)
  then obtain v d1 where one: "reverse_one ch now dep d = (Inr v, d1)"
    and rest: "forT deps (reverse_one ch now) d1 = (Inr u, d')" by (auto elim!: bindT_InrE)
  have inv1: "ledger_inv d1" using reverse_one_inv [OF Cons.prems(1), of ch now dep] one by simp
  have ok: "accounts_ok d" using Cons.prems(1) by simp
  have "revert_amount ch t d1 x = revert_amount ch t d x" if "x \<in> set deps" for x
  proof -
    have "dep_id x \<noteq> dep_id dep" using Cons.prems(2) that by (auto simp: rev_image_eqI)
    from revertible_other [OF ok one this] show ?thesis by (simp add: revert_amount_def)
  qed
  then have "sum_list (map (revert_amount ch t d1) deps) = sum_list (map (revert_amount ch t d) deps)"
    by (intro arg_cong [where f = sum_list] map_cong) simp_all
  moreover have "distinct (map dep_id deps)" using Cons.prems(2) by simp
  ultimately show ?case
    using Cons.IH [OF inv1 _ rest] reverse_one_liabilities [OF ok one, of t] by simp
qed

lemma OrphanDepositsFromBlockTx_eq:
  "OrphanDepositsFromBlockTx ch b d = (Inr (filter (orphan_where ch b) (deposits d)),
     d\<lparr>deposits := upd_where (orphan_where ch b) (\<lambda>r. r\<lparr>dep_status := DepositStatusOrphaned\<rparr>) (deposits d)\<rparr>)"
  by (simp add: OrphanDepositsFromBlockTx_def bindT_apply)

lemma reverse_loop_deposits:
  assumes "ledger_inv d" "forT deps (reverse_one ch now) d = (r, d')"
  shows "deposits d' = deposits d"
proof -
  have "(\<lambda>x. ledger_inv x \<and> deposits x = deposits d) (snd (forT deps (reverse_one ch now) d))"
  proof (rule forT_snd)
    fix dep :: deposit and x
    assume *: "ledger_inv x \<and> deposits x = deposits d"
    obtain r1 x1 where r1: "reverseDepositTx ch now (dep_user dep) (dep_token dep) (dep_amount dep) (dep_id dep) x = (r1, x1)"
      by fastforce
    have "deposits x1 = deposits x"
      using same_but_ledger_frame(1) [OF reverse.post_frame [OF _ r1]] * by simp
    with * r1 show "ledger_inv (snd (reverse_one ch now dep x)) \<and> deposits (snd (reverse_one ch now dep x)) = deposits d"
      using reverse_one_inv [of x ch now dep] by (simp add: reverse_one_eq)
  qed (use assms(1) in simp)
  with assms(2) show ?thesis by simp
qed

lemma HandleReorgTx_okE:
  assumes "Enabled (Some dp)" "HandleReorgTx (Some dp) now b d = (Inr u, d')"
  obtains d1 where "d1 = d\<lparr>deposits := upd_where (orphan_where (dpr_store dp) b)
      (\<lambda>r. r\<lparr>dep_status := DepositStatusOrphaned\<rparr>) (deposits d)\<rparr>"
    "forT (filter (orphan_where (dpr_store dp) b) (deposits d)) (reverse_one (dpr_store dp) now) d1 = (Inr u, d')"
  using assms by (auto simp: HandleReorgTx_def OrphanDepositsFromBlockTx_eq elim!: bindT_InrE)

end
