(* ===== verification/Outbox.thy ===== *)
theory Outbox
  imports Schema
begin

text \<open>
  The contract of the transactional outboxes. Three packages keep one
  (\<open>tx_status_outbox\<close>, \<open>webhook_outbox\<close>, \<open>sync_outbox\<close>) with the same protocol:
  a claim selects the ready rows in the order of their ids, marks them as being
  processed in the same transaction and returns them; a worker then marks each row done
  or puts it back. What the workers rely on is proved here once from the laws of the
  table operations.
\<close>

lemma forT_modT: "forT xs (\<lambda>x. modT (f x)) d = (Inr (), fold f xs d)"
  by (induction xs arbitrary: d) simp_all

lemma fold_upd_where_ids:
  assumes "\<And>r. rid (f r) = rid r" "\<And>r. f (f r) = f r"
  shows "fold (\<lambda>i. upd_where (\<lambda>r. rid r = i) f) ids t = upd_where (\<lambda>r. rid r \<in> set ids) f t"
proof (induction ids arbitrary: t)
  case Nil
  show ?case by (simp add: upd_where_def)
next
  case (Cons i ids)
  then show ?case by (auto simp: upd_where_def assms)
qed

locale outbox =
  fixes rows :: "'d \<Rightarrow> 'r list"
    and rid :: "'r \<Rightarrow> int"
    and rstatus :: "'r \<Rightarrow> outbox_status"
    and ready :: "time \<Rightarrow> 'r \<Rightarrow> bool"
    and claim :: "time \<Rightarrow> int \<Rightarrow> 'd \<Rightarrow> 'r list \<times> 'd"
    and taken :: "time \<Rightarrow> 'r \<Rightarrow> 'r"
    and finish :: "time \<Rightarrow> int \<Rightarrow> 'd \<Rightarrow> 'd"
    and finished :: "time \<Rightarrow> 'r \<Rightarrow> 'r"
  assumes ready_pending: "ready now r \<Longrightarrow> rstatus r = ObPending"
    and claim_batch: "fst (claim now n d) = sql_limit n (sort_key rid (filter (ready now) (rows d)))"
    and claim_rows: "rows (snd (claim now n d)) =
      upd_where (\<lambda>r. rid r \<in> rid ` set (fst (claim now n d))) (taken now) (rows d)"
    and taken_laws: "rid (taken now r) = rid r" "rstatus (taken now r) = ObProcessing"
    and finish_rows: "rows (finish now i d) = upd_where (\<lambda>r. rid r = i) (finished now) (rows d)"
    and finished_laws: "rid (finished now r) = rid r" "rstatus (finished now r) = ObDone"
begin

lemma claim_bound: "0 \<le> n \<Longrightarrow> int (length (fst (claim now n d))) \<le> n"
  by (simp add: claim_batch length_sql_limit)

lemma claimed_row:
  assumes "r \<in> set (fst (claim now n d))"
  shows "r \<in> set (rows d) \<and> ready now r \<and> rstatus r = ObPending"
  using assms sql_limit_set [of n "sort_key rid (filter (ready now) (rows d))"]
  by (auto simp: claim_batch ready_pending)

lemma claim_ids: "map rid (rows (snd (claim now n d))) = map rid (rows d)"
  by (simp add: claim_rows map_upd_where taken_laws)

lemma claimed_processing:
  assumes "r \<in> set (rows (snd (claim now n d)))" "rid r \<in> rid ` set (fst (claim now n d))"
  shows "rstatus r = ObProcessing"
  using set_upd_where [OF assms(1) [unfolded claim_rows]] assms(2)
  by (elim bexE) (simp add: taken_laws split: if_splits)

text \<open>No row is handed out twice: a later claim shares no id with an earlier one, unless
  the row was put back in between.\<close>

lemma claim_exclusive:
  "rid ` set (fst (claim now n d)) \<inter> rid ` set (fst (claim now' m (snd (claim now n d)))) = {}"
proof -
  have "rid r \<notin> rid ` set (fst (claim now n d))"
    if "r \<in> set (fst (claim now' m (snd (claim now n d))))" for r
    using claimed_row [OF that] claimed_processing [of r now n d] by auto
  then have "rid ` set (fst (claim now' m (snd (claim now n d)))) \<subseteq> - rid ` set (fst (claim now n d))"
    by (simp add: image_subset_iff del: image_iff)
  then show ?thesis by blast
qed

lemma unclaimed_row_kept:
  assumes "r \<in> set (rows d)" "rid r \<notin> rid ` set (fst (claim now n d))"
  shows "r \<in> set (rows (snd (claim now n d)))"
  unfolding claim_rows upd_where_def set_map
  by (rule image_eqI [where x = r]) (use assms in simp_all)

text \<open>The claim takes the oldest ready rows: a ready row is passed over only when the
  batch is full of rows with smaller or equal ids.\<close>

lemma claim_oldest_first:
  assumes "r \<in> set (rows d)" "ready now r" "r \<notin> set (fst (claim now n d))"
    and "q \<in> set (fst (claim now n d))"
  shows "rid q \<le> rid r"
proof -
  let ?s = "sort_key rid (filter (ready now) (rows d))"
  have "r \<in> set ?s" using assms by simp
  moreover have "r \<notin> set (take (nat n) ?s)" using assms by (simp add: claim_batch sql_limit_def)
  ultimately have "r \<in> set (drop (nat n) ?s)"
    by (metis Un_iff append_take_drop_id set_append)
  moreover have "q \<in> set (take (nat n) ?s)" using assms by (simp add: claim_batch sql_limit_def)
  moreover have "sorted (map rid (take (nat n) ?s @ drop (nat n) ?s))" by simp
  then have "\<forall>x\<in>set (map rid (take (nat n) ?s)). \<forall>y\<in>set (map rid (drop (nat n) ?s)). x \<le> y"
    unfolding map_append sorted_append by (elim conjE)
  ultimately show ?thesis unfolding set_map by (blast intro: imageI)
qed

lemma finish_done:
  assumes "r \<in> set (rows (finish now i d))" "rid r = i"
  shows "rstatus r = ObDone"
  using set_upd_where [OF assms(1) [unfolded finish_rows]] assms(2)
  by (elim bexE) (simp add: finished_laws split: if_splits)

lemma finished_not_claimed: "i \<notin> rid ` set (fst (claim now' n (finish now i d)))"
proof
  assume "i \<in> rid ` set (fst (claim now' n (finish now i d)))"
  then obtain r where "r \<in> set (fst (claim now' n (finish now i d)))" "rid r = i" by blast
  then show False using claimed_row [of r now' n "finish now i d"] finish_done [of r now i d] by simp
qed

end

end
