(* ===== verification/Tx_Store.thy ===== *)
theory Tx_Store
  imports Outbox Eth
begin

text \<open>
  \<open>internal/tx/store.go\<close> and \<open>types.go\<close>: the table of tracked transactions and the
  outbox of their status changes. The first argument is the store's \<open>chainID\<close>.
\<close>

subsection \<open>Types\<close>

record tx_row =
  row_chain :: int
  row_hash :: string
  row_from :: string
  row_to :: string
  row_token :: string
  row_value :: string
  row_nonce :: u64
  row_gas_limit :: u64
  row_gas_price :: string
  row_max_fee :: string
  row_max_prio :: string
  row_format :: string
  row_type :: string
  row_status :: tx_status
  row_block :: u64
  row_gas_used :: "u64 option"
  row_confirmations :: u64
  row_error :: string
  row_biz_id :: string
  row_biz_type :: string
  row_idem :: string
  row_replaces :: string
  row_replaced_by :: string
  row_signed_raw :: string
  row_retry :: nat
  row_created :: time
  row_updated :: time

text \<open>\<open>InsertParams\<close>; the empty status is \<open>None\<close>.\<close>

record insert_params =
  ip_hash :: string
  ip_from :: string
  ip_to :: string
  ip_token :: string
  ip_value :: string
  ip_nonce :: u64
  ip_gas_limit :: u64
  ip_gas_price :: string
  ip_max_fee :: string
  ip_max_prio :: string
  ip_format :: string
  ip_type :: string
  ip_biz_id :: string
  ip_biz_type :: string
  ip_idem :: string
  ip_replaces :: string
  ip_signed_raw :: string
  ip_status :: "tx_status option"

record submit_request =
  sq_signed_raw :: string
  sq_biz_id :: string
  sq_biz_type :: string
  sq_idem :: string
  sq_replaces :: string

record send_meta =
  sm_biz_id :: string
  sm_biz_type :: string
  sm_idem :: string
  sm_replaces :: string

definition TxTypeNative :: string where "TxTypeNative = ''native''"
definition TxTypeERC20 :: string where "TxTypeERC20 = ''erc20''"
definition TxFormatLegacy :: string where "TxFormatLegacy = ''legacy''"
definition TxFormatEIP1559 :: string where "TxFormatEIP1559 = ''eip1559''"
definition BizTypeWithdraw :: string where "BizTypeWithdraw = ''withdraw''"

fun tx_status_str :: "tx_status \<Rightarrow> string" where
  "tx_status_str StatusSubmitting = ''submitting''"
| "tx_status_str StatusBroadcastFailed = ''broadcast_failed''"
| "tx_status_str StatusPending = ''pending''"
| "tx_status_str StatusConfirmed = ''confirmed''"
| "tx_status_str StatusFailed = ''failed''"
| "tx_status_str StatusDropped = ''dropped''"
| "tx_status_str StatusReplaced = ''replaced''"

subsection \<open>Scanning\<close>

definition scanOne :: "tracker_row \<Rightarrow> tx_row" where
  "scanOne r = \<lparr>row_chain = tr_chain r, row_hash = tr_hash r, row_from = tr_from r, row_to = tr_to r,
     row_token = fromNull (tr_token r), row_value = tr_value r, row_nonce = tr_nonce r,
     row_gas_limit = tr_gas_limit r, row_gas_price = fromNull (tr_gas_price r),
     row_max_fee = fromNull (tr_max_fee r), row_max_prio = fromNull (tr_max_prio r),
     row_format = tr_format r, row_type = tr_type r, row_status = tr_status r,
     row_block = tr_block r, row_gas_used = tr_gas_used r, row_confirmations = tr_confirmations r,
     row_error = fromNull (tr_error r), row_biz_id = fromNull (tr_biz_id r),
     row_biz_type = fromNull (tr_biz_type r), row_idem = fromNull (tr_idem_key r),
     row_replaces = fromNull (tr_replaces r), row_replaced_by = fromNull (tr_replaced_by r),
     row_signed_raw = fromNull (tr_signed_raw r), row_retry = tr_retry_count r,
     row_created = tr_created r, row_updated = tr_updated r\<rparr>"

definition scanRows :: "tracker_row list \<Rightarrow> tx_row list" where
  "scanRows rs = map scanOne rs"

subsection \<open>Inserting\<close>

definition tracker_match :: "int \<Rightarrow> string \<Rightarrow> tracker_row \<Rightarrow> bool" where
  "tracker_match ch h r \<longleftrightarrow> tr_chain r = ch \<and> sql_eq (tr_hash r) h"

definition tracker_idem_match :: "int \<Rightarrow> string \<Rightarrow> tracker_row \<Rightarrow> bool" where
  "tracker_idem_match ch key r \<longleftrightarrow> tr_chain r = ch \<and>
     (case tr_idem_key r of None \<Rightarrow> False | Some k \<Rightarrow> sql_eq k key)"

definition tx_terminal :: "tx_status \<Rightarrow> bool" where
  "tx_terminal st \<longleftrightarrow> st \<in> {StatusConfirmed, StatusFailed, StatusDropped, StatusReplaced}"

text \<open>The row in conflict with a new one: the one with its primary key, else the one with
  its idempotency key.\<close>

definition insert_conflict :: "int \<Rightarrow> tracker_row \<Rightarrow> tracker_row list \<Rightarrow> tracker_row \<Rightarrow> bool" where
  "insert_conflict ch new t =
     (if List.find (tracker_match ch (tr_hash new)) t \<noteq> None then tracker_match ch (tr_hash new)
      else case tr_idem_key new of
             None \<Rightarrow> (\<lambda>_. False) | Some k \<Rightarrow> tracker_idem_match ch k)"

text \<open>The row the \<open>INSERT\<close> writes.\<close>

definition new_tracker_row ::
  "int \<Rightarrow> time \<Rightarrow> insert_params \<Rightarrow> tx_status \<Rightarrow> string \<Rightarrow> string \<Rightarrow> tracker_row" where
  "new_tracker_row ch now p status fmt ty =
     \<lparr>tr_chain = ch, tr_hash = to_lower (ip_hash p), tr_from = to_lower (ip_from p),
      tr_to = to_lower (ip_to p), tr_token = map_option to_lower (nullStr (ip_token p)),
      tr_value = ip_value p, tr_nonce = ip_nonce p, tr_gas_limit = ip_gas_limit p,
      tr_gas_price = nullStr (ip_gas_price p), tr_max_fee = nullStr (ip_max_fee p),
      tr_max_prio = nullStr (ip_max_prio p), tr_format = fmt, tr_type = ty,
      tr_status = status, tr_block = 0, tr_gas_used = None, tr_confirmations = 0,
      tr_error = None, tr_biz_id = nullStr (ip_biz_id p), tr_biz_type = nullStr (ip_biz_type p),
      tr_idem_key = map_option to_lower (nullStr (ip_idem p)),
      tr_replaces = map_option to_lower (nullStr (ip_replaces p)), tr_replaced_by = None,
      tr_signed_raw = nullStr (ip_signed_raw p), tr_retry_count = 0,
      tr_created = now, tr_updated = now\<rparr>"

text \<open>The \<open>ON DUPLICATE KEY UPDATE\<close> clause.\<close>

definition dup_tracker_row :: "time \<Rightarrow> insert_params \<Rightarrow> tx_status \<Rightarrow> tracker_row \<Rightarrow> tracker_row" where
  "dup_tracker_row now p status r =
     r\<lparr>tr_status := (if tx_terminal (tr_status r) then tr_status r else status),
       tr_signed_raw := (if ip_signed_raw p \<noteq> [] then Some (ip_signed_raw p) else tr_signed_raw r),
       tr_updated := now\<rparr>"

definition insertRow :: "int \<Rightarrow> time \<Rightarrow> insert_params \<Rightarrow> tx_status \<Rightarrow> unit dbtx" where
  "insertRow ch now p status =
     (let txType = (if ip_type p = [] then TxTypeNative else ip_type p);
          txFormat = (if ip_format p = [] then TxFormatLegacy else ip_format p)
      in
      case (enum_value [''legacy'', ''eip1559''] txFormat, enum_value [''native'', ''erc20''] txType) of
        (Some fmt, Some ty) \<Rightarrow>
          modT (\<lambda>d. let new = new_tracker_row ch now p status fmt ty in
            d\<lparr>trackers := upsert_where (insert_conflict ch new (trackers d))
                (dup_tracker_row now p status) new (trackers d)\<rparr>)
      | _ \<Rightarrow> failT (GoErr ''Error 1265 (01000): Data truncated''))"

definition InsertSubmitting :: "int \<Rightarrow> time \<Rightarrow> insert_params \<Rightarrow> unit dbtx" where
  "InsertSubmitting ch now p =
     insertRow ch now p (case ip_status p of None \<Rightarrow> StatusSubmitting | Some st \<Rightarrow> st)"

subsection \<open>Broadcast state\<close>

definition MarkBroadcastPending :: "int \<Rightarrow> time \<Rightarrow> string \<Rightarrow> unit dbtx" where
  "MarkBroadcastPending ch now h =
     modT (\<lambda>d. d\<lparr>trackers := upd_where
       (\<lambda>r. tracker_match ch (to_lower h) r \<and> tr_status r \<in> {StatusSubmitting, StatusBroadcastFailed})
       (\<lambda>r. r\<lparr>tr_status := StatusPending, tr_error := None, tr_updated := now\<rparr>) (trackers d)\<rparr>)"

definition MarkBroadcastFailed :: "int \<Rightarrow> time \<Rightarrow> string \<Rightarrow> string \<Rightarrow> unit dbtx" where
  "MarkBroadcastFailed ch now h errMsg =
     modT (\<lambda>d. d\<lparr>trackers := upd_where
       (\<lambda>r. tracker_match ch (to_lower h) r \<and> tr_status r \<in> {StatusSubmitting, StatusBroadcastFailed})
       (\<lambda>r. r\<lparr>tr_status := StatusBroadcastFailed, tr_error := nullStr errMsg, tr_updated := now\<rparr>)
       (trackers d)\<rparr>)"

definition IncrementBroadcastRetry :: "int \<Rightarrow> time \<Rightarrow> string \<Rightarrow> unit dbtx" where
  "IncrementBroadcastRetry ch now h =
     modT (\<lambda>d. d\<lparr>trackers := upd_where (tracker_match ch (to_lower h))
       (\<lambda>r. r\<lparr>tr_retry_count := tr_retry_count r + 1, tr_updated := now\<rparr>) (trackers d)\<rparr>)"

subsection \<open>Reads\<close>

definition ListReconcileBatch :: "int \<Rightarrow> time \<Rightarrow> int \<Rightarrow> int \<Rightarrow> int \<Rightarrow> db \<Rightarrow> tx_row list" where
  "ListReconcileBatch ch now graceSec maxRetries limit d =
     scanRows (sql_limit limit (sort_key tr_updated (filter
       (\<lambda>r. tr_chain r = ch \<and> tr_status r \<in> {StatusSubmitting, StatusBroadcastFailed} \<and>
            int (tr_retry_count r) < maxRetries \<and> tr_updated r \<le> now - graceSec * 1000)
       (trackers d))))"

definition GetByHash :: "int \<Rightarrow> string \<Rightarrow> db \<Rightarrow> tx_row res" where
  "GetByHash ch h d =
     (case List.find (tracker_match ch (to_lower h)) (trackers d) of
        None \<Rightarrow> Inl ErrNoRows | Some r \<Rightarrow> Inr (scanOne r))"

definition GetByIdempotencyKey :: "int \<Rightarrow> string \<Rightarrow> db \<Rightarrow> tx_row res" where
  "GetByIdempotencyKey ch key d =
     (case List.find (tracker_idem_match ch (to_lower key)) (trackers d) of
        None \<Rightarrow> Inl ErrNoRows | Some r \<Rightarrow> Inr (scanOne r))"

definition ListPending :: "int \<Rightarrow> int \<Rightarrow> db \<Rightarrow> tx_row list" where
  "ListPending ch limit d =
     scanRows (sql_limit limit (sort_key tr_updated
       (filter (\<lambda>r. tr_chain r = ch \<and> tr_status r = StatusPending) (trackers d))))"

definition ListTrackable :: "int \<Rightarrow> int \<Rightarrow> db \<Rightarrow> tx_row list" where
  "ListTrackable ch limit d =
     scanRows (sql_limit limit (sort_key tr_updated (filter
       (\<lambda>r. tr_chain r = ch \<and>
            tr_status r \<in> {StatusPending, StatusSubmitting, StatusBroadcastFailed}) (trackers d))))"

definition ListByFrom :: "int \<Rightarrow> string \<Rightarrow> string \<Rightarrow> int \<Rightarrow> db \<Rightarrow> tx_row list" where
  "ListByFrom ch fr status limit d =
     scanRows (sql_limit limit (sort_key (\<lambda>r. - tr_created r) (filter
       (\<lambda>r. tr_chain r = ch \<and> (fr \<noteq> [] \<longrightarrow> sql_eq (tr_from r) (to_lower fr)) \<and>
            (status \<noteq> [] \<longrightarrow> sql_eq (tx_status_str (tr_status r)) status)) (trackers d))))"

subsection \<open>Status changes\<close>

definition insertTxOutbox ::
  "int \<Rightarrow> time \<Rightarrow> string \<Rightarrow> string \<Rightarrow> tx_status \<Rightarrow> tx_status \<Rightarrow> tx_payload \<Rightarrow> unit dbtx" where
  "insertTxOutbox ch now txHash bizID oldSt newSt extra =
     modT (\<lambda>d. d\<lparr>ctrs := (ctrs d)\<lparr>ai_tx_outbox := ai_tx_outbox (ctrs d) + 1\<rparr>,
       tx_outbox := tx_outbox d @
         [\<lparr>txo_id = ai_tx_outbox (ctrs d), txo_chain = ch, txo_hash = to_lower txHash,
           txo_biz_id = nullStr bizID, txo_old = oldSt, txo_new = newSt, txo_payload = extra,
           txo_last_error = None, txo_status = ObPending, txo_retries = 0, txo_next_retry = now,
           txo_created = now, txo_updated = now\<rparr>]\<rparr>)"

text \<open>\<open>gasUsed\<close> goes through an \<open>int64\<close>: from 2^63 on it is negative and the unsigned
  column refuses it.\<close>

definition updateFields ::
  "int \<Rightarrow> time \<Rightarrow> string \<Rightarrow> tx_status \<Rightarrow> u64 \<Rightarrow> u64 \<Rightarrow> u64 \<Rightarrow> string \<Rightarrow> unit dbtx" where
  "updateFields ch now h status blockNum confirmations gasUsed errMsg =
     (if 2 ^ 63 \<le> unat gasUsed
      then failT (GoErr ''Error 1264 (22003): Out of range value for column 'gas_used' at row 1'')
      else
        modT (\<lambda>d. d\<lparr>trackers := upd_where (tracker_match ch (to_lower h))
          (\<lambda>r. r\<lparr>tr_status := status, tr_block := blockNum,
                 tr_gas_used := (if 0 < gasUsed then Some gasUsed else None),
                 tr_confirmations := confirmations, tr_error := nullStr errMsg, tr_updated := now\<rparr>)
          (trackers d)\<rparr>))"

definition TransitionStatus ::
  "int \<Rightarrow> time \<Rightarrow> string \<Rightarrow> tx_status \<Rightarrow> u64 \<Rightarrow> u64 \<Rightarrow> u64 \<Rightarrow> string \<Rightarrow> unit dbtx" where
  "TransitionStatus ch now h newStatus blockNum confirmations gasUsed errMsg =
     bindT (readT (GetByHash ch h)) (\<lambda>old.
     if row_status old = newStatus \<and> errMsg = []
     then updateFields ch now h newStatus blockNum confirmations gasUsed errMsg
     else
       bindT (updateFields ch now h newStatus blockNum confirmations gasUsed errMsg) (\<lambda>_.
       if row_status old \<noteq> newStatus
       then insertTxOutbox ch now h (row_biz_id old) (row_status old) newStatus
              (TransitionPayload blockNum confirmations errMsg)
       else retT ()))"

definition sibling_match :: "int \<Rightarrow> string \<Rightarrow> u64 \<Rightarrow> string \<Rightarrow> tracker_row \<Rightarrow> bool" where
  "sibling_match ch fr nonce winner r \<longleftrightarrow> tr_chain r = ch \<and> sql_eq (tr_from r) fr \<and>
     tr_nonce r = nonce \<and> \<not> sql_eq (tr_hash r) winner \<and> tr_status r = StatusPending"

definition MarkReplacedSiblings :: "int \<Rightarrow> time \<Rightarrow> string \<Rightarrow> u64 \<Rightarrow> string \<Rightarrow> unit dbtx" where
  "MarkReplacedSiblings ch now fr0 nonce winner0 =
     (let fr = to_lower fr0; winnerHash = to_lower winner0 in
      bindT (getT (\<lambda>d. filter (sibling_match ch fr nonce winnerHash) (trackers d))) (\<lambda>pending.
      forT pending (\<lambda>p.
        bindT (modT (\<lambda>d. d\<lparr>trackers := upd_where (tracker_match ch (tr_hash p))
          (\<lambda>r. r\<lparr>tr_status := StatusReplaced, tr_replaced_by := Some winnerHash, tr_updated := now\<rparr>)
          (trackers d)\<rparr>)) (\<lambda>_.
        insertTxOutbox ch now (tr_hash p) (fromNull (tr_biz_id p)) (tr_status p) StatusReplaced
          (ReplacedPayload winnerHash)))))"

subsection \<open>The outbox\<close>

record tx_outbox_item =
  toi_id :: int
  toi_chain :: int
  toi_hash :: string
  toi_biz_id :: string
  toi_old :: tx_status
  toi_new :: tx_status
  toi_payload :: tx_payload
  toi_last_error :: "string option"
  toi_retries :: nat

definition scanOutboxItem :: "tx_outbox_row \<Rightarrow> tx_outbox_item" where
  "scanOutboxItem r = \<lparr>toi_id = txo_id r, toi_chain = txo_chain r, toi_hash = txo_hash r,
     toi_biz_id = fromNull (txo_biz_id r), toi_old = txo_old r, toi_new = txo_new r,
     toi_payload = txo_payload r, toi_last_error = txo_last_error r, toi_retries = txo_retries r\<rparr>"

definition txo_ready :: "time \<Rightarrow> tx_outbox_row \<Rightarrow> bool" where
  "txo_ready now r \<longleftrightarrow> txo_status r = ObPending \<and> txo_next_retry r \<le> now"

definition txo_claim_rows :: "time \<Rightarrow> int \<Rightarrow> db \<Rightarrow> tx_outbox_row list" where
  "txo_claim_rows now limit d = sql_limit limit (sort_key txo_id (filter (txo_ready now) (tx_outbox d)))"

definition TxClaimOutboxBatch :: "time \<Rightarrow> int \<Rightarrow> (tx_outbox_item list) dbtx" where
  "TxClaimOutboxBatch now limit = run_tx (
     bindT (getT (txo_claim_rows now limit)) (\<lambda>rows.
     bindT (forT (map txo_id rows) (\<lambda>i. modT (\<lambda>d. d\<lparr>tx_outbox := upd_where (\<lambda>r. txo_id r = i)
       (\<lambda>r. r\<lparr>txo_status := ObProcessing, txo_updated := now\<rparr>) (tx_outbox d)\<rparr>))) (\<lambda>_.
     retT (map scanOutboxItem rows))))"

definition TxMarkOutboxDone :: "time \<Rightarrow> int \<Rightarrow> unit dbtx" where
  "TxMarkOutboxDone now i =
     modT (\<lambda>d. d\<lparr>tx_outbox := upd_where (\<lambda>r. txo_id r = i)
       (\<lambda>r. r\<lparr>txo_status := ObDone, txo_updated := now\<rparr>) (tx_outbox d)\<rparr>)"

definition TxMarkOutboxRetry :: "time \<Rightarrow> int \<Rightarrow> nat \<Rightarrow> string \<Rightarrow> unit dbtx" where
  "TxMarkOutboxRetry now i retries errMsg =
     modT (\<lambda>d. d\<lparr>tx_outbox := upd_where (\<lambda>r. txo_id r = i)
       (\<lambda>r. r\<lparr>txo_status := ObPending, txo_retries := retries + 1,
              txo_next_retry := now + int (min (retries + 1) 10) * 1000,
              txo_last_error := Some errMsg, txo_updated := now\<rparr>) (tx_outbox d)\<rparr>)"

subsection \<open>The outbox keeps the contract\<close>

lemma fold_tx_outbox:
  "fold (\<lambda>i d. d\<lparr>tx_outbox := f i (tx_outbox d)\<rparr>) ids d = d\<lparr>tx_outbox := fold f ids (tx_outbox d)\<rparr>"
  by (induction ids arbitrary: d) simp_all

lemma TxClaimOutboxBatch_eq:
  "TxClaimOutboxBatch now n d =
     (Inr (map scanOutboxItem (txo_claim_rows now n d)),
      d\<lparr>tx_outbox := upd_where (\<lambda>r. txo_id r \<in> txo_id ` set (txo_claim_rows now n d))
         (\<lambda>r. r\<lparr>txo_status := ObProcessing, txo_updated := now\<rparr>) (tx_outbox d)\<rparr>)"
proof -
  have "fold (\<lambda>i d. d\<lparr>tx_outbox := upd_where (\<lambda>r. txo_id r = i)
      (\<lambda>r. r\<lparr>txo_status := ObProcessing, txo_updated := now\<rparr>) (tx_outbox d)\<rparr>) ids d =
    d\<lparr>tx_outbox := upd_where (\<lambda>r. txo_id r \<in> set ids)
      (\<lambda>r. r\<lparr>txo_status := ObProcessing, txo_updated := now\<rparr>) (tx_outbox d)\<rparr>" for ids
    by (subst fold_tx_outbox) (simp add: fold_upd_where_ids)
  then show ?thesis
    by (simp add: TxClaimOutboxBatch_def run_tx_def bindT_apply forT_modT)
qed

interpretation txo: outbox tx_outbox txo_id txo_status txo_ready
  "\<lambda>now n d. (txo_claim_rows now n d, snd (TxClaimOutboxBatch now n d))"
  "\<lambda>now r. r\<lparr>txo_status := ObProcessing, txo_updated := now\<rparr>"
  "\<lambda>now i d. snd (TxMarkOutboxDone now i d)"
  "\<lambda>now r. r\<lparr>txo_status := ObDone, txo_updated := now\<rparr>"
  by unfold_locales
    (simp_all add: txo_ready_def txo_claim_rows_def TxClaimOutboxBatch_eq TxMarkOutboxDone_def)

subsection \<open>The tracker table\<close>

definition tracker_key :: "tracker_row \<Rightarrow> int \<times> string" where
  "tracker_key r = (tr_chain r, coll (tr_hash r))"

definition idem_key :: "tracker_row \<Rightarrow> (int \<times> string) option" where
  "idem_key r = map_option (\<lambda>k. (tr_chain r, coll k)) (tr_idem_key r)"

text \<open>The two unique keys of the table.\<close>

definition trackers_ok :: "db \<Rightarrow> bool" where
  "trackers_ok d \<longleftrightarrow> distinct (map tracker_key (trackers d)) \<and>
     distinct (filter (\<lambda>k. k \<noteq> None) (map idem_key (trackers d)))"

lemma tracker_match_key: "tracker_match ch h r \<longleftrightarrow> tracker_key r = (ch, coll h)"
  by (auto simp: tracker_match_def tracker_key_def sql_eq_def)

lemma tracker_idem_match_key: "tracker_idem_match ch k r \<longleftrightarrow> idem_key r = Some (ch, coll k)"
  by (auto simp: tracker_idem_match_def idem_key_def sql_eq_def split: option.splits)

lemma trackers_ok_upd:
  assumes "trackers_ok d" "\<And>r. tracker_key (f r) = tracker_key r" "\<And>r. idem_key (f r) = idem_key r"
  shows "trackers_ok (d\<lparr>trackers := upd_where p f (trackers d)\<rparr>)"
  using assms by (simp add: trackers_ok_def map_upd_where)

lemma trackers_ok_cong: "trackers d' = trackers d \<Longrightarrow> trackers_ok d' = trackers_ok d"
  by (simp add: trackers_ok_def)

lemma MarkBroadcastPending_ok: "trackers_ok d \<Longrightarrow> trackers_ok (snd (MarkBroadcastPending ch now h d))"
  by (simp add: MarkBroadcastPending_def trackers_ok_upd tracker_key_def idem_key_def)

lemma MarkBroadcastFailed_ok: "trackers_ok d \<Longrightarrow> trackers_ok (snd (MarkBroadcastFailed ch now h e d))"
  by (simp add: MarkBroadcastFailed_def trackers_ok_upd tracker_key_def idem_key_def)

lemma IncrementBroadcastRetry_ok: "trackers_ok d \<Longrightarrow> trackers_ok (snd (IncrementBroadcastRetry ch now h d))"
  by (simp add: IncrementBroadcastRetry_def trackers_ok_upd tracker_key_def idem_key_def)

lemma updateFields_ok: "trackers_ok d \<Longrightarrow> trackers_ok (snd (updateFields ch now h st b c g e d))"
  by (simp add: updateFields_def trackers_ok_upd tracker_key_def idem_key_def)

lemma insertTxOutbox_trackers [simp]: "trackers (snd (insertTxOutbox ch now h b o' n p d)) = trackers d"
  by (simp add: insertTxOutbox_def)

lemma insertTxOutbox_ok: "trackers_ok d \<Longrightarrow> trackers_ok (snd (insertTxOutbox ch now h b o' n p d))"
  by (simp add: trackers_ok_def)

lemma TransitionStatus_ok:
  assumes "trackers_ok d"
  shows "trackers_ok (snd (TransitionStatus ch now h st b c g e d))"
  unfolding TransitionStatus_def
  by (intro bindT_snd [where P = trackers_ok])
    (auto simp: assms updateFields_ok insertTxOutbox_ok intro!: bindT_snd [where P = trackers_ok])

lemma MarkReplacedSiblings_ok:
  assumes "trackers_ok d"
  shows "trackers_ok (snd (MarkReplacedSiblings ch now fr n w d))"
proof -
  let ?ps = "filter (sibling_match ch (to_lower fr) n (to_lower w)) (trackers d)"
  let ?body = "\<lambda>p. bindT (modT (\<lambda>d. d\<lparr>trackers := upd_where (tracker_match ch (tr_hash p))
      (\<lambda>r. r\<lparr>tr_status := StatusReplaced, tr_replaced_by := Some (to_lower w), tr_updated := now\<rparr>)
      (trackers d)\<rparr>)) (\<lambda>_. insertTxOutbox ch now (tr_hash p) (fromNull (tr_biz_id p)) (tr_status p)
        StatusReplaced (ReplacedPayload (to_lower w)))"
  have eq: "MarkReplacedSiblings ch now fr n w d = forT ?ps ?body d"
    by (simp add: MarkReplacedSiblings_def Let_def)
  have "trackers_ok (snd (?body p d1))" if "trackers_ok d1" for p d1
    using that by (simp add: insertTxOutbox_ok trackers_ok_upd tracker_key_def idem_key_def)
  then show ?thesis
    unfolding eq by (rule forT_snd) (assumption | rule assms)+
qed

lemma dup_tracker_row_keys [simp]:
  "tracker_key (dup_tracker_row now p st r) = tracker_key r"
  "idem_key (dup_tracker_row now p st r) = idem_key r"
  by (simp_all add: dup_tracker_row_def tracker_key_def idem_key_def)

lemma no_conflict_keys:
  assumes "\<forall>r\<in>set t. \<not> insert_conflict ch new t r" "tr_chain new = ch"
  shows "tracker_key new \<notin> tracker_key ` set t"
    "idem_key new \<noteq> None \<Longrightarrow> idem_key new \<notin> idem_key ` set t"
proof -
  have none: "List.find (tracker_match ch (tr_hash new)) t = None"
  proof (rule ccontr)
    assume *: "List.find (tracker_match ch (tr_hash new)) t \<noteq> None"
    then obtain r where "r \<in> set t" "tracker_match ch (tr_hash new) r" by (auto dest: find_SomeD)
    with * assms(1) show False by (simp add: insert_conflict_def)
  qed
  then show "tracker_key new \<notin> tracker_key ` set t"
    using assms(2) by (auto simp: find_None_iff_none tracker_match_key) (metis tracker_key_def)
  show "idem_key new \<notin> idem_key ` set t" if some: "idem_key new \<noteq> None"
  proof -
    obtain k where k: "tr_idem_key new = Some k" "idem_key new = Some (ch, coll k)"
      using some assms(2) by (auto simp: idem_key_def)
    then have "\<forall>r\<in>set t. idem_key r \<noteq> Some (ch, coll k)"
      using assms(1) none by (simp add: insert_conflict_def tracker_idem_match_key)
    then show ?thesis using k by (metis imageE)
  qed
qed

lemma trackers_ok_upsert:
  assumes "trackers_ok d" "tr_chain new = ch"
  shows "trackers_ok (d\<lparr>trackers := upsert_where (insert_conflict ch new (trackers d))
    (dup_tracker_row now p st) new (trackers d)\<rparr>)"
proof (cases "\<exists>r\<in>set (trackers d). insert_conflict ch new (trackers d) r")
  case True
  with assms(1) show ?thesis by (simp add: trackers_ok_def map_upsert_where)
next
  case False
  with no_conflict_keys [of "trackers d" ch new] assms show ?thesis
    by (auto simp: trackers_ok_def map_upsert_where)
qed

lemma InsertSubmitting_ok: "trackers_ok d \<Longrightarrow> trackers_ok (snd (InsertSubmitting ch now p d))"
  by (auto simp: InsertSubmitting_def insertRow_def Let_def new_tracker_row_def
      intro!: trackers_ok_upsert split: option.splits)

text \<open>A fresh row can be read back.\<close>

lemma upsert_append: "\<forall>r\<in>set t. \<not> p r \<Longrightarrow> upsert_where p f new t = t @ [new]"
  by (rule upsert_where_None) (simp add: find_None_iff_none)

lemma InsertSubmitting_fresh:
  assumes "GetByHash ch (ip_hash p) d = Inl ErrNoRows"
    "ip_idem p \<noteq> [] \<longrightarrow> GetByIdempotencyKey ch (ip_idem p) d = Inl ErrNoRows"
    "ip_format p \<in> {''legacy'', ''eip1559''}" "ip_type p \<in> {''native'', ''erc20''}"
    "ip_status p = None"
  shows "InsertSubmitting ch now p d =
    (Inr (), d\<lparr>trackers := trackers d @
       [new_tracker_row ch now p StatusSubmitting (ip_format p) (ip_type p)]\<rparr>)"
proof -
  let ?new = "new_tracker_row ch now p StatusSubmitting (ip_format p) (ip_type p)"
  have "enum_value [''legacy'', ''eip1559''] (ip_format p) = Some (ip_format p)"
    using assms(3) by (elim insertE emptyE; simp only:; code_simp)
  moreover have "enum_value [''native'', ''erc20''] (ip_type p) = Some (ip_type p)"
    using assms(4) by (elim insertE emptyE; simp only:; code_simp)
  moreover have "ip_format p \<noteq> []" "ip_type p \<noteq> []" using assms by auto
  moreover have "\<forall>r\<in>set (trackers d). \<not> insert_conflict ch ?new (trackers d) r"
    using assms(1,2)
    by (auto simp: GetByHash_def GetByIdempotencyKey_def insert_conflict_def new_tracker_row_def
        find_None_iff_none nullStr_def split: option.splits if_splits)
  ultimately show ?thesis
    using assms(5) by (simp add: InsertSubmitting_def insertRow_def Let_def upsert_append)
qed

end
