(* ===== verification/Eth_Transfer.thy ===== *)
theory Eth_Transfer
  imports Eth
begin

text \<open>
  \<open>internal/eth/transfer.go\<close>: building, signing and describing transfers. The price
  part that the signing functions share (\<open>fees_1559\<close>: tip and fee cap
  \<open>2 * baseFee + tip\<close>) is one definition with the error prefix as an argument, since
  the speed-up variants return the node's error unwrapped.
\<close>

record send_result =
  sr_hash :: hash
  sr_from :: address
  sr_to :: address
  sr_token :: address
  sr_value :: int
  sr_nonce :: u64
  sr_gas_limit :: u64
  sr_gas_price :: "int option"
  sr_max_fee :: "int option"
  sr_max_prio :: "int option"
  sr_format :: string
  sr_type :: string
  sr_data :: bytes

definition maybe_wrap :: "string option \<Rightarrow> 'a res \<Rightarrow> 'a res" where
  "maybe_wrap p r = (case p of None \<Rightarrow> r | Some s \<Rightarrow> wrapR s r)"

text \<open>The result before the price and the hash are known.\<close>

definition base_result ::
  "address \<Rightarrow> address \<Rightarrow> address \<Rightarrow> int \<Rightarrow> u64 \<Rightarrow> u64 \<Rightarrow> string \<Rightarrow> bytes \<Rightarrow> send_result" where
  "base_result fr to token value nonce gasLimit txType data =
     \<lparr>sr_hash = 0, sr_from = fr, sr_to = to, sr_token = token, sr_value = value,
      sr_nonce = nonce, sr_gas_limit = gasLimit, sr_gas_price = None, sr_max_fee = None,
      sr_max_prio = None, sr_format = [], sr_type = txType, sr_data = data\<rparr>"

text \<open>\<open>bump\<close> is the factor \<open>mult / div\<close> of the speed-up, 100/100 otherwise.\<close>

definition bump_price :: "int \<Rightarrow> int \<Rightarrow> int" where
  "bump_price mult p = (p * mult) div 100"

definition fees_1559 :: "backend \<Rightarrow> bool \<Rightarrow> (int \<Rightarrow> int) \<Rightarrow> (int \<times> int) res" where
  "fees_1559 b wrap bump =
     bindR (maybe_wrap (if wrap then Some ''gas tip'' else None) (rpcSuggestGasTipCap (bk_node b))) (\<lambda>tip0.
     let tip = bump tip0 in
     bindR (maybe_wrap (if wrap then Some ''header'' else None) (rpcHeaderBaseFee (bk_node b))) (\<lambda>bf.
     let baseFee = (case bf of None \<Rightarrow> 0 | Some f \<Rightarrow> f) in
     Inr (tip, baseFee * 2 + tip)))"

definition sign_with_fees ::
  "backend \<Rightarrow> privkey \<Rightarrow> bool \<Rightarrow> (int \<Rightarrow> int) \<Rightarrow> bool \<Rightarrow> address \<Rightarrow> int \<Rightarrow> bytes \<Rightarrow> send_result \<Rightarrow>
   (signed_tx \<times> send_result) res" where
  "sign_with_fees b key wrap bump useEIP1559 dest txValue data result =
     (if useEIP1559 then
        bindR (fees_1559 b wrap bump) (\<lambda>(tip, feeCap).
        bindR (maybe_wrap (if wrap then Some ''sign'' else None)
          (SignTx (bk_geth b)
            \<lparr>td_type = DynamicFeeTxType, td_nonce = sr_nonce result, td_gas_price = feeCap,
             td_tip = tip, td_fee_cap = feeCap, td_gas = sr_gas_limit result, td_to = Some dest,
             td_value = txValue, td_data = data\<rparr> (bk_chain b) key)) (\<lambda>signed.
        Inr (signed, result\<lparr>sr_format := ''eip1559'', sr_max_prio := Some tip,
                            sr_max_fee := Some feeCap, sr_hash := TxHash (bk_geth b) signed\<rparr>)))
      else
        bindR (maybe_wrap (if wrap then Some ''gas price'' else None)
          (rpcSuggestGasPrice (bk_node b))) (\<lambda>p0.
        let gasPrice = bump p0 in
        bindR (maybe_wrap (if wrap then Some ''sign'' else None)
          (SignTx (bk_geth b)
            \<lparr>td_type = LegacyTxType, td_nonce = sr_nonce result, td_gas_price = gasPrice,
             td_tip = gasPrice, td_fee_cap = gasPrice, td_gas = sr_gas_limit result,
             td_to = Some dest, td_value = txValue, td_data = data\<rparr> (bk_chain b) key)) (\<lambda>signed.
        Inr (signed, result\<lparr>sr_format := ''legacy'', sr_gas_price := Some gasPrice,
                            sr_hash := TxHash (bk_geth b) signed\<rparr>))))"

definition SignNativeTransfer ::
  "backend \<Rightarrow> privkey \<Rightarrow> address \<Rightarrow> int \<Rightarrow> u64 \<Rightarrow> bool \<Rightarrow> (signed_tx \<times> send_result) res" where
  "SignNativeTransfer b key to value nonce useEIP1559 =
     (let fr = PubkeyToAddress (bk_geth b) key;
          msg = \<lparr>cm_from = fr, cm_to = Some to, cm_value = Some value, cm_data = []\<rparr>;
          gasLimit = (case rpcEstimateGas (bk_node b) msg of
                        Inl _ \<Rightarrow> 21000 | Inr g \<Rightarrow> if g < 21000 then 21000 else g)
      in sign_with_fees b key True id useEIP1559 to value []
           (base_result fr to 0 value nonce gasLimit ''native'' []))"

definition SendNativeTransfer ::
  "backend \<Rightarrow> privkey \<Rightarrow> address \<Rightarrow> int \<Rightarrow> u64 \<Rightarrow> bool \<Rightarrow> send_result systx" where
  "SendNativeTransfer b key to value nonce useEIP1559 =
     bindT (liftT (SignNativeTransfer b key to value nonce useEIP1559)) (\<lambda>(signed, result).
     bindT (SendSignedTransaction b signed) (\<lambda>_. retT result))"

definition SendETHTransfer :: "backend \<Rightarrow> privkey \<Rightarrow> address \<Rightarrow> int option \<Rightarrow> send_result systx" where
  "SendETHTransfer b key to value =
     (case value of
        None \<Rightarrow> failT (GoErr ''value must be positive'')
      | Some v \<Rightarrow>
          if v \<le> 0 then failT (GoErr ''value must be positive'')
          else
            bindT (liftT (wrapR ''nonce'' (PendingNonceAt b (PubkeyToAddress (bk_geth b) key)))) (\<lambda>nonce.
            SendNativeTransfer b key to v nonce False))"

definition SendETHTransferWei :: "backend \<Rightarrow> privkey \<Rightarrow> address \<Rightarrow> string \<Rightarrow> send_result systx" where
  "SendETHTransferWei b key to valueWei =
     (case big_set_string valueWei of
        None \<Rightarrow> failT (GoErr ''invalid value_wei'')
      | Some v \<Rightarrow> if v \<le> 0 then failT (GoErr ''invalid value_wei'')
                  else SendETHTransfer b key to (Some v))"

definition packERC20Transfer :: "backend \<Rightarrow> address \<Rightarrow> int \<Rightarrow> bytes res" where
  "packERC20Transfer b to amount =
     bindR (parseABI b Erc20TransferABI) (\<lambda>parsed.
     AbiPack (bk_geth b) parsed ''transfer'' [AbiAddress to, AbiBig amount])"

definition SignERC20Transfer ::
  "backend \<Rightarrow> privkey \<Rightarrow> address \<Rightarrow> address \<Rightarrow> int option \<Rightarrow> u64 \<Rightarrow> bool \<Rightarrow> (signed_tx \<times> send_result) res" where
  "SignERC20Transfer b key token to amount nonce useEIP1559 =
     (case amount of
        None \<Rightarrow> Inl (GoErr ''amount must be positive'')
      | Some amt \<Rightarrow>
          if amt \<le> 0 then Inl (GoErr ''amount must be positive'')
          else
            let fr = PubkeyToAddress (bk_geth b) key in
            bindR (packERC20Transfer b to amt) (\<lambda>data.
            let msg = \<lparr>cm_from = fr, cm_to = Some token, cm_value = None, cm_data = data\<rparr>;
                gasLimit = (case rpcEstimateGas (bk_node b) msg of
                              Inl _ \<Rightarrow> 100000 | Inr g \<Rightarrow> if g < 65000 then 100000 else g)
            in sign_with_fees b key True id useEIP1559 token 0 data
                 (base_result fr to token 0 nonce gasLimit ''erc20'' data)))"

definition SendERC20Transfer ::
  "backend \<Rightarrow> privkey \<Rightarrow> address \<Rightarrow> address \<Rightarrow> int option \<Rightarrow> u64 \<Rightarrow> bool \<Rightarrow> send_result systx" where
  "SendERC20Transfer b key token to amount nonce useEIP1559 =
     bindT (liftT (SignERC20Transfer b key token to amount nonce useEIP1559)) (\<lambda>(signed, result).
     bindT (SendSignedTransaction b signed) (\<lambda>_. retT result))"

text \<open>\<open>int64(100 + bumpPercent)\<close>: the sum is taken in the 64-bit \<open>int\<close> and wraps.\<close>

definition bump_mult :: "int \<Rightarrow> int" where
  "bump_mult bumpPercent =
     sint (word_of_int (100 + (if bumpPercent \<le> 0 then 20 else bumpPercent)) :: 64 word)"

definition SignSpeedUpNative ::
  "backend \<Rightarrow> privkey \<Rightarrow> address \<Rightarrow> int \<Rightarrow> u64 \<Rightarrow> u64 \<Rightarrow> int \<Rightarrow> bool \<Rightarrow> (signed_tx \<times> send_result) res" where
  "SignSpeedUpNative b key to value nonce gasLimit bumpPercent wasEIP1559 =
     sign_with_fees b key False (bump_price (bump_mult bumpPercent)) wasEIP1559 to value []
       (base_result (PubkeyToAddress (bk_geth b) key) to 0 value nonce gasLimit ''native'' [])"

definition BuildSpeedUpNative ::
  "backend \<Rightarrow> privkey \<Rightarrow> address \<Rightarrow> int \<Rightarrow> u64 \<Rightarrow> u64 \<Rightarrow> int \<Rightarrow> bool \<Rightarrow> send_result systx" where
  "BuildSpeedUpNative b key to value nonce gasLimit bumpPercent wasEIP1559 =
     bindT (liftT (SignSpeedUpNative b key to value nonce gasLimit bumpPercent wasEIP1559))
       (\<lambda>(signed, result). bindT (SendSignedTransaction b signed) (\<lambda>_. retT result))"

definition SignSpeedUpERC20 ::
  "backend \<Rightarrow> privkey \<Rightarrow> address \<Rightarrow> address \<Rightarrow> int \<Rightarrow> u64 \<Rightarrow> u64 \<Rightarrow> int \<Rightarrow> bool \<Rightarrow> (signed_tx \<times> send_result) res" where
  "SignSpeedUpERC20 b key token to amount nonce gasLimit bumpPercent wasEIP1559 =
     bindR (packERC20Transfer b to amount) (\<lambda>data.
     sign_with_fees b key False (bump_price (bump_mult bumpPercent)) wasEIP1559 token 0 data
       (base_result (PubkeyToAddress (bk_geth b) key) to token 0 nonce gasLimit ''erc20'' data))"

definition BuildSpeedUpERC20 ::
  "backend \<Rightarrow> privkey \<Rightarrow> address \<Rightarrow> address \<Rightarrow> int \<Rightarrow> u64 \<Rightarrow> u64 \<Rightarrow> int \<Rightarrow> bool \<Rightarrow> send_result systx" where
  "BuildSpeedUpERC20 b key token to amount nonce gasLimit bumpPercent wasEIP1559 =
     bindT (liftT (SignSpeedUpERC20 b key token to amount nonce gasLimit bumpPercent wasEIP1559))
       (\<lambda>(signed, result). bindT (SendSignedTransaction b signed) (\<lambda>_. retT result))"

definition RecoverSender :: "geth \<Rightarrow> signed_tx \<Rightarrow> int \<Rightarrow> address res" where
  "RecoverSender g tx chainID = Sender g chainID tx"

text \<open>\<open>(*big.Int).SetBytes\<close>: big-endian.\<close>

definition big_set_bytes :: "bytes \<Rightarrow> int" where
  "big_set_bytes bs = foldl (\<lambda>acc b. 256 * acc + uint b) 0 bs"

text \<open>\<open>result.To.Hex()\<close> is never the empty string, \<open>tx.To()\<close> may be nil: a contract
  creation whose data looks like a transfer dereferences it.\<close>

definition SendResultFromSigned :: "geth \<Rightarrow> signed_tx \<Rightarrow> int \<Rightarrow> send_result res" where
  "SendResultFromSigned g tx chainID =
     bindR (wrapR ''recover sender'' (RecoverSender g tx chainID)) (\<lambda>fr.
     let t = stx_data tx; data = td_data t;
         to0 = (case td_to t of None \<Rightarrow> 0 | Some a \<Rightarrow> a);
         result0 = (base_result fr to0 0 (td_value t) (td_nonce t) (td_gas t) [] data)\<lparr>sr_hash := TxHash g tx\<rparr>;
         result = (if td_type t = DynamicFeeTxType
                   then result0\<lparr>sr_format := ''eip1559'', sr_max_fee := Some (td_fee_cap t),
                                sr_max_prio := Some (td_tip t)\<rparr>
                   else result0\<lparr>sr_format := ''legacy'', sr_gas_price := Some (td_gas_price t)\<rparr>)
     in if 4 \<le> length data \<and> \<not> equal_fold (AddressHex g (sr_to result)) [] \<and>
           68 \<le> length data \<and> td_value t = 0 \<and> take 4 data = [0xa9, 0x05, 0x9c, 0xbb]
        then (case td_to t of
                None \<Rightarrow> Inl (GoPanic ''nil pointer dereference'')
              | Some token \<Rightarrow>
                  Inr (result\<lparr>sr_type := ''erc20'', sr_token := token,
                         sr_to := BytesToAddress g (take 20 (drop 16 data)),
                         sr_value := big_set_bytes (take 32 (drop 36 data))\<rparr>))
        else Inr (result\<lparr>sr_type := ''native''\<rparr>))"

subsection \<open>What go-ethereum is relied on for\<close>

text \<open>Signing keeps the transaction's fields, and the sender recovered from it is the
  key's address.\<close>

definition sign_ok :: "geth \<Rightarrow> bool" where
  "sign_ok g \<longleftrightarrow> (\<forall>t ch key s. SignTx g t ch key = Inr s \<longrightarrow>
     stx_data s = t \<and> Sender g ch s = Inr (PubkeyToAddress g key))"

text \<open>The Solidity ABI encoding of \<open>transfer(address,uint256)\<close> as go-ethereum writes it: the
  four-byte selector, then two 32-byte words, the address right-aligned in the first. The second
  holds the low 256 bits of the amount, whatever its size: \<open>be_bytes 32\<close> drops the rest, as
  \<open>math.U256Bytes\<close> does.\<close>

fun be_bytes :: "nat \<Rightarrow> int \<Rightarrow> bytes" where
  "be_bytes 0 v = []"
| "be_bytes (Suc n) v = be_bytes n (v div 256) @ [word_of_int (v mod 256)]"

definition pack_ok :: "geth \<Rightarrow> bool" where
  "pack_ok g \<longleftrightarrow>
     (\<forall>to amt data. AbiPack g Erc20TransferABI ''transfer'' [AbiAddress to, AbiBig amt] = Inr data \<longrightarrow>
        data = [0xa9, 0x05, 0x9c, 0xbb] @ replicate 12 0 @ be_bytes 20 (uint to) @ be_bytes 32 amt) \<and>
     (\<forall>a. BytesToAddress g (be_bytes 20 (uint a)) = a) \<and>
     (\<forall>a. AddressHex g a \<noteq> [])"

subsection \<open>Lemmas\<close>

lemma length_be_bytes [simp]: "length (be_bytes n v) = n"
  by (induction n arbitrary: v) simp_all

lemma uint_byte [simp]: "uint (word_of_int (v mod 256) :: 8 word) = v mod 256"
  by (simp add: unsigned_of_int take_bit_eq_mod)

lemma big_set_bytes_be_mod: "big_set_bytes (be_bytes n v) = v mod 256 ^ n"
proof (induction n arbitrary: v)
  case 0
  then show ?case by (simp add: big_set_bytes_def)
next
  case (Suc n)
  have "v mod (256 * 256 ^ n) = 256 * (v div 256 mod 256 ^ n) + v mod 256"
    by (rule zmod_zmult2_eq) simp
  then show ?case using Suc.IH [of "v div 256"] by (simp add: big_set_bytes_def)
qed

lemma big_set_bytes_be: "0 \<le> v \<Longrightarrow> v < 256 ^ n \<Longrightarrow> big_set_bytes (be_bytes n v) = v"
  by (simp add: big_set_bytes_be_mod)

lemma maybe_wrap_Inr [simp]: "maybe_wrap p r = Inr x \<longleftrightarrow> r = Inr x"
  by (simp add: maybe_wrap_def split: option.splits)

lemma fees_1559_Inr:
  assumes "fees_1559 b wrap bump = Inr (tip, feeCap)"
  shows "\<exists>tip0 bf. rpcSuggestGasTipCap (bk_node b) = Inr tip0 \<and> rpcHeaderBaseFee (bk_node b) = Inr bf \<and>
    tip = bump tip0 \<and> feeCap = 2 * (case bf of None \<Rightarrow> 0 | Some f \<Rightarrow> f) + tip"
  using assms by (fastforce simp: fees_1559_def Let_def elim!: bindR_InrE)

text \<open>What a successful signing function returns, whatever its price.\<close>

lemma sign_with_feesE:
  assumes "sign_with_fees b key wrap bump e dest v data r0 = Inr (stx, r)"
  obtains t where "SignTx (bk_geth b) t (bk_chain b) key = Inr stx"
    "td_nonce t = sr_nonce r0" "td_gas t = sr_gas_limit r0" "td_to t = Some dest" "td_value t = v"
    "td_data t = data" "td_type t = (if e then DynamicFeeTxType else LegacyTxType)"
    "r = r0\<lparr>sr_format := (if e then ''eip1559'' else ''legacy''),
            sr_max_prio := (if e then Some (td_tip t) else sr_max_prio r0),
            sr_max_fee := (if e then Some (td_fee_cap t) else sr_max_fee r0),
            sr_gas_price := (if e then sr_gas_price r0 else Some (td_gas_price t)),
            sr_hash := TxHash (bk_geth b) stx\<rparr>"
proof (cases e)
  case True
  then show ?thesis using assms
    by (auto simp: sign_with_fees_def elim!: bindR_InrE intro: that)
next
  case False
  then show ?thesis using assms
    by (auto simp: sign_with_fees_def Let_def elim!: bindR_InrE intro: that)
qed

lemma SignERC20Transfer_value:
  "SignERC20Transfer b key token to amount nonce e = Inr (stx, r) \<Longrightarrow> sr_value r = 0"
  by (auto simp: SignERC20Transfer_def Let_def base_result_def
      split: option.splits if_splits elim!: bindR_InrE sign_with_feesE)

lemma SendResultFromSigned_erc20:
  assumes "Sender g ch s = Inr fr" "stx_data s = t" "td_to t = Some token" "td_value t = 0"
    "take 4 (td_data t) = [0xa9, 0x05, 0x9c, 0xbb]" "68 \<le> length (td_data t)"
    "\<forall>a. AddressHex g a \<noteq> []"
  shows "SendResultFromSigned g s ch = Inr
    ((base_result fr (BytesToAddress g (take 20 (drop 16 (td_data t)))) token
       (big_set_bytes (take 32 (drop 36 (td_data t)))) (td_nonce t) (td_gas t) ''erc20'' (td_data t))
     \<lparr>sr_hash := TxHash g s,
      sr_format := (if td_type t = DynamicFeeTxType then ''eip1559'' else ''legacy''),
      sr_max_fee := (if td_type t = DynamicFeeTxType then Some (td_fee_cap t) else None),
      sr_max_prio := (if td_type t = DynamicFeeTxType then Some (td_tip t) else None),
      sr_gas_price := (if td_type t = DynamicFeeTxType then None else Some (td_gas_price t))\<rparr>)"
  using assms
  by (simp add: SendResultFromSigned_def RecoverSender_def Let_def base_result_def equal_fold_def)

lemma pack_ok_layout:
  assumes "pack_ok g" "AbiPack g Erc20TransferABI ''transfer'' [AbiAddress to, AbiBig amt] = Inr data"
  shows "take 4 data = [0xa9, 0x05, 0x9c, 0xbb]" "length data = 68"
    "BytesToAddress g (take 20 (drop 16 data)) = to" "big_set_bytes (take 32 (drop 36 data)) = amt mod 2 ^ 256"
proof -
  have d: "data = [0xa9, 0x05, 0x9c, 0xbb] @ replicate 12 0 @ be_bytes 20 (uint to) @ be_bytes 32 amt"
    using assms unfolding pack_ok_def by blast
  have ad: "BytesToAddress g (be_bytes 20 (uint to)) = to" using assms(1) by (simp add: pack_ok_def)
  have am: "big_set_bytes (be_bytes 32 amt) = amt mod 2 ^ 256" by (simp add: big_set_bytes_be_mod)
  show "take 4 data = [0xa9, 0x05, 0x9c, 0xbb]" "length data = 68"
    "BytesToAddress g (take 20 (drop 16 data)) = to" "big_set_bytes (take 32 (drop 36 data)) = amt mod 2 ^ 256"
    using ad am by (simp_all add: d)
qed

lemma SignERC20Transfer_describes:
  assumes g: "sign_ok (bk_geth b)" "pack_ok (bk_geth b)"
    and s: "SignERC20Transfer b key token to (Some amt) nonce e = Inr (stx, r)"
  shows "SendResultFromSigned (bk_geth b) stx (bk_chain b) = Inr (r\<lparr>sr_value := amt mod 2 ^ 256\<rparr>)"
proof -
  let ?fr = "PubkeyToAddress (bk_geth b) key"
  obtain data gl where pk: "packERC20Transfer b to amt = Inr data"
    and sg: "sign_with_fees b key True id e token 0 data
       (base_result ?fr to token 0 nonce gl ''erc20'' data) = Inr (stx, r)"
    using s by (auto simp: SignERC20Transfer_def Let_def split: if_splits elim!: bindR_InrE)
  have ab: "AbiPack (bk_geth b) Erc20TransferABI ''transfer'' [AbiAddress to, AbiBig amt] = Inr data"
    using pk by (auto simp: packERC20Transfer_def parseABI_def elim!: bindR_InrE)
  note lay = pack_ok_layout [OF g(2) ab]
  from sg show ?thesis
  proof (rule sign_with_feesE)
    fix t
    assume t: "SignTx (bk_geth b) t (bk_chain b) key = Inr stx"
      "td_nonce t = sr_nonce (base_result ?fr to token 0 nonce gl ''erc20'' data)"
      "td_gas t = sr_gas_limit (base_result ?fr to token 0 nonce gl ''erc20'' data)"
      "td_to t = Some token" "td_value t = 0" "td_data t = data"
      "td_type t = (if e then DynamicFeeTxType else LegacyTxType)"
      and r: "r = base_result ?fr to token 0 nonce gl ''erc20'' data
          \<lparr>sr_format := (if e then ''eip1559'' else ''legacy''),
           sr_max_prio := (if e then Some (td_tip t) else sr_max_prio (base_result ?fr to token 0 nonce gl ''erc20'' data)),
           sr_max_fee := (if e then Some (td_fee_cap t) else sr_max_fee (base_result ?fr to token 0 nonce gl ''erc20'' data)),
           sr_gas_price := (if e then sr_gas_price (base_result ?fr to token 0 nonce gl ''erc20'' data) else Some (td_gas_price t)),
           sr_hash := TxHash (bk_geth b) stx\<rparr>"
    have so: "stx_data stx = t" "Sender (bk_geth b) (bk_chain b) stx = Inr ?fr"
      using g(1) t(1) unfolding sign_ok_def by blast+
    have ah: "\<forall>a. AddressHex (bk_geth b) a \<noteq> []" using g(2) by (simp add: pack_ok_def)
    show ?thesis
      using SendResultFromSigned_erc20 [OF so(2,1) t(4,5) _ _ ah] t lay
      by (simp add: r base_result_def)
  qed
qed

lemma SignNativeTransfer_fields:
  assumes "SignNativeTransfer b key to v nonce e = Inr (stx, r)"
  shows "21000 \<le> sr_gas_limit r \<and> sr_nonce r = nonce \<and> sr_value r = v \<and> sr_to r = to \<and>
    sr_from r = PubkeyToAddress (bk_geth b) key \<and> sr_hash r = TxHash (bk_geth b) stx \<and>
    sr_type r = ''native'' \<and> sr_token r = 0 \<and>
    sr_format r = (if e then ''eip1559'' else ''legacy'')"
  using assms
  by (auto simp: SignNativeTransfer_def Let_def base_result_def elim!: sign_with_feesE split: sum.splits)

text \<open>The percentage is exact as long as the sum fits in 64 bits; the largest ones turn negative.\<close>

lemma bump_mult_exact:
  assumes "pct < 2 ^ 63 - 100"
  shows "bump_mult pct = 100 + (if pct \<le> 0 then 20 else pct)"
proof -
  have "sint (word_of_int k :: 64 word) = k" if "0 \<le> k" "k < 2 ^ 63" for k :: int
    using that by (simp add: signed_of_int signed_take_bit_int_eq_self)
  from this [of "100 + (if pct \<le> 0 then 20 else pct)"] show ?thesis
    using assms unfolding bump_mult_def by simp
qed

lemma bump_mult_wraps: "bump_mult (2 ^ 63 - 1) = 99 - 2 ^ 63"
  by (simp add: bump_mult_def)

lemma SignSpeedUpNativeE:
  assumes "SignSpeedUpNative b key to v nonce gas pct e = Inr (stx, r)"
  obtains t where "SignTx (bk_geth b) t (bk_chain b) key = Inr stx"
    "td_nonce t = nonce" "td_gas t = gas" "td_to t = Some to" "td_value t = v" "td_data t = []"
    "if e then \<exists>p bf. rpcSuggestGasTipCap (bk_node b) = Inr p \<and> rpcHeaderBaseFee (bk_node b) = Inr bf \<and>
         td_tip t = bump_price (bump_mult pct) p \<and>
         td_fee_cap t = 2 * (case bf of None \<Rightarrow> 0 | Some f \<Rightarrow> f) + td_tip t
     else \<exists>p. rpcSuggestGasPrice (bk_node b) = Inr p \<and> td_gas_price t = bump_price (bump_mult pct) p"
proof (cases e)
  case True
  then show ?thesis using assms
    by (auto simp: SignSpeedUpNative_def sign_with_fees_def base_result_def dest!: fees_1559_Inr elim!: bindR_InrE intro!: that)
next
  case False
  then show ?thesis using assms
    by (auto simp: SignSpeedUpNative_def sign_with_fees_def base_result_def Let_def elim!: bindR_InrE intro!: that)
qed

end
