(* ===== verification/Tx_Service.thy ===== *)
theory Tx_Service
  imports Tx_Store Eth_Transfer
begin

text \<open>
  \<open>internal/tx/nonce.go\<close> and \<open>service.go\<close>: nonce allocation under a row lock, and the
  four ways to send a transaction. Each of them writes the tracker row first and
  broadcasts afterwards; an operation of the service is a sequence of database
  statements and node calls on \<open>sys\<close>.
\<close>

subsection \<open>\<open>nonce.go\<close>\<close>

definition nonce_match :: "int \<Rightarrow> string \<Rightarrow> nonce_row \<Rightarrow> bool" where
  "nonce_match ch addr r \<longleftrightarrow> wn_chain r = ch \<and> sql_eq (wn_address r) addr"

definition insert_nonce_stmt :: "int \<Rightarrow> time \<Rightarrow> string \<Rightarrow> u64 \<Rightarrow> unit dbtx" where
  "insert_nonce_stmt ch now addr next = (\<lambda>d.
     if List.find (nonce_match ch addr) (nonces d) \<noteq> None then (Inl (ErrDupEntry ''PRIMARY''), d)
     else (Inr (), d\<lparr>nonces := nonces d @
       [\<lparr>wn_chain = ch, wn_address = addr, wn_next = next, wn_updated = now\<rparr>]\<rparr>))"

definition Allocate :: "backend \<Rightarrow> time \<Rightarrow> string \<Rightarrow> u64 dbtx" where
  "Allocate b now addr0 = run_tx (
     let ch = bk_chain b; addr = to_lower addr0 in
     bindT (getT (\<lambda>d. List.find (nonce_match ch addr) (nonces d))) (\<lambda>found.
     case found of
       None \<Rightarrow>
         bindT (liftT (wrapR ''sync nonce from chain''
           (PendingNonceAt b (HexToAddress (bk_geth b) addr)))) (\<lambda>onChain.
         bindT (insert_nonce_stmt ch now addr (onChain + 1)) (\<lambda>_. retT onChain))
     | Some r \<Rightarrow>
         let allocated = wn_next r in
         bindT (modT (\<lambda>d. d\<lparr>nonces := upd_where (nonce_match ch addr)
           (\<lambda>r. r\<lparr>wn_next := allocated + 1, wn_updated := now\<rparr>) (nonces d)\<rparr>)) (\<lambda>_.
         retT allocated)))"

definition SyncFromChain :: "backend \<Rightarrow> time \<Rightarrow> string \<Rightarrow> u64 dbtx" where
  "SyncFromChain b now addr0 =
     (let ch = bk_chain b; addr = to_lower addr0 in
      bindT (liftT (PendingNonceAt b (HexToAddress (bk_geth b) addr))) (\<lambda>onChain.
      bindT (modT (\<lambda>d. d\<lparr>nonces := upsert_where (nonce_match ch addr)
        (\<lambda>r. r\<lparr>wn_next := max (wn_next r) onChain, wn_updated := now\<rparr>)
        \<lparr>wn_chain = ch, wn_address = addr, wn_next = onChain, wn_updated = now\<rparr> (nonces d)\<rparr>)) (\<lambda>_.
      retT onChain)))"

subsection \<open>\<open>service.go\<close>\<close>

record tx_service =
  ts_backend :: backend
  ts_store :: int
  ts_use1559 :: bool
  ts_bump :: int

definition readS :: "(db \<Rightarrow> 'a res) \<Rightarrow> 'a systx" where
  "readS f = readT (\<lambda>s. f (sys_db s))"

definition getS :: "(db \<Rightarrow> 'a) \<Rightarrow> 'a systx" where
  "getS f = getT (\<lambda>s. f (sys_db s))"

definition resumeBroadcast :: "tx_service \<Rightarrow> time \<Rightarrow> tx_row \<Rightarrow> string \<Rightarrow> tx_row systx" where
  "resumeBroadcast sv now row signedRaw0 =
     (if row_status row \<notin> {StatusSubmitting, StatusBroadcastFailed} then retT row
      else
        let signedRaw = (if signedRaw0 = [] then row_signed_raw row else signedRaw0) in
        if signedRaw = [] then retT row
        else
          bindT (liftT (DecodeRawTxHex (ts_backend sv) signedRaw)) (\<lambda>tx. \<lambda>s.
          case SendSignedTransaction (ts_backend sv) tx s of
            (Inl err, s1) \<Rightarrow>
              (Inl err, snd (dbT (MarkBroadcastFailed (ts_store sv) now (row_hash row) (err_text err)) s1))
          | (Inr _, s1) \<Rightarrow>
              bindT (dbT (MarkBroadcastPending (ts_store sv) now (row_hash row))) (\<lambda>_.
              readS (GetByHash (ts_store sv) (row_hash row))) s1))"

definition checkIdempotency :: "tx_service \<Rightarrow> time \<Rightarrow> string \<Rightarrow> (tx_row option) systx" where
  "checkIdempotency sv now key =
     (if key = [] then retT None
      else
        bindT (getS (GetByIdempotencyKey (ts_store sv) key)) (\<lambda>found.
        case found of
          Inl e \<Rightarrow> if e = ErrNoRows then retT None else failT e
        | Inr row \<Rightarrow>
            bindT (resumeBroadcast sv now row (row_signed_raw row)) (\<lambda>row'. retT (Some row'))))"

definition persistAndBroadcast ::
  "tx_service \<Rightarrow> time \<Rightarrow> insert_params \<Rightarrow> signed_tx \<Rightarrow> string \<Rightarrow> bool \<Rightarrow> tx_row systx" where
  "persistAndBroadcast sv now p0 tx signedRaw0 syncNonceOnFail =
     bindT (if signedRaw0 = [] then liftT (SignedTxToHex (ts_backend sv) tx) else retT signedRaw0) (\<lambda>signedRaw.
     let p = p0\<lparr>ip_signed_raw := signedRaw\<rparr>; ch = ts_store sv in
     bindT (getS (GetByHash ch (ip_hash p))) (\<lambda>found.
     case found of
       Inr existing \<Rightarrow> resumeBroadcast sv now existing signedRaw
     | Inl e \<Rightarrow>
         if e \<noteq> ErrNoRows then failT e
         else (\<lambda>s.
           case dbT (InsertSubmitting ch now p) s of
             (Inl err, s1) \<Rightarrow>
               if ip_idem p \<noteq> [] then
                 (case GetByIdempotencyKey ch (ip_idem p) (sys_db s1) of
                    Inr row \<Rightarrow>
                      if \<not> equal_fold (row_hash row) (ip_hash p) then (Inl ErrIdempotencyConflict, s1)
                      else resumeBroadcast sv now row signedRaw s1
                  | Inl _ \<Rightarrow> (Inl (GoErr (''track insert: '' @ err_text err)), s1))
               else (Inl (GoErr (''track insert: '' @ err_text err)), s1)
           | (Inr _, s1) \<Rightarrow>
               (case SendSignedTransaction (ts_backend sv) tx s1 of
                  (Inl err, s2) \<Rightarrow>
                    let s3 = snd (dbT (MarkBroadcastFailed ch now (ip_hash p) (err_text err)) s2) in
                    (Inl err, if syncNonceOnFail
                              then snd (dbT (SyncFromChain (ts_backend sv) now (ip_from p)) s3) else s3)
                | (Inr _, s2) \<Rightarrow>
                    bindT (dbT (MarkBroadcastPending ch now (ip_hash p))) (\<lambda>_.
                    readS (GetByHash ch (ip_hash p))) s2))))"

definition insertFromSendResult :: "geth \<Rightarrow> send_result \<Rightarrow> send_meta \<Rightarrow> insert_params" where
  "insertFromSendResult g r meta =
     \<lparr>ip_hash = HashHex g (sr_hash r), ip_from = AddressHex g (sr_from r),
      ip_to = AddressHex g (sr_to r),
      ip_token = (if sr_token r \<noteq> 0 then AddressHex g (sr_token r) else []),
      ip_value = int_str (sr_value r), ip_nonce = sr_nonce r, ip_gas_limit = sr_gas_limit r,
      ip_gas_price = (case sr_gas_price r of None \<Rightarrow> [] | Some v \<Rightarrow> int_str v),
      ip_max_fee = (case sr_max_fee r of None \<Rightarrow> [] | Some v \<Rightarrow> int_str v),
      ip_max_prio = (case sr_max_prio r of None \<Rightarrow> [] | Some v \<Rightarrow> int_str v),
      ip_format = (if sr_format r = [] then TxFormatLegacy else sr_format r),
      ip_type = (if sr_type r = [] then TxTypeNative else sr_type r),
      ip_biz_id = sm_biz_id meta, ip_biz_type = sm_biz_type meta, ip_idem = sm_idem meta,
      ip_replaces = sm_replaces meta, ip_signed_raw = [], ip_status = None\<rparr>"

definition SubmitRaw :: "tx_service \<Rightarrow> time \<Rightarrow> submit_request \<Rightarrow> tx_row systx" where
  "SubmitRaw sv now req =
     (let b = ts_backend sv; g = bk_geth b;
          fresh =
            bindT (liftT (DecodeRawTxHex b (sq_signed_raw req))) (\<lambda>tx.
            bindT (liftT (ValidateSignedTxChainID b tx)) (\<lambda>_.
            bindT (liftT (SendResultFromSigned g tx (bk_chain b))) (\<lambda>result.
            let p = insertFromSendResult g result
                  \<lparr>sm_biz_id = sq_biz_id req, sm_biz_type = sq_biz_type req,
                   sm_idem = sq_idem req, sm_replaces = sq_replaces req\<rparr>
            in persistAndBroadcast sv now p tx (sq_signed_raw req) False)))
      in
      if sq_idem req \<noteq> [] then
        bindT (getS (GetByIdempotencyKey (ts_store sv) (sq_idem req))) (\<lambda>found.
        case found of
          Inr row \<Rightarrow> resumeBroadcast sv now row (sq_signed_raw req)
        | Inl e \<Rightarrow> if e \<noteq> ErrNoRows then failT e else fresh)
      else fresh)"

text \<open>The part that \<open>SendNative\<close> and \<open>SendERC20\<close> share, with the signing function as
  an argument.\<close>

definition send_custodial ::
  "tx_service \<Rightarrow> time \<Rightarrow> privkey \<Rightarrow> send_meta \<Rightarrow> (u64 \<Rightarrow> (signed_tx \<times> send_result) res) \<Rightarrow> tx_row systx" where
  "send_custodial sv now key meta sign =
     (let b = ts_backend sv; g = bk_geth b; fr = AddressHex g (PubkeyToAddress g key) in
      bindT (\<lambda>s. case dbT (Allocate b now fr) s of
               (Inl e, s1) \<Rightarrow> (Inl (GoErr (''allocate nonce: '' @ err_text e)), s1)
             | (Inr n, s1) \<Rightarrow> (Inr n, s1)) (\<lambda>nonce.
      bindT (liftT (sign nonce)) (\<lambda>(tx, result). \<lambda>s.
      case persistAndBroadcast sv now (insertFromSendResult g result meta) tx [] True s of
        (Inl err, s1) \<Rightarrow> (Inl err, snd (dbT (SyncFromChain b now fr) s1))
      | (Inr row, s1) \<Rightarrow> (Inr row, s1))))"

definition SendNative ::
  "tx_service \<Rightarrow> time \<Rightarrow> privkey \<Rightarrow> address \<Rightarrow> string \<Rightarrow> send_meta \<Rightarrow> tx_row systx" where
  "SendNative sv now key to valueWei meta =
     bindT (checkIdempotency sv now (sm_idem meta)) (\<lambda>hit.
     case hit of
       Some row \<Rightarrow> retT row
     | None \<Rightarrow>
         (case big_set_string valueWei of
            None \<Rightarrow> failT (GoErr ''invalid value_wei'')
          | Some v \<Rightarrow>
              if v \<le> 0 then failT (GoErr ''invalid value_wei'')
              else send_custodial sv now key meta (\<lambda>nonce.
                SignNativeTransfer (ts_backend sv) key to v nonce (ts_use1559 sv))))"

definition SendERC20 ::
  "tx_service \<Rightarrow> time \<Rightarrow> privkey \<Rightarrow> address \<Rightarrow> address \<Rightarrow> string \<Rightarrow> send_meta \<Rightarrow> tx_row systx" where
  "SendERC20 sv now key token to amountWei meta =
     bindT (checkIdempotency sv now (sm_idem meta)) (\<lambda>hit.
     case hit of
       Some row \<Rightarrow> retT row
     | None \<Rightarrow>
         (case big_set_string amountWei of
            None \<Rightarrow> failT (GoErr ''invalid amount_wei'')
          | Some amt \<Rightarrow>
              if amt \<le> 0 then failT (GoErr ''invalid amount_wei'')
              else send_custodial sv now key meta (\<lambda>nonce.
                SignERC20Transfer (ts_backend sv) key token to (Some amt) nonce (ts_use1559 sv))))"

text \<open>The result of \<open>value.SetString\<close> is ignored: on a text that is no number the value
  is undefined in the library's contract, and 0 in its implementation.\<close>

definition SpeedUp :: "tx_service \<Rightarrow> time \<Rightarrow> privkey \<Rightarrow> string \<Rightarrow> tx_row systx" where
  "SpeedUp sv now key pendingHash =
     (let b = ts_backend sv; g = bk_geth b in
      bindT (readS (GetByHash (ts_store sv) pendingHash)) (\<lambda>old.
      if row_status old \<noteq> StatusPending
      then failT (GoErr (''tx status is '' @ tx_status_str (row_status old) @ '', not pending''))
      else
        let to = HexToAddress g (row_to old);
            value = (case big_set_string (row_value old) of None \<Rightarrow> 0 | Some v \<Rightarrow> v);
            wasEIP1559 = (row_format old = TxFormatEIP1559) in
        bindT (liftT
          (if row_type old = TxTypeERC20
           then SignSpeedUpERC20 b key (HexToAddress g (row_token old)) to value (row_nonce old)
                  (row_gas_limit old) (ts_bump sv) wasEIP1559
           else SignSpeedUpNative b key to value (row_nonce old) (row_gas_limit old) (ts_bump sv)
                  wasEIP1559)) (\<lambda>(tx, result).
        persistAndBroadcast sv now (insertFromSendResult g result
          \<lparr>sm_biz_id = row_biz_id old, sm_biz_type = row_biz_type old, sm_idem = [],
           sm_replaces = row_hash old\<rparr>) tx [] False)))"

subsection \<open>Nonces\<close>

definition nonce_of :: "int \<Rightarrow> string \<Rightarrow> db \<Rightarrow> u64 option" where
  "nonce_of ch addr d = map_option wn_next (List.find (nonce_match ch (to_lower addr)) (nonces d))"

lemma nonce_match_lower [simp]: "nonce_match ch (to_lower a) = nonce_match ch a"
  by (simp add: nonce_match_def fun_eq_iff)

lemma nonce_match_cong: "sql_eq a a' \<Longrightarrow> nonce_match ch a = nonce_match ch a'"
  by (auto simp: nonce_match_def sql_eq_def fun_eq_iff)

lemma nonce_of_upd:
  assumes "\<And>r. nonce_match ch a (f r) = nonce_match ch a r"
    "\<And>r c. nonce_match c a' (f r) = nonce_match c a' r"
  shows "nonce_of ch a' (d\<lparr>nonces := upd_where (nonce_match ch a) f (nonces d)\<rparr>) =
    (if sql_eq a a' then map_option (\<lambda>r. wn_next (f r)) (List.find (nonce_match ch a) (nonces d))
     else nonce_of ch a' d)"
proof (cases "sql_eq a a'")
  case True
  then have eq: "nonce_match ch a' = nonce_match ch a" by (simp add: nonce_match_cong)
  have "List.find (nonce_match ch a) (upd_where (nonce_match ch a) f (nonces d)) =
      map_option (\<lambda>r. if nonce_match ch a r then f r else r) (List.find (nonce_match ch a) (nonces d))"
    by (rule find_upd_where) (simp add: assms(1))
  then show ?thesis using True find_SomeD [of "nonce_match ch a" "nonces d"]
    by (cases "List.find (nonce_match ch a) (nonces d)") (auto simp: nonce_of_def eq)
next
  case False
  have "List.find (nonce_match ch a') (upd_where (nonce_match ch a) f (nonces d)) =
      map_option (\<lambda>r. if nonce_match ch a r then f r else r) (List.find (nonce_match ch a') (nonces d))"
    by (rule find_upd_where) (simp add: assms(2))
  moreover have "\<not> nonce_match ch a r" if "nonce_match ch a' r" for r
    using False that by (auto simp: nonce_match_def sql_eq_def)
  ultimately show ?thesis using False find_SomeD [of "nonce_match ch a'" "nonces d"]
    by (cases "List.find (nonce_match ch a') (nonces d)") (auto simp: nonce_of_def)
qed

lemma Allocate_known:
  assumes "nonce_of (bk_chain b) a d = Some n"
  obtains d' where "Allocate b now a d = (Inr n, d')"
    "\<And>a'. nonce_of (bk_chain b) a' d' = (if sql_eq a a' then Some (n + 1) else nonce_of (bk_chain b) a' d)"
proof
  obtain r where r: "List.find (nonce_match (bk_chain b) a) (nonces d) = Some r" "wn_next r = n"
    using assms by (auto simp: nonce_of_def)
  let ?d = "d\<lparr>nonces := upd_where (nonce_match (bk_chain b) a)
    (\<lambda>r. r\<lparr>wn_next := n + 1, wn_updated := now\<rparr>) (nonces d)\<rparr>"
  show "Allocate b now a d = (Inr n, ?d)"
    using r by (simp add: Allocate_def run_tx_def Let_def bindT_apply)
  show "nonce_of (bk_chain b) a' ?d = (if sql_eq a a' then Some (n + 1) else nonce_of (bk_chain b) a' d)" for a'
    using r by (subst nonce_of_upd) (auto simp: nonce_match_def)
qed

lemma Allocate_new:
  assumes "nonce_of (bk_chain b) a d = None"
  shows "Allocate b now a d =
    (case PendingNonceAt b (HexToAddress (bk_geth b) (to_lower a)) of
       Inl e \<Rightarrow> (Inl (GoErr (''sync nonce from chain: '' @ err_text e)), d)
     | Inr c \<Rightarrow> (Inr c, d\<lparr>nonces := nonces d @
         [\<lparr>wn_chain = bk_chain b, wn_address = to_lower a, wn_next = c + 1, wn_updated = now\<rparr>]\<rparr>))"
  using assms
  by (auto simp: Allocate_def run_tx_def Let_def bindT_apply nonce_of_def insert_nonce_stmt_def
      rollback_def split: sum.splits)

lemma SyncFromChain_nonce:
  assumes "SyncFromChain b now a d = (Inr c, d')" "nonce_of (bk_chain b) a d = Some n"
  shows "nonce_of (bk_chain b) a d' = Some (max n c)"
proof -
  let ?p = "nonce_match (bk_chain b) a"
  let ?f = "\<lambda>r. r\<lparr>wn_next := max (wn_next r) c, wn_updated := now\<rparr>"
  let ?new = "\<lparr>wn_chain = bk_chain b, wn_address = to_lower a, wn_next = c, wn_updated = now\<rparr>"
  obtain r where r: "List.find ?p (nonces d) = Some r" "wn_next r = n"
    using assms(2) by (auto simp: nonce_of_def)
  have d': "d' = d\<lparr>nonces := upsert_where ?p ?f ?new (nonces d)\<rparr>"
    using assms(1) by (auto simp: SyncFromChain_def Let_def bindT_apply split: sum.splits)
  have "List.find ?p (upsert_where ?p ?f ?new (nonces d)) =
      Some (case List.find ?p (nonces d) of None \<Rightarrow> ?new | Some r \<Rightarrow> ?f r)"
    by (rule find_upsert_same) (auto simp: nonce_match_def)
  with r show ?thesis by (simp add: d' nonce_of_def)
qed

lemma SyncFromChain_frame: "trackers (snd (SyncFromChain b now a d)) = trackers d"
  by (simp add: SyncFromChain_def Let_def bindT_apply split: sum.splits)

lemma Allocate_frame: "trackers (snd (Allocate b now a d)) = trackers d"
  by (cases "nonce_of (bk_chain b) a d")
    (auto simp: Allocate_def run_tx_def Let_def bindT_apply nonce_of_def insert_nonce_stmt_def
      rollback_def split: sum.splits)

text \<open>A sequence of allocations, for any addresses in any order.\<close>

fun alloc_all :: "backend \<Rightarrow> time \<Rightarrow> string list \<Rightarrow> (u64 list) dbtx" where
  "alloc_all b now [] = retT []"
| "alloc_all b now (a # as) =
     bindT (Allocate b now a) (\<lambda>n. bindT (alloc_all b now as) (\<lambda>ns. retT (n # ns)))"

lemma map_Suc_upt_word:
  "map (\<lambda>i. (n :: u64) + of_nat i) [0..<Suc k] = n # map (\<lambda>i. (n + 1) + of_nat i) [0..<k]"
  by (simp add: upt_conv_Cons map_Suc_upt [symmetric] del: upt_Suc map_Suc_upt)

lemma Allocate_other:
  assumes "Allocate b now x d = (Inr m, d')" "\<not> sql_eq x a"
  shows "nonce_of (bk_chain b) a d' = nonce_of (bk_chain b) a d"
proof (cases "nonce_of (bk_chain b) x d")
  case None
  then show ?thesis using assms
    by (auto simp: Allocate_new nonce_of_def find_append nonce_match_def
        split: sum.splits option.splits)
next
  case (Some n)
  then obtain d1 where "Allocate b now x d = (Inr n, d1)"
    "\<And>a'. nonce_of (bk_chain b) a' d1 = (if sql_eq x a' then Some (n + 1) else nonce_of (bk_chain b) a' d)"
    by (rule Allocate_known) blast
  with assms show ?thesis by simp
qed

lemma alloc_all_consecutive:
  assumes "alloc_all b now as d = (Inr ns, d')" "nonce_of (bk_chain b) a d = Some n"
  shows "map snd (filter (\<lambda>(x, m). sql_eq x a) (zip as ns)) =
    map (\<lambda>i. n + of_nat i) [0..<length (filter (\<lambda>x. sql_eq x a) as)]"
  using assms
proof (induction as arbitrary: d n ns)
  case Nil
  then show ?case by simp
next
  case (Cons x as)
  from Cons.prems(1) obtain m d1 ns1 where x: "Allocate b now x d = (Inr m, d1)"
    and rest: "alloc_all b now as d1 = (Inr ns1, d')" and ns: "ns = m # ns1"
    by (auto elim!: bindT_InrE)
  show ?case
  proof (cases "sql_eq x a")
    case True
    have "nonce_of (bk_chain b) x d = Some n"
      using Cons.prems(2) nonce_match_cong [OF True] by (simp add: nonce_of_def)
    then obtain d2 where "Allocate b now x d = (Inr n, d2)"
      "\<And>a'. nonce_of (bk_chain b) a' d2 = (if sql_eq x a' then Some (n + 1) else nonce_of (bk_chain b) a' d)"
      by (rule Allocate_known) blast
    with x True have m: "m = n" and "nonce_of (bk_chain b) a d1 = Some (n + 1)" by simp_all
    then have "map snd (filter (\<lambda>(x, m). sql_eq x a) (zip as ns1)) =
        map (\<lambda>i. (n + 1) + of_nat i) [0..<length (filter (\<lambda>x. sql_eq x a) as)]"
      by (intro Cons.IH [OF rest])
    then show ?thesis using True
      by (simp add: ns m map_Suc_upt_word del: upt_Suc)
  next
    case False
    then have "nonce_of (bk_chain b) a d1 = Some n" using Allocate_other [OF x] Cons.prems(2) by simp
    then show ?thesis using Cons.IH [OF rest] False by (simp add: ns)
  qed
qed

subsection \<open>Write-ahead\<close>

definition tx_hash_str :: "backend \<Rightarrow> signed_tx \<Rightarrow> string" where
  "tx_hash_str b tx = HashHex (bk_geth b) (TxHash (bk_geth b) tx)"

definition track_sig :: "tracker_row \<Rightarrow> int \<times> string \<times> string option" where
  "track_sig r = (tr_chain r, tr_hash r, tr_signed_raw r)"

text \<open>A tracked transaction has a row under its hash; a row's stored raw transaction is the
  one the row stands for.\<close>

definition is_tracked :: "tx_service \<Rightarrow> signed_tx \<Rightarrow> db \<Rightarrow> bool" where
  "is_tracked sv tx d \<longleftrightarrow> (\<exists>r\<in>set (trackers d).
     tr_chain r = ts_store sv \<and> sql_eq (tr_hash r) (tx_hash_str (ts_backend sv) tx))"

definition raws_ok :: "tx_service \<Rightarrow> db \<Rightarrow> bool" where
  "raws_ok sv d \<longleftrightarrow> (\<forall>r\<in>set (trackers d). \<forall>raw tx.
     tr_chain r = ts_store sv \<and> tr_signed_raw r = Some raw \<and> DecodeRawTxHex (ts_backend sv) raw = Inr tx \<longrightarrow>
     sql_eq (tr_hash r) (tx_hash_str (ts_backend sv) tx))"

text \<open>Every transaction sent is tracked, those of the set \<open>R\<close> excepted.\<close>

definition sent_ok :: "signed_tx set \<Rightarrow> tx_service \<Rightarrow> sys \<Rightarrow> bool" where
  "sent_ok R sv s \<longleftrightarrow> raws_ok sv (sys_db s) \<and>
     (\<forall>tx\<in>set (sys_sent s). tx \<in> R \<or> is_tracked sv tx (sys_db s))"

lemma sent_ok_mono: "sent_ok R sv s \<Longrightarrow> R \<subseteq> R' \<Longrightarrow> sent_ok R' sv s"
  by (auto simp: sent_ok_def)

lemma raws_ok_sig: "raws_ok sv d \<longleftrightarrow> (\<forall>(c, h, ro)\<in>set (map track_sig (trackers d)). \<forall>raw tx.
     c = ts_store sv \<and> ro = Some raw \<and> DecodeRawTxHex (ts_backend sv) raw = Inr tx \<longrightarrow>
     sql_eq h (tx_hash_str (ts_backend sv) tx))"
  by (auto simp: raws_ok_def track_sig_def)

lemma is_tracked_sig: "is_tracked sv tx d \<longleftrightarrow> (\<exists>(c, h, ro)\<in>set (map track_sig (trackers d)).
     c = ts_store sv \<and> sql_eq h (tx_hash_str (ts_backend sv) tx))"
  by (auto simp: is_tracked_def track_sig_def)

lemma sent_ok_cong:
  assumes "map track_sig (trackers (sys_db s')) = map track_sig (trackers (sys_db s))"
    "sys_sent s' = sys_sent s"
  shows "sent_ok R sv s' = sent_ok R sv s"
  using assms by (simp add: sent_ok_def raws_ok_sig is_tracked_sig)

lemma sent_ok_send:
  assumes "sent_ok R sv s" "tx \<in> R \<or> is_tracked sv tx (sys_db s)"
  shows "sent_ok R sv (snd (SendSignedTransaction (ts_backend sv) tx s))"
  using assms SendSignedTransaction_sent [of "ts_backend sv" tx s]
  by (auto simp: sent_ok_def)

lemmas sent_ok_tracked = sent_ok_send [OF _ disjI2]

lemma track_sig_marks [simp]:
  "map track_sig (trackers (snd (MarkBroadcastPending ch now h d))) = map track_sig (trackers d)"
  "map track_sig (trackers (snd (MarkBroadcastFailed ch now h e d))) = map track_sig (trackers d)"
  by (simp_all add: MarkBroadcastPending_def MarkBroadcastFailed_def map_upd_where track_sig_def)

lemma sent_ok_dbT:
  assumes "map track_sig (trackers (snd (m (sys_db s)))) = map track_sig (trackers (sys_db s))"
  shows "sent_ok R sv (snd (dbT m s)) = sent_ok R sv s"
  using assms by (intro sent_ok_cong) simp_all

lemma readS_snd [simp]: "snd (readS f s) = s" "snd (getS f s) = s"
  by (simp_all add: readS_def getS_def)

lemma getS_apply [simp]: "getS f s = (Inr (f (sys_db s)), s)"
  by (simp add: getS_def)

lemma readS_apply [simp]: "readS f s = (f (sys_db s), s)"
  by (simp add: readS_def)

lemma mark_then_read_ok:
  assumes "sent_ok R sv s"
  shows "sent_ok R sv (snd (bindT (dbT (MarkBroadcastPending ch now h)) (\<lambda>_. readS f) s))"
  by (rule bindT_snd [where P = "sent_ok R sv"]) (simp_all only: readS_snd sent_ok_dbT track_sig_marks assms)

lemma resumeBroadcast_sent_ok:
  assumes ok: "sent_ok R sv s" and r: "r \<in> set (trackers (sys_db s))" "tr_chain r = ts_store sv" "row = scanOne r"
    and raw: "raw0 = [] \<or> (\<forall>tx. DecodeRawTxHex (ts_backend sv) raw0 = Inr tx \<longrightarrow>
      tx \<in> R \<or> sql_eq (tr_hash r) (tx_hash_str (ts_backend sv) tx))"
  shows "sent_ok R sv (snd (resumeBroadcast sv now row raw0 s))"
proof -
  define raw where "raw = (if raw0 = [] then row_signed_raw row else raw0)"
  have tracked: "tx \<in> R \<or> is_tracked sv tx (sys_db s)" if "raw \<noteq> []" "DecodeRawTxHex (ts_backend sv) raw = Inr tx" for tx
  proof (cases "raw0 = []")
    case True
    then have "tr_signed_raw r = Some raw" using that(1) r(3)
      by (cases "tr_signed_raw r") (simp_all add: raw_def scanOne_def)
    then show ?thesis using ok r that(2) unfolding sent_ok_def raws_ok_def is_tracked_def by blast
  next
    case False
    then show ?thesis using raw that r unfolding raw_def is_tracked_def by auto
  qed
  show ?thesis
  proof (cases "DecodeRawTxHex (ts_backend sv) raw")
    case (Inl e)
    then show ?thesis using ok by (simp add: resumeBroadcast_def raw_def [symmetric] Let_def)
  next
    case (Inr tx)
    show ?thesis
    proof (cases "raw = []")
      case True
      then show ?thesis using ok by (simp add: resumeBroadcast_def raw_def [symmetric] Let_def)
    next
      case False
      have "sent_ok R sv (snd (SendSignedTransaction (ts_backend sv) tx s))"
        using sent_ok_send [OF ok tracked [OF False Inr]] .
      then show ?thesis using ok Inr
        by (auto simp: resumeBroadcast_def raw_def [symmetric] Let_def sent_ok_dbT mark_then_read_ok
            simp del: dbT_apply split: prod.splits sum.splits)
    qed
  qed
qed

lemma GetByHash_Inr:
  assumes "GetByHash ch h d = Inr row"
  obtains r where "r \<in> set (trackers d)" "tr_chain r = ch" "sql_eq (tr_hash r) h" "row = scanOne r"
  using assms by (auto simp: GetByHash_def tracker_match_def split: option.splits dest!: find_SomeD)

lemma GetByIdempotencyKey_Inr:
  assumes "GetByIdempotencyKey ch k d = Inr row"
  obtains r where "r \<in> set (trackers d)" "tr_chain r = ch" "row = scanOne r"
  using assms by (auto simp: GetByIdempotencyKey_def tracker_idem_match_def split: option.splits dest!: find_SomeD)

lemma GetByHash_Inl: "GetByHash ch h d = Inl e \<Longrightarrow> e = ErrNoRows"
  by (simp add: GetByHash_def split: option.splits)

lemma GetByIdempotencyKey_Inl: "GetByIdempotencyKey ch h d = Inl e \<Longrightarrow> e = ErrNoRows"
  by (simp add: GetByIdempotencyKey_def split: option.splits)

lemma checkIdempotency_sent_ok:
  assumes "sent_ok R sv s"
  shows "sent_ok R sv (snd (checkIdempotency sv now key s))"
proof (cases "key = []")
  case True
  then show ?thesis using assms by (simp add: checkIdempotency_def)
next
  case False
  show ?thesis
  proof (cases "GetByIdempotencyKey (ts_store sv) key (sys_db s)")
    case (Inl e)
    then show ?thesis using assms False by (simp add: checkIdempotency_def)
  next
    case (Inr row)
    then obtain r where r: "r \<in> set (trackers (sys_db s))" "tr_chain r = ts_store sv" "row = scanOne r"
      by (rule GetByIdempotencyKey_Inr)
    have "sent_ok R sv (snd (resumeBroadcast sv now row (row_signed_raw row) s))"
    proof (rule resumeBroadcast_sent_ok [OF assms r])
      show "row_signed_raw row = [] \<or> (\<forall>tx. DecodeRawTxHex (ts_backend sv) (row_signed_raw row) = Inr tx \<longrightarrow>
          tx \<in> R \<or> sql_eq (tr_hash r) (tx_hash_str (ts_backend sv) tx))"
        using assms r unfolding sent_ok_def raws_ok_def
        by (cases "tr_signed_raw r") (auto simp: scanOne_def)
    qed
    then show ?thesis using Inr False
      by (simp add: checkIdempotency_def) (rule bindT_snd [where P = "sent_ok R sv"], simp_all)
  qed
qed

text \<open>The parameters of a new transaction: its own hash, a free idempotency key.\<close>

definition fresh_params :: "tx_service \<Rightarrow> insert_params \<Rightarrow> signed_tx \<Rightarrow> db \<Rightarrow> bool" where
  "fresh_params sv p tx d \<longleftrightarrow> ip_hash p = tx_hash_str (ts_backend sv) tx \<and>
     (ip_idem p \<noteq> [] \<longrightarrow> GetByIdempotencyKey (ts_store sv) (ip_idem p) d = Inl ErrNoRows) \<and>
     ip_format p \<in> {''legacy'', ''eip1559''} \<and> ip_type p \<in> {''native'', ''erc20''} \<and> ip_status p = None"

text \<open>What the raw text passed along decodes to.\<close>

definition raw_of :: "tx_service \<Rightarrow> signed_tx \<Rightarrow> string \<Rightarrow> bool" where
  "raw_of sv tx raw \<longleftrightarrow> DecodeRawTxHex (ts_backend sv) raw = Inr tx"

lemma persist_insert:
  assumes "fresh_params sv p tx (sys_db s)" "GetByHash (ts_store sv) (ip_hash p) (sys_db s) = Inl e"
  shows "dbT (InsertSubmitting (ts_store sv) now (p\<lparr>ip_signed_raw := raw\<rparr>)) s =
    (Inr (), s\<lparr>sys_db := (sys_db s)\<lparr>trackers := trackers (sys_db s) @
       [new_tracker_row (ts_store sv) now (p\<lparr>ip_signed_raw := raw\<rparr>) StatusSubmitting (ip_format p) (ip_type p)]\<rparr>\<rparr>)"
  using assms GetByHash_Inl [OF assms(2)]
    InsertSubmitting_fresh [of "ts_store sv" "p\<lparr>ip_signed_raw := raw\<rparr>" "sys_db s" now]
  by (simp add: fresh_params_def)

lemma sent_ok_insert:
  assumes "sent_ok R sv s" "raw_of sv tx raw" "sql_eq (tr_hash new) (tx_hash_str (ts_backend sv) tx)"
    "tr_chain new = ts_store sv" "tr_signed_raw new = nullStr raw"
  defines "s1 \<equiv> s\<lparr>sys_db := (sys_db s)\<lparr>trackers := trackers (sys_db s) @ [new]\<rparr>\<rparr>"
  shows "sent_ok R sv s1" "is_tracked sv tx (sys_db s1)"
  using assms by (auto simp: sent_ok_def raws_ok_def is_tracked_def raw_of_def nullStr_def split: if_splits)

lemma persistAndBroadcast_sent_ok:
  assumes ok: "sent_ok R sv s" and p: "fresh_params sv p tx (sys_db s)"
    and raw: "if raw0 = [] then rlp_ok (bk_geth (ts_backend sv)) else raw_of sv tx raw0"
  shows "sent_ok R sv (snd (persistAndBroadcast sv now p tx raw0 sync s))"
proof (cases "if raw0 = [] then SignedTxToHex (ts_backend sv) tx else Inr raw0")
  case (Inl e)
  then show ?thesis using ok by (auto simp: persistAndBroadcast_def split: if_splits)
next
  case (Inr rw)
  then have dec: "raw_of sv tx rw"
    using raw DecodeRawTxHex_SignedTxToHex by (auto simp: raw_of_def split: if_splits)
  have step: "persistAndBroadcast sv now p tx raw0 sync s =
      (case GetByHash (ts_store sv) (ip_hash p) (sys_db s) of
         Inr existing \<Rightarrow> resumeBroadcast sv now existing rw s
       | Inl e \<Rightarrow>
          (let s1 = snd (dbT (InsertSubmitting (ts_store sv) now (p\<lparr>ip_signed_raw := rw\<rparr>)) s) in
           case SendSignedTransaction (ts_backend sv) tx s1 of
             (Inl err, s2) \<Rightarrow>
               let s3 = snd (dbT (MarkBroadcastFailed (ts_store sv) now (ip_hash p) (err_text err)) s2) in
               (Inl err, if sync then snd (dbT (SyncFromChain (ts_backend sv) now (ip_from p)) s3) else s3)
           | (Inr _, s2) \<Rightarrow> bindT (dbT (MarkBroadcastPending (ts_store sv) now (ip_hash p)))
               (\<lambda>_. readS (GetByHash (ts_store sv) (ip_hash p))) s2))"
    using Inr persist_insert [OF p] GetByHash_Inl [of "ts_store sv" "ip_hash p" "sys_db s"]
    by (auto simp: persistAndBroadcast_def Let_def simp del: dbT_apply split: if_splits sum.splits prod.splits)
  show ?thesis
  proof (cases "GetByHash (ts_store sv) (ip_hash p) (sys_db s)")
    case (Inr existing)
    then obtain r where r: "r \<in> set (trackers (sys_db s))" "tr_chain r = ts_store sv"
      "sql_eq (tr_hash r) (ip_hash p)" "existing = scanOne r" by (rule GetByHash_Inr)
    have "rw = [] \<or> (\<forall>tx. DecodeRawTxHex (ts_backend sv) rw = Inr tx \<longrightarrow>
        tx \<in> R \<or> sql_eq (tr_hash r) (tx_hash_str (ts_backend sv) tx))"
      using dec r(3) p by (simp add: raw_of_def fresh_params_def)
    from resumeBroadcast_sent_ok [OF ok r(1,2,4) this] show ?thesis by (simp add: step Inr)
  next
    case (Inl e)
    let ?new = "new_tracker_row (ts_store sv) now (p\<lparr>ip_signed_raw := rw\<rparr>) StatusSubmitting (ip_format p) (ip_type p)"
    let ?s1 = "s\<lparr>sys_db := (sys_db s)\<lparr>trackers := trackers (sys_db s) @ [?new]\<rparr>\<rparr>"
    have new: "sql_eq (tr_hash ?new) (tx_hash_str (ts_backend sv) tx)" "tr_chain ?new = ts_store sv"
      "tr_signed_raw ?new = nullStr rw"
      using p by (simp_all add: new_tracker_row_def fresh_params_def)
    have "sent_ok R sv (snd (SendSignedTransaction (ts_backend sv) tx ?s1))"
      using sent_ok_insert [OF ok dec new] by (rule sent_ok_tracked)
    then show ?thesis
      by (auto simp: step Inl persist_insert [OF p Inl] Let_def sent_ok_dbT SyncFromChain_frame mark_then_read_ok
          simp del: dbT_apply split: prod.splits sum.splits)
  qed
qed

text \<open>The signing functions describe the transaction they sign.\<close>

definition describes :: "tx_service \<Rightarrow> signed_tx \<Rightarrow> send_result \<Rightarrow> bool" where
  "describes sv tx r \<longleftrightarrow> sr_hash r = TxHash (bk_geth (ts_backend sv)) tx \<and>
     sr_format r \<in> {''legacy'', ''eip1559''} \<and> sr_type r \<in> {''native'', ''erc20''}"

lemma sign_with_fees_describes:
  assumes "sign_with_fees (ts_backend sv) key wrap bump e dest v data r0 = Inr (tx, r)"
    "sr_type r0 \<in> {''native'', ''erc20''}"
  shows "describes sv tx r"
  using assms by (auto simp: describes_def elim!: sign_with_feesE)

lemma sign_describes:
  "SignNativeTransfer (ts_backend sv) key to v n e = Inr (tx, r) \<Longrightarrow> describes sv tx r"
  "SignERC20Transfer (ts_backend sv) key token to amt n e = Inr (tx, r) \<Longrightarrow> describes sv tx r"
  "SignSpeedUpNative (ts_backend sv) key to v n gl bp e = Inr (tx, r) \<Longrightarrow> describes sv tx r"
  "SignSpeedUpERC20 (ts_backend sv) key token to v n gl bp e = Inr (tx, r) \<Longrightarrow> describes sv tx r"
  by (auto simp: SignNativeTransfer_def SignERC20Transfer_def SignSpeedUpNative_def SignSpeedUpERC20_def
      Let_def base_result_def split: option.splits if_splits elim!: bindR_InrE intro: sign_with_fees_describes)

lemma fresh_params_describes:
  assumes "describes sv tx r"
    "sm_idem m \<noteq> [] \<longrightarrow> GetByIdempotencyKey (ts_store sv) (sm_idem m) d = Inl ErrNoRows"
  shows "fresh_params sv (insertFromSendResult (bk_geth (ts_backend sv)) r m) tx d"
  using assms by (auto simp: fresh_params_def describes_def insertFromSendResult_def tx_hash_str_def
      TxFormatLegacy_def TxTypeNative_def)

lemma GetByIdempotencyKey_cong:
  "trackers d' = trackers d \<Longrightarrow> GetByIdempotencyKey ch k d' = GetByIdempotencyKey ch k d"
  by (simp add: GetByIdempotencyKey_def)

lemma send_custodial_sent_ok:
  assumes ok: "sent_ok R sv s" and rlp: "rlp_ok (bk_geth (ts_backend sv))"
    and key: "sm_idem m \<noteq> [] \<longrightarrow> GetByIdempotencyKey (ts_store sv) (sm_idem m) (sys_db s) = Inl ErrNoRows"
    and sg: "\<And>n tx r. sign n = Inr (tx, r) \<Longrightarrow> describes sv tx r"
  shows "sent_ok R sv (snd (send_custodial sv now k m sign s))"
proof -
  let ?fr = "AddressHex (bk_geth (ts_backend sv)) (PubkeyToAddress (bk_geth (ts_backend sv)) k)"
  define s1 where "s1 = snd (dbT (Allocate (ts_backend sv) now ?fr) s)"
  have tr: "trackers (sys_db s1) = trackers (sys_db s)" by (simp add: s1_def Allocate_frame)
  have ok1: "sent_ok R sv s1" unfolding s1_def using ok by (subst sent_ok_dbT) (simp_all add: Allocate_frame)
  have per: "sent_ok R sv (snd (persistAndBroadcast sv now (insertFromSendResult (bk_geth (ts_backend sv)) r m) tx [] True s1))"
    if "sign n = Inr (tx, r)" for n tx r
  proof (rule persistAndBroadcast_sent_ok [OF ok1])
    show "fresh_params sv (insertFromSendResult (bk_geth (ts_backend sv)) r m) tx (sys_db s1)"
      using fresh_params_describes [OF sg [OF that]] key by (simp add: GetByIdempotencyKey_cong [OF tr])
  qed (use rlp in simp)
  obtain ra where al: "dbT (Allocate (ts_backend sv) now ?fr) s = (ra, s1)"
    by (simp add: s1_def)
  show ?thesis
  proof (cases ra)
    case (Inl e)
    with al ok1 show ?thesis by (simp add: send_custodial_def Let_def bindT_apply del: dbT_apply)
  next
    case (Inr n)
    show ?thesis
    proof (cases "sign n")
      case (Inl e)
      with al ok1 Inr show ?thesis by (simp add: send_custodial_def Let_def bindT_apply del: dbT_apply)
    next
      case (Inr z)
      then obtain tx r where z: "sign n = Inr (tx, r)" by (cases z) auto
      from per [OF z] al \<open>ra = Inr n\<close> z show ?thesis
        by (auto simp: send_custodial_def Let_def bindT_apply sent_ok_dbT SyncFromChain_frame
            simp del: dbT_apply split: prod.splits sum.splits)
    qed
  qed
qed

lemma checkIdempotency_None:
  assumes "checkIdempotency sv now key s = (Inr None, s')"
  shows "s' = s \<and> (key \<noteq> [] \<longrightarrow> GetByIdempotencyKey (ts_store sv) key (sys_db s) = Inl ErrNoRows)"
proof (cases "key = []")
  case True
  then show ?thesis using assms by (simp add: checkIdempotency_def)
next
  case False
  then show ?thesis
  proof (cases "GetByIdempotencyKey (ts_store sv) key (sys_db s)")
    case (Inl e)
    then show ?thesis using assms False GetByIdempotencyKey_Inl [OF Inl] by (simp add: checkIdempotency_def)
  next
    case (Inr row)
    then show ?thesis using assms False by (auto simp: checkIdempotency_def elim!: bindT_InrE)
  qed
qed

lemma send_after_check_sent_ok:
  assumes ok: "sent_ok R sv s"
    and k: "\<And>s. sent_ok R sv s \<Longrightarrow>
      (key \<noteq> [] \<longrightarrow> GetByIdempotencyKey (ts_store sv) key (sys_db s) = Inl ErrNoRows) \<Longrightarrow> sent_ok R sv (snd (k s))"
  shows "sent_ok R sv (snd (bindT (checkIdempotency sv now key) (\<lambda>hit. case hit of Some row \<Rightarrow> retT row | None \<Rightarrow> k) s))"
proof (rule bindT_snd [where P = "sent_ok R sv"])
  show "sent_ok R sv (snd (checkIdempotency sv now key s))" using ok by (rule checkIdempotency_sent_ok)
next
  fix hit s'
  assume "checkIdempotency sv now key s = (Inr hit, s')" and "sent_ok R sv s'"
  then show "sent_ok R sv (snd ((case hit of Some row \<Rightarrow> retT row | None \<Rightarrow> k) s'))"
    using k [OF ok] checkIdempotency_None [of sv now key s s'] by (cases hit) auto
qed

lemma SendNative_sent_ok:
  assumes "sent_ok R sv s" "rlp_ok (bk_geth (ts_backend sv))"
  shows "sent_ok R sv (snd (SendNative sv now key to v m s))"
  unfolding SendNative_def
  by (rule send_after_check_sent_ok [OF assms(1)])
    (auto intro!: send_custodial_sent_ok assms(2) intro: sign_describes split: option.splits)

lemma SendERC20_sent_ok:
  assumes "sent_ok R sv s" "rlp_ok (bk_geth (ts_backend sv))"
  shows "sent_ok R sv (snd (SendERC20 sv now key token to v m s))"
  unfolding SendERC20_def
  by (rule send_after_check_sent_ok [OF assms(1)])
    (auto intro!: send_custodial_sent_ok assms(2) intro: sign_describes split: option.splits)

lemma SpeedUp_sent_ok:
  assumes ok: "sent_ok R sv s" and rlp: "rlp_ok (bk_geth (ts_backend sv))"
  shows "sent_ok R sv (snd (SpeedUp sv now key h s))"
proof (cases "GetByHash (ts_store sv) h (sys_db s)")
  case (Inl e)
  then show ?thesis using ok by (simp add: SpeedUp_def Let_def)
next
  case (Inr old)
  have "sent_ok R sv (snd (persistAndBroadcast sv now (insertFromSendResult (bk_geth (ts_backend sv)) r
      \<lparr>sm_biz_id = row_biz_id old, sm_biz_type = row_biz_type old, sm_idem = [],
       sm_replaces = row_hash old\<rparr>) tx [] False s))" if "describes sv tx r" for tx r
    by (rule persistAndBroadcast_sent_ok [OF ok fresh_params_describes]) (use that rlp in simp_all)
  then show ?thesis using ok Inr
    by (auto simp: SpeedUp_def Let_def bindT_apply dest: sign_describes split: sum.splits)
qed

text \<open>A raw transaction from outside. Under the key of a row that is still submitting, or whose
  broadcast failed, the request's raw transaction is sent in the place of the row's own, whatever
  its hash: \<open>resubmitted\<close> is the transaction that gets out without a row of its own.\<close>

definition resubmitted :: "tx_service \<Rightarrow> submit_request \<Rightarrow> db \<Rightarrow> signed_tx set" where
  "resubmitted sv req d =
     (if sq_idem req = [] then {}
      else case GetByIdempotencyKey (ts_store sv) (sq_idem req) d of
        Inl _ \<Rightarrow> {}
      | Inr row \<Rightarrow>
          if row_status row \<notin> {StatusSubmitting, StatusBroadcastFailed} then {}
          else case DecodeRawTxHex (ts_backend sv) (sq_signed_raw req) of
            Inl _ \<Rightarrow> {}
          | Inr tx \<Rightarrow> if sql_eq (row_hash row) (tx_hash_str (ts_backend sv) tx) then {} else {tx})"

lemma SendResultFromSigned_describes:
  assumes "SendResultFromSigned (bk_geth (ts_backend sv)) tx ch = Inr r"
  shows "describes sv tx r"
  using assms
  by (auto simp: SendResultFromSigned_def describes_def base_result_def Let_def
      elim!: bindR_InrE split: if_splits option.splits)

lemma resume_other_raw_sent_ok:
  assumes ok: "sent_ok R sv s" and key: "sq_idem req \<noteq> []"
    and row: "GetByIdempotencyKey (ts_store sv) (sq_idem req) (sys_db s) = Inr row"
  shows "sent_ok (R \<union> resubmitted sv req (sys_db s)) sv (snd (resumeBroadcast sv now row (sq_signed_raw req) s))"
proof (cases "row_status row \<in> {StatusSubmitting, StatusBroadcastFailed}")
  case False
  then show ?thesis using ok by (auto simp: resumeBroadcast_def intro: sent_ok_mono)
next
  case True
  obtain r where r: "r \<in> set (trackers (sys_db s))" "tr_chain r = ts_store sv" "row = scanOne r"
    using row by (rule GetByIdempotencyKey_Inr)
  then have "row_hash row = tr_hash r" by (simp add: scanOne_def)
  then have "sq_signed_raw req = [] \<or> (\<forall>tx. DecodeRawTxHex (ts_backend sv) (sq_signed_raw req) = Inr tx \<longrightarrow>
      tx \<in> R \<union> resubmitted sv req (sys_db s) \<or> sql_eq (tr_hash r) (tx_hash_str (ts_backend sv) tx))"
    using key row True by (auto simp: resubmitted_def)
  with ok r show ?thesis by (intro resumeBroadcast_sent_ok) (auto intro: sent_ok_mono)
qed

lemma SubmitRaw_fresh_sent_ok:
  assumes ok: "sent_ok R sv s" and rlp: "rlp_ok (bk_geth (ts_backend sv))"
    and key: "sq_idem req \<noteq> [] \<longrightarrow> GetByIdempotencyKey (ts_store sv) (sq_idem req) (sys_db s) = Inl ErrNoRows"
  shows "sent_ok R sv (snd (SubmitRaw sv now req s))"
proof (cases "DecodeRawTxHex (ts_backend sv) (sq_signed_raw req)")
  case (Inl e)
  then show ?thesis using ok key by (auto simp: SubmitRaw_def Let_def)
next
  case (Inr tx)
  have per: "sent_ok R sv (snd (persistAndBroadcast sv now (insertFromSendResult (bk_geth (ts_backend sv)) r
      \<lparr>sm_biz_id = sq_biz_id req, sm_biz_type = sq_biz_type req, sm_idem = sq_idem req,
       sm_replaces = sq_replaces req\<rparr>) tx (sq_signed_raw req) False s))"
    if "SendResultFromSigned (bk_geth (ts_backend sv)) tx (bk_chain (ts_backend sv)) = Inr r" for r
    by (rule persistAndBroadcast_sent_ok [OF ok fresh_params_describes])
      (use that key rlp Inr in \<open>simp_all add: SendResultFromSigned_describes raw_of_def\<close>)
  then show ?thesis using ok key Inr
    by (cases "ValidateSignedTxChainID (ts_backend sv) tx";
        cases "SendResultFromSigned (bk_geth (ts_backend sv)) tx (bk_chain (ts_backend sv))")
      (auto simp: SubmitRaw_def Let_def)
qed

lemma SubmitRaw_sent_ok:
  assumes ok: "sent_ok R sv s" and rlp: "rlp_ok (bk_geth (ts_backend sv))"
  shows "sent_ok (R \<union> resubmitted sv req (sys_db s)) sv (snd (SubmitRaw sv now req s))"
proof (cases "sq_idem req = []")
  case True
  then show ?thesis using SubmitRaw_fresh_sent_ok [OF assms, of req now]
    by (simp add: resubmitted_def)
next
  case False
  show ?thesis
  proof (cases "GetByIdempotencyKey (ts_store sv) (sq_idem req) (sys_db s)")
    case (Inl e)
    then have "e = ErrNoRows" by (rule GetByIdempotencyKey_Inl)
    with Inl False show ?thesis using SubmitRaw_fresh_sent_ok [OF assms, of req now]
      by (simp add: resubmitted_def)
  next
    case (Inr row)
    with False show ?thesis using resume_other_raw_sent_ok [OF ok False Inr]
      by (simp add: SubmitRaw_def Let_def)
  qed
qed

end
