(* ===== verification/Tx_Tracker.thy ===== *)
theory Tx_Tracker
  imports Tx_Service Balance
begin

text \<open>
  \<open>internal/tx/tracker.go\<close>, \<open>reconcile.go\<close> and \<open>withdraw_hook.go\<close>: the pollers that
  follow a transaction from its submission to a final status. The bodies of the loops
  are modelled, one call per tick; tickers, channels and goroutines are not. A balance
  refresh started in the background is returned as a job (\<open>tx_parties\<close>).
\<close>

subsection \<open>\<open>withdraw_hook.go\<close>\<close>

record withdraw_handler =
  OnConfirmed :: "string \<Rightarrow> unit dbtx"
  OnFailed :: "string \<Rightarrow> unit dbtx"

subsection \<open>\<open>tracker.go\<close>\<close>

record tracker =
  tk_cfg :: config
  tk_backend :: backend
  tk_store :: int
  tk_balsync :: bool
  tk_withdraw :: "withdraw_handler option"

fun concatT :: "'x list \<Rightarrow> ('x \<Rightarrow> ('d, 'y list) tx) \<Rightarrow> ('d, 'y list) tx" where
  "concatT [] f = retT []"
| "concatT (x # xs) f = bindT (f x) (\<lambda>ys. bindT (concatT xs f) (\<lambda>zs. retT (ys @ zs)))"

definition shouldDrop :: "tracker \<Rightarrow> time \<Rightarrow> tx_row \<Rightarrow> bool" where
  "shouldDrop t now row \<longleftrightarrow>
     MaxPendingHours (TxTracker (tk_cfg t)) * 3600 * 1000 < now - row_created row"

definition notify_failed :: "tracker \<Rightarrow> tx_row \<Rightarrow> unit dbtx" where
  "notify_failed t row =
     (case tk_withdraw t of
        Some h \<Rightarrow> if row_biz_type row = BizTypeWithdraw then ignoreT (OnFailed h (row_hash row)) else retT ()
      | None \<Rightarrow> retT ())"

definition notify_confirmed :: "tracker \<Rightarrow> tx_row \<Rightarrow> unit dbtx" where
  "notify_confirmed t row =
     (case tk_withdraw t of
        Some h \<Rightarrow> if row_biz_type row = BizTypeWithdraw then ignoreT (OnConfirmed h (row_hash row)) else retT ()
      | None \<Rightarrow> retT ())"

definition confirmations :: "u64 \<Rightarrow> u64 \<Rightarrow> u64" where
  "confirmations head blockNum = (if blockNum \<le> head then head - blockNum + 1 else 0)"

text \<open>The parts of \<open>trackOne\<close>: after the status was written, after a receipt of
  success, and from the request for the receipt on.\<close>

definition track_done :: "tracker \<Rightarrow> tx_row \<Rightarrow> bool \<Rightarrow> u64 \<Rightarrow> (tx_parties list) dbtx" where
  "track_done t row wasConfirmed blockNum =
     bindT (if wasConfirmed then notify_confirmed t row else retT ()) (\<lambda>_.
     retT (if wasConfirmed \<and> tk_balsync t \<and> BalanceSyncEnabled (BalanceSync (tk_cfg t)) \<and>
              OnTxConfirmed (BalanceSync (tk_cfg t))
           then [\<lparr>tp_hash = row_hash row, tp_from = row_from row, tp_to = row_to row,
                  tp_token = row_token row, tp_type = row_type row, tp_block = blockNum\<rparr>]
           else []))"

definition track_success :: "tracker \<Rightarrow> time \<Rightarrow> tx_row \<Rightarrow> u64 \<Rightarrow> u64 \<Rightarrow> u64 \<Rightarrow> (tx_parties list) dbtx" where
  "track_success t now row blockNum conf gasUsed =
     (let wasConfirmed = (word_of_int (TxConfirmDepth (TxTracker (tk_cfg t))) \<le> conf);
          status = (if wasConfirmed then StatusConfirmed else StatusPending) in
      bindT (if wasConfirmed
             then ignoreT (MarkReplacedSiblings (tk_store t) now (row_from row) (row_nonce row) (row_hash row))
             else retT ()) (\<lambda>_. \<lambda>d.
      case TransitionStatus (tk_store t) now (row_hash row) status blockNum conf gasUsed [] d of
        (Inl _, d1) \<Rightarrow> (Inr [], d1)
      | (Inr _, d1) \<Rightarrow> track_done t row wasConfirmed blockNum d1))"

definition track_receipt :: "tracker \<Rightarrow> time \<Rightarrow> tx_row \<Rightarrow> u64 \<Rightarrow> (tx_parties list) dbtx" where
  "track_receipt t now row head =
     (case TransactionReceipt (tk_backend t) (row_hash row) of
        Inl _ \<Rightarrow>
          if shouldDrop t now row
          then
            bindT (ignoreT (TransitionStatus (tk_store t) now (row_hash row) StatusDropped 0 0 0
                     ''not found in mempool or chain before timeout'')) (\<lambda>_.
            bindT (notify_failed t row) (\<lambda>_. retT []))
          else retT []
      | Inr rc \<Rightarrow>
          let gasUsed = rc_gas_used rc; blockNum = rc_block rc; conf = confirmations head blockNum in
          if rc_status rc = 0
          then
            bindT (ignoreT (TransitionStatus (tk_store t) now (row_hash row) StatusFailed blockNum conf gasUsed
                     ''execution reverted'')) (\<lambda>_.
            bindT (notify_failed t row) (\<lambda>_. retT []))
          else track_success t now row blockNum conf gasUsed)"

definition trackOne :: "tracker \<Rightarrow> time \<Rightarrow> tx_row \<Rightarrow> u64 \<Rightarrow> (tx_parties list) dbtx" where
  "trackOne t now row head =
     (if row_status row \<in> {StatusSubmitting, StatusBroadcastFailed}
      then
        (case rpcTransactionByHash (bk_node (tk_backend t)) (HexToHash (bk_geth (tk_backend t)) (row_hash row)) of
           Inr _ \<Rightarrow>
             bindT (ignoreT (MarkBroadcastPending (tk_store t) now (row_hash row))) (\<lambda>_.
             track_receipt t now (row\<lparr>row_status := StatusPending\<rparr>) head)
         | Inl _ \<Rightarrow> if row_signed_raw row \<noteq> [] then retT [] else track_receipt t now row head)
      else track_receipt t now row head)"

definition trackRunOnce :: "tracker \<Rightarrow> time \<Rightarrow> (tx_parties list) dbtx" where
  "trackRunOnce t now =
     bindT (getT (ListTrackable (tk_store t) (TxBatchSize (TxTracker (tk_cfg t))))) (\<lambda>batch.
     if batch = [] then retT []
     else
       (case rpcBlockNumber (bk_node (tk_backend t)) of
          Inl _ \<Rightarrow> retT []
        | Inr head \<Rightarrow> concatT batch (\<lambda>row. trackOne t now row head)))"

definition RefreshOne :: "tracker \<Rightarrow> time \<Rightarrow> string \<Rightarrow> (tx_row \<times> tx_parties list) dbtx" where
  "RefreshOne t now h =
     bindT (readT (GetByHash (tk_store t) h)) (\<lambda>row.
     if row_status row \<notin> {StatusPending, StatusSubmitting, StatusBroadcastFailed} then retT (row, [])
     else
       (case rpcBlockNumber (bk_node (tk_backend t)) of
          Inl e \<Rightarrow> failT e
        | Inr head \<Rightarrow>
            bindT (trackOne t now row head) (\<lambda>jobs.
            bindT (readT (GetByHash (tk_store t) h)) (\<lambda>row'. retT (row', jobs)))))"

definition publishOutbox :: "time \<Rightarrow> tx_outbox_item \<Rightarrow> unit dbtx" where
  "publishOutbox now it = ignoreT (TxMarkOutboxDone now (toi_id it))"

text \<open>One tick of an outbox worker: the notifications it logs are the claimed items.\<close>

definition outboxWorkerTick :: "time \<Rightarrow> (tx_outbox_item list) dbtx" where
  "outboxWorkerTick now =
     bindT (TxClaimOutboxBatch now 20) (\<lambda>items.
     bindT (forT items (publishOutbox now)) (\<lambda>_. retT items))"

subsection \<open>\<open>reconcile.go\<close>\<close>

text \<open>The second half of \<open>reconcileOne\<close>: broadcast the stored raw transaction again.\<close>

definition rebroadcast :: "tx_service \<Rightarrow> time \<Rightarrow> tx_row \<Rightarrow> unit systx" where
  "rebroadcast sv now row =
     (if row_signed_raw row = [] then retT ()
      else case DecodeRawTxHex (ts_backend sv) (row_signed_raw row) of
        Inl _ \<Rightarrow> retT ()
      | Inr tx \<Rightarrow> (\<lambda>s.
          case SendSignedTransaction (ts_backend sv) tx s of
            (Inl err, s1) \<Rightarrow>
              bindT (ignoreT (dbT (IncrementBroadcastRetry (ts_store sv) now (row_hash row)))) (\<lambda>_.
              ignoreT (dbT (MarkBroadcastFailed (ts_store sv) now (row_hash row) (err_text err)))) s1
          | (Inr _, s1) \<Rightarrow> ignoreT (dbT (MarkBroadcastPending (ts_store sv) now (row_hash row))) s1))"

definition reconcileOne :: "tx_service \<Rightarrow> time \<Rightarrow> tx_row \<Rightarrow> unit systx" where
  "reconcileOne sv now row =
     (let b = ts_backend sv in
      case rpcTransactionByHash (bk_node b) (HexToHash (bk_geth b) (row_hash row)) of
        Inr pending \<Rightarrow>
          if pending \<or> row_status row = StatusSubmitting \<or> row_status row = StatusBroadcastFailed
          then ignoreT (dbT (MarkBroadcastPending (ts_store sv) now (row_hash row)))
          else rebroadcast sv now row
      | Inl _ \<Rightarrow> rebroadcast sv now row)"

definition reconcileRunOnce :: "config \<Rightarrow> tx_service \<Rightarrow> time \<Rightarrow> unit systx" where
  "reconcileRunOnce cfg sv now =
     bindT (getS (ListReconcileBatch (ts_store sv) now (ReconcileGraceSec (TxTracker cfg))
       (BroadcastMaxRetries (TxTracker cfg)) (TxBatchSize (TxTracker cfg)))) (\<lambda>batch.
     forT batch (reconcileOne sv now))"

subsection \<open>The status machine\<close>

text \<open>The transitions a tracked transaction may take. The four final statuses have none.\<close>

inductive tx_step :: "tx_status \<Rightarrow> tx_status \<Rightarrow> bool" where
  broadcast_ok: "st \<in> {StatusSubmitting, StatusBroadcastFailed} \<Longrightarrow> tx_step st StatusPending"
| broadcast_err: "st \<in> {StatusSubmitting, StatusBroadcastFailed} \<Longrightarrow> tx_step st StatusBroadcastFailed"
| mined: "\<not> tx_terminal st \<Longrightarrow> new \<in> {StatusPending, StatusConfirmed, StatusFailed} \<Longrightarrow> tx_step st new"
| lost: "\<not> tx_terminal st \<Longrightarrow> tx_step st StatusDropped"
| outbid: "tx_step StatusPending StatusReplaced"

inductive_cases tx_stepE: "tx_step st new"

lemma tx_step_not_terminal: "tx_step st new \<Longrightarrow> \<not> tx_terminal st"
  by (erule tx_stepE) (auto simp: tx_terminal_def)

lemma tx_steps_terminal: "tx_step\<^sup>*\<^sup>* st new \<Longrightarrow> tx_terminal st \<Longrightarrow> new = st"
  by (induction rule: converse_rtranclp_induct) (auto dest: tx_step_not_terminal)

text \<open>A database evolves into another when every tracked row is still there, in its place,
  and its status moved along the machine.\<close>

definition row_evolves :: "tracker_row \<Rightarrow> tracker_row \<Rightarrow> bool" where
  "row_evolves r r' \<longleftrightarrow> tracker_key r' = tracker_key r \<and> tx_step\<^sup>*\<^sup>* (tr_status r) (tr_status r')"

definition tx_evolves :: "db \<Rightarrow> db \<Rightarrow> bool" where
  "tx_evolves d d' \<longleftrightarrow> list_all2 row_evolves (trackers d) (trackers d')"

lemma row_evolves_refl [simp]: "row_evolves r r"
  by (simp add: row_evolves_def)

lemma tx_evolves_refl [simp]: "tx_evolves d d"
  by (simp add: tx_evolves_def list.rel_refl)

lemma tx_evolves_same: "trackers d' = trackers d \<Longrightarrow> tx_evolves d d'"
  by (simp add: tx_evolves_def list.rel_refl)

lemma tx_evolves_trans:
  assumes "tx_evolves d1 d2" "tx_evolves d2 d3"
  shows "tx_evolves d1 d3"
  using assms unfolding tx_evolves_def
  by (rule list_all2_trans [rotated]) (auto simp: row_evolves_def)

lemma list_all2_upd_where:
  "(\<And>r. r \<in> set t \<Longrightarrow> p r \<Longrightarrow> R r (f r)) \<Longrightarrow> (\<And>r. R r r) \<Longrightarrow> list_all2 R t (upd_where p f t)"
  by (induction t) auto

lemma tx_evolves_upd:
  assumes "trackers d' = upd_where p f (trackers d)"
    "\<And>r. tracker_key (f r) = tracker_key r"
    "\<And>r. r \<in> set (trackers d) \<Longrightarrow> p r \<Longrightarrow> tx_step\<^sup>*\<^sup>* (tr_status r) (tr_status (f r))"
  shows "tx_evolves d d'"
  unfolding tx_evolves_def assms(1)
  by (rule list_all2_upd_where) (auto simp: row_evolves_def assms)

lemma MarkBroadcast_trackers:
  "trackers (snd (MarkBroadcastPending ch now h d)) = upd_where
     (\<lambda>r. tracker_match ch (to_lower h) r \<and> tr_status r \<in> {StatusSubmitting, StatusBroadcastFailed})
     (\<lambda>r. r\<lparr>tr_status := StatusPending, tr_error := None, tr_updated := now\<rparr>) (trackers d)"
  "trackers (snd (MarkBroadcastFailed ch now h e d)) = upd_where
     (\<lambda>r. tracker_match ch (to_lower h) r \<and> tr_status r \<in> {StatusSubmitting, StatusBroadcastFailed})
     (\<lambda>r. r\<lparr>tr_status := StatusBroadcastFailed, tr_error := nullStr e, tr_updated := now\<rparr>) (trackers d)"
  by (simp_all add: MarkBroadcastPending_def MarkBroadcastFailed_def)

lemma MarkBroadcastPending_evolves: "tx_evolves d (snd (MarkBroadcastPending ch now h d))"
  by (rule tx_evolves_upd, rule MarkBroadcast_trackers(1))
    (auto simp: tracker_key_def intro: tx_step.intros)

lemma MarkBroadcastFailed_evolves: "tx_evolves d (snd (MarkBroadcastFailed ch now h e d))"
  by (rule tx_evolves_upd, rule MarkBroadcast_trackers(2))
    (auto simp: tracker_key_def intro: tx_step.intros)

text \<open>The row of a hash is not final.\<close>

definition live :: "int \<Rightarrow> string \<Rightarrow> db \<Rightarrow> bool" where
  "live ch h d \<longleftrightarrow> (\<forall>r\<in>set (trackers d). tracker_match ch (to_lower h) r \<longrightarrow> \<not> tx_terminal (tr_status r))"

lemma updateFields_trackers:
  "trackers (snd (updateFields ch now h st b c g e d)) =
     (if 2 ^ 63 \<le> unat g then trackers d else upd_where (tracker_match ch (to_lower h))
        (\<lambda>r. r\<lparr>tr_status := st, tr_block := b, tr_gas_used := (if 0 < g then Some g else None),
               tr_confirmations := c, tr_error := nullStr e, tr_updated := now\<rparr>) (trackers d))"
  by (simp add: updateFields_def)

lemma updateFields_evolves:
  assumes "live ch h d" "st \<in> {StatusPending, StatusConfirmed, StatusFailed, StatusDropped}"
  shows "tx_evolves d (snd (updateFields ch now h st b c g e d))"
proof (cases "2 ^ 63 \<le> unat g")
  case True
  then show ?thesis by (simp add: tx_evolves_same updateFields_trackers)
next
  case False
  show ?thesis
    by (rule tx_evolves_upd, simp only: updateFields_trackers False if_False)
      (use assms in \<open>auto simp: live_def tracker_key_def intro!: r_into_rtranclp intro: tx_step.intros\<close>)
qed

lemma TransitionStatus_trackers:
  "trackers (snd (TransitionStatus ch now h st b c g e d)) =
     (case GetByHash ch h d of Inl _ \<Rightarrow> trackers d
      | Inr _ \<Rightarrow> trackers (snd (updateFields ch now h st b c g e d)))"
  by (auto simp: TransitionStatus_def bindT_apply updateFields_def split: sum.splits)

lemma TransitionStatus_evolves:
  assumes "live ch h d" "st \<in> {StatusPending, StatusConfirmed, StatusFailed, StatusDropped}"
  shows "tx_evolves d (snd (TransitionStatus ch now h st b c g e d))"
  using updateFields_evolves [OF assms]
  by (simp add: tx_evolves_def TransitionStatus_trackers list.rel_refl split: sum.splits)

lemma siblings_loop_trackers:
  "trackers (snd (forT ps (\<lambda>p. bindT (modT (\<lambda>d. d\<lparr>trackers := upd_where (q p) f (trackers d)\<rparr>))
     (\<lambda>_. insertTxOutbox ch now (h p) (b p) (o' p) n (pl p))) d)) =
   fold (\<lambda>p. upd_where (q p) f) ps (trackers d)"
  by (induction ps arbitrary: d) (simp_all add: insertTxOutbox_def)

text \<open>Marking the siblings changes exactly the other pending rows of the same sender and
  nonce.\<close>

lemma MarkReplacedSiblings_trackers:
  assumes "trackers_ok d"
  shows "trackers (snd (MarkReplacedSiblings ch now fr n w d)) =
    upd_where (sibling_match ch (to_lower fr) n (to_lower w))
      (\<lambda>r. r\<lparr>tr_status := StatusReplaced, tr_replaced_by := Some (to_lower w), tr_updated := now\<rparr>) (trackers d)"
proof -
  let ?sib = "sibling_match ch (to_lower fr) n (to_lower w)"
  let ?f = "\<lambda>r. r\<lparr>tr_status := StatusReplaced, tr_replaced_by := Some (to_lower w), tr_updated := now\<rparr>"
  let ?ps = "filter ?sib (trackers d)"
  have "trackers (snd (MarkReplacedSiblings ch now fr n w d)) =
      fold (\<lambda>p. upd_where (tracker_match ch (tr_hash p)) ?f) ?ps (trackers d)"
    by (simp add: MarkReplacedSiblings_def Let_def siblings_loop_trackers)
  also have "\<dots> = fold (\<lambda>k. upd_where (\<lambda>r. tracker_key r = k) ?f) (map tracker_key ?ps) (trackers d)"
    unfolding fold_map comp_def
    by (rule fold_cong) (auto simp: fun_eq_iff tracker_match_key sibling_match_def tracker_key_def upd_where_def)
  also have "\<dots> = upd_where (\<lambda>r. tracker_key r \<in> set (map tracker_key ?ps)) ?f (trackers d)"
    by (rule fold_upd_where_ids) (simp_all add: tracker_key_def)
  also have "\<dots> = upd_where ?sib ?f (trackers d)"
    unfolding upd_where_def
  proof (rule map_cong [OF refl])
    fix r assume "r \<in> set (trackers d)"
    then have "tracker_key r \<in> set (map tracker_key ?ps) \<longleftrightarrow> ?sib r"
      using assms by (auto simp: trackers_ok_def distinct_map inj_on_def)
    then show "(if tracker_key r \<in> set (map tracker_key ?ps) then ?f r else r) = (if ?sib r then ?f r else r)"
      by simp
  qed
  finally show ?thesis .
qed

text \<open>What the outbox says of the changes: the hash, the old and the new status.\<close>

definition change_log :: "db \<Rightarrow> (string \<times> tx_status \<times> tx_status) list" where
  "change_log d = map (\<lambda>x. (txo_hash x, txo_old x, txo_new x)) (tx_outbox d)"

text \<open>Two databases that differ in the tracker, the outbox and the counters only.\<close>

definition tracking_only :: "db \<Rightarrow> db \<Rightarrow> bool" where
  "tracking_only d d' \<longleftrightarrow> (\<exists>ts obs cs. d' = d\<lparr>trackers := ts, tx_outbox := obs, ctrs := cs\<rparr>)"

lemma tracking_onlyI: "tracking_only d (d\<lparr>trackers := ts, tx_outbox := obs, ctrs := cs\<rparr>)"
  unfolding tracking_only_def by blast

lemma tracking_only_refl: "tracking_only d d"
  using tracking_onlyI [where d = d and ts = "trackers d" and obs = "tx_outbox d" and cs = "ctrs d"] by simp

lemma tracking_only_trans:
  assumes "tracking_only d d1" "tracking_only d1 d2"
  shows "tracking_only d d2"
proof -
  obtain ts obs cs ts' obs' cs' where "d1 = d\<lparr>trackers := ts, tx_outbox := obs, ctrs := cs\<rparr>"
    "d2 = d1\<lparr>trackers := ts', tx_outbox := obs', ctrs := cs'\<rparr>"
    using assms unfolding tracking_only_def by blast
  then have "d2 = d\<lparr>trackers := ts', tx_outbox := obs', ctrs := cs'\<rparr>" by simp
  then show ?thesis by (simp only: tracking_onlyI)
qed

lemma tracking_only_trackers: "tracking_only d (d\<lparr>trackers := ts\<rparr>)"
  using tracking_onlyI [where d = d and ts = ts and obs = "tx_outbox d" and cs = "ctrs d"] by simp

lemma tracking_only_outbox: "tracking_only d (d\<lparr>ctrs := cs, tx_outbox := obs\<rparr>)"
proof -
  have "d\<lparr>ctrs := cs, tx_outbox := obs\<rparr> = d\<lparr>trackers := trackers d, tx_outbox := obs, ctrs := cs\<rparr>"
    by (rule db.equality) simp_all
  then show ?thesis by (simp only: tracking_onlyI)
qed

lemma insertTxOutbox_log:
  "fst (insertTxOutbox ch now h b o' n p d) = Inr ()"
  "change_log (snd (insertTxOutbox ch now h b o' n p d)) = change_log d @ [(to_lower h, o', n)]"
  "tracking_only d (snd (insertTxOutbox ch now h b o' n p d))"
  by (simp_all add: insertTxOutbox_def change_log_def tracking_only_outbox)

lemma change_log_trackers [simp]: "change_log (d\<lparr>trackers := ts\<rparr>) = change_log d"
  by (simp add: change_log_def)

lemma siblings_loop_log:
  "case forT ps (\<lambda>p. bindT (modT (\<lambda>d. d\<lparr>trackers := upd_where (q p) f (trackers d)\<rparr>))
     (\<lambda>_. insertTxOutbox ch now (h p) (b p) (o' p) n (pl p))) d of
   (r, d') \<Rightarrow> r = Inr () \<and> tracking_only d d' \<and>
     change_log d' = change_log d @ map (\<lambda>p. (to_lower (h p), o' p, n)) ps"
proof (induction ps arbitrary: d)
  case Nil
  then show ?case by (simp add: tracking_only_refl)
next
  case (Cons p ps)
  let ?d1 = "d\<lparr>trackers := upd_where (q p) f (trackers d)\<rparr>"
  let ?m = "insertTxOutbox ch now (h p) (b p) (o' p) n (pl p)"
  obtain d2 where m: "?m ?d1 = (Inr (), d2)"
    using insertTxOutbox_log(1) by (metis (lifting) surjective_pairing)
  have "tracking_only d d2"
    using tracking_only_trans [OF tracking_only_trackers insertTxOutbox_log(3)] m by (metis snd_conv)
  moreover have "change_log d2 = change_log d @ [(to_lower (h p), o' p, n)]"
    using insertTxOutbox_log(2) [of ch now "h p" "b p" "o' p" n "pl p" ?d1] m by simp
  ultimately show ?case using Cons.IH [of d2] m
    by (auto simp: bindT_apply intro: tracking_only_trans split: prod.splits)
qed

lemma MarkReplacedSiblings_log:
  "fst (MarkReplacedSiblings ch now fr n w d) = Inr () \<and>
   tracking_only d (snd (MarkReplacedSiblings ch now fr n w d)) \<and>
   change_log (snd (MarkReplacedSiblings ch now fr n w d)) = change_log d @
     map (\<lambda>r. (to_lower (tr_hash r), StatusPending, StatusReplaced))
       (filter (sibling_match ch (to_lower fr) n (to_lower w)) (trackers d))"
  using siblings_loop_log [where ps = "filter (sibling_match ch (to_lower fr) n (to_lower w)) (trackers d)"
      and q = "\<lambda>p. tracker_match ch (tr_hash p)"
      and f = "\<lambda>r. r\<lparr>tr_status := StatusReplaced, tr_replaced_by := Some (to_lower w), tr_updated := now\<rparr>"
      and ch = ch and now = now and h = tr_hash and b = "\<lambda>p. fromNull (tr_biz_id p)" and o' = tr_status
      and n = StatusReplaced and pl = "\<lambda>_. ReplacedPayload (to_lower w)" and d = d]
  by (auto simp: MarkReplacedSiblings_def Let_def sibling_match_def split: prod.splits)

lemma tracker_match_lower [simp]: "tracker_match ch (to_lower h) = tracker_match ch h"
  by (simp add: tracker_match_def fun_eq_iff)

lemma GetByHash_known:
  assumes "trackers_ok d" "r \<in> set (trackers d)" "tracker_match ch h r"
  shows "GetByHash ch h d = Inr (scanOne r)"
proof (cases "List.find (tracker_match ch h) (trackers d)")
  case None
  then show ?thesis using assms by (auto simp: find_None_iff_none)
next
  case (Some r')
  then have "r' \<in> set (trackers d)" "tracker_key r' = tracker_key r"
    using assms(3) by (auto dest!: find_SomeD simp: tracker_match_key)
  then have "r' = r" using assms(1,2) by (auto simp: trackers_ok_def distinct_map inj_on_def)
  then show ?thesis using Some by (simp add: GetByHash_def)
qed

lemma TransitionStatus_log:
  assumes "trackers_ok d" "r \<in> set (trackers d)" "tracker_match ch h r" "unat g < 2 ^ 63"
  shows "fst (TransitionStatus ch now h st b c g e d) = Inr () \<and>
    tracking_only d (snd (TransitionStatus ch now h st b c g e d)) \<and>
    trackers (snd (TransitionStatus ch now h st b c g e d)) = upd_where (tracker_match ch h)
        (\<lambda>r. r\<lparr>tr_status := st, tr_block := b, tr_gas_used := (if 0 < g then Some g else None),
               tr_confirmations := c, tr_error := nullStr e, tr_updated := now\<rparr>) (trackers d) \<and>
    change_log (snd (TransitionStatus ch now h st b c g e d)) =
      change_log d @ (if tr_status r = st then [] else [(to_lower h, tr_status r, st)])"
proof -
  have "tracking_only d (snd (insertTxOutbox ch now h x o' n p (d\<lparr>trackers := ts\<rparr>)))" for x o' n p ts
    by (rule tracking_only_trans [OF tracking_only_trackers insertTxOutbox_log(3)])
  then show ?thesis using assms GetByHash_known [OF assms(1-3)]
    by (simp add: TransitionStatus_def updateFields_def insertTxOutbox_log tracking_only_trackers bindT_apply scanOne_def
        split: sum.splits prod.splits)
qed

lemma MarkReplacedSiblings_evolves:
  "trackers_ok d \<Longrightarrow> tx_evolves d (snd (MarkReplacedSiblings ch now fr n w d))"
  by (rule tx_evolves_upd, rule MarkReplacedSiblings_trackers)
    (auto simp: sibling_match_def tracker_key_def intro: tx_step.intros)

lemma MarkReplacedSiblings_live:
  assumes "trackers_ok d" "live ch h d"
  shows "live ch h (snd (MarkReplacedSiblings ch now fr n h d))"
  using assms(2)
  by (auto simp: live_def MarkReplacedSiblings_trackers [OF assms(1)] sibling_match_def tracker_match_def
      dest!: set_upd_where split: if_splits)

lemma MarkBroadcastPending_live: "live ch h d \<Longrightarrow> live ch h (snd (MarkBroadcastPending ch now h d))"
  by (auto simp: live_def MarkBroadcastPending_def tx_terminal_def tracker_match_def
      dest!: set_upd_where split: if_splits)

subsection \<open>The tracker and its withdraw handler\<close>

text \<open>What the tracker needs of the handler it calls back: that it leaves the tracked
  transactions alone.\<close>

locale tracker_hook =
  fixes t :: tracker
  assumes hook_confirmed: "tk_withdraw t = Some h \<Longrightarrow> trackers (snd (OnConfirmed h x d)) = trackers d"
    and hook_failed: "tk_withdraw t = Some h \<Longrightarrow> trackers (snd (OnFailed h x d)) = trackers d"
begin

lemma notify_trackers:
  "trackers (snd (notify_failed t row d)) = trackers d"
  "trackers (snd (notify_confirmed t row d)) = trackers d"
  by (auto simp: notify_failed_def notify_confirmed_def hook_failed hook_confirmed split: option.splits)

lemma evolves_then_notify:
  assumes "tx_evolves d (snd (m d))" "\<And>d. trackers (snd (n d)) = trackers d"
  shows "tx_evolves d (snd (bindT (ignoreT m) (\<lambda>_. bindT n (\<lambda>_. retT x)) d))"
proof (rule bindT_snd)
  show "tx_evolves d (snd (ignoreT m d))" using assms(1) by simp
next
  fix y d'
  assume e: "tx_evolves d d'"
  show "tx_evolves d (snd (bindT n (\<lambda>_. retT x) d'))"
    by (rule bindT_snd) (auto intro: tx_evolves_trans [OF e] tx_evolves_same assms(2))
qed

lemma track_done_trackers: "trackers (snd (track_done t row c b d)) = trackers d"
  unfolding track_done_def by (rule bindT_snd) (simp_all add: notify_trackers)

lemma track_success_evolves:
  assumes ok: "trackers_ok d" and lv: "live (tk_store t) (row_hash row) d"
  shows "tx_evolves d (snd (track_success t now row blockNum conf gasUsed d))"
proof -
  let ?c = "word_of_int (TxConfirmDepth (TxTracker (tk_cfg t))) \<le> conf"
  let ?m = "if ?c then ignoreT (MarkReplacedSiblings (tk_store t) now (row_from row) (row_nonce row) (row_hash row))
    else retT ()"
  obtain r1 d1 where m: "?m d = (r1, d1)" by fastforce
  then have "d1 = snd (?m d)" by simp
  then have d1: "tx_evolves d d1" "live (tk_store t) (row_hash row) d1"
    using ok lv by (simp_all add: MarkReplacedSiblings_evolves MarkReplacedSiblings_live)
  let ?T = "TransitionStatus (tk_store t) now (row_hash row) (if ?c then StatusConfirmed else StatusPending)
    blockNum conf gasUsed [] d1"
  have "tx_evolves d1 (snd ?T)" by (rule TransitionStatus_evolves [OF d1(2)]) simp
  then have e0: "tx_evolves d (snd ?T)" using d1(1) tx_evolves_trans by blast
  obtain rt d2 where T: "?T = (rt, d2)" by fastforce
  have e: "tx_evolves d d2" using e0 unfolding T snd_conv .
  have "tx_evolves d (snd (case ?T of (Inl _, d1) \<Rightarrow> (Inr [], d1) | (Inr _, d1) \<Rightarrow> track_done t row ?c blockNum d1))"
    unfolding T by (cases rt) (simp_all add: e tx_evolves_trans [OF e tx_evolves_same [OF track_done_trackers]])
  with m d1(1) show ?thesis
    unfolding track_success_def Let_def by (cases r1) (simp_all only: bindT_Inl bindT_Inr snd_conv)
qed

lemma track_receipt_evolves:
  assumes ok: "trackers_ok d" and lv: "live (tk_store t) (row_hash row) d"
  shows "tx_evolves d (snd (track_receipt t now row head d))"
  using track_success_evolves [OF assms]
  by (auto simp: track_receipt_def Let_def split: sum.splits
      intro!: evolves_then_notify notify_trackers TransitionStatus_evolves [OF lv])

lemma trackOne_evolves:
  assumes ok: "trackers_ok d" and lv: "live (tk_store t) (row_hash row) d"
  shows "tx_evolves d (snd (trackOne t now row head d))"
proof -
  have "tx_evolves d (snd (bindT (ignoreT (MarkBroadcastPending (tk_store t) now (row_hash row)))
      (\<lambda>_. track_receipt t now (row\<lparr>row_status := StatusPending\<rparr>) head) d))"
  proof (rule bindT_snd)
    show "tx_evolves d (snd (ignoreT (MarkBroadcastPending (tk_store t) now (row_hash row)) d))"
      by (simp add: MarkBroadcastPending_evolves)
  next
    fix x d'
    assume "ignoreT (MarkBroadcastPending (tk_store t) now (row_hash row)) d = (Inr x, d')" and e: "tx_evolves d d'"
    then have "d' = snd (MarkBroadcastPending (tk_store t) now (row_hash row) d)"
      by (metis snd_conv snd_ignoreT)
    with ok lv have "trackers_ok d'" "live (tk_store t) (row_hash row) d'"
      by (simp_all add: MarkBroadcastPending_ok MarkBroadcastPending_live)
    then show "tx_evolves d (snd (track_receipt t now (row\<lparr>row_status := StatusPending\<rparr>) head d'))"
      using track_receipt_evolves [of d' "row\<lparr>row_status := StatusPending\<rparr>" now head]
      by (intro tx_evolves_trans [OF e]) simp
  qed
  then show ?thesis using track_receipt_evolves [OF assms]
    by (simp add: trackOne_def split: sum.splits)
qed

lemma live_of_row:
  assumes ok: "trackers_ok d" and g: "GetByHash ch h d = Inr row" and st: "\<not> tx_terminal (row_status row)"
  shows "live ch (row_hash row) d"
proof -
  obtain r where r: "r \<in> set (trackers d)" "tr_chain r = ch" "row = scanOne r"
    using g by (rule GetByHash_Inr)
  have "r' = r" if "r' \<in> set (trackers d)" "tracker_match ch (to_lower (row_hash row)) r'" for r'
    using ok r that by (auto simp: trackers_ok_def distinct_map inj_on_def tracker_match_key scanOne_def tracker_key_def)
  then show ?thesis using st r unfolding live_def by (metis tx_row.select_convs(14) scanOne_def)
qed

text \<open>A refresh on demand moves every row along the status machine.\<close>

lemma RefreshOne_evolves:
  assumes "trackers_ok d"
  shows "tx_evolves d (snd (RefreshOne t now h d))"
proof (cases "GetByHash (tk_store t) h d")
  case (Inl e)
  then show ?thesis by (simp add: RefreshOne_def)
next
  case (Inr row)
  show ?thesis
  proof (cases "row_status row \<in> {StatusPending, StatusSubmitting, StatusBroadcastFailed}")
    case True
    then have "\<not> tx_terminal (row_status row)" by (auto simp: tx_terminal_def)
    then have "tx_evolves d (snd (trackOne t now row head d))" for head
      using trackOne_evolves [OF assms live_of_row [OF assms Inr]] by blast
    then show ?thesis using True Inr
      by (auto simp: RefreshOne_def bindT_apply split: sum.splits prod.splits) (metis snd_conv)+
  next
    case False
    then show ?thesis using Inr by (simp add: RefreshOne_def)
  qed
qed

end

subsection \<open>Reconciling keeps the write-ahead invariant\<close>

lemma track_sig_retry [simp]:
  "map track_sig (trackers (snd (IncrementBroadcastRetry ch now h d))) = map track_sig (trackers d)"
  by (simp add: IncrementBroadcastRetry_def map_upd_where track_sig_def)

definition sig_of :: "sys \<Rightarrow> (int \<times> string \<times> string option) list" where
  "sig_of s = map track_sig (trackers (sys_db s))"

lemma sig_of_dbT:
  "map track_sig (trackers (snd (m (sys_db s)))) = map track_sig (trackers (sys_db s)) \<Longrightarrow>
   sig_of (snd (dbT m s)) = sig_of s"
  by (simp add: sig_of_def)

lemma sent_ok_sig_step:
  assumes "sent_ok R sv s" "map track_sig (trackers (snd (m (sys_db s)))) = map track_sig (trackers (sys_db s))"
  shows "sent_ok R sv (snd (ignoreT (dbT m) s)) \<and> sig_of (snd (ignoreT (dbT m) s)) = sig_of s"
  using assms by (simp add: sent_ok_dbT sig_of_dbT del: dbT_apply)

lemma mark_sig_steps:
  assumes "sent_ok R sv s"
  shows "sent_ok R sv (snd (ignoreT (dbT (MarkBroadcastPending ch now h)) s)) \<and>
      sig_of (snd (ignoreT (dbT (MarkBroadcastPending ch now h)) s)) = sig_of s"
    "sent_ok R sv (snd (ignoreT (dbT (MarkBroadcastFailed ch now h e)) s)) \<and>
      sig_of (snd (ignoreT (dbT (MarkBroadcastFailed ch now h e)) s)) = sig_of s"
    "sent_ok R sv (snd (ignoreT (dbT (IncrementBroadcastRetry ch now h)) s)) \<and>
      sig_of (snd (ignoreT (dbT (IncrementBroadcastRetry ch now h)) s)) = sig_of s"
  by (rule sent_ok_sig_step [OF assms]; simp)+

lemma reconcileOne_sent_ok:
  assumes ok: "sent_ok R sv s"
    and row: "(ts_store sv, row_hash row, ro) \<in> set (sig_of s)" "row_signed_raw row = fromNull ro"
  shows "sent_ok R sv (snd (reconcileOne sv now row s)) \<and> sig_of (snd (reconcileOne sv now row s)) = sig_of s"
proof -
  let ?ch = "ts_store sv"
  have "sent_ok R sv (snd (rebroadcast sv now row s)) \<and> sig_of (snd (rebroadcast sv now row s)) = sig_of s"
  proof (cases "row_signed_raw row = [] \<or> (\<exists>e. DecodeRawTxHex (ts_backend sv) (row_signed_raw row) = Inl e)")
    case True
    then show ?thesis using ok by (auto simp: rebroadcast_def)
  next
    case False
    then obtain tx where tx: "DecodeRawTxHex (ts_backend sv) (row_signed_raw row) = Inr tx"
      by (meson sum.exhaust)
    obtain raw where raw: "ro = Some raw" "raw = row_signed_raw row"
      using False row(2) by (cases ro) auto
    have "sql_eq (row_hash row) (tx_hash_str (ts_backend sv) tx)"
      using ok row(1) raw tx unfolding sent_ok_def raws_ok_sig sig_of_def by fastforce
    then have "is_tracked sv tx (sys_db s)"
      using row(1) unfolding is_tracked_sig sig_of_def by fastforce
    with ok have s1: "sent_ok R sv (snd (SendSignedTransaction (ts_backend sv) tx s))" by (rule sent_ok_tracked)
    obtain r1 s1 where S: "SendSignedTransaction (ts_backend sv) tx s = (r1, s1)" by fastforce
    have sig1: "sig_of s1 = sig_of s" using SendSignedTransaction_db [of "ts_backend sv" tx s] S
      by (simp add: sig_of_def)
    have ok1: "sent_ok R sv s1" using s1 S by simp
    show ?thesis
    proof (cases r1)
      case (Inr u)
      then show ?thesis using False tx S mark_sig_steps(1) [OF ok1] sig1 by (simp add: rebroadcast_def)
    next
      case (Inl err)
      have "sent_ok R sv (snd (bindT (ignoreT (dbT (IncrementBroadcastRetry ?ch now (row_hash row))))
          (\<lambda>_. ignoreT (dbT (MarkBroadcastFailed ?ch now (row_hash row) (err_text err)))) s1)) \<and>
        sig_of (snd (bindT (ignoreT (dbT (IncrementBroadcastRetry ?ch now (row_hash row))))
          (\<lambda>_. ignoreT (dbT (MarkBroadcastFailed ?ch now (row_hash row) (err_text err)))) s1)) = sig_of s"
      proof (rule bindT_snd [where P = "\<lambda>s'. sent_ok R sv s' \<and> sig_of s' = sig_of s"])
        show "sent_ok R sv (snd (ignoreT (dbT (IncrementBroadcastRetry ?ch now (row_hash row))) s1)) \<and>
            sig_of (snd (ignoreT (dbT (IncrementBroadcastRetry ?ch now (row_hash row))) s1)) = sig_of s"
          using mark_sig_steps(3) [OF ok1] sig1 by simp
      qed (use mark_sig_steps(2) in auto)
      then show ?thesis using Inl False tx S by (simp add: rebroadcast_def)
    qed
  qed
  then show ?thesis using mark_sig_steps(1) [OF ok, of "ts_store sv" now "row_hash row"]
    by (simp add: reconcileOne_def Let_def split: sum.splits)
qed

lemma reconcileRunOnce_sent_ok:
  assumes "sent_ok R sv s"
  shows "sent_ok R sv (snd (reconcileRunOnce cfg sv now s))"
proof -
  let ?batch = "ListReconcileBatch (ts_store sv) now (ReconcileGraceSec (TxTracker cfg))
    (BroadcastMaxRetries (TxTracker cfg)) (TxBatchSize (TxTracker cfg)) (sys_db s)"
  have known: "\<exists>ro. (ts_store sv, row_hash row, ro) \<in> set (sig_of s) \<and> row_signed_raw row = fromNull ro"
    if row: "row \<in> set ?batch" for row
  proof -
    obtain r where "r \<in> set (trackers (sys_db s))" "tr_chain r = ts_store sv" "row = scanOne r"
      using row sql_limit_set unfolding ListReconcileBatch_def scanRows_def by fastforce
    then show ?thesis
      by (intro exI [of _ "tr_signed_raw r"]) (force simp: sig_of_def track_sig_def scanOne_def)
  qed
  have "sent_ok R sv (snd (forT ?batch (reconcileOne sv now) s)) \<and>
      sig_of (snd (forT ?batch (reconcileOne sv now) s)) = sig_of s"
    by (rule forT_snd [where P = "\<lambda>s'. sent_ok R sv s' \<and> sig_of s' = sig_of s"])
      (use assms known reconcileOne_sent_ok in metis)+
  then show ?thesis by (simp add: reconcileRunOnce_def)
qed

end
