(* ===== verification/Signer.thy ===== *)
theory Signer
  imports Config Eth
begin

text \<open>
  \<open>internal/signer/signer.go\<close>: the source of signing keys. The two implementations of
  the interface are the constructors of \<open>signer\<close>; the development signer without a key
  has \<open>None\<close>.
\<close>

datatype signer = DevSigner "privkey option" string | KMSStub

definition NewDev :: "geth \<Rightarrow> config \<Rightarrow> signer" where
  "NewDev g cfg =
     (let hexKey = trim_prefix (trim_space (DevPrivateKey (ExSigner (Exchange cfg)))) ''0x'' in
      if hexKey = [] then DevSigner None []
      else case HexToECDSA g hexKey of
        Inl _ \<Rightarrow> DevSigner None []
      | Inr key \<Rightarrow> DevSigner (Some key) (to_lower (AddressHex g (PubkeyToAddress g key))))"

definition NewSigner :: "geth \<Rightarrow> config \<Rightarrow> signer" where
  "NewSigner g cfg =
     (if to_lower (SignerType (ExSigner (Exchange cfg))) \<in> {''kms'', ''hsm'', ''mpc''}
      then KMSStub else NewDev g cfg)"

fun PrivateKey :: "signer \<Rightarrow> string \<Rightarrow> privkey res" where
  "PrivateKey (DevSigner None address) fromAddress =
     Inl (GoErr ''dev signer: exchange.signer.dev_private_key not configured'')"
| "PrivateKey (DevSigner (Some key) address) fromAddress =
     (if address \<noteq> [] \<and> \<not> equal_fold address fromAddress
      then Inl (GoErr ''dev signer: only configured hot wallet address can sign'')
      else Inr key)"
| "PrivateKey KMSStub fromAddress = Inl ErrKMSNotConfigured"

fun BackendName :: "signer \<Rightarrow> string" where
  "BackendName (DevSigner k a) = ''dev-private-key''"
| "BackendName KMSStub = ''kms-stub''"

text \<open>A key is only handed out for the address it controls.\<close>

lemma PrivateKey_NewSigner:
  assumes "\<forall>a. AddressHex g a \<noteq> []" "PrivateKey (NewSigner g cfg) addr = Inr key"
  shows "equal_fold (AddressHex g (PubkeyToAddress g key)) addr"
  using assms
  by (auto simp: NewSigner_def NewDev_def Let_def equal_fold_def split: if_splits sum.splits)

end
