(* ===== verification/Exchange_Service.thy ===== *)
theory Exchange_Service
  imports Exchange_Deposit Tx_Tracker Signer
begin

text \<open>
  \<open>internal/exchange/service.go\<close>, \<open>reconcile.go\<close> and the loop bodies of
  \<open>worker.go\<close>: withdrawals and the reconciliation of custody against liabilities. A
  method that begins a transaction of its own is a \<open>run_tx\<close>; the statements before and
  after it are separate statements of the sequence. A read through the store inside a
  transaction goes to another connection and sees the committed database, which is
  passed as an argument there.
\<close>

subsection \<open>Definitions\<close>

record ex_service =
  xs_cfg :: config
  xs_store :: int
  xs_balstore :: int
  xs_geth :: geth
  xs_signer :: "signer option"
  xs_txsvc :: "tx_service option"

definition insertWithdrawTx ::
  "int \<Rightarrow> time \<Rightarrow> db \<Rightarrow> create_withdraw_params \<Rightarrow> withdraw_status \<Rightarrow> (withdraw_request \<times> bool) dbtx" where
  "insertWithdrawTx ch now committed p status = (\<lambda>d.
     case insert_withdraw_stmt ch now p status d of
       (Inl e, d1) \<Rightarrow>
         if isDup (Some e) \<and> cw_idem_key p \<noteq> []
         then bindT (GetWithdrawByIdempotencyTx ch (cw_idem_key p)) (\<lambda>w. retT (w, False)) d1
         else (Inl e, d1)
     | (Inr i, d1) \<Rightarrow> bindT (liftT (GetWithdraw ch i committed)) (\<lambda>w. retT (w, True)) d1)"

definition CreateWithdraw :: "ex_service \<Rightarrow> time \<Rightarrow> create_withdraw_params \<Rightarrow> withdraw_request dbtx" where
  "CreateWithdraw sv now p = (\<lambda>d.
     case parseWei (cw_amount p) of
       Inl _ \<Rightarrow> (Inl ErrInvalidWei, d)
     | Inr amt \<Rightarrow>
         if amt \<le> 0 then (Inl ErrInvalidWei, d)
         else if \<not> IsHexAddress (xs_geth sv) (cw_to p) then (Inl (GoErr ''invalid to address''), d)
         else
           let ch = xs_store sv;
               status = (if AutoApproveWithdraw (Exchange (xs_cfg sv)) then WithdrawStatusApproved
                         else WithdrawStatusPendingReview) in
           bindT (run_tx (
             bindT (insertWithdrawTx ch now d p status) (\<lambda>(w, created).
             bindT (if created then retT False
                    else getT (hasLedgerEntryTx ch (w_id w) LedgerWithdrawFreeze)) (\<lambda>hasFreeze.
             if hasFreeze then retT (w_id w)
             else bindT (freezeWithdrawTx ch now (cw_user p) (cw_token p) (cw_amount p) (w_id w)) (\<lambda>_.
                  retT (w_id w)))))) (\<lambda>wid.
           readT (GetWithdraw ch wid)) d)"

definition ApproveWithdraw :: "ex_service \<Rightarrow> time \<Rightarrow> int \<Rightarrow> string \<Rightarrow> withdraw_request dbtx" where
  "ApproveWithdraw sv now wid reviewer =
     bindT (UpdateWithdrawStatusIf (xs_store sv) now wid WithdrawStatusPendingReview
              WithdrawStatusApproved [SetReviewer reviewer, SetReviewedAt now]) (\<lambda>ok.
     if \<not> ok then failT ErrInvalidWithdrawState else readT (GetWithdraw (xs_store sv) wid))"

text \<open>The \<open>UPDATE\<close> of a rejection, with the number of rows it changed.\<close>

definition reject_set :: "time \<Rightarrow> string \<Rightarrow> string \<Rightarrow> withdraw_row \<Rightarrow> withdraw_row" where
  "reject_set now reviewer reason r =
     r\<lparr>wr_status := WithdrawStatusRejected, wr_reviewer := Some reviewer, wr_reviewed_at := Some now,
       wr_reject_reason := Some reason, wr_updated := now\<rparr>"

definition reject_stmt :: "int \<Rightarrow> time \<Rightarrow> int \<Rightarrow> string \<Rightarrow> string \<Rightarrow> nat dbtx" where
  "reject_stmt ch now wid reviewer reason = (\<lambda>d.
     let p = withdraw_where ch wid (Some WithdrawStatusPendingReview) in
     (Inr (rows_affected p (reject_set now reviewer reason) (withdraws d)),
      d\<lparr>withdraws := upd_where p (reject_set now reviewer reason) (withdraws d)\<rparr>))"

definition RejectWithdraw :: "ex_service \<Rightarrow> time \<Rightarrow> int \<Rightarrow> string \<Rightarrow> string \<Rightarrow> withdraw_request dbtx" where
  "RejectWithdraw sv now wid reviewer reason =
     (let ch = xs_store sv in
      bindT (readT (GetWithdraw ch wid)) (\<lambda>w.
      if w_status w \<noteq> WithdrawStatusPendingReview then failT ErrInvalidWithdrawState
      else
        bindT (run_tx (
          bindT (reject_stmt ch now wid reviewer reason) (\<lambda>n.
          if n = 0 then failT ErrInvalidWithdrawState
          else unfreezeWithdrawTx ch now (w_user w) (w_token w) (w_amount w) (w_id w)))) (\<lambda>_.
        readT (GetWithdraw ch wid))))"

definition failBroadcast :: "ex_service \<Rightarrow> time \<Rightarrow> withdraw_request \<Rightarrow> string \<Rightarrow> unit dbtx" where
  "failBroadcast sv now w reason = run_tx (FailWithdrawAndUnfreezeTx (xs_store sv) now w reason)"

definition first_of_type :: "string \<Rightarrow> custodial_wallet list \<Rightarrow> string" where
  "first_of_type ty ws =
     foldl (\<lambda>acc cw. if cus_type cw = ty \<and> acc = [] then cus_address cw else acc) [] ws"

text \<open>A threshold that does not parse is a nil pointer, and its sign is asked for.\<close>

definition selectFromWallet :: "ex_service \<Rightarrow> withdraw_request \<Rightarrow> db \<Rightarrow> string res" where
  "selectFromWallet sv w d =
     bindR (parseWei (w_amount w)) (\<lambda>amt.
     case parseWei (HotWithdrawMaxWei (Exchange (xs_cfg sv))) of
       Inl _ \<Rightarrow> Inl (GoPanic ''nil pointer dereference'')
     | Inr threshold \<Rightarrow>
         let useHot = (threshold = 0 \<or> weiCmp amt threshold \<le> 0);
             ws = ListWallets (xs_balstore sv) [] [] True 500 d;
             hot = first_of_type WalletTypeHot ws;
             cold = first_of_type WalletTypeTreasury ws
         in if useHot \<and> hot \<noteq> [] then Inr hot
            else if cold \<noteq> [] then Inr cold
            else if hot \<noteq> [] then Inr hot
            else Inl ErrNoHotWallet)"

text \<open>An error on the way to the broadcast fails the withdrawal; a panic does not return.\<close>

definition onError :: "(go_error \<Rightarrow> 'a systx) \<Rightarrow> go_error \<Rightarrow> 'a systx" where
  "onError h e = (case e of GoPanic p \<Rightarrow> failT (GoPanic p) | _ \<Rightarrow> h e)"

definition withdraw_meta :: "withdraw_request \<Rightarrow> send_meta" where
  "withdraw_meta w =
     \<lparr>sm_biz_id = ''withdraw:'' @ int_str (w_id w), sm_biz_type = BizTypeWithdraw,
      sm_idem = ''withdraw-broadcast:'' @ int_str (w_id w), sm_replaces = []\<rparr>"

text \<open>The part of \<open>ProcessApprovedWithdraw\<close> after the claim.\<close>

definition broadcastWithdraw ::
  "ex_service \<Rightarrow> signer \<Rightarrow> tx_service \<Rightarrow> time \<Rightarrow> withdraw_request \<Rightarrow> unit systx" where
  "broadcastWithdraw sv sg ts now w =
     (let fail = onError (\<lambda>e. dbT (failBroadcast sv now w (err_text e))); g = bk_geth (ts_backend ts) in
      bindT (getS (selectFromWallet sv w)) (\<lambda>sel.
      case sel of
        Inl e \<Rightarrow> fail e
      | Inr fromWallet \<Rightarrow>
          (case PrivateKey sg fromWallet of
             Inl e \<Rightarrow> fail e
           | Inr key \<Rightarrow> (\<lambda>s.
               case (if w_token w = []
                     then SendNative ts now key (HexToAddress g (w_to w)) (w_amount w) (withdraw_meta w)
                     else SendERC20 ts now key (HexToAddress g (w_token w)) (HexToAddress g (w_to w))
                            (w_amount w) (withdraw_meta w)) s of
                 (Inl e, s1) \<Rightarrow> fail e s1
               | (Inr row, s1) \<Rightarrow>
                   dbT (UpdateWithdrawStatus (xs_store sv) now (w_id w) WithdrawStatusBroadcasting
                     [SetFromWallet (to_lower fromWallet), SetTxHash (to_lower (row_hash row))]) s1))))"

definition ProcessApprovedWithdraw :: "ex_service \<Rightarrow> time \<Rightarrow> withdraw_request \<Rightarrow> unit systx" where
  "ProcessApprovedWithdraw sv now w0 =
     (if w_status w0 \<noteq> WithdrawStatusApproved then failT ErrInvalidWithdrawState
      else case (xs_signer sv, xs_txsvc sv) of
        (Some sg, Some ts) \<Rightarrow>
          bindT (dbT (UpdateWithdrawStatusIf (xs_store sv) now (w_id w0) WithdrawStatusApproved
                        WithdrawStatusBroadcasting [])) (\<lambda>ok.
          if \<not> ok then failT ErrWithdrawAlreadyHandled
          else
            bindT (readS (GetWithdraw (xs_store sv) (w_id w0))) (\<lambda>w.
            broadcastWithdraw sv sg ts now w))
      | _ \<Rightarrow> failT (GoErr ''signer or tx service not configured''))"

definition OnWithdrawTxConfirmed :: "ex_service \<Rightarrow> time \<Rightarrow> string \<Rightarrow> unit dbtx" where
  "OnWithdrawTxConfirmed sv now txHash =
     (let ch = xs_store sv in
      bindT (getT (GetWithdrawByTxHash ch txHash)) (\<lambda>found.
      case found of
        Inl e \<Rightarrow> if e = ErrNoRows then retT () else failT e
      | Inr w \<Rightarrow>
          if w_status w = WithdrawStatusConfirmed then retT ()
          else if w_status w \<noteq> WithdrawStatusBroadcasting \<and> w_status w \<noteq> WithdrawStatusApproved then retT ()
          else run_tx (
            bindT (getT (hasLedgerEntryTx ch (w_id w) LedgerWithdrawDebit)) (\<lambda>hasDebit.
            bindT (if \<not> hasDebit
                   then debitWithdrawTx ch now (w_user w) (w_token w) (w_amount w) (w_id w)
                   else retT ()) (\<lambda>_.
            modT (\<lambda>d. d\<lparr>withdraws := upd_where (withdraw_where ch (w_id w) None)
              (\<lambda>r. r\<lparr>wr_status := WithdrawStatusConfirmed, wr_updated := now\<rparr>) (withdraws d)\<rparr>))))))"

definition OnWithdrawTxFailed :: "ex_service \<Rightarrow> time \<Rightarrow> string \<Rightarrow> unit dbtx" where
  "OnWithdrawTxFailed sv now txHash =
     (let ch = xs_store sv in
      bindT (getT (GetWithdrawByTxHash ch txHash)) (\<lambda>found.
      case found of
        Inl e \<Rightarrow> if e = ErrNoRows then retT () else failT e
      | Inr w \<Rightarrow>
          if w_status w = WithdrawStatusFailed \<or> w_status w = WithdrawStatusConfirmed then retT ()
          else run_tx (FailWithdrawAndUnfreezeTx ch now w ''on-chain execution failed'')))"

definition HotWithdrawMax :: "ex_service \<Rightarrow> int option" where
  "HotWithdrawMax sv =
     (case parseWei (HotWithdrawMaxWei (Exchange (xs_cfg sv))) of Inl _ \<Rightarrow> None | Inr v \<Rightarrow> Some v)"

subsection \<open>\<open>reconcile.go\<close>\<close>

record reconcile_detail =
  rd_address :: string
  rd_type :: string
  rd_balance :: string

record reconcile_report =
  rep_chain :: int
  rep_token :: string
  rep_on_chain :: string
  rep_liabilities :: string
  rep_diff :: string
  rep_ok :: bool
  rep_generated :: time
  rep_details :: "reconcile_detail list"

definition reconcile_step ::
  "int \<Rightarrow> string \<Rightarrow> db \<Rightarrow> int \<times> reconcile_detail list \<Rightarrow> custodial_wallet \<Rightarrow> int \<times> reconcile_detail list" where
  "reconcile_step balch token d = (\<lambda>(onChain, details) w.
     if cus_type w \<noteq> WalletTypeHot \<and> cus_type w \<noteq> WalletTypeTreasury then (onChain, details)
     else case Get balch (cus_address w) token d of
       Inl _ \<Rightarrow> (onChain, details)
     | Inr row \<Rightarrow>
         (case parseWei (br_wei row) of
            Inl _ \<Rightarrow> (onChain, details)
          | Inr bal \<Rightarrow> (weiAdd onChain bal,
              details @ [\<lparr>rd_address = cus_address w, rd_type = cus_type w, rd_balance = br_wei row\<rparr>])))"

definition reconcileToken ::
  "int \<Rightarrow> int \<Rightarrow> time \<Rightarrow> string \<Rightarrow> custodial_wallet list \<Rightarrow> db \<Rightarrow> reconcile_report res" where
  "reconcileToken ch balch now token ws d =
     (let (onChain, details) = foldl (reconcile_step balch token d) (weiZero, []) ws;
          liab_str = SumUserLiabilities ch token d
      in case parseWei liab_str of
           Inl _ \<Rightarrow> Inl (GoPanic ''nil pointer dereference'')
         | Inr liab \<Rightarrow>
             let diff = onChain - liab in
             Inr \<lparr>rep_chain = ch, rep_token = normToken token, rep_on_chain = weiString (Some onChain),
                  rep_liabilities = liab_str, rep_diff = int_str diff, rep_ok = (diff = 0),
                  rep_generated = now, rep_details = details\<rparr>)"

fun mapR :: "('a \<Rightarrow> 'b res) \<Rightarrow> 'a list \<Rightarrow> ('b list) res" where
  "mapR f [] = Inr []"
| "mapR f (x # xs) = bindR (f x) (\<lambda>y. bindR (mapR f xs) (\<lambda>ys. Inr (y # ys)))"

definition ReconcilerRun :: "int \<Rightarrow> int \<Rightarrow> time \<Rightarrow> string list \<Rightarrow> db \<Rightarrow> (reconcile_report list) res" where
  "ReconcilerRun ch balch now tokens0 d =
     (let tokens = (if tokens0 = [] then [[]] else tokens0);
          ws = ListWallets balch [] [] True 500 d
      in mapR (\<lambda>token. reconcileToken ch balch now token ws d) tokens)"

definition RunReconcile :: "ex_service \<Rightarrow> time \<Rightarrow> db \<Rightarrow> (reconcile_report list) res" where
  "RunReconcile sv now d =
     ReconcilerRun (xs_store sv) (xs_balstore sv) now ([] # WatchTokenAddresses (xs_cfg sv)) d"

subsection \<open>\<open>worker.go\<close>: one tick of each loop\<close>

definition withdrawBroadcastTick :: "ex_service \<Rightarrow> time \<Rightarrow> unit systx" where
  "withdrawBroadcastTick sv now =
     bindT (getS (ListWithdraws (xs_store sv) [] (withdraw_status_str WithdrawStatusApproved) 20)) (\<lambda>batch.
     forT batch (\<lambda>w. ignoreT (ProcessApprovedWithdraw sv now w)))"

text \<open>The reports a reconciliation tick logs as mismatches; an error only skips the tick.\<close>

definition reconcileTick :: "ex_service \<Rightarrow> time \<Rightarrow> db \<Rightarrow> (reconcile_report list) res" where
  "reconcileTick sv now d =
     (case ReconcilerRun (xs_store sv) (xs_balstore sv) now ([] # WatchTokenAddresses (xs_cfg sv)) d of
        Inl (GoPanic p) \<Rightarrow> Inl (GoPanic p)
      | Inl _ \<Rightarrow> Inr []
      | Inr reports \<Rightarrow> Inr (filter (\<lambda>r. \<not> rep_ok r) reports))"

subsection \<open>Frames\<close>

lemma applyLedgerTx_frame:
  "trackers (snd (applyLedgerTx ch now u t op d)) = trackers d"
  "withdraws (snd (applyLedgerTx ch now u t op d)) = withdraws d"
  by (auto simp: applyLedgerTx_def Let_def bindT_apply upsert_account_def insert_entry_def
      split: prod.splits sum.splits)

context posting
begin

lemma post_frame_any:
  "trackers (snd (post ch now u t a i d)) = trackers d"
  "withdraws (snd (post ch now u t a i d)) = withdraws d"
  by (simp_all add: post_eq bindT_apply applyLedgerTx_frame split: sum.splits)

end

lemma run_tx_snd:
  assumes "P d" "P (snd (m d))" "\<And>c. P d \<Longrightarrow> P (d\<lparr>ctrs := c\<rparr>)"
  shows "P (snd (run_tx m d))"
  using assms by (auto simp: run_tx_def rollback_def split: prod.splits sum.splits)

text \<open>The tables with invariants that the indexer writes alone.\<close>

definition ix_part :: "db \<Rightarrow> checkpoint list \<times> pending_header list \<times> block_row list \<times> sync_outbox_row list \<times> int" where
  "ix_part d = (checkpoints d, pending_headers d, sblocks d, sync_outbox d, ai_sync_outbox (ctrs d))"

text \<open>The tables and counters of the exchange, the webhook service and the indexer, which the
  transaction tracker never writes.\<close>

definition ex_tables ::
  "db \<Rightarrow> (account_balance list \<times> ledger_entry_row list \<times> deposit list \<times> withdraw_row list) \<times> int \<times> int \<times> int \<times>
     (wh_outbox_row list \<times> int \<times> payment_row list \<times> int) \<times>
     checkpoint list \<times> pending_header list \<times> block_row list \<times> sync_outbox_row list \<times> int" where
  "ex_tables d = ((accounts d, entries d, deposits d, withdraws d),
     ai_entries (ctrs d), ai_deposits (ctrs d), ai_withdraws (ctrs d),
     (wh_outbox d, ai_wh_outbox (ctrs d), payments d, ai_payments (ctrs d)), ix_part d)"

lemma ex_tables_simps [simp]:
  "ex_tables (d\<lparr>trackers := x\<rparr>) = ex_tables d" "ex_tables (d\<lparr>nonces := y\<rparr>) = ex_tables d"
  "ex_tables (d\<lparr>tx_outbox := z\<rparr>) = ex_tables d"
  by (simp_all add: ex_tables_def ix_part_def)

lemma ex_tables_rollback: "ex_tables d' = ex_tables d \<Longrightarrow> ex_tables (rollback d d') = ex_tables d"
  by (simp add: ex_tables_def ix_part_def rollback_def)

lemma tx_stmts_ex [simp]:
  "ex_tables (snd (MarkBroadcastPending ch now h d)) = ex_tables d"
  "ex_tables (snd (MarkBroadcastFailed ch now h e d)) = ex_tables d"
  "ex_tables (snd (InsertSubmitting ch now p d)) = ex_tables d"
  "ex_tables (snd (SyncFromChain b now a d)) = ex_tables d"
  by (simp_all add: MarkBroadcastPending_def MarkBroadcastFailed_def InsertSubmitting_def insertRow_def
      SyncFromChain_def Let_def bindT_apply split: sum.splits option.splits)

lemma run_tx_ex: "ex_tables (snd (m d)) = ex_tables d \<Longrightarrow> ex_tables (snd (run_tx m d)) = ex_tables d"
  by (auto simp: run_tx_def ex_tables_rollback split: prod.splits sum.splits)

lemma Allocate_ex [simp]: "ex_tables (snd (Allocate b now a d)) = ex_tables d"
  unfolding Allocate_def
  by (rule run_tx_ex) (auto simp: Let_def insert_nonce_stmt_def split: option.splits
      intro!: bindT_snd [where P = "\<lambda>x. ex_tables x = ex_tables d"])

lemma dbT_ex: "ex_tables (sys_db (snd (dbT m s))) = ex_tables (snd (m (sys_db s)))"
  by simp

lemma mark_read_ex:
  "ex_tables (sys_db (snd (bindT (dbT (MarkBroadcastPending ch now h)) (\<lambda>_. readS f) s))) = ex_tables (sys_db s)"
  by (rule bindT_snd [where P = "\<lambda>x. ex_tables (sys_db x) = ex_tables (sys_db s)"]) simp_all

lemma send_ex: "SendSignedTransaction b tx s = (r, s1) \<Longrightarrow> ex_tables (sys_db s1) = ex_tables (sys_db s)"
  using SendSignedTransaction_db [of b tx s] by simp

lemma resumeBroadcast_ex [simp]:
  "ex_tables (sys_db (snd (resumeBroadcast sv now row raw s))) = ex_tables (sys_db s)"
proof -
  have send: "ex_tables (sys_db (snd (case SendSignedTransaction b tx s of
      (Inl err, s1) \<Rightarrow> (Inl err, snd (dbT (MarkBroadcastFailed ch now h (err_text err)) s1))
    | (Inr _, s1) \<Rightarrow> bindT (dbT (MarkBroadcastPending ch now h)) (\<lambda>_. readS f) s1))) = ex_tables (sys_db s)"
    for b tx ch h and f :: "db \<Rightarrow> tx_row res"
    by (auto simp: mark_read_ex send_ex split: prod.split sum.split)
  show ?thesis
    unfolding resumeBroadcast_def Let_def by (simp add: bindT_apply [of "liftT _"] send split: sum.split)
qed

lemma checkIdempotency_ex [simp]:
  "ex_tables (sys_db (snd (checkIdempotency sv now key s))) = ex_tables (sys_db s)"
  unfolding checkIdempotency_def
  by (auto intro!: bindT_snd [where P = "\<lambda>x. ex_tables (sys_db x) = ex_tables (sys_db s)"] split: sum.splits)

lemma persistAndBroadcast_ex [simp]:
  "ex_tables (sys_db (snd (persistAndBroadcast sv now p tx raw sync s))) = ex_tables (sys_db s)"
proof -
  define send where "send p = (\<lambda>s1. case SendSignedTransaction (ts_backend sv) tx s1 of
      (Inl err, s2) \<Rightarrow>
        let s3 = snd (dbT (MarkBroadcastFailed (ts_store sv) now (ip_hash p) (err_text err)) s2) in
        (Inl err, if sync then snd (dbT (SyncFromChain (ts_backend sv) now (ip_from p)) s3) else s3)
    | (Inr _, s2) \<Rightarrow> bindT (dbT (MarkBroadcastPending (ts_store sv) now (ip_hash p)))
        (\<lambda>_. readS (GetByHash (ts_store sv) (ip_hash p))) s2)" for p :: insert_params
  have send: "ex_tables (sys_db (snd (send p s1))) = ex_tables (sys_db s1)" for p s1
    by (auto simp: send_def Let_def mark_read_ex send_ex split: prod.splits sum.splits)
  define r1 where "r1 rw = fst (dbT (InsertSubmitting (ts_store sv) now (p\<lparr>ip_signed_raw := rw\<rparr>)) s)" for rw
  define s1 where "s1 rw = snd (dbT (InsertSubmitting (ts_store sv) now (p\<lparr>ip_signed_raw := rw\<rparr>)) s)" for rw
  have ins: "dbT (InsertSubmitting (ts_store sv) now (p\<lparr>ip_signed_raw := rw\<rparr>)) s = (r1 rw, s1 rw)" for rw
    unfolding r1_def s1_def by (rule prod.collapse [symmetric])
  have s1: "ex_tables (sys_db (s1 rw)) = ex_tables (sys_db s)" for rw
    using ins [of rw] tx_stmts_ex(3) by (metis dbT_ex snd_conv)
  show ?thesis
  proof (cases "if raw = [] then SignedTxToHex (ts_backend sv) tx else Inr raw")
    case (Inl e)
    then show ?thesis by (auto simp: persistAndBroadcast_def split: if_splits)
  next
    case (Inr rw)
    then have eq: "persistAndBroadcast sv now p tx raw sync s =
        (case GetByHash (ts_store sv) (ip_hash p) (sys_db s) of
           Inr ex \<Rightarrow> resumeBroadcast sv now ex rw s
         | Inl e \<Rightarrow> if e \<noteq> ErrNoRows then (Inl e, s) else
             (case r1 rw of
                Inl err \<Rightarrow>
                  if ip_idem p \<noteq> [] then
                    (case GetByIdempotencyKey (ts_store sv) (ip_idem p) (sys_db (s1 rw)) of
                       Inr row \<Rightarrow> if \<not> equal_fold (row_hash row) (ip_hash (p\<lparr>ip_signed_raw := rw\<rparr>))
                         then (Inl ErrIdempotencyConflict, s1 rw) else resumeBroadcast sv now row rw (s1 rw)
                     | Inl _ \<Rightarrow> (Inl (GoErr (''track insert: '' @ err_text err)), s1 rw))
                  else (Inl (GoErr (''track insert: '' @ err_text err)), s1 rw)
              | Inr _ \<Rightarrow> send (p\<lparr>ip_signed_raw := rw\<rparr>) (s1 rw)))"
      using ins [of rw]
      by (cases "GetByHash (ts_store sv) (ip_hash p) (sys_db s)"; cases "r1 rw")
        (auto simp: persistAndBroadcast_def Let_def send_def simp del: dbT_apply split: if_splits)
    show ?thesis unfolding eq by (simp add: s1 send split: sum.split)
  qed
qed

lemma send_custodial_ex [simp]:
  "ex_tables (sys_db (snd (send_custodial sv now k m sign s))) = ex_tables (sys_db s)"
proof -
  have "ex_tables (sys_db s1) = ex_tables (sys_db s0)"
    if "persistAndBroadcast sv now p tx raw sync s0 = (r, s1)" for p tx raw sync s0 r s1
    using persistAndBroadcast_ex [of sv now p tx raw sync s0] that by simp
  moreover have "ex_tables (sys_db s1) = ex_tables (sys_db s)" if "dbT (Allocate b now a) s = (r, s1)" for b a r s1
    using that by auto
  ultimately show ?thesis
    unfolding send_custodial_def Let_def
    by (auto simp del: dbT_apply simp: dbT_ex split: sum.splits prod.splits
        intro!: bindT_snd [where P = "\<lambda>x. ex_tables (sys_db x) = ex_tables (sys_db s)"])
qed

lemma Send_ex [simp]:
  "ex_tables (sys_db (snd (SendNative sv now k to v m s))) = ex_tables (sys_db s)"
  "ex_tables (sys_db (snd (SendERC20 sv now k token to v m s))) = ex_tables (sys_db s)"
  unfolding SendNative_def SendERC20_def
  by (auto split: option.splits
      intro!: bindT_snd [where P = "\<lambda>x. ex_tables (sys_db x) = ex_tables (sys_db s)"])

subsection \<open>The withdraw handler of the tracker\<close>

definition exchange_handler :: "ex_service \<Rightarrow> time \<Rightarrow> withdraw_handler" where
  "exchange_handler sv now =
     \<lparr>OnConfirmed = OnWithdrawTxConfirmed sv now, OnFailed = OnWithdrawTxFailed sv now\<rparr>"

lemma FailWithdraw_trackers: "trackers (snd (FailWithdrawAndUnfreezeTx ch now w reason d)) = trackers d"
  unfolding FailWithdrawAndUnfreezeTx_def
  by (auto simp: unfreeze.post_frame_any intro!: bindT_snd [where P = "\<lambda>x. trackers x = trackers d"])

lemma handler_trackers:
  "trackers (snd (OnWithdrawTxConfirmed sv now h d)) = trackers d"
  "trackers (snd (OnWithdrawTxFailed sv now h d)) = trackers d"
  unfolding OnWithdrawTxConfirmed_def OnWithdrawTxFailed_def Let_def
  by (auto simp: FailWithdraw_trackers debit.post_frame_any split: sum.splits
      intro!: bindT_snd [where P = "\<lambda>x. trackers x = trackers d"] run_tx_snd [where P = "\<lambda>x. trackers x = trackers d"])

interpretation ex_hook: tracker_hook "t\<lparr>tk_withdraw := Some (exchange_handler sv now)\<rparr>" for t sv now
  by unfold_locales (auto simp: exchange_handler_def handler_trackers)

subsection \<open>The ledger invariant\<close>

lemma ledger_inv_ctrs [simp]: "ledger_inv (d\<lparr>ctrs := c\<rparr>) = ledger_inv d"
  by (rule ledger_inv_cong) simp_all

lemma ledger_inv_withdraws [simp]: "ledger_inv (d\<lparr>withdraws := x\<rparr>) = ledger_inv d"
  by (rule ledger_inv_cong) simp_all

lemma insert_withdraw_stmt_inv [simp]: "ledger_inv (snd (insert_withdraw_stmt ch now p st d)) = ledger_inv d"
  by (rule ledger_inv_cong) (simp_all add: insert_withdraw_stmt_def Let_def)

lemma insertWithdrawTx_inv: "ledger_inv d \<Longrightarrow> ledger_inv (snd (insertWithdrawTx ch now d0 p st d))"
proof -
  assume "ledger_inv d"
  obtain r1 d1 where i: "insert_withdraw_stmt ch now p st d = (r1, d1)" by fastforce
  then have "ledger_inv d1" using insert_withdraw_stmt_inv [of ch now p st d] \<open>ledger_inv d\<close> by simp
  with i show ?thesis
    by (cases r1) (auto simp: insertWithdrawTx_def GetWithdrawByIdempotencyTx_def
        intro!: bindT_snd [where P = ledger_inv])
qed

lemma FailWithdraw_inv: "ledger_inv d \<Longrightarrow> ledger_inv (snd (FailWithdrawAndUnfreezeTx ch now w reason d))"
  unfolding FailWithdrawAndUnfreezeTx_def
  by (auto intro!: bindT_snd [where P = ledger_inv] posting_inv_snd)

lemma CreateWithdraw_inv:
  assumes "ledger_inv d" shows "ledger_inv (snd (CreateWithdraw sv now p d))"
  using assms unfolding CreateWithdraw_def Let_def
  by (auto split: sum.splits prod.splits simp: insertWithdrawTx_inv posting_inv_snd
      intro!: bindT_snd [where P = ledger_inv] run_tx_snd [where P = ledger_inv])

lemma withdraw_ops_inv:
  assumes "ledger_inv d"
  shows "ledger_inv (snd (ApproveWithdraw sv now i rvw d))"
    "ledger_inv (snd (RejectWithdraw sv now i rvw rsn d))"
    "ledger_inv (snd (failBroadcast sv now w rsn d))"
    "ledger_inv (snd (OnWithdrawTxConfirmed sv now h d))"
    "ledger_inv (snd (OnWithdrawTxFailed sv now h d))"
  using assms
  unfolding ApproveWithdraw_def RejectWithdraw_def failBroadcast_def OnWithdrawTxConfirmed_def
    OnWithdrawTxFailed_def Let_def UpdateWithdrawStatusIf_def updateWithdrawStatusIf_def reject_stmt_def
  by (auto split: sum.splits simp: posting_inv_snd FailWithdraw_inv
      intro!: bindT_snd [where P = ledger_inv] run_tx_snd [where P = ledger_inv])

subsection \<open>The withdraw life cycle\<close>

text \<open>The transitions of a withdraw request. Rejected, confirmed and failed requests have
  none.\<close>

inductive wd_step :: "withdraw_status \<Rightarrow> withdraw_status \<Rightarrow> bool" where
  approve: "wd_step WithdrawStatusPendingReview WithdrawStatusApproved"
| reject: "wd_step WithdrawStatusPendingReview WithdrawStatusRejected"
| claim: "wd_step WithdrawStatusApproved WithdrawStatusBroadcasting"
| confirm: "st \<in> {WithdrawStatusApproved, WithdrawStatusBroadcasting} \<Longrightarrow> wd_step st WithdrawStatusConfirmed"
| fail: "wd_step WithdrawStatusBroadcasting WithdrawStatusFailed"

inductive_cases wd_stepE: "wd_step st new"

definition wd_final :: "withdraw_status \<Rightarrow> bool" where
  "wd_final st \<longleftrightarrow> st \<in> {WithdrawStatusRejected, WithdrawStatusConfirmed, WithdrawStatusFailed}"

lemma wd_steps_final: "wd_step\<^sup>*\<^sup>* st new \<Longrightarrow> wd_final st \<Longrightarrow> new = st"
  by (induction rule: converse_rtranclp_induct) (auto simp: wd_final_def elim: wd_stepE)

definition wrow_evolves :: "withdraw_row \<Rightarrow> withdraw_row \<Rightarrow> bool" where
  "wrow_evolves r r' \<longleftrightarrow> wr_id r' = wr_id r \<and> wr_chain r' = wr_chain r \<and> wr_user r' = wr_user r \<and> wr_token r' = wr_token r \<and>
     wr_amount r' = wr_amount r \<and> wr_to r' = wr_to r \<and> wd_step\<^sup>*\<^sup>* (wr_status r) (wr_status r')"

definition wd_evolves :: "withdraw_row list \<Rightarrow> withdraw_row list \<Rightarrow> bool" where
  "wd_evolves t t' \<longleftrightarrow> list_all2 wrow_evolves t t'"

lemma wd_evolves_refl [simp]: "wd_evolves t t"
  by (simp add: wd_evolves_def wrow_evolves_def list.rel_refl)

lemma wd_evolves_trans: "wd_evolves a b \<Longrightarrow> wd_evolves b c \<Longrightarrow> wd_evolves a c"
  unfolding wd_evolves_def
  by (rule list_all2_trans [of wrow_evolves wrow_evolves wrow_evolves]) (auto simp: wrow_evolves_def)

lemma wd_evolves_upd:
  assumes "\<And>r. r \<in> set t \<Longrightarrow> p r \<Longrightarrow> wrow_evolves r (f r)"
  shows "wd_evolves t (upd_where p f t)"
  unfolding wd_evolves_def by (rule list_all2_upd_where) (simp_all add: assms, simp add: wrow_evolves_def)

text \<open>The table: unique ids, drawn from the counter; a request has a transaction hash only
  once it was claimed.\<close>

definition withdraws_inv :: "db \<Rightarrow> bool" where
  "withdraws_inv d \<longleftrightarrow> distinct (map wr_id (withdraws d)) \<and>
     (\<forall>r\<in>set (withdraws d). wr_id r < ai_withdraws (ctrs d) \<and>
        (wr_tx_hash r \<noteq> None \<longrightarrow>
           wr_status r \<in> {WithdrawStatusBroadcasting, WithdrawStatusConfirmed, WithdrawStatusFailed}))"

lemma withdraw_select_Inr:
  assumes "withdraw_select ch p d = Inr w"
  obtains r where "r \<in> set (withdraws d)" "wr_chain r = ch" "p r" "w = scanWithdrawRow r"
  using assms by (auto simp: withdraw_select_def split: option.splits dest!: find_SomeD)

lemma unique_withdraw:
  assumes "withdraws_inv d" "r \<in> set (withdraws d)" "q \<in> set (withdraws d)" "wr_id q = wr_id r"
  shows "q = r"
  using assms by (auto simp: withdraws_inv_def distinct_map inj_on_def)

lemma ApproveWithdraw_evolves: "wd_evolves (withdraws d) (withdraws (snd (ApproveWithdraw sv now i rvw d)))"
proof -
  have "withdraws (snd (ApproveWithdraw sv now i rvw d)) =
      upd_where (withdraw_where (xs_store sv) i (Some WithdrawStatusPendingReview))
        (withdraw_set WithdrawStatusApproved now [SetReviewer rvw, SetReviewedAt now]) (withdraws d)"
    by (auto simp: ApproveWithdraw_def UpdateWithdrawStatusIf_def updateWithdrawStatusIf_ok bindT_apply)
  then show ?thesis
    by (auto intro!: wd_evolves_upd r_into_rtranclp wd_step.intros simp: wrow_evolves_def withdraw_where_def)
qed

lemma run_tx_withdraws:
  "withdraws (snd (run_tx m d)) = (case fst (m d) of Inl _ \<Rightarrow> withdraws d | Inr _ \<Rightarrow> withdraws (snd (m d)))"
  by (auto simp: run_tx_def rollback_def split: prod.splits sum.splits)

lemma RejectWithdraw_evolves: "wd_evolves (withdraws d) (withdraws (snd (RejectWithdraw sv now i rvw rsn d)))"
proof -
  have "wd_evolves (withdraws d) (upd_where (withdraw_where (xs_store sv) i (Some WithdrawStatusPendingReview))
      (reject_set now rvw rsn) (withdraws d))"
    by (auto intro!: wd_evolves_upd r_into_rtranclp wd_step.intros simp: wrow_evolves_def withdraw_where_def reject_set_def)
  then have "wd_evolves (withdraws d) (withdraws (snd (run_tx (
      bindT (reject_stmt (xs_store sv) now i rvw rsn) (\<lambda>n. if n = 0 then failT ErrInvalidWithdrawState
        else unfreezeWithdrawTx (xs_store sv) now u t a wid)) d)))" for u t a wid
    by (simp add: run_tx_withdraws reject_stmt_def Let_def unfreeze.post_frame_any split: sum.splits)
  then show ?thesis
    unfolding RejectWithdraw_def Let_def
    by (auto intro!: bindT_snd [where P = "\<lambda>x. wd_evolves (withdraws d) (withdraws x)"])
qed

lemma FailWithdraw_withdraws:
  "withdraws (snd (FailWithdrawAndUnfreezeTx ch now w rsn d)) = withdraws d \<or>
   withdraws (snd (FailWithdrawAndUnfreezeTx ch now w rsn d)) =
     upd_where (withdraw_where ch (w_id w) None)
       (\<lambda>r. r\<lparr>wr_status := WithdrawStatusFailed, wr_reject_reason := Some rsn, wr_updated := now\<rparr>) (withdraws d)"
  using unfreeze.post_frame_any(2) [of ch now "w_user w" "w_token w" "w_amount w" "w_id w" d]
  by (auto simp: FailWithdrawAndUnfreezeTx_def bindT_apply split: prod.splits sum.splits)

lemma fail_evolves:
  assumes "\<And>r. r \<in> set (withdraws d) \<Longrightarrow> withdraw_where ch (w_id w) None r \<Longrightarrow> wr_status r = WithdrawStatusBroadcasting"
  shows "wd_evolves (withdraws d) (withdraws (snd (run_tx (FailWithdrawAndUnfreezeTx ch now w rsn) d)))"
proof -
  have "wd_evolves (withdraws d) (upd_where (withdraw_where ch (w_id w) None)
       (\<lambda>r. r\<lparr>wr_status := WithdrawStatusFailed, wr_reject_reason := Some rsn, wr_updated := now\<rparr>) (withdraws d))"
    using assms by (auto intro!: wd_evolves_upd r_into_rtranclp wd_step.intros simp: wrow_evolves_def)
  then show ?thesis using FailWithdraw_withdraws [of ch now w rsn d]
    by (auto simp: run_tx_withdraws split: sum.splits)
qed

lemma OnWithdrawTxFailed_evolves:
  assumes "withdraws_inv d"
  shows "wd_evolves (withdraws d) (withdraws (snd (OnWithdrawTxFailed sv now h d)))"
proof (cases "GetWithdrawByTxHash (xs_store sv) h d")
  case (Inl e)
  then show ?thesis by (simp add: OnWithdrawTxFailed_def Let_def)
next
  case (Inr w)
  then obtain r where r: "r \<in> set (withdraws d)" "null_eq (wr_tx_hash r) (to_lower h)" "w = scanWithdrawRow r"
    unfolding GetWithdrawByTxHash_def by (rule withdraw_select_Inr) blast
  have h: "wr_tx_hash r \<noteq> None" using r(2) by (auto simp: null_eq_def split: option.splits)
  show ?thesis
  proof (cases "w_status w = WithdrawStatusFailed \<or> w_status w = WithdrawStatusConfirmed")
    case True
    with Inr show ?thesis by (simp add: OnWithdrawTxFailed_def Let_def)
  next
    case False
    with h r assms have st: "wr_status r = WithdrawStatusBroadcasting"
      by (auto simp: withdraws_inv_def scanWithdrawRow_def)
    have "wr_status q = WithdrawStatusBroadcasting"
      if "q \<in> set (withdraws d)" "withdraw_where (xs_store sv) (w_id w) None q" for q
      using unique_withdraw [OF assms r(1) that(1)] that(2) st r(3)
      by (simp add: withdraw_where_def scanWithdrawRow_def)
    from fail_evolves [OF this] show ?thesis using Inr False by (simp add: OnWithdrawTxFailed_def Let_def)
  qed
qed

lemma OnWithdrawTxConfirmed_evolves:
  assumes "withdraws_inv d"
  shows "wd_evolves (withdraws d) (withdraws (snd (OnWithdrawTxConfirmed sv now h d)))"
proof (cases "GetWithdrawByTxHash (xs_store sv) h d")
  case (Inl e)
  then show ?thesis by (simp add: OnWithdrawTxConfirmed_def Let_def)
next
  case (Inr w)
  then obtain r where r: "r \<in> set (withdraws d)" "w = scanWithdrawRow r"
    unfolding GetWithdrawByTxHash_def by (rule withdraw_select_Inr) blast
  show ?thesis
  proof (cases "w_status w \<in> {WithdrawStatusBroadcasting, WithdrawStatusApproved}")
    case False
    with Inr show ?thesis by (auto simp: OnWithdrawTxConfirmed_def Let_def)
  next
    case True
    have "wr_status q \<in> {WithdrawStatusBroadcasting, WithdrawStatusApproved}"
      if "q \<in> set (withdraws d)" "withdraw_where (xs_store sv) (w_id w) None q" for q
      using unique_withdraw [OF assms r(1) that(1)] that(2) True r(2)
      by (simp add: withdraw_where_def scanWithdrawRow_def)
    then have "wd_evolves (withdraws d) (upd_where (withdraw_where (xs_store sv) (w_id w) None)
        (\<lambda>r. r\<lparr>wr_status := WithdrawStatusConfirmed, wr_updated := now\<rparr>) (withdraws d))"
      by (intro wd_evolves_upd) (auto simp: wrow_evolves_def intro!: r_into_rtranclp wd_step.confirm)
    then have "wd_evolves (withdraws d) (withdraws (snd (run_tx (
        bindT (getT (hasLedgerEntryTx (xs_store sv) (w_id w) LedgerWithdrawDebit)) (\<lambda>hasDebit.
        bindT (if \<not> hasDebit then debitWithdrawTx (xs_store sv) now (w_user w) (w_token w) (w_amount w) (w_id w)
               else retT ()) (\<lambda>_.
        modT (\<lambda>d. d\<lparr>withdraws := upd_where (withdraw_where (xs_store sv) (w_id w) None)
          (\<lambda>r. r\<lparr>wr_status := WithdrawStatusConfirmed, wr_updated := now\<rparr>) (withdraws d)\<rparr>)))) d)))"
      using debit.post_frame_any(2) [of "xs_store sv" now "w_user w" "w_token w" "w_amount w" "w_id w" d]
      by (auto simp: run_tx_withdraws bindT_apply split: sum.splits prod.splits)
    with True Inr show ?thesis by (auto simp: OnWithdrawTxConfirmed_def Let_def)
  qed
qed

text \<open>The claim of an approved request and what follows it.\<close>

lemma claim_stmt:
  "UpdateWithdrawStatusIf ch now i WithdrawStatusApproved WithdrawStatusBroadcasting [] d =
    (Inr (\<exists>r\<in>set (withdraws d). withdraw_where ch i (Some WithdrawStatusApproved) r),
     d\<lparr>withdraws := upd_where (withdraw_where ch i (Some WithdrawStatusApproved))
       (withdraw_set WithdrawStatusBroadcasting now []) (withdraws d)\<rparr>)"
  by (simp add: UpdateWithdrawStatusIf_def updateWithdrawStatusIf_ok)

lemma claim_evolves:
  "wd_evolves t (upd_where (withdraw_where ch i (Some WithdrawStatusApproved))
     (withdraw_set WithdrawStatusBroadcasting now []) t)"
  by (auto intro!: wd_evolves_upd r_into_rtranclp wd_step.intros simp: wrow_evolves_def withdraw_where_def)

lemma UpdateWithdrawStatus_eq:
  "UpdateWithdrawStatus ch now i st flds d =
    (Inr (), d\<lparr>withdraws := upd_where (withdraw_where ch i None) (withdraw_set st now flds) (withdraws d)\<rparr>)"
  by (simp add: UpdateWithdrawStatus_def updateWithdrawStatus_def updateWithdrawStatusIf_def bindT_apply)

definition broadcasting_all :: "int \<Rightarrow> int \<Rightarrow> db \<Rightarrow> bool" where
  "broadcasting_all ch i d \<longleftrightarrow>
     (\<forall>r\<in>set (withdraws d). withdraw_where ch i None r \<longrightarrow> wr_status r = WithdrawStatusBroadcasting)"

lemma broadcasting_all_cong: "withdraws d' = withdraws d \<Longrightarrow> broadcasting_all ch i d' = broadcasting_all ch i d"
  by (simp add: broadcasting_all_def)

lemma failBroadcast_evolves:
  "broadcasting_all (xs_store sv) (w_id w) d \<Longrightarrow>
     wd_evolves (withdraws d) (withdraws (snd (failBroadcast sv now w rsn d)))"
  unfolding failBroadcast_def by (rule fail_evolves) (simp add: broadcasting_all_def)

lemma record_evolves:
  "broadcasting_all ch i d \<Longrightarrow>
     wd_evolves (withdraws d) (withdraws (snd (UpdateWithdrawStatus ch now i WithdrawStatusBroadcasting flds d)))"
  by (simp add: UpdateWithdrawStatus_eq)
    (rule wd_evolves_upd, simp add: wrow_evolves_def broadcasting_all_def)

lemma Send_withdraws:
  "withdraws (sys_db (snd (SendNative ts now k to v m s))) = withdraws (sys_db s)"
  "withdraws (sys_db (snd (SendERC20 ts now k token to v m s))) = withdraws (sys_db s)"
  using Send_ex(1) [of ts now k to v m s] Send_ex(2) [of ts now k token to v m s]
  by (simp_all add: ex_tables_def)

lemma broadcastWithdraw_evolves:
  assumes "broadcasting_all (xs_store sv) (w_id w) (sys_db s)"
  shows "wd_evolves (withdraws (sys_db s)) (withdraws (sys_db (snd (broadcastWithdraw sv sg ts now w s))))"
proof -
  define fail where "fail = onError (\<lambda>e. dbT (failBroadcast sv now w (err_text e)))"
  define send where "send key = (if w_token w = []
      then SendNative ts now key (HexToAddress (bk_geth (ts_backend ts)) (w_to w)) (w_amount w) (withdraw_meta w)
      else SendERC20 ts now key (HexToAddress (bk_geth (ts_backend ts)) (w_token w))
        (HexToAddress (bk_geth (ts_backend ts)) (w_to w)) (w_amount w) (withdraw_meta w))" for key
  have fail: "wd_evolves (withdraws (sys_db s1)) (withdraws (sys_db (snd (fail e s1))))"
    if "broadcasting_all (xs_store sv) (w_id w) (sys_db s1)" for e s1
    using failBroadcast_evolves [OF that] by (simp add: fail_def onError_def split: go_error.split)
  have send: "withdraws (sys_db s1) = withdraws (sys_db s)" if "send key s = (r, s1)" for key r s1
    using that Send_withdraws by (metis send_def snd_conv)
  have after: "wd_evolves (withdraws (sys_db s)) (withdraws (sys_db (snd (case send key s of
      (Inl e, s1) \<Rightarrow> fail e s1
    | (Inr row, s1) \<Rightarrow> dbT (UpdateWithdrawStatus (xs_store sv) now (w_id w) WithdrawStatusBroadcasting
        [SetFromWallet (to_lower fw), SetTxHash (to_lower (row_hash row))]) s1))))" for key fw
  proof (cases "send key s")
    case (Pair r s1)
    with send have w: "withdraws (sys_db s1) = withdraws (sys_db s)" by blast
    then have b: "broadcasting_all (xs_store sv) (w_id w) (sys_db s1)" using assms by (simp add: broadcasting_all_def)
    show ?thesis using Pair fail [OF b] record_evolves [OF b] by (cases r) (simp_all add: w)
  qed
  show ?thesis using fail [OF assms] after
    unfolding broadcastWithdraw_def Let_def fail_def [symmetric] send_def [symmetric]
    by (auto simp: bindT_apply getS_def split: sum.splits)
qed

definition claimed_sys :: "int \<Rightarrow> time \<Rightarrow> int \<Rightarrow> sys \<Rightarrow> sys" where
  "claimed_sys ch now i s = s\<lparr>sys_db := (sys_db s)\<lparr>withdraws :=
     upd_where (withdraw_where ch i (Some WithdrawStatusApproved))
       (withdraw_set WithdrawStatusBroadcasting now []) (withdraws (sys_db s))\<rparr>\<rparr>"

lemma upd_where_memE:
  assumes "x \<in> set (upd_where p f t)"
  shows "(\<exists>r\<in>set t. p r \<and> x = f r) \<or> x \<in> set t \<and> \<not> p x"
  using assms by (auto simp: upd_where_def split: if_splits)

lemma ProcessApprovedWithdraw_eq:
  assumes "w_status w0 = WithdrawStatusApproved" "xs_signer sv = Some sg" "xs_txsvc sv = Some ts"
  shows "ProcessApprovedWithdraw sv now w0 s =
    (if \<exists>r\<in>set (withdraws (sys_db s)). withdraw_where (xs_store sv) (w_id w0) (Some WithdrawStatusApproved) r
     then case GetWithdraw (xs_store sv) (w_id w0) (sys_db (claimed_sys (xs_store sv) now (w_id w0) s)) of
       Inl e \<Rightarrow> (Inl e, claimed_sys (xs_store sv) now (w_id w0) s)
     | Inr w \<Rightarrow> broadcastWithdraw sv sg ts now w (claimed_sys (xs_store sv) now (w_id w0) s)
     else (Inl ErrWithdrawAlreadyHandled, s))"
proof (cases "\<exists>r\<in>set (withdraws (sys_db s)). withdraw_where (xs_store sv) (w_id w0) (Some WithdrawStatusApproved) r")
  case True
  then show ?thesis
    using assms by (simp add: ProcessApprovedWithdraw_def claim_stmt bindT_apply readS_def claimed_sys_def split: sum.split)
next
  case False
  have "upd_where (withdraw_where (xs_store sv) (w_id w0) (Some WithdrawStatusApproved)) f (withdraws (sys_db s)) = withdraws (sys_db s)" for f
    using False by (intro upd_where_none) blast
  with False show ?thesis
    using assms by (simp add: ProcessApprovedWithdraw_def claim_stmt bindT_apply)
qed

lemma ProcessApprovedWithdraw_noop:
  assumes "w_status w0 \<noteq> WithdrawStatusApproved \<or> xs_signer sv = None \<or> xs_txsvc sv = None"
  shows "\<exists>e. ProcessApprovedWithdraw sv now w0 s = (Inl e, s)"
  using assms by (auto simp: ProcessApprovedWithdraw_def split: option.split)

lemma claimed_broadcasting_all:
  assumes inv: "withdraws_inv (sys_db s)"
    and ex: "\<exists>r\<in>set (withdraws (sys_db s)). withdraw_where ch i (Some WithdrawStatusApproved) r"
  shows "broadcasting_all ch i (sys_db (claimed_sys ch now i s))"
proof -
  from ex obtain q where q: "q \<in> set (withdraws (sys_db s))" "wr_id q = i" "wr_status q = WithdrawStatusApproved"
    by (auto simp: withdraw_where_def)
  have "r = q" if "r \<in> set (withdraws (sys_db s))" "wr_id r = i" for r
    using unique_withdraw [OF inv q(1) that(1)] that(2) q(2) by simp
  then have "withdraw_where ch i None r \<Longrightarrow> wr_status r = WithdrawStatusBroadcasting"
    if "r \<in> set (upd_where (withdraw_where ch i (Some WithdrawStatusApproved))
      (withdraw_set WithdrawStatusBroadcasting now []) (withdraws (sys_db s)))" for r
    using upd_where_memE [OF that] q(3) by (metis option.simps(4,5) withdraw_set_keeps(3) withdraw_where_def)
  then show ?thesis by (simp add: broadcasting_all_def claimed_sys_def)
qed

lemma GetWithdraw_id: "GetWithdraw ch i d = Inr w \<Longrightarrow> w_id w = i"
  unfolding GetWithdraw_def by (erule withdraw_select_Inr) (simp add: scanWithdrawRow_def)

lemma ProcessApprovedWithdraw_evolves:
  assumes "withdraws_inv (sys_db s)"
  shows "wd_evolves (withdraws (sys_db s)) (withdraws (sys_db (snd (ProcessApprovedWithdraw sv now w0 s))))"
proof (cases "w_status w0 = WithdrawStatusApproved \<and> xs_signer sv \<noteq> None \<and> xs_txsvc sv \<noteq> None")
  case False
  then obtain e where "ProcessApprovedWithdraw sv now w0 s = (Inl e, s)"
    using ProcessApprovedWithdraw_noop [of w0 sv now s] by auto
  then show ?thesis by simp
next
  case True
  then obtain sg ts where c: "w_status w0 = WithdrawStatusApproved" "xs_signer sv = Some sg" "xs_txsvc sv = Some ts"
    by blast
  let ?s1 = "claimed_sys (xs_store sv) now (w_id w0) s"
  have e1: "wd_evolves (withdraws (sys_db s)) (withdraws (sys_db ?s1))"
    by (simp add: claimed_sys_def claim_evolves)
  show ?thesis
  proof (cases "\<exists>r\<in>set (withdraws (sys_db s)). withdraw_where (xs_store sv) (w_id w0) (Some WithdrawStatusApproved) r")
    case False
    then show ?thesis by (simp add: ProcessApprovedWithdraw_eq [OF c])
  next
    case ex: True
    show ?thesis
    proof (cases "GetWithdraw (xs_store sv) (w_id w0) (sys_db ?s1)")
      case (Inl e)
      then show ?thesis using ex e1 by (simp add: ProcessApprovedWithdraw_eq [OF c])
    next
      case (Inr w)
      have "broadcasting_all (xs_store sv) (w_id w) (sys_db ?s1)"
        using claimed_broadcasting_all [OF assms ex] GetWithdraw_id [OF Inr] by simp
      from wd_evolves_trans [OF e1 broadcastWithdraw_evolves [OF this]]
      show ?thesis using ex Inr by (simp add: ProcessApprovedWithdraw_eq [OF c])
    qed
  qed
qed

subsection \<open>The table invariant of the withdraw requests\<close>

definition wrow_ok :: "withdraw_row \<Rightarrow> bool" where
  "wrow_ok r \<longleftrightarrow> (wr_tx_hash r \<noteq> None \<longrightarrow>
     wr_status r \<in> {WithdrawStatusBroadcasting, WithdrawStatusConfirmed, WithdrawStatusFailed})"

lemma withdraws_inv_iff:
  "withdraws_inv d \<longleftrightarrow> distinct (map wr_id (withdraws d)) \<and>
     (\<forall>r\<in>set (withdraws d). wr_id r < ai_withdraws (ctrs d) \<and> wrow_ok r)"
  by (simp add: withdraws_inv_def wrow_ok_def)

lemma withdraws_inv_upd:
  assumes "withdraws_inv d" "withdraws d' = upd_where p f (withdraws d)"
    "ai_withdraws (ctrs d) \<le> ai_withdraws (ctrs d')"
    "\<And>r. r \<in> set (withdraws d) \<Longrightarrow> p r \<Longrightarrow> wrow_ok r \<Longrightarrow> wr_id (f r) = wr_id r \<and> wrow_ok (f r)"
  shows "withdraws_inv d'"
proof -
  have "map wr_id (withdraws d') = map wr_id (withdraws d)"
    using assms by (simp add: map_upd_where withdraws_inv_iff)
  moreover have "wr_id x < ai_withdraws (ctrs d') \<and> wrow_ok x" if "x \<in> set (withdraws d')" for x
    using upd_where_memE [OF that [unfolded assms(2)]] assms(1,3,4) by (fastforce simp: withdraws_inv_iff)
  ultimately show ?thesis using assms(1) by (simp add: withdraws_inv_iff)
qed

lemma withdraws_inv_cong:
  "withdraws d' = withdraws d \<Longrightarrow> ai_withdraws (ctrs d) \<le> ai_withdraws (ctrs d') \<Longrightarrow>
     withdraws_inv d \<Longrightarrow> withdraws_inv d'"
  by (fastforce simp: withdraws_inv_iff)

text \<open>What an update may write: a transaction hash only together with one of the states
  that follow the claim.\<close>

lemma set_row_ok:
  "wrow_ok (r\<lparr>wr_status := WithdrawStatusFailed, wr_reject_reason := rsn, wr_updated := now\<rparr>)"
  "wrow_ok (r\<lparr>wr_status := WithdrawStatusConfirmed, wr_updated := now\<rparr>)"
  "wrow_ok (withdraw_set WithdrawStatusBroadcasting now flds r)"
  "wr_tx_hash r = None \<Longrightarrow> wrow_ok (reject_set now rvw reason r)"
  "wr_tx_hash r = None \<Longrightarrow> wrow_ok (withdraw_set WithdrawStatusApproved now [SetReviewer rvw, SetReviewedAt now] r)"
  by (simp_all add: wrow_ok_def reject_set_def) (simp add: withdraw_set_def)

lemma pending_no_hash: "wrow_ok r \<Longrightarrow> wr_status r = WithdrawStatusPendingReview \<Longrightarrow> wr_tx_hash r = None"
  by (auto simp: wrow_ok_def)

lemma applyLedgerTx_ctr: "ai_withdraws (ctrs (snd (applyLedgerTx ch now u t op d))) = ai_withdraws (ctrs d)"
  by (auto simp: applyLedgerTx_def Let_def bindT_apply upsert_account_def insert_entry_def split: prod.splits sum.splits)

context posting
begin

lemma post_ctr: "ai_withdraws (ctrs (snd (post ch now u t a i d))) = ai_withdraws (ctrs d)"
  by (simp add: post_eq bindT_apply applyLedgerTx_ctr split: sum.splits)

lemma post_withdraws_inv: "withdraws_inv d \<Longrightarrow> withdraws_inv (snd (post ch now u t a i d))"
  by (rule withdraws_inv_cong) (simp_all add: post_frame_any post_ctr)

end

end
