(* ===== verification/Exchange_Withdraw.thy ===== *)
theory Exchange_Withdraw
  imports Exchange_Service
begin

text \<open>
  What the withdraw handlers of \<open>internal/exchange/service.go\<close> guarantee: the table
  invariant, who may claim a request, and what each transition does to the user's
  account.
\<close>

subsection \<open>Every handler keeps the table invariant\<close>

lemma run_tx_ctr_mono:
  "(\<And>d. ai_withdraws (ctrs d) \<le> ai_withdraws (ctrs (snd (m d)))) \<Longrightarrow>
     ai_withdraws (ctrs d) \<le> ai_withdraws (ctrs (snd (run_tx m d)))"
  by (auto simp: run_tx_def rollback_def split: prod.splits sum.splits) (metis snd_conv)+

lemma withdraws_inv_run_tx:
  assumes "withdraws_inv d" "withdraws_inv (snd (m d))"
    "ai_withdraws (ctrs d) \<le> ai_withdraws (ctrs (snd (m d)))"
  shows "withdraws_inv (snd (run_tx m d))"
proof (cases "m d")
  case (Pair r d')
  show ?thesis
  proof (cases r)
    case (Inl e)
    with Pair have "snd (run_tx m d) = d\<lparr>ctrs := ctrs d'\<rparr>" by (simp add: run_tx_def rollback_def)
    then show ?thesis using assms Pair by (intro withdraws_inv_cong [OF _ _ assms(1)]) simp_all
  next
    case (Inr x)
    with Pair assms(2) show ?thesis by (simp add: run_tx_def)
  qed
qed

lemma ApproveWithdraw_winv:
  assumes "withdraws_inv d" shows "withdraws_inv (snd (ApproveWithdraw sv now i rvw d))"
proof (rule withdraws_inv_upd [OF assms])
  show "withdraws (snd (ApproveWithdraw sv now i rvw d)) =
      upd_where (withdraw_where (xs_store sv) i (Some WithdrawStatusPendingReview))
        (withdraw_set WithdrawStatusApproved now [SetReviewer rvw, SetReviewedAt now]) (withdraws d)"
    by (auto simp: ApproveWithdraw_def UpdateWithdrawStatusIf_def updateWithdrawStatusIf_ok bindT_apply)
  show "ai_withdraws (ctrs d) \<le> ai_withdraws (ctrs (snd (ApproveWithdraw sv now i rvw d)))"
    by (auto simp: ApproveWithdraw_def UpdateWithdrawStatusIf_def updateWithdrawStatusIf_ok bindT_apply)
qed (auto simp: withdraw_where_def intro!: set_row_ok pending_no_hash)

lemma withdraws_inv_set:
  assumes "withdraws_inv d"
    "\<And>r. r \<in> set (withdraws d) \<Longrightarrow> p r \<Longrightarrow> wrow_ok r \<Longrightarrow> wr_id (f r) = wr_id r \<and> wrow_ok (f r)"
  shows "withdraws_inv (d\<lparr>withdraws := upd_where p f (withdraws d)\<rparr>)"
  by (rule withdraws_inv_upd [OF assms(1), where p = p and f = f]) (simp_all add: assms(2))

lemma reject_stmt_winv:
  assumes "withdraws_inv d" shows "withdraws_inv (snd (reject_stmt ch now i rvw rsn d))"
proof -
  have "wr_id (reject_set now rvw rsn r) = wr_id r" for r by (simp add: reject_set_def)
  then show ?thesis
    unfolding reject_stmt_def Let_def snd_conv
    by (intro withdraws_inv_set [OF assms] conjI set_row_ok pending_no_hash) (simp_all add: withdraw_where_def)
qed

lemma reject_tx:
  assumes "withdraws_inv d"
  shows "withdraws_inv (snd (run_tx (bindT (reject_stmt ch now i rvw rsn)
    (\<lambda>n. if n = 0 then failT ErrInvalidWithdrawState else unfreezeWithdrawTx ch now u t a j)) d))"
proof (rule withdraws_inv_run_tx [OF assms])
  show "withdraws_inv (snd (bindT (reject_stmt ch now i rvw rsn)
    (\<lambda>n. if n = 0 then failT ErrInvalidWithdrawState else unfreezeWithdrawTx ch now u t a j) d))"
    using reject_stmt_winv [OF assms]
    by (intro bindT_snd [where P = withdraws_inv]) (auto intro: unfreeze.post_withdraws_inv)
qed (simp add: reject_stmt_def Let_def bindT_apply unfreeze.post_ctr)

lemma RejectWithdraw_winv:
  assumes "withdraws_inv d" shows "withdraws_inv (snd (RejectWithdraw sv now i rvw rsn d))"
  using assms unfolding RejectWithdraw_def Let_def
  by (auto intro!: bindT_snd [where P = withdraws_inv] reject_tx)

lemma fail_stmt_winv:
  assumes "withdraws_inv d" shows "withdraws_inv (snd (FailWithdrawAndUnfreezeTx ch now w rsn d))"
  using assms unfolding FailWithdrawAndUnfreezeTx_def
  by (auto intro!: bindT_snd [where P = withdraws_inv] unfreeze.post_withdraws_inv
      withdraws_inv_set simp: set_row_ok)

lemma fail_ctr: "ai_withdraws (ctrs (snd (FailWithdrawAndUnfreezeTx ch now w rsn d))) = ai_withdraws (ctrs d)"
  unfolding FailWithdrawAndUnfreezeTx_def
  by (auto simp: unfreeze.post_ctr intro!: bindT_snd [where P = "\<lambda>x. ai_withdraws (ctrs x) = ai_withdraws (ctrs d)"])

lemma fail_tx_winv:
  "withdraws_inv d \<Longrightarrow> withdraws_inv (snd (run_tx (FailWithdrawAndUnfreezeTx ch now w rsn) d))"
  by (rule withdraws_inv_run_tx) (simp_all add: fail_stmt_winv fail_ctr)

lemma OnWithdrawTxFailed_winv:
  "withdraws_inv d \<Longrightarrow> withdraws_inv (snd (OnWithdrawTxFailed sv now h d))"
  unfolding OnWithdrawTxFailed_def Let_def
  by (auto intro!: bindT_snd [where P = withdraws_inv] fail_tx_winv split: sum.splits)

text \<open>The transaction of a confirmation.\<close>

definition confirm_tx :: "int \<Rightarrow> time \<Rightarrow> withdraw_request \<Rightarrow> unit dbtx" where
  "confirm_tx ch now w =
     bindT (getT (hasLedgerEntryTx ch (w_id w) LedgerWithdrawDebit)) (\<lambda>hasDebit.
     bindT (if \<not> hasDebit then debitWithdrawTx ch now (w_user w) (w_token w) (w_amount w) (w_id w)
            else retT ()) (\<lambda>_.
     modT (\<lambda>d. d\<lparr>withdraws := upd_where (withdraw_where ch (w_id w) None)
       (\<lambda>r. r\<lparr>wr_status := WithdrawStatusConfirmed, wr_updated := now\<rparr>) (withdraws d)\<rparr>)))"

lemma OnWithdrawTxConfirmed_eq:
  "OnWithdrawTxConfirmed sv now h d =
     (case GetWithdrawByTxHash (xs_store sv) h d of
        Inl e \<Rightarrow> if e = ErrNoRows then (Inr (), d) else (Inl e, d)
      | Inr w \<Rightarrow> if w_status w \<in> {WithdrawStatusBroadcasting, WithdrawStatusApproved}
          then run_tx (confirm_tx (xs_store sv) now w) d else (Inr (), d))"
  by (simp add: OnWithdrawTxConfirmed_def Let_def confirm_tx_def bindT_apply split: sum.split)

lemma confirm_tx_winv:
  assumes "withdraws_inv d" shows "withdraws_inv (snd (confirm_tx ch now w d))"
  using assms unfolding confirm_tx_def
  by (auto intro!: bindT_snd [where P = withdraws_inv] debit.post_withdraws_inv
      withdraws_inv_set simp: set_row_ok)

lemma confirm_tx_ctr: "ai_withdraws (ctrs (snd (confirm_tx ch now w d))) = ai_withdraws (ctrs d)"
  unfolding confirm_tx_def
  by (auto simp: debit.post_ctr intro!: bindT_snd [where P = "\<lambda>x. ai_withdraws (ctrs x) = ai_withdraws (ctrs d)"])

lemma OnWithdrawTxConfirmed_winv:
  "withdraws_inv d \<Longrightarrow> withdraws_inv (snd (OnWithdrawTxConfirmed sv now h d))"
  by (auto simp: OnWithdrawTxConfirmed_eq confirm_tx_winv confirm_tx_ctr
      intro!: withdraws_inv_run_tx split: sum.splits)

text \<open>A new request without a row for its key: the insert is read back outside the
  transaction, where it is not visible.\<close>

definition withdraw_new :: "int \<Rightarrow> create_withdraw_params \<Rightarrow> db \<Rightarrow> bool" where
  "withdraw_new ch p d \<longleftrightarrow> (cw_idem_key p \<noteq> [] \<longrightarrow>
     List.find (\<lambda>r. wr_chain r = ch \<and> null_eq (wr_idem_key r) (cw_idem_key p)) (withdraws d) = None)"

lemma GetWithdraw_fresh:
  assumes "withdraws_inv d" shows "GetWithdraw ch (ai_withdraws (ctrs d)) d = Inl ErrNoRows"
proof -
  have "List.find (\<lambda>r. wr_chain r = ch \<and> wr_id r = ai_withdraws (ctrs d)) (withdraws d) = None"
    using assms by (fastforce simp: find_None_iff_none withdraws_inv_iff)
  then show ?thesis by (simp add: GetWithdraw_def withdraw_select_def)
qed

lemma insertWithdrawTx_new:
  assumes "withdraws_inv d" "withdraw_new ch p d"
  shows "fst (insertWithdrawTx ch now d p st d) = Inl ErrNoRows"
    "ctrs (snd (insertWithdrawTx ch now d p st d)) = (ctrs d)\<lparr>ai_withdraws := ai_withdraws (ctrs d) + 1\<rparr>"
  using assms GetWithdraw_fresh [OF assms(1), of ch]
  by (auto simp: insertWithdrawTx_def insert_withdraw_stmt_def Let_def withdraw_new_def)

lemma CreateWithdraw_new:
  assumes "withdraws_inv d" "withdraw_new (xs_store sv) p d"
    "parseWei (cw_amount p) = Inr amt" "0 < amt" "IsHexAddress (xs_geth sv) (cw_to p)"
  shows "CreateWithdraw sv now p d =
    (Inl ErrNoRows, d\<lparr>ctrs := (ctrs d)\<lparr>ai_withdraws := ai_withdraws (ctrs d) + 1\<rparr>\<rparr>)"
proof -
  let ?st = "if AutoApproveWithdraw (Exchange (xs_cfg sv)) then WithdrawStatusApproved else WithdrawStatusPendingReview"
  obtain d1 where "insertWithdrawTx (xs_store sv) now d p ?st d = (Inl ErrNoRows, d1)"
    "ctrs d1 = (ctrs d)\<lparr>ai_withdraws := ai_withdraws (ctrs d) + 1\<rparr>"
    using insertWithdrawTx_new [OF assms(1,2), of now ?st] by (metis prod.collapse)
  then show ?thesis using assms(3-5)
    by (simp add: CreateWithdraw_def Let_def bindT_apply run_tx_def rollback_def)
qed

text \<open>The invariant together with a lower bound on the counter, which a rollback keeps.\<close>

definition winv_from :: "int \<Rightarrow> db \<Rightarrow> bool" where
  "winv_from n d \<longleftrightarrow> withdraws_inv d \<and> n \<le> ai_withdraws (ctrs d)"

lemma winv_from_run_tx:
  assumes "winv_from n d" "winv_from (ai_withdraws (ctrs d)) (snd (m d))"
  shows "withdraws_inv (snd (run_tx m d))"
  using assms by (intro withdraws_inv_run_tx) (simp_all add: winv_from_def)

lemma insert_withdraw_stmt_winv:
  assumes "withdraws_inv d"
  shows "winv_from (ai_withdraws (ctrs d)) (snd (insert_withdraw_stmt ch now p st d))"
proof -
  have lt: "wr_id r < ai_withdraws (ctrs d) + 1 \<and> wr_id r \<noteq> ai_withdraws (ctrs d)" if "r \<in> set (withdraws d)" for r
    using assms that by (force simp: withdraws_inv_iff)
  then have "ai_withdraws (ctrs d) \<notin> wr_id ` set (withdraws d)" by force
  with assms lt show ?thesis
    by (simp add: winv_from_def insert_withdraw_stmt_def Let_def withdraws_inv_iff) (simp add: wrow_ok_def)
qed

lemma insertWithdrawTx_winv:
  assumes "withdraws_inv d"
  shows "winv_from (ai_withdraws (ctrs d)) (snd (insertWithdrawTx ch now d0 p st d))"
proof -
  obtain r d1 where i: "insert_withdraw_stmt ch now p st d = (r, d1)" by fastforce
  then have "winv_from (ai_withdraws (ctrs d)) d1" using insert_withdraw_stmt_winv [OF assms, of ch now p st] by simp
  with i show ?thesis
    by (cases r) (auto simp: insertWithdrawTx_def GetWithdrawByIdempotencyTx_def bindT_apply split: sum.split)
qed

lemma freeze_winv_from: "winv_from n d \<Longrightarrow> winv_from n (snd (freezeWithdrawTx ch now u t a i d))"
  by (simp add: winv_from_def freeze.post_withdraws_inv freeze.post_ctr)

lemma CreateWithdraw_winv:
  assumes "withdraws_inv d" shows "withdraws_inv (snd (CreateWithdraw sv now p d))"
proof -
  have "winv_from (ai_withdraws (ctrs d)) (snd (bindT (insertWithdrawTx ch now d p st) (\<lambda>(w, created).
      bindT (if created then retT False else getT (hasLedgerEntryTx ch (w_id w) LedgerWithdrawFreeze)) (\<lambda>hasFreeze.
      if hasFreeze then retT (w_id w)
      else bindT (freezeWithdrawTx ch now (cw_user p) (cw_token p) (cw_amount p) (w_id w)) (\<lambda>_. retT (w_id w)))) d))" for ch st
    using insertWithdrawTx_winv [OF assms]
    by (auto intro!: bindT_snd [where P = "winv_from (ai_withdraws (ctrs d))"] freeze_winv_from split: prod.splits)
  moreover have "winv_from (ai_withdraws (ctrs d)) d" using assms by (simp add: winv_from_def)
  ultimately show ?thesis
    using assms unfolding CreateWithdraw_def Let_def
    by (auto split: sum.splits intro!: bindT_snd [where P = withdraws_inv] winv_from_run_tx)
qed

subsection \<open>The broadcast\<close>

lemma Send_tables:
  "withdraws (sys_db (snd (SendNative ts now k to v m s))) = withdraws (sys_db s)"
  "ai_withdraws (ctrs (sys_db (snd (SendNative ts now k to v m s)))) = ai_withdraws (ctrs (sys_db s))"
  "withdraws (sys_db (snd (SendERC20 ts now k token to v m s))) = withdraws (sys_db s)"
  "ai_withdraws (ctrs (sys_db (snd (SendERC20 ts now k token to v m s)))) = ai_withdraws (ctrs (sys_db s))"
  using Send_ex(1) [of ts now k to v m s] Send_ex(2) [of ts now k token to v m s]
  by (simp_all add: ex_tables_def)

lemma record_winv:
  "withdraws_inv d \<Longrightarrow>
     withdraws_inv (snd (UpdateWithdrawStatus ch now i WithdrawStatusBroadcasting flds d))"
  unfolding UpdateWithdrawStatus_eq snd_conv by (rule withdraws_inv_set) (simp_all add: set_row_ok)

lemma claimed_winv: "withdraws_inv (sys_db s) \<Longrightarrow> withdraws_inv (sys_db (claimed_sys ch now i s))"
  unfolding claimed_sys_def by simp (rule withdraws_inv_set, simp_all add: set_row_ok)

lemma broadcastWithdraw_winv:
  assumes "withdraws_inv (sys_db s)"
  shows "withdraws_inv (sys_db (snd (broadcastWithdraw sv sg ts now w s)))"
proof -
  define fail where "fail = onError (\<lambda>e. dbT (failBroadcast sv now w (err_text e)))"
  define send where "send key = (if w_token w = []
      then SendNative ts now key (HexToAddress (bk_geth (ts_backend ts)) (w_to w)) (w_amount w) (withdraw_meta w)
      else SendERC20 ts now key (HexToAddress (bk_geth (ts_backend ts)) (w_token w))
        (HexToAddress (bk_geth (ts_backend ts)) (w_to w)) (w_amount w) (withdraw_meta w))" for key
  have fail: "withdraws_inv (sys_db (snd (fail e s1)))" if "withdraws_inv (sys_db s1)" for e s1
    using fail_tx_winv [OF that] that by (simp add: fail_def onError_def failBroadcast_def split: go_error.split)
  have send: "withdraws_inv (sys_db s1)" if "send key s = (r, s1)" for key r s1
  proof -
    have "withdraws (sys_db s1) = withdraws (sys_db s)" "ai_withdraws (ctrs (sys_db s1)) = ai_withdraws (ctrs (sys_db s))"
      using that Send_tables by (metis send_def snd_conv)+
    then show ?thesis by (intro withdraws_inv_cong [OF _ _ assms]) simp_all
  qed
  have after: "withdraws_inv (sys_db (snd (case send key s of
      (Inl e, s1) \<Rightarrow> fail e s1
    | (Inr row, s1) \<Rightarrow> dbT (UpdateWithdrawStatus (xs_store sv) now (w_id w) WithdrawStatusBroadcasting
        [SetFromWallet (to_lower fw), SetTxHash (to_lower (row_hash row))]) s1)))" for key fw
  proof (cases "send key s")
    case (Pair r s1)
    show ?thesis using Pair fail [OF send [OF Pair]] record_winv [OF send [OF Pair]] by (cases r) simp_all
  qed
  show ?thesis using fail [OF assms] after
    unfolding broadcastWithdraw_def Let_def fail_def [symmetric] send_def [symmetric]
    by (auto simp: bindT_apply getS_def split: sum.splits)
qed

lemma ProcessApprovedWithdraw_cases:
  obtains (refused) e where "ProcessApprovedWithdraw sv now w0 s = (Inl e, s)"
  | (lost) e where "ProcessApprovedWithdraw sv now w0 s = (Inl e, claimed_sys (xs_store sv) now (w_id w0) s)"
      "\<exists>r\<in>set (withdraws (sys_db s)). withdraw_where (xs_store sv) (w_id w0) (Some WithdrawStatusApproved) r"
  | (sent) sg ts w where "xs_signer sv = Some sg" "xs_txsvc sv = Some ts" "w_status w0 = WithdrawStatusApproved"
      "\<exists>r\<in>set (withdraws (sys_db s)). withdraw_where (xs_store sv) (w_id w0) (Some WithdrawStatusApproved) r"
      "GetWithdraw (xs_store sv) (w_id w0) (sys_db (claimed_sys (xs_store sv) now (w_id w0) s)) = Inr w"
      "ProcessApprovedWithdraw sv now w0 s = broadcastWithdraw sv sg ts now w (claimed_sys (xs_store sv) now (w_id w0) s)"
proof (cases "w_status w0 = WithdrawStatusApproved \<and> xs_signer sv \<noteq> None \<and> xs_txsvc sv \<noteq> None")
  case False
  then show thesis using ProcessApprovedWithdraw_noop [of w0 sv now s] refused by auto
next
  case True
  then obtain sg ts where c: "w_status w0 = WithdrawStatusApproved" "xs_signer sv = Some sg" "xs_txsvc sv = Some ts"
    by blast
  show thesis
  proof (cases "\<exists>r\<in>set (withdraws (sys_db s)). withdraw_where (xs_store sv) (w_id w0) (Some WithdrawStatusApproved) r")
    case False
    then show thesis by (intro refused) (simp add: ProcessApprovedWithdraw_eq [OF c])
  next
    case ex: True
    then show thesis
      using lost sent [OF c(2,3,1) ex] ProcessApprovedWithdraw_eq [OF c, of now s]
      by (cases "GetWithdraw (xs_store sv) (w_id w0) (sys_db (claimed_sys (xs_store sv) now (w_id w0) s))") simp_all
  qed
qed

lemma ProcessApprovedWithdraw_winv:
  assumes "withdraws_inv (sys_db s)"
  shows "withdraws_inv (sys_db (snd (ProcessApprovedWithdraw sv now w0 s)))"
  by (cases rule: ProcessApprovedWithdraw_cases [of sv now w0 s])
    (simp_all add: assms claimed_winv broadcastWithdraw_winv)

text \<open>After a call, whatever its outcome, the request is no longer approved: nobody else can
  claim it.\<close>

lemma wd_steps_claimed:
  "wd_step\<^sup>*\<^sup>* st new \<Longrightarrow> st \<notin> {WithdrawStatusPendingReview, WithdrawStatusApproved} \<Longrightarrow>
     new \<notin> {WithdrawStatusPendingReview, WithdrawStatusApproved}"
  by (induction rule: rtranclp_induct) (auto elim: wd_stepE)

lemma wd_evolves_not_approved:
  assumes "wd_evolves t t'" "\<forall>r\<in>set t. wr_id r = i \<and> wr_chain r = ch \<longrightarrow> wr_status r = WithdrawStatusBroadcasting"
  shows "\<not> (\<exists>r\<in>set t'. withdraw_where ch i (Some WithdrawStatusApproved) r)"
proof
  assume "\<exists>r\<in>set t'. withdraw_where ch i (Some WithdrawStatusApproved) r"
  then obtain r' where r': "r' \<in> set t'" "wr_chain r' = ch" "wr_id r' = i" "wr_status r' = WithdrawStatusApproved"
    by (auto simp: withdraw_where_def)
  obtain r where r: "r \<in> set t" "wrow_evolves r r'"
    using assms(1) r'(1) unfolding wd_evolves_def by (metis in_set_conv_nth list_all2_conv_all_nth)
  then have "wr_status r = WithdrawStatusBroadcasting" using assms(2) r' by (auto simp: wrow_evolves_def)
  with r(2) r'(4) show False using wd_steps_claimed by (fastforce simp: wrow_evolves_def)
qed

lemma ProcessApprovedWithdraw_claims:
  assumes "withdraws_inv (sys_db s)" "w_status w0 = WithdrawStatusApproved"
    "xs_signer sv = Some sg" "xs_txsvc sv = Some ts"
  shows "\<not> (\<exists>r\<in>set (withdraws (sys_db (snd (ProcessApprovedWithdraw sv now w0 s)))).
    withdraw_where (xs_store sv) (w_id w0) (Some WithdrawStatusApproved) r)"
proof (cases "\<exists>r\<in>set (withdraws (sys_db s)). withdraw_where (xs_store sv) (w_id w0) (Some WithdrawStatusApproved) r")
  case False
  then show ?thesis by (simp add: ProcessApprovedWithdraw_eq [OF assms(2-4)])
next
  case True
  let ?s1 = "claimed_sys (xs_store sv) now (w_id w0) s"
  have b: "broadcasting_all (xs_store sv) (w_id w0) (sys_db ?s1)" by (rule claimed_broadcasting_all [OF assms(1) True])
  have "wd_evolves (withdraws (sys_db ?s1)) (withdraws (sys_db (snd (ProcessApprovedWithdraw sv now w0 s))))"
  proof (cases "GetWithdraw (xs_store sv) (w_id w0) (sys_db ?s1)")
    case (Inl e)
    with True show ?thesis by (simp add: ProcessApprovedWithdraw_eq [OF assms(2-4)])
  next
    case (Inr w)
    have "broadcasting_all (xs_store sv) (w_id w) (sys_db ?s1)" using b GetWithdraw_id [OF Inr] by simp
    from broadcastWithdraw_evolves [OF this] True Inr show ?thesis
      by (simp add: ProcessApprovedWithdraw_eq [OF assms(2-4)])
  qed
  then show ?thesis
    by (rule wd_evolves_not_approved) (use b in \<open>simp add: broadcasting_all_def withdraw_where_def\<close>)
qed

subsection \<open>What the handlers do to the account\<close>

lemma FailWithdraw_no_unfreeze:
  assumes "refs_ok d"
  shows "FailWithdrawAndUnfreezeTx ch now w rsn d =
    (Inr (), d\<lparr>withdraws := upd_where (withdraw_where ch (w_id w) None)
       (\<lambda>r. r\<lparr>wr_status := WithdrawStatusFailed, wr_reject_reason := Some rsn, wr_updated := now\<rparr>) (withdraws d)\<rparr>)"
  using assms by (simp add: FailWithdrawAndUnfreezeTx_def hasLedgerEntryTx_withdraw bindT_apply)

lemma confirm_tx_okE:
  assumes "ledger_inv d" "run_tx (confirm_tx ch now w) d = (Inr u, d')"
  obtains v d1 where "debitWithdrawTx ch now (w_user w) (w_token w) (w_amount w) (w_id w) d = (Inr v, d1)"
    "d' = d1\<lparr>withdraws := upd_where (withdraw_where ch (w_id w) None)
       (\<lambda>r. r\<lparr>wr_status := WithdrawStatusConfirmed, wr_updated := now\<rparr>) (withdraws d1)\<rparr>"
proof -
  have "\<not> hasLedgerEntryTx ch (w_id w) LedgerWithdrawDebit d"
    using assms(1) by (simp add: hasLedgerEntryTx_withdraw ledger_inv_def)
  with assms(2) that show thesis
    by (auto simp: run_tx_def confirm_tx_def bindT_apply split: prod.splits sum.splits)
qed

lemma find_wd_hash_confirmed:
  assumes "GetWithdrawByTxHash ch h d = Inr w" "withdraws d' = upd_where (withdraw_where ch (w_id w) None)
       (\<lambda>r. r\<lparr>wr_status := st, wr_updated := now\<rparr>) (withdraws d)"
  shows "\<exists>w'. GetWithdrawByTxHash ch h d' = Inr w' \<and> w_status w' = st \<and> w_id w' = w_id w"
proof -
  let ?p = "\<lambda>r. wr_chain r = ch \<and> null_eq (wr_tx_hash r) (to_lower h)"
  obtain r where r: "List.find ?p (withdraws d) = Some r" "w = scanWithdrawRow r"
    using assms(1) by (auto simp: GetWithdrawByTxHash_def withdraw_select_def split: option.splits)
  have "withdraw_where ch (w_id w) None r" using find_SomeD [OF r(1)] r(2)
    by (simp add: withdraw_where_def scanWithdrawRow_def)
  moreover have "List.find ?p (withdraws d') = map_option (\<lambda>r. if withdraw_where ch (w_id w) None r
      then r\<lparr>wr_status := st, wr_updated := now\<rparr> else r) (List.find ?p (withdraws d))"
    unfolding assms(2) by (rule find_upd_where) simp
  ultimately show ?thesis using r by (simp add: GetWithdrawByTxHash_def withdraw_select_def scanWithdrawRow_def)
qed

lemma reject_status:
  assumes "withdraws_inv d" "GetWithdraw ch i d = Inr w" "w_status w = WithdrawStatusPendingReview"
    "reject_stmt ch now i rvw rsn d = (Inr n, d1)" "GetWithdraw ch i d1 = Inr w'"
  shows "w_status w' = WithdrawStatusRejected"
proof -
  let ?p = "\<lambda>r. wr_chain r = ch \<and> wr_id r = i"
  obtain r where r: "List.find ?p (withdraws d) = Some r" "w = scanWithdrawRow r"
    using assms(2) by (auto simp: GetWithdraw_def withdraw_select_def split: option.splits)
  have w: "withdraw_where ch i (Some WithdrawStatusPendingReview) r"
    using find_SomeD [OF r(1)] r(2) assms(3) by (simp add: withdraw_where_def scanWithdrawRow_def)
  have "withdraws d1 = upd_where (withdraw_where ch i (Some WithdrawStatusPendingReview)) (reject_set now rvw rsn) (withdraws d)"
    using assms(4) by (auto simp: reject_stmt_def Let_def)
  then have "List.find ?p (withdraws d1) = map_option (\<lambda>r. if withdraw_where ch i (Some WithdrawStatusPendingReview) r
      then reject_set now rvw rsn r else r) (List.find ?p (withdraws d))"
    by (simp add: reject_set_def find_upd_where)
  then show ?thesis using r(1) w assms(5)
    by (auto simp: GetWithdraw_def withdraw_select_def scanWithdrawRow_def reject_set_def)
qed

lemma upd_where_memI: "r \<in> set t \<Longrightarrow> p r \<Longrightarrow> f r \<in> set (upd_where p f t)"
  by (force simp: upd_where_def)

subsection \<open>The choice of the paying wallet\<close>

lemma first_of_type_acc:
  "foldl (\<lambda>acc cw. if cus_type cw = ty \<and> acc = [] then cus_address cw else acc) acc ws =
     (if acc \<noteq> [] then acc else case List.find (\<lambda>cw. cus_type cw = ty \<and> cus_address cw \<noteq> []) ws of
        None \<Rightarrow> [] | Some cw \<Rightarrow> cus_address cw)"
  by (induction ws arbitrary: acc) auto

lemma first_of_type_find:
  "first_of_type ty ws = (case List.find (\<lambda>cw. cus_type cw = ty \<and> cus_address cw \<noteq> []) ws of
     None \<Rightarrow> [] | Some cw \<Rightarrow> cus_address cw)"
  by (simp add: first_of_type_def first_of_type_acc)

lemma first_of_type_mem:
  "first_of_type ty ws \<noteq> [] \<Longrightarrow> \<exists>cw\<in>set ws. cus_type cw = ty \<and> cus_address cw = first_of_type ty ws"
  by (auto simp: first_of_type_find split: option.splits dest!: find_SomeD)

lemma first_of_type_ex:
  "\<exists>cw\<in>set ws. cus_type cw = ty \<and> cus_address cw \<noteq> [] \<Longrightarrow> first_of_type ty ws \<noteq> []"
  by (auto simp: first_of_type_find find_None_iff_none split: option.splits dest: find_SomeD)

end
