(* ===== verification/Exchange_System.thy ===== *)
theory Exchange_System
  imports Exchange_Withdraw
begin

text \<open>
  The exchange as one system: every handler of \<open>internal/exchange\<close> that changes state is a
  step, in any order and with any arguments, and the invariants of the ledger, of the
  deposit credits and of the withdraw table hold in every reachable state.
\<close>

subsection \<open>The books\<close>

text \<open>The ledger invariant together with the bound on the credits of a deposit.\<close>

definition books :: "db \<Rightarrow> bool" where
  "books d \<longleftrightarrow> ledger_inv d \<and> credits_once d"

lemma books_cong: "accounts d' = accounts d \<Longrightarrow> entries d' = entries d \<Longrightarrow> books d' = books d"
  by (simp add: books_def ledger_inv_cong [of d' d] credits_once_cong [of d' d])

lemma books_simps [simp]:
  "books (d\<lparr>ctrs := c\<rparr>) = books d" "books (d\<lparr>withdraws := w\<rparr>) = books d"
  "books (snd (insert_withdraw_stmt ch now p st d)) = books d"
  by (rule books_cong; simp add: insert_withdraw_stmt_def Let_def)+

lemma books_run_tx: "books d \<Longrightarrow> books (snd (m d)) \<Longrightarrow> books (snd (run_tx m d))"
  by (rule run_tx_snd) simp_all

context posting
begin

lemma post_books:
  assumes "books d" "type_ref ty \<noteq> ''deposit''"
  shows "books (snd (post ch now u t a i d))"
proof -
  have ok: "accounts_ok d" using assms(1) by (simp add: books_def)
  have "credits_once (snd (post ch now u t a i d))"
    using assms by (simp add: post_cases [OF ok] books_def credits_once_def dep_count_posted split: sum.split)
  moreover have "ledger_inv (snd (post ch now u t a i d))"
    using assms(1) post_inv [of d ch now u t a i] by (metis books_def prod.collapse)
  ultimately show ?thesis by (simp add: books_def)
qed

end

lemma withdraw_posts_books:
  "books d \<Longrightarrow> books (snd (freezeWithdrawTx ch now u t a i d))"
  "books d \<Longrightarrow> books (snd (unfreezeWithdrawTx ch now u t a i d))"
  "books d \<Longrightarrow> books (snd (debitWithdrawTx ch now u t a i d))"
  by (simp_all add: freeze.post_books unfreeze.post_books debit.post_books)

subsection \<open>Invariants of the withdraw handlers\<close>

text \<open>
  An invariant of the database that the statements of the withdraw handlers keep is kept by
  the handlers. The books are one; other packages have theirs in the same database.
\<close>

locale withdraw_client =
  fixes P :: "db \<Rightarrow> bool"
  assumes P_rollback: "P d \<Longrightarrow> P d' \<Longrightarrow> P (rollback d d')"
    and P_withdraws: "P (d\<lparr>withdraws := w\<rparr>) = P d"
    and P_insert: "P (snd (insert_withdraw_stmt ch now p st d)) = P d"
    and P_freeze: "P d \<Longrightarrow> P (snd (freezeWithdrawTx ch now u t a i d))"
    and P_unfreeze: "P d \<Longrightarrow> P (snd (unfreezeWithdrawTx ch now u t a i d))"
    and P_debit: "P d \<Longrightarrow> P (snd (debitWithdrawTx ch now u t a i d))"
    and P_sendNative: "P (sys_db (snd (SendNative ts now k to v m s))) = P (sys_db s)"
    and P_sendERC20: "P (sys_db (snd (SendERC20 ts now k token to v m s))) = P (sys_db s)"
begin

lemma P_run_tx: "P d \<Longrightarrow> P (snd (m d)) \<Longrightarrow> P (snd (run_tx m d))"
  by (auto simp: run_tx_def P_rollback split: prod.splits sum.splits)

lemma insertWithdrawTx_keeps: "P d \<Longrightarrow> P (snd (insertWithdrawTx ch now d0 p st d))"
proof -
  assume b: "P d"
  obtain r1 d1 where i: "insert_withdraw_stmt ch now p st d = (r1, d1)" by fastforce
  then have "P d1" using P_insert [of ch now p st d] b by simp
  with i show ?thesis
    by (cases r1) (auto simp: insertWithdrawTx_def GetWithdrawByIdempotencyTx_def intro!: bindT_snd [where P = P])
qed

lemma FailWithdraw_keeps: "P d \<Longrightarrow> P (snd (FailWithdrawAndUnfreezeTx ch now w reason d))"
  by (auto simp: FailWithdrawAndUnfreezeTx_def P_unfreeze P_withdraws intro!: bindT_snd [where P = P])

lemma confirm_tx_keeps: "P d \<Longrightarrow> P (snd (confirm_tx ch now w d))"
  by (auto simp: confirm_tx_def P_debit P_withdraws intro!: bindT_snd [where P = P])

lemma CreateWithdraw_keeps:
  assumes "P d" shows "P (snd (CreateWithdraw sv now p d))"
  using assms unfolding CreateWithdraw_def Let_def
  by (auto split: sum.splits prod.splits simp: insertWithdrawTx_keeps P_freeze
      intro!: bindT_snd [where P = P] P_run_tx)

lemma ApproveWithdraw_keeps: "P d \<Longrightarrow> P (snd (ApproveWithdraw sv now i rvw d))"
  by (auto simp: ApproveWithdraw_def UpdateWithdrawStatusIf_def updateWithdrawStatusIf_def P_withdraws
      intro!: bindT_snd [where P = P])

lemma RejectWithdraw_keeps: "P d \<Longrightarrow> P (snd (RejectWithdraw sv now i rvw rsn d))"
  by (auto simp: RejectWithdraw_def Let_def reject_stmt_def P_unfreeze P_withdraws
      intro!: bindT_snd [where P = P] P_run_tx)

lemma OnWithdrawTxConfirmed_keeps: "P d \<Longrightarrow> P (snd (OnWithdrawTxConfirmed sv now h d))"
  by (auto simp: OnWithdrawTxConfirmed_eq confirm_tx_keeps intro!: P_run_tx split: sum.split)

lemma OnWithdrawTxFailed_keeps: "P d \<Longrightarrow> P (snd (OnWithdrawTxFailed sv now h d))"
  by (auto simp: OnWithdrawTxFailed_def Let_def FailWithdraw_keeps
      intro!: bindT_snd [where P = P] P_run_tx split: sum.splits)

lemma failBroadcast_keeps: "P d \<Longrightarrow> P (snd (failBroadcast sv now w rsn d))"
  by (auto simp: failBroadcast_def FailWithdraw_keeps intro!: P_run_tx)

lemma broadcastWithdraw_keeps:
  assumes "P (sys_db s)"
  shows "P (sys_db (snd (broadcastWithdraw sv sg ts now w s)))"
proof -
  define fail where "fail = onError (\<lambda>e. dbT (failBroadcast sv now w (err_text e)))"
  define send where "send key = (if w_token w = []
      then SendNative ts now key (HexToAddress (bk_geth (ts_backend ts)) (w_to w)) (w_amount w) (withdraw_meta w)
      else SendERC20 ts now key (HexToAddress (bk_geth (ts_backend ts)) (w_token w))
        (HexToAddress (bk_geth (ts_backend ts)) (w_to w)) (w_amount w) (withdraw_meta w))" for key
  have fail: "P (sys_db (snd (fail e s1)))" if "P (sys_db s1)" for e s1
    using failBroadcast_keeps [OF that] that by (simp add: fail_def onError_def split: go_error.split)
  have after: "P (sys_db (snd (case send key s of
      (Inl e, s1) \<Rightarrow> fail e s1
    | (Inr row, s1) \<Rightarrow> dbT (UpdateWithdrawStatus (xs_store sv) now (w_id w) WithdrawStatusBroadcasting
        [SetFromWallet (to_lower fw), SetTxHash (to_lower (row_hash row))]) s1)))" for key fw
  proof (cases "send key s")
    case (Pair r s1)
    then have "P (sys_db s1)" using P_sendNative P_sendERC20 assms by (metis send_def snd_conv)
    then show ?thesis using Pair fail by (cases r) (simp_all add: UpdateWithdrawStatus_eq P_withdraws)
  qed
  show ?thesis using fail [OF assms] after
    unfolding broadcastWithdraw_def Let_def fail_def [symmetric] send_def [symmetric]
    by (auto simp: bindT_apply getS_def split: sum.splits)
qed

lemma ProcessApprovedWithdraw_keeps:
  assumes "P (sys_db s)"
  shows "P (sys_db (snd (ProcessApprovedWithdraw sv now w0 s)))"
proof -
  have "P (sys_db (claimed_sys ch now i s))" for ch i using assms by (simp add: claimed_sys_def P_withdraws)
  then show ?thesis
    by (cases rule: ProcessApprovedWithdraw_cases [of sv now w0 s])
      (simp_all add: assms broadcastWithdraw_keeps)
qed

end

lemma Send_books:
  "books (sys_db (snd (SendNative ts now k to v m s))) = books (sys_db s)"
  "books (sys_db (snd (SendERC20 ts now k token to v m s))) = books (sys_db s)"
  using Send_ex(1) [of ts now k to v m s] Send_ex(2) [of ts now k token to v m s]
  by (auto simp: ex_tables_def intro!: books_cong)

interpretation bk: withdraw_client books
  by unfold_locales (simp_all add: withdraw_posts_books Send_books rollback_def)

subsection \<open>Deposits leave the withdraw table alone\<close>

definition same_wd :: "db \<Rightarrow> db \<Rightarrow> bool" where
  "same_wd d d' \<longleftrightarrow> withdraws d' = withdraws d \<and> ai_withdraws (ctrs d') = ai_withdraws (ctrs d)"

lemma same_wd_refl [simp]: "same_wd d d"
  by (simp add: same_wd_def)

lemma same_wd_trans: "same_wd d d1 \<Longrightarrow> same_wd d1 d2 \<Longrightarrow> same_wd d d2"
  by (simp add: same_wd_def)

lemma same_wd_inv: "same_wd d d' \<Longrightarrow> withdraws_inv d \<Longrightarrow> withdraws_inv d'"
  by (rule withdraws_inv_cong [of d' d]) (simp_all add: same_wd_def)

lemma same_wd_rollback: "same_wd d d' \<Longrightarrow> same_wd d (rollback d d')"
  by (simp add: same_wd_def rollback_def)

lemma same_wd_run_tx: "same_wd d (snd (m d)) \<Longrightarrow> same_wd d (snd (run_tx m d))"
  by (auto simp: run_tx_def same_wd_rollback split: prod.splits sum.splits)

lemma same_wd_wh:
  assumes "same_but_wh d d'" shows "same_wd d d'"
  using same_but_wh_frame(4) [OF assms] arg_cong [OF assms [unfolded same_but_wh_def], where f = "\<lambda>d. ai_withdraws (ctrs d)"]
  by (simp add: same_wd_def)

lemma same_wd_bind:
  "(\<And>d. same_wd d (snd (m d))) \<Longrightarrow> (\<And>x d. same_wd d (snd (k x d))) \<Longrightarrow> same_wd d (snd (bindT m k d))"
  by (auto simp: bindT_apply split: sum.split prod.split intro: same_wd_trans) (metis same_wd_trans snd_conv)+

lemma deposit_stmts_wd [simp]:
  "same_wd d (snd (InsertDepositTx ch now p d))"
  "same_wd d (snd (MarkDepositCreditedTx ch now i d))"
  "same_wd d (snd (resetDepositForRecreditTx ch i b d))"
  "same_wd d (snd (OrphanDepositsFromBlockTx ch b d))"
  "same_wd d (snd (GetDepositByKeyTx ch h j d))"
  "same_wd d (snd (creditDepositTx ch now u t a i d))"
  "same_wd d (snd (reverseDepositTx ch now u t a i d))"
  by (simp_all add: same_wd_def InsertDepositTx_eq MarkDepositCreditedTx_def resetDepositForRecreditTx_def
      OrphanDepositsFromBlockTx_def GetDepositByKeyTx_def bindT_apply credit.post_frame_any credit.post_ctr
      reverse.post_frame_any reverse.post_ctr split: option.splits)

context deposit_capture
begin

lemma captureAndCredit_books: "books d \<Longrightarrow> books (snd (captureAndCredit dp now p d))"
  by (simp add: books_def captureAndCredit_inv captureAndCredit_once)

lemma credit_once_wd: "same_wd d (snd (credit_once dp now p i d))"
proof -
  have "same_wd d0 (snd (n dep d0))" if "dpr_webhook dp = Some n" for n dep d0
    using webhook_frame [OF that] by (rule same_wd_wh)
  then show ?thesis
    unfolding credit_once_def Let_def by (auto intro!: same_wd_bind split: option.splits)
qed

lemma captureAndCredit_wd: "same_wd d (snd (captureAndCredit dp now p d))"
  unfolding captureAndCredit_def Let_def
  by (auto intro!: same_wd_bind credit_once_wd split: deposit_status.splits)

end

lemma HandleReorgTx_wd: "same_wd d (snd (HandleReorgTx dp now b d))"
proof -
  have "same_wd x (snd (reverse_one ch now dep x))" for ch dep x
    by (auto simp: reverse_one_eq)
  then show ?thesis
    unfolding HandleReorgTx_def
    by (auto intro!: bindT_snd [where P = "same_wd d"] forT_snd [where P = "same_wd d"] intro: same_wd_trans
        split: option.splits)
qed

subsection \<open>Steps\<close>

text \<open>One step is one call of a handler; the ones that the indexer calls inside its own
  transaction are run in one.\<close>

inductive ex_step :: "ex_service \<Rightarrow> deposit_processor option \<Rightarrow> sys \<Rightarrow> sys \<Rightarrow> bool" for sv dp where
  capture_native: "ex_step sv dp s (snd (dbT (run_tx (CaptureNativeTx dp now b h fr to v success)) s))"
| capture_erc20: "ex_step sv dp s (snd (dbT (run_tx (CaptureERC20Transfer dp now b h li ct fr to v)) s))"
| reorg: "ex_step sv dp s (snd (dbT (HandleReorg dp now b) s))"
| create: "ex_step sv dp s (snd (dbT (CreateWithdraw sv now p) s))"
| approve: "ex_step sv dp s (snd (dbT (ApproveWithdraw sv now i rvw) s))"
| reject: "ex_step sv dp s (snd (dbT (RejectWithdraw sv now i rvw rsn) s))"
| process: "ex_step sv dp s (snd (ProcessApprovedWithdraw sv now w s))"
| confirmed: "ex_step sv dp s (snd (dbT (OnWithdrawTxConfirmed sv now h) s))"
| failed: "ex_step sv dp s (snd (dbT (OnWithdrawTxFailed sv now h) s))"

inductive_cases ex_stepE: "ex_step sv dp s s'"

text \<open>With what captures and reorganisations keep besides, every step keeps the invariant.\<close>

locale exchange_client = withdraw_client +
  fixes dp :: "deposit_processor option"
  assumes P_capture: "dp = Some q \<Longrightarrow> P d \<Longrightarrow> P (snd (captureAndCredit q now p d))"
    and P_reorg: "P d \<Longrightarrow> P (snd (HandleReorgTx dp now b d))"
begin

lemma Capture_keeps:
  assumes "P d"
  shows "P (snd (CaptureNativeTx dp now b h fr to v ok d))" "P (snd (CaptureERC20Transfer dp now b h li ct fr to v d))"
  using assms
  by (auto simp: CaptureNativeTx_def CaptureERC20Transfer_def P_capture split: option.split sum.split)

lemma HandleReorg_keeps: "P d \<Longrightarrow> P (snd (HandleReorg dp now b d))"
  by (auto simp: HandleReorg_def P_reorg intro!: P_run_tx)

lemma ex_step_keeps:
  assumes "ex_step sv dp s s'" "P (sys_db s)"
  shows "P (sys_db s')"
  using assms
  by (cases rule: ex_step.cases)
    (simp_all add: P_run_tx Capture_keeps HandleReorg_keeps CreateWithdraw_keeps ApproveWithdraw_keeps
      RejectWithdraw_keeps OnWithdrawTxConfirmed_keeps OnWithdrawTxFailed_keeps ProcessApprovedWithdraw_keeps)

end

definition exchange_inv :: "db \<Rightarrow> bool" where
  "exchange_inv d \<longleftrightarrow> books d \<and> withdraws_inv d"

definition capture_ok :: "deposit_processor option \<Rightarrow> bool" where
  "capture_ok dp \<longleftrightarrow> (\<forall>q. dp = Some q \<longrightarrow> deposit_capture q)"

lemma capture_ok_new: "capture_ok (Some (NewDepositProcessor cfg store reg))"
  by (simp add: capture_ok_def plain_capture.deposit_capture_axioms)

lemma books_client: "capture_ok dp \<Longrightarrow> exchange_client books dp"
  by unfold_locales
    (auto simp: capture_ok_def deposit_capture.captureAndCredit_books,
     simp add: books_def HandleReorgTx_inv HandleReorgTx_once)

interpretation bk: exchange_client books "Some (NewDepositProcessor cfg store reg)" for cfg store reg
  by (rule books_client [OF capture_ok_new])

lemma Capture_wd:
  assumes "capture_ok dp"
  shows "same_wd d (snd (CaptureNativeTx dp now b h fr to v ok d))"
    "same_wd d (snd (CaptureERC20Transfer dp now b h li ct fr to v d))"
proof -
  have q: "deposit_capture q" if "dp = Some q" for q using assms that by (simp add: capture_ok_def)
  note facts = deposit_capture.captureAndCredit_wd [OF q]
  show "same_wd d (snd (CaptureNativeTx dp now b h fr to v ok d))"
    by (auto simp: CaptureNativeTx_def facts split: option.split sum.split)
  show "same_wd d (snd (CaptureERC20Transfer dp now b h li ct fr to v d))"
    by (auto simp: CaptureERC20Transfer_def facts split: option.split sum.split)
qed

lemma HandleReorg_wd: "same_wd d (snd (HandleReorg dp now b d))"
  by (auto simp: HandleReorg_def HandleReorgTx_wd intro!: same_wd_run_tx)

lemma ex_step_winv:
  assumes "ex_step sv dp s s'" "capture_ok dp" "withdraws_inv (sys_db s)"
  shows "withdraws_inv (sys_db s')"
proof -
  note wd = same_wd_inv [OF same_wd_run_tx [OF Capture_wd(1) [OF assms(2)]]]
    same_wd_inv [OF same_wd_run_tx [OF Capture_wd(2) [OF assms(2)]]] same_wd_inv [OF HandleReorg_wd]
  show ?thesis
    using assms(1,3)
    by (cases rule: ex_step.cases)
      (simp_all add: wd CreateWithdraw_winv ApproveWithdraw_winv RejectWithdraw_winv ProcessApprovedWithdraw_winv
        OnWithdrawTxConfirmed_winv OnWithdrawTxFailed_winv)
qed

lemma ex_reachable_inv:
  assumes "(ex_step sv dp)\<^sup>*\<^sup>* s s'" "capture_ok dp" "exchange_inv (sys_db s)"
  shows "exchange_inv (sys_db s')"
  using assms(1,3)
  by (induction rule: rtranclp_induct) (auto simp: exchange_inv_def ex_step_winv assms(2) exchange_client.ex_step_keeps [OF books_client [OF assms(2)]])

subsection \<open>The life cycle over runs\<close>

text \<open>Rows are never removed; a row of the later table is one that evolved from the earlier
  one, or a later row of the table.\<close>

definition wd_extends :: "withdraw_row list \<Rightarrow> withdraw_row list \<Rightarrow> bool" where
  "wd_extends t t' \<longleftrightarrow> (\<exists>t1 xs. t' = t1 @ xs \<and> wd_evolves t t1)"

lemma wd_extends_evolves: "wd_evolves t t' \<Longrightarrow> wd_extends t t'"
  unfolding wd_extends_def by (rule exI [of _ t'], rule exI [of _ "[]"]) simp

lemma wd_extends_append: "wd_extends t (t @ xs)"
  unfolding wd_extends_def by auto

lemma wd_extends_trans: "wd_extends a b \<Longrightarrow> wd_extends b c \<Longrightarrow> wd_extends a c"
proof -
  assume "wd_extends a b" "wd_extends b c"
  then obtain b1 xs c1 ys where *: "b = b1 @ xs" "wd_evolves a b1" "c = c1 @ ys" "wd_evolves b c1"
    unfolding wd_extends_def by blast
  have "list_all2 wrow_evolves (b1 @ xs) c1" using *(1,4) by (simp add: wd_evolves_def)
  then obtain u v where "c1 = u @ v" "wd_evolves b1 u" by (auto simp: list_all2_append1 wd_evolves_def)
  then show "wd_extends a c" using * wd_evolves_trans [of a b1 u] by (auto simp: wd_extends_def)
qed

definition wd_grown :: "withdraw_row list \<Rightarrow> db \<Rightarrow> bool" where
  "wd_grown t d \<longleftrightarrow> wd_extends t (withdraws d)"

lemma wd_grown_simps [simp]:
  "wd_grown (withdraws d) d" "wd_grown t (d\<lparr>ctrs := c\<rparr>) = wd_grown t d"
  "wd_grown t (snd (freezeWithdrawTx ch now u tk a i d)) = wd_grown t d"
  by (simp_all add: wd_grown_def wd_extends_evolves freeze.post_frame_any)

lemma insert_withdraw_stmt_grown: "wd_grown (withdraws d) (snd (insert_withdraw_stmt ch now p st d))"
  by (simp add: wd_grown_def wd_extends_evolves wd_extends_append insert_withdraw_stmt_def Let_def)

lemma insertWithdrawTx_grown: "wd_grown (withdraws d) (snd (insertWithdrawTx ch now d0 p st d))"
proof -
  obtain r d1 where i: "insert_withdraw_stmt ch now p st d = (r, d1)" by fastforce
  with insert_withdraw_stmt_grown [of d ch now p st] show ?thesis
    by (cases r) (auto simp: insertWithdrawTx_def GetWithdrawByIdempotencyTx_def bindT_apply split: sum.split)
qed

lemma CreateWithdraw_grown: "wd_grown (withdraws d) (snd (CreateWithdraw sv now p d))"
  unfolding CreateWithdraw_def Let_def
  by (auto simp: insertWithdrawTx_grown split: sum.splits prod.splits
      intro!: bindT_snd [where P = "wd_grown (withdraws d)"] run_tx_snd [where P = "wd_grown (withdraws d)"])

lemmas CreateWithdraw_extends = CreateWithdraw_grown [unfolded wd_grown_def]

lemma ex_step_extends:
  assumes "ex_step sv dp s s'" "capture_ok dp" "withdraws_inv (sys_db s)"
  shows "wd_extends (withdraws (sys_db s)) (withdraws (sys_db s'))"
  using assms(1)
proof (cases rule: ex_step.cases)
  case (capture_native now b h fr to v success)
  have "same_wd (sys_db s) (snd (run_tx (CaptureNativeTx dp now b h fr to v success) (sys_db s)))"
    by (rule same_wd_run_tx, rule Capture_wd(1) [OF assms(2)])
  then show ?thesis using capture_native by (simp add: same_wd_def wd_extends_evolves)
next
  case (capture_erc20 now b h li ct fr to v)
  have "same_wd (sys_db s) (snd (run_tx (CaptureERC20Transfer dp now b h li ct fr to v) (sys_db s)))"
    by (rule same_wd_run_tx, rule Capture_wd(2) [OF assms(2)])
  then show ?thesis using capture_erc20 by (simp add: same_wd_def wd_extends_evolves)
next
  case (reorg now b)
  then show ?thesis using HandleReorg_wd [of "sys_db s" dp now b] by (simp add: same_wd_def wd_extends_evolves)
qed (use assms(3) in \<open>simp_all add: CreateWithdraw_extends wd_extends_evolves ApproveWithdraw_evolves RejectWithdraw_evolves
    ProcessApprovedWithdraw_evolves OnWithdrawTxConfirmed_evolves OnWithdrawTxFailed_evolves\<close>)

lemma ex_reachable_extends:
  assumes "(ex_step sv dp)\<^sup>*\<^sup>* s s'" "capture_ok dp" "exchange_inv (sys_db s)"
  shows "wd_extends (withdraws (sys_db s)) (withdraws (sys_db s'))"
  using assms(1)
proof (induction rule: rtranclp_induct)
  case base
  show ?case by (simp add: wd_extends_evolves)
next
  case (step y z)
  have "withdraws_inv (sys_db y)" using ex_reachable_inv [OF step(1) assms(2,3)] by (simp add: exchange_inv_def)
  from wd_extends_trans [OF step(3) ex_step_extends [OF step(2) assms(2) this]] show ?case .
qed

subsection \<open>Reconciliation\<close>

text \<open>The custody balance of one wallet: what its balance row says, zero for other wallet
  types and for rows that are missing or do not parse.\<close>

definition custody_of :: "int \<Rightarrow> string \<Rightarrow> db \<Rightarrow> custodial_wallet \<Rightarrow> int" where
  "custody_of balch token d w =
     (if cus_type w = WalletTypeHot \<or> cus_type w = WalletTypeTreasury
      then case Get balch (cus_address w) token d of Inl _ \<Rightarrow> 0 | Inr row \<Rightarrow> wei_val (br_wei row)
      else 0)"

definition custody :: "int \<Rightarrow> string \<Rightarrow> db \<Rightarrow> custodial_wallet list \<Rightarrow> int" where
  "custody balch token d ws = sum_list (map (custody_of balch token d) ws)"

lemma reconcile_step_fst:
  "fst (reconcile_step balch token d (c, ds) w) = c + custody_of balch token d w"
  by (simp add: reconcile_step_def custody_of_def weiAdd_def wei_val_def split: sum.split)

lemma reconcile_fold_fst:
  "fst (foldl (reconcile_step balch token d) acc ws) = fst acc + custody balch token d ws"
  by (induction ws arbitrary: acc) (auto simp: custody_def reconcile_step_fst)

lemma parseWei_int_str [simp]: "0 \<le> i \<Longrightarrow> parseWei (int_str i) = Inr i"
  using parseWei_weiString [of i] by (simp add: weiString_def)

lemma reconcileToken_eq:
  assumes "\<forall>r\<in>set (accounts d). wei_val (la_avail r) < 10 ^ 65 \<and> wei_val (la_frozen r) < 10 ^ 65"
  obtains rep where "reconcileToken ch balch now token ws d = Inr rep" "rep_token rep = normToken token"
    "rep_ok rep \<longleftrightarrow> custody balch token d ws = liabilities ch (normToken token) d"
    "rep_diff rep = int_str (custody balch token d ws - liabilities ch (normToken token) d)"
proof -
  have "fst (foldl (reconcile_step balch token d) (weiZero, []) ws) = custody balch token d ws"
    by (simp add: reconcile_fold_fst weiZero_def)
  then obtain ds where "foldl (reconcile_step balch token d) (weiZero, []) ws = (custody balch token d ws, ds)"
    by (metis prod.collapse)
  then show thesis using that
    by (simp add: reconcileToken_def SumUserLiabilities_eq [OF assms] liabilities_nonneg Let_def)
qed

end
