(* ===== verification/Tx_System.thy ===== *)
theory Tx_System
  imports Exchange_System
begin

text \<open>
  The transaction service together with its clients: every operation that hands a
  transaction to the node, in any order, keeps the write-ahead invariant \<open>sent_ok\<close>.
\<close>

text \<open>The second component is not state of the program: it collects the transactions that a
  submission under the key of an unfinished row sent without a row of their own.\<close>

inductive svc_step ::
  "ex_service \<Rightarrow> tx_service \<Rightarrow> sys \<times> signed_tx set \<Rightarrow> sys \<times> signed_tx set \<Rightarrow> bool" for xs sv where
  native: "svc_step xs sv (s, R) (snd (SendNative sv now key to v m s), R)"
| erc20: "svc_step xs sv (s, R) (snd (SendERC20 sv now key token to v m s), R)"
| speed_up: "svc_step xs sv (s, R) (snd (SpeedUp sv now key h s), R)"
| submit_raw: "svc_step xs sv (s, R) (snd (SubmitRaw sv now req s), R \<union> resubmitted sv req (sys_db s))"
| reconcile: "svc_step xs sv (s, R) (snd (reconcileRunOnce cfg sv now s), R)"
| withdraw: "xs_txsvc xs = Some sv \<Longrightarrow> svc_step xs sv (s, R) (snd (ProcessApprovedWithdraw xs now w s), R)"
| confirmed: "svc_step xs sv (s, R) (snd (dbT (OnWithdrawTxConfirmed xs now h) s), R)"
| failed: "svc_step xs sv (s, R) (snd (dbT (OnWithdrawTxFailed xs now h) s), R)"

inductive_cases svc_stepE: "svc_step xs sv (s, R) (s', R')"

lemma sent_ok_trackers:
  assumes "trackers (sys_db s') = trackers (sys_db s)" "sys_sent s' = sys_sent s"
  shows "sent_ok R sv s' = sent_ok R sv s"
  using assms by (intro sent_ok_cong) simp_all

lemma failBroadcast_trackers: "trackers (snd (failBroadcast sv now w rsn d)) = trackers d"
  unfolding failBroadcast_def by (rule run_tx_snd) (simp_all add: FailWithdraw_trackers)

lemma broadcastWithdraw_sent_ok:
  assumes "sent_ok R ts s" "rlp_ok (bk_geth (ts_backend ts))"
  shows "sent_ok R ts (snd (broadcastWithdraw sv sg ts now w s))"
proof -
  define fail where "fail = onError (\<lambda>e. dbT (failBroadcast sv now w (err_text e)))"
  define send where "send key = (if w_token w = []
      then SendNative ts now key (HexToAddress (bk_geth (ts_backend ts)) (w_to w)) (w_amount w) (withdraw_meta w)
      else SendERC20 ts now key (HexToAddress (bk_geth (ts_backend ts)) (w_token w))
        (HexToAddress (bk_geth (ts_backend ts)) (w_to w)) (w_amount w) (withdraw_meta w))" for key
  have fail: "sent_ok R ts (snd (fail e s1)) = sent_ok R ts s1" for e s1
    by (rule sent_ok_trackers) (simp_all add: fail_def onError_def failBroadcast_trackers split: go_error.split)
  have upd: "sent_ok R ts (snd (dbT (UpdateWithdrawStatus ch now i st flds) s1)) = sent_ok R ts s1" for ch i st flds s1
    by (rule sent_ok_trackers) (simp_all add: UpdateWithdrawStatus_eq)
  have after: "sent_ok R ts (snd (case send key s of
      (Inl e, s1) \<Rightarrow> fail e s1
    | (Inr row, s1) \<Rightarrow> dbT (UpdateWithdrawStatus (xs_store sv) now (w_id w) WithdrawStatusBroadcasting
        [SetFromWallet (to_lower fw), SetTxHash (to_lower (row_hash row))]) s1))" for key fw
  proof (cases "send key s")
    case (Pair r s1)
    have "sent_ok R ts (snd (send key s))"
      using SendNative_sent_ok [OF assms] SendERC20_sent_ok [OF assms] by (simp add: send_def)
    then show ?thesis using Pair by (cases r) (simp_all add: fail upd del: dbT_apply)
  qed
  show ?thesis using after assms(1)
    unfolding broadcastWithdraw_def Let_def fail_def [symmetric] send_def [symmetric]
    by (auto simp: bindT_apply getS_def fail simp del: dbT_apply split: sum.splits)
qed

lemma ProcessApprovedWithdraw_sent_ok:
  assumes "sent_ok R ts s" "rlp_ok (bk_geth (ts_backend ts))" "xs_txsvc sv = Some ts"
  shows "sent_ok R ts (snd (ProcessApprovedWithdraw sv now w0 s))"
proof -
  have c: "sent_ok R ts (claimed_sys ch now i s) = sent_ok R ts s" for ch i
    by (rule sent_ok_trackers) (simp_all add: claimed_sys_def)
  show ?thesis
    by (cases rule: ProcessApprovedWithdraw_cases [of sv now w0 s])
      (use assms c in \<open>simp_all add: broadcastWithdraw_sent_ok\<close>)
qed

lemma handlers_sent_ok:
  assumes "sent_ok R sv s"
  shows "sent_ok R sv (snd (dbT (OnWithdrawTxConfirmed xs now h) s))"
    "sent_ok R sv (snd (dbT (OnWithdrawTxFailed xs now h) s))"
proof -
  have "sent_ok R sv (snd (dbT (OnWithdrawTxConfirmed xs now h) s)) = sent_ok R sv s"
    "sent_ok R sv (snd (dbT (OnWithdrawTxFailed xs now h) s)) = sent_ok R sv s"
    by (rule sent_ok_trackers; simp add: handler_trackers)+
  then show "sent_ok R sv (snd (dbT (OnWithdrawTxConfirmed xs now h) s))"
    "sent_ok R sv (snd (dbT (OnWithdrawTxFailed xs now h) s))"
    using assms by (simp_all del: dbT_apply)
qed

lemmas svc_sent_ok = SendNative_sent_ok SendERC20_sent_ok SpeedUp_sent_ok SubmitRaw_sent_ok
  reconcileRunOnce_sent_ok ProcessApprovedWithdraw_sent_ok handlers_sent_ok handlers_sent_ok [simplified]

lemma svc_step_sent_ok:
  assumes "svc_step xs sv (s, R) (s', R')" "rlp_ok (bk_geth (ts_backend sv))" "sent_ok R sv s"
  shows "sent_ok R' sv s'"
  using assms(1) by (rule svc_stepE) (simp_all only: svc_sent_ok assms(2,3))

lemma svc_steps_sent_ok:
  assumes "(svc_step xs sv)\<^sup>*\<^sup>* (s, R) (s', R')" "rlp_ok (bk_geth (ts_backend sv))" "sent_ok R sv s"
  shows "sent_ok R' sv s'"
  using assms(1,3)
proof (induction "(s', R')" arbitrary: s' R' rule: rtranclp_induct)
  case base
  then show ?case by simp
next
  case (step y)
  then show ?case by (cases y) (auto intro: svc_step_sent_ok assms(2))
qed

end
