(* ===== verification/Samples.thy ===== *)
theory Samples
  imports Tx_System
begin

text \<open>
  Concrete configurations, libraries and databases. The theorems of the development are
  applied to them, so that each of their hypotheses is seen to hold somewhere.
\<close>

subsection \<open>Configuration\<close>

definition cfg0 :: config where
  "cfg0 =
     \<lparr>Server = \<lparr>GinMode = ''release'', HTTPAddr = [], GRPCAddr = [], PublicBaseURL = []\<rparr>,
      JWT = \<lparr>JwtSecret = ''s'', ExpireHours = 24\<rparr>,
      Users = [],
      Eth = \<lparr>EthChainID = 1, HTTPRPC = ''http://n'', WSRPC = [], ERC20Contract = ''0xT'', DevSendEnabled = False\<rparr>,
      Listener = \<lparr>WorkerCount = 0, ChannelBuffer = 0, ReconnectBaseMS = 0\<rparr>,
      UploadDir = [],
      MySQL = \<lparr>MySQLEnabled = True, AdminDSN = [], DSN = ''d'', MaxOpen = 0, MaxIdle = 0\<rparr>,
      Redis = \<lparr>RedisEnabled = False, RedisAddr = [], RedisPassword = [], RedisDB = 0\<rparr>,
      Indexer = \<lparr>IndexerEnabled = True, IxConfirmDepth = 2, IxBatchSize = 20, IxOutboxWorkers = 2,
        IxMaxRetries = 5, GapScanIntervalSec = 15, HashVerifyWindow = 64, WatchContracts = []\<rparr>,
      TxTracker = \<lparr>TxTrackerEnabled = True, PollIntervalSec = 3, TxConfirmDepth = 2, TxBatchSize = 50,
        MaxPendingHours = 24, UseEIP1559 = False, SpeedUpGasBumpPercent = 20, RequireIdempotencyKey = False,
        TxReconcileIntervalSec = 10, ReconcileGraceSec = 5, BroadcastMaxRetries = 5, TxOutboxWorkers = 1\<rparr>,
      BalanceSync = \<lparr>BalanceSyncEnabled = True, CustodialOnly = True, OnTxConfirmed = True, OnIndexerTx = True,
        StaleSec = 300, BackfillIntervalSec = 300, RegistryReloadSec = 30, WatchTokens = [''0xA'', ''0xa'', '' 0xB '']\<rparr>,
      Exchange = \<lparr>ExchangeEnabled = True, DepositEnabled = True, ExConfirmDepth = 2, AutoApproveWithdraw = False,
        HotWithdrawMaxWei = ''100'', ExReconcileIntervalSec = 300,
        ExSigner = \<lparr>SignerType = ''dev'', DevPrivateKey = ''0xk''\<rparr>\<rparr>,
      Webhook = \<lparr>WebhookEnabled = True, WhWorkers = 1, WhBatchSize = 10, WhMaxRetries = 3, HTTPTimeoutMS = 1000,
        MaxConnsPerHost = 2, DispatchConcurrency = 2, IdlePollMS = 20, MockReceiveURL = []\<rparr>\<rparr>"

subsection \<open>A library and a node\<close>

text \<open>One account, whose address prints as \<open>0xa1\<close>; a signature carries nothing, so
  signing keeps the transaction and the sender is the one account.\<close>

definition tx0 :: signed_tx where
  "tx0 = \<lparr>stx_data = \<lparr>td_type = LegacyTxType, td_nonce = 7, td_gas_price = 3, td_tip = 3, td_fee_cap = 3,
     td_gas = 21000, td_to = Some 2, td_value = 5, td_data = []\<rparr>, stx_sig = []\<rparr>"

definition geth0 :: geth where
  "geth0 = \<lparr>IsHexAddress = (\<lambda>s. has_prefix s ''0x''), HexToAddress = (\<lambda>s. 2), AddressHex = (\<lambda>a. ''0xA1''),
     HexToHash = (\<lambda>s. 1), HashHex = (\<lambda>h. ''0xH'' @ nat_str (unat h)),
     BytesToAddress = (\<lambda>bs. word_of_int (big_set_bytes bs)),
     PubkeyToAddress = (\<lambda>k. 1), HexToECDSA = Inr,
     SignTx = (\<lambda>t ch k. Inr \<lparr>stx_data = t, stx_sig = []\<rparr>), Sender = (\<lambda>ch s. Inr 1),
     TxHash = (\<lambda>s. ucast (td_nonce (stx_data s))),
     MarshalBinary = (\<lambda>s. if s = tx0 then Inr [1, 0xff] else Inl (GoErr ''rlp'')),
     UnmarshalBinary = (\<lambda>bs. if bs = [1, 0xff] then Inr tx0 else Inl (GoErr ''rlp'')),
     AbiJSON = (\<lambda>j. Inr ()),
     AbiPack = (\<lambda>j m args. case args of
        [AbiAddress to, AbiBig amt] \<Rightarrow>
          Inr ([0xa9, 0x05, 0x9c, 0xbb] @ replicate 12 0 @ be_bytes 20 (uint to) @ be_bytes 32 amt)
      | _ \<Rightarrow> Inl (GoErr ''pack'')),
     AbiUnpack = (\<lambda>j m bs. Inr [AbiBig 0])\<rparr>"

definition node0 :: node where
  "node0 = \<lparr>rpcChainID = Inr 1, rpcBlockNumber = Inr 10, rpcBlockByNumber = (\<lambda>n. Inr None),
     rpcHeaderBaseFee = Inr (Some 1), rpcBalanceAt = (\<lambda>a. Inr 9), rpcNonceAt = (\<lambda>a. Inr 7),
     rpcPendingNonceAt = (\<lambda>a. Inr 7), rpcEstimateGas = (\<lambda>m. Inr 21000), rpcSuggestGasPrice = Inr 3,
     rpcSuggestGasTipCap = Inr 1, rpcSendTransaction = (\<lambda>t. Inr ()), rpcTransactionByHash = (\<lambda>h. Inr True),
     rpcTransactionReceipt = (\<lambda>h. Inl (GoErr ''not found'')), rpcCallContract = (\<lambda>m. Inr [])\<rparr>"

definition backend0 :: backend where
  "backend0 = \<lparr>bk_chain = 1, bk_geth = geth0, bk_node = node0\<rparr>"

definition ts0 :: tx_service where
  "ts0 = \<lparr>ts_backend = backend0, ts_store = 1, ts_use1559 = False, ts_bump = 20\<rparr>"

definition xs0 :: ex_service where
  "xs0 = \<lparr>xs_cfg = cfg0, xs_store = 1, xs_balstore = 1, xs_geth = geth0,
     xs_signer = Some (NewSigner geth0 cfg0), xs_txsvc = Some ts0\<rparr>"

subsection \<open>Databases\<close>

definition reg0 :: registry where
  "reg0 = RegUpsert \<lparr>cus_chain = 1, cus_address = ''0xd1'', cus_user = ''u'', cus_label = [],
     cus_type = WalletTypeDeposit, cus_enabled = True, cus_created = 0, cus_updated = 0\<rparr> NewRegistry"

definition dp0 :: deposit_processor where
  "dp0 = NewDepositProcessor cfg0 1 (Some reg0)"

definition cap0 :: capture_deposit_params where
  "cap0 = \<lparr>cd_user = ''u'', cd_address = ''0xd1'', cd_token = [], cd_amount = ''40'',
     cd_tx_hash = ''0xAA'', cd_log_index = 0, cd_block = 5\<rparr>"

text \<open>After the capture of one deposit.\<close>

definition db1 :: db where
  "db1 = snd (captureAndCredit dp0 100 cap0 empty_db)"

text \<open>Its value, which evaluations start from.\<close>

lemma db1_eval [code]:
  "db1 = empty_db\<lparr>ctrs := init_counters\<lparr>ai_entries := 2, ai_deposits := 2\<rparr>,
     accounts := [\<lparr>la_chain = 1, la_user = ''u'', la_token = [], la_avail = ''40'', la_frozen = ''0'', la_updated = 100\<rparr>],
     entries := [\<lparr>ler_id = 1, ler_chain = 1, ler_user = ''u'', ler_token = [], ler_type = LedgerDepositCredit,
       ler_amount = ''40'', ler_ref_type = Some ''deposit'', ler_ref_id = Some 1, ler_avail_after = ''40'',
       ler_frozen_after = ''0'', ler_created = 100\<rparr>],
     deposits := [\<lparr>dep_id = 1, dep_chain = 1, dep_user = ''u'', dep_address = ''0xd1'', dep_token = [],
       dep_amount = ''40'', dep_tx_hash = ''0xaa'', dep_log_index = 0, dep_block = 5,
       dep_status = DepositStatusCredited, dep_credited_at = Some 100, dep_created = 100\<rparr>]\<rparr>"
  by code_simp

end
