(* ===== verification/Exchange_Properties.thy ===== *)
theory Exchange_Properties
  imports Samples
begin

text \<open>
  The properties of the exchange: the ledger, deposits, withdrawals and the
  reconciliation, each with the concrete case in which its hypotheses hold.
\<close>

subsection \<open>Sample runs\<close>

lemma exchange_inv_empty: "exchange_inv empty_db"
  by (simp add: exchange_inv_def books_def credits_once_def dep_count_def withdraws_inv_iff empty_db_def
      ledger_inv_def accounts_ok_def refs_ok_def books_ok_def acct_avail_def acct_frozen_def select_account_def
      journal_avail_def journal_frozen_def)

lemma deposits_inv_empty: "deposits_inv empty_db"
  by (simp add: deposits_inv_def empty_db_def)

lemma normToken_Nil [simp]: "normToken [] = []"
  by code_simp

lemma fst_eq_Inr: "fst p = Inr x \<Longrightarrow> p = (Inr x, snd p)"
  by (cases p) simp

lemma captured_ok: "fst (captureAndCredit dp0 100 cap0 empty_db) = Inr ()"
  by code_simp

lemma ledger_inv_db1: "ledger_inv db1"
  unfolding db1_def dp0_def by (rule plain_capture.captureAndCredit_inv) (rule ledger_inv_empty)

definition start :: sys where
  "start = \<lparr>sys_db = empty_db, sys_sent = []\<rparr>"

definition after_capture :: sys where
  "after_capture = snd (dbT (run_tx (CaptureNativeTx (Some dp0) 100 5 ''0xAA'' ''0xf'' ''0xd1'' ''40'' True)) start)"

lemma capture_ok_dp0: "capture_ok (Some dp0)"
  unfolding dp0_def by (rule capture_ok_new)

lemma after_capture_reach: "(ex_step xs0 (Some dp0))\<^sup>*\<^sup>* start after_capture"
  unfolding after_capture_def by (rule r_into_rtranclp, rule ex_step.capture_native)

subsection \<open>Invariants of every run\<close>

text \<open>C1: In every state the exchange reaches, by any sequence of handler calls, each account equals the
  sum of its journal on both sides, no side is negative, no deposit was credited twice or reversed
  more often than credited, and withdraw requests have distinct ids, with a transaction hash only after the
  claim.\<close>

theorem exchange_books_balance:
  assumes "(ex_step sv dp)\<^sup>*\<^sup>* s s'" "capture_ok dp" "exchange_inv (sys_db s)"
  shows "acct_avail ch user token (sys_db s') = journal_avail ch user token (sys_db s') \<and>
    acct_frozen ch user token (sys_db s') = journal_frozen ch user token (sys_db s') \<and>
    0 \<le> journal_avail ch user token (sys_db s') \<and> 0 \<le> journal_frozen ch user token (sys_db s') \<and>
    dep_count ch i LedgerDepositReverse (sys_db s') \<le> dep_count ch i LedgerDepositCredit (sys_db s') \<and>
    dep_count ch i LedgerDepositCredit (sys_db s') \<le> 1 \<and> withdraws_inv (sys_db s')"
proof -
  have inv: "exchange_inv (sys_db s')" by (rule ex_reachable_inv [OF assms])
  then have eq: "journal_avail ch user token (sys_db s') = acct_avail ch user token (sys_db s')"
    "journal_frozen ch user token (sys_db s') = acct_frozen ch user token (sys_db s')"
    by (simp_all add: exchange_inv_def books_def ledger_inv_def books_ok_def)
  show ?thesis
    unfolding eq using inv
    by (simp add: acct_avail_def acct_frozen_def exchange_inv_def books_def credits_once_def)
qed

theorem exchange_books_balance_witness:
  "acct_avail 1 ''u'' [] (sys_db after_capture) = 40 \<and> journal_avail 1 ''u'' [] (sys_db after_capture) = 40 \<and>
   dep_count 1 1 LedgerDepositCredit (sys_db after_capture) \<le> 1 \<and> withdraws_inv (sys_db after_capture)"
proof -
  have s: "exchange_inv (sys_db start)" by (simp add: start_def exchange_inv_empty)
  have v: "acct_avail 1 ''u'' [] (sys_db after_capture) = 40" by code_simp
  show ?thesis
    using exchange_books_balance [OF after_capture_reach capture_ok_dp0 s, of 1 "''u''" "[]" 1] v by simp
qed

text \<open>C2: Over any run, a withdraw request keeps its user, token, amount and destination, its status only
  follows the transitions of the life cycle, and a rejected, confirmed or failed request never changes its
  status again.\<close>

theorem withdraw_life_cycle:
  assumes "(ex_step sv dp)\<^sup>*\<^sup>* s s'" "capture_ok dp" "exchange_inv (sys_db s)" "r \<in> set (withdraws (sys_db s))"
  shows "\<exists>r'\<in>set (withdraws (sys_db s')). wr_id r' = wr_id r \<and> wr_user r' = wr_user r \<and> wr_token r' = wr_token r \<and>
    wr_amount r' = wr_amount r \<and> wr_to r' = wr_to r \<and> wd_step\<^sup>*\<^sup>* (wr_status r) (wr_status r') \<and>
    (wd_final (wr_status r) \<longrightarrow> wr_status r' = wr_status r)"
proof -
  have "wd_extends (withdraws (sys_db s)) (withdraws (sys_db s'))"
    by (rule ex_reachable_extends [OF assms(1-3)])
  then obtain t1 xs where t: "withdraws (sys_db s') = t1 @ xs" "list_all2 wrow_evolves (withdraws (sys_db s)) t1"
    by (auto simp: wd_extends_def wd_evolves_def)
  obtain r' where "r' \<in> set t1" "wrow_evolves r r'"
    using t(2) assms(4) by (metis in_set_conv_nth list_all2_conv_all_nth)
  then show ?thesis using t(1) wd_steps_final [of "wr_status r" "wr_status r'"]
    by (intro bexI [of _ r']) (auto simp: wrow_evolves_def)
qed

definition wrow0 :: withdraw_row where
  "wrow0 = \<lparr>wr_id = 0, wr_chain = 1, wr_user = ''u'', wr_token = [], wr_to = ''0xb'', wr_amount = ''5'',
     wr_status = WithdrawStatusRejected, wr_from_wallet = None, wr_tx_hash = None, wr_reviewer = Some ''r'',
     wr_reviewed_at = Some 1, wr_reject_reason = Some ''no'', wr_idem_key = None, wr_created = 0, wr_updated = 1\<rparr>"

definition rejected_sys :: sys where
  "rejected_sys = \<lparr>sys_db = empty_db\<lparr>withdraws := [wrow0]\<rparr>, sys_sent = []\<rparr>"

lemma exchange_inv_withdraws:
  assumes "exchange_inv d" "withdraws_inv (d\<lparr>withdraws := ws\<rparr>)"
  shows "exchange_inv (d\<lparr>withdraws := ws\<rparr>)"
  using assms by (simp add: exchange_inv_def)

lemma rejected_sys_inv: "exchange_inv (sys_db rejected_sys)"
  unfolding rejected_sys_def sys.select_convs
  by (rule exchange_inv_withdraws [OF exchange_inv_empty])
    (simp add: withdraws_inv_iff wrow_ok_def wrow0_def empty_db_def init_counters_def)

theorem withdraw_life_cycle_witness:
  "\<exists>r'\<in>set (withdraws (sys_db (snd (dbT (ApproveWithdraw xs0 9 0 ''r'') rejected_sys)))).
     wr_id r' = 0 \<and> wr_status r' = WithdrawStatusRejected"
proof -
  have "(ex_step xs0 (Some dp0))\<^sup>*\<^sup>* rejected_sys (snd (dbT (ApproveWithdraw xs0 9 0 ''r'') rejected_sys))"
    by (rule r_into_rtranclp, rule ex_step.approve)
  moreover have "wrow0 \<in> set (withdraws (sys_db rejected_sys))" by (simp add: rejected_sys_def)
  ultimately obtain r' where "r' \<in> set (withdraws (sys_db (snd (dbT (ApproveWithdraw xs0 9 0 ''r'') rejected_sys))))"
    "wr_id r' = wr_id wrow0" "wd_final (wr_status wrow0) \<longrightarrow> wr_status r' = wr_status wrow0"
    using withdraw_life_cycle [OF _ capture_ok_dp0 rejected_sys_inv, of xs0] by blast
  then show ?thesis by (intro bexI [of _ r']) (simp_all add: wrow0_def wd_final_def)
qed

subsection \<open>Postings\<close>

text \<open>C3: A posting that succeeds changes exactly one account, by the amount and in the direction of its
  entry type, appends one journal entry, and leaves every other account and the other tables alone; here for
  the freeze of a withdrawal, which moves the amount from the available to the frozen side.\<close>

theorem freeze_moves_amount:
  assumes "ledger_inv d" "freezeWithdrawTx ch now user token amount wid d = (Inr u, d')"
  shows "acct_avail c v t d' = acct_avail c v t d -
      (if c = ch \<and> sql_eq v user \<and> sql_eq t (normToken token) then wei_val amount else 0) \<and>
    acct_frozen c v t d' = acct_frozen c v t d +
      (if c = ch \<and> sql_eq v user \<and> sql_eq t (normToken token) then wei_val amount else 0) \<and>
    liabilities c t d' = liabilities c t d \<and> ledger_inv d' \<and> same_but_ledger d d'"
  using freeze.post_balances [OF _ assms(2), of c v t] freeze.post_liabilities [OF _ assms(2), of c t]
    freeze.post_inv [OF assms] freeze.post_frame [OF _ assms(2)] assms(1)
  by auto

theorem freeze_moves_amount_witness:
  "fst (freezeWithdrawTx 1 7 ''u'' [] ''15'' 1 db1) = Inr () \<and>
   acct_avail 1 ''u'' [] (snd (freezeWithdrawTx 1 7 ''u'' [] ''15'' 1 db1)) = 25 \<and>
   liabilities 1 [] (snd (freezeWithdrawTx 1 7 ''u'' [] ''15'' 1 db1)) = 40"
proof -
  have all: "fst (freezeWithdrawTx 1 7 ''u'' [] ''15'' 1 db1) = Inr () \<and>
      acct_avail 1 ''u'' [] db1 = 40 \<and>
      liabilities 1 [] db1 = 40 \<and>
      wei_val ''15'' = 15" by code_simp
  from all have ok: "fst (freezeWithdrawTx 1 7 ''u'' [] ''15'' 1 db1) = Inr ()" by blast+
  from all have v: "acct_avail 1 ''u'' [] db1 = 40" "liabilities 1 [] db1 = 40" "wei_val ''15'' = 15" by blast+
  show ?thesis using freeze_moves_amount [OF ledger_inv_db1 fst_eq_Inr [OF ok], of 1 "''u''" "[]"] ok v by simp
qed

text \<open>C4: A posting fails in two ways only, and then writes nothing: its amount is not a decimal number of at
  least zero, or one side of the account would become negative. Here for the debit of a confirmed
  withdrawal.\<close>

theorem debit_refused:
  assumes "ledger_inv d"
  shows "((\<exists>e. fst (debitWithdrawTx ch now user token amount wid d) = Inl e) \<longleftrightarrow>
      \<not> is_wei amount \<or> acct_frozen ch user (normToken token) d < wei_val amount) \<and>
    (\<forall>e. fst (debitWithdrawTx ch now user token amount wid d) = Inl e \<longrightarrow>
      snd (debitWithdrawTx ch now user token amount wid d) = d)"
proof -
  have ok: "accounts_ok d" using assms by simp
  have nn: "0 \<le> acct_avail ch user t d" for t by (simp add: acct_avail_def)
  show ?thesis
    by (auto simp: debit.post_cases [OF ok] can_post_def is_wei_def wei_val_def nn not_le split: sum.split)
qed

theorem debit_refused_witness:
  "\<exists>e. fst (debitWithdrawTx 1 7 ''u'' [] ''15'' 1 db1) = Inl e"
proof -
  have "acct_frozen 1 ''u'' [] db1 < wei_val ''15''" by code_simp
  then show ?thesis using debit_refused [OF ledger_inv_db1, of 1 7 "''u''" "[]" "''15''" 1] by simp
qed

text \<open>An internal payment that succeeds takes the amount from the payer and gives it to the merchant: the
  liabilities of every token stay the same, and with two different users so do all other accounts.\<close>

theorem payment_conserves:
  assumes "ledger_inv d" "TransferInternalTx ch now payer merchant token amount pid d = (Inr u, d')"
    "\<not> sql_eq payer merchant"
  shows "acct_avail ch payer (normToken token) d' = acct_avail ch payer (normToken token) d - wei_val amount \<and>
    acct_avail ch merchant (normToken token) d' = acct_avail ch merchant (normToken token) d + wei_val amount \<and>
    (\<forall>c t. liabilities c t d' = liabilities c t d) \<and> (\<forall>c v t. acct_frozen c v t d' = acct_frozen c v t d) \<and> ledger_inv d'"
  using TransferInternalTx_balances [OF assms] TransferInternalTx_inv [OF assms(1,2)] by simp

theorem payment_conserves_witness:
  "fst (TransferInternalTx 1 9 ''u'' ''m'' [] ''40'' 3 db1) = Inr () \<and>
   acct_avail 1 ''m'' [] (snd (TransferInternalTx 1 9 ''u'' ''m'' [] ''40'' 3 db1)) = 40 \<and>
   acct_avail 1 ''u'' [] (snd (TransferInternalTx 1 9 ''u'' ''m'' [] ''40'' 3 db1)) = 0"
proof -
  have all: "fst (TransferInternalTx 1 9 ''u'' ''m'' [] ''40'' 3 db1) = Inr () \<and>
      acct_avail 1 ''u'' [] db1 = 40 \<and>
      acct_avail 1 ''m'' [] db1 = 0 \<and>
      wei_val ''40'' = 40 \<and>
      \<not> sql_eq ''u'' ''m''" by code_simp
  from all have ok: "fst (TransferInternalTx 1 9 ''u'' ''m'' [] ''40'' 3 db1) = Inr ()" by blast+
  from all have v: "acct_avail 1 ''u'' [] db1 = 40" "acct_avail 1 ''m'' [] db1 = 0" "wei_val ''40'' = 40" by blast+
  from all have ne: "\<not> sql_eq ''u'' ''m''" by blast+
  from payment_conserves [OF ledger_inv_db1 fst_eq_Inr [OF ok] ne] ok v show ?thesis by simp
qed

subsection \<open>Deposits\<close>

text \<open>C6: The first capture of a deposit credits its amount to its user, once, and marks it credited; capturing
  the same transaction and log index again, with whatever other arguments, posts nothing.\<close>

theorem deposit_credited_once:
  assumes "deposit_capture dp" "ledger_inv d" "deposits_inv d" "dep_find (dpr_store dp) p d = None"
    "captureAndCredit dp now p d = (Inr u, d')"
    "sql_eq (cd_tx_hash q) (cd_tx_hash p)" "cd_log_index q = cd_log_index p"
  shows "acct_avail c v t d' = acct_avail c v t d +
      (if c = dpr_store dp \<and> sql_eq v (cd_user p) \<and> sql_eq t (normToken (cd_token p)) then wei_val (cd_amount p) else 0) \<and>
    (\<exists>r. dep_find (dpr_store dp) p d' = Some r \<and> dep_status r = DepositStatusCredited) \<and>
    fst (captureAndCredit dp now' q d') = Inr () \<and> same_tables d' (snd (captureAndCredit dp now' q d'))"
proof -
  have ok: "accounts_ok d" using assms(2) by simp
  note again = deposit_capture.captureAndCredit_again [OF assms(1) ok assms(5-7), of now']
  show ?thesis
    using deposit_capture.captureAndCredit_balances(1) [OF assms(1) ok assms(3-5)]
      deposit_capture.captureAndCredit_credited [OF assms(1) ok assms(5)]
    by (simp add: again same_tables_def)
qed

theorem deposit_credited_once_witness:
  "acct_avail 1 ''u'' [] db1 = acct_avail 1 ''u'' [] empty_db + 40 \<and>
   fst (captureAndCredit dp0 200 (cap0\<lparr>cd_amount := ''99''\<rparr>) db1) = Inr () \<and>
   same_tables db1 (snd (captureAndCredit dp0 200 (cap0\<lparr>cd_amount := ''99''\<rparr>) db1))"
proof -
  have c: "deposit_capture dp0" unfolding dp0_def by (rule plain_capture.deposit_capture_axioms)
  have f: "dep_find (dpr_store dp0) cap0 empty_db = None" by (simp add: dep_find_def empty_db_def)
  have "wei_val ''40'' = 40" by code_simp
  then have v: "dpr_store dp0 = 1" "cd_user cap0 = ''u''" "normToken (cd_token cap0) = []" "wei_val (cd_amount cap0) = 40"
    by (simp_all add: dp0_def NewDepositProcessor_def cap0_def)
  show ?thesis
    using deposit_credited_once [OF c ledger_inv_empty deposits_inv_empty f fst_eq_Inr [OF captured_ok],
        of "cap0\<lparr>cd_amount := ''99''\<rparr>" 1 "''u''" "[]" 200] v
    by (simp add: db1_def)
qed

text \<open>C7: A reorganisation from block b reverses every credited deposit of the blocks from b on that was not
  reversed before, exactly once: the liabilities of a token fall by their sum, no deposit of those blocks stays pending or
  credited, and the books still balance.\<close>

theorem reorg_reverses:
  assumes "Enabled (Some dp)" "ledger_inv d" "deposits_inv d" "HandleReorg (Some dp) now b d = (Inr u, d')"
  shows "liabilities (dpr_store dp) t d' = liabilities (dpr_store dp) t d -
      sum_list (map (revert_amount (dpr_store dp) t d) (filter (orphan_where (dpr_store dp) b) (deposits d))) \<and>
    list_all (\<lambda>r. \<not> orphan_where (dpr_store dp) b r) (deposits d') \<and> ledger_inv d'"
proof -
  let ?ch = "dpr_store dp"
  let ?deps = "filter (orphan_where ?ch b) (deposits d)"
  have run: "HandleReorgTx (Some dp) now b d = (Inr u, d')"
    using assms(1,4) by (auto simp: HandleReorg_def dest: run_tx_InrD)
  obtain d1 where d1: "d1 = d\<lparr>deposits := upd_where (orphan_where ?ch b) (\<lambda>r. r\<lparr>dep_status := DepositStatusOrphaned\<rparr>) (deposits d)\<rparr>"
    and loop: "forT ?deps (reverse_one ?ch now) d1 = (Inr u, d')"
    by (rule HandleReorgTx_okE [OF assms(1) run])
  have inv1: "ledger_inv d1" using assms(2) unfolding d1 by (subst ledger_inv_cong [of _ d]) simp_all
  have eq: "accounts d1 = accounts d" "revert_amount ?ch t d1 = revert_amount ?ch t d"
    by (simp_all add: d1 fun_eq_iff revert_amount_def revertible_def hasLedgerEntryTx_def)
  have dist: "distinct (map dep_id ?deps)"
    using assms(3) by (simp add: deposits_inv_def distinct_map_filter)
  have "list_all (\<lambda>r. \<not> orphan_where ?ch b r) (deposits d1)"
    by (auto simp: d1 list_all_iff orphan_where_def dest!: upd_where_memE)
  then show ?thesis
    using reverse_loop_liabilities [OF inv1 dist loop, of t] reverse_loop_deposits [OF inv1 loop] acct_cong(3) [OF eq(1)] eq(2)
      HandleReorgTx_inv [OF assms(2), of "Some dp" now b] run
    by simp
qed

theorem reorg_reverses_witness:
  "liabilities 1 [] (snd (HandleReorg (Some dp0) 300 5 db1)) = 0 \<and> ledger_inv (snd (HandleReorg (Some dp0) 300 5 db1))"
proof -
  have e: "Enabled (Some dp0)" by (simp add: Enabled_def dp0_def NewDepositProcessor_def cfg0_def)
  have c: "accounts_ok empty_db" using ledger_inv_empty by simp
  have i: "deposits_inv db1"
    using plain_capture.captureAndCredit_deposits_inv [OF c deposits_inv_empty, of cfg0 1 "Some reg0" 100 cap0 "()" db1]
      fst_eq_Inr [of "captureAndCredit dp0 100 cap0 empty_db" "()"]
    unfolding db1_def dp0_def by (metis captured_ok dp0_def)
  have all: "fst (HandleReorg (Some dp0) 300 5 db1) = Inr () \<and>
      dpr_store dp0 = 1 \<and>
      liabilities 1 [] db1 = 40 \<and>
      sum_list (map (revert_amount 1 [] db1) (filter (orphan_where 1 5) (deposits db1))) = 40" by code_simp
  from all have run: "fst (HandleReorg (Some dp0) 300 5 db1) = Inr ()" by blast+
  from all have v: "dpr_store dp0 = 1" "liabilities 1 [] db1 = 40" "sum_list (map (revert_amount 1 [] db1) (filter (orphan_where 1 5) (deposits db1))) = 40" by blast+
  show ?thesis using reorg_reverses [OF e ledger_inv_db1 i fst_eq_Inr [OF run], of "[]"] v by simp
qed

text \<open>A deposit that was reversed by a reorganisation and is captured again is marked credited, but the user gets
  no money: the old credit entry of the journal is taken for the new one.\<close>

theorem recapture_posts_nothing:
  assumes "dep_find (dpr_store dp) p d = Some r" "dep_status r = DepositStatusOrphaned"
    "hasLedgerEntryTx (dpr_store dp) (dep_id r) LedgerDepositCredit d"
  shows "\<exists>d' r'. captureAndCredit dp now p d = (Inr (), d') \<and> accounts d' = accounts d \<and> entries d' = entries d \<and>
    dep_find (dpr_store dp) p d' = Some r' \<and> dep_status r' = DepositStatusCredited"
  using recapture_no_credit [OF assms, of now] by blast

theorem recapture_posts_nothing_witness:
  "acct_avail 1 ''u'' [] (snd (captureAndCredit dp0 400 cap0 (snd (HandleReorg (Some dp0) 300 5 db1)))) = 0"
proof -
  define d where "d = snd (HandleReorg (Some dp0) 300 5 db1)"
  obtain r where r: "dep_find 1 cap0 d = Some r" "dep_status r = DepositStatusOrphaned" "dep_id r = 1"
  proof -
    have "map_option (\<lambda>r. (dep_status r, dep_id r)) (dep_find 1 cap0 d) = Some (DepositStatusOrphaned, 1)"
      unfolding d_def by code_simp
    then show thesis using that by auto
  qed
  have s: "dpr_store dp0 = 1" by (simp add: dp0_def NewDepositProcessor_def)
  have "hasLedgerEntryTx 1 1 LedgerDepositCredit d" "acct_avail 1 ''u'' [] d = 0" unfolding d_def by code_simp+
  moreover from this(1) obtain d' where "captureAndCredit dp0 400 cap0 d = (Inr (), d')" "accounts d' = accounts d"
    using recapture_posts_nothing [of dp0 cap0 d r 400] r s by auto
  ultimately show ?thesis unfolding d_def [symmetric] by (simp add: acct_cong(1) [of d' d])
qed

subsection \<open>Withdrawals\<close>

text \<open>C9: An approved withdrawal is broadcast by one worker only: after a call, whatever its outcome, every
  further call for the same request, by a worker with a copy of it read earlier, is turned away and neither sends nor
  writes anything.\<close>

theorem withdraw_claimed_once:
  assumes "withdraws_inv (sys_db s)" "w_status w = WithdrawStatusApproved" "xs_signer sv = Some sg" "xs_txsvc sv = Some ts"
    "w_status w' = WithdrawStatusApproved" "w_id w' = w_id w" "ProcessApprovedWithdraw sv now w s = (r, s1)"
  shows "ProcessApprovedWithdraw sv now' w' s1 = (Inl ErrWithdrawAlreadyHandled, s1)"
proof -
  have "\<not> (\<exists>q\<in>set (withdraws (sys_db s1)). withdraw_where (xs_store sv) (w_id w') (Some WithdrawStatusApproved) q)"
    using ProcessApprovedWithdraw_claims [OF assms(1-4), of now] assms(6,7) by simp
  then show ?thesis by (subst ProcessApprovedWithdraw_eq [OF assms(5,3,4)]) simp
qed

definition approved_sys :: sys where
  "approved_sys = \<lparr>sys_db = empty_db\<lparr>withdraws := [wrow0\<lparr>wr_status := WithdrawStatusApproved\<rparr>],
     wallets := [\<lparr>cwr_chain = 1, cwr_address = ''0xa1'', cwr_user = None, cwr_label = None, cwr_type = ''hot'',
       cwr_enabled = True, cwr_created = 0, cwr_updated = 0\<rparr>]\<rparr>, sys_sent = []\<rparr>"

definition wreq0 :: withdraw_request where
  "wreq0 = scanWithdrawRow (wrow0\<lparr>wr_status := WithdrawStatusApproved\<rparr>)"

theorem withdraw_claimed_once_witness:
  "length (sys_sent (snd (ProcessApprovedWithdraw xs0 50 wreq0 approved_sys))) = 1 \<and>
   ProcessApprovedWithdraw xs0 60 wreq0 (snd (ProcessApprovedWithdraw xs0 50 wreq0 approved_sys)) =
     (Inl ErrWithdrawAlreadyHandled, snd (ProcessApprovedWithdraw xs0 50 wreq0 approved_sys))"
proof -
  have i: "withdraws_inv (sys_db approved_sys)"
    by (simp add: withdraws_inv_iff wrow_ok_def approved_sys_def wrow0_def empty_db_def init_counters_def)
  have st: "w_status wreq0 = WithdrawStatusApproved" by code_simp
  have x: "xs_signer xs0 = Some (NewSigner geth0 cfg0)" "xs_txsvc xs0 = Some ts0" by (simp_all add: xs0_def)
  have "length (sys_sent (snd (ProcessApprovedWithdraw xs0 50 wreq0 approved_sys))) = 1" by code_simp
  then show ?thesis
    using withdraw_claimed_once [OF i st x st refl prod.collapse [symmetric], of 60 50] by simp
qed

text \<open>C10: A rejection that succeeds found the request under review, gives the frozen amount back to the user and leaves
  the request rejected; nobody's liabilities change.\<close>

theorem reject_unfreezes:
  assumes "ledger_inv d" "withdraws_inv d" "RejectWithdraw sv now i rvw rsn d = (Inr w', d')"
  shows "\<exists>w. GetWithdraw (xs_store sv) i d = Inr w \<and> w_status w = WithdrawStatusPendingReview \<and>
    w_status w' = WithdrawStatusRejected \<and> w_id w' = i \<and>
    (\<forall>c v t. acct_avail c v t d' = acct_avail c v t d +
      (if c = xs_store sv \<and> sql_eq v (w_user w) \<and> sql_eq t (normToken (w_token w)) then wei_val (w_amount w) else 0) \<and>
     acct_frozen c v t d' = acct_frozen c v t d -
      (if c = xs_store sv \<and> sql_eq v (w_user w) \<and> sql_eq t (normToken (w_token w)) then wei_val (w_amount w) else 0) \<and>
     liabilities c t d' = liabilities c t d)"
proof -
  let ?ch = "xs_store sv"
  obtain w n d1 u where w: "GetWithdraw ?ch i d = Inr w" "w_status w = WithdrawStatusPendingReview"
    and d1: "reject_stmt ?ch now i rvw rsn d = (Inr n, d1)"
    and uf: "unfreezeWithdrawTx ?ch now (w_user w) (w_token w) (w_amount w) (w_id w) d1 = (Inr u, d')"
    and w': "GetWithdraw ?ch i d' = Inr w'"
    using assms(3) by (auto simp: RejectWithdraw_def Let_def elim!: bindT_InrE split: if_splits dest!: run_tx_InrD)
  have acc: "accounts d1 = accounts d" using d1 by (auto simp: reject_stmt_def Let_def)
  have ok: "accounts_ok d1" using assms(1) acc accounts_ok_cong by fastforce
  note b = unfreeze.post_balances [OF ok uf] unfreeze.post_liabilities [OF ok uf]
  have wd: "withdraws d' = withdraws d1" using unfreeze.post_frame_any(2) uf by (metis snd_conv)
  have "w_status w' = WithdrawStatusRejected"
    using reject_status [OF assms(2) w d1] w' wd by (simp add: GetWithdraw_def withdraw_select_def)
  then show ?thesis using w GetWithdraw_id [OF w'] b acct_cong [OF acc] by auto
qed

text \<open>A request of 15 under review, with its amount frozen.\<close>

definition frozen_db :: "withdraw_status \<Rightarrow> db" where
  "frozen_db st = (snd (freezeWithdrawTx 1 7 ''u'' [] ''15'' 0 db1))\<lparr>withdraws :=
     [wrow0\<lparr>wr_amount := ''15'', wr_status := st, wr_tx_hash := (if st = WithdrawStatusBroadcasting then Some ''0xh'' else None)\<rparr>]\<rparr>"

lemma ledger_inv_frozen_db: "ledger_inv (frozen_db st)"
proof -
  have "ledger_inv (snd (freezeWithdrawTx 1 7 ''u'' [] ''15'' 0 db1))" by (rule posting_inv_snd(3) [OF ledger_inv_db1])
  then show ?thesis by (simp add: frozen_db_def)
qed

lemma withdraws_inv_frozen_db: "withdraws_inv (frozen_db st)"
proof -
  have "ai_withdraws (ctrs (snd (freezeWithdrawTx 1 7 ''u'' [] ''15'' 0 db1))) = 1" by code_simp
  then show ?thesis by (simp add: withdraws_inv_iff wrow_ok_def frozen_db_def wrow0_def)
qed

theorem reject_unfreezes_witness:
  "acct_avail 1 ''u'' [] (snd (RejectWithdraw xs0 9 0 ''r'' ''no'' (frozen_db WithdrawStatusPendingReview))) = 40"
proof -
  let ?d = "frozen_db WithdrawStatusPendingReview"
  define w where "w = scanWithdrawRow (wrow0\<lparr>wr_amount := ''15'', wr_status := WithdrawStatusPendingReview\<rparr>)"
  have x: "xs_store xs0 = 1" by (simp add: xs0_def)
  have g: "GetWithdraw 1 0 ?d = Inr w" by (simp add: GetWithdraw_def withdraw_select_def frozen_db_def wrow0_def w_def)
  have wv: "w_user w = ''u''" "w_token w = []" "w_amount w = ''15''" by (simp_all add: w_def wrow0_def scanWithdrawRow_def)
  have all: "acct_avail 1 ''u'' [] ?d = 25 \<and>
      wei_val ''15'' = 15 \<and>
      (case fst (RejectWithdraw xs0 9 0 ''r'' ''no'' ?d) of Inl _ \<Rightarrow> False | Inr _ \<Rightarrow> True)" by code_simp
  from all have v: "acct_avail 1 ''u'' [] ?d = 25" "wei_val ''15'' = 15" by blast+
  from all have done_ok: "(case fst (RejectWithdraw xs0 9 0 ''r'' ''no'' ?d) of Inl _ \<Rightarrow> False | Inr _ \<Rightarrow> True)" by blast+
  then obtain w' where ok: "fst (RejectWithdraw xs0 9 0 ''r'' ''no'' ?d) = Inr w'" by (auto split: sum.splits)
  show ?thesis
    using reject_unfreezes [OF ledger_inv_frozen_db withdraws_inv_frozen_db fst_eq_Inr [OF ok]] x g wv v by auto
qed

text \<open>C11: The confirmation of a withdrawal that is being broadcast takes its amount from the frozen side of the
  user's account and from the liabilities, exactly once: the second report of the same transaction changes
  nothing.\<close>

theorem confirm_debits_once:
  assumes "ledger_inv d" "GetWithdrawByTxHash (xs_store sv) h d = Inr w"
    "w_status w \<in> {WithdrawStatusBroadcasting, WithdrawStatusApproved}" "OnWithdrawTxConfirmed sv now h d = (Inr u, d')"
  shows "(\<forall>c v t. acct_frozen c v t d' = acct_frozen c v t d -
      (if c = xs_store sv \<and> sql_eq v (w_user w) \<and> sql_eq t (normToken (w_token w)) then wei_val (w_amount w) else 0) \<and>
     acct_avail c v t d' = acct_avail c v t d \<and>
     liabilities c t d' = liabilities c t d -
      (if c = xs_store sv \<and> sql_eq t (normToken (w_token w)) then wei_val (w_amount w) else 0)) \<and>
    OnWithdrawTxConfirmed sv now' h d' = (Inr (), d') \<and> OnWithdrawTxFailed sv now' h d' = (Inr (), d')"
proof -
  let ?ch = "xs_store sv"
  have run: "run_tx (confirm_tx ?ch now w) d = (Inr u, d')"
    using assms(2-4) by (simp add: OnWithdrawTxConfirmed_eq)
  obtain v1 d1 where d1: "debitWithdrawTx ?ch now (w_user w) (w_token w) (w_amount w) (w_id w) d = (Inr v1, d1)"
    and d': "d' = d1\<lparr>withdraws := upd_where (withdraw_where ?ch (w_id w) None)
       (\<lambda>r. r\<lparr>wr_status := WithdrawStatusConfirmed, wr_updated := now\<rparr>) (withdraws d1)\<rparr>"
    by (rule confirm_tx_okE [OF assms(1) run])
  have ok: "accounts_ok d" using assms(1) by simp
  have acc: "accounts d' = accounts d1" by (simp add: d')
  have wd: "withdraws d' = upd_where (withdraw_where ?ch (w_id w) None)
       (\<lambda>r. r\<lparr>wr_status := WithdrawStatusConfirmed, wr_updated := now\<rparr>) (withdraws d)"
    using debit.post_frame_any(2) d1 unfolding d' by (metis db.select_convs(5) db.surjective db.update_convs(5) snd_conv)
  obtain w' where "GetWithdrawByTxHash ?ch h d' = Inr w'" "w_status w' = WithdrawStatusConfirmed"
    using find_wd_hash_confirmed [OF assms(2) wd] by blast
  then have "OnWithdrawTxConfirmed sv now' h d' = (Inr (), d')" "OnWithdrawTxFailed sv now' h d' = (Inr (), d')"
    by (simp_all add: OnWithdrawTxConfirmed_eq OnWithdrawTxFailed_def Let_def)
  then show ?thesis
    using debit.post_balances [OF ok d1] debit.post_liabilities [OF ok d1] acct_cong [OF acc] by simp
qed

theorem confirm_debits_once_witness:
  "liabilities 1 [] (snd (OnWithdrawTxConfirmed xs0 9 ''0xH'' (frozen_db WithdrawStatusBroadcasting))) = 25"
proof -
  let ?d = "frozen_db WithdrawStatusBroadcasting"
  define w where "w = scanWithdrawRow (wrow0\<lparr>wr_amount := ''15'', wr_status := WithdrawStatusBroadcasting, wr_tx_hash := Some ''0xh''\<rparr>)"
  have x: "xs_store xs0 = 1" by (simp add: xs0_def)
  have h: "null_eq (Some ''0xh'') (to_lower ''0xH'')" by code_simp
  have g: "GetWithdrawByTxHash (xs_store xs0) ''0xH'' ?d = Inr w" using h
    by (simp add: x GetWithdrawByTxHash_def withdraw_select_def frozen_db_def wrow0_def w_def)
  have wv: "w_user w = ''u''" "w_token w = []" "w_amount w = ''15''" "w_status w = WithdrawStatusBroadcasting"
    by (simp_all add: w_def wrow0_def scanWithdrawRow_def)
  have all: "liabilities 1 [] ?d = 40 \<and>
      wei_val ''15'' = 15 \<and>
      fst (OnWithdrawTxConfirmed xs0 9 ''0xH'' ?d) = Inr ()" by code_simp
  from all have v: "liabilities 1 [] ?d = 40" "wei_val ''15'' = 15" by blast+
  from all have ok: "fst (OnWithdrawTxConfirmed xs0 9 ''0xH'' ?d) = Inr ()" by blast+
  show ?thesis
    using confirm_debits_once [OF ledger_inv_frozen_db g _ fst_eq_Inr [OF ok]] x wv v by simp
qed

text \<open>C12: A withdrawal whose broadcast or execution fails is marked failed, and the frozen amount is never given
  back: the test for an existing freeze entry asks for entries that refer to deposits, and there is none.\<close>

theorem failed_withdraw_stays_frozen:
  assumes "ledger_inv d" "GetWithdrawByTxHash (xs_store sv) h d = Inr w"
    "w_status w \<notin> {WithdrawStatusFailed, WithdrawStatusConfirmed}"
  shows "fst (OnWithdrawTxFailed sv now h d) = Inr () \<and> accounts (snd (OnWithdrawTxFailed sv now h d)) = accounts d \<and>
    entries (snd (OnWithdrawTxFailed sv now h d)) = entries d \<and>
    (\<exists>r\<in>set (withdraws (snd (OnWithdrawTxFailed sv now h d))). wr_id r = w_id w \<and> wr_status r = WithdrawStatusFailed)"
proof -
  have eq: "OnWithdrawTxFailed sv now h d = (Inr (), d\<lparr>withdraws := upd_where (withdraw_where (xs_store sv) (w_id w) None)
       (\<lambda>r. r\<lparr>wr_status := WithdrawStatusFailed, wr_reject_reason := Some ''on-chain execution failed'', wr_updated := now\<rparr>)
       (withdraws d)\<rparr>)"
    using assms by (simp add: OnWithdrawTxFailed_def Let_def FailWithdraw_no_unfreeze ledger_inv_def)
  obtain r where r: "r \<in> set (withdraws d)" "wr_chain r = xs_store sv" "w = scanWithdrawRow r"
    using assms(2) unfolding GetWithdrawByTxHash_def by (rule withdraw_select_Inr) blast
  then have "withdraw_where (xs_store sv) (w_id w) None r" by (simp add: withdraw_where_def scanWithdrawRow_def)
  from upd_where_memI [where p = "withdraw_where (xs_store sv) (w_id w) None" and f = "\<lambda>r. r\<lparr>wr_status := WithdrawStatusFailed,
      wr_reject_reason := Some ''on-chain execution failed'', wr_updated := now\<rparr>", OF r(1) this]
  show ?thesis unfolding eq using r(3) by (intro conjI bexI) (simp_all add: scanWithdrawRow_def)
qed

theorem failed_withdraw_stays_frozen_witness:
  "acct_frozen 1 ''u'' [] (snd (OnWithdrawTxFailed xs0 9 ''0xh'' (frozen_db WithdrawStatusBroadcasting))) = 15"
proof -
  let ?d = "frozen_db WithdrawStatusBroadcasting"
  define w where "w = scanWithdrawRow (wrow0\<lparr>wr_amount := ''15'', wr_status := WithdrawStatusBroadcasting, wr_tx_hash := Some ''0xh''\<rparr>)"
  have h: "null_eq (Some ''0xh'') (to_lower ''0xh'')" by code_simp
  have g: "GetWithdrawByTxHash (xs_store xs0) ''0xh'' ?d = Inr w" using h
    by (simp add: xs0_def GetWithdrawByTxHash_def withdraw_select_def frozen_db_def wrow0_def w_def)
  have st: "w_status w \<notin> {WithdrawStatusFailed, WithdrawStatusConfirmed}" by (simp add: w_def wrow0_def scanWithdrawRow_def)
  have v: "acct_frozen 1 ''u'' [] ?d = 15" by code_simp
  have "accounts (snd (OnWithdrawTxFailed xs0 9 ''0xh'' ?d)) = accounts ?d"
    using failed_withdraw_stays_frozen [OF ledger_inv_frozen_db g st, of 9] by blast
  from acct_cong(2) [OF this] v show ?thesis by metis
qed

text \<open>C13: A new withdraw request with valid arguments is never accepted: the inserted row is read back through another
  connection, does not exist there, and the transaction is rolled back; no table changes.\<close>

theorem new_withdraw_fails:
  assumes "withdraws_inv d" "withdraw_new (xs_store sv) p d" "is_wei (cw_amount p)" "0 < wei_val (cw_amount p)"
    "IsHexAddress (xs_geth sv) (cw_to p)"
  shows "fst (CreateWithdraw sv now p d) = Inl ErrNoRows \<and> same_tables d (snd (CreateWithdraw sv now p d))"
  using CreateWithdraw_new [OF assms(1,2) is_wei_parse [OF assms(3)] assms(4,5), of now] by (simp add: same_tables_def)

theorem new_withdraw_fails_witness:
  "fst (CreateWithdraw xs0 9 \<lparr>cw_user = ''u'', cw_token = [], cw_to = ''0xb'', cw_amount = ''5'', cw_idem_key = ''k''\<rparr> db1) = Inl ErrNoRows"
proof -
  have i: "withdraws_inv db1"
  proof -
    have "withdraws db1 = []" by (simp add: db1_eval empty_db_def)
    then show ?thesis by (simp add: withdraws_inv_iff)
  qed
  have n: "withdraw_new (xs_store xs0) \<lparr>cw_user = ''u'', cw_token = [], cw_to = ''0xb'', cw_amount = ''5'', cw_idem_key = ''k''\<rparr> db1"
    by code_simp
  have a: "is_wei ''5''" "0 < wei_val ''5''" "IsHexAddress (xs_geth xs0) ''0xb''" by code_simp+
  show ?thesis using new_withdraw_fails [OF i n, of 9] a by simp
qed

subsection \<open>Custody\<close>

text \<open>C14: The reconciliation of a token always produces a report. The report is marked ok exactly when the recorded
  balances of the hot and treasury wallets it is given add up to what the users are owed, available and frozen, and its
  difference is custody less liabilities. A wallet without a recorded balance, or with one that is no amount, counts as empty.
  The available and the frozen amount of every account and their sum are to be below \<open>10^65\<close>: the SQL casts have 65 digits.\<close>

theorem reconcile_exact:
  assumes "list_all (\<lambda>r. wei_val (la_avail r) < 10 ^ 65 \<and> wei_val (la_frozen r) < 10 ^ 65) (accounts d)"
    "liabilities ch (normToken token) d < 10 ^ 65"
  shows "\<exists>rep. reconcileToken ch balch now token ws d = Inr rep \<and>
    (rep_ok rep \<longleftrightarrow> custody balch token d ws = liabilities ch (normToken token) d) \<and>
    rep_diff rep = int_str (custody balch token d ws - liabilities ch (normToken token) d)"
proof -
  have "\<forall>r\<in>set (accounts d). wei_val (la_avail r) < 10 ^ 65 \<and> wei_val (la_frozen r) < 10 ^ 65"
    using assms(1) by (simp only: list_all_iff)
  from reconcileToken_eq [OF this, of ch balch now token ws] show ?thesis by blast
qed

definition held_by :: "string \<Rightarrow> string \<Rightarrow> balance_row" where
  "held_by addr v = \<lparr>bal_chain = 1, bal_address = addr, bal_token = [], bal_wei = v, bal_block = 5, bal_source_tx = None, bal_updated = 1\<rparr>"

definition kept_by :: "string \<Rightarrow> string \<Rightarrow> custodial_wallet" where
  "kept_by addr ty = \<lparr>cus_chain = 1, cus_address = addr, cus_user = [], cus_label = [], cus_type = ty, cus_enabled = True, cus_created = 1,
    cus_updated = 1\<rparr>"

definition vault_db :: db where
  "vault_db = db1\<lparr>balances := [held_by ''0xa'' ''30'', held_by ''0xb'' ''10'', held_by ''0xd1'' ''99'']\<rparr>"

definition vault :: "custodial_wallet list" where
  "vault = [kept_by ''0xa'' WalletTypeHot, kept_by ''0xb'' WalletTypeTreasury, kept_by ''0xd1'' WalletTypeDeposit]"

theorem reconcile_exact_witness:
  "\<exists>rep rep'. reconcileToken 1 1 7 [] vault vault_db = Inr rep \<and> rep_ok rep \<and>
    reconcileToken 1 1 7 [] (tl vault) vault_db = Inr rep' \<and> \<not> rep_ok rep' \<and> rep_diff rep' = ''-30''"
proof -
  have all: "list_all (\<lambda>r. wei_val (la_avail r) < 10 ^ 65 \<and> wei_val (la_frozen r) < 10 ^ 65) (accounts vault_db) \<and>
      liabilities 1 [] vault_db = 40 \<and> normToken [] = [] \<and>
      custody 1 [] vault_db vault = 40 \<and> custody 1 [] vault_db (tl vault) = 10 \<and>
      int_str (- 30) = ''-30''" by code_simp
  from all have a: "list_all (\<lambda>r. wei_val (la_avail r) < 10 ^ 65 \<and> wei_val (la_frozen r) < 10 ^ 65) (accounts vault_db)" by blast+
  from all have v: "liabilities 1 (normToken []) vault_db = 40" "custody 1 [] vault_db vault = 40"
    "custody 1 [] vault_db (tl vault) = 10" "int_str (- 30) = ''-30''" by auto
  have l: "liabilities 1 (normToken []) vault_db < 10 ^ 65" using v(1) by simp
  show ?thesis using reconcile_exact [OF a l, of 1 7 vault] reconcile_exact [OF a l, of 1 7 "tl vault"] v by auto
qed

text \<open>C15: A withdrawal is paid from an enabled hot or treasury wallet of the exchange's chain; one that exceeds the
  hot wallet's limit is paid from a treasury wallet whenever there is one. A limit that is not a number makes the
  selection panic.\<close>

theorem select_wallet_sound:
  assumes "is_wei (w_amount w)"
  shows "(\<not> is_wei (HotWithdrawMaxWei (Exchange (xs_cfg sv))) \<longleftrightarrow>
      (\<exists>m. selectFromWallet sv w d = Inl (GoPanic m))) \<and>
    (\<forall>addr. selectFromWallet sv w d = Inr addr \<longrightarrow>
      (\<exists>cw\<in>set (ListWallets (xs_balstore sv) [] [] True 500 d). cus_address cw = addr \<and>
        cus_type cw \<in> {WalletTypeHot, WalletTypeTreasury}) \<and>
      (let limit = wei_val (HotWithdrawMaxWei (Exchange (xs_cfg sv))) in
       0 < limit \<and> limit < wei_val (w_amount w) \<and>
       (\<exists>cw\<in>set (ListWallets (xs_balstore sv) [] [] True 500 d). cus_type cw = WalletTypeTreasury \<and> cus_address cw \<noteq> []) \<longrightarrow>
       (\<exists>cw\<in>set (ListWallets (xs_balstore sv) [] [] True 500 d). cus_address cw = addr \<and> cus_type cw = WalletTypeTreasury)))"
proof -
  let ?ws = "ListWallets (xs_balstore sv) [] [] True 500 d"
  have amt: "parseWei (w_amount w) = Inr (wei_val (w_amount w))" by (rule is_wei_parse [OF assms])
  show ?thesis
  proof (cases "parseWei (HotWithdrawMaxWei (Exchange (xs_cfg sv)))")
    case (Inl e)
    then show ?thesis by (simp add: selectFromWallet_def amt is_wei_def)
  next
    case (Inr lim)
    have lim: "wei_val (HotWithdrawMaxWei (Exchange (xs_cfg sv))) = lim" "is_wei (HotWithdrawMaxWei (Exchange (xs_cfg sv)))"
      using parseWei_wei_val [OF Inr] by simp_all
    define hot where "hot = first_of_type WalletTypeHot ?ws"
    define cold where "cold = first_of_type WalletTypeTreasury ?ws"
    have sel: "selectFromWallet sv w d =
        (if (lim = 0 \<or> wei_val (w_amount w) \<le> lim) \<and> hot \<noteq> [] then Inr hot else if cold \<noteq> [] then Inr cold
         else if hot \<noteq> [] then Inr hot else Inl ErrNoHotWallet)"
      by (simp add: selectFromWallet_def amt Inr Let_def hot_def cold_def)
    have h: "hot \<noteq> [] \<Longrightarrow> \<exists>cw\<in>set ?ws. cus_type cw = WalletTypeHot \<and> cus_address cw = hot"
      and c: "cold \<noteq> [] \<Longrightarrow> \<exists>cw\<in>set ?ws. cus_type cw = WalletTypeTreasury \<and> cus_address cw = cold"
      and e: "\<exists>cw\<in>set ?ws. cus_type cw = WalletTypeTreasury \<and> cus_address cw \<noteq> [] \<Longrightarrow> cold \<noteq> []"
      unfolding hot_def cold_def by (fact first_of_type_mem first_of_type_ex)+
    show ?thesis unfolding lim(1) Let_def sel using lim(2) h c e by (simp split: if_split) blast
  qed
qed

theorem select_wallet_sound_witness:
  "selectFromWallet xs0 wreq0 (sys_db approved_sys) = Inr ''0xa1'' \<and>
   (\<exists>cw\<in>set (ListWallets 1 [] [] True 500 (sys_db approved_sys)). cus_address cw = ''0xa1'')"
proof -
  have all: "is_wei (w_amount wreq0) \<and>
      selectFromWallet xs0 wreq0 (sys_db approved_sys) = Inr ''0xa1''" by code_simp
  from all have a: "is_wei (w_amount wreq0)" by blast+
  from all have s: "selectFromWallet xs0 wreq0 (sys_db approved_sys) = Inr ''0xa1''" by blast+
  have x: "xs_balstore xs0 = 1" by (simp add: xs0_def)
  show ?thesis using select_wallet_sound [OF a, of xs0 "sys_db approved_sys"] s unfolding x by blast
qed

end
