(* ===== verification/Tx_Properties.thy ===== *)
theory Tx_Properties
  imports Samples
begin

text \<open>
  The properties of the transaction service, its tracker and the Ethereum layer below
  it, each with the concrete case in which its hypotheses hold.
\<close>

subsection \<open>What the sample library satisfies\<close>

lemma rlp_ok_geth0: "rlp_ok geth0"
  by (simp add: rlp_ok_def geth0_def)

lemma sign_ok_geth0: "sign_ok geth0"
  by (simp add: sign_ok_def geth0_def)

lemma pack_ok_geth0: "pack_ok geth0"
proof -
  have "big_set_bytes (be_bytes 20 (uint (a :: address))) = uint a" for a
    using uint_lt2p [of a] by (intro big_set_bytes_be) simp_all
  then show ?thesis
    unfolding pack_ok_def geth0_def by auto
qed

subsection \<open>Write-ahead\<close>

text \<open>C16: Over any sequence of sends, speed-ups, submissions of raw transactions, reconciliation rounds, withdrawals and their
  confirmations, every transaction that was handed to the node has a tracker row under its hash, with one exception: a
  submission under the idempotency key of a row that is still submitting, or whose broadcast failed, sends the submitted
  transaction in the place of the row's own. The run collects exactly those in \<open>R\<close>. It is assumed that go-ethereum's encoding
  of a signed transaction decodes to it.\<close>

theorem sent_is_tracked:
  assumes "(svc_step xs sv)\<^sup>*\<^sup>* (s, {}) (s', R)" "rlp_ok (bk_geth (ts_backend sv))" "sent_ok {} sv s" "tx \<in> set (sys_sent s')"
  shows "tx \<in> R \<or> (\<exists>r\<in>set (trackers (sys_db s')). tr_chain r = ts_store sv \<and>
    sql_eq (tr_hash r) (HashHex (bk_geth (ts_backend sv)) (TxHash (bk_geth (ts_backend sv)) tx)))"
  using svc_steps_sent_ok [OF assms(1-3)] assms(4) by (auto simp: sent_ok_def is_tracked_def tx_hash_str_def)

definition meta0 :: send_meta where
  "meta0 = \<lparr>sm_biz_id = ''b'', sm_biz_type = [], sm_idem = ''k1'', sm_replaces = []\<rparr>"

definition start_sys :: sys where
  "start_sys = \<lparr>sys_db = empty_db, sys_sent = []\<rparr>"

theorem sent_is_tracked_witness:
  "\<exists>r\<in>set (trackers (sys_db (snd (SendNative ts0 9 ''k'' 2 ''5'' meta0 start_sys)))). sql_eq (tr_hash r) ''0xH7''"
proof -
  have a: "(svc_step xs0 ts0)\<^sup>*\<^sup>* (start_sys, {}) (snd (SendNative ts0 9 ''k'' 2 ''5'' meta0 start_sys), {})"
    by (rule r_into_rtranclp, rule svc_step.native)
  have b: "rlp_ok (bk_geth (ts_backend ts0))" by (simp add: ts0_def backend0_def rlp_ok_geth0)
  have c: "sent_ok {} ts0 start_sys" by (simp add: sent_ok_def raws_ok_def start_sys_def empty_db_def)
  have d: "sys_sent (snd (SendNative ts0 9 ''k'' 2 ''5'' meta0 start_sys)) = [tx0]" by code_simp
  have e: "HashHex (bk_geth (ts_backend ts0)) (TxHash (bk_geth (ts_backend ts0)) tx0) = ''0xH7''" by code_simp
  show ?thesis using sent_is_tracked [OF a b c, of tx0] d e by auto
qed

text \<open>The exception is real: the broadcast of the row under key \<open>k1\<close> failed, and a submission of another transaction under the
  same key is sent, leaves the row alone in the table and marks it as pending.\<close>

definition failed_row_sys :: sys where
  "failed_row_sys = \<lparr>sys_db = snd (MarkBroadcastFailed 1 5 ''0xH9'' ''timeout''
     (snd (InsertSubmitting 1 4 \<lparr>ip_hash = ''0xH9'', ip_from = ''0xA1'', ip_to = ''0xA2'', ip_token = [], ip_value = ''5'',
        ip_nonce = 9, ip_gas_limit = 21000, ip_gas_price = [], ip_max_fee = [], ip_max_prio = [], ip_format = [],
        ip_type = [], ip_biz_id = [], ip_biz_type = [], ip_idem = ''k1'', ip_replaces = [], ip_signed_raw = [],
        ip_status = None\<rparr> empty_db))), sys_sent = []\<rparr>"

definition other_tx_req :: submit_request where
  "other_tx_req = \<lparr>sq_signed_raw = ''0x01ff'', sq_biz_id = [], sq_biz_type = [], sq_idem = ''k1'', sq_replaces = []\<rparr>"

theorem reused_key_sends_untracked:
  "let s' = snd (SubmitRaw ts0 9 other_tx_req failed_row_sys) in
   sys_sent s' = [tx0] \<and> \<not> is_tracked ts0 tx0 (sys_db s') \<and>
   map (\<lambda>r. (tr_hash r, tr_status r)) (trackers (sys_db s')) = [(''0xh9'', StatusPending)] \<and>
   resubmitted ts0 other_tx_req (sys_db failed_row_sys) = {tx0}"
  by code_simp

subsection \<open>Nonces\<close>

text \<open>C17: Allocations for any addresses in any order give each address consecutive nonces, modulo \<open>2^64\<close>, starting at its
  stored one: no nonce is given out twice and none is skipped.\<close>

theorem nonces_consecutive:
  assumes "alloc_all b now as d = (Inr ns, d')" "nonce_of (bk_chain b) a d = Some n"
  shows "map snd (filter (\<lambda>(x, m). sql_eq x a) (zip as ns)) =
    map (\<lambda>i. n + of_nat i) [0..<length (filter (\<lambda>x. sql_eq x a) as)]"
  by (rule alloc_all_consecutive [OF assms])

definition nonce_db :: db where
  "nonce_db = empty_db\<lparr>nonces := [\<lparr>wn_chain = 1, wn_address = ''0xa1'', wn_next = 7, wn_updated = 0\<rparr>]\<rparr>"

theorem nonces_consecutive_witness:
  "fst (alloc_all backend0 9 [''0xA1'', ''0xb'', ''0xa1''] nonce_db) = Inr [7, 7, 8]"
proof -
  have "fst (alloc_all backend0 9 [''0xA1'', ''0xb'', ''0xa1''] nonce_db) = Inr [7, 7, 8]" by code_simp
  then obtain d' where r: "alloc_all backend0 9 [''0xA1'', ''0xb'', ''0xa1''] nonce_db = (Inr [7, 7, 8], d')"
    by (metis prod.collapse)
  have n: "nonce_of (bk_chain backend0) ''0xa1'' nonce_db = Some 7" by code_simp
  show ?thesis using nonces_consecutive [OF r n] r by simp
qed

subsection \<open>The status machine\<close>

text \<open>C18: A refresh of a tracked transaction, with the exchange as its withdraw handler, keeps every row in its place and moves
  statuses only along the machine; in particular a confirmed, failed, dropped or replaced transaction keeps its status.\<close>

theorem refresh_follows_machine:
  assumes "trackers_ok d" "r \<in> set (trackers d)"
  shows "\<exists>r'\<in>set (trackers (snd (RefreshOne (t\<lparr>tk_withdraw := Some (exchange_handler xs now)\<rparr>) now h d))).
    tracker_key r' = tracker_key r \<and> tx_step\<^sup>*\<^sup>* (tr_status r) (tr_status r') \<and>
    (tx_terminal (tr_status r) \<longrightarrow> tr_status r' = tr_status r)"
proof -
  have "list_all2 row_evolves (trackers d)
      (trackers (snd (RefreshOne (t\<lparr>tk_withdraw := Some (exchange_handler xs now)\<rparr>) now h d)))"
    using ex_hook.RefreshOne_evolves [OF assms(1)] by (simp add: tx_evolves_def)
  then obtain r' where "r' \<in> set (trackers (snd (RefreshOne (t\<lparr>tk_withdraw := Some (exchange_handler xs now)\<rparr>) now h d)))"
    "row_evolves r r'"
    using assms(2) by (metis in_set_conv_nth list_all2_conv_all_nth)
  then show ?thesis using tx_steps_terminal [of "tr_status r" "tr_status r'"] by (auto simp: row_evolves_def)
qed

definition tk0 :: tracker where
  "tk0 = \<lparr>tk_cfg = cfg0, tk_backend = backend0, tk_store = 1, tk_balsync = False, tk_withdraw = None\<rparr>"

definition sent_db :: db where
  "sent_db = sys_db (snd (SendNative ts0 9 ''k'' 2 ''5'' meta0 start_sys))"

lemma sent_db_ok: "trackers_ok sent_db \<and> map tr_status (trackers sent_db) = [StatusPending]"
  by code_simp

theorem refresh_follows_machine_witness:
  "\<exists>r'\<in>set (trackers (snd (RefreshOne (tk0\<lparr>tk_withdraw := Some (exchange_handler xs0 50)\<rparr>) 50 ''0xh7'' sent_db))).
     tx_step\<^sup>*\<^sup>* StatusPending (tr_status r')"
proof -
  have ok: "trackers_ok sent_db" and "map tr_status (trackers sent_db) = [StatusPending]" using sent_db_ok by simp_all
  then obtain r where "r \<in> set (trackers sent_db)" "tr_status r = StatusPending" by auto
  then show ?thesis using refresh_follows_machine [OF ok, of r xs0 50 tk0 "''0xh7''"] by auto
qed

text \<open>C19: The status outbox is the log of the tracker's status changes. Marking the siblings of a confirmed transaction changes
  exactly the other pending rows of the same chain, sender and nonce, to replaced by the winner, and writes one outbox row for
  each of them, in their order, with the old and the new status. A transition of a tracked transaction changes its row alone,
  and writes an outbox row exactly when the status is a new one. Neither touches any other table. The gas used is to be
  below \<open>2^63\<close>, above which \<open>database/sql\<close> refuses the argument.\<close>

theorem status_changes_logged:
  assumes "trackers_ok d" "r \<in> set (trackers d)" "tr_chain r = ch" "sql_eq (tr_hash r) h" "unat gas < 2 ^ 63"
  shows "(let m = MarkReplacedSiblings ch now fr n w d; d' = snd m;
        sib = (\<lambda>x. tr_chain x = ch \<and> sql_eq (tr_from x) fr \<and> tr_nonce x = n \<and> \<not> sql_eq (tr_hash x) w \<and> tr_status x = StatusPending)
      in fst m = Inr () \<and> tracking_only d d' \<and>
        trackers d' = map (\<lambda>x. if sib x then x\<lparr>tr_status := StatusReplaced, tr_replaced_by := Some (to_lower w), tr_updated := now\<rparr>
          else x) (trackers d) \<and>
        change_log d' = change_log d @
          map (\<lambda>x. (to_lower (tr_hash x), StatusPending, StatusReplaced)) (filter sib (trackers d))) \<and>
    (let m = TransitionStatus ch now h st bn cf gas e d; d' = snd m
      in fst m = Inr () \<and> tracking_only d d' \<and>
        trackers d' = map (\<lambda>x. if tr_chain x = ch \<and> sql_eq (tr_hash x) h
          then x\<lparr>tr_status := st, tr_block := bn, tr_gas_used := (if 0 < gas then Some gas else None),
                 tr_confirmations := cf, tr_error := nullStr e, tr_updated := now\<rparr>
          else x) (trackers d) \<and>
        change_log d' = change_log d @ (if tr_status r = st then [] else [(to_lower h, tr_status r, st)]))"
proof -
  have sib: "sibling_match ch (to_lower fr) n (to_lower w) = (\<lambda>x. tr_chain x = ch \<and> sql_eq (tr_from x) fr \<and> tr_nonce x = n \<and>
      \<not> sql_eq (tr_hash x) w \<and> tr_status x = StatusPending)" by (simp add: sibling_match_def fun_eq_iff)
  have tm: "tracker_match ch h r" using assms(3,4) by (simp add: tracker_match_def)
  show ?thesis
    using MarkReplacedSiblings_trackers [OF assms(1), of ch now fr n w] MarkReplacedSiblings_log [of ch now fr n w d]
      TransitionStatus_log [OF assms(1,2) tm assms(5), of now st bn cf e]
    unfolding sib Let_def upd_where_def tracker_match_def by blast
qed

definition rival_db :: db where
  "rival_db = snd (MarkBroadcastPending 1 9 ''0xH9'' (snd (InsertSubmitting 1 9
     \<lparr>ip_hash = ''0xH9'', ip_from = ''0xA1'', ip_to = ''0xA2'', ip_token = [], ip_value = ''5'',
        ip_nonce = 7, ip_gas_limit = 21000, ip_gas_price = [], ip_max_fee = [], ip_max_prio = [], ip_format = [],
        ip_type = [], ip_biz_id = [], ip_biz_type = [], ip_idem = [], ip_replaces = [], ip_signed_raw = [],
        ip_status = None\<rparr> sent_db)))"

theorem status_changes_logged_witness:
  "change_log (snd (MarkReplacedSiblings 1 50 ''0xA1'' 7 ''0xH9'' rival_db)) = [(''0xh7'', StatusPending, StatusReplaced)] \<and>
   change_log (snd (TransitionStatus 1 50 ''0xH9'' StatusConfirmed 5 3 21000 [] rival_db)) = [(''0xh9'', StatusPending, StatusConfirmed)]"
proof -
  let ?r = "trackers rival_db ! 1"
  have v: "trackers_ok rival_db \<and> length (trackers rival_db) = 2 \<and> tr_chain ?r = 1 \<and> sql_eq (tr_hash ?r) ''0xH9'' \<and>
      tr_status ?r = StatusPending \<and> change_log rival_db = [] \<and> to_lower ''0xH9'' = ''0xh9'' \<and>
      map (\<lambda>x. (to_lower (tr_hash x), StatusPending, StatusReplaced)) (filter (\<lambda>x. tr_chain x = 1 \<and> sql_eq (tr_from x) ''0xA1'' \<and>
        tr_nonce x = 7 \<and> \<not> sql_eq (tr_hash x) ''0xH9'' \<and> tr_status x = StatusPending) (trackers rival_db)) =
        [(''0xh7'', StatusPending, StatusReplaced)]" by code_simp
  then have "?r \<in> set (trackers rival_db)" by simp
  then show ?thesis
    using status_changes_logged [of rival_db ?r 1 "''0xH9''" 21000 50 "''0xA1''" 7 "''0xH9''" StatusConfirmed 5 3 "[]"] v
    by (simp add: Let_def)
qed

subsection \<open>The outbox of status changes\<close>

text \<open>C20: A claim of the status outbox hands out at most the given number of ready rows, the oldest first, and marks them; two
  claims, of any sizes and at any times, never hand out the same row.\<close>

theorem outbox_claims_disjoint:
  assumes "0 \<le> n"
  shows "int (length (txo_claim_rows now n d)) \<le> n \<and>
    (\<forall>r q. r \<in> set (tx_outbox d) \<and> txo_ready now r \<and> r \<notin> set (txo_claim_rows now n d) \<and> q \<in> set (txo_claim_rows now n d) \<longrightarrow>
      txo_id q \<le> txo_id r) \<and>
    txo_id ` set (txo_claim_rows now n d) \<inter>
      txo_id ` set (txo_claim_rows now' m (snd (TxClaimOutboxBatch now n d))) = {}"
  using txo.claim_bound [OF assms, of now d] txo.claim_exclusive [of now n d now' m] txo.claim_oldest_first [of _ d now n]
  by auto

definition outbox_db :: db where
  "outbox_db = snd (MarkReplacedSiblings 1 50 ''0xa1'' 7 ''0xff'' sent_db)"

theorem outbox_claims_disjoint_witness:
  "length (txo_claim_rows 60 10 outbox_db) = 1 \<and>
   txo_id ` set (txo_claim_rows 60 10 outbox_db) \<inter>
     txo_id ` set (txo_claim_rows 70 10 (snd (TxClaimOutboxBatch 60 10 outbox_db))) = {}"
proof -
  have v: "length (txo_claim_rows 60 10 outbox_db) = 1" by code_simp
  show ?thesis using outbox_claims_disjoint [of 10 60 outbox_db 70 10] v by simp
qed

subsection \<open>Signing\<close>

text \<open>A raw transaction survives printing and reading: what is stored in the tracker decodes to the transaction that was
  signed, if go-ethereum's own encoding round-trips.\<close>

theorem raw_tx_roundtrip:
  assumes "rlp_ok (bk_geth b)" "SignedTxToHex b tx = Inr h"
  shows "DecodeRawTxHex b h = Inr tx"
  by (rule DecodeRawTxHex_SignedTxToHex [OF assms])

theorem raw_tx_roundtrip_witness: "DecodeRawTxHex backend0 ''0x01ff'' = Inr tx0"
proof -
  have g: "rlp_ok (bk_geth backend0)" by (simp add: backend0_def rlp_ok_geth0)
  have h: "SignedTxToHex backend0 tx0 = Inr ''0x01ff''" by code_simp
  show ?thesis by (rule raw_tx_roundtrip [OF g h])
qed

text \<open>C22: The description that the reader of raw transactions derives from a signed ERC-20 transfer is the one the signer gave,
  with the transferred amount in the place of the signer's value: the two ways into the tracker agree on sender, token, recipient,
  nonce, gas and prices. The amount is what the ABI encoding keeps of it, its low 256 bits: the amount itself below
  \<open>2^256\<close>, less than it from there on. It is assumed that signing keeps a transaction's fields, and of the ABI encoder that it
  writes the layout of \<open>pack_ok\<close>.\<close>

theorem erc20_descriptions_agree:
  assumes "sign_ok (bk_geth b)" "pack_ok (bk_geth b)" "SignERC20Transfer b key token to (Some amt) nonce e = Inr (stx, r)"
  shows "SendResultFromSigned (bk_geth b) stx (bk_chain b) = Inr (r\<lparr>sr_value := amt mod 2 ^ 256\<rparr>)"
  by (rule SignERC20Transfer_describes [OF assms])

theorem erc20_descriptions_agree_witness:
  "(\<exists>stx r. SignERC20Transfer backend0 ''k'' 9 3 (Some 1000) 7 True = Inr (stx, r) \<and>
     SendResultFromSigned geth0 stx 1 = Inr (r\<lparr>sr_value := 1000\<rparr>)) \<and>
   (\<exists>stx r. SignERC20Transfer backend0 ''k'' 9 3 (Some (2 ^ 256 + 5)) 7 True = Inr (stx, r) \<and>
     SendResultFromSigned geth0 stx 1 = Inr (r\<lparr>sr_value := 5\<rparr>))"
proof -
  have g: "sign_ok (bk_geth backend0)" "pack_ok (bk_geth backend0)" by (simp_all add: backend0_def sign_ok_geth0 pack_ok_geth0)
  have "(case SignERC20Transfer backend0 ''k'' 9 3 (Some 1000) 7 True of Inl _ \<Rightarrow> False | Inr _ \<Rightarrow> True) \<and>
    (case SignERC20Transfer backend0 ''k'' 9 3 (Some (2 ^ 256 + 5)) 7 True of Inl _ \<Rightarrow> False | Inr _ \<Rightarrow> True)" by code_simp
  then obtain stx r stx' r' where s: "SignERC20Transfer backend0 ''k'' 9 3 (Some 1000) 7 True = Inr (stx, r)"
    "SignERC20Transfer backend0 ''k'' 9 3 (Some (2 ^ 256 + 5)) 7 True = Inr (stx', r')"
    by (auto split: sum.splits)
  have b: "bk_geth backend0 = geth0" "bk_chain backend0 = 1" by (simp_all add: backend0_def)
  have "(2 ^ 256 + 5) mod 2 ^ 256 = (5 :: int)" "1000 mod 2 ^ 256 = (1000 :: int)" by simp_all
  then show ?thesis
    using erc20_descriptions_agree [OF g s(1)] erc20_descriptions_agree [OF g s(2)] s unfolding b by metis
qed





text \<open>The signer hands out its key only for the address the key controls; the stub never does.\<close>

theorem key_only_for_own_address:
  assumes "\<forall>a. AddressHex g a \<noteq> []" "PrivateKey (NewSigner g cfg) addr = Inr key"
  shows "equal_fold (AddressHex g (PubkeyToAddress g key)) addr"
  by (rule PrivateKey_NewSigner [OF assms])

theorem key_only_for_own_address_witness:
  "PrivateKey (NewSigner geth0 cfg0) ''0xa1'' = Inr ''k'' \<and> equal_fold (AddressHex geth0 (PubkeyToAddress geth0 ''k'')) ''0xa1''"
proof -
  have a: "\<forall>a. AddressHex geth0 a \<noteq> []" by (simp add: geth0_def)
  have k: "PrivateKey (NewSigner geth0 cfg0) ''0xa1'' = Inr ''k''" by code_simp
  show ?thesis using key_only_for_own_address [OF a k] k by simp
qed

text \<open>C25: A replacement of a native transfer keeps the recipient, the value, the nonce and the gas limit of the one it replaces, and
  its price is what the node suggests now, raised by the configured percentage (20 if none is set) and rounded down: the gas
  price of a legacy transaction, the tip of an EIP-1559 one, whose fee cap is twice the base fee plus that tip. The percentage
  is to be below \<open>2^63 - 100\<close>: from there on \<open>100 + percentage\<close> overflows and the price turns negative
  (\<open>bump_mult_wraps\<close>). Signing is assumed to keep a transaction's fields.\<close>

theorem speed_up_price:
  assumes "SignSpeedUpNative b key to v nonce gas pct e = Inr (stx, r)" "sign_ok (bk_geth b)" "pct < 2 ^ 63 - 100"
  shows "let t = stx_data stx; pc = (if pct \<le> 0 then 20 else pct) in
    td_to t = Some to \<and> td_value t = v \<and> td_nonce t = nonce \<and> td_gas t = gas \<and>
    (if e then \<exists>p bf. rpcSuggestGasTipCap (bk_node b) = Inr p \<and> rpcHeaderBaseFee (bk_node b) = Inr bf \<and>
         td_tip t = p * (100 + pc) div 100 \<and> td_fee_cap t = 2 * (case bf of None \<Rightarrow> 0 | Some f \<Rightarrow> f) + td_tip t
     else \<exists>p. rpcSuggestGasPrice (bk_node b) = Inr p \<and> td_gas_price t = p * (100 + pc) div 100)"
proof -
  obtain t where "SignTx (bk_geth b) t (bk_chain b) key = Inr stx"
    "td_nonce t = nonce" "td_gas t = gas" "td_to t = Some to" "td_value t = v"
    "if e then \<exists>p bf. rpcSuggestGasTipCap (bk_node b) = Inr p \<and> rpcHeaderBaseFee (bk_node b) = Inr bf \<and>
         td_tip t = bump_price (bump_mult pct) p \<and>
         td_fee_cap t = 2 * (case bf of None \<Rightarrow> 0 | Some f \<Rightarrow> f) + td_tip t
     else \<exists>p. rpcSuggestGasPrice (bk_node b) = Inr p \<and> td_gas_price t = bump_price (bump_mult pct) p"
    using assms(1) by (rule SignSpeedUpNativeE)
  moreover from this(1) have "stx_data stx = t" using assms(2) by (simp add: sign_ok_def)
  ultimately show ?thesis by (simp only: Let_def bump_price_def bump_mult_exact [OF assms(3)] simp_thms)
qed

theorem speed_up_price_witness:
  "\<exists>stx r. SignSpeedUpNative backend0 ''k'' 2 5 7 21000 50 False = Inr (stx, r) \<and> td_nonce (stx_data stx) = 7 \<and>
     td_gas_price (stx_data stx) = 4"
proof -
  have "(case SignSpeedUpNative backend0 ''k'' 2 5 7 21000 50 False of Inl _ \<Rightarrow> False | Inr _ \<Rightarrow> True)" by code_simp
  then obtain stx r where s: "SignSpeedUpNative backend0 ''k'' 2 5 7 21000 50 False = Inr (stx, r)" by (auto split: sum.splits)
  have g: "sign_ok (bk_geth backend0)" by (simp add: backend0_def sign_ok_geth0)
  have n: "rpcSuggestGasPrice (bk_node backend0) = Inr 3" by (simp add: backend0_def node0_def)
  show ?thesis using speed_up_price [OF s g] s n by (auto simp: Let_def)
qed

end
