(* ===== verification/Webhook_Store.thy ===== *)
theory Webhook_Store
  imports Outbox Exchange_Store
begin

text \<open>
  \<open>internal/webhook/store.go\<close> and \<open>types.go\<close>: merchants, the bindings of paying users to
  merchants, the outbox of events with its claims, the audit of deliveries and the
  payments. The first argument is the store's \<open>chainID\<close>. The bindings of a payer
  are returned without an \<open>ORDER BY\<close>; here they come in the order of the table.
\<close>

subsection \<open>Types\<close>

record merchant =
  mc_chain :: int
  mc_id :: string
  mc_name :: string
  mc_url :: string
  mc_ledger_user :: string
  mc_enabled :: bool
  mc_created :: time
  mc_updated :: time

record wh_item =
  wi_id :: int
  wi_chain :: int
  wi_merchant :: string
  wi_event :: string
  wi_idem :: string
  wi_payload :: wh_payload
  wi_status :: outbox_status
  wi_retries :: nat
  wi_next_retry :: time
  wi_created :: time

record delivery =
  dl_id :: int
  dl_outbox :: int
  dl_merchant :: string
  dl_attempt :: int
  dl_http :: int
  dl_latency :: int
  dl_response :: string
  dl_error :: string
  dl_created :: time

record payment =
  py_id :: int
  py_chain :: int
  py_merchant :: string
  py_order :: string
  py_payer :: string
  py_token :: string
  py_amount :: string
  py_status :: string
  py_idem :: string
  py_created :: time

definition EventDepositConfirmed :: string where
  "EventDepositConfirmed = ''deposit.confirmed''"

definition EventPaymentSuccess :: string where
  "EventPaymentSuccess = ''payment.success''"

subsection \<open>Merchants\<close>

definition merchant_match :: "int \<Rightarrow> string \<Rightarrow> merchant_row \<Rightarrow> bool" where
  "merchant_match ch i r \<longleftrightarrow> mer_chain r = ch \<and> sql_eq (mer_id r) i"

text \<open>An empty secret in the statement leaves the stored one; under the collation blanks
  are as good as nothing.\<close>

definition UpsertMerchant :: "int \<Rightarrow> time \<Rightarrow> merchant \<Rightarrow> string \<Rightarrow> unit dbtx" where
  "UpsertMerchant ch now m secret =
     modT (\<lambda>d. d\<lparr>merchants := upsert_where (merchant_match ch (mc_id m))
       (\<lambda>r. r\<lparr>mer_name := mc_name m, mer_url := mc_url m,
          mer_secret := (if sql_eq secret [] then mer_secret r else secret),
          mer_ledger_user := mc_ledger_user m, mer_enabled := mc_enabled m, mer_updated := now\<rparr>)
       \<lparr>mer_chain = ch, mer_id = mc_id m, mer_name = mc_name m, mer_url = mc_url m, mer_secret = secret,
        mer_ledger_user = mc_ledger_user m, mer_enabled = mc_enabled m, mer_created = now, mer_updated = now\<rparr>
       (merchants d)\<rparr>)"

definition scan_merchant :: "merchant_row \<Rightarrow> merchant" where
  "scan_merchant r = \<lparr>mc_chain = mer_chain r, mc_id = mer_id r, mc_name = mer_name r, mc_url = mer_url r,
     mc_ledger_user = mer_ledger_user r, mc_enabled = mer_enabled r, mc_created = mer_created r,
     mc_updated = mer_updated r\<rparr>"

definition GetMerchant :: "int \<Rightarrow> string \<Rightarrow> db \<Rightarrow> (merchant \<times> string) res" where
  "GetMerchant ch i d = (case List.find (merchant_match ch i) (merchants d) of
     None \<Rightarrow> Inl ErrNoRows | Some r \<Rightarrow> Inr (scan_merchant r, mer_secret r))"

definition ListMerchants :: "int \<Rightarrow> int \<Rightarrow> db \<Rightarrow> merchant list" where
  "ListMerchants ch limit d = map scan_merchant (sql_limit (clamp_limit 200 50 limit)
     (sort_key (\<lambda>r. coll (mer_id r)) (filter (\<lambda>r. mer_chain r = ch) (merchants d))))"

subsection \<open>Bindings\<close>

definition binding_match :: "int \<Rightarrow> string \<Rightarrow> string \<Rightarrow> binding \<Rightarrow> bool" where
  "binding_match ch m p b \<longleftrightarrow> bind_chain b = ch \<and> sql_eq (bind_merchant b) m \<and> sql_eq (bind_payer b) p"

definition StoreAddBinding :: "int \<Rightarrow> time \<Rightarrow> string \<Rightarrow> string \<Rightarrow> unit dbtx" where
  "StoreAddBinding ch now m p = (\<lambda>d.
     let (err, d') =
       (if List.find (binding_match ch m p) (bindings d) \<noteq> None then (Some (ErrDupEntry ''webhook_bindings.PRIMARY''), d)
        else (None, d\<lparr>bindings := bindings d @
          [\<lparr>bind_chain = ch, bind_merchant = m, bind_payer = p, bind_created = now\<rparr>]\<rparr>))
     in if isDup err then (Inl ErrDuplicateBinding, d')
        else case err of None \<Rightarrow> (Inr (), d') | Some e \<Rightarrow> (Inl e, d'))"

definition ListBindingsByPayer :: "int \<Rightarrow> string \<Rightarrow> db \<Rightarrow> binding list" where
  "ListBindingsByPayer ch p d = filter (\<lambda>b. bind_chain b = ch \<and> sql_eq (bind_payer b) p) (bindings d)"

subsection \<open>The outbox\<close>

definition who_idem_match :: "int \<Rightarrow> string \<Rightarrow> wh_outbox_row \<Rightarrow> bool" where
  "who_idem_match ch k r \<longleftrightarrow> who_chain r = ch \<and> sql_eq (who_idem r) k"

definition insert_outbox_stmt ::
  "int \<Rightarrow> time \<Rightarrow> string \<Rightarrow> string \<Rightarrow> string \<Rightarrow> wh_payload \<Rightarrow> db \<Rightarrow> go_error option \<times> db" where
  "insert_outbox_stmt ch now merchantID eventType idemKey payload d =
     (let i = ai_wh_outbox (ctrs d); d1 = d\<lparr>ctrs := (ctrs d)\<lparr>ai_wh_outbox := i + 1\<rparr>\<rparr> in
      if List.find (who_idem_match ch idemKey) (wh_outbox d) \<noteq> None
      then (Some (ErrDupEntry ''webhook_outbox.uk_webhook_idem''), d1)
      else (None, d1\<lparr>wh_outbox := wh_outbox d @
        [\<lparr>who_id = i, who_chain = ch, who_merchant = merchantID, who_event = eventType, who_idem = idemKey,
          who_payload = payload, who_status = ObPending, who_retries = 0, who_next_retry = now,
          who_created = now, who_updated = now\<rparr>]\<rparr>))"

definition InsertOutboxTx ::
  "int \<Rightarrow> time \<Rightarrow> string \<Rightarrow> string \<Rightarrow> string \<Rightarrow> wh_payload \<Rightarrow> bool dbtx" where
  "InsertOutboxTx ch now merchantID eventType idemKey payload = (\<lambda>d.
     let (err, d') = insert_outbox_stmt ch now merchantID eventType idemKey payload d in
     if isDup err then (Inr False, d')
     else case err of Some e \<Rightarrow> (Inl e, d') | None \<Rightarrow> (Inr True, d'))"

definition scan_wh_item :: "wh_outbox_row \<Rightarrow> wh_item" where
  "scan_wh_item r = \<lparr>wi_id = who_id r, wi_chain = who_chain r, wi_merchant = who_merchant r, wi_event = who_event r,
     wi_idem = who_idem r, wi_payload = who_payload r, wi_status = who_status r, wi_retries = who_retries r,
     wi_next_retry = who_next_retry r, wi_created = who_created r\<rparr>"

definition who_ready :: "int \<Rightarrow> time \<Rightarrow> wh_outbox_row \<Rightarrow> bool" where
  "who_ready ch now r \<longleftrightarrow> who_chain r = ch \<and> who_status r = ObPending \<and> who_next_retry r \<le> now"

definition who_claim_rows :: "int \<Rightarrow> time \<Rightarrow> int \<Rightarrow> db \<Rightarrow> wh_outbox_row list" where
  "who_claim_rows ch now limit d = sql_limit limit (sort_key who_id (filter (who_ready ch now) (wh_outbox d)))"

definition WhClaimOutboxBatch :: "int \<Rightarrow> time \<Rightarrow> int \<Rightarrow> (wh_item list) dbtx" where
  "WhClaimOutboxBatch ch now limit = run_tx (
     bindT (getT (who_claim_rows ch now limit)) (\<lambda>rows.
     bindT (forT (map who_id rows) (\<lambda>i. modT (\<lambda>d. d\<lparr>wh_outbox := upd_where (\<lambda>r. who_id r = i)
       (\<lambda>r. r\<lparr>who_status := ObProcessing, who_updated := now\<rparr>) (wh_outbox d)\<rparr>))) (\<lambda>_.
     retT (map scan_wh_item rows))))"

definition WhMarkOutboxDone :: "time \<Rightarrow> int \<Rightarrow> unit dbtx" where
  "WhMarkOutboxDone now i =
     modT (\<lambda>d. d\<lparr>wh_outbox := upd_where (\<lambda>r. who_id r = i)
       (\<lambda>r. r\<lparr>who_status := ObDone, who_updated := now\<rparr>) (wh_outbox d)\<rparr>)"

definition WhMarkOutboxRetry :: "time \<Rightarrow> int \<Rightarrow> nat \<Rightarrow> time \<Rightarrow> bool \<Rightarrow> unit dbtx" where
  "WhMarkOutboxRetry now i retryCount nxt fail =
     (let status = (if fail then ObFailed else ObPending) in
      modT (\<lambda>d. d\<lparr>wh_outbox := upd_where (\<lambda>r. who_id r = i)
        (\<lambda>r. r\<lparr>who_status := status, who_retries := retryCount, who_next_retry := nxt, who_updated := now\<rparr>)
        (wh_outbox d)\<rparr>))"

definition WhCountOutboxByStatus :: "int \<Rightarrow> outbox_status \<Rightarrow> db \<Rightarrow> nat" where
  "WhCountOutboxByStatus ch st d = length (filter (\<lambda>r. who_chain r = ch \<and> who_status r = st) (wh_outbox d))"

definition GetOutboxByID :: "int \<Rightarrow> int \<Rightarrow> db \<Rightarrow> wh_item res" where
  "GetOutboxByID ch i d = (case List.find (\<lambda>r. who_chain r = ch \<and> who_id r = i) (wh_outbox d) of
     None \<Rightarrow> Inl ErrOutboxNotFound | Some r \<Rightarrow> Inr (scan_wh_item r))"

definition RequeueOutbox :: "int \<Rightarrow> time \<Rightarrow> int \<Rightarrow> unit dbtx" where
  "RequeueOutbox ch now i = (\<lambda>d.
     let p = (\<lambda>r. who_chain r = ch \<and> who_id r = i \<and> who_status r \<in> {ObFailed, ObProcessing});
         f = (\<lambda>r. r\<lparr>who_status := ObPending, who_next_retry := now, who_updated := now\<rparr>);
         n = rows_affected p f (wh_outbox d);
         d' = d\<lparr>wh_outbox := upd_where p f (wh_outbox d)\<rparr>
     in if n = 0 then (Inl ErrOutboxNotFound, d') else (Inr (), d'))"

subsection \<open>Deliveries\<close>

definition InsertDelivery ::
  "int \<Rightarrow> time \<Rightarrow> int \<Rightarrow> string \<Rightarrow> int \<Rightarrow> int \<Rightarrow> int \<Rightarrow> string \<Rightarrow> string \<Rightarrow> unit dbtx" where
  "InsertDelivery ch now outboxID merchantID attempt httpStatus latencyMS respBody errMsg =
     modT (\<lambda>d. d\<lparr>ctrs := (ctrs d)\<lparr>ai_deliveries := ai_deliveries (ctrs d) + 1\<rparr>,
       deliveries := deliveries d @
         [\<lparr>del_id = ai_deliveries (ctrs d), del_chain = ch, del_outbox = outboxID, del_merchant = merchantID,
           del_attempt = attempt, del_http = httpStatus, del_latency = latencyMS,
           del_response = nullStr (take 500 respBody), del_error = nullStr (take 500 errMsg),
           del_created = now\<rparr>]\<rparr>)"

definition scan_delivery :: "delivery_row \<Rightarrow> delivery" where
  "scan_delivery r = \<lparr>dl_id = del_id r, dl_outbox = del_outbox r, dl_merchant = del_merchant r,
     dl_attempt = del_attempt r, dl_http = del_http r, dl_latency = del_latency r,
     dl_response = fromNull (del_response r), dl_error = fromNull (del_error r), dl_created = del_created r\<rparr>"

definition ListDeliveries :: "int \<Rightarrow> string \<Rightarrow> int \<Rightarrow> db \<Rightarrow> delivery list" where
  "ListDeliveries ch merchantID limit d = map scan_delivery (sql_limit (clamp_limit 200 50 limit)
     (rev (sort_key del_id (filter (\<lambda>r. del_chain r = ch \<and> (merchantID \<noteq> [] \<longrightarrow> sql_eq (del_merchant r) merchantID))
       (deliveries d)))))"

subsection \<open>Payments\<close>

definition payment_conflict :: "int \<Rightarrow> payment \<Rightarrow> payment_row \<Rightarrow> bool" where
  "payment_conflict ch p r \<longleftrightarrow> pay_chain r = ch \<and>
     ((sql_eq (pay_merchant r) (py_merchant p) \<and> sql_eq (pay_order r) (py_order p)) \<or> sql_eq (pay_idem r) (py_idem p))"

definition insert_payment_stmt :: "int \<Rightarrow> time \<Rightarrow> payment \<Rightarrow> db \<Rightarrow> (go_error + int) \<times> db" where
  "insert_payment_stmt ch now p d =
     (let i = ai_payments (ctrs d); d1 = d\<lparr>ctrs := (ctrs d)\<lparr>ai_payments := i + 1\<rparr>\<rparr> in
      if List.find (payment_conflict ch p) (payments d) \<noteq> None
      then (Inl (ErrDupEntry ''merchant_payments''), d1)
      else (Inr i, d1\<lparr>payments := payments d @
        [\<lparr>pay_id = i, pay_chain = ch, pay_merchant = py_merchant p, pay_order = py_order p, pay_payer = py_payer p,
          pay_token = py_token p, pay_amount = py_amount p, pay_status = ''completed'', pay_idem = py_idem p,
          pay_created = now\<rparr>]\<rparr>))"

definition InsertPaymentTx :: "int \<Rightarrow> time \<Rightarrow> payment \<Rightarrow> (int \<times> bool) dbtx" where
  "InsertPaymentTx ch now p = (\<lambda>d. case insert_payment_stmt ch now p d of
     (Inl e, d') \<Rightarrow> if isDup (Some e) then (Inl ErrDuplicatePayment, d') else (Inl e, d')
   | (Inr i, d') \<Rightarrow> (Inr (i, True), d'))"

subsection \<open>The load test\<close>

definition fmtBenchKey :: "int \<Rightarrow> nat \<Rightarrow> string" where
  "fmtBenchKey nano i = ''bench:'' @ int_str nano @ '':'' @ nat_str i"

fun bench_loop :: "int \<Rightarrow> time \<Rightarrow> int \<Rightarrow> string \<Rightarrow> string \<Rightarrow> nat list \<Rightarrow> nat \<Rightarrow> nat dbtx" where
  "bench_loop ch now nano merchantID eventType [] inserted = retT inserted"
| "bench_loop ch now nano merchantID eventType (i # is) inserted =
     bindT (InsertOutboxTx ch now merchantID eventType (fmtBenchKey nano i) (WhBench eventType merchantID (int i)))
       (\<lambda>ok. bench_loop ch now nano merchantID eventType is (if ok then inserted + 1 else inserted))"

text \<open>\<open>nano\<close> is the time in nanoseconds, read once.\<close>

definition StoreBenchEnqueue :: "int \<Rightarrow> time \<Rightarrow> int \<Rightarrow> string \<Rightarrow> string \<Rightarrow> int \<Rightarrow> nat dbtx" where
  "StoreBenchEnqueue ch now nano merchantID eventType n =
     bindT (readT (GetMerchant ch merchantID)) (\<lambda>(m, _).
     if \<not> mc_enabled m then failT ErrMerchantDisabled
     else run_tx (bench_loop ch now nano merchantID eventType [0..<nat n] 0))"

subsection \<open>The outbox keeps the contract\<close>

lemma fold_wh_outbox:
  "fold (\<lambda>i d. d\<lparr>wh_outbox := f i (wh_outbox d)\<rparr>) ids d = d\<lparr>wh_outbox := fold f ids (wh_outbox d)\<rparr>"
  by (induction ids arbitrary: d) simp_all

lemma WhClaimOutboxBatch_eq:
  "WhClaimOutboxBatch ch now n d =
     (Inr (map scan_wh_item (who_claim_rows ch now n d)),
      d\<lparr>wh_outbox := upd_where (\<lambda>r. who_id r \<in> who_id ` set (who_claim_rows ch now n d))
         (\<lambda>r. r\<lparr>who_status := ObProcessing, who_updated := now\<rparr>) (wh_outbox d)\<rparr>)"
proof -
  have "fold (\<lambda>i d. d\<lparr>wh_outbox := upd_where (\<lambda>r. who_id r = i)
      (\<lambda>r. r\<lparr>who_status := ObProcessing, who_updated := now\<rparr>) (wh_outbox d)\<rparr>) ids d =
    d\<lparr>wh_outbox := upd_where (\<lambda>r. who_id r \<in> set ids)
      (\<lambda>r. r\<lparr>who_status := ObProcessing, who_updated := now\<rparr>) (wh_outbox d)\<rparr>" for ids
    by (subst fold_wh_outbox) (simp add: fold_upd_where_ids)
  then show ?thesis
    by (simp add: WhClaimOutboxBatch_def run_tx_def bindT_apply forT_modT)
qed

interpretation who: outbox wh_outbox who_id who_status "who_ready ch"
  "\<lambda>now n d. (who_claim_rows ch now n d, snd (WhClaimOutboxBatch ch now n d))"
  "\<lambda>now r. r\<lparr>who_status := ObProcessing, who_updated := now\<rparr>"
  "\<lambda>now i d. snd (WhMarkOutboxDone now i d)"
  "\<lambda>now r. r\<lparr>who_status := ObDone, who_updated := now\<rparr>" for ch
  by unfold_locales
    (simp_all add: who_ready_def who_claim_rows_def WhClaimOutboxBatch_eq WhMarkOutboxDone_def)

lemma InsertOutboxTx_eq:
  "InsertOutboxTx ch now m ev k p d =
     (let i = ai_wh_outbox (ctrs d); d1 = d\<lparr>ctrs := (ctrs d)\<lparr>ai_wh_outbox := i + 1\<rparr>\<rparr> in
      if \<exists>r\<in>set (wh_outbox d). who_idem_match ch k r then (Inr False, d1)
      else (Inr True, d1\<lparr>wh_outbox := wh_outbox d @
        [\<lparr>who_id = i, who_chain = ch, who_merchant = m, who_event = ev, who_idem = k,
          who_payload = p, who_status = ObPending, who_retries = 0, who_next_retry = now,
          who_created = now, who_updated = now\<rparr>]\<rparr>))"
  by (auto simp: InsertOutboxTx_def insert_outbox_stmt_def Let_def find_None_iff_none)

lemma InsertPaymentTx_eq:
  "InsertPaymentTx ch now p d =
     (let i = ai_payments (ctrs d); d1 = d\<lparr>ctrs := (ctrs d)\<lparr>ai_payments := i + 1\<rparr>\<rparr> in
      if \<exists>r\<in>set (payments d). payment_conflict ch p r then (Inl ErrDuplicatePayment, d1)
      else (Inr (i, True), d1\<lparr>payments := payments d @
        [\<lparr>pay_id = i, pay_chain = ch, pay_merchant = py_merchant p, pay_order = py_order p, pay_payer = py_payer p,
          pay_token = py_token p, pay_amount = py_amount p, pay_status = ''completed'', pay_idem = py_idem p,
          pay_created = now\<rparr>]\<rparr>))"
  by (auto simp: InsertPaymentTx_def insert_payment_stmt_def Let_def find_None_iff_none)

subsection \<open>The invariant of the outbox\<close>

text \<open>Ids are below the counter and distinct, idempotency keys are distinct on each chain.\<close>

definition who_key :: "wh_outbox_row \<Rightarrow> int \<times> string" where
  "who_key r = (who_chain r, coll (who_idem r))"

definition wh_outbox_ok :: "db \<Rightarrow> bool" where
  "wh_outbox_ok d \<longleftrightarrow> distinct (map who_id (wh_outbox d)) \<and> distinct (map who_key (wh_outbox d)) \<and>
     (\<forall>r\<in>set (wh_outbox d). who_id r < ai_wh_outbox (ctrs d))"

lemma who_idem_match_key: "who_idem_match ch k r \<longleftrightarrow> who_key r = (ch, coll k)"
  by (auto simp: who_idem_match_def who_key_def sql_eq_def)

lemma wh_outbox_ok_upd:
  assumes "wh_outbox_ok d" "\<And>r. who_id (f r) = who_id r" "\<And>r. who_key (f r) = who_key r"
  shows "wh_outbox_ok (d\<lparr>wh_outbox := upd_where p f (wh_outbox d)\<rparr>)"
  using assms unfolding wh_outbox_ok_def
  by (auto simp: map_upd_where dest!: set_upd_where split: if_splits)

lemma InsertOutboxTx_ok:
  assumes "wh_outbox_ok d"
  shows "wh_outbox_ok (snd (InsertOutboxTx ch now m ev k p d))"
proof (cases "\<exists>r\<in>set (wh_outbox d). who_idem_match ch k r")
  case True
  then show ?thesis using assms by (force simp: InsertOutboxTx_eq Let_def wh_outbox_ok_def)
next
  case False
  then have "(ch, coll k) \<notin> who_key ` set (wh_outbox d)" by (auto simp: who_idem_match_key)
  then show ?thesis
    using assms False by (force simp: InsertOutboxTx_eq Let_def wh_outbox_ok_def who_key_def)
qed

lemma wh_outbox_marks_ok:
  assumes "wh_outbox_ok d"
  shows "wh_outbox_ok (snd (WhClaimOutboxBatch ch now n d))" "wh_outbox_ok (snd (WhMarkOutboxDone now i d))"
    "wh_outbox_ok (snd (WhMarkOutboxRetry now i rc nxt fl d))" "wh_outbox_ok (snd (RequeueOutbox ch now i d))"
  using assms
  by (auto simp: WhClaimOutboxBatch_eq WhMarkOutboxDone_def WhMarkOutboxRetry_def RequeueOutbox_def Let_def
      intro!: wh_outbox_ok_upd simp: who_key_def)

subsection \<open>Merchants are a keyed table\<close>

definition mer_view :: "merchant \<Rightarrow> string \<times> string \<times> string \<times> bool" where
  "mer_view m = (mc_name m, mc_url m, mc_ledger_user m, mc_enabled m)"

definition mer_key_eq :: "int \<times> string \<Rightarrow> int \<times> string \<Rightarrow> bool" where
  "mer_key_eq k k' \<longleftrightarrow> fst k = fst k' \<and> sql_eq (snd k) (snd k')"

definition mer_put :: "int \<times> string \<Rightarrow> merchant \<times> string \<times> time \<Rightarrow> db \<Rightarrow> db" where
  "mer_put k v d = (case v of (m, secret, now) \<Rightarrow> snd (UpsertMerchant (fst k) now (m\<lparr>mc_id := snd k\<rparr>) secret d))"

definition mer_look :: "db \<Rightarrow> int \<times> string \<Rightarrow> (string \<times> string \<times> string \<times> bool) option" where
  "mer_look d k = (case GetMerchant (fst k) (snd k) d of Inl _ \<Rightarrow> None | Inr (m, _) \<Rightarrow> Some (mer_view m))"

lemma mer_look_find:
  "mer_look d k = map_option (\<lambda>r. mer_view (scan_merchant r)) (List.find (merchant_match (fst k) (snd k)) (merchants d))"
  by (simp add: mer_look_def GetMerchant_def split: option.splits)

lemma merchant_match_cong: "sql_eq i i' \<Longrightarrow> merchant_match ch i = merchant_match ch i'"
  by (auto simp: merchant_match_def sql_eq_def fun_eq_iff)

interpretation mer_tbl: keyed_table mer_key_eq mer_put "\<lambda>v. mer_view (fst v)" mer_look
proof unfold_locales
  fix k :: "int \<times> string" and v :: "merchant \<times> string \<times> time" and d k'
  obtain m secret now where v: "v = (m, secret, now)" by (cases v) auto
  show "mer_look (mer_put k v d) k' = (if mer_key_eq k k' then Some (mer_view (fst v)) else mer_look d k')"
  proof (cases "mer_key_eq k k'")
    case True
    then have "merchant_match (fst k') (snd k') = merchant_match (fst k) (snd k)"
      using merchant_match_cong [of "snd k" "snd k'" "fst k"] by (simp add: mer_key_eq_def)
    then show ?thesis using True
      by (simp add: mer_look_find mer_put_def v UpsertMerchant_def)
        (subst find_upsert_same, auto simp: merchant_match_def scan_merchant_def mer_view_def split: option.split)
  next
    case False
    have "\<not> merchant_match (fst k') (snd k') r" if "merchant_match (fst k) (snd k) r" for r
      using that False by (auto simp: merchant_match_def mer_key_eq_def sql_eq_def)
    then show ?thesis using False
      by (subst (1 2) mer_look_find, simp add: mer_put_def v UpsertMerchant_def)
        (subst find_upsert_other, auto simp: merchant_match_def mer_key_eq_def sql_eq_def)
  qed
qed

end
