(* ===== verification/Webhook_Service.thy ===== *)
theory Webhook_Service
  imports Webhook_Store Exchange_System
begin

text \<open>
  \<open>internal/webhook/service.go\<close>, \<open>worker.go\<close>, \<open>dispatcher.go\<close>, \<open>sign.go\<close> and the counters of
  \<open>metrics.go\<close>: merchants are told of the deposits of the users bound to them and of the
  payments they receive. An event is written to the outbox in the transaction of its cause;
  workers claim events, post them and mark them.

  The state is the database with the counters of the process, which a rollback leaves alone.
  The HTTP client, HMAC-SHA256, the JSON text of a payload column and the measured latency are the
  fields of \<open>wh_client\<close>. The rates that \<open>Snapshot\<close> computes in floating point are not modelled.
\<close>

subsection \<open>Metrics\<close>

record metrics =
  met_delivered :: u64
  met_failed :: u64
  met_duplicates :: u64
  met_enqueue :: u64
  met_samples :: "int list"
  met_window_start :: time
  met_window_count :: u64

definition NewMetrics :: "time \<Rightarrow> metrics" where
  "NewMetrics now = \<lparr>met_delivered = 0, met_failed = 0, met_duplicates = 0, met_enqueue = 0, met_samples = [],
     met_window_start = now, met_window_count = 0\<rparr>"

definition recordLatency :: "int \<Rightarrow> metrics \<Rightarrow> metrics" where
  "recordLatency ms m =
     (let s = met_samples m @ [ms] in
      m\<lparr>met_samples := (if length s > 10000 then drop (length s - 10000) s else s)\<rparr>)"

definition RecordDelivered :: "int \<Rightarrow> metrics \<Rightarrow> metrics" where
  "RecordDelivered ms m =
     recordLatency ms (m\<lparr>met_delivered := met_delivered m + 1, met_window_count := met_window_count m + 1\<rparr>)"

definition RecordFailed :: "metrics \<Rightarrow> metrics" where
  "RecordFailed m = m\<lparr>met_failed := met_failed m + 1\<rparr>"

definition RecordDuplicate :: "metrics \<Rightarrow> metrics" where
  "RecordDuplicate m = m\<lparr>met_duplicates := met_duplicates m + 1\<rparr>"

definition RecordEnqueue :: "metrics \<Rightarrow> metrics" where
  "RecordEnqueue m = m\<lparr>met_enqueue := met_enqueue m + 1\<rparr>"

definition ResetWindow :: "time \<Rightarrow> metrics \<Rightarrow> metrics" where
  "ResetWindow now m = m\<lparr>met_window_start := now, met_window_count := 0\<rparr>"

text \<open>The index is computed in floating point; for the at most 10000 samples that are kept
  \<open>int(float64(n) * 0.99)\<close> is the integer quotient below.\<close>

definition P99LatencyMS :: "metrics \<Rightarrow> int" where
  "P99LatencyMS m =
     (let s = sort (met_samples m); n = length s; idx = 99 * n div 100 in
      if n = 0 then 0 else s ! (if n \<le> idx then n - 1 else idx))"

subsection \<open>Signatures\<close>

record http_response =
  hr_status :: int
  hr_body :: string

record wh_client =
  wc_hmac :: "string \<Rightarrow> string \<Rightarrow> 8 word list"
  wc_http :: "string \<Rightarrow> (string \<times> string) list \<Rightarrow> string \<Rightarrow> http_response res"
  wc_json :: "wh_payload \<Rightarrow> string"
  wc_latency :: int

definition signPayload :: "wh_client \<Rightarrow> string \<Rightarrow> int \<Rightarrow> string \<Rightarrow> string" where
  "signPayload c secret ts body = hex_encode (wc_hmac c secret (int_str ts @ ''.'' @ body))"

definition verifySignature :: "wh_client \<Rightarrow> string \<Rightarrow> int \<Rightarrow> string \<Rightarrow> string \<Rightarrow> bool" where
  "verifySignature c secret ts body sig =
     (if secret = [] \<or> sig = [] then False else signPayload c secret ts body = sig)"

definition signatureHeaders :: "wh_client \<Rightarrow> time \<Rightarrow> string \<Rightarrow> string \<Rightarrow> (string \<times> string) list \<times> int" where
  "signatureHeaders c now secret body =
     (let ts = now div 1000 in
      ([(''X-Webhook-Timestamp'', int_str ts),
        (''X-Webhook-Signature'', ''sha256='' @ signPayload c secret ts body),
        (''Content-Type'', ''application/json'')], ts))"

subsection \<open>Posting\<close>

record dispatch_result =
  dr_http :: int
  dr_latency :: int
  dr_body :: string
  dr_err :: "go_error option"

text \<open>\<open>strings.Index\<close>: the text from the first occurrence on, or nothing.\<close>

fun str_from :: "string \<Rightarrow> string \<Rightarrow> string option" where
  "str_from s [] = Some s"
| "str_from [] (c # cs) = None"
| "str_from (x # xs) (c # cs) = (if has_prefix (x # xs) (c # cs) then Some (x # xs) else str_from xs (c # cs))"

definition parseEventType :: "string \<Rightarrow> string" where
  "parseEventType body =
     (case str_from body (CHR 0x22 # ''event_type'' @ [CHR 0x22]) of
        None \<Rightarrow> ''webhook''
      | Some rest \<Rightarrow>
          (case str_from rest '':'' of
             None \<Rightarrow> ''webhook''
           | Some rest1 \<Rightarrow>
               (case trim_space (drop 1 rest1) of
                  [] \<Rightarrow> ''webhook''
                | q # rest2 \<Rightarrow>
                    if q = CHR 0x22 \<and> CHR 0x22 \<in> set rest2 then takeWhile (\<lambda>c. c \<noteq> CHR 0x22) rest2
                    else ''webhook'')))"

definition Post :: "wh_client \<Rightarrow> time \<Rightarrow> string \<Rightarrow> string \<Rightarrow> string \<Rightarrow> dispatch_result" where
  "Post c now url secret body =
     (case wc_http c url (fst (signatureHeaders c now secret body) @ [(''X-Event-Type'', parseEventType body)]) body of
        Inl e \<Rightarrow> \<lparr>dr_http = 0, dr_latency = wc_latency c, dr_body = [], dr_err = Some e\<rparr>
      | Inr r \<Rightarrow> \<lparr>dr_http = hr_status r, dr_latency = wc_latency c, dr_body = take 512 (hr_body r), dr_err = None\<rparr>)"

subsection \<open>The state\<close>

record wh_state =
  whs_db :: db
  whs_met :: metrics

type_synonym 'a whtx = "(wh_state, 'a) tx"

definition dbW :: "'a dbtx \<Rightarrow> 'a whtx" where
  "dbW m = (\<lambda>s. case m (whs_db s) of (r, d') \<Rightarrow> (r, s\<lparr>whs_db := d'\<rparr>))"

definition metW :: "(metrics \<Rightarrow> metrics) \<Rightarrow> unit whtx" where
  "metW f = modT (\<lambda>s. s\<lparr>whs_met := f (whs_met s)\<rparr>)"

definition getW :: "(db \<Rightarrow> 'a) \<Rightarrow> 'a whtx" where
  "getW f = getT (\<lambda>s. f (whs_db s))"

definition run_txW :: "'a whtx \<Rightarrow> 'a whtx" where
  "run_txW m = (\<lambda>s. case m s of
     (Inl e, s') \<Rightarrow> (Inl e, s'\<lparr>whs_db := rollback (whs_db s) (whs_db s')\<rparr>)
   | (Inr x, s') \<Rightarrow> (Inr x, s'))"

subsection \<open>The service\<close>

record wh_service =
  ws_cfg :: config
  ws_store :: int
  ws_exstore :: "int option"

definition WhEnabled :: "wh_service \<Rightarrow> bool" where
  "WhEnabled sv \<longleftrightarrow> WebhookEnabled (Webhook (ws_cfg sv))"

record register_merchant_params =
  rm_id :: string
  rm_name :: string
  rm_url :: string
  rm_secret :: string
  rm_ledger_user :: string
  rm_enabled :: bool

text \<open>\<open>parse_uri\<close> is whether \<open>url.ParseRequestURI\<close> accepts the text.\<close>

definition RegisterMerchant ::
  "(string \<Rightarrow> bool) \<Rightarrow> wh_service \<Rightarrow> time \<Rightarrow> register_merchant_params \<Rightarrow> merchant dbtx" where
  "RegisterMerchant parse_uri sv now p =
     (let i = trim_space (rm_id p); url = trim_space (rm_url p);
          secret = (if rm_secret p = [] then ''whsec-'' @ i else rm_secret p) in
      if \<not> WhEnabled sv then failT ErrNotEnabled
      else if i = [] then failT (GoErr ''merchant_id required'')
      else if url = [] then failT ErrInvalidWebhookURL
      else if \<not> parse_uri url \<and> \<not> has_prefix url ''mock://'' then failT ErrInvalidWebhookURL
      else
        bindT (UpsertMerchant (ws_store sv) now
          \<lparr>mc_chain = ws_store sv, mc_id = i, mc_name = rm_name p, mc_url = url,
           mc_ledger_user = trim_space (rm_ledger_user p), mc_enabled = rm_enabled p, mc_created = 0, mc_updated = 0\<rparr>
          secret) (\<lambda>_.
        readT (\<lambda>d. bindR (GetMerchant (ws_store sv) i d) (\<lambda>(m, _). Inr m))))"

definition AddBinding :: "wh_service \<Rightarrow> time \<Rightarrow> string \<Rightarrow> string \<Rightarrow> unit dbtx" where
  "AddBinding sv now merchantID payerUserID =
     (if \<not> WhEnabled sv then failT ErrNotEnabled
      else bindT (getT (GetMerchant (ws_store sv) merchantID)) (\<lambda>r.
        case r of Inl _ \<Rightarrow> failT ErrMerchantNotFound
        | Inr _ \<Rightarrow> StoreAddBinding (ws_store sv) now merchantID (trim_space payerUserID)))"

text \<open>The instant that the text \<open>Format(time.RFC3339)\<close> denotes.\<close>

definition rfc3339 :: "time \<Rightarrow> time" where
  "rfc3339 t = t - t mod 1000"

definition deposit_event :: "time \<Rightarrow> deposit \<Rightarrow> string \<Rightarrow> wh_payload" where
  "deposit_event now dep merchantID = WhDeposit
     \<lparr>dp_event_type = EventDepositConfirmed, dp_merchant = merchantID, dp_order = [], dp_user = dep_user dep,
      dp_tx_hash = dep_tx_hash dep, dp_amount = dep_amount dep,
      dp_token = (if dep_token dep = [] then ''native'' else dep_token dep), dp_status = ''confirmed'',
      dp_block = dep_block dep,
      dp_confirmed_at = rfc3339 (case dep_credited_at dep of None \<Rightarrow> now | Some t \<Rightarrow> t)\<rparr>"

definition deposit_idem :: "deposit \<Rightarrow> string" where
  "deposit_idem dep = ''deposit:'' @ int_str (dep_id dep)"

text \<open>The bindings are read outside the transaction, which does not write them.\<close>

definition EnqueueDepositTx :: "wh_service \<Rightarrow> time \<Rightarrow> deposit \<Rightarrow> unit whtx" where
  "EnqueueDepositTx sv now dep =
     (if \<not> WhEnabled sv then retT ()
      else bindT (getW (ListBindingsByPayer (ws_store sv) (dep_user dep))) (\<lambda>bs.
        forT bs (\<lambda>b.
          bindT (dbW (InsertOutboxTx (ws_store sv) now (bind_merchant b) EventDepositConfirmed (deposit_idem dep)
            (deposit_event now dep (bind_merchant b)))) (\<lambda>inserted.
          metW (if inserted then RecordEnqueue else RecordDuplicate)))))"

record create_payment_params =
  cp_merchant :: string
  cp_order :: string
  cp_payer :: string
  cp_token :: string
  cp_amount :: string
  cp_idem :: string

definition whNormToken :: "string \<Rightarrow> string" where
  "whNormToken t = trim_space (to_lower t)"

definition new_payment :: "int \<Rightarrow> create_payment_params \<Rightarrow> payment" where
  "new_payment ch p =
     (let order = trim_space (cp_order p) in
      \<lparr>py_id = 0, py_chain = ch, py_merchant = cp_merchant p, py_order = order, py_payer = trim_space (cp_payer p),
       py_token = whNormToken (cp_token p), py_amount = cp_amount p, py_status = [],
       py_idem = (if cp_idem p = [] then ''pay:'' @ cp_merchant p @ '':'' @ order else cp_idem p), py_created = 0\<rparr>)"

definition payment_event :: "time \<Rightarrow> payment \<Rightarrow> wh_payload" where
  "payment_event now pay = WhPayment
     \<lparr>pp_event_type = EventPaymentSuccess, pp_merchant = py_merchant pay, pp_order = py_order pay, pp_payer = py_payer pay,
      pp_amount = py_amount pay, pp_token = (if py_token pay = [] then ''native'' else py_token pay),
      pp_status = ''completed'', pp_paid_at = rfc3339 now\<rparr>"

text \<open>The body of the transaction. A duplicate returns without a commit; the refused
  \<open>INSERT\<close> was its only statement.\<close>

definition payment_tx :: "wh_service \<Rightarrow> int \<Rightarrow> time \<Rightarrow> string \<Rightarrow> payment \<Rightarrow> payment whtx" where
  "payment_tx sv ex now ledgerUser pay = (\<lambda>s.
     case dbW (InsertPaymentTx (ws_store sv) now pay) s of
       (Inl e, s1) \<Rightarrow> if e = ErrDuplicatePayment then bindT (metW RecordDuplicate) (\<lambda>_. retT pay) s1 else (Inl e, s1)
     | (Inr (payID, inserted), s1) \<Rightarrow>
         bindT (if inserted then
             bindT (dbW (TransferInternalTx ex now (py_payer pay) ledgerUser (py_token pay) (py_amount pay) payID)) (\<lambda>_.
             bindT (dbW (InsertOutboxTx (ws_store sv) now (py_merchant pay) EventPaymentSuccess (py_idem pay)
               (payment_event now pay))) (\<lambda>ok.
             metW (if ok then RecordEnqueue else RecordDuplicate)))
           else retT ()) (\<lambda>_.
         retT (pay\<lparr>py_id := payID, py_status := ''completed'', py_created := now\<rparr>)) s1)"

definition CreatePayment :: "wh_service \<Rightarrow> time \<Rightarrow> create_payment_params \<Rightarrow> payment whtx" where
  "CreatePayment sv now p =
     (if \<not> WhEnabled sv then failT ErrNotEnabled
      else case ws_exstore sv of
        None \<Rightarrow> failT (GoErr ''exchange store required'')
      | Some ex \<Rightarrow>
          bindT (getW (GetMerchant (ws_store sv) (cp_merchant p))) (\<lambda>r.
          case r of
            Inl _ \<Rightarrow> failT ErrMerchantNotFound
          | Inr (m, _) \<Rightarrow>
              if \<not> mc_enabled m then failT ErrMerchantDisabled
              else if mc_ledger_user m = [] then failT (GoErr ''merchant ledger_user_id not configured'')
              else run_txW (payment_tx sv ex now (mc_ledger_user m) (new_payment (ws_store sv) p))))"

definition BenchEnqueue :: "wh_service \<Rightarrow> time \<Rightarrow> int \<Rightarrow> string \<Rightarrow> int \<Rightarrow> nat whtx" where
  "BenchEnqueue sv now nano merchantID n =
     (if \<not> WhEnabled sv then failT ErrNotEnabled
      else bindT (dbW (StoreBenchEnqueue (ws_store sv) now nano merchantID EventDepositConfirmed n)) (\<lambda>inserted.
        bindT (metW (RecordEnqueue ^^ inserted)) (\<lambda>_. retT inserted)))"

definition Requeue :: "wh_service \<Rightarrow> time \<Rightarrow> int \<Rightarrow> unit dbtx" where
  "Requeue sv now outboxID = RequeueOutbox (ws_store sv) now outboxID"

subsection \<open>The workers\<close>

text \<open>\<open>uint(MaxRetries)\<close> of a negative setting wraps.\<close>

definition max_retries :: "config \<Rightarrow> nat" where
  "max_retries cfg = (let m = nat (WhMaxRetries (Webhook cfg) mod 2 ^ 64) in if m = 0 then 8 else m)"

definition retry_backoff :: "nat \<Rightarrow> int" where
  "retry_backoff retry = min (int (retry * retry) * 200) 30000"

definition failItem :: "config \<Rightarrow> time \<Rightarrow> wh_item \<Rightarrow> unit whtx" where
  "failItem cfg now item =
     (let retry = wi_retries item + 1; fail = (max_retries cfg \<le> retry); backoff = retry_backoff retry in
      bindT (ignoreT (dbW (WhMarkOutboxRetry now (wi_id item) retry (now + backoff) fail))) (\<lambda>_.
      metW RecordFailed))"

definition target_url :: "config \<Rightarrow> merchant \<Rightarrow> string" where
  "target_url cfg m =
     (if MockReceiveURL (Webhook cfg) \<noteq> [] \<and> (has_prefix (mc_url m) ''mock://'' \<or> mc_url m = [])
      then MockReceiveURL (Webhook cfg) else mc_url m)"

definition errStr :: "go_error option \<Rightarrow> string" where
  "errStr e = (case e of None \<Rightarrow> [] | Some x \<Rightarrow> err_text x)"

definition deliverOne :: "wh_client \<Rightarrow> config \<Rightarrow> int \<Rightarrow> time \<Rightarrow> wh_item \<Rightarrow> unit whtx" where
  "deliverOne c cfg ch now item =
     bindT (getW (GetMerchant ch (wi_merchant item))) (\<lambda>r.
     case r of
       Inl e \<Rightarrow> failItem cfg now item
     | Inr (m, secret) \<Rightarrow>
         if \<not> mc_enabled m then failItem cfg now item
         else
           let res = Post c now (target_url cfg m) secret (wc_json c (wi_payload item)) in
           bindT (ignoreT (dbW (InsertDelivery ch now (wi_id item) (wi_merchant item) (int (wi_retries item) + 1)
             (dr_http res) (dr_latency res) (dr_body res) (errStr (dr_err res))))) (\<lambda>_.
           if dr_err res = None \<and> 200 \<le> dr_http res \<and> dr_http res < 300
           then bindT (dbW (WhMarkOutboxDone now (wi_id item))) (\<lambda>_. metW (RecordDelivered (dr_latency res)))
           else failItem cfg now item))"

text \<open>One round of a worker. The items of a batch are delivered concurrently; each touches its own row.\<close>

definition workerTick :: "wh_client \<Rightarrow> config \<Rightarrow> int \<Rightarrow> time \<Rightarrow> unit whtx" where
  "workerTick c cfg ch now =
     (let batchSize = (if WhBatchSize (Webhook cfg) \<le> 0 then 100 else WhBatchSize (Webhook cfg)) in
      bindT (dbW (WhClaimOutboxBatch ch now batchSize)) (\<lambda>batch. forT batch (deliverOne c cfg ch now)))"

end
