(* ===== verification/Webhook_System.thy ===== *)
theory Webhook_System
  imports Webhook_Service
begin

text \<open>
  What the webhook package guarantees: events are enqueued once and with their cause,
  payments move money once, deliveries end, and the exchange keeps its books
  with the notifier installed.
\<close>

subsection \<open>Statements on the state\<close>

lemma dbW_apply [simp]: "dbW m s = (fst (m (whs_db s)), s\<lparr>whs_db := snd (m (whs_db s))\<rparr>)"
  by (simp add: dbW_def split: prod.split)

lemma metW_apply [simp]: "metW f s = (Inr (), s\<lparr>whs_met := f (whs_met s)\<rparr>)"
  by (simp add: metW_def)

lemma getW_apply [simp]: "getW f s = (Inr (f (whs_db s)), s)"
  by (simp add: getW_def)

lemma run_txW_Inl_tables:
  assumes "run_txW m s = (Inl e, s')" shows "same_tables (whs_db s) (whs_db s')"
  using assms by (auto simp: run_txW_def split: prod.splits sum.splits)

subsection \<open>Enqueueing\<close>

lemma InsertOutboxTx_wh: "same_but_wh d (snd (InsertOutboxTx ch now m ev k p d))"
  by (auto simp: InsertOutboxTx_eq Let_def same_but_wh_def)

lemma same_but_wh_trans: "same_but_wh a b \<Longrightarrow> same_but_wh b c \<Longrightarrow> same_but_wh a c"
proof -
  have alt: "same_but_wh x y \<longleftrightarrow> (\<exists>n t. y = x\<lparr>ctrs := (ctrs x)\<lparr>ai_wh_outbox := n\<rparr>, wh_outbox := t\<rparr>)" for x y
    unfolding same_but_wh_def by (rule iffI, blast) auto
  show "same_but_wh a b \<Longrightarrow> same_but_wh b c \<Longrightarrow> same_but_wh a c" unfolding alt by clarsimp blast
qed

lemma InsertOutboxTx_Inr: "\<exists>b. fst (InsertOutboxTx ch now m ev k p d) = Inr b"
  by (auto simp: InsertOutboxTx_eq Let_def)

definition enqueued :: "wh_service \<Rightarrow> time \<Rightarrow> deposit \<Rightarrow> binding \<Rightarrow> unit whtx" where
  "enqueued sv now dep b =
     bindT (dbW (InsertOutboxTx (ws_store sv) now (bind_merchant b) EventDepositConfirmed (deposit_idem dep)
       (deposit_event now dep (bind_merchant b)))) (\<lambda>inserted.
     metW (if inserted then RecordEnqueue else RecordDuplicate))"

lemma EnqueueDepositTx_alt:
  "EnqueueDepositTx sv now dep s =
     (if WhEnabled sv then forT (ListBindingsByPayer (ws_store sv) (dep_user dep) (whs_db s)) (enqueued sv now dep) s
      else (Inr (), s))"
  by (simp add: EnqueueDepositTx_def enqueued_def [abs_def] bindT_apply)

lemma enqueued_eq:
  "enqueued sv now dep b s =
     (let d = whs_db s; i = ai_wh_outbox (ctrs d); d1 = d\<lparr>ctrs := (ctrs d)\<lparr>ai_wh_outbox := i + 1\<rparr>\<rparr> in
      if \<exists>r\<in>set (wh_outbox d). who_idem_match (ws_store sv) (deposit_idem dep) r
      then (Inr (), \<lparr>whs_db = d1, whs_met = RecordDuplicate (whs_met s)\<rparr>)
      else (Inr (), \<lparr>whs_db = d1\<lparr>wh_outbox := wh_outbox d @
        [\<lparr>who_id = i, who_chain = ws_store sv, who_merchant = bind_merchant b, who_event = EventDepositConfirmed,
          who_idem = deposit_idem dep, who_payload = deposit_event now dep (bind_merchant b), who_status = ObPending,
          who_retries = 0, who_next_retry = now, who_created = now, who_updated = now\<rparr>]\<rparr>,
        whs_met = RecordEnqueue (whs_met s)\<rparr>))"
  by (cases s) (auto simp: enqueued_def bindT_apply InsertOutboxTx_eq Let_def)

text \<open>An event whose key is taken is only counted.\<close>

lemma enqueued_all_dup:
  assumes "\<exists>r\<in>set (wh_outbox (whs_db s)). who_idem_match (ws_store sv) (deposit_idem dep) r"
  shows "\<exists>c. forT bs (enqueued sv now dep) s =
    (Inr (), \<lparr>whs_db = (whs_db s)\<lparr>ctrs := c\<rparr>, whs_met = (RecordDuplicate ^^ length bs) (whs_met s)\<rparr>)"
  using assms
proof (induction bs arbitrary: s)
  case Nil
  then show ?case by (auto intro!: exI [of _ "ctrs (whs_db s)"])
next
  case (Cons b bs)
  let ?s = "snd (enqueued sv now dep b s)"
  have "\<exists>r\<in>set (wh_outbox (whs_db ?s)). who_idem_match (ws_store sv) (deposit_idem dep) r"
    using Cons.prems by (simp add: enqueued_eq Let_def)
  from Cons.IH [OF this] Cons.prems show ?case
    by (auto simp: enqueued_eq Let_def bindT_apply funpow_swap1)
qed

lemma EnqueueDepositTx_new:
  assumes "WhEnabled sv" "ListBindingsByPayer (ws_store sv) (dep_user dep) (whs_db s) = b # bs"
    "\<forall>r\<in>set (wh_outbox (whs_db s)). \<not> who_idem_match (ws_store sv) (deposit_idem dep) r"
  shows "\<exists>c. EnqueueDepositTx sv now dep s =
    (Inr (), \<lparr>whs_db = (whs_db s)\<lparr>wh_outbox := wh_outbox (whs_db s) @
        [\<lparr>who_id = ai_wh_outbox (ctrs (whs_db s)), who_chain = ws_store sv, who_merchant = bind_merchant b,
          who_event = EventDepositConfirmed, who_idem = deposit_idem dep,
          who_payload = deposit_event now dep (bind_merchant b), who_status = ObPending,
          who_retries = 0, who_next_retry = now, who_created = now, who_updated = now\<rparr>], ctrs := c\<rparr>,
      whs_met = (RecordDuplicate ^^ length bs) (RecordEnqueue (whs_met s))\<rparr>)"
proof -
  let ?s = "snd (enqueued sv now dep b s)"
  have "\<exists>r\<in>set (wh_outbox (whs_db ?s)). who_idem_match (ws_store sv) (deposit_idem dep) r"
    using assms(3) by (auto simp: enqueued_eq Let_def who_idem_match_def)
  from enqueued_all_dup [OF this, of bs now] show ?thesis
    using assms by (auto simp: EnqueueDepositTx_alt enqueued_eq Let_def bindT_apply)
qed

subsection \<open>The notifier of the deposit processor\<close>

text \<open>The service as the deposit processor sees it: the effect on the database, which does
  not depend on the counters.\<close>

definition deposit_notifier :: "wh_service \<Rightarrow> time \<Rightarrow> deposit \<Rightarrow> unit dbtx" where
  "deposit_notifier sv now dep = (\<lambda>d.
     case EnqueueDepositTx sv now dep \<lparr>whs_db = d, whs_met = NewMetrics now\<rparr> of (r, s) \<Rightarrow> (r, whs_db s))"

definition wh_framed :: "db \<Rightarrow> wh_state \<Rightarrow> bool" where
  "wh_framed d s \<longleftrightarrow> same_but_wh d (whs_db s) \<and> (wh_outbox_ok d \<longrightarrow> wh_outbox_ok (whs_db s))"

lemma enqueued_framed: "wh_framed d s \<Longrightarrow> wh_framed d (snd (enqueued sv now dep b s))"
proof -
  assume s: "wh_framed d s"
  define d1 where "d1 = snd (InsertOutboxTx (ws_store sv) now (bind_merchant b) EventDepositConfirmed (deposit_idem dep)
    (deposit_event now dep (bind_merchant b)) (whs_db s))"
  have "whs_db (snd (enqueued sv now dep b s)) = d1"
    by (simp add: enqueued_def bindT_apply d1_def split: sum.split)
  moreover have "same_but_wh (whs_db s) d1" "wh_outbox_ok (whs_db s) \<Longrightarrow> wh_outbox_ok d1"
    unfolding d1_def by (rule InsertOutboxTx_wh, rule InsertOutboxTx_ok)
  ultimately show ?thesis using s same_but_wh_trans by (auto simp: wh_framed_def)
qed

lemma EnqueueDepositTx_framed: "wh_framed (whs_db s) (snd (EnqueueDepositTx sv now dep s))"
proof -
  have "wh_framed (whs_db s) s" by (simp add: wh_framed_def)
  then show ?thesis
    by (simp add: EnqueueDepositTx_alt forT_snd [where P = "wh_framed (whs_db s)"] enqueued_framed)
qed

lemma deposit_notifier_framed:
  "same_but_wh d (snd (deposit_notifier sv now dep d))"
  "wh_outbox_ok d \<Longrightarrow> wh_outbox_ok (snd (deposit_notifier sv now dep d))"
  using EnqueueDepositTx_framed [of "\<lparr>whs_db = d, whs_met = NewMetrics now\<rparr>" sv now dep]
  by (auto simp: deposit_notifier_def wh_framed_def split: prod.splits)

definition notified :: "wh_service \<Rightarrow> time \<Rightarrow> deposit_processor \<Rightarrow> deposit_processor" where
  "notified sv now p = SetDepositNotifier (deposit_notifier sv now) p"

interpretation wh_capture: deposit_capture "notified sv now p" for sv now p
  by unfold_locales (auto simp: notified_def SetDepositNotifier_def deposit_notifier_framed)

lemma capture_ok_notified: "capture_ok (Some (notified sv now p))"
  by (simp add: capture_ok_def wh_capture.deposit_capture_axioms)

subsection \<open>Payments\<close>

text \<open>The service accepts payments to the merchant, whose ledger account is \<open>mu\<close>.\<close>

definition payable :: "wh_service \<Rightarrow> int \<Rightarrow> string \<Rightarrow> string \<Rightarrow> db \<Rightarrow> bool" where
  "payable sv ex mu i d \<longleftrightarrow> WhEnabled sv \<and> ws_exstore sv = Some ex \<and> mu \<noteq> [] \<and>
     (case GetMerchant (ws_store sv) i d of Inl _ \<Rightarrow> False | Inr (m, _) \<Rightarrow> mc_enabled m \<and> mc_ledger_user m = mu)"

lemma CreatePayment_payable:
  assumes "payable sv ex mu (cp_merchant p) (whs_db s)"
  shows "CreatePayment sv now p s = run_txW (payment_tx sv ex now mu (new_payment (ws_store sv) p)) s"
  using assms by (auto simp: CreatePayment_def payable_def bindT_apply split: sum.splits)

lemma CreatePayment_refused:
  assumes "\<forall>ex mu. \<not> payable sv ex mu (cp_merchant p) (whs_db s)"
  shows "\<exists>e. CreatePayment sv now p s = (Inl e, s)"
  using assms by (auto simp: CreatePayment_def payable_def bindT_apply split: option.splits sum.splits)

lemma payment_tx_dup:
  assumes "\<exists>r\<in>set (payments (whs_db s)). payment_conflict (ws_store sv) pay r"
  shows "\<exists>c. payment_tx sv ex now mu pay s =
    (Inr pay, \<lparr>whs_db = (whs_db s)\<lparr>ctrs := c\<rparr>, whs_met = RecordDuplicate (whs_met s)\<rparr>)"
  using assms by (cases s) (auto simp: payment_tx_def InsertPaymentTx_eq Let_def bindT_apply)

definition paid_row :: "int \<Rightarrow> time \<Rightarrow> payment \<Rightarrow> int \<Rightarrow> payment_row" where
  "paid_row ch now p i = \<lparr>pay_id = i, pay_chain = ch, pay_merchant = py_merchant p, pay_order = py_order p,
     pay_payer = py_payer p, pay_token = py_token p, pay_amount = py_amount p, pay_status = ''completed'',
     pay_idem = py_idem p, pay_created = now\<rparr>"

text \<open>The database after the \<open>INSERT\<close> of a payment.\<close>

definition with_payment :: "int \<Rightarrow> time \<Rightarrow> payment \<Rightarrow> db \<Rightarrow> db" where
  "with_payment ch now p d = d\<lparr>ctrs := (ctrs d)\<lparr>ai_payments := ai_payments (ctrs d) + 1\<rparr>,
     payments := payments d @ [paid_row ch now p (ai_payments (ctrs d))]\<rparr>"

lemma payment_tx_new:
  assumes "\<forall>r\<in>set (payments (whs_db s)). \<not> payment_conflict (ws_store sv) pay r"
  shows "payment_tx sv ex now mu pay s =
    bindT (dbW (TransferInternalTx ex now (py_payer pay) mu (py_token pay) (py_amount pay) (ai_payments (ctrs (whs_db s)))))
      (\<lambda>_. bindT (dbW (InsertOutboxTx (ws_store sv) now (py_merchant pay) EventPaymentSuccess (py_idem pay)
         (payment_event now pay))) (\<lambda>ok. bindT (metW (if ok then RecordEnqueue else RecordDuplicate)) (\<lambda>_.
       retT (pay\<lparr>py_id := ai_payments (ctrs (whs_db s)), py_status := ''completed'', py_created := now\<rparr>))))
      (s\<lparr>whs_db := with_payment (ws_store sv) now pay (whs_db s)\<rparr>)"
  using assms by (simp add: payment_tx_def InsertPaymentTx_eq Let_def bindT_apply with_payment_def paid_row_def split: sum.split)

lemma payment_tx_okE:
  assumes "payment_tx sv ex now mu pay s = (Inr pay', s')"
    "\<forall>r\<in>set (payments (whs_db s)). \<not> payment_conflict (ws_store sv) pay r"
  obtains d2 where
    "TransferInternalTx ex now (py_payer pay) mu (py_token pay) (py_amount pay) (ai_payments (ctrs (whs_db s)))
       (with_payment (ws_store sv) now pay (whs_db s)) = (Inr (), d2)"
    "whs_db s' = snd (InsertOutboxTx (ws_store sv) now (py_merchant pay) EventPaymentSuccess (py_idem pay)
       (payment_event now pay) d2)"
    "py_id pay' = ai_payments (ctrs (whs_db s))"
proof -
  let ?t = "TransferInternalTx ex now (py_payer pay) mu (py_token pay) (py_amount pay) (ai_payments (ctrs (whs_db s)))
       (with_payment (ws_store sv) now pay (whs_db s))"
  obtain r d2 where t: "?t = (r, d2)" by fastforce
  show thesis
    using that [of d2] assms(1) t unfolding payment_tx_new [OF assms(2)]
    by (auto simp: bindT_apply split: sum.splits)
qed

lemma same_but_ledger_tables:
  assumes "same_but_ledger d d'"
  shows "merchants d' = merchants d" "payments d' = payments d" "wh_outbox d' = wh_outbox d" "bindings d' = bindings d"
    "ai_wh_outbox (ctrs d') = ai_wh_outbox (ctrs d)" "withdraws d' = withdraws d"
    "ai_withdraws (ctrs d') = ai_withdraws (ctrs d)" "ai_payments (ctrs d') = ai_payments (ctrs d)"
proof -
  obtain c a e where "d' = d\<lparr>ctrs := (ctrs d)\<lparr>ai_entries := c\<rparr>, accounts := a, entries := e\<rparr>"
    using assms unfolding same_but_ledger_def by blast
  then show "merchants d' = merchants d" "payments d' = payments d" "wh_outbox d' = wh_outbox d" "bindings d' = bindings d"
    "ai_wh_outbox (ctrs d') = ai_wh_outbox (ctrs d)" "withdraws d' = withdraws d"
    "ai_withdraws (ctrs d') = ai_withdraws (ctrs d)" "ai_payments (ctrs d') = ai_payments (ctrs d)"
    by simp_all
qed

lemma Transfer_frames:
  assumes "ledger_inv d"
  obtains d1 where "same_but_ledger d d1"
    "same_but_ledger d1 (snd (TransferInternalTx ex now u mu tok amt i d))"
proof -
  obtain r d1 where d1: "paymentDebitTx ex now u tok amt i d = (r, d1)" by fastforce
  have f: "same_but_ledger d d1" by (rule pdebit.post_frame [OF ledger_inv_accounts_ok [OF assms] d1])
  show thesis
  proof (cases r)
    case (Inl e)
    then show thesis using that [OF f] d1 by (simp add: TransferInternalTx_eq same_but_ledger_def)
  next
    case (Inr x)
    have "accounts_ok d1" using pdebit.post_inv [OF assms d1] by simp
    then have "same_but_ledger d1 (snd (paymentCreditTx ex now mu tok amt i d1))"
      by (metis pcredit.post_frame prod.collapse)
    then show thesis using that [OF f] d1 Inr by (simp add: TransferInternalTx_eq)
  qed
qed

end
