(* ===== verification/Platform.thy ===== *)
theory Platform
  imports Webhook_System
begin

text \<open>
  The exchange and the webhook service on one database: deposits notify merchants,
  payments move money on the exchange's ledger. The invariants of both hold in every
  state that their handlers reach together, and each payment stands for exactly one debit
  and one credit of the journal.
\<close>

subsection \<open>Views\<close>

text \<open>The outbox of events with its counter, which only the webhook package writes, and
  what payments leave in the database.\<close>

definition wh_view :: "db \<Rightarrow> wh_outbox_row list \<times> int" where
  "wh_view d = (wh_outbox d, ai_wh_outbox (ctrs d))"

definition is_pay :: "ledger_entry_row \<Rightarrow> bool" where
  "is_pay e \<longleftrightarrow> ler_type e = LedgerPaymentDebit \<or> ler_type e = LedgerPaymentCredit"

definition pay_view :: "db \<Rightarrow> payment_row list \<times> int \<times> ledger_entry_row list" where
  "pay_view d = (payments d, ai_payments (ctrs d), filter is_pay (entries d))"

lemma applyLedgerTx_views:
  "wh_view (snd (applyLedgerTx ch now u t op d)) = wh_view d"
  "op_type op \<noteq> LedgerPaymentDebit \<Longrightarrow> op_type op \<noteq> LedgerPaymentCredit \<Longrightarrow>
     pay_view (snd (applyLedgerTx ch now u t op d)) = pay_view d"
  by (auto simp: applyLedgerTx_def Let_def bindT_apply upsert_account_def insert_entry_def wh_view_def pay_view_def is_pay_def
      split: prod.splits sum.splits)

context posting
begin

lemma post_wh_view: "wh_view (snd (post ch now u t a i d)) = wh_view d"
  by (simp add: post_eq bindT_apply applyLedgerTx_views split: sum.splits)

lemma post_pay_view:
  "ty \<noteq> LedgerPaymentDebit \<Longrightarrow> ty \<noteq> LedgerPaymentCredit \<Longrightarrow> pay_view (snd (post ch now u t a i d)) = pay_view d"
  by (simp add: post_eq bindT_apply applyLedgerTx_views split: sum.splits)

end

lemmas posts_views = freeze.post_wh_view unfreeze.post_wh_view debit.post_wh_view credit.post_wh_view reverse.post_wh_view
  freeze.post_pay_view unfreeze.post_pay_view debit.post_pay_view credit.post_pay_view reverse.post_pay_view

lemma views_simps [simp]:
  "wh_view (d\<lparr>withdraws := w\<rparr>) = wh_view d" "pay_view (d\<lparr>withdraws := w\<rparr>) = pay_view d"
  "wh_view (d\<lparr>deposits := x\<rparr>) = wh_view d" "pay_view (d\<lparr>deposits := x\<rparr>) = pay_view d"
  "wh_view (snd (insert_withdraw_stmt ch now p st d)) = wh_view d"
  "pay_view (snd (insert_withdraw_stmt ch now p st d)) = pay_view d"
  by (simp_all add: wh_view_def pay_view_def insert_withdraw_stmt_def Let_def)

lemma Send_views:
  "wh_view (sys_db (snd (SendNative ts now k to v m s))) = wh_view (sys_db s)"
  "wh_view (sys_db (snd (SendERC20 ts now k token to v m s))) = wh_view (sys_db s)"
  "pay_view (sys_db (snd (SendNative ts now k to v m s))) = pay_view (sys_db s)"
  "pay_view (sys_db (snd (SendERC20 ts now k token to v m s))) = pay_view (sys_db s)"
  using Send_ex(1) [of ts now k to v m s] Send_ex(2) [of ts now k token to v m s]
  by (simp_all add: ex_tables_def wh_view_def pay_view_def)

text \<open>The exchange and the webhook service leave the indexer's tables alone.\<close>

lemma applyLedgerTx_ix: "ix_part (snd (applyLedgerTx ch now u t op d)) = ix_part d"
  by (auto simp: applyLedgerTx_def Let_def bindT_apply upsert_account_def insert_entry_def ix_part_def
      split: prod.splits sum.splits)

context posting
begin

lemma post_ix: "ix_part (snd (post ch now u t a i d)) = ix_part d"
  by (simp add: post_eq bindT_apply applyLedgerTx_ix split: sum.splits)

end

lemma same_but_wh_ix:
  assumes "same_but_wh d d'"
  shows "ix_part d' = ix_part d"
proof -
  obtain n t where "d' = d\<lparr>ctrs := (ctrs d)\<lparr>ai_wh_outbox := n\<rparr>, wh_outbox := t\<rparr>"
    using assms unfolding same_but_wh_def by blast
  then show ?thesis by (simp add: ix_part_def)
qed

interpretation ixv: withdraw_client "\<lambda>d. ix_part d = v" for v
  using Send_ex
  by (unfold_locales, simp_all add: freeze.post_ix unfreeze.post_ix debit.post_ix ex_tables_def)
    (auto simp: ix_part_def rollback_def insert_withdraw_stmt_def Let_def)

interpretation whv: withdraw_client "\<lambda>d. wh_view d = v" for v
  by (unfold_locales, simp_all add: posts_views Send_views) (auto simp: wh_view_def rollback_def)

interpretation pav: withdraw_client "\<lambda>d. pay_view d = v" for v
  by (unfold_locales, simp_all add: posts_views Send_views) (auto simp: pay_view_def rollback_def)

subsection \<open>Captures\<close>

lemma same_but_wh_pay: "same_but_wh d d' \<Longrightarrow> pay_view d' = pay_view d"
proof -
  assume "same_but_wh d d'"
  then obtain n t where "d' = d\<lparr>ctrs := (ctrs d)\<lparr>ai_wh_outbox := n\<rparr>, wh_outbox := t\<rparr>"
    unfolding same_but_wh_def by blast
  then show ?thesis by (simp add: pay_view_def)
qed

lemma deposit_stmts_views [simp]:
  "wh_view (snd (InsertDepositTx ch now p d)) = wh_view d" "pay_view (snd (InsertDepositTx ch now p d)) = pay_view d"
  "wh_view (snd (MarkDepositCreditedTx ch now i d)) = wh_view d" "pay_view (snd (MarkDepositCreditedTx ch now i d)) = pay_view d"
  "wh_view (snd (resetDepositForRecreditTx ch i b d)) = wh_view d"
  "pay_view (snd (resetDepositForRecreditTx ch i b d)) = pay_view d"
  "wh_view (snd (OrphanDepositsFromBlockTx ch b d)) = wh_view d" "pay_view (snd (OrphanDepositsFromBlockTx ch b d)) = pay_view d"
  "snd (GetDepositByKeyTx ch h j d) = d"
  by (simp_all add: wh_view_def pay_view_def InsertDepositTx_eq MarkDepositCreditedTx_def resetDepositForRecreditTx_def
      OrphanDepositsFromBlockTx_def GetDepositByKeyTx_def bindT_apply split: option.splits)

text \<open>
  A view of the database that the statements of a capture do not change is the same after a
  capture and after a reorganisation.
\<close>

locale capture_frame = deposit_capture +
  fixes V :: "db \<Rightarrow> 'v"
  assumes V_deposits: "V (d\<lparr>deposits := x\<rparr>) = V d"
    and V_counter: "V (d\<lparr>ctrs := (ctrs d)\<lparr>ai_deposits := n\<rparr>\<rparr>) = V d"
    and V_wh: "same_but_wh d d' \<Longrightarrow> V d' = V d"
    and V_credit: "V (snd (creditDepositTx ch now u t a i d)) = V d"
    and V_reverse: "V (snd (reverseDepositTx ch now u t a i d)) = V d"
begin

lemma credit_once_view: "V (snd (credit_once dp now p i d)) = V d"
proof -
  have n: "V (snd (n dep x)) = V x" if "dpr_webhook dp = Some n" for n dep x
    using webhook_frame [OF that] by (rule V_wh)
  show ?thesis
    unfolding credit_once_def Let_def
    by (auto simp: n V_credit V_deposits MarkDepositCreditedTx_eq bindT_apply GetDepositByKeyTx_def
        split: option.splits sum.splits prod.splits) (metis V_credit snd_conv)+
qed

lemma captureAndCredit_view: "V (snd (captureAndCredit dp now p d)) = V d"
proof -
  have "V (snd (InsertDepositTx ch now p d)) = V d" for ch
    using V_deposits [where d = "d\<lparr>ctrs := (ctrs d)\<lparr>ai_deposits := ai_deposits (ctrs d) + 1\<rparr>\<rparr>"] V_counter [where d = d]
    by (simp add: InsertDepositTx_eq split: option.split)
  then show ?thesis
    by (simp add: captureAndCredit_eq credit_once_view resetDepositForRecreditTx_def V_deposits split: deposit_status.split)
qed

lemma HandleReorgTx_view: "V (snd (HandleReorgTx (Some dp) now b d)) = V d"
proof -
  have "V (snd (forT deps (reverse_one ch now) x)) = V x" for deps ch x
    by (rule forT_snd [where P = "\<lambda>y. V y = V x"]) (simp_all add: reverse_one_eq V_reverse)
  then show ?thesis
    by (simp add: HandleReorgTx_def bindT_apply OrphanDepositsFromBlockTx_def V_deposits)
qed

end

interpretation pay: capture_frame "notified sv now p" pay_view for sv now p
  by unfold_locales (simp_all add: same_but_wh_pay posts_views, simp_all add: pay_view_def)

lemma capture_frame_ix:
  assumes "deposit_capture q"
  shows "capture_frame q ix_part"
proof -
  from assms show ?thesis
    by (intro capture_frame.intro capture_frame_axioms.intro)
      (simp_all add: same_but_wh_ix credit.post_ix reverse.post_ix, simp_all add: ix_part_def)
qed

interpretation ixf: capture_frame "notified sv now p" ix_part for sv now p
  by (rule capture_frame_ix) (rule wh_capture.deposit_capture_axioms)

interpretation ixv: exchange_client "\<lambda>d. ix_part d = v" "Some (notified sv now p)" for v sv now p
  by unfold_locales (use ixf.captureAndCredit_view ixf.HandleReorgTx_view in auto)

lemma reverse_one_views: "wh_view (snd (reverse_one ch now dep d)) = wh_view d"
  by (simp add: reverse_one_eq posts_views)

definition wh_same :: "db \<Rightarrow> db \<Rightarrow> bool" where
  "wh_same d d' \<longleftrightarrow> wh_view d' = wh_view d"

lemma HandleReorgTx_wh: "wh_same d (snd (HandleReorgTx dp now b d))"
proof -
  have "wh_same d (snd (reverse_one ch now dep x))" if "wh_same d x" for ch dep x
    using that by (simp add: wh_same_def reverse_one_views)
  moreover have "wh_same d (snd (OrphanDepositsFromBlockTx ch b x))" if "wh_same d x" for ch b x
    using that by (simp add: wh_same_def)
  moreover have "wh_same d d" by (simp add: wh_same_def)
  ultimately show ?thesis
    unfolding HandleReorgTx_def
    by (auto intro!: bindT_snd [where P = "wh_same d"] forT_snd [where P = "wh_same d"] split: option.splits)
qed

interpretation pac: exchange_client "\<lambda>d. pay_view d = v" "Some (notified sv now p)" for v sv now p
proof unfold_locales
  show "pay_view (snd (captureAndCredit q t c d)) = v" if "Some (notified sv now p) = Some q" "pay_view d = v" for q t c d
    using pay.captureAndCredit_view [of sv now p t c d] that by simp
  show "pay_view (snd (HandleReorgTx (Some (notified sv now p)) t b d)) = v" if "pay_view d = v" for t b d
    using pay.HandleReorgTx_view [of sv now p t b d] that by simp
qed

text \<open>Captures may enqueue; ids stay below the counter, which never falls.\<close>

definition wh_from :: "int \<Rightarrow> db \<Rightarrow> bool" where
  "wh_from n d \<longleftrightarrow> wh_outbox_ok d \<and> n \<le> ai_wh_outbox (ctrs d)"

lemma wh_outbox_ok_view: "wh_view d' = wh_view d \<Longrightarrow> wh_outbox_ok d' = wh_outbox_ok d"
  by (simp add: wh_outbox_ok_def wh_view_def)

lemma wh_from_view: "wh_view d' = wh_view d \<Longrightarrow> wh_from n d' = wh_from n d"
  using wh_outbox_ok_view [of d' d] by (simp add: wh_from_def wh_view_def)

lemma deposit_stmts_from [simp]:
  "wh_from n (snd (creditDepositTx ch now u tok a i d)) = wh_from n d"
  "wh_from n (snd (MarkDepositCreditedTx ch now i d)) = wh_from n d"
  "wh_from n (snd (InsertDepositTx ch now c d)) = wh_from n d"
  "wh_from n (snd (resetDepositForRecreditTx ch i b d)) = wh_from n d"
  by (rule wh_from_view, simp add: posts_views)+

lemma InsertOutboxTx_from: "wh_from n d \<Longrightarrow> wh_from n (snd (InsertOutboxTx ch now m ev k p d))"
  using InsertOutboxTx_ok [of d ch now m ev k p] by (simp add: wh_from_def) (simp add: InsertOutboxTx_eq Let_def)

lemma wh_from_rollback: "wh_outbox_ok d \<Longrightarrow> wh_from (ai_wh_outbox (ctrs d)) d' \<Longrightarrow> wh_outbox_ok (rollback d d')"
  by (fastforce simp: wh_outbox_ok_def wh_from_def rollback_def)

lemma run_tx_from:
  assumes "wh_outbox_ok d" "wh_from (ai_wh_outbox (ctrs d)) (snd (m d))"
  shows "wh_outbox_ok (snd (run_tx m d))"
  using assms by (auto simp: run_tx_def wh_from_rollback wh_from_def split: prod.splits sum.splits)

lemma deposit_notifier_from: "wh_from n d \<Longrightarrow> wh_from n (snd (deposit_notifier sv now dep d))"
proof -
  assume n: "wh_from n d"
  have "wh_from n (whs_db (snd (enqueued sv now dep b s)))" if "wh_from n (whs_db s)" for b s
    using InsertOutboxTx_from [OF that] by (simp add: enqueued_def bindT_apply split: sum.split)
  then have "wh_from n (whs_db (snd (EnqueueDepositTx sv now dep \<lparr>whs_db = d, whs_met = m\<rparr>)))" for m
    using n by (simp add: EnqueueDepositTx_alt forT_snd [where P = "\<lambda>s. wh_from n (whs_db s)"])
  then show ?thesis by (simp add: deposit_notifier_def split: prod.split) (metis snd_conv)
qed

lemma notified_credit_from: "wh_from n d \<Longrightarrow> wh_from n (snd (credit_once (notified sv now p) t c i d))"
proof -
  assume n: "wh_from n d"
  show ?thesis
    unfolding credit_once_def Let_def notified_def SetDepositNotifier_def
    by (auto simp: n deposit_notifier_from intro!: bindT_snd [where P = "wh_from n"])
qed

lemma notified_capture_from: "wh_from n d \<Longrightarrow> wh_from n (snd (captureAndCredit (notified sv now p) t c d))"
proof -
  assume n: "wh_from n d"
  show ?thesis
    unfolding captureAndCredit_def Let_def
    by (auto simp: n notified_credit_from intro!: bindT_snd [where P = "wh_from n"] split: deposit_status.splits)
qed

lemma notified_handlers_from:
  assumes "wh_from n d"
  shows "wh_from n (snd (CaptureNativeTx (Some (notified sv now p)) t b h fr to v ok d))"
    "wh_from n (snd (CaptureERC20Transfer (Some (notified sv now p)) t b h li ct fr to v d))"
  using assms notified_capture_from
  by (auto simp: CaptureNativeTx_def CaptureERC20Transfer_def split: option.split sum.split)

lemma ex_step_wh:
  assumes "ex_step xs (Some (notified sv now p)) s s'" "wh_outbox_ok (sys_db s)"
  shows "wh_outbox_ok (sys_db s')"
  using assms(1)
proof (cases rule: ex_step.cases)
  case (capture_native t b h fr to v success)
  then show ?thesis using assms(2) by (auto intro!: run_tx_from notified_handlers_from simp: wh_from_def)
next
  case (capture_erc20 t b h li ct fr to v)
  then show ?thesis using assms(2) by (auto intro!: run_tx_from notified_handlers_from simp: wh_from_def)
next
  case (reorg t b)
  have "wh_view (snd (HandleReorg (Some (notified sv now p)) t b (sys_db s))) = wh_view (sys_db s)"
    using HandleReorgTx_wh by (auto simp: HandleReorg_def wh_same_def intro!: whv.P_run_tx)
  from wh_outbox_ok_view [OF this] show ?thesis using reorg assms(2) by simp
qed (simp_all add: assms(2) wh_outbox_ok_view [OF whv.CreateWithdraw_keeps] wh_outbox_ok_view [OF whv.ApproveWithdraw_keeps]
  wh_outbox_ok_view [OF whv.RejectWithdraw_keeps] wh_outbox_ok_view [OF whv.ProcessApprovedWithdraw_keeps]
  wh_outbox_ok_view [OF whv.OnWithdrawTxConfirmed_keeps] wh_outbox_ok_view [OF whv.OnWithdrawTxFailed_keeps])

subsection \<open>Payments and the journal\<close>

text \<open>The postings of a payment, by its id, and the invariant: each payment has exactly a
  debit of its payer and a credit of some account, both of its amount, and no posting of
  this kind is without a payment id that was given out.\<close>

definition pay_key :: "ledger_entry_row \<Rightarrow> ledger_type \<times> int \<times> string \<times> string \<times> string" where
  "pay_key e = (ler_type e, ler_chain e, ler_user e, ler_token e, ler_amount e)"

definition pay_postings :: "int \<Rightarrow> ledger_entry_row list \<Rightarrow> (ledger_type \<times> int \<times> string \<times> string \<times> string) list" where
  "pay_postings i es = map pay_key (filter (\<lambda>e. ler_ref_id e = Some i) es)"

definition payment_posted :: "ledger_entry_row list \<Rightarrow> payment_row \<Rightarrow> bool" where
  "payment_posted es r \<longleftrightarrow> (\<exists>ex mu. pay_postings (pay_id r) es =
     [(LedgerPaymentDebit, ex, pay_payer r, normToken (pay_token r), weiString (Some (wei_val (pay_amount r)))),
      (LedgerPaymentCredit, ex, mu, normToken (pay_token r), weiString (Some (wei_val (pay_amount r))))])"

definition payments_inv :: "db \<Rightarrow> bool" where
  "payments_inv d \<longleftrightarrow> (case pay_view d of (ps, n, es) \<Rightarrow>
     distinct (map pay_id ps) \<and> (\<forall>r\<in>set ps. pay_id r < n \<and> payment_posted es r) \<and>
     (\<forall>e\<in>set es. \<exists>i<n. ler_ref_id e = Some i))"

lemma payments_inv_view: "pay_view d' = pay_view d \<Longrightarrow> payments_inv d' = payments_inv d"
  by (simp add: payments_inv_def)

lemma payments_inv_ctr:
  assumes "payments_inv d" "payments d' = payments d" "entries d' = entries d"
    "ai_payments (ctrs d) \<le> ai_payments (ctrs d')"
  shows "payments_inv d'"
  using assms by (fastforce simp: payments_inv_def pay_view_def)

lemma pay_postings_append: "pay_postings i (xs @ ys) = pay_postings i xs @ pay_postings i ys"
  by (simp add: pay_postings_def)

lemma payments_inv_add:
  assumes "payments_inv d" "ai_payments (ctrs d) = n" "ai_payments (ctrs d') = n + 1"
    "payments d' = payments d @ [r]" "pay_id r = n"
    "filter is_pay (entries d') = filter is_pay (entries d) @ new" "\<forall>e\<in>set new. ler_ref_id e = Some n"
    "payment_posted new r"
  shows "payments_inv d'"
proof -
  let ?es = "filter is_pay (entries d)"
  have old: "pay_id x < n" "payment_posted ?es x" if "x \<in> set (payments d)" for x
    using assms(1,2) that by (auto simp: payments_inv_def pay_view_def)
  have refs: "\<exists>i<n. ler_ref_id e = Some i" if "e \<in> set ?es" for e
    using assms(1,2) that by (auto simp: payments_inv_def pay_view_def)
  have "pay_postings n ?es = []" using refs by (fastforce simp: pay_postings_def filter_empty_conv)
  then have "payment_posted (?es @ new) r"
    using assms(5,8) by (simp add: payment_posted_def pay_postings_append)
  moreover have "pay_postings i new = []" if "i < n" for i
    using assms(7) that by (auto simp: pay_postings_def filter_empty_conv)
  then have "payment_posted (?es @ new) x" if "x \<in> set (payments d)" for x
    using old [OF that] by (simp add: payment_posted_def pay_postings_append)
  moreover have "pay_id r \<notin> pay_id ` set (payments d)" using old(1) assms(5) by fastforce
  moreover have "distinct (map pay_id (payments d))" using assms(1) by (simp add: payments_inv_def pay_view_def)
  moreover have "\<exists>i<n + 1. ler_ref_id e = Some i" if "e \<in> set (?es @ new)" for e
    using refs [of e] assms(7) that by fastforce
  ultimately show ?thesis
    using old assms(3,4,5,6) by (force simp: payments_inv_def pay_view_def)
qed

lemma Transfer_entries:
  assumes "ledger_inv d" "TransferInternalTx ex now u mu tok a i d = (Inr x, d')"
  obtains new where "filter is_pay (entries d') = filter is_pay (entries d) @ new" "\<forall>e\<in>set new. ler_ref_id e = Some i"
    "map pay_key new = [(LedgerPaymentDebit, ex, u, normToken tok, weiString (Some (wei_val a))),
       (LedgerPaymentCredit, ex, mu, normToken tok, weiString (Some (wei_val a)))]"
proof -
  obtain u1 d1 u2 where d1: "paymentDebitTx ex now u tok a i d = (Inr u1, d1)"
    and d2: "paymentCreditTx ex now mu tok a i d1 = (Inr u2, d')"
    using assms(2) by (rule TransferInternalTx_okE)
  have ok: "accounts_ok d" "accounts_ok d1" using assms(1) pdebit.post_inv [OF assms(1) d1] by simp_all
  obtain amt where 1: "parseWei a = Inr amt" "d1 = posted ex now u tok (std_op LedgerPaymentDebit amt i) d"
    using ok(1) d1 by (rule pdebit.post_okE)
  obtain amt' where 2: "parseWei a = Inr amt'" "d' = posted ex now mu tok (std_op LedgerPaymentCredit amt' i) d1"
    using ok(2) d2 by (rule pcredit.post_okE)
  have "amt' = amt" "wei_val a = amt" using 1(1) 2(1) by (simp_all add: wei_val_def)
  then show thesis
    using that 1(2) 2(2) by (simp add: entries_posted is_pay_def std_op_def pay_key_def)
qed

text \<open>The transaction of a payment, from a database with balanced books.\<close>

lemma with_payment_inv: "ledger_inv d \<Longrightarrow> ledger_inv (with_payment ch now pay d)"
  using ledger_inv_cong [of "with_payment ch now pay d" d] by (simp add: with_payment_def)

definition paid_tables :: "wh_service \<Rightarrow> time \<Rightarrow> payment \<Rightarrow> db \<Rightarrow> db \<Rightarrow> bool" where
  "paid_tables sv now pay d d' \<longleftrightarrow> payments d' = payments d @ [paid_row (ws_store sv) now pay (ai_payments (ctrs d))] \<and>
     ai_payments (ctrs d') = ai_payments (ctrs d) + 1 \<and> merchants d' = merchants d \<and> wh_view d' = wh_view d \<and>
     withdraws d' = withdraws d \<and> ai_withdraws (ctrs d') = ai_withdraws (ctrs d)"

lemma Transfer_paid_tables:
  assumes "ledger_inv d"
  shows "paid_tables sv now pay d (snd (TransferInternalTx ex now u mu tok a i (with_payment (ws_store sv) now pay d)))"
proof -
  let ?d1 = "with_payment (ws_store sv) now pay d"
  obtain d0 where "same_but_ledger ?d1 d0" "same_but_ledger d0 (snd (TransferInternalTx ex now u mu tok a i ?d1))"
    using with_payment_inv [OF assms] by (rule Transfer_frames)
  then show ?thesis
    by (simp add: paid_tables_def same_but_ledger_tables wh_view_def) (simp add: with_payment_def)
qed

lemma payment_tx_ok_pinv:
  assumes "ledger_inv (whs_db s)" "payments_inv (whs_db s)" "payment_tx sv ex now mu pay s = (Inr pay', s')"
  shows "payments_inv (whs_db s')"
proof (cases "\<exists>r\<in>set (payments (whs_db s)). payment_conflict (ws_store sv) pay r")
  case True
  then show ?thesis using assms(2,3)
    by (auto simp: payment_tx_def InsertPaymentTx_eq Let_def bindT_apply intro: payments_inv_ctr)
next
  case False
  let ?n = "ai_payments (ctrs (whs_db s))" and ?d1 = "with_payment (ws_store sv) now pay (whs_db s)"
  from False payment_tx_okE [OF assms(3)] obtain d2 where
    t: "TransferInternalTx ex now (py_payer pay) mu (py_token pay) (py_amount pay) ?n ?d1 = (Inr (), d2)"
    and s': "whs_db s' = snd (InsertOutboxTx (ws_store sv) now (py_merchant pay) EventPaymentSuccess (py_idem pay)
      (payment_event now pay) d2)" by blast
  obtain es where es: "filter is_pay (entries d2) = filter is_pay (entries ?d1) @ es" "\<forall>e\<in>set es. ler_ref_id e = Some ?n"
    "map pay_key es = [(LedgerPaymentDebit, ex, py_payer pay, normToken (py_token pay), weiString (Some (wei_val (py_amount pay)))),
      (LedgerPaymentCredit, ex, mu, normToken (py_token pay), weiString (Some (wei_val (py_amount pay))))]"
    using with_payment_inv [OF assms(1)] t by (rule Transfer_entries)
  have f: "paid_tables sv now pay (whs_db s) d2"
    using Transfer_paid_tables [OF assms(1), of sv now pay ex "py_payer pay" mu "py_token pay" "py_amount pay" ?n] t by simp
  have "filter (\<lambda>e. ler_ref_id e = Some ?n) es = es" using es(2) by simp
  with es(3) have "payment_posted es (paid_row (ws_store sv) now pay ?n)"
    by (simp add: payment_posted_def pay_postings_def paid_row_def)
  with f es have "payments_inv d2"
    by (intro payments_inv_add [OF assms(2) refl, of d2 "paid_row (ws_store sv) now pay ?n" es])
      (simp_all add: paid_tables_def with_payment_def, simp add: paid_row_def)
  then show ?thesis using same_but_wh_pay [OF InsertOutboxTx_wh] payments_inv_view s' by metis
qed

text \<open>What a successful payment of a new order leaves.\<close>

lemma CreatePayment_done:
  assumes "payable sv ex mu (cp_merchant p) (whs_db s)" "ledger_inv (whs_db s)"
    "\<forall>r\<in>set (payments (whs_db s)). \<not> payment_conflict (ws_store sv) (new_payment (ws_store sv) p) r"
    "CreatePayment sv now p s = (Inr pay, s')"
  obtains d2 where
    "TransferInternalTx ex now (trim_space (cp_payer p)) mu (whNormToken (cp_token p)) (cp_amount p) (ai_payments (ctrs (whs_db s)))
      (with_payment (ws_store sv) now (new_payment (ws_store sv) p) (whs_db s)) = (Inr (), d2)"
    "accounts (whs_db s') = accounts d2" "merchants (whs_db s') = merchants (whs_db s)"
    "payments (whs_db s') = payments (whs_db s) @
      [paid_row (ws_store sv) now (new_payment (ws_store sv) p) (ai_payments (ctrs (whs_db s)))]"
proof -
  let ?pay = "new_payment (ws_store sv) p" and ?n = "ai_payments (ctrs (whs_db s))"
  have "payment_tx sv ex now mu ?pay s = (Inr pay, s')"
    using assms(4) unfolding CreatePayment_payable [OF assms(1)] by (auto simp: run_txW_def split: prod.splits sum.splits)
  from payment_tx_okE [OF this assms(3)] obtain d2 where
    t: "TransferInternalTx ex now (py_payer ?pay) mu (py_token ?pay) (py_amount ?pay) ?n
      (with_payment (ws_store sv) now ?pay (whs_db s)) = (Inr (), d2)"
    and s': "whs_db s' = snd (InsertOutboxTx (ws_store sv) now (py_merchant ?pay) EventPaymentSuccess (py_idem ?pay)
      (payment_event now ?pay) d2)" by blast
  have f: "paid_tables sv now ?pay (whs_db s) d2"
    using Transfer_paid_tables [OF assms(2), of sv now ?pay ex "py_payer ?pay" mu "py_token ?pay" "py_amount ?pay" ?n] t by simp
  have w: "same_but_wh d2 (whs_db s')" unfolding s' by (rule InsertOutboxTx_wh)
  have "merchants (whs_db s') = merchants d2 \<and> payments (whs_db s') = payments d2"
    by (simp add: s' InsertOutboxTx_eq Let_def)
  then show thesis
    using that [of d2] t f same_but_wh_frame(1) [OF w] by (simp add: paid_tables_def new_payment_def Let_def)
qed

lemma CreatePayment_again:
  assumes "payable sv ex mu (cp_merchant p) (whs_db s)"
    "\<exists>r\<in>set (payments (whs_db s)). payment_conflict (ws_store sv) (new_payment (ws_store sv) p) r"
  shows "\<exists>pay s'. CreatePayment sv now p s = (Inr pay, s') \<and> same_tables (whs_db s) (whs_db s')"
  using payment_tx_dup [OF assms(2), of ex now mu]
  by (auto simp: CreatePayment_payable [OF assms(1)] run_txW_def same_tables_def)

subsection \<open>Payments keep the invariants\<close>

definition platform_inv :: "db \<Rightarrow> bool" where
  "platform_inv d \<longleftrightarrow> exchange_inv d \<and> wh_outbox_ok d \<and> payments_inv d"

text \<open>What holds at every point of a transaction that began at \<open>d0\<close>.\<close>

definition pay_safe :: "db \<Rightarrow> db \<Rightarrow> bool" where
  "pay_safe d0 d \<longleftrightarrow> books d \<and> same_wd d0 d \<and> wh_from (ai_wh_outbox (ctrs d0)) d \<and>
     ai_payments (ctrs d0) \<le> ai_payments (ctrs d) \<and> ix_part d = ix_part d0"

lemma same_but_wh_ctrs:
  assumes "same_but_wh d d'"
  shows "ai_payments (ctrs d') = ai_payments (ctrs d)" "same_wd d d'" "books d' = books d"
proof -
  obtain n t where d': "d' = d\<lparr>ctrs := (ctrs d)\<lparr>ai_wh_outbox := n\<rparr>, wh_outbox := t\<rparr>"
    using assms unfolding same_but_wh_def by blast
  show "ai_payments (ctrs d') = ai_payments (ctrs d)" "same_wd d d'" by (simp_all add: d' same_wd_def)
  show "books d' = books d" by (rule books_cong) (simp_all add: d')
qed

lemma InsertOutboxTx_safe: "pay_safe d0 d \<Longrightarrow> pay_safe d0 (snd (InsertOutboxTx ch now m ev k p d))"
  using same_but_wh_ix [OF InsertOutboxTx_wh [of d ch now m ev k p]] same_but_wh_ctrs [OF InsertOutboxTx_wh [of d ch now m ev k p]] InsertOutboxTx_from [of _ d ch now m ev k p]
  by (auto simp: pay_safe_def intro: same_wd_trans)

lemma Transfer_books: "books d \<Longrightarrow> books (snd (TransferInternalTx ex now u mu tok a i d))"
  unfolding TransferInternalTx_eq
  by (rule bindT_snd [where P = books]) (simp_all add: pdebit.post_books pcredit.post_books)

lemma Transfer_ix:
  fixes sv :: wh_service
  shows "ix_part (snd (TransferInternalTx ex now u mu tok a i (with_payment (ws_store sv) now pay d))) = ix_part d"
proof -
  have "ix_part (snd (TransferInternalTx ex now u mu tok a i x)) = ix_part x" for x
    unfolding TransferInternalTx_eq
    by (rule bindT_snd [where P = "\<lambda>y. ix_part y = ix_part x"]) (simp_all add: pdebit.post_ix pcredit.post_ix)
  then show ?thesis by (simp add: with_payment_def) (simp add: ix_part_def)
qed

lemma Transfer_safe:
  fixes sv :: wh_service
  assumes "books d" "wh_outbox_ok d"
  shows "pay_safe d (snd (TransferInternalTx ex now u mu tok a i (with_payment (ws_store sv) now pay d)))"
proof -
  let ?d2 = "snd (TransferInternalTx ex now u mu tok a i (with_payment (ws_store sv) now pay d))"
  have inv: "ledger_inv d" using assms(1) by (simp add: books_def)
  have "books (with_payment (ws_store sv) now pay d)"
    using assms(1) books_cong [of "with_payment (ws_store sv) now pay d" d] by (simp add: with_payment_def)
  then have "books ?d2" by (rule Transfer_books)
  moreover have "wh_from (ai_wh_outbox (ctrs d)) ?d2 = wh_from (ai_wh_outbox (ctrs d)) d"
    using Transfer_paid_tables [OF inv, of sv now pay ex u mu tok a i] by (intro wh_from_view) (simp add: paid_tables_def)
  ultimately show ?thesis
    using Transfer_paid_tables [OF inv, of sv now pay ex u mu tok a i] assms(2)
    by (simp add: pay_safe_def paid_tables_def same_wd_def wh_from_def Transfer_ix)
qed

lemma payment_tx_safe:
  assumes "books (whs_db s)" "wh_outbox_ok (whs_db s)"
  shows "pay_safe (whs_db s) (whs_db (snd (payment_tx sv ex now mu pay s)))"
proof (cases "\<exists>r\<in>set (payments (whs_db s)). payment_conflict (ws_store sv) pay r")
  case True
  then show ?thesis using assms
    by (simp add: payment_tx_def InsertPaymentTx_eq Let_def bindT_apply pay_safe_def same_wd_def wh_from_def
        wh_outbox_ok_def ix_part_def)
next
  case False
  then have new: "\<forall>r\<in>set (payments (whs_db s)). \<not> payment_conflict (ws_store sv) pay r" by blast
  let ?d2 = "snd (TransferInternalTx ex now (py_payer pay) mu (py_token pay) (py_amount pay) (ai_payments (ctrs (whs_db s)))
    (with_payment (ws_store sv) now pay (whs_db s)))"
  have "pay_safe (whs_db s) ?d2" using assms by (rule Transfer_safe)
  moreover from this have "pay_safe (whs_db s) (snd (InsertOutboxTx (ws_store sv) now (py_merchant pay) EventPaymentSuccess
      (py_idem pay) (payment_event now pay) ?d2))" by (rule InsertOutboxTx_safe)
  ultimately show ?thesis
    by (simp add: payment_tx_new [OF new] bindT_apply split: sum.split)
qed

lemma pay_safe_inv: "pay_safe d0 d \<Longrightarrow> withdraws_inv d0 \<Longrightarrow> exchange_inv d \<and> wh_outbox_ok d"
  using same_wd_inv [of d0 d] by (simp add: pay_safe_def exchange_inv_def wh_from_def)

lemma pay_safe_rollback:
  assumes "pay_safe d0 d" "platform_inv d0"
  shows "platform_inv (rollback d0 d)"
proof -
  have "wh_outbox_ok (rollback d0 d)"
    using assms by (intro wh_from_rollback) (simp_all add: platform_inv_def pay_safe_def)
  moreover have "withdraws_inv (rollback d0 d)"
    using assms same_wd_inv [OF same_wd_rollback [of d0 d]] by (simp add: platform_inv_def exchange_inv_def pay_safe_def)
  moreover have "payments_inv (rollback d0 d)"
  proof (rule payments_inv_ctr)
    show "payments_inv d0" using assms(2) by (simp add: platform_inv_def)
    show "ai_payments (ctrs d0) \<le> ai_payments (ctrs (rollback d0 d))" using assms(1) by (simp add: pay_safe_def rollback_def)
  qed (simp_all add: rollback_def)
  ultimately show ?thesis
    using assms(2) by (simp add: platform_inv_def exchange_inv_def rollback_def)
qed

lemma CreatePayment_inv:
  assumes "platform_inv (whs_db s)"
  shows "platform_inv (whs_db (snd (CreatePayment sv now p s))) \<and>
    ix_part (whs_db (snd (CreatePayment sv now p s))) = ix_part (whs_db s)"
proof (cases "\<exists>ex mu. payable sv ex mu (cp_merchant p) (whs_db s)")
  case False
  then show ?thesis using CreatePayment_refused [of sv p s now] assms by fastforce
next
  case True
  then obtain ex mu where pb: "payable sv ex mu (cp_merchant p) (whs_db s)" by blast
  obtain r s' where t: "payment_tx sv ex now mu (new_payment (ws_store sv) p) s = (r, s')" by fastforce
  have inv: "books (whs_db s)" "wh_outbox_ok (whs_db s)" "withdraws_inv (whs_db s)" "payments_inv (whs_db s)"
    "ledger_inv (whs_db s)"
    using assms by (simp_all add: platform_inv_def exchange_inv_def books_def)
  have safe: "pay_safe (whs_db s) (whs_db s')"
    using payment_tx_safe [OF inv(1,2), of sv ex now mu "new_payment (ws_store sv) p"] t by simp
  show ?thesis
  proof (cases r)
    case (Inl e)
    then show ?thesis using pay_safe_rollback [OF safe assms] ixv.P_rollback [of "whs_db s" _ "whs_db s'"] safe t
      by (simp add: CreatePayment_payable [OF pb] run_txW_def pay_safe_def)
  next
    case (Inr pay)
    then show ?thesis using pay_safe_inv [OF safe inv(3)] payment_tx_ok_pinv [OF inv(5,4)] safe t
      by (simp add: CreatePayment_payable [OF pb] run_txW_def platform_inv_def pay_safe_def)
  qed
qed

subsection \<open>The other operations of the webhook service\<close>

text \<open>They leave the ledger, the withdrawals and the payments alone.\<close>

definition quiet :: "db \<Rightarrow> db \<Rightarrow> bool" where
  "quiet d0 d \<longleftrightarrow> accounts d = accounts d0 \<and> entries d = entries d0 \<and> same_wd d0 d \<and> payments d = payments d0 \<and>
     ai_payments (ctrs d) = ai_payments (ctrs d0) \<and> wh_from (ai_wh_outbox (ctrs d0)) d \<and> ix_part d = ix_part d0"

lemma quiet_start: "wh_outbox_ok d \<Longrightarrow> quiet d d"
  by (simp add: quiet_def wh_from_def)

lemma quiet_inv:
  assumes "quiet d0 d" "platform_inv d0" shows "platform_inv d \<and> ix_part d = ix_part d0"
proof -
  have "pay_view d = pay_view d0" using assms(1) by (simp add: quiet_def pay_view_def)
  from payments_inv_view [OF this] show ?thesis
    using assms books_cong [of d d0] same_wd_inv [of d0 d]
    by (simp add: platform_inv_def exchange_inv_def quiet_def wh_from_def)
qed

lemma quiet_simps [simp]:
  "quiet d0 (d\<lparr>merchants := x\<rparr>) = quiet d0 d" "quiet d0 (d\<lparr>bindings := y\<rparr>) = quiet d0 d"
  "quiet d0 (d\<lparr>ctrs := (ctrs d)\<lparr>ai_deliveries := n\<rparr>, deliveries := z\<rparr>) = quiet d0 d"
  by (simp_all add: quiet_def same_wd_def wh_from_def wh_outbox_ok_def ix_part_def)

lemma quiet_upd:
  assumes "quiet d0 d" "\<And>r. who_id (f r) = who_id r" "\<And>r. who_key (f r) = who_key r"
  shows "quiet d0 (d\<lparr>wh_outbox := upd_where p f (wh_outbox d)\<rparr>)"
  using assms wh_outbox_ok_upd [of d f p] by (simp add: quiet_def same_wd_def wh_from_def ix_part_def)

lemma quiet_rollback:
  assumes "wh_outbox_ok d0" "quiet d0 d" shows "quiet d0 (rollback d0 d)"
  using assms wh_from_rollback [of d0 d] by (simp add: quiet_def same_wd_def wh_from_def ix_part_def rollback_def)

lemma InsertOutboxTx_quiet: "quiet d0 d \<Longrightarrow> quiet d0 (snd (InsertOutboxTx ch now m ev k p d))"
proof -
  assume q: "quiet d0 d"
  note w = InsertOutboxTx_wh [of d ch now m ev k p]
  show ?thesis
    using q same_but_wh_frame [OF w] same_but_wh_ctrs [OF w] same_but_wh_pay [OF w] same_but_wh_ix [OF w] InsertOutboxTx_from [of _ d ch now m ev k p]
    by (auto simp: quiet_def pay_view_def intro: same_wd_trans)
qed

lemma wh_marks_quiet:
  assumes "quiet d0 d"
  shows "quiet d0 (snd (WhClaimOutboxBatch ch now n d))" "quiet d0 (snd (WhMarkOutboxDone now i d))"
    "quiet d0 (snd (WhMarkOutboxRetry now i rc nxt fl d))" "quiet d0 (snd (RequeueOutbox ch now i d))"
  using assms
  by (auto simp: WhClaimOutboxBatch_eq WhMarkOutboxDone_def WhMarkOutboxRetry_def RequeueOutbox_def Let_def who_key_def
      intro!: quiet_upd)

lemma register_bind_quiet:
  assumes "quiet d0 d"
  shows "quiet d0 (snd (RegisterMerchant parse sv now p d))" "quiet d0 (snd (AddBinding sv now m u d))"
  using assms
  by (auto simp: RegisterMerchant_def AddBinding_def UpsertMerchant_def StoreAddBinding_def Let_def bindT_apply split: sum.split)

definition quietW :: "db \<Rightarrow> wh_state \<Rightarrow> bool" where
  "quietW d0 s \<longleftrightarrow> quiet d0 (whs_db s)"

lemma quietW_met [simp]: "quietW d0 (s\<lparr>whs_met := m\<rparr>) = quietW d0 s"
  by (simp add: quietW_def)

lemma failItem_quiet: "quietW d0 s \<Longrightarrow> quietW d0 (snd (failItem cfg now item s))"
  by (auto simp: failItem_def Let_def quietW_def wh_marks_quiet bindT_apply ignoreT_def split: sum.split go_error.split)

lemma deliverOne_quiet: "quietW d0 s \<Longrightarrow> quietW d0 (snd (deliverOne c cfg ch now item s))"
proof -
  assume q: "quietW d0 s"
  have del: "quietW d0 (x\<lparr>whs_db := snd (InsertDelivery ch now i m a h l b e (whs_db x))\<rparr>)" if "quietW d0 x" for i m a h l b e x
    using that by (simp add: quietW_def InsertDelivery_def)
  have dn: "quietW d0 (x\<lparr>whs_db := snd (WhMarkOutboxDone now i (whs_db x))\<rparr>)"
    "quietW d0 (x\<lparr>whs_db := snd (WhMarkOutboxDone now i (whs_db x)), whs_met := f\<rparr>)" if "quietW d0 x" for i f x
    using that by (simp_all add: quietW_def wh_marks_quiet)
  show ?thesis
    unfolding deliverOne_def Let_def
    by (auto simp: q del dn failItem_quiet intro!: bindT_snd [where P = "quietW d0"] split: sum.split)
qed

lemma workerTick_quiet: "quietW d0 s \<Longrightarrow> quietW d0 (snd (workerTick c cfg ch now s))"
proof -
  assume q: "quietW d0 s"
  have "quietW d0 (snd (dbW (WhClaimOutboxBatch ch now n) s))" for n using q by (simp add: quietW_def wh_marks_quiet)
  then show ?thesis
    unfolding workerTick_def Let_def
    by (rule bindT_snd [where P = "quietW d0"]) (simp add: forT_snd [where P = "quietW d0"] deliverOne_quiet)
qed

lemma bench_loop_quiet: "quiet d0 d \<Longrightarrow> quiet d0 (snd (bench_loop ch now nano m ev is k d))"
proof (induction "is" arbitrary: k d)
  case (Cons i "is")
  show ?case
    unfolding bench_loop.simps
    by (rule bindT_snd [where P = "quiet d0"]) (simp_all add: Cons.IH InsertOutboxTx_quiet Cons.prems)
qed simp

lemma BenchEnqueue_quiet:
  assumes "wh_outbox_ok (whs_db s)"
  shows "quietW (whs_db s) (snd (BenchEnqueue sv now nano m n s))"
proof -
  have q: "quiet (whs_db s) (whs_db s)" using assms by (rule quiet_start)
  have "quiet (whs_db s) (snd (run_tx (bench_loop ch now nano m ev is k) (whs_db s)))" for ch ev "is" k
    using bench_loop_quiet [OF q, of ch now nano m ev "is" k] quiet_rollback [OF assms]
    by (auto simp: run_tx_def split: prod.splits sum.splits)
  then have "quiet (whs_db s) (snd (StoreBenchEnqueue ch now nano m ev n (whs_db s)))" for ch ev
    using q by (simp add: StoreBenchEnqueue_def bindT_apply split: sum.split prod.split)
  then show ?thesis using q by (simp add: BenchEnqueue_def quietW_def bindT_apply split: sum.split)
qed

subsection \<open>Steps of the platform\<close>

inductive wh_step :: "wh_service \<Rightarrow> wh_state \<Rightarrow> wh_state \<Rightarrow> bool" for sv where
  register: "wh_step sv s (snd (dbW (RegisterMerchant parse sv now p) s))"
| bind: "wh_step sv s (snd (dbW (AddBinding sv now m u) s))"
| pay: "wh_step sv s (snd (CreatePayment sv now q s))"
| bench: "wh_step sv s (snd (BenchEnqueue sv now nano m n s))"
| requeue: "wh_step sv s (snd (dbW (Requeue sv now i) s))"
| deliver: "wh_step sv s (snd (workerTick c (ws_cfg sv) (ws_store sv) now s))"

inductive_cases wh_stepE: "wh_step sv s s'"

text \<open>The exchange's handlers run with the webhook service as the notifier of deposits; its
  counters may change in any way.\<close>

inductive platform_step ::
  "ex_service \<Rightarrow> wh_service \<Rightarrow> deposit_processor \<Rightarrow> sys \<times> metrics \<Rightarrow> sys \<times> metrics \<Rightarrow> bool" for xs sv dp where
  exchange: "ex_step xs (Some (notified sv now dp)) s s' \<Longrightarrow> platform_step xs sv dp (s, m) (s', m')"
| webhook: "wh_step sv \<lparr>whs_db = sys_db s, whs_met = m\<rparr> w \<Longrightarrow>
    platform_step xs sv dp (s, m) (s\<lparr>sys_db := whs_db w\<rparr>, whs_met w)"

inductive_cases platform_stepE: "platform_step xs sv dp x y"

lemma wh_step_inv:
  assumes "wh_step sv s s'" "platform_inv (whs_db s)"
  shows "platform_inv (whs_db s') \<and> ix_part (whs_db s') = ix_part (whs_db s)"
proof -
  have ok: "wh_outbox_ok (whs_db s)" using assms(2) by (simp add: platform_inv_def)
  note q = quiet_start [OF ok]
  note inv = quiet_inv [OF _ assms(2)]
  have w: "quietW (whs_db s) s" using q by (simp add: quietW_def)
  show ?thesis
    using assms(1)
  proof (cases rule: wh_step.cases)
    case (register parse now p)
    then show ?thesis using inv [OF register_bind_quiet(1) [OF q]] by simp
  next
    case (bind now m u)
    then show ?thesis using inv [OF register_bind_quiet(2) [OF q]] by simp
  next
    case (pay now p)
    then show ?thesis using CreatePayment_inv [OF assms(2)] by simp
  next
    case (bench now nano m n)
    then show ?thesis using inv [OF BenchEnqueue_quiet [OF ok, unfolded quietW_def]] by simp
  next
    case (requeue now i)
    then show ?thesis using inv [OF wh_marks_quiet(4) [OF q]] by (simp add: Requeue_def)
  next
    case (deliver c now)
    then show ?thesis using inv [OF workerTick_quiet [OF w, unfolded quietW_def]] by simp
  qed
qed

lemma platform_step_inv:
  assumes "platform_step xs sv dp x y" "platform_inv (sys_db (fst x))"
  shows "platform_inv (sys_db (fst y)) \<and> ix_part (sys_db (fst y)) = ix_part (sys_db (fst x))"
  using assms(1)
proof (cases rule: platform_step.cases)
  case (exchange now s s' m m')
  have "ix_part (sys_db s') = ix_part (sys_db s)" using exchange by (blast intro: ixv.ex_step_keeps)
  moreover have "pay_view (sys_db s') = pay_view (sys_db s)" using exchange by (blast intro: pac.ex_step_keeps)
  note payments_inv_view [OF this]
  ultimately show ?thesis
    using exchange assms(2) ex_step_wh [OF exchange(3)] ex_step_winv [OF exchange(3) capture_ok_notified]
      exchange_client.ex_step_keeps [OF books_client [OF capture_ok_notified] exchange(3)]
    by (simp add: platform_inv_def exchange_inv_def)
next
  case (webhook s m w)
  then show ?thesis using assms(2) wh_step_inv [OF webhook(3)] by simp
qed

lemma platform_reachable_inv:
  assumes "(platform_step xs sv dp)\<^sup>*\<^sup>* x y" "platform_inv (sys_db (fst x))"
  shows "platform_inv (sys_db (fst y))"
  using assms by (induction rule: rtranclp_induct) (auto dest: platform_step_inv)

end
