(* ===== verification/Webhook_Delivery.thy ===== *)
theory Webhook_Delivery
  imports Webhook_System
begin

text \<open>
  Deliveries: what one attempt does to its event on every branch, and that the attempts of
  an event end. The credit of an event is the number of attempts it has left; a round of a
  worker takes at least one from each event it claims.
\<close>

subsection \<open>One attempt\<close>

definition accepted :: "wh_client \<Rightarrow> config \<Rightarrow> int \<Rightarrow> time \<Rightarrow> wh_item \<Rightarrow> db \<Rightarrow> bool" where
  "accepted c cfg ch now item d \<longleftrightarrow> (case GetMerchant ch (wi_merchant item) d of
     Inl _ \<Rightarrow> False
   | Inr (m, secret) \<Rightarrow> mc_enabled m \<and>
       (let res = Post c now (target_url cfg m) secret (wc_json c (wi_payload item)) in
        dr_err res = None \<and> 200 \<le> dr_http res \<and> dr_http res < 300))"

definition retried :: "config \<Rightarrow> time \<Rightarrow> nat \<Rightarrow> wh_outbox_row \<Rightarrow> wh_outbox_row" where
  "retried cfg now n r = r\<lparr>who_status := (if max_retries cfg \<le> n + 1 then ObFailed else ObPending), who_retries := n + 1,
     who_next_retry := now + retry_backoff (n + 1), who_updated := now\<rparr>"

definition outcome :: "config \<Rightarrow> time \<Rightarrow> wh_item \<Rightarrow> bool \<Rightarrow> wh_outbox_row \<Rightarrow> wh_outbox_row" where
  "outcome cfg now item ok r =
     (if ok then r\<lparr>who_status := ObDone, who_updated := now\<rparr> else retried cfg now (wi_retries item) r)"

lemma failItem_outbox:
  "wh_outbox (whs_db (snd (failItem cfg now item s))) =
     upd_where (\<lambda>r. who_id r = wi_id item) (retried cfg now (wi_retries item)) (wh_outbox (whs_db s))"
  by (simp add: failItem_def Let_def bindT_apply ignoreT_def WhMarkOutboxRetry_def retried_def [abs_def])

lemma deliverOne_outbox:
  "wh_outbox (whs_db (snd (deliverOne c cfg ch now item s))) =
     upd_where (\<lambda>r. who_id r = wi_id item) (outcome cfg now item (accepted c cfg ch now item (whs_db s))) (wh_outbox (whs_db s))"
  by (auto simp: deliverOne_def accepted_def bindT_apply ignoreT_def Let_def failItem_outbox InsertDelivery_def
      WhMarkOutboxDone_def outcome_def [abs_def] split: sum.split)

lemma outcome_id [simp]: "who_id (outcome cfg now item ok r) = who_id r"
  by (simp add: outcome_def retried_def)

subsection \<open>The attempts left\<close>

text \<open>A requeued event has its retries used up and still gets one attempt.\<close>

definition attempts_left :: "config \<Rightarrow> wh_outbox_row \<Rightarrow> nat" where
  "attempts_left cfg r =
     (if who_status r \<in> {ObPending, ObProcessing} then max 1 (max_retries cfg - who_retries r) else 0)"

definition all_left :: "config \<Rightarrow> db \<Rightarrow> nat" where
  "all_left cfg d = sum_list (map (attempts_left cfg) (wh_outbox d))"

text \<open>The primary key of the outbox.\<close>

definition outbox_ids :: "db \<Rightarrow> bool" where
  "outbox_ids d \<longleftrightarrow> distinct (map who_id (wh_outbox d))"

lemma upd_where_sum:
  fixes g :: "'r \<Rightarrow> nat"
  assumes "distinct (map key t)" "r \<in> set t"
  shows "sum_list (map g (upd_where (\<lambda>x. key x = key r) f t)) + g r = sum_list (map g t) + g (f r)"
  using assms
proof (induction t)
  case (Cons x t)
  show ?case
  proof (cases "key x = key r")
    case True
    then have "upd_where (\<lambda>x. key x = key r) f t = t"
      using Cons.prems by (intro upd_where_none) (metis distinct.simps(2) image_eqI list.simps(9) set_map)
    moreover have "x = r" using True Cons.prems by (auto simp: image_iff)
    ultimately show ?thesis using True by simp
  next
    case False
    then show ?thesis using Cons by auto
  qed
qed simp

lemma outcome_left:
  assumes "who_status r = ObProcessing" "wi_retries item = who_retries r"
  shows "attempts_left cfg (outcome cfg now item ok r) < attempts_left cfg r"
  using assms by (auto simp: attempts_left_def outcome_def retried_def)

text \<open>The rows that the rest of a batch stands for, while it is being delivered.\<close>

definition in_work :: "wh_item list \<Rightarrow> db \<Rightarrow> bool" where
  "in_work items d \<longleftrightarrow> outbox_ids d \<and> distinct (map wi_id items) \<and>
     (\<forall>it\<in>set items. \<exists>r\<in>set (wh_outbox d). who_id r = wi_id it \<and> who_status r = ObProcessing \<and>
        who_retries r = wi_retries it)"

lemma outbox_ids_outcome:
  assumes "outbox_ids d" "wh_outbox d' = upd_where p (outcome cfg now item ok) (wh_outbox d)"
  shows "outbox_ids d'"
  using assms
  by (auto simp: outbox_ids_def map_upd_where outcome_def retried_def dest!: set_upd_where split: if_splits)

lemma deliver_in_work:
  assumes "in_work (it # items) (whs_db s)"
  shows "in_work items (whs_db (snd (deliverOne c cfg ch now it s)))"
    "all_left cfg (whs_db (snd (deliverOne c cfg ch now it s))) < all_left cfg (whs_db s)"
proof -
  let ?t = "wh_outbox (whs_db s)" and ?f = "outcome cfg now it (accepted c cfg ch now it (whs_db s))"
  have ok: "outbox_ids (whs_db s)" using assms by (simp add: in_work_def)
  have kept: "r \<in> set (upd_where (\<lambda>r. who_id r = wi_id it) ?f ?t)" if "r \<in> set ?t" "who_id r \<noteq> wi_id it" for r
    using that by (auto simp: upd_where_def image_iff)
  have "\<exists>r\<in>set (upd_where (\<lambda>r. who_id r = wi_id it) ?f ?t). who_id r = wi_id x \<and> who_status r = ObProcessing \<and>
      who_retries r = wi_retries x" if "x \<in> set items" for x
  proof -
    obtain r where "r \<in> set ?t" "who_id r = wi_id x" "who_status r = ObProcessing" "who_retries r = wi_retries x"
      using assms \<open>x \<in> set items\<close> by (auto simp: in_work_def)
    moreover have "wi_id x \<noteq> wi_id it" using assms \<open>x \<in> set items\<close> by (auto simp: in_work_def image_iff)
    ultimately show ?thesis using kept [of r] by auto
  qed
  then show "in_work items (whs_db (snd (deliverOne c cfg ch now it s)))"
    using assms outbox_ids_outcome [OF ok deliverOne_outbox] by (simp add: in_work_def deliverOne_outbox)
  obtain r where r: "r \<in> set ?t" "who_id r = wi_id it" "who_status r = ObProcessing" "wi_retries it = who_retries r"
    using assms by (auto simp: in_work_def)
  have "sum_list (map (attempts_left cfg) (upd_where (\<lambda>x. who_id x = wi_id it) ?f ?t)) + attempts_left cfg r =
      sum_list (map (attempts_left cfg) ?t) + attempts_left cfg (?f r)"
    using upd_where_sum [of who_id ?t r "attempts_left cfg" ?f] ok r by (simp add: outbox_ids_def)
  then show "all_left cfg (whs_db (snd (deliverOne c cfg ch now it s))) < all_left cfg (whs_db s)"
    using outcome_left [OF r(3,4), of cfg now "accepted c cfg ch now it (whs_db s)"] by (simp add: all_left_def deliverOne_outbox)
qed

lemma deliverOne_Inr: "fst (deliverOne c cfg ch now it s) = Inr ()"
  by (auto simp: deliverOne_def failItem_def bindT_apply ignoreT_def Let_def WhMarkOutboxRetry_def InsertDelivery_def
      WhMarkOutboxDone_def split: sum.split)

lemma deliver_all:
  assumes "in_work items (whs_db s)"
  shows "outbox_ids (whs_db (snd (forT items (deliverOne c cfg ch now) s))) \<and>
    all_left cfg (whs_db (snd (forT items (deliverOne c cfg ch now) s))) + length items \<le> all_left cfg (whs_db s)"
  using assms
proof (induction items arbitrary: s)
  case Nil
  then show ?case by (simp add: in_work_def)
next
  case (Cons it items)
  obtain s1 where s1: "deliverOne c cfg ch now it s = (Inr (), s1)"
    using deliverOne_Inr by (metis prod.collapse)
  then show ?case using Cons.IH [of s1] deliver_in_work [OF Cons.prems, where c = c and cfg = cfg and ch = ch and now = now] by simp
qed

subsection \<open>A round\<close>

definition batch_size :: "config \<Rightarrow> int" where
  "batch_size cfg = (if WhBatchSize (Webhook cfg) \<le> 0 then 100 else WhBatchSize (Webhook cfg))"

lemma claim_in_work:
  assumes "outbox_ids d"
  shows "in_work (map scan_wh_item (who_claim_rows ch now n d)) (snd (WhClaimOutboxBatch ch now n d)) \<and>
    all_left cfg (snd (WhClaimOutboxBatch ch now n d)) = all_left cfg d"
proof -
  let ?b = "who_claim_rows ch now n d" and ?f = "\<lambda>r. r\<lparr>who_status := ObProcessing, who_updated := now\<rparr>"
  have t: "wh_outbox (snd (WhClaimOutboxBatch ch now n d)) = upd_where (\<lambda>r. who_id r \<in> who_id ` set ?b) ?f (wh_outbox d)"
    by (simp add: WhClaimOutboxBatch_eq)
  have row: "r \<in> set (wh_outbox d)" "who_status r = ObPending" if "r \<in> set ?b" for r
    using who.claimed_row [of r ch now n d] that by simp_all
  have inj: "inj_on who_id (set (wh_outbox d))" using assms by (simp add: outbox_ids_def distinct_map)
  have pend: "who_status r = ObPending" if "r \<in> set (wh_outbox d)" "who_id r \<in> who_id ` set ?b" for r
    using that row inj by (auto dest: inj_onD)
  have "outbox_ids (snd (WhClaimOutboxBatch ch now n d))"
    using assms unfolding outbox_ids_def t by (auto simp: map_upd_where dest!: set_upd_where split: if_splits)
  moreover have "distinct (map who_id ?b)"
  proof -
    have "distinct (map who_id (sort_key who_id (filter (who_ready ch now) (wh_outbox d))))"
      using assms by (simp add: outbox_ids_def distinct_map distinct_filter inj_on_def)
    then show ?thesis
      unfolding who_claim_rows_def sql_limit_def by (metis distinct_take take_map)
  qed
  moreover have "?f r \<in> set (upd_where (\<lambda>r. who_id r \<in> who_id ` set ?b) ?f (wh_outbox d))"
    if "r \<in> set ?b" for r
    using row [OF that] that assms by (auto simp: upd_where_def outbox_ids_def image_iff intro!: bexI [of _ r])
  ultimately have work: "in_work (map scan_wh_item ?b) (snd (WhClaimOutboxBatch ch now n d))"
    unfolding in_work_def t by (auto simp: scan_wh_item_def comp_def intro!: bexI [of _ "?f _"])
  have "map (attempts_left cfg) (upd_where (\<lambda>r. who_id r \<in> who_id ` set ?b) ?f (wh_outbox d)) = map (attempts_left cfg) (wh_outbox d)"
    using pend by (intro map_upd_where) (simp add: attempts_left_def)
  then show ?thesis using work by (simp add: all_left_def t)
qed

lemma workerTick_left:
  assumes "outbox_ids (whs_db s)"
  shows "outbox_ids (whs_db (snd (workerTick c cfg ch now s))) \<and>
    all_left cfg (whs_db (snd (workerTick c cfg ch now s))) + length (who_claim_rows ch now (batch_size cfg) (whs_db s))
      \<le> all_left cfg (whs_db s)"
  using claim_in_work [OF assms, of ch now "batch_size cfg"]
    deliver_all [of "map scan_wh_item (who_claim_rows ch now (batch_size cfg) (whs_db s))" "s\<lparr>whs_db := snd (WhClaimOutboxBatch ch now (batch_size cfg) (whs_db s))\<rparr>" c cfg ch now]
  by (simp add: workerTick_def batch_size_def [symmetric] Let_def bindT_apply WhClaimOutboxBatch_eq)

end
