(* ===== verification/Webhook_Properties.thy ===== *)
theory Webhook_Properties
  imports Platform Webhook_Delivery Samples
begin

text \<open>
  The properties of the webhook package and of the platform it forms with the exchange,
  each with the concrete case in which its hypotheses hold.
\<close>

subsection \<open>A service and its database\<close>

definition wsv0 :: wh_service where
  "wsv0 = \<lparr>ws_cfg = cfg0, ws_store = 1, ws_exstore = Some 1\<rparr>"

definition mer0 :: "string \<Rightarrow> merchant_row" where
  "mer0 i = \<lparr>mer_chain = 1, mer_id = i, mer_name = [], mer_url = ''http://m'', mer_secret = ''s'', mer_ledger_user = ''mu'',
     mer_enabled = True, mer_created = 0, mer_updated = 0\<rparr>"

definition wdb0 :: db where
  "wdb0 = db1\<lparr>merchants := [mer0 ''m1'', mer0 ''m2''],
     bindings := [\<lparr>bind_chain = 1, bind_merchant = ''m1'', bind_payer = ''u'', bind_created = 0\<rparr>,
       \<lparr>bind_chain = 1, bind_merchant = ''m2'', bind_payer = ''u'', bind_created = 0\<rparr>]\<rparr>"

definition ws0 :: wh_state where
  "ws0 = \<lparr>whs_db = wdb0, whs_met = NewMetrics 0\<rparr>"

definition pay0 :: create_payment_params where
  "pay0 = \<lparr>cp_merchant = ''m1'', cp_order = '' o1'', cp_payer = ''u'', cp_token = [], cp_amount = ''15'', cp_idem = []\<rparr>"

text \<open>A client that gets the given status for every request.\<close>

definition client0 :: "int \<Rightarrow> wh_client" where
  "client0 st = \<lparr>wc_hmac = (\<lambda>k m. []), wc_http = (\<lambda>u h b. Inr \<lparr>hr_status = st, hr_body = []\<rparr>), wc_json = (\<lambda>p. []), wc_latency = 3\<rparr>"

lemma wdb0_tables:
  "accounts wdb0 = accounts db1" "entries wdb0 = entries db1" "withdraws wdb0 = withdraws db1" "ctrs wdb0 = ctrs db1"
  "payments wdb0 = payments db1" "wh_outbox wdb0 = wh_outbox db1"
  by (simp_all add: wdb0_def)

lemma ledger_inv_wdb0: "ledger_inv wdb0"
proof -
  have "ledger_inv db1"
    using plain_capture.captureAndCredit_inv [of empty_db cfg0 1 "Some reg0" 100 cap0] by (simp add: db1_def dp0_def)
  then show ?thesis using ledger_inv_cong [of wdb0 db1] by (simp add: wdb0_tables)
qed

subsection \<open>Payments\<close>

lemma pay0_runs:
  "isl (fst (CreatePayment wsv0 9 pay0 ws0)) = False \<and> length (payments (whs_db (snd (CreatePayment wsv0 9 pay0 ws0)))) = 1"
  by code_simp

text \<open>C26: A payment that succeeds takes its amount from the payer and gives it to the merchant's ledger account, keeps the
  liabilities of every token and is recorded; asking again for the same order of the merchant succeeds and changes no table, whatever the
  other parameters.\<close>

theorem payment_once:
  assumes "payable sv ex mu (cp_merchant p) (whs_db s)" "ledger_inv (whs_db s)"
    "\<forall>r\<in>set (payments (whs_db s)). \<not> payment_conflict (ws_store sv) (new_payment (ws_store sv) p) r"
    "CreatePayment sv now p s = (Inr pay, s')" "\<not> sql_eq (trim_space (cp_payer p)) mu"
  shows "acct_avail ex (trim_space (cp_payer p)) (normToken (whNormToken (cp_token p))) (whs_db s') =
      acct_avail ex (trim_space (cp_payer p)) (normToken (whNormToken (cp_token p))) (whs_db s) - wei_val (cp_amount p) \<and>
    acct_avail ex mu (normToken (whNormToken (cp_token p))) (whs_db s') =
      acct_avail ex mu (normToken (whNormToken (cp_token p))) (whs_db s) + wei_val (cp_amount p) \<and>
    (\<forall>c t. liabilities c t (whs_db s') = liabilities c t (whs_db s)) \<and>
    payments (whs_db s') = payments (whs_db s) @
      [paid_row (ws_store sv) now (new_payment (ws_store sv) p) (ai_payments (ctrs (whs_db s)))] \<and>
    (\<forall>p' now'. cp_merchant p' = cp_merchant p \<and> trim_space (cp_order p') = trim_space (cp_order p) \<longrightarrow>
      (\<exists>pay' s''. CreatePayment sv now' p' s' = (Inr pay', s'') \<and> same_tables (whs_db s') (whs_db s'')))"
proof -
  let ?pay = "new_payment (ws_store sv) p" and ?n = "ai_payments (ctrs (whs_db s))"
  obtain d2 where t: "TransferInternalTx ex now (trim_space (cp_payer p)) mu (whNormToken (cp_token p)) (cp_amount p) ?n
      (with_payment (ws_store sv) now ?pay (whs_db s)) = (Inr (), d2)" "accounts (whs_db s') = accounts d2"
    "merchants (whs_db s') = merchants (whs_db s)" "payments (whs_db s') = payments (whs_db s) @ [paid_row (ws_store sv) now ?pay ?n]"
    using assms(1-4) by (rule CreatePayment_done)
  have acc: "accounts (with_payment (ws_store sv) now ?pay (whs_db s)) = accounts (whs_db s)" by (simp add: with_payment_def)
  have again: "\<exists>pay' s''. CreatePayment sv now' p' s' = (Inr pay', s'') \<and> same_tables (whs_db s') (whs_db s'')"
    if "cp_merchant p' = cp_merchant p" "trim_space (cp_order p') = trim_space (cp_order p)" for p' now'
  proof (rule CreatePayment_again)
    show "payable sv ex mu (cp_merchant p') (whs_db s')" using assms(1) t(3) that by (simp add: payable_def GetMerchant_def)
    show "\<exists>r\<in>set (payments (whs_db s')). payment_conflict (ws_store sv) (new_payment (ws_store sv) p') r"
      using t(4) that by (simp add: payment_conflict_def paid_row_def new_payment_def Let_def)
  qed
  show ?thesis
    using TransferInternalTx_balances [OF with_payment_inv [OF assms(2)] t(1) assms(5)] t(2,4) acc again
      acct_cong [OF t(2)] acct_cong [OF acc]
    by (simp add: liabilities_def)
qed

theorem payment_once_witness:
  "\<exists>pay s'. CreatePayment wsv0 9 pay0 ws0 = (Inr pay, s') \<and> acct_avail 1 ''u'' [] (whs_db s') = 25 \<and>
     acct_avail 1 ''mu'' [] (whs_db s') = 15 \<and> length (payments (whs_db s')) = 1 \<and>
     (\<exists>pay' s''. CreatePayment wsv0 10 pay0 s' = (Inr pay', s'') \<and> same_tables (whs_db s') (whs_db s''))"
proof -
  have "isl (fst (CreatePayment wsv0 9 pay0 ws0)) = False" using pay0_runs by simp
  then obtain pay s' where s: "CreatePayment wsv0 9 pay0 ws0 = (Inr pay, s')"
    by (cases "CreatePayment wsv0 9 pay0 ws0"; cases "fst (CreatePayment wsv0 9 pay0 ws0)") auto
  have all: "payable wsv0 1 ''mu'' (cp_merchant pay0) (whs_db ws0) \<and>
      payments (whs_db ws0) = [] \<and>
      \<not> sql_eq (trim_space (cp_payer pay0)) ''mu'' \<and>
      trim_space (cp_payer pay0) = ''u'' \<and>
      normToken (whNormToken (cp_token pay0)) = [] \<and>
      wei_val (cp_amount pay0) = 15 \<and>
      acct_avail 1 ''u'' [] (whs_db ws0) = 40 \<and>
      acct_avail 1 ''mu'' [] (whs_db ws0) = 0" by code_simp
  from all have p: "payable wsv0 1 ''mu'' (cp_merchant pay0) (whs_db ws0)" by blast+
  from all have c: "payments (whs_db ws0) = []" by blast+
  from all have u: "\<not> sql_eq (trim_space (cp_payer pay0)) ''mu''" by blast+
  from all have v: "trim_space (cp_payer pay0) = ''u''" "normToken (whNormToken (cp_token pay0)) = []" "wei_val (cp_amount pay0) = 15" "acct_avail 1 ''u'' [] (whs_db ws0) = 40" "acct_avail 1 ''mu'' [] (whs_db ws0) = 0" by blast+
  have l: "ledger_inv (whs_db ws0)" by (simp add: ws0_def ledger_inv_wdb0)
  have n: "\<forall>r\<in>set (payments (whs_db ws0)). \<not> payment_conflict (ws_store wsv0) (new_payment (ws_store wsv0) pay0) r" using c by simp
  show ?thesis using payment_once [OF p l n s u] s c v by auto
qed

subsection \<open>The platform\<close>

text \<open>Whatever the handlers of the exchange, with the webhook service as its notifier, and the operations of the webhook
  service do, in any order: the books balance, the withdraw table is well formed, no event is enqueued twice under a key, and
  every payment stands for exactly one debit of its payer and one credit, both of its amount, in the journal.\<close>

theorem platform_sound:
  assumes "(platform_step xs sv dp)\<^sup>*\<^sup>* x y" "platform_inv (sys_db (fst x))"
  shows "ledger_inv (sys_db (fst y)) \<and> credits_once (sys_db (fst y)) \<and> withdraws_inv (sys_db (fst y)) \<and>
    distinct (map who_key (wh_outbox (sys_db (fst y)))) \<and>
    (\<forall>r\<in>set (payments (sys_db (fst y))). payment_posted (filter is_pay (entries (sys_db (fst y)))) r)"
  using platform_reachable_inv [OF assms]
  by (auto simp: platform_inv_def exchange_inv_def books_def wh_outbox_ok_def payments_inv_def pay_view_def)

lemma platform_inv_ws0: "platform_inv wdb0"
proof -
  have "books empty_db" by (simp add: books_def credits_once_def dep_count_def) (simp add: empty_db_def)
  from plain_capture.captureAndCredit_books [OF this, of cfg0 1 "Some reg0" 100 cap0]
  have b: "books db1" by (simp add: db1_def dp0_def)
  have "withdraws db1 = [] \<and> wh_outbox db1 = [] \<and> payments db1 = [] \<and> filter is_pay (entries db1) = []" by code_simp
  then have w: "withdraws db1 = []" "wh_outbox db1 = []" "payments db1 = []" "filter is_pay (entries db1) = []" by blast+
  show ?thesis
    using b w books_cong [of wdb0 db1]
    by (simp add: platform_inv_def exchange_inv_def withdraws_inv_iff wh_outbox_ok_def payments_inv_def pay_view_def wdb0_tables)
qed

theorem platform_sound_witness:
  "\<exists>d. d = whs_db (snd (CreatePayment wsv0 9 pay0 ws0)) \<and> length (payments d) = 1 \<and> ledger_inv d \<and>
     (\<forall>r\<in>set (payments d). payment_posted (filter is_pay (entries d)) r)"
proof -
  let ?x = "(\<lparr>sys_db = wdb0, sys_sent = []\<rparr>, NewMetrics 0)"
  let ?w = "snd (CreatePayment wsv0 9 pay0 ws0)"
  have "wh_step wsv0 \<lparr>whs_db = sys_db \<lparr>sys_db = wdb0, sys_sent = []\<rparr>, whs_met = NewMetrics 0\<rparr> ?w"
    using wh_step.pay [of wsv0 ws0 9 pay0] by (simp add: ws0_def)
  from platform_step.webhook [OF this]
  have "(platform_step xs0 wsv0 dp0)\<^sup>*\<^sup>* ?x (\<lparr>sys_db = whs_db ?w, sys_sent = []\<rparr>, whs_met ?w)" by (simp add: r_into_rtranclp)
  from platform_sound [OF this] have "ledger_inv (whs_db ?w) \<and>
    (\<forall>r\<in>set (payments (whs_db ?w)). payment_posted (filter is_pay (entries (whs_db ?w))) r)"
    using platform_inv_ws0 by simp
  moreover have "length (payments (whs_db ?w)) = 1" using pay0_runs by simp
  ultimately show ?thesis by blast
qed

subsection \<open>Notifications\<close>

text \<open>The key of a deposit's event does not name the merchant: of all merchants bound to the depositing user only the
  first gets an event; the others are counted as duplicates.\<close>

theorem deposit_notifies_first:
  assumes "WhEnabled sv" "ListBindingsByPayer (ws_store sv) (dep_user dep) (whs_db s) = b # bs"
    "\<forall>r\<in>set (wh_outbox (whs_db s)). \<not> who_idem_match (ws_store sv) (deposit_idem dep) r"
  shows "fst (EnqueueDepositTx sv now dep s) = Inr () \<and>
    map who_merchant (wh_outbox (whs_db (snd (EnqueueDepositTx sv now dep s)))) =
      map who_merchant (wh_outbox (whs_db s)) @ [bind_merchant b] \<and>
    met_duplicates (whs_met (snd (EnqueueDepositTx sv now dep s))) = met_duplicates (whs_met s) + of_nat (length bs)"
proof -
  have "met_duplicates ((RecordDuplicate ^^ n) m) = met_duplicates m + of_nat n" for n m
    by (induction n) (simp_all add: RecordDuplicate_def algebra_simps)
  moreover have "met_duplicates (RecordEnqueue m) = met_duplicates m" for m by (simp add: RecordEnqueue_def)
  ultimately show ?thesis using EnqueueDepositTx_new [OF assms, of now] by auto
qed

definition dep0 :: deposit where
  "dep0 = hd (deposits db1)"

theorem deposit_notifies_first_witness:
  "map who_merchant (wh_outbox (whs_db (snd (EnqueueDepositTx wsv0 9 dep0 ws0)))) = [''m1''] \<and>
   length (ListBindingsByPayer 1 (dep_user dep0) wdb0) = 2"
proof -
  have all: "WhEnabled wsv0 \<and>
      length (ListBindingsByPayer 1 (dep_user dep0) wdb0) = 2 \<and>
      wh_outbox (whs_db ws0) = [] \<and>
      map bind_merchant (ListBindingsByPayer (ws_store wsv0) (dep_user dep0) (whs_db ws0)) = [''m1'', ''m2'']" by code_simp
  from all have e: "WhEnabled wsv0" by blast+
  from all have l: "length (ListBindingsByPayer 1 (dep_user dep0) wdb0) = 2" by blast+
  from all have o: "wh_outbox (whs_db ws0) = []" by blast+
  from all have b: "map bind_merchant (ListBindingsByPayer (ws_store wsv0) (dep_user dep0) (whs_db ws0)) = [''m1'', ''m2'']" by blast+
  then obtain b1 b2 where bs: "ListBindingsByPayer (ws_store wsv0) (dep_user dep0) (whs_db ws0) = b1 # [b2]" "bind_merchant b1 = ''m1''"
    by (auto simp: map_eq_Cons_conv)
  have "\<forall>r\<in>set (wh_outbox (whs_db ws0)). \<not> who_idem_match (ws_store wsv0) (deposit_idem dep0) r" using o by simp
  from deposit_notifies_first [OF e bs(1) this, of 9] show ?thesis using bs(2) o l by simp
qed

subsection \<open>Deliveries\<close>

text \<open>C29: An attempt to deliver an event touches the row of this event only. It is done exactly when the merchant is known and
  enabled and answers with a 2xx status; otherwise the attempt is counted, the event fails for good exactly when the limit is
  reached, and the next attempt is due after a positive time of at most thirty seconds.\<close>

theorem delivery_outcome:
  assumes "r \<in> set (wh_outbox (whs_db s))" "wi_id item = who_id r" "wi_retries item = who_retries r"
  shows "(\<exists>r'\<in>set (wh_outbox (whs_db (snd (deliverOne c cfg ch now item s)))). who_id r' = who_id r \<and>
      (if accepted c cfg ch now item (whs_db s) then who_status r' = ObDone \<and> who_retries r' = who_retries r
       else who_retries r' = who_retries r + 1 \<and>
         who_status r' = (if max_retries cfg \<le> who_retries r + 1 then ObFailed else ObPending) \<and>
         now < who_next_retry r' \<and> who_next_retry r' \<le> now + 30000)) \<and>
    (\<forall>q\<in>set (wh_outbox (whs_db s)). who_id q \<noteq> who_id r \<longrightarrow> q \<in> set (wh_outbox (whs_db (snd (deliverOne c cfg ch now item s)))))"
proof -
  let ?f = "outcome cfg now item (accepted c cfg ch now item (whs_db s))"
  let ?t = "upd_where (\<lambda>r. who_id r = wi_id item) ?f (wh_outbox (whs_db s))"
  have "?f r \<in> set ?t" using assms(1,2) by (auto simp: upd_where_def intro!: image_eqI [of _ _ r])
  moreover have "0 < retry_backoff (n + 1)" "retry_backoff (n + 1) \<le> 30000" for n
    by (simp_all add: retry_backoff_def min_less_iff_conj del: of_nat_mult)
  ultimately have "\<exists>r'\<in>set ?t. who_id r' = who_id r \<and>
      (if accepted c cfg ch now item (whs_db s) then who_status r' = ObDone \<and> who_retries r' = who_retries r
       else who_retries r' = who_retries r + 1 \<and>
         who_status r' = (if max_retries cfg \<le> who_retries r + 1 then ObFailed else ObPending) \<and>
         now < who_next_retry r' \<and> who_next_retry r' \<le> now + 30000)"
    using assms(3) by (intro bexI [of _ "?f r"]) (simp_all add: outcome_def retried_def)
  moreover have "q \<in> set ?t" if "q \<in> set (wh_outbox (whs_db s))" "who_id q \<noteq> who_id r" for q
    using that assms(2) by (auto simp: upd_where_def intro!: image_eqI [of _ _ q])
  ultimately show ?thesis unfolding deliverOne_outbox by blast
qed

definition event_state :: wh_state where
  "event_state = snd (EnqueueDepositTx wsv0 9 dep0 ws0)"

theorem delivery_outcome_witness:
  "\<exists>r'\<in>set (wh_outbox (whs_db (snd (deliverOne (client0 500) cfg0 1 20 (scan_wh_item (hd (wh_outbox (whs_db event_state)))) event_state)))).
     who_retries r' = 1 \<and> who_status r' = ObPending \<and> who_next_retry r' \<le> 30020"
proof -
  let ?r = "hd (wh_outbox (whs_db event_state))"
  have all: "\<not> accepted (client0 500) cfg0 1 20 (scan_wh_item ?r) (whs_db event_state) \<and>
      max_retries cfg0 = 3 \<and>
      who_retries ?r = 0 \<and>
      length (wh_outbox (whs_db event_state)) = 1" by code_simp
  from all have v: "\<not> accepted (client0 500) cfg0 1 20 (scan_wh_item ?r) (whs_db event_state)" "max_retries cfg0 = 3" "who_retries ?r = 0" by blast+
  from all have l: "length (wh_outbox (whs_db event_state)) = 1" by blast+
  then have r: "?r \<in> set (wh_outbox (whs_db event_state))" by (cases "wh_outbox (whs_db event_state)") auto
  have i: "wi_id (scan_wh_item ?r) = who_id ?r" "wi_retries (scan_wh_item ?r) = who_retries ?r" by (simp_all add: scan_wh_item_def)
  from delivery_outcome [OF r i, of "client0 500" cfg0 1 20] v show ?thesis by auto
qed

text \<open>The attempts over a sequence of rounds.\<close>

fun claims_of :: "config \<Rightarrow> int \<Rightarrow> (time \<times> wh_client) list \<Rightarrow> wh_state \<Rightarrow> nat" where
  "claims_of cfg ch [] s = 0"
| "claims_of cfg ch ((now, c) # rounds) s =
     length (who_claim_rows ch now (batch_size cfg) (whs_db s)) + claims_of cfg ch rounds (snd (workerTick c cfg ch now s))"

text \<open>C30: Deliveries end. If no two events of the outbox share an id, then over any rounds of the workers, at any times and with
  any answers, the number of attempts is at most the number that the waiting events had left: the retry limit less the
  attempts made, and one for an event beyond its limit, as an operator's requeue leaves it. A round that starts with a ready
  event makes at least one attempt. So only so many rounds start with a ready event.\<close>

theorem deliveries_end:
  assumes "outbox_ids (whs_db s)"
  shows "claims_of cfg ch rounds s \<le> all_left cfg (whs_db s) \<and>
    (\<forall>now. (\<exists>r\<in>set (wh_outbox (whs_db s)). who_ready ch now r) \<longrightarrow> who_claim_rows ch now (batch_size cfg) (whs_db s) \<noteq> [])"
proof
  show "claims_of cfg ch rounds s \<le> all_left cfg (whs_db s)"
    using assms
  proof (induction rounds arbitrary: s)
    case (Cons x rounds)
    obtain now c where x: "x = (now, c)" by fastforce
    from workerTick_left [OF Cons.prems, of c cfg ch now] Cons.IH show ?case by (fastforce simp: x)
  qed simp
  have "0 < batch_size cfg" by (simp add: batch_size_def)
  then show "\<forall>now. (\<exists>r\<in>set (wh_outbox (whs_db s)). who_ready ch now r) \<longrightarrow> who_claim_rows ch now (batch_size cfg) (whs_db s) \<noteq> []"
    by (auto simp: who_claim_rows_def sql_limit_def take_eq_Nil filter_empty_conv) (metis filter_empty_conv set_empty set_sort)
qed

definition requeued_state :: wh_state where
  "requeued_state = event_state\<lparr>whs_db := (whs_db event_state)
     \<lparr>wh_outbox := map (\<lambda>r. r\<lparr>who_retries := 3\<rparr>) (wh_outbox (whs_db event_state))\<rparr>\<rparr>"

theorem deliveries_end_witness:
  "claims_of cfg0 1 [(20, client0 500), (60000, client0 404), (120000, client0 500), (180000, client0 200)] event_state \<le> 3 \<and>
   claims_of cfg0 1 [(20, client0 500), (60000, client0 404)] requeued_state \<le> 1 \<and>
   who_claim_rows 1 20 (batch_size cfg0) (whs_db requeued_state) \<noteq> []"
proof -
  have all: "outbox_ids (whs_db event_state) \<and> outbox_ids (whs_db requeued_state) \<and>
      all_left cfg0 (whs_db event_state) = 3 \<and> all_left cfg0 (whs_db requeued_state) = 1 \<and>
      (\<exists>r\<in>set (wh_outbox (whs_db requeued_state)). who_ready 1 20 r)" by code_simp
  then have ok: "outbox_ids (whs_db event_state)" "outbox_ids (whs_db requeued_state)" by blast+
  show ?thesis
    using deliveries_end [OF ok(1), of cfg0 1 "[(20, client0 500), (60000, client0 404), (120000, client0 500), (180000, client0 200)]"]
      deliveries_end [OF ok(2), of cfg0 1 "[(20, client0 500), (60000, client0 404)]"] all
    by (metis (no_types))
qed

lemma sorted_count_le:
  fixes xs :: "int list"
  assumes "sorted xs" "i < length xs"
  shows "Suc i \<le> length (filter (\<lambda>x. x \<le> xs ! i) xs)"
proof -
  have "{..i} \<subseteq> {j. j < length xs \<and> xs ! j \<le> xs ! i}" using assms by (auto intro: sorted_nth_mono)
  then have "card {..i} \<le> card {j. j < length xs \<and> xs ! j \<le> xs ! i}" by (intro card_mono) simp_all
  then show ?thesis by (simp add: length_filter_conv_card)
qed

text \<open>The reported 99th percentile is one of the samples, and more than 99 of 100 samples are at most it.\<close>

lemma p99_is_percentile:
  assumes "met_samples m \<noteq> []"
  shows "P99LatencyMS m \<in> set (met_samples m) \<and>
    99 * length (met_samples m) < 100 * length (filter (\<lambda>x. x \<le> P99LatencyMS m) (met_samples m))"
proof -
  let ?s = "sort (met_samples m)" and ?n = "length (met_samples m)"
  let ?i = "99 * ?n div 100"
  have n: "0 < ?n" using assms by simp
  then have i: "?i < ?n" by linarith
  have p: "P99LatencyMS m = ?s ! ?i" using i assms unfolding P99LatencyMS_def Let_def length_sort by simp
  have "Suc ?i \<le> length (filter (\<lambda>x. x \<le> ?s ! ?i) ?s)" using i by (intro sorted_count_le) simp_all
  also have "length (filter (\<lambda>x. x \<le> ?s ! ?i) ?s) = length (filter (\<lambda>x. x \<le> ?s ! ?i) (met_samples m))"
    by (simp add: filter_sort)
  finally have "99 * ?n < 100 * length (filter (\<lambda>x. x \<le> ?s ! ?i) (met_samples m))" by linarith
  moreover have "?s ! ?i \<in> set (met_samples m)" using i by (metis length_sort nth_mem set_sort)
  ultimately show ?thesis by (simp add: p)
qed

end
