(* ===== verification/Indexer_Store.thy ===== *)
theory Indexer_Store
  imports Outbox
begin

text \<open>
  \<open>internal/indexer/store.go\<close>: the checkpoint, the write-ahead list of headers, the synced blocks,
  transactions and events, the outbox of cache entries and the audit of gap scans. The first
  argument is the store's \<open>chainID\<close>. The structs of the package have the columns of
  their tables and are the row records of \<open>Schema\<close>.
\<close>

subsection \<open>Checkpoint\<close>

definition LoadCheckpoint :: "u64 \<Rightarrow> db \<Rightarrow> checkpoint" where
  "LoadCheckpoint ch d = (case List.find (\<lambda>c. cp_chain c = ch) (checkpoints d) of
     None \<Rightarrow> \<lparr>cp_chain = ch, cp_last = 0, cp_hash = [], cp_confirmed = 0, cp_updated = 0\<rparr>
   | Some c \<Rightarrow> c)"

definition UpsertCheckpointTx :: "u64 \<Rightarrow> time \<Rightarrow> u64 \<Rightarrow> string \<Rightarrow> u64 \<Rightarrow> unit dbtx" where
  "UpsertCheckpointTx ch now lastNum lastHash confirmedNum =
     modT (\<lambda>d. d\<lparr>checkpoints := upsert_where (\<lambda>c. cp_chain c = ch)
       (\<lambda>c. c\<lparr>cp_last := lastNum, cp_hash := lastHash, cp_confirmed := max (cp_confirmed c) confirmedNum, cp_updated := now\<rparr>)
       \<lparr>cp_chain = ch, cp_last = lastNum, cp_hash = lastHash, cp_confirmed = confirmedNum, cp_updated = now\<rparr>
       (checkpoints d)\<rparr>)"

definition RollbackCheckpointTx :: "u64 \<Rightarrow> time \<Rightarrow> u64 \<Rightarrow> string \<Rightarrow> unit dbtx" where
  "RollbackCheckpointTx ch now toBlock hash =
     modT (\<lambda>d. d\<lparr>checkpoints := upd_where (\<lambda>c. cp_chain c = ch)
       (\<lambda>c. c\<lparr>cp_last := toBlock, cp_hash := hash, cp_confirmed := min (cp_confirmed c) toBlock, cp_updated := now\<rparr>)
       (checkpoints d)\<rparr>)"

subsection \<open>Pending headers\<close>

definition ph_match :: "u64 \<Rightarrow> u64 \<Rightarrow> pending_header \<Rightarrow> bool" where
  "ph_match ch n h \<longleftrightarrow> ph_chain h = ch \<and> ph_number h = n"

definition EnqueuePendingHeader :: "u64 \<Rightarrow> time \<Rightarrow> u64 \<Rightarrow> string \<Rightarrow> unit dbtx" where
  "EnqueuePendingHeader ch now blockNum blockHash =
     modT (\<lambda>d. d\<lparr>pending_headers := upsert_where (ph_match ch blockNum)
       (\<lambda>h. h\<lparr>ph_hash := blockHash, ph_enqueued := now\<rparr>)
       \<lparr>ph_chain = ch, ph_number = blockNum, ph_hash = blockHash, ph_enqueued = now\<rparr> (pending_headers d)\<rparr>)"

definition DeletePendingHeaderTx :: "u64 \<Rightarrow> u64 \<Rightarrow> unit dbtx" where
  "DeletePendingHeaderTx ch blockNum =
     modT (\<lambda>d. d\<lparr>pending_headers := filter (\<lambda>h. \<not> ph_match ch blockNum h) (pending_headers d)\<rparr>)"

definition ListPendingHeaders :: "u64 \<Rightarrow> int \<Rightarrow> db \<Rightarrow> (u64 \<times> string) list" where
  "ListPendingHeaders ch limit d = map (\<lambda>h. (ph_number h, ph_hash h))
     (sql_limit limit (sort_key ph_number (filter (\<lambda>h. ph_chain h = ch) (pending_headers d))))"

definition CountPendingHeaders :: "u64 \<Rightarrow> db \<Rightarrow> nat" where
  "CountPendingHeaders ch d = length (filter (\<lambda>h. ph_chain h = ch) (pending_headers d))"

subsection \<open>Blocks\<close>

definition sb_match :: "u64 \<Rightarrow> u64 \<Rightarrow> block_row \<Rightarrow> bool" where
  "sb_match ch n b \<longleftrightarrow> sb_chain b = ch \<and> sb_number b = n"

definition GetBlockByNumber :: "u64 \<Rightarrow> u64 \<Rightarrow> db \<Rightarrow> block_row res" where
  "GetBlockByNumber ch n d =
     (case List.find (\<lambda>b. sb_match ch n b \<and> sb_status b \<noteq> BlockOrphaned) (sblocks d) of
        None \<Rightarrow> Inl ErrNoRows | Some b \<Rightarrow> Inr b)"

definition MarkOrphanedFromTx :: "u64 \<Rightarrow> u64 \<Rightarrow> unit dbtx" where
  "MarkOrphanedFromTx ch fromBlock =
     modT (\<lambda>d. d\<lparr>sblocks := upd_where (\<lambda>b. sb_chain b = ch \<and> fromBlock \<le> sb_number b \<and> sb_status b \<noteq> BlockOrphaned)
       (\<lambda>b. b\<lparr>sb_status := BlockOrphaned\<rparr>) (sblocks d)\<rparr>)"

text \<open>The update part of the \<open>INSERT\<close>; the number is kept.\<close>

definition block_update :: "block_row \<Rightarrow> block_row \<Rightarrow> block_row" where
  "block_update b r = r\<lparr>sb_hash := sb_hash b, sb_parent := sb_parent b, sb_timestamp := sb_timestamp b,
     sb_tx_count := sb_tx_count b, sb_gas_used := sb_gas_used b,
     sb_status := (if sb_status r = BlockOrphaned then BlockPending else sb_status b), sb_synced := sb_synced b\<rparr>"

text \<open>Two unique keys, the number and the hash. A row with the number is updated, which is refused
  when another row has the new hash; without one, a row with the hash is.\<close>

definition UpsertBlockTx :: "block_row \<Rightarrow> unit dbtx" where
  "UpsertBlockTx b = (\<lambda>d.
     let byNum = sb_match (sb_chain b) (sb_number b);
         byHash = (\<lambda>r. sb_chain r = sb_chain b \<and> sql_eq (sb_hash r) (sb_hash b)) in
     if List.find byNum (sblocks d) \<noteq> None then
       if List.find (\<lambda>r. byHash r \<and> \<not> byNum r) (sblocks d) \<noteq> None
       then (Inl (ErrDupEntry ''synced_blocks.uk_chain_hash''), d)
       else (Inr (), d\<lparr>sblocks := upsert_where byNum (block_update b) b (sblocks d)\<rparr>)
     else (Inr (), d\<lparr>sblocks := upsert_where byHash (block_update b) b (sblocks d)\<rparr>))"

definition ConfirmBlocksUpToTx :: "u64 \<Rightarrow> u64 \<Rightarrow> unit dbtx" where
  "ConfirmBlocksUpToTx ch upTo =
     modT (\<lambda>d. d\<lparr>sblocks := upd_where (\<lambda>b. sb_chain b = ch \<and> sb_number b \<le> upTo \<and> sb_status b = BlockPending)
       (\<lambda>b. b\<lparr>sb_status := BlockConfirmed\<rparr>) (sblocks d)\<rparr>)"

definition CountBlocks :: "u64 \<Rightarrow> db \<Rightarrow> nat" where
  "CountBlocks ch d = length (filter (\<lambda>b. sb_chain b = ch \<and> sb_status b \<noteq> BlockOrphaned) (sblocks d))"

definition ListBlocks :: "u64 \<Rightarrow> int \<Rightarrow> int \<Rightarrow> db \<Rightarrow> block_row list" where
  "ListBlocks ch fr limit d = sql_limit limit (sort_key sb_number
     (filter (\<lambda>b. sb_chain b = ch \<and> sb_status b \<noteq> BlockOrphaned \<and> fr \<le> uint (sb_number b)) (sblocks d)))"

definition MapSyncedBlocksInRange :: "u64 \<Rightarrow> u64 \<Rightarrow> u64 \<Rightarrow> db \<Rightarrow> (u64 \<rightharpoonup> string)" where
  "MapSyncedBlocksInRange ch fr to d = map_of (rev (map (\<lambda>b. (sb_number b, sb_hash b))
     (filter (\<lambda>b. sb_chain b = ch \<and> sb_status b \<noteq> BlockOrphaned \<and> fr \<le> sb_number b \<and> sb_number b \<le> to) (sblocks d))))"

subsection \<open>Transactions and events\<close>

definition UpsertTransactionTx :: "synced_tx_row \<Rightarrow> unit dbtx" where
  "UpsertTransactionTx row =
     modT (\<lambda>d. d\<lparr>stxs := upsert_where (\<lambda>r. st_chain r = st_chain row \<and> sql_eq (st_hash r) (st_hash row))
       (\<lambda>r. r\<lparr>st_block := st_block row, st_block_hash := st_block_hash row, st_index := st_index row,
          st_gas_used := st_gas_used row, st_status := st_status row, st_synced := st_synced row\<rparr>)
       row (stxs d)\<rparr>)"

definition UpsertTransferLogTx :: "time \<Rightarrow> u64 \<Rightarrow> u64 \<Rightarrow> string \<Rightarrow> nat \<Rightarrow> string \<Rightarrow> string \<Rightarrow> string \<Rightarrow> string \<Rightarrow> unit dbtx" where
  "UpsertTransferLogTx now ch blockNum txHash logIndex contract fr to val =
     modT (\<lambda>d. d\<lparr>stransfers := upsert_where
         (\<lambda>r. tl_chain r = ch \<and> sql_eq (tl_tx_hash r) txHash \<and> tl_log_index r = logIndex) (\<lambda>r. r\<lparr>tl_synced := now\<rparr>)
       \<lparr>tl_chain = ch, tl_tx_hash = txHash, tl_log_index = logIndex, tl_block = blockNum, tl_contract = contract,
        tl_from = fr, tl_to = to, tl_value = val, tl_synced = now\<rparr>
       (stransfers d)\<rparr>)"

definition CountTxs :: "u64 \<Rightarrow> db \<Rightarrow> nat" where
  "CountTxs ch d = length (filter (\<lambda>r. st_chain r = ch) (stxs d))"

definition ListTransactions :: "u64 \<Rightarrow> u64 \<Rightarrow> int \<Rightarrow> db \<Rightarrow> synced_tx_row list" where
  "ListTransactions ch blockNum limit d = sql_limit limit
     (sort_key (\<lambda>r. - int (unat (st_block r))) (sort_key st_index
       (filter (\<lambda>r. st_chain r = ch \<and> (0 < blockNum \<longrightarrow> st_block r = blockNum)) (stxs d))))"

definition UpsertEventLogTx :: "event_log_row \<Rightarrow> unit dbtx" where
  "UpsertEventLogTx row =
     modT (\<lambda>d. d\<lparr>sevents := upsert_where (\<lambda>r. ev_chain r = ev_chain row \<and> sql_eq (ev_tx_hash r) (ev_tx_hash row) \<and>
         ev_log_index r = ev_log_index row)
       (\<lambda>r. r\<lparr>ev_block := ev_block row, ev_block_hash := ev_block_hash row, ev_name := ev_name row,
          ev_args := ev_args row, ev_synced := ev_synced row\<rparr>)
       row (sevents d)\<rparr>)"

text \<open>The join with the block of the event's number; numbers are unique on a chain.\<close>

definition event_live :: "db \<Rightarrow> event_log_row \<Rightarrow> bool" where
  "event_live d e \<longleftrightarrow>
     List.find (\<lambda>b. sb_match (ev_chain e) (ev_block e) b \<and> sb_status b \<noteq> BlockOrphaned) (sblocks d) \<noteq> None"

definition CountEvents :: "u64 \<Rightarrow> db \<Rightarrow> nat" where
  "CountEvents ch d = length (filter (\<lambda>e. ev_chain e = ch \<and> event_live d e) (sevents d))"

definition ListEvents :: "u64 \<Rightarrow> string \<Rightarrow> string \<Rightarrow> u64 \<Rightarrow> int \<Rightarrow> db \<Rightarrow> event_log_row list" where
  "ListEvents ch contract eventName blockNum limit d = sql_limit limit
     (sort_key (\<lambda>e. - int (unat (ev_block e))) (sort_key ev_log_index
       (filter (\<lambda>e. ev_chain e = ch \<and> event_live d e \<and>
          (contract \<noteq> [] \<longrightarrow> sql_eq (ev_contract e) (to_lower contract)) \<and>
          (eventName \<noteq> [] \<longrightarrow> sql_eq (ev_name e) eventName) \<and>
          (0 < blockNum \<longrightarrow> ev_block e = blockNum)) (sevents d))))"

subsection \<open>The outbox\<close>

definition IxInsertOutboxTx :: "u64 \<Rightarrow> time \<Rightarrow> string \<Rightarrow> sync_payload \<Rightarrow> unit dbtx" where
  "IxInsertOutboxTx ch now eventType payload =
     modT (\<lambda>d. d\<lparr>ctrs := (ctrs d)\<lparr>ai_sync_outbox := ai_sync_outbox (ctrs d) + 1\<rparr>,
       sync_outbox := sync_outbox d @
         [\<lparr>so_id = ai_sync_outbox (ctrs d), so_chain = ch, so_event = eventType, so_payload = payload,
           so_status = ObPending, so_retries = 0, so_next_retry = now, so_created = now, so_updated = now\<rparr>]\<rparr>)"

definition so_ready :: "time \<Rightarrow> sync_outbox_row \<Rightarrow> bool" where
  "so_ready now r \<longleftrightarrow> so_status r = ObPending \<and> so_next_retry r \<le> now"

definition so_claim_rows :: "time \<Rightarrow> int \<Rightarrow> db \<Rightarrow> sync_outbox_row list" where
  "so_claim_rows now limit d = sql_limit limit (sort_key so_id (filter (so_ready now) (sync_outbox d)))"

definition IxClaimOutboxBatch :: "time \<Rightarrow> int \<Rightarrow> (sync_outbox_row list) dbtx" where
  "IxClaimOutboxBatch now limit = run_tx (
     bindT (getT (so_claim_rows now limit)) (\<lambda>rows.
     bindT (forT (map so_id rows) (\<lambda>i. modT (\<lambda>d. d\<lparr>sync_outbox := upd_where (\<lambda>r. so_id r = i)
       (\<lambda>r. r\<lparr>so_status := ObProcessing, so_updated := now\<rparr>) (sync_outbox d)\<rparr>))) (\<lambda>_.
     retT rows)))"

definition IxMarkOutboxDone :: "time \<Rightarrow> int \<Rightarrow> unit dbtx" where
  "IxMarkOutboxDone now i =
     modT (\<lambda>d. d\<lparr>sync_outbox := upd_where (\<lambda>r. so_id r = i)
       (\<lambda>r. r\<lparr>so_status := ObDone, so_updated := now\<rparr>) (sync_outbox d)\<rparr>)"

definition IxMarkOutboxRetry :: "time \<Rightarrow> int \<Rightarrow> nat \<Rightarrow> time \<Rightarrow> bool \<Rightarrow> unit dbtx" where
  "IxMarkOutboxRetry now i retryCount nxt fail =
     (let status = (if fail then ObFailed else ObPending) in
      modT (\<lambda>d. d\<lparr>sync_outbox := upd_where (\<lambda>r. so_id r = i)
        (\<lambda>r. r\<lparr>so_status := status, so_retries := retryCount, so_next_retry := nxt, so_updated := now\<rparr>)
        (sync_outbox d)\<rparr>))"

definition CountPendingOutbox :: "u64 \<Rightarrow> db \<Rightarrow> nat" where
  "CountPendingOutbox ch d = length (filter (\<lambda>r. so_chain r = ch \<and> so_status r \<in> {ObPending, ObProcessing}) (sync_outbox d))"

subsection \<open>Gap scans\<close>

definition InsertGapScanAudit :: "time \<Rightarrow> gap_scan_row \<Rightarrow> unit dbtx" where
  "InsertGapScanAudit now a =
     modT (\<lambda>d. d\<lparr>ctrs := (ctrs d)\<lparr>ai_gap_scans := ai_gap_scans (ctrs d) + 1\<rparr>,
       gap_scans := gap_scans d @ [a\<lparr>gs_id := ai_gap_scans (ctrs d), gs_scanned := now\<rparr>]\<rparr>)"

definition ListRecentGapScans :: "u64 \<Rightarrow> int \<Rightarrow> db \<Rightarrow> gap_scan_row list \<times> time option" where
  "ListRecentGapScans ch limit d =
     (let rows = sql_limit limit (rev (sort_key gs_id (filter (\<lambda>a. gs_chain a = ch) (gap_scans d)))) in
      (rows, case rows of [] \<Rightarrow> None | a # _ \<Rightarrow> Some (gs_scanned a)))"

definition lockKey :: "u64 \<Rightarrow> u64 \<Rightarrow> string" where
  "lockKey ch n = ''indexer:lock:'' @ nat_str (unat ch) @ '':'' @ nat_str (unat n)"

definition cacheBlockKey :: "u64 \<Rightarrow> u64 \<Rightarrow> string" where
  "cacheBlockKey ch n = ''indexer:block:'' @ nat_str (unat ch) @ '':'' @ nat_str (unat n)"

definition cacheHeadKey :: "u64 \<Rightarrow> string" where
  "cacheHeadKey ch = ''indexer:head:'' @ nat_str (unat ch)"

subsection \<open>The outbox keeps the contract\<close>

lemma fold_sync_outbox:
  "fold (\<lambda>i d. d\<lparr>sync_outbox := f i (sync_outbox d)\<rparr>) ids d = d\<lparr>sync_outbox := fold f ids (sync_outbox d)\<rparr>"
  by (induction ids arbitrary: d) simp_all

lemma IxClaimOutboxBatch_eq:
  "IxClaimOutboxBatch now n d =
     (Inr (so_claim_rows now n d),
      d\<lparr>sync_outbox := upd_where (\<lambda>r. so_id r \<in> so_id ` set (so_claim_rows now n d))
         (\<lambda>r. r\<lparr>so_status := ObProcessing, so_updated := now\<rparr>) (sync_outbox d)\<rparr>)"
proof -
  have "fold (\<lambda>i d. d\<lparr>sync_outbox := upd_where (\<lambda>r. so_id r = i)
      (\<lambda>r. r\<lparr>so_status := ObProcessing, so_updated := now\<rparr>) (sync_outbox d)\<rparr>) ids d =
    d\<lparr>sync_outbox := upd_where (\<lambda>r. so_id r \<in> set ids)
      (\<lambda>r. r\<lparr>so_status := ObProcessing, so_updated := now\<rparr>) (sync_outbox d)\<rparr>" for ids
    by (subst fold_sync_outbox) (simp add: fold_upd_where_ids)
  then show ?thesis
    by (simp add: IxClaimOutboxBatch_def run_tx_def bindT_apply forT_modT)
qed

interpretation so: outbox sync_outbox so_id so_status so_ready
  "\<lambda>now n d. (so_claim_rows now n d, snd (IxClaimOutboxBatch now n d))"
  "\<lambda>now r. r\<lparr>so_status := ObProcessing, so_updated := now\<rparr>"
  "\<lambda>now i d. snd (IxMarkOutboxDone now i d)"
  "\<lambda>now r. r\<lparr>so_status := ObDone, so_updated := now\<rparr>"
  by unfold_locales
    (simp_all add: so_ready_def so_claim_rows_def IxClaimOutboxBatch_eq IxMarkOutboxDone_def)

end
