(* ===== verification/Indexer_Events.thy ===== *)
theory Indexer_Events
  imports Eth Config
begin

text \<open>
  \<open>internal/indexer/events.go\<close>: the registry of watched contracts and the decoding of their logs. Reading a file and go-ethereum's ABI
  package are the fields of \<open>event_lib\<close>; a parsed ABI is represented by its text.
\<close>

record abi_input =
  in_name :: string
  in_indexed :: bool

record abi_event =
  ae_name :: string
  ae_inputs :: "abi_input list"

text \<open>The Go types of decoded arguments that the code tells apart.\<close>

datatype raw_arg = RawAddress address | RawBytes bytes | RawPtr32 bytes | RawBig int | RawString string | RawOther string

record event_lib =
  ReadFile :: "string \<Rightarrow> string res"
  ParseABI :: "string \<Rightarrow> string res"
  EventByID :: "string \<Rightarrow> hash \<Rightarrow> abi_event res"
  UnpackIntoMap :: "string \<Rightarrow> string \<Rightarrow> bytes \<Rightarrow> ((string \<times> raw_arg) list) res"
  ParseTopicsIntoMap :: "abi_input list \<Rightarrow> hash list \<Rightarrow> ((string \<times> raw_arg) list) res"

record watched_contract =
  wtc_address :: address
  wtc_abi :: string
  wtc_events :: "string list"

type_synonym event_registry = "(address \<times> watched_contract) list"

record parsed_event =
  pe_contract :: string
  pe_name :: string
  pe_topic0 :: string
  pe_topics :: "string list"
  pe_args :: "(string \<times> event_arg) list"

definition defaultERC20ABIPath :: string where
  "defaultERC20ABIPath = ''abis/erc20.json''"

definition registry_put :: "address \<Rightarrow> watched_contract \<Rightarrow> event_registry \<Rightarrow> event_registry" where
  "registry_put a w r = (a, w) # filter (\<lambda>(b, _). b \<noteq> a) r"

fun register_watches :: "event_lib \<Rightarrow> geth \<Rightarrow> watch_contract list \<Rightarrow> event_registry \<Rightarrow> event_registry res" where
  "register_watches lib g [] r = Inr r"
| "register_watches lib g (w # ws) r =
     (let addr = trim_space (wc_address w) in
      if addr = [] \<or> \<not> IsHexAddress g addr then register_watches lib g ws r
      else
        let abiPath = (if trim_space (wc_abi w) = [] then defaultERC20ABIPath else trim_space (wc_abi w)) in
        bindR (wrapR (''read abi '' @ abiPath) (ReadFile lib abiPath)) (\<lambda>raw.
        bindR (wrapR (''parse abi '' @ abiPath) (ParseABI lib raw)) (\<lambda>parsed.
        let a = HexToAddress g addr in
        register_watches lib g ws (registry_put a \<lparr>wtc_address = a, wtc_abi = parsed, wtc_events = wc_events w\<rparr> r))))"

definition NewEventRegistry :: "event_lib \<Rightarrow> geth \<Rightarrow> config \<Rightarrow> event_registry res" where
  "NewEventRegistry lib g cfg =
     (let addr = trim_space (ERC20Contract (Eth cfg));
          watches = WatchContracts (Indexer cfg) @
            (if addr \<noteq> [] then [\<lparr>wc_address = addr, wc_abi = defaultERC20ABIPath, wc_events = [''Transfer'', ''Approval'']\<rparr>] else [])
      in register_watches lib g watches [])"

text \<open>A nil registry is \<open>None\<close>.\<close>

definition WatchCount :: "event_registry option \<Rightarrow> nat" where
  "WatchCount r = (case r of None \<Rightarrow> 0 | Some reg \<Rightarrow> length reg)"

definition normalizeArg :: "geth \<Rightarrow> raw_arg \<Rightarrow> event_arg" where
  "normalizeArg g v = (case v of
     RawAddress a \<Rightarrow> ArgStr (to_lower (AddressHex g a))
   | RawBytes bs \<Rightarrow> ArgStr (''0x'' @ hex_encode bs)
   | RawPtr32 bs \<Rightarrow> ArgStr (''0x'' @ hex_encode bs)
   | RawBig i \<Rightarrow> ArgBig i
   | RawString s \<Rightarrow> ArgStr s
   | RawOther s \<Rightarrow> ArgOther s)"

definition normalizeArgs :: "geth \<Rightarrow> (string \<times> raw_arg) list \<Rightarrow> (string \<times> event_arg) list" where
  "normalizeArgs g args = map (\<lambda>(k, v). (k, normalizeArg g v)) args"

text \<open>The arguments of the topics are written into the map after those of the data, so that
  they come first in the list.\<close>

definition ParseLog :: "event_lib \<Rightarrow> geth \<Rightarrow> event_registry option \<Rightarrow> log \<Rightarrow> (parsed_event option) res" where
  "ParseLog lib g r lg =
     (case (r, lg_topics lg) of
        (Some reg, t0 # topics) \<Rightarrow>
          (case map_of reg (lg_address lg) of
             None \<Rightarrow> Inr None
           | Some w \<Rightarrow>
               (case EventByID lib (wtc_abi w) t0 of
                  Inl _ \<Rightarrow> Inr None
                | Inr event \<Rightarrow>
                    if wtc_events w \<noteq> [] \<and> ae_name event \<notin> set (wtc_events w) then Inr None
                    else
                      bindR (if lg_data lg \<noteq> []
                             then wrapR (''unpack data '' @ ae_name event) (UnpackIntoMap lib (wtc_abi w) (ae_name event) (lg_data lg))
                             else Inr []) (\<lambda>args.
                      let indexed = filter in_indexed (ae_inputs event) in
                      bindR (if indexed \<noteq> []
                             then wrapR (''parse topics '' @ ae_name event) (ParseTopicsIntoMap lib indexed topics)
                             else Inr []) (\<lambda>targs.
                      Inr (Some \<lparr>pe_contract = to_lower (AddressHex g (lg_address lg)), pe_name = ae_name event,
                        pe_topic0 = HashHex g t0, pe_topics = map (HashHex g) (t0 # topics),
                        pe_args = normalizeArgs g (targs @ args)\<rparr>)))))
      | _ \<Rightarrow> Inr None)"

text \<open>A type assertion to \<open>string\<close> whose failure is ignored, and \<open>extractTransferAmount\<close> of the
  engine; a missing key is a nil value.\<close>

definition arg_string :: "(string \<times> event_arg) list \<Rightarrow> string \<Rightarrow> string" where
  "arg_string args k = (case map_of args k of Some (ArgStr s) \<Rightarrow> s | _ \<Rightarrow> [])"

definition extractTransferAmount :: "event_arg option \<Rightarrow> string" where
  "extractTransferAmount v = (case v of
     None \<Rightarrow> ''0'' | Some (ArgBig i) \<Rightarrow> int_str i | Some (ArgStr s) \<Rightarrow> s | Some (ArgOther s) \<Rightarrow> s)"

subsection \<open>Lemmas\<close>

lemma distinct_registry_put: "distinct (map fst r) \<Longrightarrow> distinct (map fst (registry_put a w r))"
  by (induction r) (auto simp: registry_put_def)

lemma map_of_registry_put: "map_of (registry_put a w r) = (map_of r)(a \<mapsto> w)"
proof -
  have "map_of (filter (\<lambda>(b, _). b \<noteq> a) r) x = map_of r x" if "x \<noteq> a" for x
    using that by (induction r) auto
  then show ?thesis by (auto simp: registry_put_def fun_eq_iff)
qed

text \<open>Only logs of watched contracts, with an allowed event, are decoded.\<close>

lemma ParseLog_SomeD:
  assumes "ParseLog lib g (Some reg) lg = Inr (Some p)"
  shows "\<exists>w. map_of reg (lg_address lg) = Some w \<and> (wtc_events w \<noteq> [] \<longrightarrow> pe_name p \<in> set (wtc_events w)) \<and>
    pe_contract p = to_lower (AddressHex g (lg_address lg))"
  using assms unfolding ParseLog_def Let_def
  by (cases "lg_topics lg") (auto split: option.splits sum.splits if_splits elim!: bindR_InrE)

end
