(* ===== verification/Cache.thy ===== *)
theory Cache
  imports Prelude
begin

text \<open>
  \<open>internal/cache/memory.go\<close>: the in-process cache that the indexer uses for its locks and
  for cached blocks, with the contract of \<open>cache.go\<close> that its clients rely on as a locale.
  Times are milliseconds; the Redis implementation calls a library and is not modelled.
\<close>

record mem_entry =
  me_val :: string
  me_expires :: "time option"

type_synonym mem_cache = "string \<rightharpoonup> mem_entry"

definition newMemoryCache :: mem_cache where
  "newMemoryCache = Map.empty"

definition expired :: "time \<Rightarrow> mem_entry \<Rightarrow> bool" where
  "expired now e = (case me_expires e of None \<Rightarrow> False | Some t \<Rightarrow> t < now)"

definition purgeLocked :: "time \<Rightarrow> mem_cache \<Rightarrow> mem_cache" where
  "purgeLocked now m = (\<lambda>k. case m k of None \<Rightarrow> None | Some e \<Rightarrow> if expired now e then None else Some e)"

definition CacheGet :: "time \<Rightarrow> string \<Rightarrow> mem_cache \<Rightarrow> string" where
  "CacheGet now key m =
     (case m key of
        None \<Rightarrow> []
      | Some e \<Rightarrow> if expired now e then [] else me_val e)"

definition new_entry :: "time \<Rightarrow> string \<Rightarrow> int \<Rightarrow> mem_entry" where
  "new_entry now val ttl = \<lparr>me_val = val, me_expires = (if 0 < ttl then Some (now + ttl) else None)\<rparr>"

definition CacheSet :: "time \<Rightarrow> string \<Rightarrow> string \<Rightarrow> int \<Rightarrow> mem_cache \<Rightarrow> mem_cache" where
  "CacheSet now key val ttl m = m(key \<mapsto> new_entry now val ttl)"

definition CacheSetNX :: "time \<Rightarrow> string \<Rightarrow> string \<Rightarrow> int \<Rightarrow> mem_cache \<Rightarrow> bool \<times> mem_cache" where
  "CacheSetNX now key val ttl m0 =
     (let m = purgeLocked now m0;
          taken = (case m key of
             None \<Rightarrow> False
           | Some e \<Rightarrow> (case me_expires e of None \<Rightarrow> True | Some t \<Rightarrow> now < t))
      in if taken then (False, m) else (True, m(key \<mapsto> new_entry now val ttl)))"

definition CacheDel :: "string list \<Rightarrow> mem_cache \<Rightarrow> mem_cache" where
  "CacheDel keys m = fold (\<lambda>k m. m(k := None)) keys m"

subsection \<open>The contract\<close>

text \<open>
  What the clients rely on. A cache stands for a map from keys to values that changes with
  time: \<open>live\<close> is the value that counts at a time. A set is seen for its time to live and
  no later than one tick after; a claim of a key succeeds exactly when the key is free.
\<close>

locale timed_cache =
  fixes live :: "'c \<Rightarrow> time \<Rightarrow> string \<Rightarrow> string option"
    and get :: "time \<Rightarrow> string \<Rightarrow> 'c \<Rightarrow> string"
    and put :: "time \<Rightarrow> string \<Rightarrow> string \<Rightarrow> int \<Rightarrow> 'c \<Rightarrow> 'c"
    and claim :: "time \<Rightarrow> string \<Rightarrow> string \<Rightarrow> int \<Rightarrow> 'c \<Rightarrow> bool \<times> 'c"
    and del :: "string \<Rightarrow> 'c \<Rightarrow> 'c"
  assumes get_live: "get now k c = (case live c now k of None \<Rightarrow> [] | Some v \<Rightarrow> v)"
    and live_put: "live (put now k v ttl c) t k' =
      (if k' = k then if 0 < ttl \<and> now + ttl < t then None else Some v else live c t k')"
    and claim_free: "live c now k = None \<Longrightarrow> fst (claim now k v ttl c)"
    and claim_taken: "live c now k \<noteq> None \<Longrightarrow> live c (now + 1) k \<noteq> None \<Longrightarrow> \<not> fst (claim now k v ttl c)"
    and live_claimed: "now \<le> t \<Longrightarrow> fst (claim now k v ttl c) \<Longrightarrow>
      live (snd (claim now k v ttl c)) t k' =
        (if k' = k then if 0 < ttl \<and> now + ttl < t then None else Some v else live c t k')"
    and live_refused: "now \<le> t \<Longrightarrow> \<not> fst (claim now k v ttl c) \<Longrightarrow> live (snd (claim now k v ttl c)) t k' = live c t k'"
    and live_del: "live (del k c) t k' = (if k' = k then None else live c t k')"
begin

lemma get_put: "0 < ttl \<Longrightarrow> t \<le> now + ttl \<Longrightarrow> get t k (put now k v ttl c) = v"
  by (simp add: get_live live_put)

lemma get_del: "get t k (del k c) = []"
  by (simp add: get_live live_del)

text \<open>Mutual exclusion: a claimed key cannot be claimed again before it expires or is deleted.\<close>

lemma claim_exclusive:
  assumes "fst (claim now k v ttl c)" "now \<le> t" "t < now + ttl"
  shows "\<not> fst (claim t k v' ttl' (snd (claim now k v ttl c)))"
  using assms by (intro claim_taken) (simp_all add: live_claimed)

lemma claim_after_del: "fst (claim t k v ttl (del k c))"
  by (rule claim_free) (simp add: live_del)

text \<open>Claims of other keys do not interfere.\<close>

lemma claim_other:
  assumes "now \<le> t" "k' \<noteq> k"
  shows "live (snd (claim now k v ttl c)) t k' = live c t k'"
  using assms by (cases "fst (claim now k v ttl c)") (simp_all add: live_claimed live_refused)

end

subsection \<open>The memory cache keeps it\<close>

definition cache_live :: "mem_cache \<Rightarrow> time \<Rightarrow> string \<Rightarrow> string option" where
  "cache_live m now k = (case m k of None \<Rightarrow> None | Some e \<Rightarrow> if expired now e then None else Some (me_val e))"

lemma cache_live_purge: "now \<le> t \<Longrightarrow> cache_live (purgeLocked now m) t k = cache_live m t k"
  by (auto simp: cache_live_def purgeLocked_def expired_def split: option.split)

lemma cache_live_upd:
  "cache_live (m(k \<mapsto> new_entry now v ttl)) t k' =
     (if k' = k then if 0 < ttl \<and> now + ttl < t then None else Some v else cache_live m t k')"
  by (auto simp: cache_live_def new_entry_def expired_def)

interpretation mem: timed_cache cache_live CacheGet CacheSet CacheSetNX "\<lambda>k. CacheDel [k]"
proof unfold_locales
  show "CacheGet now k c = (case cache_live c now k of None \<Rightarrow> [] | Some v \<Rightarrow> v)" for now k c
    by (simp add: CacheGet_def cache_live_def split: option.split)
  show "cache_live (CacheSet now k v ttl c) t k' =
      (if k' = k then if 0 < ttl \<and> now + ttl < t then None else Some v else cache_live c t k')" for now k v ttl c t k'
    by (simp add: CacheSet_def cache_live_upd)
  show "fst (CacheSetNX now k v ttl c)" if "cache_live c now k = None" for now k v ttl c
    using that by (auto simp: CacheSetNX_def Let_def purgeLocked_def cache_live_def split: option.splits if_splits)
  show "\<not> fst (CacheSetNX now k v ttl c)" if "cache_live c now k \<noteq> None" "cache_live c (now + 1) k \<noteq> None" for now k v ttl c
    using that by (auto simp: CacheSetNX_def Let_def purgeLocked_def cache_live_def expired_def split: option.splits if_splits)
  show "cache_live (snd (CacheSetNX now k v ttl c)) t k' =
      (if k' = k then if 0 < ttl \<and> now + ttl < t then None else Some v else cache_live c t k')"
    if "now \<le> t" "fst (CacheSetNX now k v ttl c)" for now t k v ttl c k'
    using that by (simp add: CacheSetNX_def Let_def cache_live_upd cache_live_purge split: if_splits)
  show "cache_live (snd (CacheSetNX now k v ttl c)) t k' = cache_live c t k'"
    if "now \<le> t" "\<not> fst (CacheSetNX now k v ttl c)" for now t k v ttl c k'
    using that by (simp add: CacheSetNX_def Let_def cache_live_purge split: if_splits)
  show "cache_live (CacheDel [k] c) t k' = (if k' = k then None else cache_live c t k')" for k c t k'
    by (simp add: CacheDel_def cache_live_def)
qed

end
