(* ===== verification/Indexer_Engine.thy ===== *)
theory Indexer_Engine
  imports Indexer_Store Indexer_Events Cache Exchange_Deposit
begin

text \<open>
  \<open>internal/indexer/engine.go\<close> and \<open>gapscan.go\<close>: following the chain. A worker takes a block number from the queue, locks it in the
  cache, repairs a reorganisation, and writes block, transactions, events, deposits, checkpoint and outbox in one
  transaction. Back-filling, recovery and the gap scan feed the queue.

  The state is the database with the process's cache, queue and counters, and \<open>ixs_refresh\<close>, the balance refreshes that were started
  asynchronously. The queue is the channel \<open>jobs\<close>: a send without a receiver waits for room only in \<open>EnqueueHeader\<close>,
  and gives up there after three seconds; here a send to a full queue is dropped. \<open>ie_json\<close> is the JSON text of a payload column.
\<close>

subsection \<open>The state\<close>

record gap_info =
  gi_last :: time
  gi_gaps :: nat
  gi_mismatch :: nat
  gi_enqueued :: nat

record ix_state =
  ixs_db :: db
  ixs_cache :: mem_cache
  ixs_jobs :: "u64 list"
  ixs_reorgs :: u64
  ixs_gap :: gap_info
  ixs_refresh :: "tx_parties list"

type_synonym 'a ixtx = "(ix_state, 'a) tx"

definition dbI :: "'a dbtx \<Rightarrow> 'a ixtx" where
  "dbI m = (\<lambda>s. case m (ixs_db s) of (r, d') \<Rightarrow> (r, s\<lparr>ixs_db := d'\<rparr>))"

definition getI :: "(db \<Rightarrow> 'a) \<Rightarrow> 'a ixtx" where
  "getI f = getT (\<lambda>s. f (ixs_db s))"

definition run_txI :: "'a ixtx \<Rightarrow> 'a ixtx" where
  "run_txI m = (\<lambda>s. case m s of
     (Inl e, s') \<Rightarrow> (Inl e, s'\<lparr>ixs_db := rollback (ixs_db s) (ixs_db s')\<rparr>)
   | (Inr x, s') \<Rightarrow> (Inr x, s'))"

record engine =
  ie_cfg :: config
  ie_backend :: backend
  ie_store :: u64
  ie_lib :: event_lib
  ie_events :: "event_registry option"
  ie_balsync :: bool
  ie_deposit :: "deposit_processor option"
  ie_json :: "sync_payload \<Rightarrow> string"

definition NewEngine :: "config \<Rightarrow> backend \<Rightarrow> event_lib \<Rightarrow> (sync_payload \<Rightarrow> string) \<Rightarrow> engine res" where
  "NewEngine cfg b lib js =
     bindR (NewEventRegistry lib (bk_geth b) cfg) (\<lambda>events.
     Inr \<lparr>ie_cfg = cfg, ie_backend = b, ie_store = word_of_int (EthChainID (Eth cfg)), ie_lib = lib, ie_events = Some events,
       ie_balsync = False, ie_deposit = None, ie_json = js\<rparr>)"

definition SetBalanceSyncer :: "bool \<Rightarrow> engine \<Rightarrow> engine" where
  "SetBalanceSyncer b e = e\<lparr>ie_balsync := b\<rparr>"

definition SetDepositProcessor :: "deposit_processor option \<Rightarrow> engine \<Rightarrow> engine" where
  "SetDepositProcessor d e = e\<lparr>ie_deposit := d\<rparr>"

text \<open>The capacity of the queue, and a send that does not wait.\<close>

definition jobs_cap :: "engine \<Rightarrow> nat" where
  "jobs_cap e = nat (ChannelBuffer (Listener (ie_cfg e)) * 2)"

definition send_job :: "engine \<Rightarrow> u64 \<Rightarrow> bool ixtx" where
  "send_job e n = (\<lambda>s. if length (ixs_jobs s) < jobs_cap e
     then (Inr True, s\<lparr>ixs_jobs := ixs_jobs s @ [n]\<rparr>) else (Inr False, s))"

definition refresh_async :: "tx_parties \<Rightarrow> unit ixtx" where
  "refresh_async p = modT (\<lambda>s. s\<lparr>ixs_refresh := ixs_refresh s @ [p]\<rparr>)"

definition EnqueueHeader :: "engine \<Rightarrow> time \<Rightarrow> u64 \<Rightarrow> hash \<Rightarrow> unit ixtx" where
  "EnqueueHeader e now num h =
     bindT (dbI (EnqueuePendingHeader (ie_store e) now num (HashHex (bk_geth (ie_backend e)) h))) (\<lambda>_.
     bindT (send_job e num) (\<lambda>_. retT ()))"

subsection \<open>Events of a block\<close>

definition event_row :: "engine \<Rightarrow> time \<Rightarrow> log \<Rightarrow> string \<Rightarrow> parsed_event \<Rightarrow> event_log_row" where
  "event_row e now lg blockHash p =
     (let g = bk_geth (ie_backend e) in
      \<lparr>ev_chain = ie_store e, ev_tx_hash = HashHex g (lg_tx_hash lg), ev_log_index = lg_index lg, ev_block = lg_block lg,
       ev_block_hash = (if blockHash \<noteq> [] then blockHash
         else case rpcBlockByNumber (bk_node (ie_backend e)) (lg_block lg) of
           Inr (Some blk) \<Rightarrow> HashHex g (blk_hash blk) | _ \<Rightarrow> []),
       ev_contract = pe_contract p, ev_name = pe_name p, ev_topic0 = pe_topic0 p, ev_topics = pe_topics p,
       ev_args = pe_args p, ev_synced = now\<rparr>)"

definition persist_event :: "engine \<Rightarrow> time \<Rightarrow> log \<Rightarrow> string \<Rightarrow> parsed_event \<Rightarrow> unit ixtx" where
  "persist_event e now lg blockHash p =
     (let row = event_row e now lg blockHash p in
      bindT (dbI (UpsertEventLogTx row)) (\<lambda>_.
      bindT (dbI (IxInsertOutboxTx (ie_store e) now ''event_cached''
        (EventCached (ev_tx_hash row) (ev_block row) (ev_name row) (ev_contract row) (pe_args p)))) (\<lambda>_.
      if pe_name p = ''Transfer'' \<and> ie_balsync e \<and> BalanceSyncEnabled (BalanceSync (ie_cfg e)) \<and> OnIndexerTx (BalanceSync (ie_cfg e))
      then refresh_async \<lparr>tp_hash = ev_tx_hash row, tp_from = arg_string (pe_args p) ''from'', tp_to = arg_string (pe_args p) ''to'',
        tp_token = pe_contract p, tp_type = ''erc20'', tp_block = lg_block lg\<rparr>
      else retT ())))"

text \<open>\<open>own\<close> is whether the caller has no transaction.\<close>

definition persistParsedLog :: "engine \<Rightarrow> time \<Rightarrow> bool \<Rightarrow> log \<Rightarrow> string \<Rightarrow> unit ixtx" where
  "persistParsedLog e now own lg blockHash =
     (if WatchCount (ie_events e) = 0 then retT ()
      else bindT (liftT (ParseLog (ie_lib e) (bk_geth (ie_backend e)) (ie_events e) lg)) (\<lambda>parsed.
        case parsed of
          None \<Rightarrow> retT ()
        | Some p \<Rightarrow> if own then run_txI (persist_event e now lg blockHash p) else persist_event e now lg blockHash p))"

definition EnqueueTransferLog :: "engine \<Rightarrow> time \<Rightarrow> log \<Rightarrow> unit ixtx" where
  "EnqueueTransferLog e now lg = ignoreT (persistParsedLog e now True lg [])"

definition captureDepositLog :: "engine \<Rightarrow> time \<Rightarrow> u64 \<Rightarrow> log \<Rightarrow> unit dbtx" where
  "captureDepositLog e now blockNum lg =
     (case ie_deposit e of
        None \<Rightarrow> retT ()
      | Some dp \<Rightarrow>
          if \<not> Enabled (ie_deposit e) \<or> ie_events e = None then retT ()
          else bindT (liftT (ParseLog (ie_lib e) (bk_geth (ie_backend e)) (ie_events e) lg)) (\<lambda>parsed.
            case parsed of
              None \<Rightarrow> retT ()
            | Some p \<Rightarrow>
                if pe_name p \<noteq> ''Transfer'' \<or> \<not> IsWatchToken dp (pe_contract p) then retT ()
                else CaptureERC20Transfer (ie_deposit e) now blockNum (HashHex (bk_geth (ie_backend e)) (lg_tx_hash lg)) (lg_index lg)
                  (pe_contract p) (arg_string (pe_args p) ''from'') (arg_string (pe_args p) ''to'')
                  (extractTransferAmount (map_of (pe_args p) ''value''))))"

subsection \<open>Transactions of a block\<close>

definition tx_hex :: "engine \<Rightarrow> signed_tx \<Rightarrow> string" where
  "tx_hex e tx = HashHex (bk_geth (ie_backend e)) (TxHash (bk_geth (ie_backend e)) tx)"

definition addr_lower :: "engine \<Rightarrow> address \<Rightarrow> string" where
  "addr_lower e a = to_lower (AddressHex (bk_geth (ie_backend e)) a)"

definition sync_one_tx :: "engine \<Rightarrow> time \<Rightarrow> u64 \<Rightarrow> string \<Rightarrow> nat \<Rightarrow> signed_tx \<Rightarrow> address \<Rightarrow> unit ixtx" where
  "sync_one_tx e now blockNum blockHash i tx fr =
     (let rc = TransactionReceipt (ie_backend e) (tx_hex e tx) in
      bindT (case rc of Inl _ \<Rightarrow> retT () | Inr r \<Rightarrow> forT (rc_logs r) (\<lambda>lg. persistParsedLog e now False lg blockHash)) (\<lambda>_.
      dbI (UpsertTransactionTx
        \<lparr>st_chain = ie_store e, st_hash = tx_hex e tx, st_block = blockNum, st_block_hash = blockHash, st_index = i,
         st_from = addr_lower e fr, st_to = map_option (addr_lower e) (td_to (stx_data tx)),
         st_value = int_str (td_value (stx_data tx)),
         st_gas_used = (case rc of Inl _ \<Rightarrow> None | Inr r \<Rightarrow> Some (rc_gas_used r)),
         st_status = (case rc of Inl _ \<Rightarrow> None | Inr r \<Rightarrow> Some (rc_status r)), st_synced = now\<rparr>)))"

definition native_party :: "engine \<Rightarrow> u64 \<Rightarrow> signed_tx \<Rightarrow> address \<Rightarrow> tx_parties" where
  "native_party e blockNum tx fr =
     \<lparr>tp_hash = tx_hex e tx, tp_from = addr_lower e fr,
      tp_to = (case td_to (stx_data tx) of None \<Rightarrow> [] | Some a \<Rightarrow> addr_lower e a),
      tp_token = [], tp_type = ''native'', tp_block = blockNum\<rparr>"

text \<open>The loop over the transactions, with the parties to refresh after the commit.\<close>

fun sync_txs :: "engine \<Rightarrow> time \<Rightarrow> u64 \<Rightarrow> string \<Rightarrow> nat \<Rightarrow> signed_tx list \<Rightarrow> tx_parties list \<Rightarrow> (tx_parties list) ixtx" where
  "sync_txs e now blockNum blockHash i [] parties = retT parties"
| "sync_txs e now blockNum blockHash i (tx # txs) parties =
     (case Sender (bk_geth (ie_backend e)) (bk_chain (ie_backend e)) tx of
        Inl _ \<Rightarrow> sync_txs e now blockNum blockHash (i + 1) txs parties
      | Inr fr \<Rightarrow>
          bindT (sync_one_tx e now blockNum blockHash i tx fr) (\<lambda>_.
          sync_txs e now blockNum blockHash (i + 1) txs
            (if BalanceSyncEnabled (BalanceSync (ie_cfg e)) \<and> OnIndexerTx (BalanceSync (ie_cfg e))
             then parties @ [native_party e blockNum tx fr] else parties)))"

definition capture_one_tx :: "engine \<Rightarrow> time \<Rightarrow> u64 \<Rightarrow> signed_tx \<Rightarrow> unit dbtx" where
  "capture_one_tx e now blockNum tx =
     (case Sender (bk_geth (ie_backend e)) (bk_chain (ie_backend e)) tx of
        Inl _ \<Rightarrow> retT ()
      | Inr fr \<Rightarrow>
          let to = (case td_to (stx_data tx) of None \<Rightarrow> [] | Some a \<Rightarrow> addr_lower e a);
              rc = TransactionReceipt (ie_backend e) (tx_hex e tx);
              success = (case rc of Inl _ \<Rightarrow> False | Inr r \<Rightarrow> rc_status r = 1)
          in bindT (CaptureNativeTx (ie_deposit e) now blockNum (tx_hex e tx) (addr_lower e fr) to
               (int_str (td_value (stx_data tx))) success) (\<lambda>_.
             case rc of
               Inr r \<Rightarrow> if success then forT (rc_logs r) (captureDepositLog e now blockNum) else retT ()
             | Inl _ \<Rightarrow> retT ()))"

subsection \<open>Reorganisations\<close>

definition rollback_chain :: "engine \<Rightarrow> time \<Rightarrow> u64 \<Rightarrow> string \<Rightarrow> unit dbtx" where
  "rollback_chain e now prevNum parentHash = run_tx (
     bindT (MarkOrphanedFromTx (ie_store e) prevNum) (\<lambda>_.
     bindT (RollbackCheckpointTx (ie_store e) now prevNum parentHash) (\<lambda>_.
     if Enabled (ie_deposit e) then HandleReorgTx (ie_deposit e) now prevNum else retT ())))"

definition detectAndHandleReorg :: "engine \<Rightarrow> time \<Rightarrow> block \<Rightarrow> unit ixtx" where
  "detectAndHandleReorg e now blk =
     (let g = bk_geth (ie_backend e); prevNum = blk_number blk - 1; parent = HashHex g (blk_parent blk) in
      if blk_number blk = 0 then retT ()
      else bindT (getI (GetBlockByNumber (ie_store e) prevNum)) (\<lambda>found.
        case found of
          Inl err \<Rightarrow> if err = ErrNoRows then retT () else failT err
        | Inr prev \<Rightarrow>
            if equal_fold (sb_hash prev) parent then retT ()
            else
              bindT (dbI (rollback_chain e now prevNum parent)) (\<lambda>_.
              bindT (modT (\<lambda>s. s\<lparr>ixs_cache := CacheDel [cacheHeadKey (ie_store e)] (ixs_cache s), ixs_reorgs := ixs_reorgs s + 1\<rparr>)) (\<lambda>_.
              bindT (dbI (EnqueuePendingHeader (ie_store e) now (blk_number blk) (HashHex g (blk_hash blk)))) (\<lambda>_.
              bindT (send_job e (blk_number blk)) (\<lambda>_. retT ()))))))"

subsection \<open>Syncing a block\<close>

definition confirm_depth :: "engine \<Rightarrow> u64" where
  "confirm_depth e = word_of_int (case ie_deposit e of None \<Rightarrow> IxConfirmDepth (Indexer (ie_cfg e)) | Some dp \<Rightarrow> DepositConfirmDepth dp)"

text \<open>The error of asking for the head is dropped, and the head is then 0.\<close>

definition head_or_zero :: "engine \<Rightarrow> u64" where
  "head_or_zero e = (case rpcBlockNumber (bk_node (ie_backend e)) of Inl _ \<Rightarrow> 0 | Inr n \<Rightarrow> n)"

definition confirmed_up_to :: "engine \<Rightarrow> u64 \<Rightarrow> u64" where
  "confirmed_up_to e blockNum =
     (let head = head_or_zero e in
      if head > blockNum then (if head - blockNum \<ge> confirm_depth e then blockNum else 0) else blockNum)"

definition new_block_row :: "engine \<Rightarrow> time \<Rightarrow> u64 \<Rightarrow> block \<Rightarrow> block_row" where
  "new_block_row e now blockNum blk =
     (let g = bk_geth (ie_backend e) in
      \<lparr>sb_chain = ie_store e, sb_number = blockNum, sb_hash = HashHex g (blk_hash blk), sb_parent = HashHex g (blk_parent blk),
       sb_timestamp = blk_time blk, sb_tx_count = length (blk_txs blk), sb_gas_used = blk_gas_used blk, sb_status = BlockPending,
       sb_synced = now\<rparr>)"

text \<open>The transaction. The checkpoint is read outside it, before it is written inside.\<close>

definition sync_block_tx :: "engine \<Rightarrow> time \<Rightarrow> u64 \<Rightarrow> block \<Rightarrow> (tx_parties list) ixtx" where
  "sync_block_tx e now blockNum blk =
     (let ch = ie_store e; blockHash = HashHex (bk_geth (ie_backend e)) (blk_hash blk); upTo = confirmed_up_to e blockNum in
      bindT (dbI (UpsertBlockTx (new_block_row e now blockNum blk))) (\<lambda>_.
      bindT (sync_txs e now blockNum blockHash 0 (blk_txs blk) []) (\<lambda>parties.
      bindT (if upTo = blockNum \<and> Enabled (ie_deposit e)
             then dbI (forT (blk_txs blk) (capture_one_tx e now blockNum)) else retT ()) (\<lambda>_.
      bindT (if 0 < upTo then dbI (ConfirmBlocksUpToTx ch upTo) else retT ()) (\<lambda>_.
      bindT (getI (LoadCheckpoint ch)) (\<lambda>cp.
      bindT (if blockNum > cp_last cp then dbI (UpsertCheckpointTx ch now blockNum blockHash upTo) else retT ()) (\<lambda>_.
      bindT (dbI (IxInsertOutboxTx ch now ''block_cached''
        (BlockCached blockNum blockHash (length (blk_txs blk)) (blk_gas_used blk) (blk_time blk)))) (\<lambda>_.
      bindT (dbI (DeletePendingHeaderTx ch blockNum)) (\<lambda>_.
      retT parties)))))))))"

definition sync_locked :: "engine \<Rightarrow> time \<Rightarrow> u64 \<Rightarrow> unit ixtx" where
  "sync_locked e now blockNum =
     bindT (liftT (rpcBlockByNumber (bk_node (ie_backend e)) blockNum)) (\<lambda>found.
     case found of
       None \<Rightarrow> failT (GoErr (''block '' @ nat_str (unat blockNum) @ '' not found''))
     | Some blk \<Rightarrow>
         bindT (detectAndHandleReorg e now blk) (\<lambda>_.
         bindT (run_txI (sync_block_tx e now blockNum blk)) (\<lambda>parties.
         if ie_balsync e then forT parties refresh_async else retT ())))"

text \<open>The lock is released on every return.\<close>

definition syncBlock :: "engine \<Rightarrow> time \<Rightarrow> u64 \<Rightarrow> unit ixtx" where
  "syncBlock e now blockNum = (\<lambda>s.
     let key = lockKey (ie_store e) blockNum; (ok, c) = CacheSetNX now key ''1'' 30000 (ixs_cache s); s1 = s\<lparr>ixs_cache := c\<rparr> in
     if \<not> ok then (Inr (), s1)
     else case sync_locked e now blockNum s1 of (r, s2) \<Rightarrow> (r, s2\<lparr>ixs_cache := CacheDel [key] (ixs_cache s2)\<rparr>))"

definition syncWorkerTick :: "engine \<Rightarrow> time \<Rightarrow> unit ixtx" where
  "syncWorkerTick e now = (\<lambda>s.
     case ixs_jobs s of
       [] \<Rightarrow> (Inr (), s)
     | n # ns \<Rightarrow> ignoreT (syncBlock e now n) (s\<lparr>ixs_jobs := ns\<rparr>))"

subsection \<open>Feeding the queue\<close>

definition recoverPendingTick :: "engine \<Rightarrow> unit ixtx" where
  "recoverPendingTick e =
     bindT (getI (ListPendingHeaders (ie_store e) (IxBatchSize (Indexer (ie_cfg e))))) (\<lambda>pending.
     forT pending (\<lambda>(n, _). bindT (send_job e n) (\<lambda>_. retT ())))"

text \<open>The numbers from \<open>a\<close> to \<open>b\<close>. A loop up to \<open>2^64 - 1\<close> would not end in Go; heads are far below.\<close>

definition u64_range :: "u64 \<Rightarrow> u64 \<Rightarrow> u64 list" where
  "u64_range a b = map of_nat [unat a..<Suc (unat b)]"

fun send_while :: "engine \<Rightarrow> u64 list \<Rightarrow> unit ixtx" where
  "send_while e [] = retT ()"
| "send_while e (n # ns) = bindT (send_job e n) (\<lambda>ok. if ok then send_while e ns else retT ())"

definition backfill_range :: "engine \<Rightarrow> u64 \<Rightarrow> u64 \<Rightarrow> u64 list" where
  "backfill_range e lst head =
     (let start = (if lst > 0 then lst + 1 else lst); batch = word_of_int (IxBatchSize (Indexer (ie_cfg e)));
          end = (if head - start > batch then start + batch - 1 else head)
      in u64_range start end)"

definition runBackfill :: "engine \<Rightarrow> unit ixtx" where
  "runBackfill e =
     (case rpcBlockNumber (bk_node (ie_backend e)) of
        Inl _ \<Rightarrow> retT ()
      | Inr head \<Rightarrow> bindT (getI (LoadCheckpoint (ie_store e))) (\<lambda>cp. send_while e (backfill_range e (cp_last cp) head)))"

subsection \<open>The gap scan\<close>

definition fold_hex :: "char \<Rightarrow> char" where
  "fold_hex c = (let n = of_char c :: nat in if 65 \<le> n \<and> n \<le> 70 then char_of (n + 32) else c)"

definition stringsEqualFold :: "string \<Rightarrow> string \<Rightarrow> bool" where
  "stringsEqualFold a b \<longleftrightarrow> length a = length b \<and> list_all2 (\<lambda>x y. fold_hex x = fold_hex y) a b"

definition trim0x :: "string \<Rightarrow> string" where
  "trim0x s = (if has_prefix s ''0x'' \<or> has_prefix s ''0X'' then drop 2 s else s)"

definition equalHash :: "string \<Rightarrow> string \<Rightarrow> bool" where
  "equalHash a b = stringsEqualFold (trim0x a) (trim0x b)"

text \<open>The loop over the range, with the missing and the changed numbers found so far.\<close>

fun scan_gaps :: "engine \<Rightarrow> (u64 \<rightharpoonup> string) \<Rightarrow> u64 list \<Rightarrow> u64 list \<Rightarrow> u64 list \<Rightarrow> u64 list \<times> u64 list" where
  "scan_gaps e synced [] gaps mism = (gaps, mism)"
| "scan_gaps e synced (n # ns) gaps mism =
     (let limit = IxBatchSize (Indexer (ie_cfg e)) in
      if \<not> int (length gaps) < limit then (gaps, mism)
      else case synced n of
        None \<Rightarrow> scan_gaps e synced ns (gaps @ [n]) mism
      | Some h \<Rightarrow>
          (case rpcBlockByNumber (bk_node (ie_backend e)) n of
             Inr (Some blk) \<Rightarrow>
               if \<not> equalHash h (HashHex (bk_geth (ie_backend e)) (blk_hash blk))
               then (if limit \<le> int (length gaps + length (mism @ [n])) then (gaps, mism @ [n])
                     else scan_gaps e synced ns gaps (mism @ [n]))
               else scan_gaps e synced ns gaps mism
           | _ \<Rightarrow> scan_gaps e synced ns gaps mism))"

definition enqueue_gap :: "engine \<Rightarrow> time \<Rightarrow> u64 \<Rightarrow> bool ixtx" where
  "enqueue_gap e now n =
     (let hash = (case rpcBlockByNumber (bk_node (ie_backend e)) n of
          Inr (Some blk) \<Rightarrow> HashHex (bk_geth (ie_backend e)) (blk_hash blk) | _ \<Rightarrow> []) in
      bindT (dbI (EnqueuePendingHeader (ie_store e) now n hash)) (\<lambda>_. send_job e n))"

fun enqueue_gaps :: "engine \<Rightarrow> time \<Rightarrow> u64 list \<Rightarrow> nat \<Rightarrow> nat ixtx" where
  "enqueue_gaps e now [] k = retT k"
| "enqueue_gaps e now (n # ns) k = bindT (enqueue_gap e now n) (\<lambda>ok. enqueue_gaps e now ns (if ok then k + 1 else k))"

definition gap_start :: "engine \<Rightarrow> u64 \<Rightarrow> u64 \<Rightarrow> u64" where
  "gap_start e head lst =
     (let window = word_of_int (HashVerifyWindow (Indexer (ie_cfg e))); start = (if head > window then head - window else 0) in
      if lst > 0 \<and> lst + 1 < start then lst + 1 else start)"

definition runGapScan :: "engine \<Rightarrow> time \<Rightarrow> unit ixtx" where
  "runGapScan e now =
     (case rpcBlockNumber (bk_node (ie_backend e)) of
        Inl _ \<Rightarrow> retT ()
      | Inr head \<Rightarrow>
          bindT (getI (LoadCheckpoint (ie_store e))) (\<lambda>cp.
          let start = gap_start e head (cp_last cp) in
          if start > head then retT ()
          else
            bindT (getI (MapSyncedBlocksInRange (ie_store e) start head)) (\<lambda>synced.
            let (gaps, mism) = scan_gaps e synced (u64_range start head) [] [] in
            bindT (enqueue_gaps e now (gaps @ mism) 0) (\<lambda>enq.
            bindT (modT (\<lambda>s. s\<lparr>ixs_gap := \<lparr>gi_last = now, gi_gaps = length gaps, gi_mismatch = length mism, gi_enqueued = enq\<rparr>\<rparr>)) (\<lambda>_.
            ignoreT (dbI (InsertGapScanAudit now
              \<lparr>gs_id = 0, gs_chain = ie_store e, gs_head = head, gs_from = start, gs_to = head, gs_gaps = length gaps,
               gs_mismatches = length mism, gs_enqueued = enq, gs_scanned = now\<rparr>)))))))"

subsection \<open>The outbox\<close>

definition parseBlockNum :: "sync_payload \<Rightarrow> u64" where
  "parseBlockNum p = (case p of BlockCached n _ _ _ _ \<Rightarrow> n | _ \<Rightarrow> 0)"

definition parseTxHash :: "sync_payload \<Rightarrow> string" where
  "parseTxHash p = (case p of EventCached h _ _ _ _ \<Rightarrow> h | _ \<Rightarrow> [])"

definition parseEventName :: "sync_payload \<Rightarrow> string" where
  "parseEventName p = (case p of EventCached _ _ n _ _ \<Rightarrow> n | _ \<Rightarrow> [])"

definition cache_outbox :: "engine \<Rightarrow> time \<Rightarrow> sync_outbox_row \<Rightarrow> mem_cache \<Rightarrow> mem_cache option" where
  "cache_outbox e now item c =
     (if so_event item = ''block_cached'' then
        Some (CacheSet now (cacheHeadKey (so_chain item)) (nat_str (unat (parseBlockNum (so_payload item)))) 300000
          (CacheSet now (cacheBlockKey (so_chain item) (parseBlockNum (so_payload item))) (ie_json e (so_payload item)) 600000 c))
      else if so_event item \<in> {''transfer_cached'', ''event_cached''} then
        Some (CacheSet now (''indexer:event:'' @ nat_str (unat (so_chain item)) @ '':'' @ parseEventName (so_payload item) @ '':'' @
          parseTxHash (so_payload item)) (ie_json e (so_payload item)) 1800000 c)
      else None)"

definition processOutbox :: "engine \<Rightarrow> time \<Rightarrow> sync_outbox_row \<Rightarrow> unit ixtx" where
  "processOutbox e now item = (\<lambda>s.
     case cache_outbox e now item (ixs_cache s) of
       Some c \<Rightarrow> dbI (IxMarkOutboxDone now (so_id item)) (s\<lparr>ixs_cache := c\<rparr>)
     | None \<Rightarrow>
         let retry = so_retries item + 1; fail = (nat (IxMaxRetries (Indexer (ie_cfg e)) mod 2 ^ 64) \<le> retry) in
         dbI (IxMarkOutboxRetry now (so_id item) retry (now + int retry * 1000) fail) s)"

definition ixOutboxTick :: "engine \<Rightarrow> time \<Rightarrow> unit ixtx" where
  "ixOutboxTick e now =
     bindT (dbI (IxClaimOutboxBatch now 10)) (\<lambda>batch. forT batch (\<lambda>item. ignoreT (processOutbox e now item)))"

subsection \<open>Status\<close>

text \<open>The counts are read with their errors dropped, and the head is 0 when the node does not
  answer.\<close>

record ix_status =
  is_chain :: int
  is_last :: u64
  is_hash :: string
  is_confirmed :: u64
  is_head :: u64
  is_lag :: u64
  is_pending :: nat
  is_outbox :: nat
  is_blocks :: nat
  is_txs :: nat
  is_events :: nat
  is_watch :: nat
  is_reorgs :: u64
  is_gap :: gap_info

definition IxStatus :: "engine \<Rightarrow> ix_state \<Rightarrow> ix_status" where
  "IxStatus e s =
     (let d = ixs_db s; ch = ie_store e; cp = LoadCheckpoint ch d; head = head_or_zero e in
      \<lparr>is_chain = EthChainID (Eth (ie_cfg e)), is_last = cp_last cp, is_hash = cp_hash cp, is_confirmed = cp_confirmed cp,
       is_head = head, is_lag = (if head > cp_last cp then head - cp_last cp else 0),
       is_pending = CountPendingHeaders ch d, is_outbox = CountPendingOutbox ch d, is_blocks = CountBlocks ch d,
       is_txs = CountTxs ch d, is_events = CountEvents ch d, is_watch = WatchCount (ie_events e),
       is_reorgs = ixs_reorgs s, is_gap = ixs_gap s\<rparr>)"

definition GetCachedBlock :: "engine \<Rightarrow> time \<Rightarrow> u64 \<Rightarrow> ix_state \<Rightarrow> string" where
  "GetCachedBlock e now num s = CacheGet now (cacheBlockKey (ie_store e) num) (ixs_cache s)"

end
