(* ===== verification/Indexer_System.thy ===== *)
theory Indexer_System
  imports Indexer_Engine Platform
begin

text \<open>
  The indexer on the database that it shares with the exchange and the webhook service. The
  engine is traversed once, for any relation between the database before and after that its
  statements keep (\<open>index_client\<close>); the instances are the invariants of the index tables,
  those of the exchange and of the webhook service, and the frame of the deposit tables.
\<close>

subsection \<open>The state\<close>

lemma dbI_apply [simp]: "dbI m s = (fst (m (ixs_db s)), s\<lparr>ixs_db := snd (m (ixs_db s))\<rparr>)"
  by (simp add: dbI_def split: prod.split)

lemma getI_apply [simp]: "getI f s = (Inr (f (ixs_db s)), s)"
  by (simp add: getI_def)

definition db_rel :: "(db \<Rightarrow> db \<Rightarrow> bool) \<Rightarrow> 'a dbtx \<Rightarrow> bool" where
  "db_rel R m \<longleftrightarrow> (\<forall>d. R d (snd (m d)))"

definition ix_rel :: "(db \<Rightarrow> db \<Rightarrow> bool) \<Rightarrow> 'a ixtx \<Rightarrow> bool" where
  "ix_rel R m \<longleftrightarrow> (\<forall>s. R (ixs_db s) (ixs_db (snd (m s))))"

lemma db_relD: "db_rel R m \<Longrightarrow> R d (snd (m d))"
  by (simp add: db_rel_def)

lemma ix_relD: "ix_rel R m \<Longrightarrow> R (ixs_db s) (ixs_db (snd (m s)))"
  by (simp add: ix_rel_def)

lemma ix_rel_dbI: "db_rel R m \<Longrightarrow> ix_rel R (dbI m)"
  by (simp add: db_rel_def ix_rel_def)

subsection \<open>Relations that the statements keep\<close>

text \<open>The part of a block's transaction after the block row is written.\<close>

definition sync_tail :: "engine \<Rightarrow> time \<Rightarrow> u64 \<Rightarrow> block \<Rightarrow> (tx_parties list) ixtx" where
  "sync_tail e now blockNum blk =
     (let ch = ie_store e; blockHash = HashHex (bk_geth (ie_backend e)) (blk_hash blk); upTo = confirmed_up_to e blockNum in
      bindT (sync_txs e now blockNum blockHash 0 (blk_txs blk) []) (\<lambda>parties.
      bindT (if upTo = blockNum \<and> Enabled (ie_deposit e)
             then dbI (forT (blk_txs blk) (capture_one_tx e now blockNum)) else retT ()) (\<lambda>_.
      bindT (if 0 < upTo then dbI (ConfirmBlocksUpToTx ch upTo) else retT ()) (\<lambda>_.
      bindT (getI (LoadCheckpoint ch)) (\<lambda>cp.
      bindT (if blockNum > cp_last cp then dbI (UpsertCheckpointTx ch now blockNum blockHash upTo) else retT ()) (\<lambda>_.
      bindT (dbI (IxInsertOutboxTx ch now ''block_cached''
        (BlockCached blockNum blockHash (length (blk_txs blk)) (blk_gas_used blk) (blk_time blk)))) (\<lambda>_.
      bindT (dbI (DeletePendingHeaderTx ch blockNum)) (\<lambda>_.
      retT parties))))))))"

lemma sync_block_tx_eq:
  "sync_block_tx e now n blk = bindT (dbI (UpsertBlockTx (new_block_row e now n blk))) (\<lambda>_. sync_tail e now n blk)"
  by (simp add: sync_block_tx_def sync_tail_def Let_def)

text \<open>What comes after the captures.\<close>

definition sync_end :: "engine \<Rightarrow> time \<Rightarrow> u64 \<Rightarrow> block \<Rightarrow> tx_parties list \<Rightarrow> (tx_parties list) ixtx" where
  "sync_end e now blockNum blk parties =
     (let ch = ie_store e; blockHash = HashHex (bk_geth (ie_backend e)) (blk_hash blk); upTo = confirmed_up_to e blockNum in
      bindT (if 0 < upTo then dbI (ConfirmBlocksUpToTx ch upTo) else retT ()) (\<lambda>_.
      bindT (getI (LoadCheckpoint ch)) (\<lambda>cp.
      bindT (if blockNum > cp_last cp then dbI (UpsertCheckpointTx ch now blockNum blockHash upTo) else retT ()) (\<lambda>_.
      bindT (dbI (IxInsertOutboxTx ch now ''block_cached''
        (BlockCached blockNum blockHash (length (blk_txs blk)) (blk_gas_used blk) (blk_time blk)))) (\<lambda>_.
      bindT (dbI (DeletePendingHeaderTx ch blockNum)) (\<lambda>_.
      retT parties))))))"

lemma sync_tail_eq:
  "sync_tail e now n blk =
     bindT (sync_txs e now n (HashHex (bk_geth (ie_backend e)) (blk_hash blk)) 0 (blk_txs blk) []) (\<lambda>parties.
     bindT (if confirmed_up_to e n = n \<and> Enabled (ie_deposit e) then dbI (forT (blk_txs blk) (capture_one_tx e now n)) else retT ())
       (\<lambda>_. sync_end e now n blk parties))"
  by (simp add: sync_tail_def sync_end_def Let_def)

lemma confirmed_up_to_le: "confirmed_up_to e n \<le> n"
  by (simp add: confirmed_up_to_def Let_def)

locale tail_client =
  fixes R :: "db \<Rightarrow> db \<Rightarrow> bool" and ch :: u64
  assumes R_refl: "R d d"
    and R_trans: "R a b \<Longrightarrow> R b c \<Longrightarrow> R a c"
    and R_confirm: "db_rel R (ConfirmBlocksUpToTx ch n)"
    and R_checkpoint: "cp_last (LoadCheckpoint ch d) < n \<Longrightarrow> u \<le> n \<Longrightarrow> R d (snd (UpsertCheckpointTx ch now n h u d))"
    and R_delete: "db_rel R (DeletePendingHeaderTx ch n)"
    and R_tx: "db_rel R (UpsertTransactionTx row)"
    and R_event: "db_rel R (UpsertEventLogTx ev)"
    and R_outbox: "db_rel R (IxInsertOutboxTx ch now ty p)"
begin

lemma db_rel_ret: "db_rel R (retT x)" "db_rel R (liftT r)" "db_rel R (failT e)"
  by (simp_all add: db_rel_def R_refl)

lemma db_rel_bind: "db_rel R m \<Longrightarrow> (\<And>x. db_rel R (k x)) \<Longrightarrow> db_rel R (bindT m k)"
proof -
  assume m: "db_rel R m" and k: "\<And>x. db_rel R (k x)"
  have "R d (snd (bindT m k d))" for d
    using m k unfolding db_rel_def by (intro bindT_snd [where P = "R d"]) (auto intro: R_trans)
  then show ?thesis by (simp add: db_rel_def)
qed

lemma db_rel_for: "(\<And>x. x \<in> set xs \<Longrightarrow> db_rel R (f x)) \<Longrightarrow> db_rel R (forT xs f)"
  by (induction xs) (auto intro: db_rel_ret db_rel_bind)

lemma ix_rel_ret: "ix_rel R (retT x)" "ix_rel R (liftT r)" "ix_rel R (failT e)" "ix_rel R (getI f)"
  by (simp_all add: ix_rel_def R_refl)

lemma ix_rel_bind: "ix_rel R m \<Longrightarrow> (\<And>x. ix_rel R (k x)) \<Longrightarrow> ix_rel R (bindT m k)"
proof -
  assume m: "ix_rel R m" and k: "\<And>x. ix_rel R (k x)"
  have "R (ixs_db s) (ixs_db (snd (bindT m k s)))" for s
    using m k unfolding ix_rel_def by (intro bindT_snd [where P = "\<lambda>x. R (ixs_db s) (ixs_db x)"]) (auto intro: R_trans)
  then show ?thesis by (simp add: ix_rel_def)
qed

lemma ix_rel_for: "(\<And>x. x \<in> set xs \<Longrightarrow> ix_rel R (f x)) \<Longrightarrow> ix_rel R (forT xs f)"
  by (induction xs) (auto intro: ix_rel_ret ix_rel_bind)

lemmas rel_intros = db_rel_ret db_rel_bind db_rel_for ix_rel_ret ix_rel_bind ix_rel_for ix_rel_dbI

lemma refresh_rel: "ix_rel R (refresh_async p)"
  by (simp add: ix_rel_def refresh_async_def R_refl)

lemma persist_event_rel:
  assumes "ie_store e = ch"
  shows "ix_rel R (persist_event e now lg bh p)"
  unfolding persist_event_def Let_def assms
  by (auto intro!: rel_intros R_event R_outbox refresh_rel)

lemma sync_txs_rel:
  assumes "ie_store e = ch"
  shows "ix_rel R (sync_txs e now n bh i txs ps)"
proof (induction txs arbitrary: i ps)
  case (Cons tx txs)
  have log: "ix_rel R (persistParsedLog e now False lg bh)" for lg
    unfolding persistParsedLog_def
    by (auto intro!: rel_intros persist_event_rel assms split: option.split)
  have "ix_rel R (sync_one_tx e now n bh i tx fr)" for fr
    unfolding sync_one_tx_def Let_def by (auto simp del: dbI_apply intro!: rel_intros log R_tx split: sum.split)
  then show ?case using Cons by (auto intro!: rel_intros split: sum.split)
qed (simp add: ix_rel_ret)

lemma checkpoint_rel:
  assumes "u \<le> n" "\<And>x. ix_rel R (k x)"
  shows "ix_rel R (bindT (getI (LoadCheckpoint ch)) (\<lambda>cp.
    bindT (if n > cp_last cp then dbI (UpsertCheckpointTx ch now n h u) else retT ()) k))"
proof -
  have "R (ixs_db s) (ixs_db (snd (bindT (if n > cp_last (LoadCheckpoint ch (ixs_db s))
      then dbI (UpsertCheckpointTx ch now n h u) else retT ()) k s)))" for s
    using R_checkpoint [OF _ assms(1), of "ixs_db s" now h] assms(2) R_refl
    by (intro bindT_snd [where P = "\<lambda>x. R (ixs_db s) (ixs_db x)"]) (auto intro: R_trans simp: ix_rel_def)
  then show ?thesis by (simp add: ix_rel_def)
qed

lemma ix_rel_if: "(b \<Longrightarrow> ix_rel R m) \<Longrightarrow> (\<not> b \<Longrightarrow> ix_rel R m') \<Longrightarrow> ix_rel R (if b then m else m')"
  by simp

lemma sync_end_rel:
  assumes "ie_store e = ch"
  shows "ix_rel R (sync_end e now n blk ps)"
proof -
  have rest: "ix_rel R (bindT (dbI (IxInsertOutboxTx ch now ty p)) (\<lambda>_. bindT (dbI (DeletePendingHeaderTx ch n)) (\<lambda>_. retT ps)))"
    for ty p and ps :: "tx_parties list"
    by (intro rel_intros R_outbox R_delete)
  show ?thesis
    unfolding sync_end_def Let_def assms
    by (rule ix_rel_bind, intro ix_rel_if ix_rel_dbI R_confirm ix_rel_ret, rule checkpoint_rel [OF confirmed_up_to_le], rule rest)
qed

lemma tail_rel:
  assumes "ie_store e = ch"
    and "confirmed_up_to e n = n \<Longrightarrow> Enabled (ie_deposit e) \<Longrightarrow> db_rel R (forT (blk_txs blk) (capture_one_tx e now n))"
  shows "ix_rel R (sync_tail e now n blk)"
proof -
  have capt: "ix_rel R (if confirmed_up_to e n = n \<and> Enabled (ie_deposit e)
      then dbI (forT (blk_txs blk) (capture_one_tx e now n)) else retT ())"
    using assms(2) by (auto intro: ix_rel_dbI ix_rel_ret)
  show ?thesis
    unfolding sync_tail_eq
    by (rule ix_rel_bind, rule sync_txs_rel [OF assms(1)], rule ix_rel_bind, rule capt, rule sync_end_rel [OF assms(1)])
qed

end

text \<open>With the captures of deposits.\<close>

locale capture_client = tail_client +
  fixes dep :: "deposit_processor option"
  assumes R_capture: "dep = Some q \<Longrightarrow> db_rel R (captureAndCredit q now cd)"
begin

lemma Capture_rel:
  "db_rel R (CaptureNativeTx dep now b h fr to v ok)" "db_rel R (CaptureERC20Transfer dep now b h li ct fr to v)"
  by (auto simp: CaptureNativeTx_def CaptureERC20Transfer_def R_capture db_rel_ret split: option.split sum.split)

lemma logs_rel:
  assumes "ie_deposit e = dep"
  shows "db_rel R (forT lgs (captureDepositLog e now n))"
proof (rule db_rel_for)
  fix lg
  show "db_rel R (captureDepositLog e now n lg)"
  proof (cases dep)
    case (Some q)
    then show ?thesis
      using Capture_rel(2) unfolding captureDepositLog_def assms by (auto intro!: rel_intros split: option.split)
  qed (simp add: captureDepositLog_def assms db_rel_ret)
qed

lemma capture_one_tx_rel:
  assumes "ie_deposit e = dep"
  shows "db_rel R (capture_one_tx e now n tx)"
  unfolding capture_one_tx_def Let_def assms
  by (auto intro!: rel_intros Capture_rel logs_rel assms split: sum.split)

lemma captures_rel: "ie_deposit e = dep \<Longrightarrow> db_rel R (forT txs (capture_one_tx e now n))"
  by (intro db_rel_for capture_one_tx_rel)

lemmas tail_parts_rel = sync_txs_rel sync_end_rel

lemma sync_tail_rel:
  assumes "ie_store e = ch" "ie_deposit e = dep"
  shows "ix_rel R (sync_tail e now n blk)"
  by (rule tail_rel [OF assms(1)]) (intro db_rel_for capture_one_tx_rel [OF assms(2)])

end

text \<open>The statements that run outside that part.\<close>

locale index_client = capture_client +
  assumes R_rollback: "R d d' \<Longrightarrow> R d (rollback d d')"
    and R_block: "sb_chain b = ch \<Longrightarrow> db_rel R (UpsertBlockTx b)"
    and R_orphan: "db_rel R (MarkOrphanedFromTx ch n)"
    and R_rollback_cp: "db_rel R (RollbackCheckpointTx ch now n h)"
    and R_enqueue: "db_rel R (EnqueuePendingHeader ch now n h)"
    and R_claim: "db_rel R (IxClaimOutboxBatch now lim)"
    and R_done: "db_rel R (IxMarkOutboxDone now i)"
    and R_retry: "db_rel R (IxMarkOutboxRetry now i k nxt fl)"
    and R_audit: "db_rel R (InsertGapScanAudit now a)"
    and R_reorg: "db_rel R (HandleReorgTx dep now n)"
begin

lemma db_rel_run_tx: "db_rel R m \<Longrightarrow> db_rel R (run_tx m)"
  unfolding db_rel_def run_tx_def by (auto simp: R_rollback split: prod.split sum.split) (metis R_rollback snd_conv)+

lemma ix_rel_run_txI: "ix_rel R m \<Longrightarrow> ix_rel R (run_txI m)"
  unfolding ix_rel_def run_txI_def by (auto split: prod.split sum.split) (metis R_rollback snd_conv)+

lemma ix_rel_ignore: "ix_rel R m \<Longrightarrow> ix_rel R (ignoreT m)"
  by (simp add: ix_rel_def)

lemma ix_rel_mod: "(\<And>s. ixs_db (f s) = ixs_db s) \<Longrightarrow> ix_rel R (modT f)"
  by (simp add: ix_rel_def R_refl)

lemma send_job_rel: "ix_rel R (send_job e n)"
  by (simp add: ix_rel_def send_job_def R_refl)

lemmas more_intros = rel_intros db_rel_run_tx ix_rel_run_txI ix_rel_ignore ix_rel_mod send_job_rel

lemma detect_rel:
  assumes "ie_store e = ch" "ie_deposit e = dep"
  shows "ix_rel R (detectAndHandleReorg e now blk)"
proof -
  have "db_rel R (rollback_chain e now n h)" for n h
    unfolding rollback_chain_def assms by (auto intro!: more_intros R_orphan R_rollback_cp R_reorg)
  then show ?thesis
    unfolding detectAndHandleReorg_def Let_def assms(1)
    by (auto intro!: more_intros R_enqueue split: sum.split)
qed

lemma sync_locked_rel:
  assumes "ie_store e = ch" "ie_deposit e = dep"
  shows "ix_rel R (sync_locked e now n)"
  unfolding sync_locked_def sync_block_tx_eq
  by (auto intro!: more_intros detect_rel R_block sync_tail_rel assms refresh_rel split: option.split)
    (simp add: new_block_row_def Let_def assms)

lemma syncBlock_rel:
  assumes "ie_store e = ch" "ie_deposit e = dep"
  shows "ix_rel R (syncBlock e now n)"
proof -
  have "R (ixs_db s) (ixs_db (snd (sync_locked e now n (s\<lparr>ixs_cache := c\<rparr>))))" for s c
    using ix_relD [OF sync_locked_rel [OF assms], where s = "s\<lparr>ixs_cache := c\<rparr>"] by simp
  then show ?thesis
    by (auto simp: ix_rel_def syncBlock_def Let_def R_refl split: prod.split) (metis snd_conv)
qed

lemma enqueue_gaps_rel:
  assumes "ie_store e = ch"
  shows "ix_rel R (enqueue_gaps e now ns k)"
  by (induction ns arbitrary: k)
    (auto simp: enqueue_gap_def Let_def assms intro!: more_intros R_enqueue)

lemma gap_scan_rel:
  assumes "ie_store e = ch"
  shows "ix_rel R (runGapScan e now)"
  unfolding runGapScan_def Let_def assms
  by (auto intro!: more_intros enqueue_gaps_rel R_audit assms split: sum.split prod.split)

lemma outbox_tick_rel: "ix_rel R (ixOutboxTick e now)"
proof -
  have "ix_rel R (processOutbox e now item)" for item
    using db_relD [OF R_done] db_relD [OF R_retry]
    by (auto simp: ix_rel_def processOutbox_def Let_def split: option.split)
  then show ?thesis
    unfolding ixOutboxTick_def by (auto intro!: more_intros R_claim)
qed

lemma feed_rel: "ix_rel R (recoverPendingTick e)" "ix_rel R (runBackfill e)"
proof -
  have "ix_rel R (send_while e ns)" for ns
    by (induction ns) (simp add: ix_rel_def R_refl, auto intro!: more_intros)
  then show "ix_rel R (runBackfill e)"
    unfolding runBackfill_def by (cases "rpcBlockNumber (bk_node (ie_backend e))") (auto simp: ix_rel_ret intro!: ix_rel_bind)
  have "ix_rel R (case x of (n, h) \<Rightarrow> bindT (send_job e n) (\<lambda>_. retT ()))" for x :: "u64 \<times> string"
    by (cases x) (auto intro!: more_intros)
  then show "ix_rel R (recoverPendingTick e)"
    unfolding recoverPendingTick_def by (intro ix_rel_bind ix_rel_ret ix_rel_for)
qed

lemma EnqueueHeader_rel: "ie_store e = ch \<Longrightarrow> ix_rel R (EnqueueHeader e now n h)"
  unfolding EnqueueHeader_def by (intro more_intros) (simp add: R_enqueue)

lemma EnqueueTransferLog_rel:
  assumes "ie_store e = ch"
  shows "ix_rel R (EnqueueTransferLog e now lg)"
  unfolding EnqueueTransferLog_def persistParsedLog_def
  by (auto intro!: more_intros persist_event_rel assms split: option.split)

lemma worker_rel:
  assumes "ie_store e = ch" "ie_deposit e = dep"
  shows "ix_rel R (syncWorkerTick e now)"
proof -
  have "R (ixs_db s) (ixs_db (snd (syncBlock e now n (s\<lparr>ixs_jobs := js\<rparr>))))" for s n js
    using ix_relD [OF syncBlock_rel [OF assms], where s = "s\<lparr>ixs_jobs := js\<rparr>"] by simp
  then show ?thesis by (simp add: ix_rel_def syncWorkerTick_def R_refl split: list.split)
qed

end

subsection \<open>Steps\<close>

text \<open>The goroutines of the engine and the two entry points of the listener.\<close>

inductive ix_step :: "engine \<Rightarrow> ix_state \<Rightarrow> ix_state \<Rightarrow> bool" for e where
  header: "ix_step e s (snd (EnqueueHeader e now n h s))"
| wslog: "ix_step e s (snd (EnqueueTransferLog e now lg s))"
| worker: "ix_step e s (snd (syncWorkerTick e now s))"
| recover: "ix_step e s (snd (recoverPendingTick e s))"
| backfill: "ix_step e s (snd (runBackfill e s))"
| gapscan: "ix_step e s (snd (runGapScan e now s))"
| outbox: "ix_step e s (snd (ixOutboxTick e now s))"

inductive_cases ix_stepE: "ix_step e s s'"

context index_client
begin

lemma ix_step_rel:
  assumes "ix_step e s s'" "ie_store e = ch" "ie_deposit e = dep"
  shows "R (ixs_db s) (ixs_db s')"
  using assms(1)
  by (cases rule: ix_step.cases)
    (simp_all add: ix_relD EnqueueHeader_rel EnqueueTransferLog_rel worker_rel feed_rel gap_scan_rel outbox_tick_rel assms(2,3))

end

subsection \<open>The tables of the other packages\<close>

definition ix_rest :: "db \<Rightarrow> db" where
  "ix_rest d = d\<lparr>ctrs := (ctrs d)\<lparr>ai_sync_outbox := 0, ai_gap_scans := 0\<rparr>, checkpoints := [], pending_headers := [],
     sblocks := [], stxs := [], sevents := [], sync_outbox := [], gap_scans := []\<rparr>"

lemma ix_stmts_rest [simp]:
  "ix_rest (snd (ConfirmBlocksUpToTx ch n d)) = ix_rest d"
  "ix_rest (snd (UpsertCheckpointTx ch now n h u d)) = ix_rest d"
  "ix_rest (snd (DeletePendingHeaderTx ch n d)) = ix_rest d"
  "ix_rest (snd (UpsertTransactionTx row d)) = ix_rest d"
  "ix_rest (snd (UpsertEventLogTx ev d)) = ix_rest d"
  "ix_rest (snd (IxInsertOutboxTx ch now ty p d)) = ix_rest d"
  "ix_rest (snd (UpsertBlockTx b d)) = ix_rest d"
  "ix_rest (snd (MarkOrphanedFromTx ch n d)) = ix_rest d"
  "ix_rest (snd (RollbackCheckpointTx ch now n h d)) = ix_rest d"
  "ix_rest (snd (EnqueuePendingHeader ch now n h d)) = ix_rest d"
  "ix_rest (snd (IxClaimOutboxBatch now lim d)) = ix_rest d"
  "ix_rest (snd (IxMarkOutboxDone now i d)) = ix_rest d"
  "ix_rest (snd (IxMarkOutboxRetry now i k nxt fl d)) = ix_rest d"
  "ix_rest (snd (InsertGapScanAudit now a d)) = ix_rest d"
  by (simp_all add: ix_rest_def ConfirmBlocksUpToTx_def UpsertCheckpointTx_def DeletePendingHeaderTx_def UpsertTransactionTx_def
      UpsertEventLogTx_def IxInsertOutboxTx_def UpsertBlockTx_def MarkOrphanedFromTx_def RollbackCheckpointTx_def
      EnqueuePendingHeader_def IxClaimOutboxBatch_eq IxMarkOutboxDone_def IxMarkOutboxRetry_def InsertGapScanAudit_def Let_def)

text \<open>A relation that looks at the other tables only: the indexer's own statements keep it for
  free, and what is left are the statements of the deposits.\<close>

locale rest_client =
  fixes R :: "db \<Rightarrow> db \<Rightarrow> bool" and ch :: u64 and dep :: "deposit_processor option"
  assumes rest_only: "ix_rest d' = ix_rest d \<Longrightarrow> R d d'"
    and rest_trans: "R x y \<Longrightarrow> R y z \<Longrightarrow> R x z"
    and rest_rollback: "R d d' \<Longrightarrow> R d (rollback d d')"
    and rest_capture: "dep = Some q \<Longrightarrow> R d (snd (captureAndCredit q now cd d))"
    and rest_reorg: "R d (snd (HandleReorgTx dep now n d))"

sublocale rest_client \<subseteq> index_client R ch dep
  by unfold_locales (auto simp: db_rel_def intro: rest_only rest_trans rest_rollback rest_capture rest_reorg)

lemma ix_rest_frame:
  assumes "ix_rest d' = ix_rest d"
  shows "accounts d' = accounts d" "entries d' = entries d" "deposits d' = deposits d" "withdraws d' = withdraws d"
    "payments d' = payments d" "wh_outbox d' = wh_outbox d" "ai_withdraws (ctrs d') = ai_withdraws (ctrs d)"
    "ai_payments (ctrs d') = ai_payments (ctrs d)" "ai_wh_outbox (ctrs d') = ai_wh_outbox (ctrs d)"
  using arg_cong [OF assms, of accounts] arg_cong [OF assms, of entries] arg_cong [OF assms, of deposits]
    arg_cong [OF assms, of withdraws] arg_cong [OF assms, of payments] arg_cong [OF assms, of wh_outbox]
    arg_cong [OF assms, of "\<lambda>d. ai_withdraws (ctrs d)"] arg_cong [OF assms, of "\<lambda>d. ai_payments (ctrs d)"]
    arg_cong [OF assms, of "\<lambda>d. ai_wh_outbox (ctrs d)"]
  by (simp_all add: ix_rest_def)

text \<open>What the platform's invariants need of a step of the indexer.\<close>

definition platform_rel :: "db \<Rightarrow> db \<Rightarrow> bool" where
  "platform_rel d d' \<longleftrightarrow> (books d \<longrightarrow> books d') \<and> same_wd d d' \<and> pay_view d' = pay_view d \<and>
     (wh_outbox_ok d \<longrightarrow> wh_from (ai_wh_outbox (ctrs d)) d')"

lemma platform_rel_inv: "platform_rel d d' \<Longrightarrow> platform_inv d \<Longrightarrow> platform_inv d'"
  using same_wd_inv [of d d'] payments_inv_view [of d' d]
  by (simp add: platform_rel_def platform_inv_def exchange_inv_def wh_from_def)

lemma platform_rel_rest:
  assumes "ix_rest d' = ix_rest d"
  shows "platform_rel d d'"
proof -
  note f = ix_rest_frame [OF assms]
  have "books d' = books d" by (rule books_cong) (simp_all add: f)
  moreover have "wh_outbox_ok d' = wh_outbox_ok d" by (rule wh_outbox_ok_view) (simp add: wh_view_def f)
  ultimately show ?thesis by (simp add: platform_rel_def same_wd_def pay_view_def f wh_from_def)
qed

lemma platform_rel_trans: "platform_rel x y \<Longrightarrow> platform_rel y z \<Longrightarrow> platform_rel x z"
  by (auto simp: platform_rel_def wh_from_def intro: same_wd_trans)

lemma platform_rel_rollback: "platform_rel d d' \<Longrightarrow> platform_rel d (rollback d d')"
  using wh_from_rollback [of d d'] by (auto simp: platform_rel_def same_wd_def pay_view_def rollback_def wh_from_def)

interpretation plat: rest_client platform_rel ch "Some (notified sv now p)" for sv now p ch
proof unfold_locales
  show "platform_rel d (snd (captureAndCredit q t c d))" if "Some (notified sv now p) = Some q" for q t c d
    using that wh_capture.captureAndCredit_books [of d sv now p t c] wh_capture.captureAndCredit_wd [of d sv now p t c]
      pay.captureAndCredit_view [of sv now p t c d] notified_capture_from [of "ai_wh_outbox (ctrs d)" d sv now p t c]
    by (auto simp: platform_rel_def wh_from_def)
  show "platform_rel d (snd (HandleReorgTx (Some (notified sv now p)) t n d))" for t n d
  proof -
    let ?d = "snd (HandleReorgTx (Some (notified sv now p)) t n d)"
    have v: "wh_view ?d = wh_view d" "pay_view ?d = pay_view d"
      using HandleReorgTx_wh [of d "Some (notified sv now p)" t n] pay.HandleReorgTx_view [of sv now p t n d]
      by (simp_all add: wh_same_def)
    have "books d \<Longrightarrow> books ?d" by (simp add: books_def HandleReorgTx_inv HandleReorgTx_once)
    then show ?thesis
      using HandleReorgTx_wd [of d "Some (notified sv now p)" t n] v wh_from_view [OF v(1), of "ai_wh_outbox (ctrs d)"]
      by (auto simp: platform_rel_def wh_from_def)
  qed
qed (simp_all add: platform_rel_rest platform_rel_rollback, rule platform_rel_trans)

end
