(* ===== verification/Indexer_Invariant.thy ===== *)
theory Indexer_Invariant
  imports Indexer_System
begin

text \<open>
  The invariant of the index tables: the unique keys of \<open>indexer/mysql.go\<close>, ids of the outbox
  below their counter, and a checkpoint that has never confirmed more than it has synced. Together with the
  invariants of the other packages it holds in every state that the
  indexer, the exchange and the webhook service reach on their shared database.
\<close>

subsection \<open>The index tables\<close>

definition ph_key :: "pending_header \<Rightarrow> u64 \<times> u64" where
  "ph_key h = (ph_chain h, ph_number h)"

definition sb_key :: "block_row \<Rightarrow> u64 \<times> u64" where
  "sb_key b = (sb_chain b, sb_number b)"

definition sb_hash_key :: "block_row \<Rightarrow> u64 \<times> string" where
  "sb_hash_key b = (sb_chain b, coll (sb_hash b))"

definition index_ok :: "db \<Rightarrow> bool" where
  "index_ok d \<longleftrightarrow>
     distinct (map cp_chain (checkpoints d)) \<and> (\<forall>c\<in>set (checkpoints d). cp_confirmed c \<le> cp_last c) \<and>
     distinct (map ph_key (pending_headers d)) \<and>
     distinct (map sb_key (sblocks d)) \<and> distinct (map sb_hash_key (sblocks d)) \<and>
     distinct (map so_id (sync_outbox d)) \<and> (\<forall>r\<in>set (sync_outbox d). so_id r < ai_sync_outbox (ctrs d))"

definition index_rel :: "db \<Rightarrow> db \<Rightarrow> bool" where
  "index_rel d d' \<longleftrightarrow> (index_ok d \<longrightarrow> index_ok d' \<and> ai_sync_outbox (ctrs d) \<le> ai_sync_outbox (ctrs d'))"

lemma index_rel_part: "ix_part d' = ix_part d \<Longrightarrow> index_rel d d'"
  by (simp add: index_rel_def index_ok_def ix_part_def)

lemma index_rel_trans: "index_rel x y \<Longrightarrow> index_rel y z \<Longrightarrow> index_rel x z"
  by (auto simp: index_rel_def)

lemma index_rel_rollback: "index_rel d d' \<Longrightarrow> index_rel d (rollback d d')"
  by (fastforce simp: index_rel_def index_ok_def rollback_def)

subsection \<open>The statements keep the invariant\<close>

lemma distinct_upsert:
  assumes "distinct (map g t)" "distinct (map k t)" "\<And>r. p r \<Longrightarrow> k r = c"
    "\<And>r. r \<in> set t \<Longrightarrow> \<not> p r \<Longrightarrow> g r \<noteq> g new" "\<And>r. p r \<Longrightarrow> g (f r) = g new"
  shows "distinct (map g (upsert_where p f new t))"
  using assms(1,2,4)
proof (induction t)
  case (Cons r rs)
  show ?case
  proof (cases "p r")
    case True
    have "\<not> p r'" if "r' \<in> set rs" for r'
      using that True Cons.prems(2) assms(3) by (metis distinct.simps(2) image_eqI list.set_map list.simps(9))
    then show ?thesis using True Cons.prems assms(5) by auto (metis)
  next
    case False
    have "g r \<noteq> g x" if "x \<in> set (upsert_where p f new rs)" for x
      using set_upsert_where [OF that] Cons.prems False assms(5) by auto
    then show ?thesis using False Cons by auto
  qed
qed simp

lemma blocks_status_rel:
  assumes "\<And>r. sb_key (f r) = sb_key r" "\<And>r. sb_hash_key (f r) = sb_hash_key r"
  shows "index_rel d (d\<lparr>sblocks := upd_where p f (sblocks d)\<rparr>)"
  by (simp add: index_rel_def index_ok_def map_upd_where assms)

lemma outbox_status_rel:
  assumes "\<And>r. so_id (f r) = so_id r"
  shows "index_rel d (d\<lparr>sync_outbox := upd_where p f (sync_outbox d)\<rparr>)"
proof -
  have "so_id r < n" if "r \<in> set (upd_where p f (sync_outbox d))" "\<forall>r\<in>set (sync_outbox d). so_id r < n" for r n
    using set_upd_where [OF that(1)] that(2) assms by auto
  then show ?thesis by (simp add: index_rel_def index_ok_def map_upd_where assms)
qed

lemma quiet_stmts_rel:
  "index_rel d (snd (ConfirmBlocksUpToTx ch n d))" "index_rel d (snd (MarkOrphanedFromTx ch n d))"
  "index_rel d (snd (IxClaimOutboxBatch now lim d))" "index_rel d (snd (IxMarkOutboxDone now i d))"
  "index_rel d (snd (IxMarkOutboxRetry now i k nxt fl d))"
  "index_rel d (snd (UpsertTransactionTx row d))" "index_rel d (snd (UpsertEventLogTx ev d))"
  "index_rel d (snd (InsertGapScanAudit now a d))"
  by (simp_all add: ConfirmBlocksUpToTx_def MarkOrphanedFromTx_def IxClaimOutboxBatch_eq IxMarkOutboxDone_def
      IxMarkOutboxRetry_def Let_def blocks_status_rel outbox_status_rel sb_key_def sb_hash_key_def)
    (auto intro!: index_rel_part simp: UpsertTransactionTx_def UpsertEventLogTx_def InsertGapScanAudit_def ix_part_def)

lemma outbox_insert_rel: "index_rel d (snd (IxInsertOutboxTx ch now ty p d))"
  by (auto simp: index_rel_def index_ok_def IxInsertOutboxTx_def)

lemma headers_rel:
  "index_rel d (snd (EnqueuePendingHeader ch now n h d))" "index_rel d (snd (DeletePendingHeaderTx ch n d))"
proof -
  have "distinct (map ph_key (upsert_where (ph_match ch n) f \<lparr>ph_chain = ch, ph_number = n, ph_hash = h, ph_enqueued = now\<rparr> t))"
    if "distinct (map ph_key t)" "\<And>r. ph_key (f r) = ph_key r" for f t
    using that by (subst map_upsert_where) (auto simp: ph_match_def ph_key_def)
  then show "index_rel d (snd (EnqueuePendingHeader ch now n h d))"
    by (simp add: index_rel_def index_ok_def EnqueuePendingHeader_def ph_key_def)
  show "index_rel d (snd (DeletePendingHeaderTx ch n d))"
    by (auto simp: index_rel_def index_ok_def DeletePendingHeaderTx_def distinct_map intro: inj_on_subset)
qed

lemma checkpoint_stmt_rel:
  assumes "cp_last (LoadCheckpoint ch d) < n" "u \<le> n"
  shows "index_rel d (snd (UpsertCheckpointTx ch now n h u d))"
proof (unfold index_rel_def, rule impI)
  assume ok: "index_ok d"
  let ?f = "\<lambda>c. c\<lparr>cp_last := n, cp_hash := h, cp_confirmed := max (cp_confirmed c) u, cp_updated := now\<rparr>"
  let ?new = "\<lparr>cp_chain = ch, cp_last = n, cp_hash = h, cp_confirmed = u, cp_updated = now\<rparr>"
  have "cp_confirmed c \<le> n" if "c \<in> set (checkpoints d)" "cp_chain c = ch" for c
  proof -
    have "List.find (\<lambda>x. cp_chain x = ch) (checkpoints d) = Some c"
      using ok that by (auto simp: index_ok_def intro!: find_distinct_key [of cp_chain])
    then show ?thesis using assms(1) ok that by (force simp: LoadCheckpoint_def index_ok_def)
  qed
  then have "\<forall>c\<in>set (upsert_where (\<lambda>c. cp_chain c = ch) ?f ?new (checkpoints d)). cp_confirmed c \<le> cp_last c"
    using ok assms(2) by (auto dest!: set_upsert_where simp: index_ok_def)
  moreover have "distinct (map cp_chain (upsert_where (\<lambda>c. cp_chain c = ch) ?f ?new (checkpoints d)))"
    using ok by (subst map_upsert_where) (auto simp: index_ok_def)
  ultimately show "index_ok (snd (UpsertCheckpointTx ch now n h u d)) \<and>
      ai_sync_outbox (ctrs d) \<le> ai_sync_outbox (ctrs (snd (UpsertCheckpointTx ch now n h u d)))"
    using ok by (simp add: UpsertCheckpointTx_def index_ok_def)
qed

lemma rollback_cp_rel: "index_rel d (snd (RollbackCheckpointTx ch now n h d))"
  by (auto simp: index_rel_def index_ok_def RollbackCheckpointTx_def map_upd_where dest!: set_upd_where)

lemma UpsertBlockTx_rel: "index_rel d (snd (UpsertBlockTx b d))"
proof (unfold index_rel_def, rule impI)
  assume ok: "index_ok d"
  let ?num = "sb_match (sb_chain b) (sb_number b)" and ?hash = "\<lambda>r. sb_chain r = sb_chain b \<and> sql_eq (sb_hash r) (sb_hash b)"
  have k: "sb_key (block_update b r) = sb_key r" "?num r \<longleftrightarrow> sb_key r = sb_key b" "?hash r \<longleftrightarrow> sb_hash_key r = sb_hash_key b"
    "sb_hash_key (block_update b r) = (sb_chain r, coll (sb_hash b))" for r
    by (auto simp: sb_key_def sb_hash_key_def block_update_def sb_match_def sql_eq_def)
  have num: "distinct (map sb_key (upsert_where ?num (block_update b) b (sblocks d)))"
    if "distinct (map sb_key (sblocks d))"
    using that k by (subst map_upsert_where) auto
  show "index_ok (snd (UpsertBlockTx b d)) \<and> ai_sync_outbox (ctrs d) \<le> ai_sync_outbox (ctrs (snd (UpsertBlockTx b d)))"
  proof (cases "List.find ?num (sblocks d) = None")
    case True
    then have new: "sb_key b \<notin> sb_key ` set (sblocks d)" by (auto simp: find_None_iff k)
    have d: "distinct (map sb_key (sblocks d))" "distinct (map sb_hash_key (sblocks d))" using ok by (simp_all add: index_ok_def)
    have "map sb_hash_key (upsert_where ?hash (block_update b) b (sblocks d)) =
        (if \<exists>r\<in>set (sblocks d). ?hash r then map sb_hash_key (sblocks d) else map sb_hash_key (sblocks d) @ [sb_hash_key b])"
      by (rule map_upsert_where) (simp add: sb_hash_key_def sql_eq_def block_update_def)
    then have "distinct (map sb_hash_key (upsert_where ?hash (block_update b) b (sblocks d)))"
      using d(2) by (auto simp: k(3))
    moreover have "distinct (map sb_key (upsert_where ?hash (block_update b) b (sblocks d)))"
      using d(1) new by (subst map_upsert_where) (auto simp: k(1))
    ultimately show ?thesis using ok True by (simp add: UpsertBlockTx_def Let_def index_ok_def)
  next
    case False
    show ?thesis
    proof (cases "List.find (\<lambda>r. ?hash r \<and> \<not> ?num r) (sblocks d) = None")
      case free: True
      have "distinct (map sb_hash_key (upsert_where ?num (block_update b) b (sblocks d)))"
      proof (rule distinct_upsert)
        show "distinct (map sb_hash_key (sblocks d))" "distinct (map sb_key (sblocks d))"
          using ok by (simp_all add: index_ok_def)
        show "sb_hash_key r \<noteq> sb_hash_key b" if "r \<in> set (sblocks d)" "\<not> ?num r" for r
          using free that k(3) [of r] by (auto simp: find_None_iff)
      qed (auto simp: k sb_key_def sb_hash_key_def sb_match_def block_update_def)
      then show ?thesis using ok num False free by (simp add: UpsertBlockTx_def Let_def index_ok_def)
    next
      case used: False
      then show ?thesis using ok False by (simp add: UpsertBlockTx_def Let_def)
    qed
  qed
qed

interpretation ixc: index_client index_rel ch "Some (notified sv now p)" for sv now p ch
proof unfold_locales
  show "index_rel d d" for d by (rule index_rel_part) simp
  show "db_rel index_rel (captureAndCredit q t c)" if "Some (notified sv now p) = Some q" for q t c
    using that ixf.captureAndCredit_view by (auto simp: db_rel_def intro!: index_rel_part)
  show "db_rel index_rel (HandleReorgTx (Some (notified sv now p)) t n)" for t n
    using ixf.HandleReorgTx_view by (auto simp: db_rel_def intro!: index_rel_part)
qed (auto simp: db_rel_def quiet_stmts_rel outbox_insert_rel headers_rel checkpoint_stmt_rel rollback_cp_rel UpsertBlockTx_rel
    index_rel_rollback intro: index_rel_trans)

subsection \<open>The services on one database\<close>

definition backend_inv :: "db \<Rightarrow> bool" where
  "backend_inv d \<longleftrightarrow> platform_inv d \<and> index_ok d"

text \<open>The state of the indexer, which holds the database, the transactions sent and the webhook
  counters. The indexer captures deposits with the webhook service as their notifier.\<close>

inductive backend_step :: "ex_service \<Rightarrow> wh_service \<Rightarrow> deposit_processor \<Rightarrow> engine \<Rightarrow>
    ix_state \<times> signed_tx list \<times> metrics \<Rightarrow> ix_state \<times> signed_tx list \<times> metrics \<Rightarrow> bool" for xs sv dp e where
  platform: "platform_step xs sv dp (\<lparr>sys_db = ixs_db s, sys_sent = l\<rparr>, m) (y, m') \<Longrightarrow>
    backend_step xs sv dp e (s, l, m) (s\<lparr>ixs_db := sys_db y\<rparr>, sys_sent y, m')"
| indexer: "ix_step (e\<lparr>ie_deposit := Some (notified sv now dp)\<rparr>) s s' \<Longrightarrow> backend_step xs sv dp e (s, l, m) (s', l, m')"

inductive_cases backend_stepE: "backend_step xs sv dp e x y"

lemma backend_step_inv:
  assumes "backend_step xs sv dp e x y" "backend_inv (ixs_db (fst x))"
  shows "backend_inv (ixs_db (fst y))"
  using assms(1)
proof (cases rule: backend_step.cases)
  case (platform s l m y0 m')
  then have "platform_inv (sys_db y0) \<and> ix_part (sys_db y0) = ix_part (ixs_db s)"
    using platform_step_inv [OF platform(3)] assms(2) by (simp add: backend_inv_def)
  with index_rel_part [of "sys_db y0" "ixs_db s"] show ?thesis
    using assms(2) platform by (simp add: backend_inv_def index_rel_def)
next
  case (indexer now s s' l m m')
  have "platform_rel (ixs_db s) (ixs_db s')" by (rule plat.ix_step_rel [OF indexer(3)]) simp_all
  moreover have "index_rel (ixs_db s) (ixs_db s')" by (rule ixc.ix_step_rel [OF indexer(3)]) simp_all
  ultimately show ?thesis
    using assms(2) indexer platform_rel_inv by (auto simp: backend_inv_def index_rel_def)
qed

lemma backend_reachable_inv:
  assumes "(backend_step xs sv dp e)\<^sup>*\<^sup>* x y" "backend_inv (ixs_db (fst x))"
  shows "backend_inv (ixs_db (fst y))"
  using assms by (induction rule: rtranclp_induct) (auto dest: backend_step_inv)

lemma index_ok_empty: "index_ok empty_db"
  by (simp add: index_ok_def empty_db_def)

end
