(* ===== verification/Indexer_Sync.thy ===== *)
theory Indexer_Sync
  imports Indexer_Invariant
begin

text \<open>
  What one run of the engine's goroutines does: a synced block replaces what was stored under
  its number and agrees with its stored parent, the lock of a block number excludes other
  workers and is always released, and a gap scan enqueues every block that is missing or has
  changed.
\<close>

subsection \<open>The stored chain\<close>

text \<open>Hash and parent of the block stored under a number, unless it is orphaned.\<close>

definition live_block :: "u64 \<Rightarrow> u64 \<Rightarrow> db \<Rightarrow> (string \<times> string) option" where
  "live_block ch n d = (case GetBlockByNumber ch n d of Inl _ \<Rightarrow> None | Inr b \<Rightarrow> Some (sb_hash b, sb_parent b))"

definition blk_core :: "block_row \<Rightarrow> u64 \<times> u64 \<times> string \<times> string \<times> bool" where
  "blk_core r = (sb_chain r, sb_number r, sb_hash r, sb_parent r, sb_status r = BlockOrphaned)"

definition blk_view :: "db \<Rightarrow> (u64 \<times> u64 \<times> string \<times> string \<times> bool) list" where
  "blk_view d = map blk_core (sblocks d)"

lemma map_option_find: "map_option f (List.find (\<lambda>x. Q (f x)) xs) = List.find Q (map f xs)"
  by (induction xs) auto

lemma live_block_view:
  "live_block ch n d = map_option (\<lambda>(c, m, h, p, orph). (h, p))
     (List.find (\<lambda>(c, m, h, p, orph). c = ch \<and> m = n \<and> \<not> orph) (blk_view d))"
proof -
  have q: "(\<lambda>b. sb_match ch n b \<and> sb_status b \<noteq> BlockOrphaned) =
      (\<lambda>b. (\<lambda>(c, m, h, p, orph). c = ch \<and> m = n \<and> \<not> orph) (blk_core b))"
    by (auto simp: sb_match_def blk_core_def)
  show ?thesis
    unfolding blk_view_def map_option_find [symmetric] live_block_def GetBlockByNumber_def q
    by (auto simp: blk_core_def split: option.split)
qed

lemma live_block_cong: "blk_view d' = blk_view d \<Longrightarrow> live_block ch n d' = live_block ch n d"
  by (simp add: live_block_view)

lemma blk_view_ix: "ix_part d' = ix_part d \<Longrightarrow> blk_view d' = blk_view d"
  by (simp add: ix_part_def blk_view_def)

lemma capture_ix:
  assumes "capture_ok dep" "dep = Some q"
  shows "ix_part (snd (captureAndCredit q now c d)) = ix_part d"
  using capture_frame.captureAndCredit_view [OF capture_frame_ix] assms by (simp add: capture_ok_def)

lemma reorg_ix:
  assumes "capture_ok dep"
  shows "ix_part (snd (HandleReorgTx dep now n d)) = ix_part d"
proof (cases dep)
  case (Some q)
  then show ?thesis
    using capture_frame.HandleReorgTx_view [OF capture_frame_ix] assms by (simp add: capture_ok_def)
qed (simp add: HandleReorgTx_def)

lemma blk_tail:
  assumes "capture_ok dep"
  shows "capture_client (\<lambda>d d'. blk_view d' = blk_view d) ch dep"
proof unfold_locales
  show "db_rel (\<lambda>d d'. blk_view d' = blk_view d) (ConfirmBlocksUpToTx ch n)" for n
    by (auto simp: db_rel_def ConfirmBlocksUpToTx_def blk_view_def blk_core_def intro!: map_upd_where)
  show "db_rel (\<lambda>d d'. blk_view d' = blk_view d) (captureAndCredit q now c)" if "dep = Some q" for q now c
    unfolding db_rel_def by (intro allI blk_view_ix) (rule capture_ix [OF assms that])
qed (simp_all add: db_rel_def blk_view_def UpsertCheckpointTx_def DeletePendingHeaderTx_def UpsertTransactionTx_def
    UpsertEventLogTx_def IxInsertOutboxTx_def)

interpretation bt: capture_client "\<lambda>d d'. blk_view d' = blk_view d" ch "Some (notified sv now p)" for sv now p ch
  by (rule blk_tail [OF capture_ok_notified])

subsection \<open>Writing a block\<close>

definition hash_free :: "u64 \<Rightarrow> u64 \<Rightarrow> string \<Rightarrow> db \<Rightarrow> bool" where
  "hash_free ch n h d \<longleftrightarrow> (\<forall>r\<in>set (sblocks d). sb_chain r = ch \<longrightarrow> sql_eq (sb_hash r) h \<longrightarrow> sb_number r = n)"

lemma UpsertBlockTx_live:
  assumes "UpsertBlockTx b d = (Inr u, d')" "hash_free (sb_chain b) (sb_number b) (sb_hash b) d" "sb_status b \<noteq> BlockOrphaned"
  shows "live_block (sb_chain b) (sb_number b) d' = Some (sb_hash b, sb_parent b)"
    "m \<noteq> sb_number b \<Longrightarrow> live_block (sb_chain b) m d' = live_block (sb_chain b) m d"
proof -
  let ?num = "sb_match (sb_chain b) (sb_number b)"
  have new: "d' = d\<lparr>sblocks := upsert_where ?num (block_update b) b (sblocks d)\<rparr>"
  proof (cases "List.find ?num (sblocks d) = None")
    case True
    then have "\<forall>r\<in>set (sblocks d). \<not> (sb_chain r = sb_chain b \<and> sql_eq (sb_hash r) (sb_hash b))"
      using assms(2) by (auto simp: find_None_iff hash_free_def sb_match_def)
    then have "List.find (\<lambda>r. sb_chain r = sb_chain b \<and> sql_eq (sb_hash r) (sb_hash b)) (sblocks d) = None"
      by (simp add: find_None_iff)
    then show ?thesis using assms(1) True by (auto simp: UpsertBlockTx_def Let_def upsert_where_None)
  next
    case False
    then show ?thesis using assms(1) by (auto simp: UpsertBlockTx_def Let_def split: if_splits)
  qed
  have "List.find (\<lambda>r. ?num r \<and> sb_status r \<noteq> BlockOrphaned) (upsert_where ?num (block_update b) b t) =
      Some (case List.find ?num t of None \<Rightarrow> b | Some r \<Rightarrow> block_update b r)" for t
    using assms(3) by (induction t) (auto simp: sb_match_def block_update_def)
  then show "live_block (sb_chain b) (sb_number b) d' = Some (sb_hash b, sb_parent b)"
    by (simp add: new live_block_def GetBlockByNumber_def block_update_def split: option.split)
  show "live_block (sb_chain b) m d' = live_block (sb_chain b) m d" if "m \<noteq> sb_number b"
  proof -
    have "List.find (\<lambda>r. sb_match (sb_chain b) m r \<and> sb_status r \<noteq> BlockOrphaned) (upsert_where ?num (block_update b) b t) =
        List.find (\<lambda>r. sb_match (sb_chain b) m r \<and> sb_status r \<noteq> BlockOrphaned) t" for t
      using that by (induction t) (auto simp: sb_match_def block_update_def)
    then show ?thesis by (simp add: new live_block_def GetBlockByNumber_def)
  qed
qed

subsection \<open>Repairing a reorganisation\<close>

text \<open>Orphaning changes no number and no hash.\<close>

definition hash_view :: "db \<Rightarrow> (u64 \<times> u64 \<times> string) list" where
  "hash_view d = map (\<lambda>r. (sb_chain r, sb_number r, sb_hash r)) (sblocks d)"

lemma hash_free_view: "hash_free ch n h d \<longleftrightarrow> (\<forall>(c, m, h')\<in>set (hash_view d). c = ch \<longrightarrow> sql_eq h' h \<longrightarrow> m = n)"
  by (auto simp: hash_free_def hash_view_def)

lemma orphaned_views:
  "live_block ch n (snd (MarkOrphanedFromTx ch n d)) = None"
  "hash_view (snd (MarkOrphanedFromTx ch m d)) = hash_view d"
proof -
  have "List.find (\<lambda>b. sb_match ch n b \<and> sb_status b \<noteq> BlockOrphaned)
      (upd_where (\<lambda>b. sb_chain b = ch \<and> n \<le> sb_number b \<and> sb_status b \<noteq> BlockOrphaned) (\<lambda>b. b\<lparr>sb_status := BlockOrphaned\<rparr>) t) = None" for t
    by (induction t) (auto simp: sb_match_def)
  then show "live_block ch n (snd (MarkOrphanedFromTx ch n d)) = None"
    by (simp add: live_block_def GetBlockByNumber_def MarkOrphanedFromTx_def)
qed (simp add: hash_view_def MarkOrphanedFromTx_def map_upd_where)

lemma rollback_chain_views:
  assumes "rollback_chain e now n h d = (Inr u, d')" "capture_ok (ie_deposit e)"
  shows "live_block (ie_store e) n d' = None" "hash_view d' = hash_view d"
proof -
  let ?d1 = "snd (MarkOrphanedFromTx (ie_store e) n d)"
  let ?d2 = "snd (RollbackCheckpointTx (ie_store e) now n h ?d1)"
  have d1: "MarkOrphanedFromTx (ie_store e) n d = (Inr (), ?d1)" by (simp add: MarkOrphanedFromTx_def)
  have d2: "RollbackCheckpointTx (ie_store e) now n h ?d1 = (Inr (), ?d2)" by (simp add: RollbackCheckpointTx_def)
  have "sblocks ?d2 = sblocks ?d1" by (simp add: RollbackCheckpointTx_def)
  moreover have "sblocks d' = sblocks ?d2"
    using run_tx_InrD [OF assms(1) [unfolded rollback_chain_def]] d1 d2 reorg_ix [OF assms(2), of now n ?d2]
    by (simp add: ix_part_def split: if_splits)
  ultimately have "sblocks d' = sblocks ?d1" by simp
  then show "live_block (ie_store e) n d' = None" "hash_view d' = hash_view d"
    using orphaned_views(1) [of "ie_store e" n d] orphaned_views(2) [of "ie_store e" n d]
    by (simp_all add: live_block_view blk_view_def hash_view_def)
qed

lemma detect_linked:
  assumes "detectAndHandleReorg e now blk s = (Inr u, s')" "capture_ok (ie_deposit e)"
  shows "hash_view (ixs_db s') = hash_view (ixs_db s)"
    "blk_number blk \<noteq> 0 \<Longrightarrow> live_block (ie_store e) (blk_number blk - 1) (ixs_db s') = Some (h, p) \<Longrightarrow>
       equal_fold h (HashHex (bk_geth (ie_backend e)) (blk_parent blk))"
proof -
  let ?n = "blk_number blk" and ?par = "HashHex (bk_geth (ie_backend e)) (blk_parent blk)" and ?d = "ixs_db s"
  consider (same) "ixs_db s' = ?d" "?n = 0 \<or> live_block (ie_store e) (?n - 1) ?d = None \<or>
        (\<exists>h p. live_block (ie_store e) (?n - 1) ?d = Some (h, p) \<and> equal_fold h ?par)"
    | (reorg) d1 where "rollback_chain e now (?n - 1) ?par ?d = (Inr (), d1)" "sblocks (ixs_db s') = sblocks d1"
  proof (cases "?n = 0")
    case True
    then show thesis using assms(1) same by (simp add: detectAndHandleReorg_def)
  next
    case False
    show thesis
    proof (cases "GetBlockByNumber (ie_store e) (?n - 1) ?d")
      case (Inl err)
      then show thesis using assms(1) False same
        by (simp add: detectAndHandleReorg_def Let_def live_block_def split: if_splits)
    next
      case (Inr prev)
      obtain r d1 where rc: "rollback_chain e now (?n - 1) ?par ?d = (r, d1)" by fastforce
      show thesis
      proof (cases "equal_fold (sb_hash prev) ?par")
        case True
        then show thesis using assms(1) False Inr same
          by (simp add: detectAndHandleReorg_def Let_def live_block_def)
      next
        case neq: False
        then show thesis using assms(1) False Inr rc reorg
          by (cases r) (auto simp: detectAndHandleReorg_def Let_def bindT_apply send_job_def EnqueuePendingHeader_def
              split: if_splits)
      qed
    qed
  qed
  then show "hash_view (ixs_db s') = hash_view ?d"
    "?n \<noteq> 0 \<Longrightarrow> live_block (ie_store e) (?n - 1) (ixs_db s') = Some (h, p) \<Longrightarrow> equal_fold h ?par"
    using rollback_chain_views [OF _ assms(2)]
    by (cases, auto simp: hash_view_def live_block_view blk_view_def)+
qed

subsection \<open>Syncing a block\<close>

lemma run_txI_InrD: "run_txI m s = (Inr x, s') \<Longrightarrow> m s = (Inr x, s')"
  by (auto simp: run_txI_def split: prod.splits sum.splits)

lemma refreshes_db: "ixs_db (snd (forT ps refresh_async s)) = ixs_db s"
  by (rule forT_snd [where P = "\<lambda>x. ixs_db x = ixs_db s"]) (simp_all add: refresh_async_def)

lemma sync_lockedE:
  assumes "sync_locked e now n s = (Inr u, s')" "rpcBlockByNumber (bk_node (ie_backend e)) n = Inr (Some blk)"
  obtains s1 s2 ps where "detectAndHandleReorg e now blk s = (Inr (), s1)" "sync_block_tx e now n blk s1 = (Inr ps, s2)"
    "ixs_db s' = ixs_db s2"
proof -
  obtain v s1 where 1: "detectAndHandleReorg e now blk s = (Inr v, s1)"
    and k: "bindT (run_txI (sync_block_tx e now n blk)) (\<lambda>ps. if ie_balsync e then forT ps refresh_async else retT ()) s1 = (Inr u, s')"
    using assms by (auto simp: sync_locked_def elim!: bindT_InrE)
  from k obtain ps s2 where 2: "run_txI (sync_block_tx e now n blk) s1 = (Inr ps, s2)"
    and 3: "(if ie_balsync e then forT ps refresh_async else retT ()) s2 = (Inr u, s')" by (auto elim!: bindT_InrE)
  have "ixs_db s' = ixs_db s2" using 3 refreshes_db [of ps s2] by (auto split: if_splits)
  with 1 run_txI_InrD [OF 2] show thesis by (auto intro: that)
qed

lemma sync_locked_linked:
  assumes "sync_locked e now n s = (Inr u, s')" "capture_ok (ie_deposit e)"
    "rpcBlockByNumber (bk_node (ie_backend e)) n = Inr (Some blk)" "blk_number blk = n"
    "hash_free (ie_store e) n (HashHex (bk_geth (ie_backend e)) (blk_hash blk)) (ixs_db s)"
  shows "live_block (ie_store e) n (ixs_db s') =
      Some (HashHex (bk_geth (ie_backend e)) (blk_hash blk), HashHex (bk_geth (ie_backend e)) (blk_parent blk))"
    "n \<noteq> 0 \<Longrightarrow> live_block (ie_store e) (n - 1) (ixs_db s') = Some (h, p) \<Longrightarrow>
      equal_fold h (HashHex (bk_geth (ie_backend e)) (blk_parent blk))"
proof -
  let ?b = "new_block_row e now n blk"
  obtain s1 s2 ps where s1: "detectAndHandleReorg e now blk s = (Inr (), s1)"
    and s2: "sync_block_tx e now n blk s1 = (Inr ps, s2)" and s': "ixs_db s' = ixs_db s2"
    using sync_lockedE [OF assms(1,3)] .
  obtain v d1 where d1: "UpsertBlockTx ?b (ixs_db s1) = (Inr v, d1)" and tl: "sync_tail e now n blk (s1\<lparr>ixs_db := d1\<rparr>) = (Inr ps, s2)"
    using s2 unfolding sync_block_tx_eq by (auto elim!: bindT_InrE) (metis prod.collapse)
  have "ix_rel (\<lambda>d d'. blk_view d' = blk_view d) (sync_tail e now n blk)"
    using capture_client.sync_tail_rel [OF blk_tail [OF assms(2)] refl refl] .
  then have "blk_view (ixs_db s2) = blk_view d1" using tl by (auto simp: ix_rel_def dest: spec [of _ "s1\<lparr>ixs_db := d1\<rparr>"])
  note v = live_block_cong [OF this]
  have b: "sb_chain ?b = ie_store e" "sb_number ?b = n" "sb_hash ?b = HashHex (bk_geth (ie_backend e)) (blk_hash blk)"
    "sb_parent ?b = HashHex (bk_geth (ie_backend e)) (blk_parent blk)" "sb_status ?b \<noteq> BlockOrphaned"
    by (simp_all add: new_block_row_def Let_def)
  have "hash_free (ie_store e) n (sb_hash ?b) (ixs_db s1)"
    using assms(5) detect_linked(1) [OF s1 assms(2)] by (simp add: hash_free_view b)
  note live = UpsertBlockTx_live [OF d1 _ b(5), unfolded b, OF this [unfolded b]]
  show "live_block (ie_store e) n (ixs_db s') =
      Some (HashHex (bk_geth (ie_backend e)) (blk_hash blk), HashHex (bk_geth (ie_backend e)) (blk_parent blk))"
    using live(1) by (simp add: s' v)
  show "equal_fold h (HashHex (bk_geth (ie_backend e)) (blk_parent blk))"
    if "n \<noteq> 0" "live_block (ie_store e) (n - 1) (ixs_db s') = Some (h, p)"
    using detect_linked(2) [OF s1 assms(2)] live(2) [of "n - 1"] that assms(4) by (simp add: s' v)
qed

subsection \<open>The lock\<close>

lemma syncBlock_free:
  assumes "cache_live (ixs_cache s) now (lockKey (ie_store e) n) = None"
  shows "syncBlock e now n s =
    (case sync_locked e now n (s\<lparr>ixs_cache := snd (CacheSetNX now (lockKey (ie_store e) n) ''1'' 30000 (ixs_cache s))\<rparr>) of
      (r, s2) \<Rightarrow> (r, s2\<lparr>ixs_cache := CacheDel [lockKey (ie_store e) n] (ixs_cache s2)\<rparr>))"
  using mem.claim_free [OF assms, of "''1''" 30000] by (auto simp: syncBlock_def Let_def split: prod.splits)

lemma syncBlock_taken:
  assumes "\<not> fst (CacheSetNX now (lockKey (ie_store e) n) ''1'' 30000 (ixs_cache s))"
  shows "syncBlock e now n s = (Inr (), s\<lparr>ixs_cache := snd (CacheSetNX now (lockKey (ie_store e) n) ''1'' 30000 (ixs_cache s))\<rparr>)"
  using assms by (auto simp: syncBlock_def Let_def split: prod.splits)

lemma syncBlock_releases:
  assumes "fst (CacheSetNX now (lockKey (ie_store e) n) ''1'' 30000 (ixs_cache s))"
  shows "cache_live (ixs_cache (snd (syncBlock e now n s))) t (lockKey (ie_store e) n) = None"
  using assms by (auto simp: syncBlock_def Let_def mem.live_del split: prod.splits)

subsection \<open>Blocks that are not deep enough\<close>

definition dep_view :: "db \<Rightarrow> account_balance list \<times> ledger_entry_row list \<times> deposit list" where
  "dep_view d = (accounts d, entries d, deposits d)"

interpretation dv: tail_client "\<lambda>d d'. dep_view d' = dep_view d" ch for ch
  by unfold_locales
    (simp_all add: db_rel_def dep_view_def ConfirmBlocksUpToTx_def UpsertCheckpointTx_def DeletePendingHeaderTx_def
      UpsertTransactionTx_def UpsertEventLogTx_def IxInsertOutboxTx_def)

definition linked :: "engine \<Rightarrow> block \<Rightarrow> db \<Rightarrow> bool" where
  "linked e blk d \<longleftrightarrow> (\<forall>b. GetBlockByNumber (ie_store e) (blk_number blk - 1) d = Inr b \<longrightarrow>
     equal_fold (sb_hash b) (HashHex (bk_geth (ie_backend e)) (blk_parent blk)))"

lemma GetBlockByNumber_Inl: "GetBlockByNumber ch n d = Inl err \<Longrightarrow> err = ErrNoRows"
  by (auto simp: GetBlockByNumber_def split: option.splits)

lemma detect_noop: "linked e blk (ixs_db s) \<Longrightarrow> detectAndHandleReorg e now blk s = (Inr (), s)"
  by (auto simp: detectAndHandleReorg_def Let_def linked_def split: sum.split dest: GetBlockByNumber_Inl)

lemma shallow_not_confirmed:
  assumes "rpcBlockNumber (bk_node (ie_backend e)) = Inr head" "n < head" "head - n < confirm_depth e" "n \<noteq> 0"
  shows "confirmed_up_to e n \<noteq> n"
  using assms by (simp add: confirmed_up_to_def head_or_zero_def Let_def)

lemma shallow_sync_locked:
  assumes "confirmed_up_to e n \<noteq> n" "rpcBlockByNumber (bk_node (ie_backend e)) n = Inr (Some blk)" "linked e blk (ixs_db s)"
  shows "dep_view (ixs_db (snd (sync_locked e now n s))) = dep_view (ixs_db s)"
proof -
  have tail: "ix_rel (\<lambda>d d'. dep_view d' = dep_view d) (sync_block_tx e now n blk)"
    unfolding sync_block_tx_eq using assms(1)
    by (intro dv.ix_rel_bind dv.tail_rel ix_rel_dbI) (auto simp: db_rel_def UpsertBlockTx_def Let_def dep_view_def)
  obtain r s1 where r: "sync_block_tx e now n blk s = (r, s1)" by fastforce
  have "dep_view (ixs_db s1) = dep_view (ixs_db s)" using ix_relD [OF tail, of s] r by simp
  with r show ?thesis
    by (cases r) (auto simp: sync_locked_def assms(2) bindT_apply detect_noop [OF assms(3)] run_txI_def refreshes_db,
      simp_all add: dep_view_def rollback_def)
qed

end
