(* ===== verification/Indexer_Scan.thy ===== *)
theory Indexer_Scan
  imports Indexer_Sync
begin

text \<open>
  The gap scan and the loops over block numbers: which numbers a \<open>for n := start; n <= end; n++\<close> over
  \<open>uint64\<close> visits and when it ends, that a scan below its limit enqueues every missing or
  changed block of its range, and that the scan's own comparison of hashes is that of
  \<open>strings.EqualFold\<close>.
\<close>

subsection \<open>Loops over block numbers\<close>

text \<open>The loop of \<open>runBackfill\<close> and \<open>runGapScan\<close> without its body: the numbers it visits.
  The increment wraps around; \<open>None\<close> is a loop that does not end.\<close>

partial_function (option) count_up :: "u64 \<Rightarrow> u64 \<Rightarrow> (u64 list) option" where
  "count_up n m = (if n \<le> m then Option.bind (count_up (n + 1) m) (\<lambda>ns. Some (n # ns)) else Some [])"

lemma u64_range_empty: "b < a \<Longrightarrow> u64_range a b = []"
  by (simp add: u64_range_def word_less_nat_alt)

lemma u64_range_step:
  assumes "a \<le> b" "b \<noteq> - 1"
  shows "u64_range a b = a # u64_range (a + 1) b" "unat (a + 1) = Suc (unat a)"
proof -
  have "a \<noteq> - 1" using assms word_order.extremum_unique by blast
  then show s: "unat (a + 1) = Suc (unat a)" by (metis Suc_eq_plus1_left add.commute unatSuc add_eq_0_iff2)
  have "[unat a..<Suc (unat b)] = unat a # [Suc (unat a)..<Suc (unat b)]"
    using assms(1) by (simp add: upt_rec word_le_nat_alt)
  then show "u64_range a b = a # u64_range (a + 1) b" by (simp add: u64_range_def s)
qed

lemma count_up_eq: "b \<noteq> - 1 \<Longrightarrow> count_up a b = Some (u64_range a b)"
proof (induction "Suc (unat b) - unat a" arbitrary: a rule: less_induct)
  case less
  show ?case
  proof (cases "a \<le> b")
    case True
    note s = u64_range_step [OF True less.prems]
    have "Suc (unat b) - unat (a + 1) < Suc (unat b) - unat a" using True s(2) by (simp add: word_le_nat_alt)
    from less.hyps [OF this less.prems] show ?thesis using True s(1) by (subst count_up.simps) simp
  next
    case False
    then show ?thesis by (subst count_up.simps) (simp add: u64_range_empty)
  qed
qed

text \<open>Up to the largest number the loop would never end: every list it could return starts
  with more elements than it has.\<close>

lemma count_up_long: "count_up a (- 1) = Some xs \<Longrightarrow> n \<le> length xs"
proof (induction n arbitrary: a xs)
  case (Suc n)
  have "count_up a (- 1) = Option.bind (count_up (a + 1) (- 1)) (\<lambda>ns. Some (a # ns))"
    by (subst count_up.simps) simp
  then have "Option.bind (count_up (a + 1) (- 1)) (\<lambda>ns. Some (a # ns)) = Some xs" using Suc.prems by simp
  then obtain ys where "count_up (a + 1) (- 1) = Some ys" "xs = a # ys" by (auto simp: bind_eq_Some_conv)
  then show ?case using Suc.IH by auto
qed simp

lemma count_up_max: "count_up a (- 1) = None"
  using count_up_long [of a _ "Suc (length xs)" for xs] by (metis Suc_n_not_le_n not_Some_eq)

lemma set_u64_range: "set (u64_range a b) = {a..b}"
proof -
  have "n \<in> set (u64_range a b)" if "a \<le> n" "n \<le> b" for n
  proof -
    have "unat n \<in> {unat a..<Suc (unat b)}" using that by (simp add: word_le_nat_alt)
    then have "(of_nat (unat n) :: u64) \<in> of_nat ` {unat a..<Suc (unat b)}" by (rule imageI)
    then show ?thesis unfolding u64_range_def by (simp del: atLeastLessThanSuc upt_Suc)
  qed
  moreover have "a \<le> n \<and> n \<le> b" if "n \<in> set (u64_range a b)" for n
  proof -
    from that obtain k where k: "n = of_nat k" "unat a \<le> k" "k \<le> unat b" by (auto simp: u64_range_def)
    have "unat b < 2 ^ LENGTH(64)" by (rule unsigned_less)
    then have "k < 2 ^ 64" using k(3) by simp
    then have "unat n = k" using k(1) by (simp add: unsigned_of_nat take_bit_eq_mod)
    then show ?thesis using k by (simp add: word_le_nat_alt)
  qed
  ultimately show ?thesis unfolding set_eq_iff atLeastAtMost_iff by blast
qed

text \<open>A subtraction that wraps around is larger than any batch.\<close>

lemma wrap_sub:
  fixes head lst b :: u64
  assumes "head \<le> lst" "unat lst + unat b + 1 < 2 ^ 64"
  shows "b < head - lst - 1"
proof -
  let ?x = "uint head - uint lst - 1"
  have "int (unat lst + unat b + 1) < int (2 ^ 64)" using assms(2) by (simp only: of_nat_less_iff)
  then have "uint lst + uint b + 1 < 2 ^ 64" by simp
  moreover have "uint head \<le> uint lst" "0 \<le> uint head" "0 \<le> uint b" using assms(1) by (simp_all add: word_le_def)
  ultimately have x: "?x < 0" "0 \<le> ?x + 2 ^ 64" "uint b < ?x + 2 ^ 64" by linarith+
  have "uint (head - lst - 1) = ?x mod 2 ^ 64" by (simp add: uint_word_ariths mod_simps)
  also have "\<dots> = (?x + 2 ^ 64) mod 2 ^ 64" by (rule mod_add_self2 [symmetric])
  also have "\<dots> = ?x + 2 ^ 64" using x(1,2) by (intro mod_pos_pos_trivial) simp_all
  finally show ?thesis using x(3) by (simp add: word_less_def)
qed

subsection \<open>Comparing hashes\<close>

definition is_hex :: "char \<Rightarrow> bool" where
  "is_hex c \<longleftrightarrow> (let n = of_char c :: nat in 48 \<le> n \<and> n \<le> 57 \<or> 65 \<le> n \<and> n \<le> 70 \<or> 97 \<le> n \<and> n \<le> 102)"

lemma fold_hex_lower: "is_hex c \<Longrightarrow> fold_hex c = lower_char c"
  by (auto simp: is_hex_def fold_hex_def lower_char_def Let_def)

lemma stringsEqualFold_hex:
  assumes "list_all is_hex a" "list_all is_hex b"
  shows "stringsEqualFold a b \<longleftrightarrow> equal_fold a b"
proof -
  have "map lower_char s = map fold_hex s" if "list_all is_hex s" for s
    using that by (auto simp: list_all_iff fold_hex_lower)
  then show ?thesis using assms
    by (auto simp: stringsEqualFold_def equal_fold_def to_lower_def list_eq_iff_nth_eq list_all2_conv_all_nth)
qed

lemma trim0x_hex: "trim0x (''0x'' @ s) = s"
  by (simp add: trim0x_def)

lemma equalHash_hex:
  assumes "list_all is_hex a" "list_all is_hex b"
  shows "equalHash (''0x'' @ a) (''0x'' @ b) \<longleftrightarrow> equal_fold (''0x'' @ a) (''0x'' @ b)"
  unfolding equalHash_def trim0x_hex stringsEqualFold_hex [OF assms] by (simp add: equal_fold_def to_lower_def)

subsection \<open>What a scan finds\<close>

text \<open>The stored hash of a number differs from the one of the node's block.\<close>

definition changed :: "engine \<Rightarrow> u64 \<Rightarrow> string \<Rightarrow> bool" where
  "changed e n h \<longleftrightarrow> (\<exists>blk. rpcBlockByNumber (bk_node (ie_backend e)) n = Inr (Some blk) \<and>
     \<not> equalHash h (HashHex (bk_geth (ie_backend e)) (blk_hash blk)))"

lemma scan_gaps_step:
  "\<not> int (length gaps) < IxBatchSize (Indexer (ie_cfg e)) \<Longrightarrow> scan_gaps e synced ns gaps mism = (gaps, mism)"
  "int (length gaps) < IxBatchSize (Indexer (ie_cfg e)) \<Longrightarrow> synced n = None \<Longrightarrow>
     scan_gaps e synced (n # ns) gaps mism = scan_gaps e synced ns (gaps @ [n]) mism"
  "int (length gaps) < IxBatchSize (Indexer (ie_cfg e)) \<Longrightarrow> synced n = Some h \<Longrightarrow> \<not> changed e n h \<Longrightarrow>
     scan_gaps e synced (n # ns) gaps mism = scan_gaps e synced ns gaps mism"
  "int (length gaps) < IxBatchSize (Indexer (ie_cfg e)) \<Longrightarrow> synced n = Some h \<Longrightarrow> changed e n h \<Longrightarrow>
     scan_gaps e synced (n # ns) gaps mism =
       (if IxBatchSize (Indexer (ie_cfg e)) \<le> int (length gaps + length mism + 1) then (gaps, mism @ [n])
        else scan_gaps e synced ns gaps (mism @ [n]))"
  by (cases ns; simp) (auto simp: changed_def Let_def split: sum.split option.split)

text \<open>Nothing found is lost, and the scan stops early only at its limit.\<close>

lemma scan_gaps_finds:
  assumes "scan_gaps e synced ns gaps mism = (g, m)" "int (length g + length m) < IxBatchSize (Indexer (ie_cfg e))"
  shows "set gaps \<subseteq> set g" "set mism \<subseteq> set m"
    "\<forall>n\<in>set ns. case synced n of None \<Rightarrow> n \<in> set g | Some h \<Rightarrow> changed e n h \<longrightarrow> n \<in> set m"
  using assms
proof (atomize (full), induction ns arbitrary: gaps mism)
  case (Cons n ns)
  show ?case
  proof (cases "int (length gaps) < IxBatchSize (Indexer (ie_cfg e))")
    case False
    then show ?thesis using Cons.prems by (auto simp: scan_gaps_step(1) simp del: scan_gaps.simps(2))
  next
    case True
    consider "synced n = None" | h where "synced n = Some h" "\<not> changed e n h" | h where "synced n = Some h" "changed e n h"
      by (cases "synced n") auto
    then show ?thesis
    proof cases
      case 1
      then show ?thesis using Cons.IH [of "gaps @ [n]" mism] Cons.prems True by (auto simp: scan_gaps_step(2) simp del: scan_gaps.simps(2))
    next
      case (2 h)
      then show ?thesis using Cons.IH [of gaps mism] Cons.prems True by (auto simp: scan_gaps_step(3) simp del: scan_gaps.simps(2))
    next
      case (3 h)
      then show ?thesis using Cons.IH [of gaps "mism @ [n]"] Cons.prems True
        by (auto simp: scan_gaps_step(4) simp del: scan_gaps.simps(2) split: if_splits)
    qed
  qed
qed simp

lemma MapSynced_live:
  assumes "index_ok d" "fr \<le> n" "n \<le> to"
  shows "MapSyncedBlocksInRange ch fr to d n = map_option fst (live_block ch n d)"
proof -
  define rows where "rows = filter (\<lambda>b. sb_chain b = ch \<and> sb_status b \<noteq> BlockOrphaned \<and> fr \<le> sb_number b \<and> sb_number b \<le> to) (sblocks d)"
  define q where "q = (\<lambda>b. sb_match ch n b \<and> sb_status b \<noteq> BlockOrphaned)"
  have "inj_on sb_key (set rows)" "distinct rows"
    using assms(1) by (auto simp: rows_def index_ok_def distinct_map intro: inj_on_subset)
  then have dist: "distinct (map fst (rev (map (\<lambda>b. (sb_number b, sb_hash b)) rows)))"
    by (auto simp: distinct_map rev_map comp_def inj_on_def sb_key_def rows_def)
  have eq: "MapSyncedBlocksInRange ch fr to d = map_of (rev (map (\<lambda>b. (sb_number b, sb_hash b)) rows))"
    by (simp add: MapSyncedBlocksInRange_def rows_def)
  show ?thesis
  proof (cases "List.find q (sblocks d)")
    case None
    then have "\<forall>b\<in>set rows. sb_number b \<noteq> n" by (auto simp: find_None_iff rows_def q_def sb_match_def)
    then have "map_of (rev (map (\<lambda>b. (sb_number b, sb_hash b)) rows)) n = None" by (auto simp: map_of_eq_None_iff)
    then show ?thesis using None by (simp add: eq live_block_def GetBlockByNumber_def q_def [symmetric])
  next
    case (Some b)
    then have "b \<in> set rows" "sb_number b = n"
      using find_SomeD [OF Some] assms(2,3) by (auto simp: rows_def q_def sb_match_def)
    then have "map_of (rev (map (\<lambda>b. (sb_number b, sb_hash b)) rows)) n = Some (sb_hash b)"
      by (intro map_of_is_SomeI [OF dist]) auto
    then show ?thesis using Some by (simp add: eq live_block_def GetBlockByNumber_def q_def [symmetric])
  qed
qed

definition awaits :: "u64 \<Rightarrow> u64 \<Rightarrow> db \<Rightarrow> bool" where
  "awaits ch n d \<longleftrightarrow> (\<exists>h\<in>set (pending_headers d). ph_match ch n h)"

lemma awaits_key: "awaits ch n d \<longleftrightarrow> (ch, n) \<in> set (map ph_key (pending_headers d))"
  by (auto simp: awaits_def ph_match_def ph_key_def)

lemma EnqueuePendingHeader_awaits:
  "awaits ch m (snd (EnqueuePendingHeader ch now n h d)) \<longleftrightarrow> m = n \<or> awaits ch m d"
proof -
  have "map ph_key (upsert_where (ph_match ch n) (\<lambda>r. r\<lparr>ph_hash := h, ph_enqueued := now\<rparr>) x t) =
      (if \<exists>r\<in>set t. ph_match ch n r then map ph_key t else map ph_key t @ [ph_key x])" for x t
    by (rule map_upsert_where) (simp add: ph_key_def)
  then have "map ph_key (pending_headers (snd (EnqueuePendingHeader ch now n h d))) =
      (if awaits ch n d then map ph_key (pending_headers d) else map ph_key (pending_headers d) @ [(ch, n)])"
    by (simp add: EnqueuePendingHeader_def awaits_def ph_key_def)
  then show ?thesis using awaits_key by (auto simp: awaits_key)
qed

lemma enqueue_gap_eq:
  "\<exists>ok. fst (enqueue_gap e now n s) = Inr ok"
  "awaits (ie_store e) m (ixs_db (snd (enqueue_gap e now n s))) \<longleftrightarrow> m = n \<or> awaits (ie_store e) m (ixs_db s)"
proof -
  obtain hash where "enqueue_gap e now n = bindT (dbI (EnqueuePendingHeader (ie_store e) now n hash)) (\<lambda>_. send_job e n)"
    by (simp add: enqueue_gap_def Let_def)
  moreover have "EnqueuePendingHeader (ie_store e) now n hash d = (Inr (), snd (EnqueuePendingHeader (ie_store e) now n hash d))" for d
    by (simp add: EnqueuePendingHeader_def)
  ultimately have "enqueue_gap e now n s = send_job e n (s\<lparr>ixs_db := snd (EnqueuePendingHeader (ie_store e) now n hash (ixs_db s))\<rparr>)"
    by (simp add: bindT_apply) (metis fst_conv sum.simps(6))
  then show "\<exists>ok. fst (enqueue_gap e now n s) = Inr ok"
    "awaits (ie_store e) m (ixs_db (snd (enqueue_gap e now n s))) \<longleftrightarrow> m = n \<or> awaits (ie_store e) m (ixs_db s)"
    by (auto simp: send_job_def EnqueuePendingHeader_awaits)
qed

lemma enqueue_gaps_awaits:
  "(\<exists>c. fst (enqueue_gaps e now ns k s) = Inr c) \<and>
   (awaits (ie_store e) m (ixs_db (snd (enqueue_gaps e now ns k s))) \<longleftrightarrow> m \<in> set ns \<or> awaits (ie_store e) m (ixs_db s))"
proof (induction ns arbitrary: k s)
  case (Cons n ns)
  obtain ok s1 where s1: "enqueue_gap e now n s = (Inr ok, s1)" using enqueue_gap_eq(1) [of e now n s] by (metis prod.collapse)
  then have "awaits (ie_store e) m (ixs_db s1) \<longleftrightarrow> m = n \<or> awaits (ie_store e) m (ixs_db s)"
    using enqueue_gap_eq(2) [of e m now n s] by simp
  then show ?case using Cons.IH s1 by auto
qed simp

text \<open>A scan that stays below its limit leaves every missing and every changed block of its
  range in the write-ahead list.\<close>

lemma runGapScan_finds:
  assumes "rpcBlockNumber (bk_node (ie_backend e)) = Inr head" "index_ok (ixs_db s)"
    "start = gap_start e head (cp_last (LoadCheckpoint (ie_store e) (ixs_db s)))" "start \<le> n" "n \<le> head"
    "s' = snd (runGapScan e now s)"
    "int (gi_gaps (ixs_gap s') + gi_mismatch (ixs_gap s')) < IxBatchSize (Indexer (ie_cfg e))"
    "case live_block (ie_store e) n (ixs_db s) of None \<Rightarrow> True | Some (h, p) \<Rightarrow> changed e n h"
  shows "awaits (ie_store e) n (ixs_db s')"
proof -
  let ?synced = "MapSyncedBlocksInRange (ie_store e) start head (ixs_db s)"
  obtain g m where gm: "scan_gaps e ?synced (u64_range start head) [] [] = (g, m)" by fastforce
  obtain c s1 where s1: "enqueue_gaps e now (g @ m) 0 s = (Inr c, s1)"
    using enqueue_gaps_awaits [of e now "g @ m" 0 s] by (metis prod.collapse)
  have le: "\<not> head < start" using assms(4,5) by (meson leD order_trans)
  have s': "pending_headers (ixs_db s') = pending_headers (ixs_db s1)" "gi_gaps (ixs_gap s') = length g" "gi_mismatch (ixs_gap s') = length m"
    using gm s1 le by (simp_all add: assms(1,6) runGapScan_def Let_def InsertGapScanAudit_def bindT_apply assms(3) [symmetric])
  have fnd: "case ?synced n of None \<Rightarrow> n \<in> set g | Some h \<Rightarrow> changed e n h \<longrightarrow> n \<in> set m"
    using scan_gaps_finds(3) [OF gm] assms(4,5,7) by (auto simp: s' set_u64_range)
  have "?synced n = map_option fst (live_block (ie_store e) n (ixs_db s))"
    using assms(2,4,5) by (rule MapSynced_live)
  then have "n \<in> set (g @ m)" using fnd assms(8) by (auto split: option.splits)
  then have "awaits (ie_store e) n (ixs_db s1)" using enqueue_gaps_awaits [of e now "g @ m" 0 s n] s1 by simp
  then show ?thesis by (simp add: awaits_def s'(1))
qed

end
