(* ===== verification/Indexer_Deposits.thy ===== *)
theory Indexer_Deposits
  imports Indexer_Sync
begin

text \<open>
  The deposits of a block that is deep enough: when a worker has synced it, every transaction
  of the block that pays a deposit address stands as a credited row of the deposit table.
\<close>

subsection \<open>Credited rows stay\<close>

definition credited :: "int \<Rightarrow> string \<Rightarrow> nat \<Rightarrow> db \<Rightarrow> bool" where
  "credited ch h j d \<longleftrightarrow> (case List.find (deposit_match ch h j) (deposits d) of
     None \<Rightarrow> False | Some r \<Rightarrow> dep_status r = DepositStatusCredited)"

definition keeps_credits :: "db \<Rightarrow> db \<Rightarrow> bool" where
  "keeps_credits d d' \<longleftrightarrow> (\<forall>ch h j. credited ch h j d \<longrightarrow> credited ch h j d')"

lemma keeps_credits_same: "deposits d' = deposits d \<Longrightarrow> keeps_credits d d'"
  by (simp add: keeps_credits_def credited_def)

lemma keeps_credits_trans: "keeps_credits a b \<Longrightarrow> keeps_credits b c \<Longrightarrow> keeps_credits a c"
  by (simp add: keeps_credits_def)

lemma keeps_credits_upd:
  assumes "deposits d' = upd_where p f (deposits d)" "\<And>ch h j r. deposit_match ch h j (f r) = deposit_match ch h j r"
    "\<And>r. p r \<Longrightarrow> dep_status r = DepositStatusCredited \<Longrightarrow> dep_status (f r) = DepositStatusCredited"
  shows "keeps_credits d d'"
proof -
  have "credited ch h j d'" if "credited ch h j d" for ch h j
    using that assms(3) find_upd_where [where p' = "deposit_match ch h j" and f = f and q = p and t = "deposits d"] assms(2)
    by (auto simp: credited_def assms(1) split: option.splits)
  then show ?thesis by (simp add: keeps_credits_def)
qed

lemma keeps_credits_stmts:
  "keeps_credits d (snd (InsertDepositTx ch now p d))" "keeps_credits d (snd (MarkDepositCreditedTx ch now i d))"
  "keeps_credits d (snd (resetDepositForRecreditTx ch i b d))"
proof -
  show "keeps_credits d (snd (InsertDepositTx ch now p d))"
    by (auto simp: keeps_credits_def credited_def InsertDepositTx_eq find_append split: option.splits)
  show "keeps_credits d (snd (MarkDepositCreditedTx ch now i d))"
    by (rule keeps_credits_upd, simp add: MarkDepositCreditedTx_def) (simp_all add: deposit_match_def)
  show "keeps_credits d (snd (resetDepositForRecreditTx ch i b d))"
    by (rule keeps_credits_upd, simp add: resetDepositForRecreditTx_def) (auto simp: deposit_match_def)
qed

lemma applyLedgerTx_deposits: "deposits (snd (applyLedgerTx ch now u t op d)) = deposits d"
  by (auto simp: applyLedgerTx_def Let_def bindT_apply insert_entry_def upsert_account_def split: prod.split sum.split)

lemma creditDepositTx_deposits: "deposits (snd (creditDepositTx ch now u t a i d)) = deposits d"
  unfolding creditDepositTx_def
  by (rule bindT_snd [where P = "\<lambda>x. deposits x = deposits d"]) (simp_all add: applyLedgerTx_deposits)

context deposit_capture
begin

lemma credit_once_keeps: "keeps_credits d (snd (credit_once dp now p i d))"
proof -
  have n: "keeps_credits d0 (snd (n dep x))" if "dpr_webhook dp = Some n" "keeps_credits d0 x" for n dep x d0
    using that keeps_credits_same [OF same_but_wh_frame(3) [OF webhook_frame [OF that(1)]]] keeps_credits_trans by blast
  have m: "keeps_credits d0 (snd (MarkDepositCreditedTx ch now i x))" if "keeps_credits d0 x" for d0 ch now i x
    using that keeps_credits_stmts(2) keeps_credits_trans by blast
  have c: "keeps_credits d (snd (creditDepositTx ch now u t a i d))" for ch u t a
    by (rule keeps_credits_same) (rule creditDepositTx_deposits)
  show ?thesis
    unfolding credit_once_def Let_def
    by (auto simp: c m n GetDepositByKeyTx_def keeps_credits_same simp del: MarkDepositCreditedTx_def
        intro!: bindT_snd [where P = "keeps_credits d"] split: option.splits)
qed

lemma captureAndCredit_keeps: "keeps_credits d (snd (captureAndCredit dp now p d))"
proof -
  have i: "keeps_credits d (snd (InsertDepositTx ch now p d))" for ch by (rule keeps_credits_stmts(1))
  have r: "keeps_credits d (snd (resetDepositForRecreditTx ch k b (snd (InsertDepositTx ch now p d))))" for ch k b
    using i keeps_credits_stmts(3) by (rule keeps_credits_trans)
  have "keeps_credits d (snd (credit_once dp now p k x))" if "keeps_credits d x" for k x
    using that credit_once_keeps by (rule keeps_credits_trans)
  then show ?thesis using i r by (simp add: captureAndCredit_eq split: deposit_status.split)
qed

end

lemma credits_tail:
  assumes "capture_ok dep"
  shows "capture_client keeps_credits ch dep"
proof unfold_locales
  show "keeps_credits a c" if "keeps_credits a b" "keeps_credits b c" for a b c
    using that by (rule keeps_credits_trans)
  show "db_rel keeps_credits (captureAndCredit q now c)" if "dep = Some q" for q now c
    using deposit_capture.captureAndCredit_keeps assms that unfolding db_rel_def capture_ok_def by blast
qed (simp_all add: db_rel_def keeps_credits_same ConfirmBlocksUpToTx_def UpsertCheckpointTx_def DeletePendingHeaderTx_def
    UpsertTransactionTx_def UpsertEventLogTx_def IxInsertOutboxTx_def)

subsection \<open>The ledger invariant on the way\<close>

definition ledger_rel :: "db \<Rightarrow> db \<Rightarrow> bool" where
  "ledger_rel d d' \<longleftrightarrow> (ledger_inv d \<longrightarrow> ledger_inv d')"

lemma ledger_client:
  assumes "capture_ok dep"
  shows "rest_client ledger_rel dep"
proof unfold_locales
  show "ledger_rel d d'" if "ix_rest d' = ix_rest d" for d d'
    using ledger_inv_cong [OF ix_rest_frame(1,2) [OF that]] by (simp add: ledger_rel_def)
  show "ledger_rel d (rollback d d')" for d d'
    using ledger_inv_cong [of "rollback d d'" d] by (simp add: ledger_rel_def rollback_def)
  show "ledger_rel d (snd (captureAndCredit q now c d))" if "dep = Some q" for q now c d
    using deposit_capture.captureAndCredit_inv assms that unfolding ledger_rel_def capture_ok_def by blast
qed (auto simp: ledger_rel_def HandleReorgTx_inv)

context rest_client
begin

lemma capture_rel: "ie_deposit e = dep \<Longrightarrow> db_rel R (capture_one_tx e now n tx)"
  by (rule capture_one_tx_rel)

lemma before_rel:
  "ie_store e = ch \<Longrightarrow> ie_deposit e = dep \<Longrightarrow> ix_rel R (detectAndHandleReorg e now blk)"
  "sb_chain b = ch \<Longrightarrow> db_rel R (UpsertBlockTx b)"
  "ie_store e = ch \<Longrightarrow> ix_rel R (sync_txs e now n bh i txs ps)"
  by (rule detect_rel, assumption+) (rule R_block, assumption, rule sync_txs_rel, assumption)

end

subsection \<open>The captures of a block\<close>

text \<open>A transaction that pays a deposit address: it is signed, was executed with success, moves a
  positive value, and its recipient is an enabled deposit wallet with an owner.\<close>

definition pays_deposit :: "engine \<Rightarrow> deposit_processor \<Rightarrow> signed_tx \<Rightarrow> bool" where
  "pays_deposit e dp tx \<longleftrightarrow>
     (case (Sender (bk_geth (ie_backend e)) (bk_chain (ie_backend e)) tx, TransactionReceipt (ie_backend e) (tx_hex e tx)) of
        (Inr fr, Inr rc) \<Rightarrow> rc_status rc = 1 \<and> 0 < td_value (stx_data tx) \<and>
          (case (td_to (stx_data tx), dpr_registry dp) of
             (Some a, Some reg) \<Rightarrow> addr_lower e a \<noteq> [] \<and>
               (case RegGet reg (addr_lower e a) of
                  None \<Rightarrow> False
                | Some w \<Rightarrow> cus_type w = WalletTypeDeposit \<and> cus_enabled w \<and> cus_user w \<noteq> [])
           | _ \<Rightarrow> False)
      | _ \<Rightarrow> False)"

lemma capture_one_tx_credits:
  assumes ok: "capture_ok (Some dp)" and dep: "ie_deposit e = Some dp" "Enabled (Some dp)"
    and pays: "pays_deposit e dp tx" and inv: "ledger_inv d"
    and run: "capture_one_tx e now n tx d = (Inr u, d')"
  shows "credited (dpr_store dp) (tx_hex e tx) 0 d'"
proof -
  obtain fr rc a reg w where tx: "Sender (bk_geth (ie_backend e)) (bk_chain (ie_backend e)) tx = Inr fr"
    "TransactionReceipt (ie_backend e) (tx_hex e tx) = Inr rc" "rc_status rc = 1" "0 < td_value (stx_data tx)"
    "td_to (stx_data tx) = Some a" "dpr_registry dp = Some reg" "addr_lower e a \<noteq> []"
    "RegGet reg (addr_lower e a) = Some w" "cus_type w = WalletTypeDeposit" "cus_enabled w" "cus_user w \<noteq> []"
    using pays by (auto simp: pays_deposit_def split: sum.splits option.splits)
  let ?p = "\<lparr>cd_user = cus_user w, cd_address = addr_lower e a, cd_token = [], cd_amount = int_str (td_value (stx_data tx)),
    cd_tx_hash = tx_hex e tx, cd_log_index = 0, cd_block = n\<rparr>"
  have "CaptureNativeTx (Some dp) now n (tx_hex e tx) (addr_lower e fr) (addr_lower e a) (int_str (td_value (stx_data tx))) True =
      captureAndCredit dp now ?p"
    using tx dep(2) by (simp add: CaptureNativeTx_def)
  then obtain v d1 where c: "captureAndCredit dp now ?p d = (Inr v, d1)"
    and l: "forT (rc_logs rc) (captureDepositLog e now n) d1 = (Inr u, d')"
    using run tx dep(1) by (auto simp: capture_one_tx_def Let_def elim!: bindT_InrE)
  have "accounts_ok d" using inv by (simp add: ledger_inv_def)
  then have "credited (dpr_store dp) (tx_hex e tx) 0 d1"
    using deposit_capture.captureAndCredit_credited [OF _ _ c] ok by (auto simp: capture_ok_def dep_find_def credited_def)
  moreover have "keeps_credits d1 d'"
    using db_relD [OF capture_client.logs_rel [OF credits_tail [OF ok] dep(1)], of d1] l by (metis snd_conv)
  ultimately show ?thesis by (simp add: keeps_credits_def)
qed

lemma captures_credit:
  assumes "capture_ok (Some dp)" "ie_deposit e = Some dp" "Enabled (Some dp)"
    and "pays_deposit e dp tx" "tx \<in> set txs" "ledger_inv d" "forT txs (capture_one_tx e now n) d = (Inr u, d')"
  shows "credited (dpr_store dp) (tx_hex e tx) 0 d'"
  using assms(5-7)
proof (induction txs arbitrary: d)
  case (Cons x txs)
  from Cons.prems(3) obtain v d1 where x: "capture_one_tx e now n x d = (Inr v, d1)"
    and rest: "forT txs (capture_one_tx e now n) d1 = (Inr u, d')" by (auto elim!: bindT_InrE)
  have inv: "ledger_inv d1"
    using db_relD [OF rest_client.capture_rel [OF ledger_client [OF assms(1)] assms(2)], of d now n x] x Cons.prems(2)
    by (simp add: ledger_rel_def)
  show ?case
  proof (cases "tx = x")
    case True
    have "keeps_credits d1 d'"
      using db_relD [OF capture_client.captures_rel [OF credits_tail [OF assms(1)] assms(2)], of d1 txs now n] rest by simp
    moreover have "credited (dpr_store dp) (tx_hex e tx) 0 d1"
      using capture_one_tx_credits [OF assms(1-4) Cons.prems(2)] x True by simp
    ultimately show ?thesis by (simp add: keeps_credits_def)
  next
    case False
    then show ?thesis using Cons.IH [OF _ inv rest] Cons.prems(1) by simp
  qed
qed simp

subsection \<open>Syncing a block\<close>

lemma sync_locked_credits:
  assumes ok: "capture_ok (Some dp)" and dep: "ie_deposit e = Some dp" "Enabled (Some dp)"
    and deep: "confirmed_up_to e n = n" and blk: "rpcBlockByNumber (bk_node (ie_backend e)) n = Inr (Some blk)"
    and tx: "pays_deposit e dp tx" "tx \<in> set (blk_txs blk)" and inv: "ledger_inv (ixs_db s)"
    and run: "sync_locked e now n s = (Inr u, s')"
  shows "credited (dpr_store dp) (tx_hex e tx) 0 (ixs_db s')"
proof -
  let ?hash = "HashHex (bk_geth (ie_backend e)) (blk_hash blk)"
  obtain s1 s2 ps where s1: "detectAndHandleReorg e now blk s = (Inr (), s1)"
    and s2: "sync_block_tx e now n blk s1 = (Inr ps, s2)" and s': "ixs_db s' = ixs_db s2"
    using sync_lockedE [OF run blk] .
  obtain d0 s3 d4 pt where b: "snd (UpsertBlockTx (new_block_row e now n blk) (ixs_db s1)) = d0"
    and t: "sync_txs e now n ?hash 0 (blk_txs blk) [] (s1\<lparr>ixs_db := d0\<rparr>) = (Inr pt, s3)"
    and c: "forT (blk_txs blk) (capture_one_tx e now n) (ixs_db s3) = (Inr (), d4)"
    and f: "sync_end e now n blk pt (s3\<lparr>ixs_db := d4\<rparr>) = (Inr ps, s2)"
    using s2 unfolding sync_block_tx_eq sync_tail_eq by (auto simp: deep dep elim!: bindT_InrE) (metis prod.collapse)
  note led = ledger_client [OF ok]
  have "ledger_rel (ixs_db s) (ixs_db s1)"
    using ix_relD [OF rest_client.before_rel(1) [OF led refl dep(1)], of s now blk] s1 by simp
  moreover have "ledger_rel (ixs_db s1) d0"
    using db_relD [OF rest_client.before_rel(2) [OF led], of "new_block_row e now n blk" "ie_store e" "ixs_db s1"] b
    by (simp add: new_block_row_def Let_def)
  moreover have "ledger_rel d0 (ixs_db s3)"
    using ix_relD [OF rest_client.before_rel(3) [OF led refl], of "s1\<lparr>ixs_db := d0\<rparr>" e now n ?hash 0 "blk_txs blk" "[]"] t by simp
  ultimately have "ledger_inv (ixs_db s3)" using inv by (simp add: ledger_rel_def)
  from captures_credit [OF ok dep tx this c] have "credited (dpr_store dp) (tx_hex e tx) 0 d4" .
  moreover have "keeps_credits d4 (ixs_db s2)"
    using ix_relD [OF capture_client.tail_parts_rel(2) [OF credits_tail [OF ok] refl], of "s3\<lparr>ixs_db := d4\<rparr>" e now n blk pt] f by simp
  ultimately show ?thesis by (simp add: s' keeps_credits_def)
qed

end
