(* ===== verification/Indexer_Properties.thy ===== *)
theory Indexer_Properties
  imports Indexer_Scan Indexer_Deposits Samples
begin

text \<open>
  The properties of the indexer: the chain it stores, its invariants together with those of the
  other services, the completeness of the gap scan, the depth at which deposits are taken, the
  lock of a block and the loops over block numbers.
\<close>

subsection \<open>Samples\<close>

text \<open>A node at height 7 that knows block 5, and an index whose block 4 belongs to another chain.\<close>

definition blk5 :: block where
  "blk5 = \<lparr>blk_number = 5, blk_hash = 50, blk_parent = 40, blk_time = 9, blk_gas_used = 0, blk_txs = []\<rparr>"

definition lib0 :: event_lib where
  "lib0 = \<lparr>ReadFile = (\<lambda>p. Inr []), ParseABI = Inr, EventByID = (\<lambda>a h. Inl (GoErr ''no event'')),
     UnpackIntoMap = (\<lambda>a n d. Inr []), ParseTopicsIntoMap = (\<lambda>i t. Inr [])\<rparr>"

definition ie0 :: engine where
  "ie0 = \<lparr>ie_cfg = cfg0\<lparr>Listener := (Listener cfg0)\<lparr>ChannelBuffer := 8\<rparr>\<rparr>,
     ie_backend = backend0\<lparr>bk_node := node0\<lparr>rpcBlockNumber := Inr 7,
       rpcBlockByNumber := (\<lambda>n. if n = 5 then Inr (Some blk5) else Inr None)\<rparr>\<rparr>,
     ie_store = 1, ie_lib = lib0, ie_events = Some [], ie_balsync = False, ie_deposit = Some dp0, ie_json = (\<lambda>p. [])\<rparr>"

definition row4 :: block_row where
  "row4 = \<lparr>sb_chain = 1, sb_number = 4, sb_hash = ''0xH41'', sb_parent = ''0xH30'', sb_timestamp = 8, sb_tx_count = 0,
     sb_gas_used = 0, sb_status = BlockConfirmed, sb_synced = 0\<rparr>"

definition is0 :: ix_state where
  "is0 = \<lparr>ixs_db = empty_db\<lparr>sblocks := [row4]\<rparr>, ixs_cache = newMemoryCache, ixs_jobs = [5], ixs_reorgs = 0,
     ixs_gap = \<lparr>gi_last = 0, gi_gaps = 0, gi_mismatch = 0, gi_enqueued = 0\<rparr>, ixs_refresh = []\<rparr>"

lemma capture_ok_ie0: "capture_ok (Some dp0)"
  unfolding dp0_def by (rule capture_ok_new)

lemma is0_inv: "platform_inv (ixs_db is0)" "index_ok (ixs_db is0)"
proof -
  have "books empty_db" by (simp add: books_def credits_once_def dep_count_def) (simp add: empty_db_def)
  with books_cong [of "ixs_db is0" empty_db] have "books (ixs_db is0)" by (simp add: is0_def)
  then show "platform_inv (ixs_db is0)"
    by (simp add: platform_inv_def exchange_inv_def withdraws_inv_iff wh_outbox_ok_def payments_inv_def pay_view_def is0_def
        empty_db_def)
  show "index_ok (ixs_db is0)" by (simp add: index_ok_def is0_def empty_db_def)
qed

subsection \<open>The stored chain\<close>

text \<open>C32: a worker that gets the lock and finishes without error leaves the node's block stored and
  not orphaned under its number; the block stored under the previous number, unless it is orphaned
  or missing, is its parent. The node answers with a block of the number asked for, and no other
  number is stored with this hash.\<close>

theorem synced_block_links:
  assumes "syncBlock e now n s = (Inr u, s')" "cache_live (ixs_cache s) now (lockKey (ie_store e) n) = None"
    "capture_ok (ie_deposit e)" "rpcBlockByNumber (bk_node (ie_backend e)) n = Inr (Some blk)" "blk_number blk = n"
    "hash_free (ie_store e) n (HashHex (bk_geth (ie_backend e)) (blk_hash blk)) (ixs_db s)"
  shows "live_block (ie_store e) n (ixs_db s') =
      Some (HashHex (bk_geth (ie_backend e)) (blk_hash blk), HashHex (bk_geth (ie_backend e)) (blk_parent blk)) \<and>
    (n \<noteq> 0 \<longrightarrow> (\<forall>h p. live_block (ie_store e) (n - 1) (ixs_db s') = Some (h, p) \<longrightarrow>
      equal_fold h (HashHex (bk_geth (ie_backend e)) (blk_parent blk))))"
proof -
  let ?s = "s\<lparr>ixs_cache := snd (CacheSetNX now (lockKey (ie_store e) n) ''1'' 30000 (ixs_cache s))\<rparr>"
  obtain r s2 where r: "sync_locked e now n ?s = (r, s2)" by fastforce
  with assms(1) have "sync_locked e now n ?s = (Inr u, s2)" "ixs_db s' = ixs_db s2"
    unfolding syncBlock_free [OF assms(2)] by auto
  with sync_locked_linked [OF this(1) assms(3-5)] assms(6) show ?thesis by simp
qed

theorem synced_block_links_witness:
  "live_block 1 5 (ixs_db (snd (syncBlock ie0 1000 5 is0))) = Some (''0xH50'', ''0xH40'')"
proof -
  let ?s' = "snd (syncBlock ie0 1000 5 is0)"
  have run: "fst (syncBlock ie0 1000 5 is0) = Inr ()" by code_simp
  have "cache_live (ixs_cache is0) 1000 (lockKey (ie_store ie0) 5) = None" "ie_deposit ie0 = Some dp0" "ie_store ie0 = 1"
    "blk_number blk5 = 5" "bk_geth (ie_backend ie0) = geth0"
    "rpcBlockByNumber (bk_node (ie_backend ie0)) 5 = Inr (Some blk5)"
    by (simp_all add: is0_def ie0_def newMemoryCache_def cache_live_def blk5_def backend0_def)
  moreover have "HashHex geth0 (blk_hash blk5) = ''0xH50'' \<and> HashHex geth0 (blk_parent blk5) = ''0xH40'' \<and>
    hash_free 1 5 ''0xH50'' (ixs_db is0)" by code_simp
  moreover have "syncBlock ie0 1000 5 is0 = (Inr (), ?s')" using run by (metis prod.collapse)
  ultimately show ?thesis
    using synced_block_links [of ie0 1000 5 is0 "()" ?s' blk5] capture_ok_ie0 by simp
qed

subsection \<open>Invariants of all services\<close>

text \<open>Whatever the indexer, the exchange and the webhook service do on their shared database, in any
  order, the invariants of the exchange and of the payments hold together with those of the index: unique keys, outbox
  ids below their counter, and a checkpoint whose confirmed number is at most its last.\<close>

theorem backend_sound:
  assumes "(backend_step xs sv dp e)\<^sup>*\<^sup>* x y" "platform_inv (ixs_db (fst x))" "index_ok (ixs_db (fst x))"
  shows "platform_inv (ixs_db (fst y)) \<and> index_ok (ixs_db (fst y))"
  using backend_reachable_inv [OF assms(1)] assms(2,3) by (simp add: backend_inv_def)

theorem backend_sound_witness:
  "\<exists>d. map ph_key (pending_headers d) = [(1, 5)] \<and> platform_inv d \<and> index_ok d"
proof -
  let ?sv = "\<lparr>ws_cfg = cfg0, ws_store = 1, ws_exstore = Some 1\<rparr>"
  let ?s = "snd (EnqueueHeader (ie0\<lparr>ie_deposit := Some (notified ?sv 9 dp0)\<rparr>) 1000 5 50 is0)"
  have "backend_step xs0 ?sv dp0 ie0 (is0, [], NewMetrics 0) (?s, [], NewMetrics 0)"
    by (rule backend_step.indexer [where now = 9], rule ix_step.header)
  then have "(backend_step xs0 ?sv dp0 ie0)\<^sup>*\<^sup>* (is0, [], NewMetrics 0) (?s, [], NewMetrics 0)" by simp
  from backend_sound [OF this] is0_inv have inv: "platform_inv (ixs_db ?s) \<and> index_ok (ixs_db ?s)" by simp
  have "map ph_key (pending_headers (ixs_db ?s)) = [(1, 5)]"
    by (simp add: EnqueueHeader_def bindT_apply EnqueuePendingHeader_def send_job_def is0_def empty_db_def ie0_def ph_key_def)
  then show ?thesis by (intro exI [of _ "ixs_db ?s"] conjI inv [THEN conjunct1] inv [THEN conjunct2])
qed

subsection \<open>The gap scan\<close>

text \<open>C34: a gap scan that finds fewer blocks than its batch size leaves in the write-ahead list every number of
  its range, from the later of the window and the checkpoint to the head, that has no stored block or one
  whose hash differs from that of the node's block.\<close>

theorem gap_scan_complete:
  assumes "rpcBlockNumber (bk_node (ie_backend e)) = Inr head" "index_ok (ixs_db s)"
    "gap_start e head (cp_last (LoadCheckpoint (ie_store e) (ixs_db s))) \<le> n" "n \<le> head"
    "int (gi_gaps (ixs_gap (snd (runGapScan e now s))) + gi_mismatch (ixs_gap (snd (runGapScan e now s))))
      < IxBatchSize (Indexer (ie_cfg e))"
    "case live_block (ie_store e) n (ixs_db s) of None \<Rightarrow> True | Some (h, p) \<Rightarrow> changed e n h"
  shows "awaits (ie_store e) n (ixs_db (snd (runGapScan e now s)))"
  by (rule runGapScan_finds [OF assms(1,2) refl assms(3,4) refl assms(5,6)])

theorem gap_scan_complete_witness:
  "awaits 1 6 (ixs_db (snd (runGapScan ie0 1000 is0))) \<and> gi_gaps (ixs_gap (snd (runGapScan ie0 1000 is0))) = 7"
proof -
  have c: "gap_start ie0 7 (cp_last (LoadCheckpoint (ie_store ie0) (ixs_db is0))) = 0"
    "live_block (ie_store ie0) 6 (ixs_db is0) = None"
    by (simp_all add: gap_start_def Let_def ie0_def cfg0_def LoadCheckpoint_def is0_def empty_db_def live_block_def
        GetBlockByNumber_def row4_def sb_match_def)
  let ?gap = "ixs_gap (snd (runGapScan ie0 1000 is0))"
  have "(gi_gaps ?gap, gi_mismatch ?gap) = (7, 0)" by code_simp
  then have g: "gi_gaps ?gap = 7" "gi_mismatch ?gap = 0" by simp_all
  have "awaits (ie_store ie0) 6 (ixs_db (snd (runGapScan ie0 1000 is0)))"
    by (rule gap_scan_complete [where head = 7]) (simp_all add: c g is0_inv, simp_all add: ie0_def cfg0_def)
  then show ?thesis using g by (simp add: ie0_def)
qed

subsection \<open>The depth of deposits\<close>

text \<open>C35: deposits of a block are taken when it is at least the confirm depth below the head, but also
  when it is the head itself or above it, when the node does not tell its head, and for block 0. When a worker that holds the
  lock of such a block, with deposits enabled, syncs it without error from a state whose books balance, every
  transaction of the block that pays a deposit address stands as a credited deposit under its hash. A block that is
  not deep enough changes no account, no journal entry and no deposit, provided its parent is the stored block before it, if there
  is one: otherwise the repair of the stored chain reverses deposits.\<close>

theorem deposit_depth:
  assumes "rpcBlockByNumber (bk_node (ie_backend e)) n = Inr (Some blk)"
  shows "(confirmed_up_to e n = n \<longleftrightarrow> n = 0 \<or> head_or_zero e \<le> n \<or> confirm_depth e \<le> head_or_zero e - n) \<and>
   (confirmed_up_to e n = n \<and> ie_deposit e = Some dp \<and> Enabled (Some dp) \<and> capture_ok (Some dp) \<and>
      ledger_inv (ixs_db s) \<and> cache_live (ixs_cache s) now (lockKey (ie_store e) n) = None \<and>
      syncBlock e now n s = (Inr (), s') \<and> tx \<in> set (blk_txs blk) \<and> pays_deposit e dp tx \<longrightarrow>
    credited (dpr_store dp) (tx_hex e tx) 0 (ixs_db s')) \<and>
   (confirmed_up_to e n \<noteq> n \<and> linked e blk (ixs_db s) \<longrightarrow>
     accounts (ixs_db (snd (syncBlock e now n s))) = accounts (ixs_db s) \<and>
     entries (ixs_db (snd (syncBlock e now n s))) = entries (ixs_db s) \<and>
     deposits (ixs_db (snd (syncBlock e now n s))) = deposits (ixs_db s))"
proof -
  have deep: "credited (dpr_store dp) (tx_hex e tx) 0 (ixs_db s')"
    if d: "confirmed_up_to e n = n" "ie_deposit e = Some dp" "Enabled (Some dp)" "capture_ok (Some dp)"
      and s: "ledger_inv (ixs_db s)" "cache_live (ixs_cache s) now (lockKey (ie_store e) n) = None"
      and run: "syncBlock e now n s = (Inr (), s')" and tx: "tx \<in> set (blk_txs blk)" "pays_deposit e dp tx"
  proof -
    let ?s = "s\<lparr>ixs_cache := snd (CacheSetNX now (lockKey (ie_store e) n) ''1'' 30000 (ixs_cache s))\<rparr>"
    obtain s2 where "sync_locked e now n ?s = (Inr (), s2)" "ixs_db s' = ixs_db s2"
      using run unfolding syncBlock_free [OF s(2)] by (auto split: prod.splits)
    with sync_locked_credits [OF d(4,2,3,1) assms tx(2,1), of ?s now "()" s2] s(1) show ?thesis by simp
  qed
  have "dep_view (ixs_db (snd (syncBlock e now n s))) = dep_view (ixs_db s)"
    if "confirmed_up_to e n \<noteq> n" "linked e blk (ixs_db s)"
    using shallow_sync_locked [OF that(1) assms, of "s\<lparr>ixs_cache := c\<rparr>" now for c] that(2)
    by (auto simp: syncBlock_def Let_def split: prod.split) (metis snd_conv)
  with deep show ?thesis by (auto simp: confirmed_up_to_def Let_def dep_view_def not_le)
qed

text \<open>A block with a transaction to a deposit address.\<close>

definition dp1 :: deposit_processor where
  "dp1 = NewDepositProcessor cfg0 1 (Some (RegUpsert \<lparr>cus_chain = 1, cus_address = ''0xa1'', cus_user = ''u'', cus_label = [],
     cus_type = WalletTypeDeposit, cus_enabled = True, cus_created = 0, cus_updated = 0\<rparr> NewRegistry))"

definition pay_tx :: signed_tx where
  "pay_tx = tx0\<lparr>stx_data := (stx_data tx0)\<lparr>td_to := Some 2, td_value := 40\<rparr>\<rparr>"

definition ie1 :: engine where
  "ie1 = ie0\<lparr>ie_backend := (ie_backend ie0)\<lparr>bk_node := (bk_node (ie_backend ie0))
     \<lparr>rpcBlockByNumber := (\<lambda>n. Inr (Some (blk5\<lparr>blk_txs := [pay_tx]\<rparr>))),
      rpcTransactionReceipt := (\<lambda>h. Inr \<lparr>rc_status = 1, rc_gas_used = 21000, rc_block = 5, rc_contract = 0, rc_logs = []\<rparr>)\<rparr>\<rparr>,
     ie_deposit := Some dp1\<rparr>"

theorem deposit_depth_witness:
  "credited 1 ''0xH7'' 0 (ixs_db (snd (syncBlock ie1 1000 5 is0))) \<and>
   deposits (ixs_db (snd (syncBlock (ie0\<lparr>ie_cfg := cfg0\<lparr>Indexer := (Indexer cfg0)\<lparr>IxConfirmDepth := 3\<rparr>\<rparr>, ie_deposit := None\<rparr>)
     1000 5 (is0\<lparr>ixs_db := db1\<rparr>)))) = deposits db1"
proof -
  let ?e = "ie0\<lparr>ie_cfg := cfg0\<lparr>Indexer := (Indexer cfg0)\<lparr>IxConfirmDepth := 3\<rparr>\<rparr>, ie_deposit := None\<rparr>"
  have v: "head_or_zero ?e = 7" "confirm_depth ?e = 3"
    by (simp_all add: head_or_zero_def confirm_depth_def ie0_def backend0_def cfg0_def)
  have "linked ?e blk5 (ixs_db (is0\<lparr>ixs_db := db1\<rparr>))" by (simp add: linked_def GetBlockByNumber_def db1_eval empty_db_def)
  moreover have b: "rpcBlockByNumber (bk_node (ie_backend ?e)) 5 = Inr (Some blk5)" by (simp add: ie0_def backend0_def)
  ultimately have shallow: "deposits (ixs_db (snd (syncBlock ?e 1000 5 (is0\<lparr>ixs_db := db1\<rparr>)))) = deposits db1"
    using v deposit_depth [OF b, of dp1 "is0\<lparr>ixs_db := db1\<rparr>" 1000] by simp
  have b1: "rpcBlockByNumber (bk_node (ie_backend ie1)) 5 = Inr (Some (blk5\<lparr>blk_txs := [pay_tx]\<rparr>))" by (simp add: ie1_def)
  have run: "confirmed_up_to ie1 5 = 5 \<and> Enabled (Some dp1) \<and> pays_deposit ie1 dp1 pay_tx \<and> tx_hex ie1 pay_tx = ''0xH7'' \<and>
      cache_live (ixs_cache is0) 1000 (lockKey 1 5) = None \<and> fst (syncBlock ie1 1000 5 is0) = Inr ()" by code_simp
  have d: "ie_deposit ie1 = Some dp1" "ie_store ie1 = 1" "dpr_store dp1 = 1"
    by (simp_all add: ie1_def ie0_def dp1_def NewDepositProcessor_def)
  have c: "capture_ok (Some dp1)" unfolding dp1_def by (rule capture_ok_new)
  have "ledger_inv (ixs_db is0)" using is0_inv(1) by (simp add: platform_inv_def exchange_inv_def books_def)
  moreover obtain s' where "syncBlock ie1 1000 5 is0 = (Inr (), s')" using run by (metis prod.collapse)
  ultimately have "credited 1 ''0xH7'' 0 (ixs_db (snd (syncBlock ie1 1000 5 is0)))"
    using deposit_depth [OF b1, of dp1 is0 1000 s' pay_tx] run d c by simp
  then show ?thesis using shallow by blast
qed

subsection \<open>The lock of a block\<close>

text \<open>C36: while one worker holds the lock of a block number, every other worker that takes the same number
  returns without touching database, queue or refreshes, for the 30 seconds of the lock; the locks of other numbers are
  independent of it; and a worker that got the lock has released it when it returns, whatever the
  outcome.\<close>

theorem block_lock_excludes:
  assumes "fst (CacheSetNX now (lockKey (ie_store e) n) v 30000 c)"
    "ixs_cache s = snd (CacheSetNX now (lockKey (ie_store e) n) v 30000 c)" "now \<le> t" "t < now + 30000"
  shows "fst (syncBlock e t n s) = Inr () \<and> ixs_db (snd (syncBlock e t n s)) = ixs_db s \<and>
    ixs_jobs (snd (syncBlock e t n s)) = ixs_jobs s \<and> ixs_refresh (snd (syncBlock e t n s)) = ixs_refresh s \<and>
    (\<forall>m. m \<noteq> n \<longrightarrow> cache_live (ixs_cache s) t (lockKey (ie_store e) m) = cache_live c t (lockKey (ie_store e) m)) \<and>
    (\<forall>s1 t1 t2. fst (CacheSetNX t1 (lockKey (ie_store e) n) ''1'' 30000 (ixs_cache s1)) \<longrightarrow>
      cache_live (ixs_cache (snd (syncBlock e t1 n s1))) t2 (lockKey (ie_store e) n) = None)"
proof -
  have "\<not> fst (CacheSetNX t (lockKey (ie_store e) n) ''1'' 30000 (ixs_cache s))"
    unfolding assms(2) by (rule mem.claim_exclusive [OF assms(1,3,4)])
  note taken = syncBlock_taken [OF this]
  have key: "lockKey (ie_store e) m \<noteq> lockKey (ie_store e) n" if "m \<noteq> n" for m
    using that by (auto simp: lockKey_def word_unat_eq_iff dest: nat_str_inj)
  show ?thesis
    using mem.claim_other [OF assms(3) key] syncBlock_releases by (simp add: taken assms(2))
qed

theorem block_lock_excludes_witness:
  "fst (syncBlock ie0 1005 5 (is0\<lparr>ixs_cache := snd (CacheSetNX 1000 (lockKey 1 5) ''1'' 30000 newMemoryCache)\<rparr>)) = Inr () \<and>
   ixs_db (snd (syncBlock ie0 1005 5 (is0\<lparr>ixs_cache := snd (CacheSetNX 1000 (lockKey 1 5) ''1'' 30000 newMemoryCache)\<rparr>))) = ixs_db is0"
proof -
  have "fst (CacheSetNX 1000 (lockKey (ie_store ie0) 5) ''1'' 30000 newMemoryCache)" "ie_store ie0 = 1"
    by (simp_all add: CacheSetNX_def Let_def purgeLocked_def newMemoryCache_def ie0_def)
  then show ?thesis
    using block_lock_excludes [of 1000 ie0 5 "''1''" newMemoryCache
      "is0\<lparr>ixs_cache := snd (CacheSetNX 1000 (lockKey 1 5) ''1'' 30000 newMemoryCache)\<rparr>" 1005] by simp
qed

subsection \<open>Loops over block numbers\<close>

text \<open>A loop over \<open>uint64\<close> numbers ends and visits exactly the numbers of its range, unless the range
  ends at the largest number, where it never ends. The range of a back-fill starts after the checkpoint and
  ends at the head, or after a batch; when the checkpoint has reached the head, the subtraction wraps around and a batch of
  numbers beyond the head is queued.\<close>

theorem block_loops:
  assumes "0 < lst" "unat lst + unat b + 1 < 2 ^ 64" "b = word_of_int (IxBatchSize (Indexer (ie_cfg e)))"
  shows "(\<forall>x y. y \<noteq> - 1 \<longrightarrow> count_up x y = Some (u64_range x y)) \<and> (\<forall>x. count_up x (- 1) = None) \<and>
    (lst < head \<and> head - lst - 1 \<le> b \<longrightarrow> set (backfill_range e lst head) = {lst + 1..head}) \<and>
    (lst < head \<and> b < head - lst - 1 \<longrightarrow> set (backfill_range e lst head) = {lst + 1..lst + b}) \<and>
    (head \<le> lst \<longrightarrow> set (backfill_range e lst head) = {lst + 1..lst + b})"
proof -
  have eq: "set (backfill_range e lst head) = {lst + 1..(if b < head - lst - 1 then lst + b else head)}"
    using assms(1,3) by (simp add: backfill_range_def Let_def set_u64_range diff_diff_add)
  have small: "set (backfill_range e lst head) = {lst + 1..head}" if "head - lst - 1 \<le> b"
    unfolding eq if_not_P [OF leD [OF that]] ..
  have big: "set (backfill_range e lst head) = {lst + 1..lst + b}" if "b < head - lst - 1"
    unfolding eq if_P [OF that] ..
  show ?thesis
  proof (intro conjI allI impI)
    show "count_up x y = Some (u64_range x y)" if "y \<noteq> - 1" for x y using that by (rule count_up_eq)
    show "count_up x (- 1) = None" for x by (rule count_up_max)
  qed (rule small, erule conjunct2, rule big, erule conjunct2, rule big, rule wrap_sub [OF _ assms(2)], assumption)
qed

theorem block_loops_witness:
  "count_up 3 5 = Some [3, 4, 5] \<and> set (backfill_range ie0 7 7) = {7 + 1..7 + 20}"
proof -
  have b: "(20 :: u64) = word_of_int (IxBatchSize (Indexer (ie_cfg ie0)))" "u64_range 3 5 = [3, 4, 5]" "(5 :: u64) \<noteq> - 1"
    by code_simp+
  have "(0 :: u64) < 7" "unat (7 :: u64) + unat (20 :: u64) + 1 < 2 ^ 64" by simp_all
  note loops = block_loops [OF this b(1), of 7]
  have "count_up 3 5 = Some [3, 4, 5]" using loops [THEN conjunct1, rule_format, OF b(3), of 3] unfolding b(2) .
  moreover have "set (backfill_range ie0 7 7) = {7 + 1..7 + 20}"
    by (rule loops [THEN conjunct2, THEN conjunct2, THEN conjunct2, THEN conjunct2, rule_format]) (rule order_refl)
  ultimately show ?thesis ..
qed

subsection \<open>Comparing hashes\<close>

end
