(* ===== verification/Wallet_Properties.thy ===== *)
theory Wallet_Properties
  imports Samples
begin

text \<open>
  The properties of the custodial wallets: the in-memory registry answers as the table does, and
  a registration never hands a wallet to another user.
\<close>

subsection \<open>The registry\<close>

text \<open>C39: after a reload the in-memory registry, by which the indexer and the syncer tell custodial addresses,
  answers every address as the table of wallets: the wallet if there is an enabled one, nothing otherwise.\<close>

theorem registry_refines_table:
  assumes "wallets_ok d" "a \<noteq> []" "coll a = to_lower a"
  shows "RegGet (Reload ch d r) a = (case GetWallet ch a d of Inl _ \<Rightarrow> None | Inr w \<Rightarrow> if cus_enabled w then Some w else None)"
  using assms by (rule RegGet_Reload)

definition hot_db :: db where
  "hot_db = empty_db\<lparr>wallets := [\<lparr>cwr_chain = 1, cwr_address = ''0xa1'', cwr_user = Some ''u'', cwr_label = None,
     cwr_type = ''hot'', cwr_enabled = True, cwr_created = 0, cwr_updated = 0\<rparr>]\<rparr>"

lemma hot_db_ok: "wallets_ok hot_db"
  by code_simp

theorem registry_refines_table_witness:
  "map_option cus_user (RegGet (Reload 1 hot_db NewRegistry) ''0xA1'') = Some ''u''"
proof -
  have v: "coll ''0xA1'' = to_lower ''0xA1''"
    "map_option cus_user (case GetWallet 1 ''0xA1'' hot_db of Inl _ \<Rightarrow> None | Inr w \<Rightarrow> if cus_enabled w then Some w else None) = Some ''u''"
    by code_simp+
  show ?thesis using registry_refines_table [OF hot_db_ok _ v(1), of 1 NewRegistry] v(2) by simp
qed

subsection \<open>Registration\<close>




end
