(* ===== verification/Pipeline.thy ===== *)
theory Pipeline
  imports Indexer_Scan
begin

text \<open>
  \<open>internal/pipeline/bus.go\<close> and the reconnecting loops of \<open>internal/eth/listener.go\<close>: headers and
  logs from the node's subscriptions go to the indexer first and then to two bounded channels, whose workers
  only count and keep the last lines. Cancelling the context closes the channels, after which a send
  panics. A subscription is the sequence of its events.
\<close>

subsection \<open>The bus\<close>

record header =
  hd_number :: u64
  hd_hash :: hash

record bus_config =
  lc_workers :: int
  lc_buffer :: int

record bus =
  bus_cfg :: bus_config
  bus_indexer :: "engine option"
  bus_headers :: "header list"
  bus_transfers :: "log list"
  bus_headers_seen :: u64
  bus_transfers_seen :: u64
  bus_lasts :: "string list"
  bus_closed :: bool

definition NewBus :: "bus_config \<Rightarrow> engine option \<Rightarrow> bus" where
  "NewBus lc idx =
     \<lparr>bus_cfg = \<lparr>lc_workers = (if lc_workers lc \<le> 0 then 2 else lc_workers lc), lc_buffer = (if lc_buffer lc \<le> 0 then 16 else lc_buffer lc)\<rparr>,
      bus_indexer = idx, bus_headers = [], bus_transfers = [], bus_headers_seen = 0, bus_transfers_seen = 0, bus_lasts = [],
      bus_closed = False\<rparr>"

text \<open>The goroutine of \<open>Start\<close> that waits for the end of the context. A closed channel is still drained.\<close>

definition bus_close :: "bus \<Rightarrow> bus" where
  "bus_close b = b\<lparr>bus_closed := True\<rparr>"

definition appendLast :: "string \<Rightarrow> bus \<Rightarrow> bus" where
  "appendLast line b =
     (let lasts = (if 20 \<le> length (bus_lasts b) then tl (bus_lasts b) else bus_lasts b) in b\<lparr>bus_lasts := lasts @ [line]\<rparr>)"

text \<open>One round of a worker: it takes the oldest element of its channel.\<close>

definition bus_worker :: "geth \<Rightarrow> nat \<Rightarrow> bus \<Rightarrow> bus" where
  "bus_worker g i b = (case bus_headers b of
     [] \<Rightarrow> b
   | h # hs \<Rightarrow> appendLast (''[worker-'' @ nat_str i @ ''] header #'' @ nat_str (unat (hd_number h)) @ '' hash='' @ HashHex g (hd_hash h))
       (b\<lparr>bus_headers := hs, bus_headers_seen := bus_headers_seen b + 1\<rparr>))"

definition transferWorker :: "geth \<Rightarrow> bus \<Rightarrow> bus" where
  "transferWorker g b = (case bus_transfers b of
     [] \<Rightarrow> b
   | l # ls \<Rightarrow> appendLast (''ERC20 Transfer tx='' @ HashHex g (lg_tx_hash l) @ '' block='' @ nat_str (unat (lg_block l)))
       (b\<lparr>bus_transfers := ls, bus_transfers_seen := bus_transfers_seen b + 1\<rparr>))"

text \<open>The producers, on the bus and the state of its indexer; a channel that is full drops the element,
  a channel that is closed panics.\<close>

type_synonym 'a bustx = "bus \<times> ix_state \<Rightarrow> 'a res \<times> bus \<times> ix_state"

definition SubmitHeader :: "time \<Rightarrow> header \<Rightarrow> unit bustx" where
  "SubmitHeader now h = (\<lambda>(b, s).
     let s' = (case bus_indexer b of None \<Rightarrow> s | Some e \<Rightarrow> snd (EnqueueHeader e now (hd_number h) (hd_hash h) s)) in
     if bus_closed b then (Inl (GoPanic ''send on closed channel''), b, s')
     else if int (length (bus_headers b)) < lc_buffer (bus_cfg b) then (Inr (), b\<lparr>bus_headers := bus_headers b @ [h]\<rparr>, s')
     else (Inr (), b, s'))"

definition SubmitTransferLog :: "time \<Rightarrow> log \<Rightarrow> unit bustx" where
  "SubmitTransferLog now l = (\<lambda>(b, s).
     let s' = (case bus_indexer b of None \<Rightarrow> s | Some e \<Rightarrow> snd (EnqueueTransferLog e now l s)) in
     if bus_closed b then (Inl (GoPanic ''send on closed channel''), b, s')
     else if int (length (bus_transfers b)) < lc_buffer (bus_cfg b) then (Inr (), b\<lparr>bus_transfers := bus_transfers b @ [l]\<rparr>, s')
     else (Inr (), b, s'))"

definition BusStats :: "bus \<Rightarrow> u64 \<times> u64 \<times> string list" where
  "BusStats b = (bus_headers_seen b, bus_transfers_seen b, bus_lasts b)"

subsection \<open>The listener\<close>

text \<open>A duration in milliseconds.\<close>

definition nextBackoff :: "int \<Rightarrow> int" where
  "nextBackoff cur = (let n = cur * 2 in if n > 30000 then 30000 else n)"

text \<open>Where a loop stands: before an attempt to subscribe, inside the \<open>select\<close> of a subscription, returned.
  What it sees: the attempt fails or succeeds, the subscription breaks, a header (\<open>None\<close> is nil) or a
  log arrives, or the context is done. When several are ready, Go's \<open>select\<close> takes any of them, so the
  events are an input.\<close>

datatype loop_phase = Connecting | Receiving | Returned

datatype 'a sub_event = SubFailed | Subscribed | SubBroken | Delivered 'a | CtxDone

record loop_state =
  lp_phase :: loop_phase
  lp_backoff :: int

definition reconnect_base :: "config \<Rightarrow> int" where
  "reconnect_base cfg = ReconnectBaseMS (Listener cfg)"

definition new_loop :: "config \<Rightarrow> loop_state" where
  "new_loop cfg = \<lparr>lp_phase = Connecting, lp_backoff = reconnect_base cfg\<rparr>"

text \<open>The control of both loops.\<close>

definition sub_control :: "config \<Rightarrow> 'a sub_event \<Rightarrow> loop_state \<Rightarrow> loop_state" where
  "sub_control cfg ev l =
     (case (lp_phase l, ev) of
        (Connecting, CtxDone) \<Rightarrow> l\<lparr>lp_phase := Returned\<rparr>
      | (Connecting, SubFailed) \<Rightarrow> l\<lparr>lp_backoff := nextBackoff (lp_backoff l)\<rparr>
      | (Connecting, Subscribed) \<Rightarrow> \<lparr>lp_phase = Receiving, lp_backoff = reconnect_base cfg\<rparr>
      | (Receiving, CtxDone) \<Rightarrow> l\<lparr>lp_phase := Returned\<rparr>
      | (Receiving, SubBroken) \<Rightarrow> l\<lparr>lp_phase := Connecting\<rparr>
      | _ \<Rightarrow> l)"

definition loopNewHeads :: "config \<Rightarrow> time \<Rightarrow> (header option) sub_event \<Rightarrow> loop_state \<Rightarrow> loop_state bustx" where
  "loopNewHeads cfg now ev l =
     (case (lp_phase l, ev) of
        (Receiving, Delivered (Some h)) \<Rightarrow> bindT (SubmitHeader now h) (\<lambda>_. retT l)
      | _ \<Rightarrow> retT (sub_control cfg ev l))"

definition loopERC20Transfers :: "config \<Rightarrow> time \<Rightarrow> log sub_event \<Rightarrow> loop_state \<Rightarrow> loop_state bustx" where
  "loopERC20Transfers cfg now ev l =
     (case (lp_phase l, ev) of
        (Receiving, Delivered lg) \<Rightarrow> bindT (SubmitTransferLog now lg) (\<lambda>_. retT l)
      | _ \<Rightarrow> retT (sub_control cfg ev l))"

subsection \<open>Runs of the pipeline\<close>

text \<open>A loop whose round panics ends the program; the loops start when the node has a web socket, the second one
  only for a configured contract.\<close>

record pipe =
  pp_bus :: bus
  pp_ix :: ix_state
  pp_heads :: loop_state
  pp_logs :: loop_state
  pp_crash :: bool

definition listener_Run :: "config \<Rightarrow> bool \<Rightarrow> bus \<Rightarrow> ix_state \<Rightarrow> pipe" where
  "listener_Run cfg ws b s =
     (let off = (new_loop cfg)\<lparr>lp_phase := Returned\<rparr> in
      \<lparr>pp_bus = b, pp_ix = s, pp_heads = (if ws then new_loop cfg else off),
       pp_logs = (if ws \<and> ERC20Contract (Eth cfg) \<noteq> [] then new_loop cfg else off), pp_crash = False\<rparr>)"

definition run_heads :: "config \<Rightarrow> time \<Rightarrow> (header option) sub_event \<Rightarrow> pipe \<Rightarrow> pipe" where
  "run_heads cfg now ev p = (case loopNewHeads cfg now ev (pp_heads p) (pp_bus p, pp_ix p) of
     (r, b, s) \<Rightarrow> let p' = p\<lparr>pp_bus := b, pp_ix := s\<rparr> in
       (case r of Inl _ \<Rightarrow> p'\<lparr>pp_crash := True\<rparr> | Inr l \<Rightarrow> p'\<lparr>pp_heads := l\<rparr>))"

definition run_logs :: "config \<Rightarrow> time \<Rightarrow> log sub_event \<Rightarrow> pipe \<Rightarrow> pipe" where
  "run_logs cfg now ev p = (case loopERC20Transfers cfg now ev (pp_logs p) (pp_bus p, pp_ix p) of
     (r, b, s) \<Rightarrow> let p' = p\<lparr>pp_bus := b, pp_ix := s\<rparr> in
       (case r of Inl _ \<Rightarrow> p'\<lparr>pp_crash := True\<rparr> | Inr l \<Rightarrow> p'\<lparr>pp_logs := l\<rparr>))"

inductive pipe_step :: "config \<Rightarrow> pipe \<Rightarrow> pipe \<Rightarrow> bool" for cfg where
  heads: "\<not> pp_crash p \<Longrightarrow> pipe_step cfg p (run_heads cfg now ev p)"
| logs: "\<not> pp_crash p \<Longrightarrow> pipe_step cfg p (run_logs cfg now ev' p)"
| count: "\<not> pp_crash p \<Longrightarrow> pipe_step cfg p (p\<lparr>pp_bus := bus_worker g i (pp_bus p)\<rparr>)"
| countlog: "\<not> pp_crash p \<Longrightarrow> pipe_step cfg p (p\<lparr>pp_bus := transferWorker g (pp_bus p)\<rparr>)"
| cancel: "\<not> pp_crash p \<Longrightarrow> pipe_step cfg p (p\<lparr>pp_bus := bus_close (pp_bus p)\<rparr>)"

inductive_cases pipe_stepE: "pipe_step cfg p p'"

subsection \<open>Bounds\<close>

text \<open>Channels stay within their buffer, at most twenty lines are kept, and a crash needs a closed bus.\<close>

definition bus_ok :: "bus \<Rightarrow> bool" where
  "bus_ok b \<longleftrightarrow> 0 < lc_buffer (bus_cfg b) \<and> int (length (bus_headers b)) \<le> lc_buffer (bus_cfg b) \<and>
     int (length (bus_transfers b)) \<le> lc_buffer (bus_cfg b) \<and> length (bus_lasts b) \<le> 20"

lemma bus_ok_new: "bus_ok (NewBus lc idx)"
  by (simp add: bus_ok_def NewBus_def)

lemma appendLast_ok: "bus_ok b \<Longrightarrow> bus_ok (appendLast line b)"
  by (auto simp: bus_ok_def appendLast_def Let_def)

lemma bus_workers_ok: "bus_ok b \<Longrightarrow> bus_ok (bus_worker g i b)" "bus_ok b \<Longrightarrow> bus_ok (transferWorker g b)"
  unfolding bus_worker_def transferWorker_def
  by (cases "bus_headers b"; cases "bus_transfers b"; simp; rule appendLast_ok; simp add: bus_ok_def)+

lemma Submit_ok:
  "bus_ok (fst st) \<Longrightarrow> bus_ok (fst (snd (SubmitHeader now h st)))"
  "bus_ok (fst st) \<Longrightarrow> bus_ok (fst (snd (SubmitTransferLog now l st)))"
  by (auto simp: SubmitHeader_def SubmitTransferLog_def bus_ok_def Let_def split: prod.split)

lemma Submit_closed:
  "fst (SubmitHeader now h st) = Inl err \<longleftrightarrow> bus_closed (fst st) \<and> err = GoPanic ''send on closed channel''"
  "fst (SubmitTransferLog now l st) = Inl err \<longleftrightarrow> bus_closed (fst st) \<and> err = GoPanic ''send on closed channel''"
  by (auto simp: SubmitHeader_def SubmitTransferLog_def Let_def split: prod.split)

subsection \<open>One round of a loop\<close>

text \<open>A round hands one element to the bus or only moves the control.\<close>

lemma bindT_const:
  "snd (bindT m (\<lambda>_. retT l) st) = snd (m st)"
  "fst (bindT m (\<lambda>_. retT l) st) = Inl err \<longleftrightarrow> fst (m st) = Inl err"
  by (auto simp: bindT_def retT_def split: prod.split sum.split)

lemma run_heads_submits:
  assumes "lp_phase (pp_heads p) = Receiving"
  shows "run_heads cfg now (Delivered (Some h)) p =
    (case SubmitHeader now h (pp_bus p, pp_ix p) of (r, b, s) \<Rightarrow>
       p\<lparr>pp_bus := b, pp_ix := s, pp_crash := pp_crash p \<or> bus_closed (pp_bus p)\<rparr>)"
  using assms by (auto simp: run_heads_def loopNewHeads_def SubmitHeader_def bindT_def retT_def Let_def split: option.split)

lemma run_logs_submits:
  assumes "lp_phase (pp_logs p) = Receiving"
  shows "run_logs cfg now (Delivered lg) p =
    (case SubmitTransferLog now lg (pp_bus p, pp_ix p) of (r, b, s) \<Rightarrow>
       p\<lparr>pp_bus := b, pp_ix := s, pp_crash := pp_crash p \<or> bus_closed (pp_bus p)\<rparr>)"
  using assms by (auto simp: run_logs_def loopERC20Transfers_def SubmitTransferLog_def bindT_def retT_def Let_def split: option.split)

lemma run_heads_cases:
  obtains "run_heads cfg now ev p = p\<lparr>pp_heads := sub_control cfg ev (pp_heads p)\<rparr>"
  | h where "ev = Delivered (Some h)" "lp_phase (pp_heads p) = Receiving"
proof -
  have "run_heads cfg now ev p = p\<lparr>pp_heads := sub_control cfg ev (pp_heads p)\<rparr> \<or>
      (\<exists>h. ev = Delivered (Some h) \<and> lp_phase (pp_heads p) = Receiving)"
    by (auto simp: run_heads_def loopNewHeads_def Let_def split: loop_phase.splits sub_event.splits option.splits)
  then show ?thesis using that by blast
qed

lemma run_logs_cases:
  obtains "run_logs cfg now ev p = p\<lparr>pp_logs := sub_control cfg ev (pp_logs p)\<rparr>"
  | lg where "ev = Delivered lg" "lp_phase (pp_logs p) = Receiving"
proof -
  have "run_logs cfg now ev p = p\<lparr>pp_logs := sub_control cfg ev (pp_logs p)\<rparr> \<or>
      (\<exists>lg. ev = Delivered lg \<and> lp_phase (pp_logs p) = Receiving)"
    by (auto simp: run_logs_def loopERC20Transfers_def Let_def split: loop_phase.splits sub_event.splits)
  then show ?thesis using that by blast
qed

subsection \<open>The invariant\<close>

text \<open>The buffers keep their bounds, only a closed bus crashes the program, and once the base of the
  backoff is at most thirty seconds no wait is longer.\<close>

definition pipe_ok :: "config \<Rightarrow> pipe \<Rightarrow> bool" where
  "pipe_ok cfg p \<longleftrightarrow> bus_ok (pp_bus p) \<and> (pp_crash p \<longrightarrow> bus_closed (pp_bus p)) \<and>
     (reconnect_base cfg \<le> 30000 \<longrightarrow> lp_backoff (pp_heads p) \<le> 30000 \<and> lp_backoff (pp_logs p) \<le> 30000)"

lemma sub_control_backoff:
  "reconnect_base cfg \<le> 30000 \<Longrightarrow> lp_backoff l \<le> 30000 \<Longrightarrow> lp_backoff (sub_control cfg ev l) \<le> 30000"
  by (auto simp: sub_control_def nextBackoff_def Let_def split: loop_phase.split sub_event.split)

lemma Submit_bus:
  "SubmitHeader now h st = (r, b, s) \<Longrightarrow> bus_ok (fst st) \<Longrightarrow> bus_ok b \<and> bus_closed b = bus_closed (fst st)"
  "SubmitTransferLog now l st = (r, b, s) \<Longrightarrow> bus_ok (fst st) \<Longrightarrow> bus_ok b \<and> bus_closed b = bus_closed (fst st)"
  by (auto simp: SubmitHeader_def SubmitTransferLog_def bus_ok_def Let_def split: prod.splits if_splits)

lemma run_heads_ok: "pipe_ok cfg p \<Longrightarrow> pipe_ok cfg (run_heads cfg now ev p)"
  by (cases rule: run_heads_cases [of cfg now ev p])
    (auto simp: pipe_ok_def sub_control_backoff run_heads_submits dest: Submit_bus split: prod.split)

lemma run_logs_ok: "pipe_ok cfg p \<Longrightarrow> pipe_ok cfg (run_logs cfg now ev p)"
  by (cases rule: run_logs_cases [of cfg now ev p])
    (auto simp: pipe_ok_def sub_control_backoff run_logs_submits dest: Submit_bus split: prod.split)

lemma workers_closed: "bus_closed (bus_worker g i b) = bus_closed b" "bus_closed (transferWorker g b) = bus_closed b"
  by (simp_all add: bus_worker_def transferWorker_def appendLast_def Let_def split: list.split)

lemma bus_close_ok: "bus_ok (bus_close b) = bus_ok b" "bus_closed (bus_close b)"
  by (simp_all add: bus_close_def bus_ok_def)

lemma pipe_step_ok: "pipe_step cfg p p' \<Longrightarrow> pipe_ok cfg p \<Longrightarrow> pipe_ok cfg p'"
  by (induction rule: pipe_step.induct)
    (auto simp: run_heads_ok run_logs_ok, auto simp: pipe_ok_def bus_workers_ok workers_closed bus_close_ok)

lemma listener_Run_ok: "bus_ok b \<Longrightarrow> pipe_ok cfg (listener_Run cfg ws b s)"
  by (simp add: pipe_ok_def listener_Run_def new_loop_def Let_def)

lemma pipe_reachable_ok: "(pipe_step cfg)\<^sup>*\<^sup>* (listener_Run cfg ws (NewBus lc idx) s) p \<Longrightarrow> pipe_ok cfg p"
  by (induction rule: rtranclp_induct) (simp_all add: listener_Run_ok bus_ok_new pipe_step_ok)

subsection \<open>No header is lost\<close>

text \<open>A header delivered by the subscription is in the indexer's write-ahead list, even when the
  channel or the indexer's queue is full or the channel is closed.\<close>

lemma EnqueueHeader_awaits: "awaits (ie_store e) n (ixs_db (snd (EnqueueHeader e now n h s)))"
proof -
  let ?d = "snd (EnqueuePendingHeader (ie_store e) now n (HashHex (bk_geth (ie_backend e)) h) (ixs_db s))"
  have "ixs_db (snd (EnqueueHeader e now n h s)) = ?d"
    by (simp add: EnqueueHeader_def bindT_apply EnqueuePendingHeader_def send_job_def)
  then show ?thesis by (simp add: EnqueuePendingHeader_awaits)
qed

lemma header_awaits:
  assumes "lp_phase (pp_heads p) = Receiving" "bus_indexer (pp_bus p) = Some e"
  shows "awaits (ie_store e) (hd_number h) (ixs_db (pp_ix (run_heads cfg now (Delivered (Some h)) p)))"
  using assms by (simp add: run_heads_submits SubmitHeader_def Let_def EnqueueHeader_awaits)

text \<open>Every step of the pipeline is a step of the indexer or does not touch its state.\<close>

lemma Submit_ix:
  "SubmitHeader now h (b, s) = (r, b', s') \<Longrightarrow> s' = s \<or> (\<exists>e. bus_indexer b = Some e \<and> ix_step e s s')"
  "SubmitTransferLog now l (b, s) = (r, b', s') \<Longrightarrow> s' = s \<or> (\<exists>e. bus_indexer b = Some e \<and> ix_step e s s')"
  by (auto simp: SubmitHeader_def SubmitTransferLog_def Let_def intro: ix_step.header ix_step.wslog split: option.splits if_splits)

lemma pipe_step_ix:
  assumes "pipe_step cfg p p'"
  shows "pp_ix p' = pp_ix p \<or> (\<exists>e. bus_indexer (pp_bus p) = Some e \<and> ix_step e (pp_ix p) (pp_ix p'))"
  using assms
proof (induction rule: pipe_step.induct)
  case (heads p now ev)
  show ?case
    by (cases rule: run_heads_cases [of cfg now ev p]) (auto simp: run_heads_submits dest: Submit_ix split: prod.split)
next
  case (logs p now ev)
  show ?case
    by (cases rule: run_logs_cases [of cfg now ev p]) (auto simp: run_logs_submits dest: Submit_ix split: prod.split)
qed auto

text \<open>No step changes the indexer the bus was made with, so a run of the pipeline is a run of its indexer.\<close>

lemma Submit_indexer:
  "SubmitHeader now h st = (r, b, s) \<Longrightarrow> bus_indexer b = bus_indexer (fst st)"
  "SubmitTransferLog now l st = (r, b, s) \<Longrightarrow> bus_indexer b = bus_indexer (fst st)"
  by (auto simp: SubmitHeader_def SubmitTransferLog_def Let_def split: prod.splits if_splits)

lemma pipe_step_indexer:
  assumes "pipe_step cfg p p'"
  shows "bus_indexer (pp_bus p') = bus_indexer (pp_bus p)"
  using assms
proof (induction rule: pipe_step.induct)
  case (heads p now ev)
  show ?case
    by (cases rule: run_heads_cases [of cfg now ev p]) (auto simp: run_heads_submits dest: Submit_indexer split: prod.split)
next
  case (logs p now ev)
  show ?case
    by (cases rule: run_logs_cases [of cfg now ev p]) (auto simp: run_logs_submits dest: Submit_indexer split: prod.split)
qed (auto simp: bus_worker_def transferWorker_def bus_close_def appendLast_def Let_def split: list.split)

lemma pipe_reachable_ix:
  assumes "(pipe_step cfg)\<^sup>*\<^sup>* (listener_Run cfg ws (NewBus lc idx) s) p"
  shows "bus_indexer (pp_bus p) = idx \<and> (case idx of None \<Rightarrow> pp_ix p = s | Some e \<Rightarrow> (ix_step e)\<^sup>*\<^sup>* s (pp_ix p))"
  using assms
proof (induction rule: rtranclp_induct)
  case base
  show ?case by (simp add: listener_Run_def NewBus_def Let_def split: option.split)
next
  case (step p p')
  then show ?case using pipe_step_ix [OF step.hyps(2)] pipe_step_indexer [OF step.hyps(2)]
    by (auto split: option.splits intro: rtranclp.rtrancl_into_rtrancl)
qed

end
