(* ===== verification/Eth_Scan.thy ===== *)
theory Eth_Scan
  imports Eth
begin

text \<open>
  \<open>internal/eth/account_tx.go\<close>: the scan of a range of blocks for the transactions of an account. The
  loop over the block numbers is a loop over \<open>uint64\<close> that need not end; a run that does not
  return is \<open>None\<close>.
\<close>

definition MaxAccountTxBlockSpan :: u64 where
  "MaxAccountTxBlockSpan = 2000"

definition MaxAccountTxResults :: int where
  "MaxAccountTxResults = 500"

record account_tx_ref =
  ar_tx_hash :: hash
  ar_block :: u64
  ar_block_hash :: hash
  ar_index :: nat
  ar_from :: address
  ar_to :: "address option"
  ar_value :: int

definition BlockNumber :: "backend \<Rightarrow> u64 res" where
  "BlockNumber b = rpcBlockNumber (bk_node b)"

definition NonceAt :: "backend \<Rightarrow> address \<Rightarrow> u64 res" where
  "NonceAt b addr = rpcNonceAt (bk_node b) addr"

definition tx_touches :: "backend \<Rightarrow> address \<Rightarrow> signed_tx \<Rightarrow> address \<Rightarrow> bool" where
  "tx_touches b addr tx fr \<longleftrightarrow> fr = addr \<or> td_to (stx_data tx) = Some addr \<or>
     (td_to (stx_data tx) = None \<and>
      (case TransactionReceipt b (HashHex (bk_geth b) (TxHash (bk_geth b) tx)) of
         Inl _ \<Rightarrow> False | Inr rc \<Rightarrow> rc_contract rc \<noteq> 0 \<and> rc_contract rc = addr))"

definition account_ref :: "backend \<Rightarrow> u64 \<Rightarrow> block \<Rightarrow> nat \<Rightarrow> signed_tx \<Rightarrow> address \<Rightarrow> account_tx_ref" where
  "account_ref b n blk i tx fr =
     \<lparr>ar_tx_hash = TxHash (bk_geth b) tx, ar_block = n, ar_block_hash = blk_hash blk, ar_index = i, ar_from = fr,
      ar_to = td_to (stx_data tx), ar_value = td_value (stx_data tx)\<rparr>"

text \<open>The loop over the transactions of one block, with the references found so far; the flag says
  that the limit is reached.\<close>

fun scan_txs :: "backend \<Rightarrow> address \<Rightarrow> int \<Rightarrow> u64 \<Rightarrow> block \<Rightarrow> nat \<Rightarrow> signed_tx list \<Rightarrow> account_tx_ref list \<Rightarrow>
    bool \<times> account_tx_ref list" where
  "scan_txs b addr limit n blk i [] out = (False, out)"
| "scan_txs b addr limit n blk i (tx # txs) out =
     (case Sender (bk_geth b) (bk_chain b) tx of
        Inl _ \<Rightarrow> scan_txs b addr limit n blk (i + 1) txs out
      | Inr fr \<Rightarrow>
          if \<not> tx_touches b addr tx fr then scan_txs b addr limit n blk (i + 1) txs out
          else
            let out' = out @ [account_ref b n blk i tx fr] in
            if limit \<le> int (length out') then (True, out') else scan_txs b addr limit n blk (i + 1) txs out')"

partial_function (option) scan_blocks ::
    "backend \<Rightarrow> address \<Rightarrow> int \<Rightarrow> u64 \<Rightarrow> u64 \<Rightarrow> account_tx_ref list \<Rightarrow> ((account_tx_ref list) res) option" where
  "scan_blocks b addr limit n to out =
     (if n \<le> to then
        (case rpcBlockByNumber (bk_node b) n of
           Inl e \<Rightarrow> Some (Inl e)
         | Inr found \<Rightarrow>
             (case found of
                None \<Rightarrow> scan_blocks b addr limit (n + 1) to out
              | Some blk \<Rightarrow>
                  (case scan_txs b addr limit n blk 0 (blk_txs blk) out of
                     (full, out') \<Rightarrow> if full then Some (Inr out') else scan_blocks b addr limit (n + 1) to out')))
      else Some (Inr out))"

definition account_limit :: "int \<Rightarrow> int" where
  "account_limit limit = (if limit \<le> 0 \<or> limit > MaxAccountTxResults then MaxAccountTxResults else limit)"

definition TransactionsForAddress ::
    "backend \<Rightarrow> address \<Rightarrow> u64 \<Rightarrow> u64 \<Rightarrow> int \<Rightarrow> ((account_tx_ref list) res) option" where
  "TransactionsForAddress b addr fromBlock toBlock limit =
     (if toBlock < fromBlock then Some (Inl (GoErr ''to_block < from_block''))
      else
        let span = toBlock - fromBlock + 1 in
        if span > MaxAccountTxBlockSpan
        then Some (Inl (GoErr (''block span '' @ nat_str (unat span) @ '' exceeds max '' @ nat_str (unat MaxAccountTxBlockSpan))))
        else
          scan_blocks b addr (account_limit limit) fromBlock toBlock [])"

subsection \<open>The transactions of one block\<close>

text \<open>What a reference stands for: a transaction of the node's block under its number that
  touches the address.\<close>

definition ref_ok :: "backend \<Rightarrow> address \<Rightarrow> account_tx_ref \<Rightarrow> bool" where
  "ref_ok b addr r \<longleftrightarrow> (\<exists>blk tx. rpcBlockByNumber (bk_node b) (ar_block r) = Inr (Some blk) \<and> tx \<in> set (blk_txs blk) \<and>
     ar_tx_hash r = TxHash (bk_geth b) tx \<and> Sender (bk_geth b) (bk_chain b) tx = Inr (ar_from r) \<and>
     tx_touches b addr tx (ar_from r))"

definition refs_in :: "backend \<Rightarrow> address \<Rightarrow> int \<Rightarrow> u64 \<Rightarrow> u64 \<Rightarrow> account_tx_ref list \<Rightarrow> bool" where
  "refs_in b addr limit fr to out \<longleftrightarrow> int (length out) \<le> limit \<and> (\<forall>r\<in>set out. ref_ok b addr r \<and> fr \<le> ar_block r \<and> ar_block r \<le> to)"

lemma scan_txs_refs:
  assumes "rpcBlockByNumber (bk_node b) n = Inr (Some blk)" "fr \<le> n" "n \<le> to"
    "refs_in b addr limit fr to out" "int (length out) < limit" "set txs \<subseteq> set (blk_txs blk)"
    "scan_txs b addr limit n blk i txs out = (full, out')"
  shows "refs_in b addr limit fr to out' \<and> (\<not> full \<longrightarrow> int (length out') < limit)"
  using assms(4-7)
proof (induction txs arbitrary: i out)
  case (Cons tx txs)
  show ?case
  proof (cases "Sender (bk_geth b) (bk_chain b) tx")
    case (Inl e)
    then show ?thesis using Cons by auto
  next
    case (Inr sender)
    let ?out = "out @ [account_ref b n blk i tx sender]"
    show ?thesis
    proof (cases "tx_touches b addr tx sender")
      case True
      have "ref_ok b addr (account_ref b n blk i tx sender)"
        unfolding ref_ok_def using assms(1) True Inr Cons.prems(3)
        by (intro exI [of _ blk] exI [of _ tx]) (auto simp: account_ref_def)
      then have "refs_in b addr limit fr to ?out"
        using Cons.prems(1,2) assms(2,3) by (auto simp: refs_in_def account_ref_def)
      then show ?thesis using Cons.IH [of ?out] Cons.prems(3,4) Inr True by (auto simp: Let_def split: if_splits)
    next
      case False
      then show ?thesis using Cons Inr by auto
    qed
  qed
qed auto

text \<open>Unless the limit cuts it short, no transaction of the block that touches the address is missed.\<close>

definition found_in :: "backend \<Rightarrow> address \<Rightarrow> u64 \<Rightarrow> signed_tx \<Rightarrow> account_tx_ref list \<Rightarrow> bool" where
  "found_in b addr n tx out \<longleftrightarrow> (\<forall>fr. Sender (bk_geth b) (bk_chain b) tx = Inr fr \<longrightarrow> tx_touches b addr tx fr \<longrightarrow>
     (\<exists>r\<in>set out. ar_tx_hash r = TxHash (bk_geth b) tx \<and> ar_block r = n))"

lemma found_in_mono: "found_in b addr n tx out \<Longrightarrow> set out \<subseteq> set out' \<Longrightarrow> found_in b addr n tx out'"
  unfolding found_in_def by blast

lemma scan_txs_complete:
  "scan_txs b addr limit n blk i txs out = (full, out') \<Longrightarrow>
     set out \<subseteq> set out' \<and> (if full then limit \<le> int (length out') else \<forall>tx\<in>set txs. found_in b addr n tx out')"
proof (induction txs arbitrary: i out)
  case (Cons tx txs)
  show ?case
  proof (cases "\<exists>fr. Sender (bk_geth b) (bk_chain b) tx = Inr fr \<and> tx_touches b addr tx fr")
    case False
    then have "scan_txs b addr limit n blk i (tx # txs) out = scan_txs b addr limit n blk (i + 1) txs out"
      by (auto split: sum.split)
    with False show ?thesis using Cons.IH [of "i + 1" out] Cons.prems by (auto simp: found_in_def split: if_splits)
  next
    case True
    then obtain fr where fr: "Sender (bk_geth b) (bk_chain b) tx = Inr fr" "tx_touches b addr tx fr" by blast
    let ?out = "out @ [account_ref b n blk i tx fr]"
    have f: "found_in b addr n tx ?out" using fr(1) by (auto simp: found_in_def account_ref_def)
    show ?thesis
    proof (cases "limit \<le> int (length ?out)")
      case True
      then show ?thesis using Cons.prems fr by (auto simp: Let_def)
    next
      case False
      then have "scan_txs b addr limit n blk (i + 1) txs ?out = (full, out')" using Cons.prems fr by (simp add: Let_def)
      from Cons.IH [OF this] show ?thesis using found_in_mono [OF f] by auto
    qed
  qed
qed auto

subsection \<open>The loop over the blocks\<close>

lemma word_step:
  fixes n to :: u64
  assumes "n \<le> to" "to \<noteq> - 1"
  shows "unat (n + 1) = Suc (unat n)" "Suc (unat to) - unat (n + 1) < Suc (unat to) - unat n"
proof -
  have "n \<noteq> - 1" using assms word_order.extremum_unique by blast
  then show s: "unat (n + 1) = Suc (unat n)" by (metis Suc_eq_plus1_left add.commute unatSuc add_eq_0_iff2)
  show "Suc (unat to) - unat (n + 1) < Suc (unat to) - unat n" using assms(1) s by (simp add: word_le_nat_alt)
qed

text \<open>Up to any number but the largest the scan returns, with an error of the node or with
  references of the range, at most as many as the limit.\<close>

lemma scan_blocks_ends:
  assumes "to \<noteq> - 1" "fr \<le> n" "refs_in b addr limit fr to out" "int (length out) < limit"
  shows "\<exists>r. scan_blocks b addr limit n to out = Some r \<and> (\<forall>out'. r = Inr out' \<longrightarrow> refs_in b addr limit fr to out')"
  using assms(2-4)
proof (induction "Suc (unat to) - unat n" arbitrary: n out rule: less_induct)
  case less
  show ?case
  proof (cases "n \<le> to")
    case False
    then show ?thesis using less.prems by (subst scan_blocks.simps) auto
  next
    case True
    note step = less.hyps [OF word_step(2) [OF True assms(1)]]
    have le: "fr \<le> n + 1" using less.prems(1) word_step(1) [OF True assms(1)] by (simp add: word_le_nat_alt)
    show ?thesis
    proof (cases "rpcBlockByNumber (bk_node b) n")
      case (Inl e)
      then show ?thesis using True by (subst scan_blocks.simps) auto
    next
      case (Inr found)
      show ?thesis
      proof (cases found)
        case None
        then show ?thesis using True Inr step [OF le less.prems(2,3)] by (subst scan_blocks.simps) auto
      next
        case (Some blk)
        obtain full out' where st: "scan_txs b addr limit n blk 0 (blk_txs blk) out = (full, out')" by fastforce
        have "refs_in b addr limit fr to out' \<and> (\<not> full \<longrightarrow> int (length out') < limit)"
          using Inr Some by (intro scan_txs_refs [OF _ less.prems(1) True less.prems(2,3) order_refl st]) simp
        then show ?thesis
          using True Inr Some st step [OF le, of out'] by (subst scan_blocks.simps) auto
      qed
    qed
  qed
qed

text \<open>A result below the limit misses nothing in the range.\<close>

definition all_found :: "backend \<Rightarrow> address \<Rightarrow> u64 \<Rightarrow> u64 \<Rightarrow> account_tx_ref list \<Rightarrow> bool" where
  "all_found b addr fr to out \<longleftrightarrow> (\<forall>m blk tx. fr \<le> m \<longrightarrow> m \<le> to \<longrightarrow> rpcBlockByNumber (bk_node b) m = Inr (Some blk) \<longrightarrow>
     tx \<in> set (blk_txs blk) \<longrightarrow> found_in b addr m tx out)"

lemma all_found_step:
  assumes "all_found b addr (n + 1) to out" "n \<le> to"
    "\<And>blk tx. rpcBlockByNumber (bk_node b) n = Inr (Some blk) \<Longrightarrow> tx \<in> set (blk_txs blk) \<Longrightarrow> found_in b addr n tx out"
  shows "all_found b addr n to out"
proof -
  have "n + 1 \<le> m" if "n \<le> m" "m \<noteq> n" for m using that by (metis inc_le order_le_neq_trans)
  then show ?thesis using assms unfolding all_found_def by metis
qed

lemma scan_blocks_complete:
  assumes "scan_blocks b addr limit n to out = Some r"
  shows "\<forall>out'. r = Inr out' \<longrightarrow> int (length out') < limit \<longrightarrow> set out \<subseteq> set out' \<and> all_found b addr n to out'"
proof (rule scan_blocks.raw_induct [OF _ assms, where P = "\<lambda>b addr limit n to out r.
    \<forall>out'. r = Inr out' \<longrightarrow> int (length out') < limit \<longrightarrow> set out \<subseteq> set out' \<and> all_found b addr n to out'"])
  fix f b addr limit n to out r
  assume IH: "\<And>b addr limit n to out r. f b addr limit n to out = Some r \<Longrightarrow>
      \<forall>out'. r = Inr out' \<longrightarrow> int (length out') < limit \<longrightarrow> set out \<subseteq> set out' \<and> all_found b addr n to out'"
    and run: "(if n \<le> to then
        (case rpcBlockByNumber (bk_node b) n of
           Inl e \<Rightarrow> Some (Inl e)
         | Inr found \<Rightarrow>
             (case found of
                None \<Rightarrow> f b addr limit (n + 1) to out
              | Some blk \<Rightarrow>
                  (case scan_txs b addr limit n blk 0 (blk_txs blk) out of
                     (full, out') \<Rightarrow> if full then Some (Inr out') else f b addr limit (n + 1) to out')))
      else Some (Inr out)) = Some r"
  show "\<forall>out'. r = Inr out' \<longrightarrow> int (length out') < limit \<longrightarrow> set out \<subseteq> set out' \<and> all_found b addr n to out'"
  proof (intro allI impI)
    fix out' assume r: "r = Inr out'" and len: "int (length out') < limit"
    show "set out \<subseteq> set out' \<and> all_found b addr n to out'"
    proof (cases "n \<le> to")
      case False
      then show ?thesis using run r by (auto simp: all_found_def)
    next
      case True
      then obtain found where fd: "rpcBlockByNumber (bk_node b) n = Inr found" using run r by (auto split: sum.splits)
      show ?thesis
      proof (cases found)
        case None
        then have "f b addr limit (n + 1) to out = Some r" using run True fd by simp
        from IH [OF this] r len have o: "set out \<subseteq> set out'" "all_found b addr (n + 1) to out'" by auto
        have "all_found b addr n to out'" by (rule all_found_step [OF o(2) True]) (simp add: fd None)
        with o(1) show ?thesis by blast
      next
        case (Some blk)
        obtain full out1 where st: "scan_txs b addr limit n blk 0 (blk_txs blk) out = (full, out1)" by fastforce
        note c = scan_txs_complete [OF st]
        show ?thesis
        proof (cases full)
          case True
          then show ?thesis using run r len c fd Some st \<open>n \<le> to\<close> by auto
        next
          case False
          then have "f b addr limit (n + 1) to out1 = Some r" using run True fd Some st by simp
          from IH [OF this] r len have o: "set out1 \<subseteq> set out'" "all_found b addr (n + 1) to out'" by auto
          have "found_in b addr n tx out'" if "tx \<in> set (blk_txs blk)" for tx
            using c False that found_in_mono [OF _ o(1)] by auto
          then show ?thesis using all_found_step [OF o(2) True] c o(1) fd Some by auto
        qed
      qed
    qed
  qed
qed

subsection \<open>The whole call\<close>

lemma account_limit_pos: "0 < account_limit limit \<and> account_limit limit \<le> 500"
  by (simp add: account_limit_def MaxAccountTxResults_def)

lemma TransactionsForAddress_ends:
  assumes "toBlock \<noteq> - 1"
  shows "\<exists>r. TransactionsForAddress b addr fromBlock toBlock limit = Some r \<and>
    (\<forall>out. r = Inr out \<longrightarrow> refs_in b addr (account_limit limit) fromBlock toBlock out)"
  using scan_blocks_ends [OF assms order_refl, of b addr "account_limit limit" fromBlock "[]"] account_limit_pos [of limit]
  by (auto simp: TransactionsForAddress_def Let_def refs_in_def)

lemma TransactionsForAddress_complete:
  assumes "TransactionsForAddress b addr fromBlock toBlock limit = Some (Inr out)" "int (length out) < account_limit limit"
  shows "all_found b addr fromBlock toBlock out"
  using assms scan_blocks_complete [of b addr "account_limit limit" fromBlock toBlock "[]"]
  by (fastforce simp: TransactionsForAddress_def Let_def split: if_splits)

text \<open>The span of the whole range of \<open>uint64\<close> wraps around to 0 and passes the check.\<close>

lemma TransactionsForAddress_full:
  "TransactionsForAddress b addr 0 (- 1) limit = scan_blocks b addr (account_limit limit) 0 (- 1) []"
  by (simp add: TransactionsForAddress_def MaxAccountTxBlockSpan_def)

end
