(* ===== verification/User_Store.thy ===== *)
theory User_Store
  imports Config
begin

text \<open>
  \<open>internal/store/userstore.go\<close>: the users of the configuration file, in memory, with their
  passwords in plain text.
\<close>

record user =
  usr_id :: string
  usr_name :: string

record user_store =
  us_by_name :: "(string \<times> user) list"
  us_secrets :: "(string \<times> string) list"
  us_next :: nat

definition put_first :: "'k \<Rightarrow> 'v \<Rightarrow> ('k \<times> 'v) list \<Rightarrow> ('k \<times> 'v) list" where
  "put_first k v m = (k, v) # filter (\<lambda>x. fst x \<noteq> k) m"

definition add_seed :: "user_seed \<Rightarrow> user_store \<Rightarrow> user_store" where
  "add_seed seed s =
     (let n = us_next s + 1 in
      \<lparr>us_by_name = put_first (seed_username seed) \<lparr>usr_id = nat_str n, usr_name = seed_username seed\<rparr> (us_by_name s),
       us_secrets = put_first (seed_username seed) (seed_password seed) (us_secrets s), us_next = n\<rparr>)"

definition NewUserStore :: "user_seed list \<Rightarrow> user_store" where
  "NewUserStore seeds = fold add_seed seeds \<lparr>us_by_name = [], us_secrets = [], us_next = 0\<rparr>"

definition Authenticate :: "user_store \<Rightarrow> string \<Rightarrow> string \<Rightarrow> user option" where
  "Authenticate s username password =
     (case map_of (us_by_name s) username of
        None \<Rightarrow> None
      | Some u \<Rightarrow> if map_of (us_secrets s) username \<noteq> Some password then None else Some u)"

text \<open>In the order of a Go map, which is unspecified; the model's list is one order.\<close>

definition UserList :: "user_store \<Rightarrow> user list" where
  "UserList s = map snd (us_by_name s)"

lemma map_of_put_first: "map_of (put_first k v m) = (map_of m)(k \<mapsto> v)"
proof -
  have "map_of (filter (\<lambda>x. fst x \<noteq> k) m) a = map_of m a" if "a \<noteq> k" for a using that by (induction m) auto
  then show ?thesis by (auto simp: put_first_def fun_eq_iff)
qed

text \<open>The last seed of a name decides.\<close>

lemma seeds_lookup:
  "map_of (us_secrets (fold add_seed seeds s)) name =
     (case List.find (\<lambda>x. seed_username x = name) (rev seeds) of None \<Rightarrow> map_of (us_secrets s) name | Some x \<Rightarrow> Some (seed_password x))"
  "(map_of (us_by_name (fold add_seed seeds s)) name \<noteq> None) =
     (List.find (\<lambda>x. seed_username x = name) (rev seeds) \<noteq> None \<or> map_of (us_by_name s) name \<noteq> None)"
  by (induction seeds arbitrary: s)
    (auto simp: add_seed_def Let_def map_of_put_first find_append split: option.split)

lemma Authenticate_iff:
  "(\<exists>u. Authenticate (NewUserStore seeds) name pw = Some u) \<longleftrightarrow>
     (\<exists>x. List.find (\<lambda>x. seed_username x = name) (rev seeds) = Some x \<and> seed_password x = pw)"
  using seeds_lookup [where name = name and seeds = seeds and s = "\<lparr>us_by_name = [], us_secrets = [], us_next = 0\<rparr>"]
  by (auto simp: Authenticate_def NewUserStore_def split: option.splits)

lemma seeds_names:
  assumes "\<forall>u. map_of (us_by_name s) name = Some u \<longrightarrow> usr_name u = name"
    "map_of (us_by_name (fold add_seed seeds s)) name = Some u"
  shows "usr_name u = name"
  using assms
proof (induction seeds arbitrary: s)
  case (Cons x xs)
  have "\<forall>u. map_of (us_by_name (add_seed x s)) name = Some u \<longrightarrow> usr_name u = name"
    using Cons.prems(1) by (simp add: add_seed_def Let_def map_of_put_first)
  from Cons.IH [OF this] Cons.prems(2) show ?case by simp
qed simp

lemma Authenticate_name:
  assumes "Authenticate (NewUserStore seeds) name pw = Some u"
  shows "usr_name u = name"
proof -
  have "map_of (us_by_name (fold add_seed seeds \<lparr>us_by_name = [], us_secrets = [], us_next = 0\<rparr>)) name = Some u"
    using assms by (auto simp: Authenticate_def NewUserStore_def split: option.splits if_splits)
  then show ?thesis by (rule seeds_names [rotated]) simp
qed

end
