(* ===== verification/Node_Properties.thy ===== *)
theory Node_Properties
  imports Pipeline Eth_Scan User_Store Indexer_Properties
begin

text \<open>
  The properties of what follows the node: the pipeline that feeds the indexer from the node's
  subscriptions, and the scan of blocks for the transactions of an account.
\<close>

subsection \<open>The pipeline\<close>

text \<open>C31: over any run of listener, bus and workers, from the start of the listener on, both channels stay
  within their buffer and twenty lines are kept at most, the indexer's state is one that steps of the
  indexer reach, and no wait before a new subscription is longer than thirty seconds when the configured
  one is not. A header that arrives then is in the indexer's write-ahead list, whatever the channel and the queue
  hold; the round crashes the program exactly when the bus is already closed.\<close>

theorem pipeline_sound:
  assumes "(pipe_step cfg)\<^sup>*\<^sup>* (listener_Run cfg ws (NewBus lc (Some e)) s) p" "\<not> pp_crash p"
  shows "int (length (bus_headers (pp_bus p))) \<le> lc_buffer (bus_cfg (pp_bus p)) \<and>
    int (length (bus_transfers (pp_bus p))) \<le> lc_buffer (bus_cfg (pp_bus p)) \<and> length (bus_lasts (pp_bus p)) \<le> 20 \<and>
    (ix_step e)\<^sup>*\<^sup>* s (pp_ix p) \<and>
    (reconnect_base cfg \<le> 30000 \<longrightarrow> lp_backoff (pp_heads p) \<le> 30000 \<and> lp_backoff (pp_logs p) \<le> 30000) \<and>
    (lp_phase (pp_heads p) = Receiving \<longrightarrow>
      (\<forall>now h. awaits (ie_store e) (hd_number h) (ixs_db (pp_ix (run_heads cfg now (Delivered (Some h)) p))) \<and>
        (pp_crash (run_heads cfg now (Delivered (Some h)) p) \<longleftrightarrow> bus_closed (pp_bus p))))"
proof -
  note ok = pipe_reachable_ok [OF assms(1)] and ix = pipe_reachable_ix [OF assms(1)]
  have "pp_crash (run_heads cfg now (Delivered (Some h)) p) \<longleftrightarrow> bus_closed (pp_bus p)"
    if "lp_phase (pp_heads p) = Receiving" for now h
    using that assms(2) by (simp add: run_heads_submits split: prod.split)
  then show ?thesis using ok ix header_awaits [of p e _ cfg] by (auto simp: pipe_ok_def bus_ok_def)
qed

definition pipe0 :: pipe where
  "pipe0 = listener_Run cfg0 True (NewBus \<lparr>lc_workers = 0, lc_buffer = 0\<rparr> (Some ie0)) is0"

definition pipe1 :: pipe where
  "pipe1 = run_heads cfg0 0 Subscribed pipe0"

definition pipe2 :: pipe where
  "pipe2 = pipe1\<lparr>pp_bus := bus_close (pp_bus pipe1)\<rparr>"

text \<open>The witness: the loop is subscribed, the context is cancelled, and a header still arrives.\<close>

theorem pipeline_sound_witness:
  "pp_crash (run_heads cfg0 1000 (Delivered (Some \<lparr>hd_number = 8, hd_hash = 80\<rparr>)) pipe2) \<and>
   awaits 1 8 (ixs_db (pp_ix (run_heads cfg0 1000 (Delivered (Some \<lparr>hd_number = 8, hd_hash = 80\<rparr>)) pipe2)))"
proof -
  have p0: "\<not> pp_crash pipe0" "lp_phase (pp_heads pipe0) = Connecting" by (simp_all add: pipe0_def listener_Run_def new_loop_def Let_def)
  have p1: "pipe1 = pipe0\<lparr>pp_heads := \<lparr>lp_phase = Receiving, lp_backoff = reconnect_base cfg0\<rparr>\<rparr>"
    using p0 by (simp add: pipe1_def run_heads_def loopNewHeads_def sub_control_def Let_def retT_def)
  have c: "\<not> pp_crash pipe2" "lp_phase (pp_heads pipe2) = Receiving" "bus_closed (pp_bus pipe2)"
    using p0 by (simp_all add: pipe2_def p1 bus_close_def)
  have "pipe_step cfg0 pipe0 pipe1" unfolding pipe1_def using p0(1) by (rule pipe_step.heads)
  moreover have "pipe_step cfg0 pipe1 pipe2" unfolding pipe2_def using p0(1) by (intro pipe_step.cancel) (simp add: p1)
  ultimately have r: "(pipe_step cfg0)\<^sup>*\<^sup>* pipe0 pipe2" by auto
  from pipeline_sound [OF r [unfolded pipe0_def] c(1)] c(2,3)
  have "\<forall>now h. awaits (ie_store ie0) (hd_number h) (ixs_db (pp_ix (run_heads cfg0 now (Delivered (Some h)) pipe2))) \<and>
      pp_crash (run_heads cfg0 now (Delivered (Some h)) pipe2)" by blast
  from this [rule_format, of "\<lparr>hd_number = 8, hd_hash = 80\<rparr>" 1000] show ?thesis by (simp add: ie0_def)
qed

subsection \<open>The scan for the transactions of an account\<close>

text \<open>C38: for every range that does not end at the largest number the scan returns. A list it returns
  has at most the limit's and never more than five hundred entries, each of them a transaction of its block that
  the address sends, receives or is created by; a list shorter than the limit misses none in the range. The whole
  range of \<open>uint64\<close>, whose span wraps around to 0, passes the check of the span.\<close>

theorem account_scan:
  "(toBlock \<noteq> - 1 \<longrightarrow>
     (\<exists>r. TransactionsForAddress b addr fromBlock toBlock limit = Some r \<and>
       (\<forall>out. r = Inr out \<longrightarrow> int (length out) \<le> account_limit limit \<and> account_limit limit \<le> 500 \<and>
         (\<forall>x\<in>set out. ref_ok b addr x \<and> fromBlock \<le> ar_block x \<and> ar_block x \<le> toBlock) \<and>
         (int (length out) < account_limit limit \<longrightarrow> all_found b addr fromBlock toBlock out)))) \<and>
   TransactionsForAddress b addr 0 (- 1) limit = scan_blocks b addr (account_limit limit) 0 (- 1) []"
proof (intro conjI impI)
  assume "toBlock \<noteq> - 1"
  from TransactionsForAddress_ends [OF this, of b addr fromBlock limit] obtain r
    where r: "TransactionsForAddress b addr fromBlock toBlock limit = Some r"
      "\<forall>out. r = Inr out \<longrightarrow> refs_in b addr (account_limit limit) fromBlock toBlock out" by blast
  then show "\<exists>r. TransactionsForAddress b addr fromBlock toBlock limit = Some r \<and>
       (\<forall>out. r = Inr out \<longrightarrow> int (length out) \<le> account_limit limit \<and> account_limit limit \<le> 500 \<and>
         (\<forall>x\<in>set out. ref_ok b addr x \<and> fromBlock \<le> ar_block x \<and> ar_block x \<le> toBlock) \<and>
         (int (length out) < account_limit limit \<longrightarrow> all_found b addr fromBlock toBlock out))"
    using account_limit_pos [of limit] TransactionsForAddress_complete by (intro exI [of _ r]) (auto simp: refs_in_def)
qed (rule TransactionsForAddress_full)

definition backend5 :: backend where
  "backend5 = backend0\<lparr>bk_node := node0\<lparr>rpcBlockByNumber := (\<lambda>n. if n = 5 then Inr (Some (blk5\<lparr>blk_txs := [tx0]\<rparr>)) else Inr None)\<rparr>\<rparr>"

theorem account_scan_witness:
  "\<exists>out. TransactionsForAddress backend5 2 5 6 0 = Some (Inr out) \<and> length out \<le> 500 \<and> map ar_tx_hash out = [7] \<and>
     ref_ok backend5 2 (hd out)"
proof -
  have "\<exists>x. TransactionsForAddress backend5 2 5 6 0 = Some (Inr [x]) \<and> ar_tx_hash x = 7"
    by (simp add: TransactionsForAddress_def MaxAccountTxBlockSpan_def account_limit_def MaxAccountTxResults_def
        scan_blocks.simps backend5_def backend0_def node0_def blk5_def tx0_def geth0_def tx_touches_def account_ref_def)
  then obtain x where x: "TransactionsForAddress backend5 2 5 6 0 = Some (Inr [x])" "ar_tx_hash x = 7" by blast
  with account_scan [of 6 backend5 2 5 0] show ?thesis by simp
qed

end
