(* ===== verification/Web3_Server.thy ===== *)
theory Web3_Server
  imports Eth "HOL-Library.AList"
begin

text \<open>
  \<open>cmd/web3-grpc-server/main.go\<close>: a gRPC service with accounts, transfers, users and event logs,
  kept in MySQL or, when the database cannot be opened, in maps under one \<open>sync.RWMutex\<close>.
  The mutex is part of the state, because it is not reentrant: a call that waits for a lock it holds
  itself never returns, its value is \<open>None\<close>, and the lock stays taken. All readings of the clock in one
  call are the same time in nanoseconds; a time column or an RFC 3339 text is its second.
\<close>

subsection \<open>Messages\<close>

datatype grpc_code = InvalidArgument | NotFound | AlreadyExists | FailedPrecondition | Internal | Unavailable | Unauthenticated

datatype grpc_error = Status grpc_code string | Plain go_error

type_synonym 'a gres = "grpc_error + 'a"

datatype tx_state = TX_STATE_UNSPECIFIED | TX_STATE_PENDING | TX_STATE_CONFIRMED | TX_STATE_FINALIZED | TX_STATE_FAILED

record eth_transaction =
  et_hash :: string
  et_from :: string
  et_to :: string
  et_value :: string
  et_block :: u64
  et_gas :: u64
  et_nonce :: u64
  et_success :: bool
  et_chain :: u64
  et_confirmations :: u64
  et_state :: tx_state
  et_updated :: time

record pb_receipt =
  pr_hash :: string
  pr_block :: u64
  pr_gas_used :: u64
  pr_success :: bool
  pr_state :: tx_state
  pr_bloom :: string

record log_event =
  le_tx_hash :: string
  le_block :: u64
  le_chain :: u64
  le_contract :: string
  le_topics :: "string list"
  le_data :: string
  le_index :: u64
  le_name :: string
  le_updated :: time

record pb_account =
  pa_address :: string
  pa_balance :: string
  pa_nonce :: u64
  pa_chain :: u64
  pa_updated :: time

record pb_user =
  pu_id :: string
  pu_name :: string
  pu_email :: string
  pu_chain :: u64
  pu_created :: time
  pu_updated :: time

record tx_hash_request =
  thr_hash :: string
  thr_chain :: u64

record subscribe_request =
  sr_chain :: u64
  sr_address :: string
  sr_include_failed :: bool
  sr_lightweight :: bool

record subscribe_logs_request =
  sl_chain :: u64
  sl_contract :: string
  sl_topic0 :: string
  sl_lightweight :: bool

record create_account_request =
  car_address :: string
  car_balance :: string
  car_chain :: u64

record get_account_request =
  gar_address :: string
  gar_chain :: u64

record transfer_request =
  trq_from :: string
  trq_to :: string
  trq_value :: string
  trq_chain :: u64

record transfer_response =
  trs_tx :: eth_transaction
  trs_from :: pb_account
  trs_to :: pb_account

record create_user_request =
  cur_name :: string
  cur_email :: string
  cur_chain :: u64

record bind_request =
  bur_user :: string
  bur_address :: string
  bur_chain :: u64

record list_accounts_request =
  lar_user :: string
  lar_chain :: u64

subsection \<open>State\<close>

record account_state =
  as_address :: string
  as_balance :: int
  as_nonce :: u64
  as_chain :: u64
  as_updated :: time

text \<open>The tables of \<open>ensureSchema\<close>.\<close>

record account_row =
  arow_address :: string
  arow_balance :: string
  arow_nonce :: u64
  arow_chain :: u64
  arow_updated :: time

record user_account_row =
  uar_user :: string
  uar_address :: string
  uar_chain :: u64
  uar_created :: time

record event_row3 =
  er_id :: u64
  er_topic0 :: string
  er_event :: log_event

record web3_db =
  wdb_accounts :: "account_row list"
  wdb_txs :: "eth_transaction list"
  wdb_users :: "pb_user list"
  wdb_bindings :: "user_account_row list"
  wdb_events :: "event_row3 list"
  wdb_next :: u64

text \<open>The connected node and the key a text is hashed to are those of the library.\<close>

record web3_client =
  wcTransactionByHash :: "hash \<Rightarrow> (signed_tx \<times> bool) res"
  wcTransactionReceipt :: "hash \<Rightarrow> receipt res"
  wcHead :: "u64 res"
  wcBlockByNumber :: "u64 \<Rightarrow> block res"
  wcBloom :: "receipt \<Rightarrow> string"
  wcTxChainID :: "signed_tx \<Rightarrow> int"

record web3_server =
  wsv_geth :: geth
  wsv_rpc :: "web3_client option"
  wsv_chain :: u64

record web3 =
  w_db :: "web3_db option"
  w_mu :: bool
  w_accounts :: "(string \<times> account_state) list"
  w_localTx :: "(string \<times> eth_transaction) list"
  w_users :: "(string \<times> pb_user) list"
  w_userAcc :: "(string \<times> string list) list"
  w_logs :: "log_event list"

text \<open>A handler returns a result, or never returns.\<close>

type_synonym 'a wtx = "web3 \<Rightarrow> ('a gres) option \<times> web3"

definition retW :: "'a \<Rightarrow> 'a wtx" where
  "retW x = (\<lambda>s. (Some (Inr x), s))"

definition failW :: "grpc_error \<Rightarrow> 'a wtx" where
  "failW e = (\<lambda>s. (Some (Inl e), s))"

definition bindW :: "'a wtx \<Rightarrow> ('a \<Rightarrow> 'b wtx) \<Rightarrow> 'b wtx" where
  "bindW m k = (\<lambda>s. case m s of
     (None, s') \<Rightarrow> (None, s')
   | (Some (Inl e), s') \<Rightarrow> (Some (Inl e), s')
   | (Some (Inr x), s') \<Rightarrow> k x s')"

definition liftW :: "'a gres \<Rightarrow> 'a wtx" where
  "liftW r = (\<lambda>s. (Some r, s))"

definition modW :: "(web3 \<Rightarrow> web3) \<Rightarrow> unit wtx" where
  "modW f = (\<lambda>s. (Some (Inr ()), f s))"

definition getW3 :: "(web3 \<Rightarrow> 'a) \<Rightarrow> 'a wtx" where
  "getW3 f = (\<lambda>s. (Some (Inr (f s)), s))"

text \<open>\<open>mu.Lock(); defer mu.Unlock()\<close> around a body, and \<open>mu.RLock()\<close> around a read.\<close>

definition withLock :: "'a wtx \<Rightarrow> 'a wtx" where
  "withLock m = (\<lambda>s. if w_mu s then (None, s) else
     (case m (s\<lparr>w_mu := True\<rparr>) of (None, s') \<Rightarrow> (None, s') | (Some r, s') \<Rightarrow> (Some r, s'\<lparr>w_mu := False\<rparr>)))"

definition withRLock :: "(web3 \<Rightarrow> 'a) \<Rightarrow> 'a wtx" where
  "withRLock f = (\<lambda>s. if w_mu s then (None, s) else (Some (Inr (f s)), s))"

text \<open>A database call.\<close>

definition onDB :: "(web3_db \<Rightarrow> 'a gres \<times> web3_db) \<Rightarrow> web3_db \<Rightarrow> 'a wtx" where
  "onDB f d = (\<lambda>s. case f d of (r, d') \<Rightarrow> (Some r, s\<lparr>w_db := Some d'\<rparr>))"

subsection \<open>Helpers\<close>

definition normalizeHash :: "string \<Rightarrow> string" where
  "normalizeHash h = to_lower (trim_space h)"

definition w3_normalizeAddress :: "string \<Rightarrow> string" where
  "w3_normalizeAddress a = to_lower (trim_space a)"

definition parsePositiveInt :: "string \<Rightarrow> int gres" where
  "parsePositiveInt value =
     (let v = trim_space value in
      if v = [] then Inl (Status InvalidArgument ''value is required'')
      else case big_set_string v of
        None \<Rightarrow> Inl (Status InvalidArgument (''invalid numeric string: '' @ value))
      | Some n \<Rightarrow> if n \<le> 0 then Inl (Status InvalidArgument ''value must be > 0'') else Inr n)"

definition parseNonNegativeInt :: "string \<Rightarrow> int gres" where
  "parseNonNegativeInt value =
     (let v = trim_space value in
      if v = [] then Inr 0
      else case big_set_string v of
        None \<Rightarrow> Inl (Status InvalidArgument (''invalid numeric string: '' @ value))
      | Some n \<Rightarrow> if n < 0 then Inl (Status InvalidArgument ''value must be >= 0'') else Inr n)"

definition dbTimestamp :: "int \<Rightarrow> time" where
  "dbTimestamp nano = nano div 1000000000"

definition validateHashRequest :: "tx_hash_request option \<Rightarrow> string gres" where
  "validateHashRequest req = (case req of
     None \<Rightarrow> Inl (Status InvalidArgument ''request is required'')
   | Some r \<Rightarrow>
       let hash = normalizeHash (thr_hash r) in
       if hash = [] \<or> \<not> has_prefix hash ''0x'' then Inl (Status InvalidArgument ''hash must be a hex string prefixed with 0x'')
       else Inr hash)"

definition deriveState :: "int \<Rightarrow> eth_transaction \<Rightarrow> eth_transaction" where
  "deriveState nano tx =
     (case et_state tx of
        TX_STATE_PENDING \<Rightarrow> tx\<lparr>et_confirmations := 0, et_block := 0, et_success := False\<rparr>
      | TX_STATE_CONFIRMED \<Rightarrow> tx\<lparr>et_confirmations := 8, et_success := True\<rparr>
      | TX_STATE_FINALIZED \<Rightarrow> tx\<lparr>et_confirmations := 64, et_success := True\<rparr>
      | TX_STATE_FAILED \<Rightarrow> tx\<lparr>et_confirmations := 3, et_success := False\<rparr>
      | TX_STATE_UNSPECIFIED \<Rightarrow> tx\<lparr>et_state := TX_STATE_UNSPECIFIED\<rparr>)\<lparr>et_updated := dbTimestamp nano\<rparr>"

definition toLightweight :: "eth_transaction \<Rightarrow> eth_transaction" where
  "toLightweight tx =
     \<lparr>et_hash = et_hash tx, et_from = [], et_to = [], et_value = [], et_block = et_block tx, et_gas = 0, et_nonce = 0,
      et_success = et_success tx, et_chain = et_chain tx, et_confirmations = et_confirmations tx, et_state = et_state tx,
      et_updated = et_updated tx\<rparr>"

definition stateByConfirmations :: "u64 \<Rightarrow> bool \<Rightarrow> bool \<Rightarrow> tx_state" where
  "stateByConfirmations confirmations success pending =
     (if pending then TX_STATE_PENDING
      else if \<not> success then TX_STATE_FAILED
      else if confirmations \<ge> 64 then TX_STATE_FINALIZED
      else TX_STATE_CONFIRMED)"

definition getFromAddress :: "web3_server \<Rightarrow> web3_client \<Rightarrow> signed_tx \<Rightarrow> string" where
  "getFromAddress sv cl tx = (case Sender (wsv_geth sv) (wcTxChainID cl tx) tx of
     Inl _ \<Rightarrow> [] | Inr fr \<Rightarrow> to_lower (AddressHex (wsv_geth sv) fr))"

definition to_text :: "web3_server \<Rightarrow> signed_tx \<Rightarrow> string" where
  "to_text sv tx = (case td_to (stx_data tx) of None \<Rightarrow> [] | Some a \<Rightarrow> to_lower (AddressHex (wsv_geth sv) a))"

definition defaultChainID :: "web3_server \<Rightarrow> u64" where
  "defaultChainID sv = (if wsv_chain sv \<noteq> 0 then wsv_chain sv else 1)"

text \<open>\<open>0x%040x\<close>, \<open>0x%064x\<close> and \<open>u-%d\<close> of a time.\<close>

fun hex_nat :: "nat \<Rightarrow> string" where
  "hex_nat n = (if n < 16 then [hex_digit n] else hex_nat (n div 16) @ [hex_digit (n mod 16)])"

declare hex_nat.simps [simp del]

definition pad_left :: "nat \<Rightarrow> string \<Rightarrow> string" where
  "pad_left w s = replicate (w - length s) (CHR ''0'') @ s"

definition generateAccountAddress :: "int \<Rightarrow> string" where
  "generateAccountAddress nano = ''0x'' @ pad_left 40 (hex_nat (nat nano))"

definition generateTxHash :: "int \<Rightarrow> string" where
  "generateTxHash nano = ''0x'' @ pad_left 64 (hex_nat (nat nano))"

definition generateUserID :: "int \<Rightarrow> string" where
  "generateUserID nano = ''u-'' @ nat_str (nat nano)"

definition chain_error :: "string \<Rightarrow> u64 \<Rightarrow> grpc_error" where
  "chain_error what c = Status InvalidArgument (what @ nat_str (unat c))"

definition checkChain :: "web3_server \<Rightarrow> u64 \<Rightarrow> u64 gres" where
  "checkChain sv c = (if c \<noteq> 0 \<and> c \<noteq> defaultChainID sv then Inl (chain_error ''unsupported chain_id: '' c) else Inr (defaultChainID sv))"

subsection \<open>The mock transactions\<close>

definition mock_tx :: "string \<Rightarrow> string \<Rightarrow> string \<Rightarrow> string \<Rightarrow> u64 \<Rightarrow> u64 \<Rightarrow> u64 \<Rightarrow> bool \<Rightarrow> tx_state \<Rightarrow> eth_transaction" where
  "mock_tx h fr to v bn gas n ok st =
     \<lparr>et_hash = h, et_from = fr, et_to = to, et_value = v, et_block = bn, et_gas = gas, et_nonce = n, et_success = ok, et_chain = 1,
      et_confirmations = 0, et_state = st, et_updated = 0\<rparr>"

definition mockTxByHash :: "(string \<times> eth_transaction) list" where
  "mockTxByHash =
    [(''0xabc123'', mock_tx ''0xabc123'' ''0x1111111111111111111111111111111111111111'' ''0x2222222222222222222222222222222222222222''
        ''1556465265266'' 123123123 21000 1 True TX_STATE_FINALIZED),
     (''0xdef456'', mock_tx ''0xdef456'' ''0xaabbbbbbbbbbbbbbbbbbbbbbbbbbbbbbbbbbbbaa'' ''0xbbccccccccccccccccccccccccccccccccccccbb''
        ''250000000000000000'' 456456456 35000 8 True TX_STATE_CONFIRMED),
     (''0xdeadbeef'', mock_tx ''0xdeadbeef'' ''0x9999999999999999999999999999999999999999'' ''0x8888888888888888888888888888888888888888''
        ''42000000000000000'' 0xbeefbeefbeef 70000 19 False TX_STATE_FAILED),
     (''0xpending01'', mock_tx ''0xpending01'' ''0x1234512345123451234512345123451234512345'' ''0x5432154321543215432154321543215432154321''
        ''9999999999999'' 17043521 21000 28 False TX_STATE_PENDING)]"

subsection \<open>Accounts\<close>

definition find_account :: "string \<Rightarrow> web3_db \<Rightarrow> account_row option" where
  "find_account addr d = List.find (\<lambda>r. sql_eq (arow_address r) addr) (wdb_accounts d)"

definition seeds :: "(string \<times> string) list" where
  "seeds = [(''0x1111111111111111111111111111111111111111'', ''5000000000000000000''),
    (''0x2222222222222222222222222222222222222222'', ''3000000000000000000''),
    (''0x9999999999999999999999999999999999999999'', ''1000000000000000000'')]"

definition seed_row :: "web3_server \<Rightarrow> int \<Rightarrow> string \<times> string \<Rightarrow> web3_db \<Rightarrow> web3_db" where
  "seed_row sv nano = (\<lambda>(addr, bal) d. d\<lparr>wdb_accounts :=
     upsert_where (\<lambda>r. sql_eq (arow_address r) addr) (\<lambda>r. r)
       \<lparr>arow_address = addr, arow_balance = bal, arow_nonce = 0, arow_chain = defaultChainID sv, arow_updated = dbTimestamp nano\<rparr>
       (wdb_accounts d)\<rparr>)"

definition seedDefaultAccountsDB :: "web3_server \<Rightarrow> int \<Rightarrow> web3_db \<Rightarrow> web3_db" where
  "seedDefaultAccountsDB sv nano d = fold (seed_row sv nano) seeds d"

definition toPBAccount :: "account_state \<Rightarrow> pb_account" where
  "toPBAccount a = \<lparr>pa_address = as_address a, pa_balance = int_str (as_balance a), pa_nonce = as_nonce a, pa_chain = as_chain a,
     pa_updated = as_updated a\<rparr>"

definition accountFromRow :: "account_row \<Rightarrow> account_state gres" where
  "accountFromRow r = (case big_set_string (arow_balance r) of
     None \<Rightarrow> Inl (Status Internal (''invalid balance in storage: '' @ arow_balance r))
   | Some bal \<Rightarrow> Inr \<lparr>as_address = arow_address r, as_balance = bal, as_nonce = arow_nonce r, as_chain = arow_chain r,
       as_updated = arow_updated r\<rparr>)"

definition getAccountDB :: "string \<Rightarrow> web3_db \<Rightarrow> account_state gres" where
  "getAccountDB addr d = (case find_account addr d of
     None \<Rightarrow> Inl (Status NotFound (''account not found: '' @ addr))
   | Some r \<Rightarrow> accountFromRow r)"

definition createAccountDB :: "int \<Rightarrow> string \<Rightarrow> int \<Rightarrow> u64 \<Rightarrow> web3_db \<Rightarrow> pb_account gres \<times> web3_db" where
  "createAccountDB nano addr bal chainID d =
     (if find_account addr d \<noteq> None then (Inl (Status AlreadyExists (''account already exists: '' @ addr)), d)
      else
        (Inr \<lparr>pa_address = addr, pa_balance = int_str bal, pa_nonce = 0, pa_chain = chainID, pa_updated = dbTimestamp nano\<rparr>,
         d\<lparr>wdb_accounts := wdb_accounts d @ [\<lparr>arow_address = addr, arow_balance = int_str bal, arow_nonce = 0, arow_chain = chainID,
             arow_updated = dbTimestamp nano\<rparr>]\<rparr>))"

definition seedDefaultAccounts :: "web3_server \<Rightarrow> int \<Rightarrow> unit wtx" where
  "seedDefaultAccounts sv nano = withLock (modW (\<lambda>s. s\<lparr>w_accounts :=
     fold (\<lambda>(addr, bal) m. AList.update addr \<lparr>as_address = addr, as_balance = the (big_set_string bal), as_nonce = 0,
       as_chain = defaultChainID sv, as_updated = dbTimestamp nano\<rparr> m) seeds (w_accounts s)\<rparr>))"

definition create_mem :: "int \<Rightarrow> string \<Rightarrow> int \<Rightarrow> u64 \<Rightarrow> pb_account wtx" where
  "create_mem nano addr bal chainID =
     bindW (getW3 (\<lambda>s. map_of (w_accounts s) addr)) (\<lambda>found.
     if found \<noteq> None then failW (Status AlreadyExists (''account already exists: '' @ addr))
     else
       let acc = \<lparr>as_address = addr, as_balance = bal, as_nonce = 0, as_chain = chainID, as_updated = dbTimestamp nano\<rparr> in
       bindW (modW (\<lambda>s. s\<lparr>w_accounts := AList.update addr acc (w_accounts s)\<rparr>)) (\<lambda>_. retW (toPBAccount acc)))"

definition CreateAccount :: "web3_server \<Rightarrow> int \<Rightarrow> create_account_request option \<Rightarrow> pb_account wtx" where
  "CreateAccount sv nano req = (case req of
     None \<Rightarrow> failW (Status InvalidArgument ''request is required'')
   | Some r \<Rightarrow>
       bindW (liftW (checkChain sv (car_chain r))) (\<lambda>chainID.
       let addr0 = w3_normalizeAddress (car_address r);
           addr = (if addr0 = [] then generateAccountAddress nano else addr0) in
       if \<not> has_prefix addr ''0x'' then failW (Status InvalidArgument ''address must be hex prefixed with 0x'')
       else bindW (liftW (parseNonNegativeInt (car_balance r))) (\<lambda>bal.
       bindW (getW3 w_db) (\<lambda>db.
       case db of
         Some d \<Rightarrow> onDB (createAccountDB nano addr bal chainID) d
       | None \<Rightarrow> withLock (create_mem nano addr bal chainID)))))"

definition GetAccount :: "web3_server \<Rightarrow> get_account_request option \<Rightarrow> pb_account wtx" where
  "GetAccount sv req = (case req of
     None \<Rightarrow> failW (Status InvalidArgument ''request is required'')
   | Some r \<Rightarrow>
       bindW (liftW (checkChain sv (gar_chain r))) (\<lambda>chainID.
       let addr = w3_normalizeAddress (gar_address r) in
       if addr = [] then failW (Status InvalidArgument ''address is required'')
       else bindW (getW3 w_db) (\<lambda>db.
       case db of
         Some d \<Rightarrow> bindW (liftW (getAccountDB addr d)) (\<lambda>acc. retW (toPBAccount acc))
       | None \<Rightarrow> bindW (withRLock (\<lambda>s. map_of (w_accounts s) addr)) (\<lambda>found.
           case found of
             None \<Rightarrow> failW (Status NotFound (''account not found: '' @ gar_address r))
           | Some acc \<Rightarrow> retW (toPBAccount acc)))))"

subsection \<open>Event logs\<close>

definition firstTopic :: "string list \<Rightarrow> string" where
  "firstTopic topics = (case topics of [] \<Rightarrow> [] | t # _ \<Rightarrow> t)"

definition buildTransferLog :: "int \<Rightarrow> eth_transaction \<Rightarrow> log_event" where
  "buildTransferLog nano tx =
     \<lparr>le_tx_hash = et_hash tx, le_block = et_block tx, le_chain = et_chain tx,
      le_contract = ''0x0000000000000000000000000000000000000000'',
      le_topics = [''0xddf252ad00000000000000000000000000000000000000000000000000000000'', et_from tx, et_to tx],
      le_data = et_value tx, le_index = 0, le_name = ''Transfer'', le_updated = dbTimestamp nano\<rparr>"

definition insert_event :: "int \<Rightarrow> log_event \<Rightarrow> web3_db \<Rightarrow> web3_db" where
  "insert_event nano ev d =
     d\<lparr>wdb_events := wdb_events d @ [\<lparr>er_id = wdb_next d, er_topic0 = firstTopic (le_topics ev), er_event = ev\<lparr>le_updated := dbTimestamp nano\<rparr>\<rparr>],
       wdb_next := wdb_next d + 1\<rparr>"

definition appendEventLog :: "int \<Rightarrow> log_event option \<Rightarrow> unit wtx" where
  "appendEventLog nano ev = (case ev of
     None \<Rightarrow> retW ()
   | Some e \<Rightarrow>
       bindW (getW3 w_db) (\<lambda>db.
       case db of
         Some d \<Rightarrow> modW (\<lambda>s. s\<lparr>w_db := Some (insert_event nano e d)\<rparr>)
       | None \<Rightarrow> withLock (modW (\<lambda>s. s\<lparr>w_logs := w_logs s @ [e]\<rparr>))))"

subsection \<open>Transfers\<close>

definition new_transfer_tx :: "int \<Rightarrow> string \<Rightarrow> string \<Rightarrow> int \<Rightarrow> u64 \<Rightarrow> u64 \<Rightarrow> eth_transaction" where
  "new_transfer_tx nano fr to amount nonce chainID =
     \<lparr>et_hash = generateTxHash nano, et_from = fr, et_to = to, et_value = int_str amount, et_block = of_int (dbTimestamp nano),
      et_gas = 21000, et_nonce = nonce, et_success = True, et_chain = chainID, et_confirmations = 1,
      et_state = TX_STATE_CONFIRMED, et_updated = dbTimestamp nano\<rparr>"

text \<open>The receiving side of \<open>transferDB\<close>: balance and nonce of its row, if it has one.\<close>

definition to_side :: "string \<Rightarrow> u64 \<Rightarrow> web3_db \<Rightarrow> (bool \<times> int \<times> u64) gres" where
  "to_side addr chainID d = (case find_account addr d of
     None \<Rightarrow> Inr (False, 0, 0)
   | Some r \<Rightarrow>
       if arow_chain r \<noteq> chainID then Inl (Status FailedPrecondition (''to account chain mismatch: '' @ nat_str (unat (arow_chain r))))
       else case big_set_string (arow_balance r) of
         None \<Rightarrow> Inl (Status Internal (''invalid balance in storage: '' @ arow_balance r))
       | Some bal \<Rightarrow> Inr (True, bal, arow_nonce r))"

definition from_side :: "string \<Rightarrow> string \<Rightarrow> int \<Rightarrow> u64 \<Rightarrow> web3_db \<Rightarrow> (int \<times> u64) gres" where
  "from_side shown addr amount chainID d = (case find_account addr d of
     None \<Rightarrow> Inl (Status NotFound (''from account not found: '' @ shown))
   | Some r \<Rightarrow>
       if arow_chain r \<noteq> chainID then Inl (Status FailedPrecondition (''from account chain mismatch: '' @ nat_str (unat (arow_chain r))))
       else case big_set_string (arow_balance r) of
         None \<Rightarrow> Inl (Status Internal (''invalid balance in storage: '' @ arow_balance r))
       | Some bal \<Rightarrow> if bal < amount then Inl (Status FailedPrecondition ''insufficient balance'') else Inr (bal, arow_nonce r))"

definition write_sides :: "int \<Rightarrow> string \<Rightarrow> string \<Rightarrow> int \<Rightarrow> u64 \<Rightarrow> bool \<Rightarrow> int \<Rightarrow> u64 \<Rightarrow> account_row list \<Rightarrow> account_row list" where
  "write_sides nano fr to newFrom newNonce toExists newTo chainID t =
     (let t1 = upd_where (\<lambda>r. sql_eq (arow_address r) fr)
        (\<lambda>r. r\<lparr>arow_balance := int_str newFrom, arow_nonce := newNonce, arow_updated := dbTimestamp nano\<rparr>) t in
      if toExists then upd_where (\<lambda>r. sql_eq (arow_address r) to) (\<lambda>r. r\<lparr>arow_balance := int_str newTo, arow_updated := dbTimestamp nano\<rparr>) t1
      else t1 @ [\<lparr>arow_address = to, arow_balance = int_str newTo, arow_nonce = 0, arow_chain = chainID, arow_updated = dbTimestamp nano\<rparr>])"

text \<open>\<open>transferDB\<close>: an error rolls the database back; the event is written after the commit.\<close>

definition transferDB :: "int \<Rightarrow> transfer_request \<Rightarrow> string \<Rightarrow> string \<Rightarrow> int \<Rightarrow> u64 \<Rightarrow> web3_db \<Rightarrow> transfer_response gres \<times> web3_db" where
  "transferDB nano req fr to amount chainID d =
     (case from_side (trq_from req) fr amount chainID d of
        Inl e \<Rightarrow> (Inl e, d)
      | Inr (fromBalance, fromNonce) \<Rightarrow>
          case to_side to chainID d of
            Inl e \<Rightarrow> (Inl e, d)
          | Inr (toExists, toBalance, toNonce) \<Rightarrow>
              let tx = new_transfer_tx nano fr to amount (fromNonce + 1) chainID in
              if \<exists>r\<in>set (wdb_txs d). sql_eq (et_hash r) (et_hash tx) then (Inl (Plain (ErrDupEntry ''PRIMARY'')), d)
              else
                let d' = d\<lparr>wdb_accounts := write_sides nano fr to (fromBalance - amount) (fromNonce + 1) toExists (toBalance + amount)
                      chainID (wdb_accounts d), wdb_txs := wdb_txs d @ [tx]\<rparr> in
                (Inr \<lparr>trs_tx = tx,
                   trs_from = \<lparr>pa_address = fr, pa_balance = int_str (fromBalance - amount), pa_nonce = fromNonce + 1, pa_chain = chainID,
                     pa_updated = dbTimestamp nano\<rparr>,
                   trs_to = \<lparr>pa_address = to, pa_balance = int_str (toBalance + amount), pa_nonce = toNonce, pa_chain = chainID,
                     pa_updated = dbTimestamp nano\<rparr>\<rparr>,
                 insert_event nano (buildTransferLog nano tx) d'))"

text \<open>The transfer between the maps, inside the lock. The new receiver is stored before the balance is checked.\<close>

definition opened :: "int \<Rightarrow> string \<Rightarrow> u64 \<Rightarrow> web3 \<Rightarrow> web3" where
  "opened nano to c s = (if map_of (w_accounts s) to \<noteq> None then s
     else s\<lparr>w_accounts := AList.update to \<lparr>as_address = to, as_balance = 0, as_nonce = 0, as_chain = c, as_updated = dbTimestamp nano\<rparr>
       (w_accounts s)\<rparr>)"

definition transfer_mem :: "int \<Rightarrow> transfer_request \<Rightarrow> string \<Rightarrow> string \<Rightarrow> int \<Rightarrow> u64 \<Rightarrow> transfer_response wtx" where
  "transfer_mem nano req fr to amount chainID =
     bindW (getW3 (\<lambda>s. map_of (w_accounts s) fr)) (\<lambda>found.
     case found of
       None \<Rightarrow> failW (Status NotFound (''from account not found: '' @ trq_from req))
     | Some fromAcc \<Rightarrow>
         bindW (modW (opened nano to chainID)) (\<lambda>_.
         bindW (getW3 (\<lambda>s. the (map_of (w_accounts s) to))) (\<lambda>toAcc.
         if as_balance fromAcc < amount then failW (Status FailedPrecondition ''insufficient balance'')
         else
           let fromAcc' = fromAcc\<lparr>as_balance := as_balance fromAcc - amount, as_nonce := as_nonce fromAcc + 1, as_updated := dbTimestamp nano\<rparr>;
               toAcc' = toAcc\<lparr>as_balance := as_balance toAcc + amount, as_updated := dbTimestamp nano\<rparr>;
               tx = new_transfer_tx nano fr to amount (as_nonce fromAcc') chainID in
           bindW (modW (\<lambda>s. s\<lparr>w_accounts := AList.update to toAcc' (AList.update fr fromAcc' (w_accounts s)),
             w_localTx := AList.update (et_hash tx) tx (w_localTx s)\<rparr>)) (\<lambda>_.
           bindW (appendEventLog nano (Some (buildTransferLog nano tx))) (\<lambda>_.
           retW \<lparr>trs_tx = tx, trs_from = toPBAccount fromAcc', trs_to = toPBAccount toAcc'\<rparr>)))))"

definition Transfer :: "web3_server \<Rightarrow> int \<Rightarrow> transfer_request option \<Rightarrow> transfer_response wtx" where
  "Transfer sv nano req = (case req of
     None \<Rightarrow> failW (Status InvalidArgument ''request is required'')
   | Some r \<Rightarrow>
       bindW (liftW (checkChain sv (trq_chain r))) (\<lambda>chainID.
       let fr = w3_normalizeAddress (trq_from r); to = w3_normalizeAddress (trq_to r) in
       if fr = [] \<or> to = [] then failW (Status InvalidArgument ''from and to are required'')
       else if fr = to then failW (Status InvalidArgument ''from and to must be different'')
       else bindW (liftW (parsePositiveInt (trq_value r))) (\<lambda>amount.
       bindW (getW3 w_db) (\<lambda>db.
       case db of
         Some d \<Rightarrow> onDB (transferDB nano r fr to amount chainID) d
       | None \<Rightarrow> withLock (transfer_mem nano r fr to amount chainID)))))"

end
