(* ===== verification/Web3_Calls.thy ===== *)
theory Web3_Calls
  imports Web3_Server
begin

text \<open>
  \<open>cmd/web3-grpc-server/main.go\<close>, continued: transactions and receipts, the two streams, users, the
  check of the API key and the dispatch of a call. A stream is the list of the messages it sends; what
  \<open>Send\<close> answers is an argument.
\<close>

subsection \<open>Transactions and receipts\<close>

definition latest_head :: "web3_client \<Rightarrow> u64 \<Rightarrow> u64" where
  "latest_head cl bn = (case wcHead cl of Inl _ \<Rightarrow> 0 | Inr h \<Rightarrow> if h \<ge> bn then h - bn + 1 else 0)"

definition live_chain :: "web3_server \<Rightarrow> u64 \<Rightarrow> unit gres" where
  "live_chain sv c = (if c \<noteq> 0 \<and> c \<noteq> wsv_chain sv
     then Inl (Status InvalidArgument (''chain_id '' @ nat_str (unat c) @ '' does not match RPC chain '' @ nat_str (unat (wsv_chain sv))))
     else Inr ())"

definition getLiveTransaction :: "web3_server \<Rightarrow> int \<Rightarrow> string \<Rightarrow> u64 \<Rightarrow> (eth_transaction option) gres" where
  "getLiveTransaction sv nano hash c = (case wsv_rpc sv of
     None \<Rightarrow> Inr None
   | Some cl \<Rightarrow>
       case live_chain sv c of Inl e \<Rightarrow> Inl e | Inr _ \<Rightarrow>
       case wcTransactionByHash cl (HexToHash (wsv_geth sv) hash) of
         Inl _ \<Rightarrow> Inr None
       | Inr (tx, isPending) \<Rightarrow>
           let (bn, ok, conf) =
             (if isPending then (0, False, 0)
              else case wcTransactionReceipt cl (HexToHash (wsv_geth sv) hash) of
                Inl _ \<Rightarrow> (0, True, 0)
              | Inr rc \<Rightarrow> (rc_block rc, rc_status rc = 1, latest_head cl (rc_block rc))) in
           Inr (Some \<lparr>et_hash = hash, et_from = getFromAddress sv cl tx, et_to = to_text sv tx, et_value = int_str (td_value (stx_data tx)),
             et_block = bn, et_gas = td_gas (stx_data tx), et_nonce = td_nonce (stx_data tx), et_success = ok, et_chain = wsv_chain sv,
             et_confirmations = conf, et_state = stateByConfirmations conf ok isPending, et_updated = dbTimestamp nano\<rparr>))"

definition getLiveReceipt :: "web3_server \<Rightarrow> string \<Rightarrow> u64 \<Rightarrow> (pb_receipt option) gres" where
  "getLiveReceipt sv hash c = (case wsv_rpc sv of
     None \<Rightarrow> Inr None
   | Some cl \<Rightarrow>
       case live_chain sv c of Inl e \<Rightarrow> Inl e | Inr _ \<Rightarrow>
       case wcTransactionReceipt cl (HexToHash (wsv_geth sv) hash) of
         Inl _ \<Rightarrow> Inr None
       | Inr rc \<Rightarrow>
           let ok = (rc_status rc = 1) in
           Inr (Some \<lparr>pr_hash = hash, pr_block = rc_block rc, pr_gas_used = rc_gas_used rc, pr_success = ok,
             pr_state = stateByConfirmations (latest_head cl (rc_block rc)) ok False, pr_bloom = ''0x'' @ wcBloom cl rc\<rparr>))"

definition getLocalTxDB :: "string \<Rightarrow> web3_db \<Rightarrow> eth_transaction option" where
  "getLocalTxDB hash d = List.find (\<lambda>r. sql_eq (et_hash r) hash) (wdb_txs d)"

text \<open>The messages are also serialised for the log; they came over gRPC, so this cannot fail.\<close>

definition GetTransaction :: "web3_server \<Rightarrow> int \<Rightarrow> tx_hash_request option \<Rightarrow> eth_transaction wtx" where
  "GetTransaction sv nano req =
     bindW (liftW (validateHashRequest req)) (\<lambda>hash.
     bindW (liftW (getLiveTransaction sv nano hash (case req of None \<Rightarrow> 0 | Some r \<Rightarrow> thr_chain r))) (\<lambda>live.
     case live of
       Some tx \<Rightarrow> retW tx
     | None \<Rightarrow>
         bindW (getW3 w_db) (\<lambda>db.
         bindW (case db of Some d \<Rightarrow> retW (getLocalTxDB hash d) | None \<Rightarrow> withRLock (\<lambda>s. map_of (w_localTx s) hash)) (\<lambda>loc.
         case (case loc of Some tx \<Rightarrow> Some tx | None \<Rightarrow> map_of mockTxByHash hash) of
           None \<Rightarrow> failW (Status NotFound (''transaction not found: '' @ (case req of None \<Rightarrow> [] | Some r \<Rightarrow> thr_hash r)))
         | Some tx \<Rightarrow> retW (deriveState nano tx)))))"

definition GetTransactionReceipt :: "web3_server \<Rightarrow> int \<Rightarrow> tx_hash_request option \<Rightarrow> pb_receipt wtx" where
  "GetTransactionReceipt sv nano req =
     bindW (liftW (validateHashRequest req)) (\<lambda>hash.
     bindW (liftW (getLiveReceipt sv hash (case req of None \<Rightarrow> 0 | Some r \<Rightarrow> thr_chain r))) (\<lambda>live.
     case live of
       Some rc \<Rightarrow> retW rc
     | None \<Rightarrow>
         bindW (GetTransaction sv nano req) (\<lambda>tx.
         retW \<lparr>pr_hash = et_hash tx, pr_block = et_block tx, pr_gas_used = et_gas tx, pr_success = et_success tx, pr_state = et_state tx,
           pr_bloom = ''0x0123deadbeefcafe''\<rparr>)))"

subsection \<open>Streams\<close>

text \<open>\<open>Send\<close> on each message until one fails; the messages that went out.\<close>

fun send_each :: "('m \<Rightarrow> unit gres) \<Rightarrow> 'm list \<Rightarrow> unit gres \<times> 'm list" where
  "send_each sendf [] = (Inr (), [])"
| "send_each sendf (m # ms) = (case sendf m of
     Inl e \<Rightarrow> (Inl e, [])
   | Inr _ \<Rightarrow> (case send_each sendf ms of (r, out) \<Rightarrow> (r, m # out)))"

definition tx_wanted :: "subscribe_request \<Rightarrow> eth_transaction \<Rightarrow> bool" where
  "tx_wanted req tx \<longleftrightarrow> (sr_include_failed req \<or> et_state tx \<noteq> TX_STATE_FAILED) \<and>
     (sr_address req = [] \<or>
       (let addr = to_lower (trim_space (sr_address req)) in addr = to_lower (et_from tx) \<or> addr = to_lower (et_to tx)))"

definition tx_shape :: "subscribe_request \<Rightarrow> eth_transaction \<Rightarrow> eth_transaction" where
  "tx_shape req tx = (if sr_lightweight req then toLightweight tx else tx)"

text \<open>The transactions of one block: those not seen before are marked seen, and those with a receipt become items.\<close>

fun live_items :: "web3_server \<Rightarrow> web3_client \<Rightarrow> int \<Rightarrow> u64 \<Rightarrow> u64 \<Rightarrow> signed_tx list \<Rightarrow> string list \<Rightarrow> eth_transaction list \<times> string list" where
  "live_items sv cl nano latest n [] seen = ([], seen)"
| "live_items sv cl nano latest n (tx # txs) seen =
     (let g = wsv_geth sv; hash = to_lower (HashHex g (TxHash g tx)) in
      if hash \<in> set seen then live_items sv cl nano latest n txs seen
      else case wcTransactionReceipt cl (TxHash g tx) of
        Inl _ \<Rightarrow> live_items sv cl nano latest n txs (hash # seen)
      | Inr rc \<Rightarrow>
          let ok = (rc_status rc = 1); conf = latest - n + 1;
              item = \<lparr>et_hash = hash, et_from = getFromAddress sv cl tx, et_to = to_text sv tx, et_value = int_str (td_value (stx_data tx)),
                et_block = n, et_gas = td_gas (stx_data tx), et_nonce = td_nonce (stx_data tx), et_success = ok, et_chain = wsv_chain sv,
                et_confirmations = conf, et_state = stateByConfirmations conf ok False, et_updated = dbTimestamp nano\<rparr>
          in case live_items sv cl nano latest n txs (hash # seen) of (items, seen') \<Rightarrow> (item # items, seen'))"

fun live_blocks :: "web3_server \<Rightarrow> web3_client \<Rightarrow> int \<Rightarrow> u64 \<Rightarrow> u64 list \<Rightarrow> string list \<Rightarrow> eth_transaction list \<times> string list" where
  "live_blocks sv cl nano latest [] seen = ([], seen)"
| "live_blocks sv cl nano latest (n # ns) seen =
     (case wcBlockByNumber cl n of
        Inl _ \<Rightarrow> live_blocks sv cl nano latest ns seen
      | Inr blk \<Rightarrow>
          case live_items sv cl nano latest n (blk_txs blk) seen of (items, seen1) \<Rightarrow>
          case live_blocks sv cl nano latest ns seen1 of (later, seen2) \<Rightarrow> (items @ later, seen2))"

text \<open>One tick of \<open>streamLiveTransactions\<close> on the last processed number and the hashes seen.\<close>

definition poll_range :: "u64 \<Rightarrow> u64 \<Rightarrow> u64 list" where
  "poll_range lastProcessed latest = map of_nat [Suc (unat lastProcessed)..<Suc (unat latest)]"

definition streamLiveTick :: "web3_server \<Rightarrow> web3_client \<Rightarrow> (eth_transaction \<Rightarrow> unit gres) \<Rightarrow> int \<Rightarrow> subscribe_request \<Rightarrow>
    u64 \<times> string list \<Rightarrow> unit gres \<times> eth_transaction list \<times> u64 \<times> string list" where
  "streamLiveTick sv cl sendf nano req = (\<lambda>(lastProcessed, seen).
     case wcHead cl of
       Inl _ \<Rightarrow> (Inr (), [], lastProcessed, seen)
     | Inr latest \<Rightarrow>
         if latest \<le> lastProcessed then (Inr (), [], lastProcessed, seen)
         else case live_blocks sv cl nano latest (poll_range lastProcessed latest) seen of (items, seen') \<Rightarrow>
           case send_each sendf (map (tx_shape req) (filter (tx_wanted req) items)) of (r, out) \<Rightarrow> (r, out, latest, seen'))"

text \<open>The fixed sequence of the mock mode.\<close>

definition SubscribeTransactions_mock :: "(eth_transaction \<Rightarrow> unit gres) \<Rightarrow> int \<Rightarrow> subscribe_request \<Rightarrow> unit gres \<times> eth_transaction list" where
  "SubscribeTransactions_mock sendf nano req =
     (if sr_chain req \<noteq> 0 \<and> sr_chain req \<noteq> 1 then (Inl (chain_error ''unsupported chain_id: '' (sr_chain req)), [])
      else send_each sendf (map (tx_shape req) (filter (tx_wanted req)
        (map (\<lambda>h. deriveState nano (the (map_of mockTxByHash h))) [''0xpending01'', ''0xdef456'', ''0xabc123'']))))"

text \<open>The subscription up to its first tick.\<close>

definition SubscribeTransactions :: "web3_server \<Rightarrow> (eth_transaction \<Rightarrow> unit gres) \<Rightarrow> int \<Rightarrow> subscribe_request option \<Rightarrow>
    unit gres \<times> eth_transaction list \<times> (u64 \<times> string list) option" where
  "SubscribeTransactions sv sendf nano req = (case req of
     None \<Rightarrow> (Inl (Status InvalidArgument ''request is required''), [], None)
   | Some r \<Rightarrow>
       case wsv_rpc sv of
         None \<Rightarrow> (case SubscribeTransactions_mock sendf nano r of (x, out) \<Rightarrow> (x, out, None))
       | Some cl \<Rightarrow>
           case live_chain sv (sr_chain r) of Inl e \<Rightarrow> (Inl e, [], None) | Inr _ \<Rightarrow>
           case wcHead cl of
             Inl e \<Rightarrow> (Inl (Status Unavailable (''read latest header failed: '' @ err_text e)), [], None)
           | Inr latest \<Rightarrow> (Inr (), [], Some (latest, [])))"

definition matchLogFilter :: "log_event \<Rightarrow> subscribe_logs_request \<Rightarrow> bool" where
  "matchLogFilter ev req \<longleftrightarrow>
     \<not> (sl_chain req \<noteq> 0 \<and> le_chain ev \<noteq> sl_chain req) \<and>
     \<not> (w3_normalizeAddress (sl_contract req) \<noteq> [] \<and> w3_normalizeAddress (le_contract ev) \<noteq> w3_normalizeAddress (sl_contract req)) \<and>
     \<not> (trim_space (sl_topic0 req) \<noteq> [] \<and> firstTopic (le_topics ev) \<noteq> trim_space (sl_topic0 req))"

definition log_shape :: "subscribe_logs_request \<Rightarrow> log_event \<Rightarrow> log_event" where
  "log_shape req ev = (if sl_lightweight req
     then \<lparr>le_tx_hash = le_tx_hash ev, le_block = le_block ev, le_chain = le_chain ev, le_contract = [], le_topics = [firstTopic (le_topics ev)],
       le_data = [], le_index = 0, le_name = le_name ev, le_updated = le_updated ev\<rparr>
     else ev)"

text \<open>Memory mode: the logs stored so far, once.\<close>

definition SubscribeLogs_mem :: "(log_event \<Rightarrow> unit gres) \<Rightarrow> subscribe_logs_request \<Rightarrow> (unit gres \<times> log_event list) wtx" where
  "SubscribeLogs_mem sendf req =
     bindW (withRLock w_logs) (\<lambda>logs. retW (send_each sendf (map (log_shape req) (filter (\<lambda>ev. matchLogFilter ev req) logs))))"

text \<open>Database mode: one tick, the next 200 rows above the last id.\<close>

definition log_where :: "subscribe_logs_request \<Rightarrow> event_row3 \<Rightarrow> bool" where
  "log_where req r \<longleftrightarrow> (sl_chain req = 0 \<or> le_chain (er_event r) = sl_chain req) \<and>
     (sql_eq (w3_normalizeAddress (sl_contract req)) [] \<or> sql_eq (le_contract (er_event r)) (w3_normalizeAddress (sl_contract req))) \<and>
     (sql_eq (sl_topic0 req) [] \<or> sql_eq (er_topic0 r) (sl_topic0 req))"

definition log_batch :: "subscribe_logs_request \<Rightarrow> u64 \<Rightarrow> web3_db \<Rightarrow> event_row3 list" where
  "log_batch req lastID d = take 200 (sort_key er_id (filter (\<lambda>r. er_id r > lastID \<and> log_where req r) (wdb_events d)))"

text \<open>The id moves with each row that is read, the row whose \<open>Send\<close> fails included.\<close>

fun send_rows :: "(log_event \<Rightarrow> unit gres) \<Rightarrow> subscribe_logs_request \<Rightarrow> event_row3 list \<Rightarrow> u64 \<Rightarrow> unit gres \<times> log_event list \<times> u64" where
  "send_rows sendf req [] lastID = (Inr (), [], lastID)"
| "send_rows sendf req (r # rs) lastID = (case sendf (log_shape req (er_event r)) of
     Inl e \<Rightarrow> (Inl e, [], er_id r)
   | Inr _ \<Rightarrow> (case send_rows sendf req rs (er_id r) of (x, out, l) \<Rightarrow> (x, log_shape req (er_event r) # out, l)))"

definition SubscribeLogs_tick :: "(log_event \<Rightarrow> unit gres) \<Rightarrow> subscribe_logs_request \<Rightarrow> u64 \<Rightarrow> web3_db \<Rightarrow> unit gres \<times> log_event list \<times> u64" where
  "SubscribeLogs_tick sendf req lastID d = send_rows sendf req (log_batch req lastID d) lastID"

subsection \<open>Users\<close>

definition find_user :: "string \<Rightarrow> web3_db \<Rightarrow> pb_user option" where
  "find_user uid d = List.find (\<lambda>u. sql_eq (pu_id u) uid) (wdb_users d)"

definition insert_user :: "pb_user \<Rightarrow> web3_db \<Rightarrow> pb_user gres \<times> web3_db" where
  "insert_user u d =
     (if \<exists>v\<in>set (wdb_users d). sql_eq (pu_id v) (pu_id u) \<or> sql_eq (pu_email v) (pu_email u)
      then (Inl (Status AlreadyExists (''email already exists: '' @ pu_email u)), d)
      else (Inr u, d\<lparr>wdb_users := wdb_users d @ [u]\<rparr>))"

definition CreateUser :: "web3_server \<Rightarrow> int \<Rightarrow> create_user_request option \<Rightarrow> pb_user wtx" where
  "CreateUser sv nano req = (case req of
     None \<Rightarrow> failW (Status InvalidArgument ''request is required'')
   | Some r \<Rightarrow>
       let name = trim_space (cur_name r); email = to_lower (trim_space (cur_email r)) in
       if name = [] \<or> email = [] then failW (Status InvalidArgument ''name and email are required'')
       else bindW (liftW (checkChain sv (cur_chain r))) (\<lambda>chainID.
       let u = \<lparr>pu_id = generateUserID nano, pu_name = name, pu_email = email, pu_chain = chainID, pu_created = dbTimestamp nano,
             pu_updated = dbTimestamp nano\<rparr> in
       bindW (getW3 w_db) (\<lambda>db.
       case db of
         Some d \<Rightarrow> onDB (insert_user u) d
       | None \<Rightarrow> withLock (bindW (modW (\<lambda>s. s\<lparr>w_users := AList.update (pu_id u) u (w_users s)\<rparr>)) (\<lambda>_. retW u)))))"

definition GetUser :: "string option \<Rightarrow> pb_user wtx" where
  "GetUser req = (case req of
     None \<Rightarrow> failW (Status InvalidArgument ''user_id is required'')
   | Some uid \<Rightarrow>
       if trim_space uid = [] then failW (Status InvalidArgument ''user_id is required'')
       else bindW (getW3 w_db) (\<lambda>db.
       bindW (case db of Some d \<Rightarrow> retW (find_user uid d) | None \<Rightarrow> withRLock (\<lambda>s. map_of (w_users s) uid)) (\<lambda>found.
       case found of
         None \<Rightarrow> failW (Status NotFound (''user not found: '' @ uid))
       | Some u \<Rightarrow> retW u)))"

definition insert_binding :: "int \<Rightarrow> string \<Rightarrow> string \<Rightarrow> u64 \<Rightarrow> web3_db \<Rightarrow> web3_db" where
  "insert_binding nano uid addr c d = d\<lparr>wdb_bindings :=
     upsert_where (\<lambda>b. sql_eq (uar_user b) uid \<and> sql_eq (uar_address b) addr) (\<lambda>b. b)
       \<lparr>uar_user = uid, uar_address = addr, uar_chain = c, uar_created = dbTimestamp nano\<rparr> (wdb_bindings d)\<rparr>"

definition bind_mem :: "string \<Rightarrow> string \<Rightarrow> web3 \<Rightarrow> web3" where
  "bind_mem uid addr s =
     (let old = (case map_of (w_userAcc s) uid of None \<Rightarrow> [] | Some as \<Rightarrow> as) in
      s\<lparr>w_userAcc := AList.update uid (if addr \<in> set old then old else old @ [addr]) (w_userAcc s)\<rparr>)"

definition BindUserAccount :: "web3_server \<Rightarrow> int \<Rightarrow> bind_request option \<Rightarrow> (pb_user \<times> pb_account) wtx" where
  "BindUserAccount sv nano req = (case req of
     None \<Rightarrow> failW (Status InvalidArgument ''user_id is required'')
   | Some r \<Rightarrow>
       if trim_space (bur_user r) = [] then failW (Status InvalidArgument ''user_id is required'')
       else
       let addr = w3_normalizeAddress (bur_address r) in
       if addr = [] then failW (Status InvalidArgument ''address is required'')
       else
       bindW (GetUser (Some (bur_user r))) (\<lambda>user.
       bindW (GetAccount sv (Some \<lparr>gar_address = addr, gar_chain = bur_chain r\<rparr>)) (\<lambda>account.
       bindW (getW3 w_db) (\<lambda>db.
       bindW (case db of
           Some d \<Rightarrow> modW (\<lambda>s. s\<lparr>w_db := Some (insert_binding nano (bur_user r) addr (pa_chain account) d)\<rparr>)
         | None \<Rightarrow> withLock (modW (bind_mem (bur_user r) addr))) (\<lambda>_.
       retW (user, account))))))"

definition list_accounts_db :: "list_accounts_request \<Rightarrow> web3_db \<Rightarrow> pb_account list" where
  "list_accounts_db r d =
     concat (map (\<lambda>b. map (\<lambda>a. \<lparr>pa_address = arow_address a, pa_balance = arow_balance a, pa_nonce = arow_nonce a, pa_chain = arow_chain a,
         pa_updated = arow_updated a\<rparr>) (filter (\<lambda>a. sql_eq (arow_address a) (uar_address b)) (wdb_accounts d)))
       (sort_key uar_created (filter (\<lambda>b. sql_eq (uar_user b) (lar_user r) \<and> (lar_chain r = 0 \<or> uar_chain b = lar_chain r)) (wdb_bindings d))))"

text \<open>Memory mode: accounts that cannot be read are left out.\<close>

fun get_each :: "web3_server \<Rightarrow> u64 \<Rightarrow> string list \<Rightarrow> (pb_account list) wtx" where
  "get_each sv c [] = retW []"
| "get_each sv c (addr # addrs) = (\<lambda>s. case GetAccount sv (Some \<lparr>gar_address = addr, gar_chain = c\<rparr>) s of
     (None, s') \<Rightarrow> (None, s')
   | (Some (Inl _), s') \<Rightarrow> get_each sv c addrs s'
   | (Some (Inr acc), s') \<Rightarrow> bindW (get_each sv c addrs) (\<lambda>rest. retW (acc # rest)) s')"

definition ListUserAccounts :: "web3_server \<Rightarrow> list_accounts_request option \<Rightarrow> (pb_user \<times> pb_account list) wtx" where
  "ListUserAccounts sv req = (case req of
     None \<Rightarrow> failW (Status InvalidArgument ''user_id is required'')
   | Some r \<Rightarrow>
       if trim_space (lar_user r) = [] then failW (Status InvalidArgument ''user_id is required'')
       else
       bindW (GetUser (Some (lar_user r))) (\<lambda>user.
       bindW (getW3 w_db) (\<lambda>db.
       case db of
         Some d \<Rightarrow> retW (user, list_accounts_db r d)
       | None \<Rightarrow>
           bindW (withRLock (\<lambda>s. case map_of (w_userAcc s) (lar_user r) of None \<Rightarrow> [] | Some as \<Rightarrow> as)) (\<lambda>addrs.
           bindW (get_each sv (lar_chain r) addrs) (\<lambda>accs. retW (user, accs))))))"

subsection \<open>Authorization and dispatch\<close>

definition authorize :: "string list \<Rightarrow> string \<Rightarrow> unit gres" where
  "authorize keys apiKey =
     (let want = trim_space apiKey; got = trim_space (case keys of [] \<Rightarrow> [] | k # _ \<Rightarrow> k) in
      if got = [] \<and> want = [] then Inr ()
      else if got \<noteq> want then Inl (Status Unauthenticated ''invalid x-api-key'')
      else Inr ())"

datatype web3_call =
    CallGetTransaction "tx_hash_request option"
  | CallGetTransactionReceipt "tx_hash_request option"
  | CallSubscribeTransactions "subscribe_request option"
  | CallSubscribeLogs "subscribe_logs_request"
  | CallCreateAccount "create_account_request option"
  | CallGetAccount "get_account_request option"
  | CallTransfer "transfer_request option"
  | CallCreateUser "create_user_request option"
  | CallGetUser "string option"
  | CallBindUserAccount "bind_request option"
  | CallListUserAccounts "list_accounts_request option"

datatype web3_reply =
    ReplyTransaction eth_transaction
  | ReplyReceipt pb_receipt
  | ReplyStream "eth_transaction list"
  | ReplyLogs "log_event list"
  | ReplyAccount pb_account
  | ReplyTransfer transfer_response
  | ReplyUser pb_user
  | ReplyBinding "pb_user \<times> pb_account"
  | ReplyAccounts "pb_user \<times> pb_account list"

definition mapW :: "('a \<Rightarrow> 'b) \<Rightarrow> 'a wtx \<Rightarrow> 'b wtx" where
  "mapW f m = bindW m (\<lambda>x. retW (f x))"

text \<open>A call of the service; the streams up to their first tick, to a receiver that takes every message. The
  transaction stream neither reads nor writes the state and does not take the lock.\<close>

fun web3_method :: "web3_server \<Rightarrow> int \<Rightarrow> web3_call \<Rightarrow> web3_reply wtx" where
  "web3_method sv nano (CallGetTransaction r) = mapW ReplyTransaction (GetTransaction sv nano r)"
| "web3_method sv nano (CallGetTransactionReceipt r) = mapW ReplyReceipt (GetTransactionReceipt sv nano r)"
| "web3_method sv nano (CallSubscribeTransactions r) =
     (case SubscribeTransactions sv (\<lambda>_. Inr ()) nano r of (x, out, _) \<Rightarrow> bindW (liftW x) (\<lambda>_. retW (ReplyStream out)))"
| "web3_method sv nano (CallSubscribeLogs r) =
     bindW (getW3 w_db) (\<lambda>db. case db of
       Some d \<Rightarrow> retW (ReplyLogs (fst (snd (SubscribeLogs_tick (\<lambda>_. Inr ()) r 0 d))))
     | None \<Rightarrow> mapW (\<lambda>x. ReplyLogs (snd x)) (SubscribeLogs_mem (\<lambda>_. Inr ()) r))"
| "web3_method sv nano (CallCreateAccount r) = mapW ReplyAccount (CreateAccount sv nano r)"
| "web3_method sv nano (CallGetAccount r) = mapW ReplyAccount (GetAccount sv r)"
| "web3_method sv nano (CallTransfer r) = mapW ReplyTransfer (Transfer sv nano r)"
| "web3_method sv nano (CallCreateUser r) = mapW ReplyUser (CreateUser sv nano r)"
| "web3_method sv nano (CallGetUser r) = mapW ReplyUser (GetUser r)"
| "web3_method sv nano (CallBindUserAccount r) = mapW ReplyBinding (BindUserAccount sv nano r)"
| "web3_method sv nano (CallListUserAccounts r) = mapW ReplyAccounts (ListUserAccounts sv r)"

text \<open>The interceptors.\<close>

definition web3_serve :: "web3_server \<Rightarrow> string \<Rightarrow> string list \<Rightarrow> int \<Rightarrow> web3_call \<Rightarrow> web3_reply wtx" where
  "web3_serve sv apiKey keys nano call =
     (case authorize keys apiKey of Inl e \<Rightarrow> failW e | Inr _ \<Rightarrow> web3_method sv nano call)"

text \<open>The start of the program: MySQL if it can be opened, otherwise the maps.\<close>

definition web3_start :: "web3_server \<Rightarrow> int \<Rightarrow> web3_db option \<Rightarrow> web3" where
  "web3_start sv nano db =
     (let s = \<lparr>w_db = map_option (seedDefaultAccountsDB sv nano) db, w_mu = False, w_accounts = [], w_localTx = [], w_users = [], w_userAcc = [],
          w_logs = []\<rparr> in
      case db of None \<Rightarrow> snd (seedDefaultAccounts sv nano s) | Some _ \<Rightarrow> s)"

inductive web3_step :: "web3_server \<Rightarrow> string \<Rightarrow> web3 \<Rightarrow> web3 \<Rightarrow> bool" for sv apiKey where
  call: "web3_step sv apiKey s (snd (web3_serve sv apiKey keys nano c s))"

inductive_cases web3_stepE: "web3_step sv apiKey s s'"

end
