(* ===== verification/Web3_Bank.thy ===== *)
theory Web3_Bank
  imports Web3_Calls
begin

text \<open>
  The gRPC service as a bank: accounts are opened and amounts are moved between them. Both ways of
  keeping the accounts, tables and maps, refine this specification; the locale \<open>bank_store\<close> is the
  contract.
\<close>

subsection \<open>The specification\<close>

type_synonym bank = "string \<rightharpoonup> int"

definition bank_ok :: "bank \<Rightarrow> bool" where
  "bank_ok m \<longleftrightarrow> finite (dom m) \<and> (\<forall>k b. m k = Some b \<longrightarrow> 0 \<le> b)"

definition held :: "bank \<Rightarrow> string \<Rightarrow> int" where
  "held m k = (case m k of None \<Rightarrow> 0 | Some b \<Rightarrow> b)"

definition bank_total :: "bank \<Rightarrow> int" where
  "bank_total m = (\<Sum>k\<in>dom m. held m k)"

definition bank_move :: "string \<Rightarrow> string \<Rightarrow> int \<Rightarrow> bank \<Rightarrow> bank" where
  "bank_move fr to amount m = m(fr \<mapsto> held m fr - amount, to \<mapsto> held m to + amount)"

inductive bank_step :: "bank \<Rightarrow> bank \<Rightarrow> bool" where
  open_account: "m k = None \<Longrightarrow> 0 \<le> v \<Longrightarrow> bank_step m (m(k \<mapsto> v))"
| move: "fr \<noteq> to \<Longrightarrow> 0 < amount \<Longrightarrow> m fr \<noteq> None \<Longrightarrow> amount \<le> held m fr \<Longrightarrow> bank_step m (bank_move fr to amount m)"

inductive_cases bank_stepE: "bank_step m m'"

lemma held_simps [simp]: "m k = Some b \<Longrightarrow> held m k = b" "m k = None \<Longrightarrow> held m k = 0"
  by (simp_all add: held_def)

lemma bank_total_upd:
  assumes "finite (dom m)"
  shows "bank_total (m(k \<mapsto> v)) = bank_total m - held m k + v"
proof -
  have "bank_total (m(k \<mapsto> v)) = v + (\<Sum>x\<in>dom m - {k}. held (m(k \<mapsto> v)) x)"
    using assms by (simp add: bank_total_def sum.insert_remove held_def)
  also have "(\<Sum>x\<in>dom m - {k}. held (m(k \<mapsto> v)) x) = (\<Sum>x\<in>dom m - {k}. held m x)"
    by (rule sum.cong) (auto simp: held_def)
  also have "\<dots> = bank_total m - held m k"
    using assms by (cases "k \<in> dom m") (auto simp: bank_total_def sum_diff1 held_def split: option.split)
  finally show ?thesis by linarith
qed

lemma bank_move_total: "finite (dom m) \<Longrightarrow> fr \<noteq> to \<Longrightarrow> bank_total (bank_move fr to amount m) = bank_total m"
  by (simp add: bank_move_def bank_total_upd held_def)

lemma bank_ok_upd: "bank_ok m \<Longrightarrow> 0 \<le> v \<Longrightarrow> bank_ok (m(k \<mapsto> v))"
  by (auto simp: bank_ok_def)

lemma held_nonneg: "bank_ok m \<Longrightarrow> 0 \<le> held m k"
  by (auto simp: bank_ok_def held_def split: option.split)

lemma bank_step_ok: "bank_step m m' \<Longrightarrow> bank_ok m \<Longrightarrow> bank_ok m'"
  by (induction rule: bank_step.induct) (simp_all add: bank_move_def bank_ok_upd held_nonneg)

lemma bank_step_total: "bank_step m m' \<Longrightarrow> bank_ok m \<Longrightarrow> bank_total m \<le> bank_total m'"
  by (induction rule: bank_step.induct) (auto simp: bank_ok_def bank_total_upd bank_move_total)

text \<open>A store that keeps accounts: what every operation of it does to the accounts is a run of the bank.\<close>

locale bank_store =
  fixes ok :: "'s \<Rightarrow> bool" and view :: "'s \<Rightarrow> bank" and step :: "'s \<Rightarrow> 's \<Rightarrow> bool"
  assumes view_ok: "ok s \<Longrightarrow> bank_ok (view s)"
    and refines: "step s s' \<Longrightarrow> ok s \<Longrightarrow> ok s' \<and> bank_step\<^sup>*\<^sup>* (view s) (view s')"
begin

lemma run_refines: "step\<^sup>*\<^sup>* s s' \<Longrightarrow> ok s \<Longrightarrow> ok s' \<and> bank_step\<^sup>*\<^sup>* (view s) (view s')"
  by (induction rule: rtranclp_induct) (auto dest: refines intro: rtranclp_trans)

lemma run_total:
  assumes "step\<^sup>*\<^sup>* s s'" "ok s"
  shows "bank_total (view s) \<le> bank_total (view s') \<and> (\<forall>k. 0 \<le> held (view s') k)"
proof -
  have "bank_ok m' \<and> bank_total m \<le> bank_total m'" if "bank_step\<^sup>*\<^sup>* m m'" "bank_ok m" for m m'
    using that by (induction rule: rtranclp_induct) (auto dest: bank_step_ok bank_step_total)
  then show ?thesis using run_refines [OF assms] view_ok [OF assms(2)]
    by (metis held_nonneg)
qed

end

subsection \<open>The tables\<close>

lemma trim_right_fixed: "s = [] \<or> \<not> p (last s) \<Longrightarrow> trim_right p s = s"
  by (cases s rule: rev_cases) (auto simp: trim_right_def)

lemma trim_right_last: "trim_right p s = [] \<or> \<not> p (last (trim_right p s))"
  using hd_dropWhile [of p "rev s"] by (auto simp: trim_right_def last_rev)

lemma lower_char_space: "lower_char c = CHR '' '' \<longleftrightarrow> c = CHR '' ''"
  by (cases "65 \<le> (of_char c :: nat) \<and> of_char c \<le> (90 :: nat)") (auto simp: lower_char_def Let_def char_of_eq_iff take_bit_eq_mod)

lemma coll_normalized: "coll (w3_normalizeAddress a) = w3_normalizeAddress a"
proof -
  let ?s = "trim_space a"
  have "?s = [] \<or> \<not> is_space (last ?s)" unfolding trim_space_def by (rule trim_right_last)
  then have "to_lower ?s = [] \<or> last (to_lower ?s) \<noteq> CHR '' ''"
    by (auto simp: to_lower_def last_map lower_char_space is_space_def)
  then show ?thesis by (auto simp: coll_def w3_normalizeAddress_def intro: trim_right_fixed)
qed

definition row_key :: "account_row \<Rightarrow> string" where
  "row_key r = coll (arow_address r)"

definition row_bal :: "account_row \<Rightarrow> int" where
  "row_bal r = (case big_set_string (arow_balance r) of None \<Rightarrow> 0 | Some b \<Rightarrow> b)"

definition row_ok :: "account_row \<Rightarrow> bool" where
  "row_ok r \<longleftrightarrow> (\<exists>b. big_set_string (arow_balance r) = Some b \<and> 0 \<le> b)"

definition db_bank :: "web3_db \<Rightarrow> bank" where
  "db_bank d = (\<lambda>k. map_option row_bal (List.find (\<lambda>r. row_key r = k) (wdb_accounts d)))"

definition db_ok :: "web3_db \<Rightarrow> bool" where
  "db_ok d \<longleftrightarrow> distinct (map row_key (wdb_accounts d)) \<and> list_all row_ok (wdb_accounts d)"

lemma find_account_key: "find_account addr d = List.find (\<lambda>r. row_key r = coll addr) (wdb_accounts d)"
  by (simp add: find_account_def sql_eq_def row_key_def)

lemma db_bank_find: "find_account addr d = Some r \<Longrightarrow> db_bank d (coll addr) = Some (row_bal r)"
  "find_account addr d = None \<Longrightarrow> db_bank d (coll addr) = None"
  by (simp_all add: db_bank_def find_account_key)

lemma db_bank_ok:
  assumes "db_ok d"
  shows "bank_ok (db_bank d)"
proof -
  have "dom (db_bank d) \<subseteq> row_key ` set (wdb_accounts d)"
    by (auto simp: db_bank_def dest: find_SomeD)
  then have "finite (dom (db_bank d))" by (rule finite_subset) simp
  moreover have "0 \<le> b" if "db_bank d k = Some b" for k b
    using that assms by (auto simp: db_bank_def db_ok_def list_all_iff row_ok_def row_bal_def dest!: find_SomeD)
  ultimately show ?thesis by (simp add: bank_ok_def)
qed

lemma db_ok_append:
  "db_ok d \<Longrightarrow> find_account (arow_address r) d = None \<Longrightarrow> row_ok r \<Longrightarrow> db_ok (d\<lparr>wdb_accounts := wdb_accounts d @ [r]\<rparr>)"
  by (auto simp: db_ok_def find_account_key find_None_iff_none row_key_def)

lemma db_bank_append:
  assumes "find_account (arow_address r) d = None"
  shows "db_bank (d\<lparr>wdb_accounts := wdb_accounts d @ [r]\<rparr>) = (db_bank d)(row_key r \<mapsto> row_bal r)"
  using assms by (auto simp: db_bank_def find_account_key find_append row_key_def fun_eq_iff split: option.split)

lemma createAccountDB_bank:
  assumes "createAccountDB nano addr bal chainID d = (r, d')" "db_ok d" "0 \<le> bal"
  shows "db_ok d' \<and> (case r of Inl e \<Rightarrow> d' = d | Inr a \<Rightarrow> db_bank d (coll addr) = None \<and> db_bank d' = (db_bank d)(coll addr \<mapsto> bal))"
  using assms db_ok_append [of d] db_bank_append [of _ d]
  by (auto simp: createAccountDB_def row_key_def row_bal_def row_ok_def db_bank_find split: if_splits)

text \<open>The two updates of a transfer.\<close>

lemma find_upd_key:
  assumes "\<And>r. row_key (f r) = row_key r"
  shows "List.find (\<lambda>r. row_key r = k) (upd_where (\<lambda>r. sql_eq (arow_address r) addr) f t) =
    map_option (\<lambda>r. if k = coll addr then f r else r) (List.find (\<lambda>r. row_key r = k) t)"
proof -
  have "List.find (\<lambda>r. row_key r = k) (upd_where (\<lambda>r. sql_eq (arow_address r) addr) f t) =
      map_option (\<lambda>r. if sql_eq (arow_address r) addr then f r else r) (List.find (\<lambda>r. row_key r = k) t)"
    by (rule find_upd_where) (simp add: assms)
  then show ?thesis by (auto simp: sql_eq_def row_key_def dest!: find_SomeD intro!: option.map_cong0 split: option.split)
qed

definition set_bal :: "int \<Rightarrow> (account_row \<Rightarrow> account_row) \<Rightarrow> bool" where
  "set_bal v f \<longleftrightarrow> (\<forall>r. row_key (f r) = row_key r \<and> row_bal (f r) = v \<and> row_ok (f r))"

lemma db_upd_bal:
  assumes "db_ok d" "set_bal v f" "find_account addr d \<noteq> None"
  shows "db_ok (d\<lparr>wdb_accounts := upd_where (\<lambda>r. sql_eq (arow_address r) addr) f (wdb_accounts d)\<rparr>) \<and>
    db_bank (d\<lparr>wdb_accounts := upd_where (\<lambda>r. sql_eq (arow_address r) addr) f (wdb_accounts d)\<rparr>) = (db_bank d)(coll addr \<mapsto> v)"
proof
  have k: "row_key (f r) = row_key r" "row_bal (f r) = v" "row_ok (f r)" for r using assms(2) by (auto simp: set_bal_def)
  show "db_ok (d\<lparr>wdb_accounts := upd_where (\<lambda>r. sql_eq (arow_address r) addr) f (wdb_accounts d)\<rparr>)"
    using assms(1) k by (auto simp: db_ok_def map_upd_where list_all_iff dest!: set_upd_where)
  show "db_bank (d\<lparr>wdb_accounts := upd_where (\<lambda>r. sql_eq (arow_address r) addr) f (wdb_accounts d)\<rparr>) = (db_bank d)(coll addr \<mapsto> v)"
    using assms(3) k by (auto simp: db_bank_def find_upd_key find_account_key fun_eq_iff option.map_ident)
qed

lemma db_bank_cong: "wdb_accounts d' = wdb_accounts d \<Longrightarrow> db_bank d' = db_bank d \<and> db_ok d' = db_ok d"
  by (simp add: db_bank_def db_ok_def)

lemma write_sides_bank:
  assumes "db_ok d" "coll fr \<noteq> coll to" "find_account fr d \<noteq> None" "toExists \<longleftrightarrow> find_account to d \<noteq> None" "0 \<le> newFrom" "0 \<le> newTo"
  shows "db_ok (d\<lparr>wdb_accounts := write_sides nano fr to newFrom n toExists newTo c (wdb_accounts d)\<rparr>) \<and>
    db_bank (d\<lparr>wdb_accounts := write_sides nano fr to newFrom n toExists newTo c (wdb_accounts d)\<rparr>) =
      (db_bank d)(coll fr \<mapsto> newFrom, coll to \<mapsto> newTo)"
proof -
  let ?f = "\<lambda>r. r\<lparr>arow_balance := int_str newFrom, arow_nonce := n, arow_updated := dbTimestamp nano\<rparr>"
  let ?g = "\<lambda>r. r\<lparr>arow_balance := int_str newTo, arow_updated := dbTimestamp nano\<rparr>"
  let ?d = "d\<lparr>wdb_accounts := upd_where (\<lambda>r. sql_eq (arow_address r) fr) ?f (wdb_accounts d)\<rparr>"
  have sb: "set_bal newFrom ?f" "set_bal newTo ?g" using assms(5,6) by (simp_all add: set_bal_def row_key_def row_bal_def row_ok_def)
  note d = db_upd_bal [OF assms(1) sb(1) assms(3)]
  have "row_key (?f r) = row_key r" for r by (simp add: row_key_def)
  then have f: "find_account to ?d \<noteq> None \<longleftrightarrow> toExists"
    using assms(2,4) by (simp add: find_account_key find_upd_key)
  show ?thesis
  proof (cases toExists)
    case True
    then show ?thesis using db_upd_bal [OF conjunct1 [OF d] sb(2), of to] f d by (simp add: write_sides_def)
  next
    case False
    let ?r = "\<lparr>arow_address = to, arow_balance = int_str newTo, arow_nonce = 0, arow_chain = c, arow_updated = dbTimestamp nano\<rparr>"
    have "find_account (arow_address ?r) ?d = None" using f False by simp
    from db_ok_append [OF conjunct1 [OF d] this] db_bank_append [OF this] show ?thesis
      using False assms(6) d by (simp add: write_sides_def row_ok_def row_bal_def row_key_def)
  qed
qed

lemma transferDB_bank:
  assumes "transferDB nano req fr to amount chainID d = (r, d')" "db_ok d" "coll fr \<noteq> coll to" "0 < amount"
  shows "db_ok d' \<and> (case r of
      Inl e \<Rightarrow> d' = d
    | Inr x \<Rightarrow> db_bank d (coll fr) \<noteq> None \<and> amount \<le> held (db_bank d) (coll fr) \<and> db_bank d' = bank_move (coll fr) (coll to) amount (db_bank d) \<and>
        getLocalTxDB (et_hash (trs_tx x)) d' = Some (trs_tx x))"
proof (cases r)
  case (Inl e)
  then show ?thesis using assms(1,2) by (auto simp: transferDB_def Let_def split: sum.splits prod.splits if_splits)
next
  case (Inr x)
  obtain fb fn te tb tn where f: "from_side (trq_from req) fr amount chainID d = Inr (fb, fn)" and t: "to_side to chainID d = Inr (te, tb, tn)"
    using assms(1) Inr by (auto simp: transferDB_def Let_def split: sum.splits prod.splits if_splits)
  have f': "find_account fr d \<noteq> None" "held (db_bank d) (coll fr) = fb" "db_bank d (coll fr) = Some fb" "amount \<le> fb"
    using f db_bank_find [of fr d] by (auto simp: from_side_def row_bal_def split: option.splits if_splits)
  have t': "te \<longleftrightarrow> find_account to d \<noteq> None" "held (db_bank d) (coll to) = tb"
    using t db_bank_find [of to d] by (auto simp: to_side_def row_bal_def split: option.splits if_splits)
  have tb: "0 \<le> tb" using held_nonneg [OF db_bank_ok [OF assms(2)], of "coll to"] t' by simp
  let ?d = "d\<lparr>wdb_accounts := write_sides nano fr to (fb - amount) (fn + 1) te (tb + amount) chainID (wdb_accounts d)\<rparr>"
  have w: "db_ok ?d \<and> db_bank ?d = bank_move (coll fr) (coll to) amount (db_bank d)"
    unfolding bank_move_def t'(2) f'(2) using write_sides_bank [OF assms(2,3) f'(1) t'(1)] f'(4) assms(4) tb by simp
  have d': "wdb_accounts d' = wdb_accounts ?d" "getLocalTxDB (et_hash (trs_tx x)) d' = Some (trs_tx x)"
    using assms(1) Inr f t
    by (auto simp: transferDB_def Let_def insert_event_def getLocalTxDB_def find_append split: if_splits option.split dest!: find_SomeD)
  then show ?thesis using w f' Inr db_bank_cong [OF d'(1)] by simp
qed

subsection \<open>The maps\<close>

definition mem_bank :: "web3 \<Rightarrow> bank" where
  "mem_bank s = (\<lambda>k. map_option as_balance (map_of (w_accounts s) k))"

definition mem_ok :: "web3 \<Rightarrow> bool" where
  "mem_ok s \<longleftrightarrow> (\<forall>k a. map_of (w_accounts s) k = Some a \<longrightarrow> 0 \<le> as_balance a)"

lemma mem_bank_ok: "mem_ok s \<Longrightarrow> bank_ok (mem_bank s)"
  using finite_dom_map_of [of "w_accounts s"] by (auto simp: bank_ok_def mem_bank_def mem_ok_def dom_def)

lemma mem_cong: "w_accounts s' = w_accounts s \<Longrightarrow> mem_bank s' = mem_bank s \<and> mem_ok s' = mem_ok s"
  by (simp add: mem_bank_def mem_ok_def)

lemma mem_update:
  "mem_bank (s\<lparr>w_accounts := AList.update k a (w_accounts s)\<rparr>) = (mem_bank s)(k \<mapsto> as_balance a)"
  "mem_ok s \<Longrightarrow> 0 \<le> as_balance a \<Longrightarrow> mem_ok (s\<lparr>w_accounts := AList.update k a (w_accounts s)\<rparr>)"
  by (auto simp: mem_bank_def mem_ok_def update_conv' fun_eq_iff)

subsection \<open>Sequences of calls\<close>

definition web3_bank :: "web3 \<Rightarrow> bank" where
  "web3_bank s = (case w_db s of None \<Rightarrow> mem_bank s | Some d \<Rightarrow> db_bank d)"

definition web3_ok :: "web3 \<Rightarrow> bool" where
  "web3_ok s \<longleftrightarrow> (case w_db s of None \<Rightarrow> mem_ok s | Some d \<Rightarrow> db_ok d)"

text \<open>What a call that only moves the bank does, in both modes, in memory mode only, and without any effect.\<close>

definition bank_run :: "web3 \<Rightarrow> web3 \<Rightarrow> bool" where
  "bank_run s s' \<longleftrightarrow> (w_db s = None \<longleftrightarrow> w_db s' = None) \<and> (web3_ok s \<longrightarrow> web3_ok s' \<and> bank_step\<^sup>*\<^sup>* (web3_bank s) (web3_bank s'))"

definition safe :: "'a wtx \<Rightarrow> bool" where
  "safe m \<longleftrightarrow> (\<forall>s. bank_run s (snd (m s)))"

definition mem_safe :: "'a wtx \<Rightarrow> bool" where
  "mem_safe m \<longleftrightarrow> (\<forall>s. w_db s = None \<longrightarrow> bank_run s (snd (m s)))"

lemma bank_run_refl [simp]: "bank_run s s"
  by (simp add: bank_run_def)

lemma bank_run_trans: "bank_run s s' \<Longrightarrow> bank_run s' s'' \<Longrightarrow> bank_run s s''"
  by (auto simp: bank_run_def)

lemma bank_run_same: "w_db s' = w_db s \<Longrightarrow> w_accounts s' = w_accounts s \<Longrightarrow> bank_run s s'"
  using mem_cong [of s' s] by (cases "w_db s") (simp_all add: bank_run_def web3_ok_def web3_bank_def)

lemma snd_bindW: "P s (snd (m s)) \<Longrightarrow> (\<And>x s'. m s = (Some (Inr x), s') \<Longrightarrow> P s s' \<Longrightarrow> P s (snd (k x s'))) \<Longrightarrow> P s (snd (bindW m k s))"
  by (auto simp: bindW_def split: prod.split option.split sum.split)

lemma safe_bind: "safe m \<Longrightarrow> (\<And>x. safe (k x)) \<Longrightarrow> safe (bindW m k)"
  unfolding safe_def by (intro allI snd_bindW [where P = bank_run]) (auto intro: bank_run_trans)

lemma safe_simps [simp]:
  "safe (retW x)" "safe (failW e)" "safe (liftW r)" "safe (getW3 f)" "safe (withRLock f)"
  by (simp_all add: safe_def retW_def failW_def liftW_def getW3_def withRLock_def)

lemma safe_withLock:
  assumes "safe m"
  shows "safe (withLock m)"
  unfolding safe_def
proof
  fix s :: web3
  have "bank_run s (snd (m (s\<lparr>w_mu := True\<rparr>)))"
    using assms bank_run_same [of "s\<lparr>w_mu := True\<rparr>" s] unfolding safe_def by (auto intro: bank_run_trans)
  then show "bank_run s (snd (withLock m s))"
    using bank_run_same by (auto simp: withLock_def split: prod.split option.split intro: bank_run_trans)
qed

lemma mem_safe_withLock:
  assumes "mem_safe m"
  shows "mem_safe (withLock m)"
  unfolding mem_safe_def
proof (intro allI impI)
  fix s :: web3
  assume "w_db s = None"
  then have "bank_run s (snd (m (s\<lparr>w_mu := True\<rparr>)))"
    using assms bank_run_same [of "s\<lparr>w_mu := True\<rparr>" s] unfolding mem_safe_def by (auto intro: bank_run_trans)
  then show "bank_run s (snd (withLock m s))"
    using bank_run_same by (auto simp: withLock_def split: prod.split option.split intro: bank_run_trans)
qed

lemma safe_mode:
  assumes "\<And>d s. w_db s = Some d \<Longrightarrow> bank_run s (snd (f d s))" "mem_safe m"
  shows "safe (bindW (getW3 w_db) (\<lambda>db. case db of Some d \<Rightarrow> f d | None \<Rightarrow> m))"
  using assms by (auto simp: safe_def mem_safe_def bindW_def getW3_def split: option.split)

lemma safe_mem: "safe m \<Longrightarrow> mem_safe m"
  by (simp add: safe_def mem_safe_def)

lemma bank_run_onDB:
  assumes "w_db s = Some d" "\<And>r d'. f d = (r, d') \<Longrightarrow> db_ok d \<Longrightarrow> db_ok d' \<and> bank_step\<^sup>*\<^sup>* (db_bank d) (db_bank d')"
  shows "bank_run s (snd (onDB f d s))"
  using assms by (auto simp: onDB_def bank_run_def web3_ok_def web3_bank_def split: prod.split)

lemma bank_run_setDB: "w_db s = Some d \<Longrightarrow> wdb_accounts d' = wdb_accounts d \<Longrightarrow> bank_run s (s\<lparr>w_db := Some d'\<rparr>)"
  using db_bank_cong [of d' d] by (simp add: bank_run_def web3_ok_def web3_bank_def)

subsection \<open>Every call is a run of the bank\<close>

lemma parsed_nonneg: "parseNonNegativeInt v = Inr b \<Longrightarrow> 0 \<le> b"
  by (auto simp: parseNonNegativeInt_def Let_def split: if_splits option.splits)

lemma parsed_pos: "parsePositiveInt v = Inr b \<Longrightarrow> 0 < b"
  by (auto simp: parsePositiveInt_def Let_def split: if_splits option.splits)

lemma mem_update_run:
  assumes "w_db s = None" "map_of (w_accounts s) k = None" "0 \<le> as_balance a"
  shows "bank_run s (s\<lparr>w_accounts := AList.update k a (w_accounts s)\<rparr>)"
proof -
  have "bank_step (mem_bank s) ((mem_bank s)(k \<mapsto> as_balance a))" using assms(2,3) by (intro bank_step.open_account) (simp_all add: mem_bank_def)
  then show ?thesis using assms(1,3) by (auto simp: bank_run_def web3_ok_def web3_bank_def mem_update)
qed

text \<open>The transfer between the maps in closed form: with the lock taken it stops at the event log.\<close>

definition moved :: "int \<Rightarrow> string \<Rightarrow> string \<Rightarrow> int \<Rightarrow> u64 \<Rightarrow> web3 \<Rightarrow> web3" where
  "moved nano fr to amount c s =
     (let fa = the (map_of (w_accounts s) fr); ta = the (map_of (w_accounts s) to);
          tx = new_transfer_tx nano fr to amount (as_nonce fa + 1) c in
      s\<lparr>w_accounts := AList.update to (ta\<lparr>as_balance := as_balance ta + amount, as_updated := dbTimestamp nano\<rparr>)
          (AList.update fr (fa\<lparr>as_balance := as_balance fa - amount, as_nonce := as_nonce fa + 1, as_updated := dbTimestamp nano\<rparr>) (w_accounts s)),
        w_localTx := AList.update (et_hash tx) tx (w_localTx s)\<rparr>)"

lemma opened_simps [simp]: "w_db (opened nano to c s) = w_db s" "w_mu (opened nano to c s) = w_mu s"
  "map_of (w_accounts (opened nano to c s)) to \<noteq> None" "fr \<noteq> to \<Longrightarrow> map_of (w_accounts (opened nano to c s)) fr = map_of (w_accounts s) fr"
  by (simp_all add: opened_def update_conv')

lemma moved_simps [simp]: "w_db (moved nano fr to amount c s) = w_db s" "w_mu (moved nano fr to amount c s) = w_mu s"
  by (simp_all add: moved_def Let_def)

lemma transfer_mem_eq:
  assumes "w_db s = None" "w_mu s" "fr \<noteq> to"
  shows "transfer_mem nano req fr to amount c s = (case map_of (w_accounts s) fr of
      None \<Rightarrow> (Some (Inl (Status NotFound (''from account not found: '' @ trq_from req))), s)
    | Some a \<Rightarrow> if as_balance a < amount then (Some (Inl (Status FailedPrecondition ''insufficient balance'')), opened nano to c s)
        else (None, moved nano fr to amount c (opened nano to c s)))"
proof (cases "map_of (w_accounts s) fr")
  case None
  then show ?thesis by (simp add: transfer_mem_def bindW_def getW3_def failW_def)
next
  case (Some a)
  have "map_of (w_accounts (opened nano to c s)) fr = Some a" using Some assms(3) by simp
  then show ?thesis
    using Some assms unfolding transfer_mem_def bindW_def getW3_def modW_def
    by (simp add: failW_def appendEventLog_def withLock_def bindW_def getW3_def moved_def Let_def)
qed

lemma opened_run: "w_db s = None \<Longrightarrow> bank_run s (opened nano to c s)"
  by (simp add: opened_def mem_update_run)

lemma moved_run:
  assumes "w_db s = None" "fr \<noteq> to" "0 < amount" "map_of (w_accounts s) fr = Some fa" "map_of (w_accounts s) to = Some ta" "amount \<le> as_balance fa"
  shows "bank_run s (moved nano fr to amount c s) \<and> mem_bank (moved nano fr to amount c s) = bank_move fr to amount (mem_bank s)"
proof -
  let ?s = "moved nano fr to amount c s"
  have m: "mem_bank ?s = bank_move fr to amount (mem_bank s)"
    using assms by (simp add: moved_def Let_def mem_bank_def bank_move_def update_conv' held_def fun_eq_iff)
  have "mem_ok ?s" if "mem_ok s"
    using that assms by (auto simp: moved_def Let_def mem_ok_def update_conv' split: if_splits)
  moreover have "bank_step (mem_bank s) (bank_move fr to amount (mem_bank s))"
    using assms by (intro bank_step.move) (simp_all add: mem_bank_def held_def)
  ultimately show ?thesis using m assms(1) by (auto simp: bank_run_def web3_ok_def web3_bank_def)
qed

lemma transfer_locked_run:
  assumes "w_db s = None" "fr \<noteq> to" "0 < amount"
  shows "bank_run s (snd (withLock (transfer_mem nano req fr to amount c) s))"
proof (cases "w_mu s")
  case False
  let ?s = "s\<lparr>w_mu := True\<rparr>"
  have r: "bank_run s (snd (transfer_mem nano req fr to amount c ?s))"
  proof (cases "map_of (w_accounts ?s) fr")
    case None
    then show ?thesis using assms bank_run_same [of ?s s] by (simp add: transfer_mem_eq)
  next
    case (Some a)
    obtain ta where ta: "map_of (w_accounts (opened nano to c ?s)) to = Some ta" using opened_simps(3) by blast
    have o: "bank_run s (opened nano to c ?s)"
      using opened_run [of ?s nano to c] bank_run_same [of ?s s] assms(1) by (auto intro: bank_run_trans)
    moreover have "bank_run (opened nano to c ?s) (moved nano fr to amount c (opened nano to c ?s))" if "amount \<le> as_balance a"
      using moved_run [OF _ assms(2,3) _ ta that] assms Some by simp
    ultimately show ?thesis using assms Some by (auto simp: transfer_mem_eq intro: bank_run_trans)
  qed
  then show ?thesis using False bank_run_same by (auto simp: withLock_def split: prod.split option.split intro: bank_run_trans)
qed (simp add: withLock_def)

lemma safe_case_option: "safe a \<Longrightarrow> (\<And>x. safe (f x)) \<Longrightarrow> safe (case v of None \<Rightarrow> a | Some x \<Rightarrow> f x)"
  by (cases v) simp_all

lemma safe_if: "(c \<Longrightarrow> safe a) \<Longrightarrow> (\<not> c \<Longrightarrow> safe b) \<Longrightarrow> safe (if c then a else b)"
  by simp

lemma safe_lift_bind: "(\<And>x. r = Inr x \<Longrightarrow> safe (k x)) \<Longrightarrow> safe (bindW (liftW r) k)"
  by (cases r) (simp_all add: safe_def bindW_def liftW_def)

lemma create_run:
  assumes "0 \<le> bal"
  shows "createAccountDB nano addr bal c d = (r, d') \<Longrightarrow> db_ok d \<Longrightarrow> db_ok d' \<and> bank_step\<^sup>*\<^sup>* (db_bank d) (db_bank d')"
    "mem_safe (withLock (create_mem nano addr bal c))"
proof -
  show "db_ok d' \<and> bank_step\<^sup>*\<^sup>* (db_bank d) (db_bank d')" if "createAccountDB nano addr bal c d = (r, d')" "db_ok d"
    using createAccountDB_bank [OF that assms] bank_step.open_account [OF _ assms, of "db_bank d" "coll addr"]
    by (auto split: sum.splits)
  have "bank_run s (snd (create_mem nano addr bal c s))" if "w_db s = None" for s
    using mem_update_run [OF that] assms by (simp add: create_mem_def bindW_def getW3_def modW_def failW_def retW_def Let_def)
  then show "mem_safe (withLock (create_mem nano addr bal c))" by (intro mem_safe_withLock) (simp add: mem_safe_def)
qed

lemma transfer_run:
  assumes "coll fr \<noteq> coll to" "0 < amount"
  shows "transferDB nano req fr to amount c d = (r, d') \<Longrightarrow> db_ok d \<Longrightarrow> db_ok d' \<and> bank_step\<^sup>*\<^sup>* (db_bank d) (db_bank d')"
    "mem_safe (withLock (transfer_mem nano req fr to amount c))"
proof -
  show "db_ok d' \<and> bank_step\<^sup>*\<^sup>* (db_bank d) (db_bank d')" if "transferDB nano req fr to amount c d = (r, d')" "db_ok d"
    using transferDB_bank [OF that assms] bank_step.move [OF assms, of "db_bank d"] by (auto split: sum.splits)
  show "mem_safe (withLock (transfer_mem nano req fr to amount c))"
    unfolding mem_safe_def using assms by (auto intro: transfer_locked_run)
qed

lemma safe_CreateAccount: "safe (CreateAccount sv nano req)"
  unfolding CreateAccount_def Let_def
  by (intro safe_case_option safe_lift_bind safe_if safe_simps safe_mode create_run(2) bank_run_onDB create_run(1))
    (auto dest: parsed_nonneg)

lemma safe_Transfer: "safe (Transfer sv nano req)"
  unfolding Transfer_def Let_def
  by (intro safe_case_option safe_lift_bind safe_if safe_simps safe_mode transfer_run(2) bank_run_onDB transfer_run(1))
    (auto simp: coll_normalized dest: parsed_pos)

text \<open>Calls that read, and the writes to other tables.\<close>

lemma safe_GetAccount: "safe (GetAccount sv req)"
  unfolding GetAccount_def Let_def by (intro safe_case_option safe_bind safe_if safe_simps)

lemma safe_GetUser: "safe (GetUser req)"
  unfolding GetUser_def by (intro safe_case_option safe_bind safe_if safe_simps)

lemma safe_GetTransaction: "safe (GetTransaction sv nano req)"
  unfolding GetTransaction_def by (intro safe_case_option safe_bind safe_if safe_simps)

lemma safe_GetTransactionReceipt: "safe (GetTransactionReceipt sv nano req)"
  unfolding GetTransactionReceipt_def by (intro safe_case_option safe_bind safe_if safe_simps safe_GetTransaction)

lemma safe_modW: "(\<And>s. w_db (f s) = w_db s) \<Longrightarrow> (\<And>s. w_accounts (f s) = w_accounts s) \<Longrightarrow> safe (modW f)"
  by (simp add: safe_def modW_def bank_run_same)

lemma safe_CreateUser: "safe (CreateUser sv nano req)"
  unfolding CreateUser_def Let_def
  by (intro safe_case_option safe_lift_bind safe_if safe_simps safe_mode safe_mem safe_withLock safe_bind safe_modW bank_run_onDB)
    (auto simp: insert_user_def db_ok_def db_bank_def split: if_splits)

lemma bind_mem_simps [simp]: "w_db (bind_mem uid addr s) = w_db s" "w_accounts (bind_mem uid addr s) = w_accounts s"
  by (simp_all add: bind_mem_def Let_def)

lemma safe_mode_bind:
  assumes "\<And>d s. w_db s = Some d \<Longrightarrow> bank_run s (snd (f d s))" "safe m" "\<And>x. safe (k x)"
  shows "safe (bindW (getW3 w_db) (\<lambda>db. bindW (case db of Some d \<Rightarrow> f d | None \<Rightarrow> m) k))"
proof -
  have "bindW (getW3 w_db) (\<lambda>db. bindW (case db of Some d \<Rightarrow> f d | None \<Rightarrow> m) k) =
      bindW (bindW (getW3 w_db) (\<lambda>db. case db of Some d \<Rightarrow> f d | None \<Rightarrow> m)) k"
    by (auto simp: bindW_def getW3_def fun_eq_iff split: option.split)
  then show ?thesis using safe_bind [OF safe_mode [OF assms(1) safe_mem [OF assms(2)]] assms(3)] by simp
qed

lemma safe_BindUserAccount: "safe (BindUserAccount sv nano req)"
  unfolding BindUserAccount_def Let_def
proof (intro safe_case_option safe_if safe_bind [OF safe_GetUser] safe_bind [OF safe_GetAccount] safe_mode_bind safe_withLock safe_modW safe_simps)
  fix r u account d and s :: web3
  assume "w_db s = Some d"
  then show "bank_run s (snd (modW (\<lambda>s. s\<lparr>w_db := Some (insert_binding nano (bur_user r)
      (w3_normalizeAddress (bur_address r)) (pa_chain account) d)\<rparr>) s))"
    by (simp add: modW_def insert_binding_def bank_run_setDB)
qed simp_all

lemma safe_get_each: "safe (get_each sv c addrs)"
proof (induction addrs)
  case (Cons addr addrs)
  show ?case
    unfolding safe_def
  proof
    fix s
    let ?g = "GetAccount sv (Some \<lparr>gar_address = addr, gar_chain = c\<rparr>)"
    have g: "bank_run s (snd (?g s))" using safe_GetAccount unfolding safe_def by blast
    have "safe (bindW (get_each sv c addrs) (\<lambda>rest. retW (acc # rest)))" for acc by (intro safe_bind Cons.IH safe_simps)
    then show "bank_run s (snd (get_each sv c (addr # addrs) s))"
      using g Cons.IH by (auto simp: safe_def split: prod.split option.split sum.split intro: bank_run_trans)
  qed
qed simp

lemma safe_ListUserAccounts: "safe (ListUserAccounts sv req)"
  unfolding ListUserAccounts_def by (intro safe_case_option safe_bind safe_if safe_simps safe_GetUser safe_get_each)

lemma safe_subscribe: "safe (web3_method sv nano (CallSubscribeTransactions r))"
  by (auto intro!: safe_bind split: prod.split)

lemma safe_method: "safe (web3_method sv nano c)"
  using safe_subscribe
  by (cases c) (auto simp del: web3_method.simps(3) simp: mapW_def SubscribeLogs_mem_def safe_CreateAccount safe_Transfer safe_GetAccount safe_GetUser safe_GetTransaction
    safe_GetTransactionReceipt safe_CreateUser safe_BindUserAccount safe_ListUserAccounts intro!: safe_bind safe_case_option)

lemma safe_serve: "safe (web3_serve sv apiKey keys nano c)"
  by (auto simp: web3_serve_def safe_method split: sum.split)

lemma web3_step_run: "web3_step sv apiKey s s' \<Longrightarrow> bank_run s s'"
  using safe_serve unfolding safe_def by (auto elim: web3_stepE)

interpretation w3: bank_store web3_ok web3_bank "web3_step sv apiKey"
proof unfold_locales
  show "bank_ok (web3_bank s)" if "web3_ok s" for s
    using that by (auto simp: web3_ok_def web3_bank_def mem_bank_ok db_bank_ok split: option.splits)
  show "web3_ok s' \<and> bank_step\<^sup>*\<^sup>* (web3_bank s) (web3_bank s')" if "web3_step sv apiKey s s'" "web3_ok s" for s s'
    using web3_step_run [OF that(1)] that(2) by (simp add: bank_run_def)
qed

end
