(* ===== verification/Web3_System.thy ===== *)
theory Web3_System
  imports Web3_Bank
begin

text \<open>
  The gRPC service at its start, with the lock of the maps taken for ever, and its stream of event logs.
\<close>

subsection \<open>The start\<close>

lemma digits_parse:
  assumes "s \<noteq> []" "list_all is_digit s"
  shows "\<exists>v. big_set_string s = Some v \<and> 0 \<le> v"
proof -
  obtain c cs where s: "s = c # cs" using assms(1) by (cases s) auto
  have "is_digit c" using assms(2) s by simp
  then have "c \<noteq> CHR ''-''" "c \<noteq> CHR ''+''" by (auto simp: is_digit_def Let_def)
  then show ?thesis using assms s by (simp add: big_set_string_def parse_digits_def)
qed

lemma seeds_ok:
  assumes "x \<in> set seeds"
  shows "\<exists>v. big_set_string (snd x) = Some v \<and> 0 \<le> v"
proof (rule digits_parse)
  have "list_all (\<lambda>x. snd x \<noteq> [] \<and> list_all is_digit (snd x)) seeds" by code_simp
  then have "snd x \<noteq> [] \<and> list_all is_digit (snd x)" using assms unfolding list_all_iff by (rule bspec)
  then show "snd x \<noteq> []" "list_all is_digit (snd x)" by simp_all
qed

lemma seed_row_ok:
  assumes "\<exists>v. big_set_string (snd x) = Some v \<and> 0 \<le> v" "db_ok d"
  shows "db_ok (seed_row sv nano x d)"
proof -
  let ?r = "\<lparr>arow_address = fst x, arow_balance = snd x, arow_nonce = 0, arow_chain = defaultChainID sv, arow_updated = dbTimestamp nano\<rparr>"
  have "row_ok ?r" using assms(1) by (simp add: row_ok_def)
  let ?t = "upsert_where (\<lambda>r. sql_eq (arow_address r) (fst x)) (\<lambda>r. r) ?r (wdb_accounts d)"
  have "distinct (map row_key ?t)"
    using assms(2) by (subst map_upsert_where) (auto simp: db_ok_def row_key_def sql_eq_def)
  moreover have "list_all row_ok ?t"
    unfolding list_all_iff using set_upsert_where \<open>row_ok ?r\<close> assms(2) by (fastforce simp: db_ok_def list_all_iff)
  ultimately show ?thesis by (simp add: seed_row_def split_beta db_ok_def)
qed

lemma fold_keeps: "P s \<Longrightarrow> (\<And>x s. x \<in> set xs \<Longrightarrow> P s \<Longrightarrow> P (f x s)) \<Longrightarrow> P (fold f xs s)"
  by (induction xs arbitrary: s) auto

lemma web3_start_ok:
  assumes "\<And>d. db = Some d \<Longrightarrow> db_ok d"
  shows "web3_ok (web3_start sv nano db)"
proof (cases db)
  case (Some d)
  have "db_ok (seedDefaultAccountsDB sv nano d)"
    unfolding seedDefaultAccountsDB_def
  proof (rule fold_keeps)
    show "db_ok d" using assms Some by simp
    show "db_ok (seed_row sv nano x d)" if "x \<in> set seeds" "db_ok d" for x d
      using seed_row_ok [OF seeds_ok [OF that(1)] that(2)] .
  qed
  then show ?thesis using Some by (simp add: web3_start_def web3_ok_def)
next
  case None
  let ?ok = "\<lambda>m. \<forall>k a. map_of m k = Some a \<longrightarrow> 0 \<le> as_balance a"
  have "?ok (fold (\<lambda>(addr, bal) m. AList.update addr \<lparr>as_address = addr, as_balance = the (big_set_string bal), as_nonce = 0,
       as_chain = defaultChainID sv, as_updated = dbTimestamp nano\<rparr> m) seeds [])"
  proof (rule fold_keeps [where P = ?ok])
    fix x :: "string \<times> string" and m :: "(string \<times> account_state) list"
    assume "x \<in> set seeds"
    then obtain v where "big_set_string (snd x) = Some v" "0 \<le> v" using seeds_ok by blast
    moreover assume "?ok m"
    ultimately show "?ok ((\<lambda>(addr, bal) m. AList.update addr \<lparr>as_address = addr, as_balance = the (big_set_string bal), as_nonce = 0,
       as_chain = defaultChainID sv, as_updated = dbTimestamp nano\<rparr> m) x m)" by (simp add: update_conv' split_beta)
  qed simp
  then show ?thesis using None by (simp add: web3_start_def web3_ok_def mem_ok_def seedDefaultAccounts_def withLock_def modW_def)
qed

subsection \<open>The lock\<close>

text \<open>With the lock of the maps taken a call ends with an error of its checks or waits for ever; it changes nothing.\<close>

definition stuck :: "'a wtx \<Rightarrow> bool" where
  "stuck m \<longleftrightarrow> (\<forall>s. w_db s = None \<longrightarrow> w_mu s \<longrightarrow> snd (m s) = s \<and> (\<forall>x. fst (m s) \<noteq> Some (Inr x)))"

lemma stuck_simps [simp]: "stuck (failW e)" "stuck (withLock m)" "stuck (withRLock f)"
  by (simp_all add: stuck_def failW_def withLock_def withRLock_def)

lemma stuck_bind: "stuck m \<Longrightarrow> stuck (bindW m k)"
  by (auto simp: stuck_def bindW_def split: prod.split option.split sum.split) (metis fst_conv snd_conv)+

lemma stuck_lift: "(\<And>x. stuck (k x)) \<Longrightarrow> stuck (bindW (liftW r) k)"
  by (cases r) (auto simp: stuck_def bindW_def liftW_def)

lemma stuck_get: "stuck (k None) \<Longrightarrow> stuck (bindW (getW3 w_db) k)"
  by (auto simp: stuck_def bindW_def getW3_def)

lemma stuck_mode: "stuck m \<Longrightarrow> stuck (bindW (getW3 w_db) (\<lambda>db. case db of None \<Rightarrow> m | Some d \<Rightarrow> f d))"
  by (rule stuck_get) simp

lemma stuck_option: "stuck a \<Longrightarrow> (\<And>x. stuck (f x)) \<Longrightarrow> stuck (case v of None \<Rightarrow> a | Some x \<Rightarrow> f x)"
  by (cases v) simp_all

lemma stuck_if: "stuck a \<Longrightarrow> stuck b \<Longrightarrow> stuck (if c then a else b)"
  by simp

lemma stuck_GetUser: "stuck (GetUser req)"
  unfolding GetUser_def by (intro stuck_option stuck_if stuck_get stuck_simps) (simp add: stuck_bind)

lemma stuck_GetTransaction:
  assumes "wsv_rpc sv = None"
  shows "stuck (GetTransaction sv nano req)"
proof -
  have n: "bindW (liftW (Inr None :: (eth_transaction option) gres)) k = k None" for k :: "eth_transaction option \<Rightarrow> eth_transaction wtx"
    by (simp add: bindW_def liftW_def)
  show ?thesis
    unfolding GetTransaction_def by (rule stuck_lift) (simp add: n assms getLiveTransaction_def stuck_get stuck_bind)
qed

lemma stuck_GetTransactionReceipt:
  assumes "wsv_rpc sv = None"
  shows "stuck (GetTransactionReceipt sv nano req)"
proof -
  have n: "bindW (liftW (Inr None :: (pb_receipt option) gres)) k = k None" for k :: "pb_receipt option \<Rightarrow> pb_receipt wtx"
    by (simp add: bindW_def liftW_def)
  show ?thesis
    unfolding GetTransactionReceipt_def by (rule stuck_lift) (simp add: n assms getLiveReceipt_def stuck_bind stuck_GetTransaction)
qed

lemma stuck_CreateAccount: "stuck (CreateAccount sv nano req)"
  unfolding CreateAccount_def Let_def by (intro stuck_option stuck_lift stuck_if stuck_simps stuck_mode)

lemma stuck_GetAccount: "stuck (GetAccount sv req)"
  unfolding GetAccount_def Let_def by (intro stuck_option stuck_lift stuck_if stuck_simps stuck_mode) (simp add: stuck_bind)

lemma stuck_Transfer: "stuck (Transfer sv nano req)"
  unfolding Transfer_def Let_def by (intro stuck_option stuck_lift stuck_if stuck_simps stuck_mode)

lemma stuck_CreateUser: "stuck (CreateUser sv nano req)"
  unfolding CreateUser_def Let_def by (intro stuck_option stuck_lift stuck_if stuck_simps stuck_mode)

lemma stuck_BindUserAccount: "stuck (BindUserAccount sv nano req)"
  unfolding BindUserAccount_def Let_def by (intro stuck_option stuck_if stuck_simps stuck_bind stuck_GetUser)

lemma stuck_ListUserAccounts: "stuck (ListUserAccounts sv req)"
  unfolding ListUserAccounts_def by (intro stuck_option stuck_if stuck_simps stuck_bind stuck_GetUser)

lemma stuck_SubscribeLogs: "stuck (web3_method sv nano (CallSubscribeLogs r))"
  by (simp add: mapW_def SubscribeLogs_mem_def) (rule stuck_mode, simp add: stuck_bind)

definition takes_no_lock :: "web3_call \<Rightarrow> bool" where
  "takes_no_lock c \<longleftrightarrow> (case c of CallSubscribeTransactions _ \<Rightarrow> True | _ \<Rightarrow> False)"

lemma stuck_method: "wsv_rpc sv = None \<Longrightarrow> \<not> takes_no_lock c \<Longrightarrow> stuck (web3_method sv nano c)"
  using stuck_SubscribeLogs
  by (cases c) (simp_all add: takes_no_lock_def mapW_def stuck_bind stuck_CreateAccount stuck_GetAccount stuck_Transfer stuck_CreateUser
    stuck_BindUserAccount stuck_ListUserAccounts stuck_GetUser stuck_GetTransaction stuck_GetTransactionReceipt)

lemma stuck_serve: "wsv_rpc sv = None \<Longrightarrow> \<not> takes_no_lock c \<Longrightarrow> stuck (web3_serve sv apiKey keys nano c)"
  by (auto simp: web3_serve_def stuck_method split: sum.split)

text \<open>The transaction stream neither reads nor writes the state.\<close>

lemma subscribe_pure:
  "\<exists>r. \<forall>s. web3_serve sv apiKey keys nano (CallSubscribeTransactions q) s = (Some r, s)"
proof -
  obtain x out st where t: "SubscribeTransactions sv (\<lambda>_. Inr ()) nano q = (x, out, st)"
    by (cases "SubscribeTransactions sv (\<lambda>_. Inr ()) nano q")
  show ?thesis by (cases "authorize keys apiKey"; cases x) (simp_all add: t web3_serve_def failW_def bindW_def liftW_def retW_def)
qed

lemma stuck_keeps:
  assumes "wsv_rpc sv = None" "w_db s = None" "w_mu s"
  shows "snd (web3_serve sv apiKey keys nano c s) = s"
proof (cases "takes_no_lock c")
  case True
  then obtain q where "c = CallSubscribeTransactions q" by (auto simp: takes_no_lock_def split: web3_call.splits)
  then show ?thesis using subscribe_pure [of sv apiKey keys nano q] by (metis snd_conv)
next
  case False
  then show ?thesis using stuck_serve [OF assms(1) False] assms(2,3) by (simp add: stuck_def)
qed

lemma stuck_for_ever:
  assumes "(web3_step sv apiKey)\<^sup>*\<^sup>* s s'" "wsv_rpc sv = None" "w_db s = None" "w_mu s"
  shows "s' = s \<and> (\<not> takes_no_lock c \<longrightarrow> fst (web3_serve sv apiKey keys nano c s') \<noteq> Some (Inr x))"
proof -
  have "s' = s" using assms by (induction rule: rtranclp_induct) (auto simp: stuck_keeps elim!: web3_stepE)
  then show ?thesis using stuck_serve [OF assms(2)] assms(3,4) by (auto simp: stuck_def)
qed

text \<open>A transfer that passes its checks moves the money, takes the lock and never gives it back.\<close>

lemma transfer_hangs:
  assumes "w_db s = None" "\<not> w_mu s" "fr \<noteq> to" "map_of (w_accounts s) fr = Some a" "amount \<le> as_balance a"
  shows "withLock (transfer_mem nano req fr to amount c) s = (None, moved nano fr to amount c (opened nano to c (s\<lparr>w_mu := True\<rparr>)))"
  using assms by (simp add: withLock_def transfer_mem_eq)

lemma Transfer_mem:
  assumes "w_db s = None" "checkChain sv (trq_chain r) = Inr c" "w3_normalizeAddress (trq_from r) = fr" "w3_normalizeAddress (trq_to r) = to"
    "fr \<noteq> []" "to \<noteq> []" "fr \<noteq> to" "parsePositiveInt (trq_value r) = Inr amount"
  shows "Transfer sv nano (Some r) s = withLock (transfer_mem nano r fr to amount c) s"
  using assms by (simp add: Transfer_def Let_def bindW_def liftW_def getW3_def)

lemma Transfer_db:
  assumes "w_db s = Some d" "checkChain sv (trq_chain r) = Inr c" "w3_normalizeAddress (trq_from r) = fr" "w3_normalizeAddress (trq_to r) = to"
    "fr \<noteq> []" "to \<noteq> []" "fr \<noteq> to" "parsePositiveInt (trq_value r) = Inr amount"
  shows "Transfer sv nano (Some r) s = onDB (transferDB nano r fr to amount c) d s"
  using assms by (simp add: Transfer_def Let_def bindW_def liftW_def getW3_def)

text \<open>A transfer that fails for lack of money has already stored the account of the receiver.\<close>

lemma failed_transfer_opens:
  assumes "w_db s = None" "\<not> w_mu s" "fr \<noteq> to" "map_of (w_accounts s) fr = Some a" "as_balance a < amount"
  shows "withLock (transfer_mem nano req fr to amount c) s =
    (Some (Inl (Status FailedPrecondition ''insufficient balance'')), (opened nano to c (s\<lparr>w_mu := True\<rparr>))\<lparr>w_mu := False\<rparr>)"
  using assms by (simp add: withLock_def transfer_mem_eq)

subsection \<open>The API key\<close>

lemma authorize_iff:
  "authorize keys apiKey = Inr () \<longleftrightarrow> trim_space (case keys of [] \<Rightarrow> [] | k # _ \<Rightarrow> k) = trim_space apiKey"
  by (auto simp: authorize_def Let_def)

lemma serve_unauthorized:
  "trim_space (case keys of [] \<Rightarrow> [] | k # _ \<Rightarrow> k) \<noteq> trim_space apiKey \<Longrightarrow>
     web3_serve sv apiKey keys nano c s = (Some (Inl (Status Unauthenticated ''invalid x-api-key'')), s)"
  by (auto simp: web3_serve_def authorize_def failW_def Let_def)

subsection \<open>The stream of event logs\<close>

definition events_ok :: "web3_db \<Rightarrow> bool" where
  "events_ok d \<longleftrightarrow> sorted_wrt (<) (map er_id (wdb_events d)) \<and> (\<forall>r\<in>set (wdb_events d). er_id r < wdb_next d)"

definition pending_logs :: "subscribe_logs_request \<Rightarrow> u64 \<Rightarrow> web3_db \<Rightarrow> event_row3 list" where
  "pending_logs req lastID d = filter (\<lambda>r. er_id r > lastID \<and> log_where req r) (wdb_events d)"

lemma log_batch_pending:
  assumes "events_ok d"
  shows "log_batch req lastID d = take 200 (pending_logs req lastID d)"
proof -
  have "sorted_wrt (<) (map er_id (pending_logs req lastID d))"
    using assms by (auto simp: events_ok_def pending_logs_def sorted_wrt_map sorted_wrt_filter)
  then have "sorted (map er_id (pending_logs req lastID d))" by (rule strict_sorted_imp_sorted)
  then show ?thesis unfolding log_batch_def pending_logs_def by (simp add: sort_key_id_if_sorted)
qed

lemma send_rows_all:
  "send_rows (\<lambda>_. Inr ()) req rows lastID =
     (Inr (), map (\<lambda>r. log_shape req (er_event r)) rows, if rows = [] then lastID else er_id (last rows))"
  by (induction rows arbitrary: lastID) auto

lemma filter_after_take:
  fixes key :: "'r \<Rightarrow> 'k :: linorder"
  assumes "sorted_wrt (<) (map key P)" "take n P \<noteq> []"
  shows "filter (\<lambda>r. key r > key (last (take n P))) P = drop n P"
proof -
  let ?a = "take n P" and ?b = "drop n P"
  have s: "sorted_wrt (<) (map key (?a @ ?b))" using assms(1) by simp
  then have b: "\<forall>r\<in>set ?b. key (last ?a) < key r" using assms(2) unfolding map_append sorted_wrt_append by simp
  have a: "\<forall>r\<in>set ?a. \<not> key (last ?a) < key r"
  proof
    fix r assume r: "r \<in> set ?a"
    have "sorted (map key ?a)" using s unfolding map_append sorted_wrt_append by (simp add: strict_sorted_imp_sorted)
    then have "key r \<le> key (last ?a)" using r assms(2)
      by (cases ?a rule: rev_cases) (auto simp: sorted_append)
    then show "\<not> key (last ?a) < key r" by simp
  qed
  have "filter (\<lambda>r. key r > key (last ?a)) (?a @ ?b) = ?b"
    unfolding filter_append using a b by (simp add: filter_empty_conv filter_True)
  then show ?thesis by simp
qed

lemma tick_delivers:
  assumes "events_ok d" "SubscribeLogs_tick (\<lambda>_. Inr ()) req lastID d = (r, out, lastID')"
  shows "out = map (\<lambda>r. log_shape req (er_event r)) (take 200 (pending_logs req lastID d))"
    "pending_logs req lastID' d = drop 200 (pending_logs req lastID d)" "r = Inr ()"
proof -
  let ?P = "pending_logs req lastID d"
  have t: "r = Inr ()" "out = map (\<lambda>r. log_shape req (er_event r)) (take 200 ?P)"
    "lastID' = (if take 200 ?P = [] then lastID else er_id (last (take 200 ?P)))"
    using assms(2) unfolding SubscribeLogs_tick_def send_rows_all log_batch_pending [OF assms(1)] by (auto split: if_splits)
  then show "out = map (\<lambda>r. log_shape req (er_event r)) (take 200 ?P)" "r = Inr ()" by simp_all
  show "pending_logs req lastID' d = drop 200 ?P"
  proof (cases "take 200 ?P = []")
    case False
    have s: "sorted_wrt (<) (map er_id ?P)" using assms(1) by (auto simp: events_ok_def pending_logs_def sorted_wrt_map sorted_wrt_filter)
    have "last (take 200 ?P) \<in> set ?P" using False by (meson in_set_takeD last_in_set)
    then have "lastID < lastID'" using t False by (simp add: pending_logs_def)
    then have "pending_logs req lastID' d = filter (\<lambda>r. er_id r > lastID') ?P"
      unfolding pending_logs_def filter_filter by (intro filter_cong) auto
    also have "\<dots> = drop 200 ?P" using filter_after_take [OF s False] t(3) False by simp
    finally show ?thesis .
  qed (use t in simp)
qed

lemma insert_event_pending:
  assumes "events_ok d" "lastID < wdb_next d" "wdb_next d \<noteq> - 1"
  shows "events_ok (insert_event nano ev d)"
    "pending_logs req lastID (insert_event nano ev d) = pending_logs req lastID d @
      (let row = last (wdb_events (insert_event nano ev d)) in if log_where req row then [row] else [])"
proof -
  have "wdb_next d < wdb_next d + 1" using assms(3) by (metis add.commute add_eq_0_iff2 lessI unatSuc word_less_nat_alt)
  then show "events_ok (insert_event nano ev d)"
    using assms(1) by (auto simp: events_ok_def insert_event_def sorted_wrt_append intro: less_trans)
  show "pending_logs req lastID (insert_event nano ev d) = pending_logs req lastID d @
      (let row = last (wdb_events (insert_event nano ev d)) in if log_where req row then [row] else [])"
    using assms(2) by (simp add: pending_logs_def insert_event_def Let_def)
qed

text \<open>A block the node does not give in the tick that passes it is never sent.\<close>

lemma failed_block_lost:
  assumes "wcHead cl = Inr latest" "lastProcessed < latest" "\<And>n. wcBlockByNumber cl n = Inl err"
  shows "streamLiveTick sv cl sendf nano req (lastProcessed, seen) = (Inr (), [], latest, seen)"
proof -
  have "live_blocks sv cl nano latest ns seen = ([], seen)" for ns by (induction ns) (simp_all add: assms(3))
  then show ?thesis using assms(1,2) by (auto simp: streamLiveTick_def)
qed

end
