(* ===== verification/Web3_Properties.thy ===== *)
theory Web3_Properties
  imports Web3_System Samples
begin

text \<open>
  The properties of the gRPC service: what it is as a bank, a transfer in both modes, and the stream
  of event logs.
\<close>

subsection \<open>Samples\<close>

definition w3sv :: web3_server where
  "w3sv = \<lparr>wsv_geth = geth0, wsv_rpc = None, wsv_chain = 0\<rparr>"

definition no_db :: web3_db where
  "no_db = \<lparr>wdb_accounts = [], wdb_txs = [], wdb_users = [], wdb_bindings = [], wdb_events = [], wdb_next = 1\<rparr>"

definition acc_a :: account_row where
  "acc_a = \<lparr>arow_address = ''0xa'', arow_balance = ''9'', arow_nonce = 4, arow_chain = 1, arow_updated = 0\<rparr>"

definition db_a :: web3_db where
  "db_a = no_db\<lparr>wdb_accounts := [acc_a]\<rparr>"

definition st_db :: web3 where
  "st_db = \<lparr>w_db = Some db_a, w_mu = False, w_accounts = [], w_localTx = [], w_users = [], w_userAcc = [], w_logs = []\<rparr>"

definition st_mem :: web3 where
  "st_mem = st_db\<lparr>w_db := None, w_accounts := [(''0xa'', \<lparr>as_address = ''0xa'', as_balance = 9, as_nonce = 4, as_chain = 1, as_updated = 0\<rparr>)]\<rparr>"

definition pay_b :: transfer_request where
  "pay_b = \<lparr>trq_from = ''0xA '', trq_to = ''0xb'', trq_value = ''2'', trq_chain = 1\<rparr>"

lemma db_a_ok: "db_ok db_a"
  by (simp add: db_ok_def db_a_def no_db_def acc_a_def row_ok_def big_set_string_def parse_digits_def is_digit_def Let_def)

lemma pay_b_checks: "checkChain w3sv (trq_chain pay_b) = Inr 1" "w3_normalizeAddress (trq_from pay_b) = ''0xa''"
  "w3_normalizeAddress (trq_to pay_b) = ''0xb''" "parsePositiveInt (trq_value pay_b) = Inr 2"
  by code_simp+

subsection \<open>The bank\<close>

text \<open>C5: whatever calls the service gets after its start, with the right key or not and in both modes, what it does to the
  accounts is a run of the abstract bank: accounts are opened with an amount that is not negative, and a
  positive amount that the payer has moves between two accounts. So no balance is ever negative and the total
  never falls.\<close>

theorem web3_refines_bank:
  assumes "(web3_step sv apiKey)\<^sup>*\<^sup>* (web3_start sv nano db) s" "\<And>d. db = Some d \<Longrightarrow> db_ok d"
  shows "bank_step\<^sup>*\<^sup>* (web3_bank (web3_start sv nano db)) (web3_bank s) \<and> web3_ok s \<and> (\<forall>k. 0 \<le> held (web3_bank s) k) \<and>
    bank_total (web3_bank (web3_start sv nano db)) \<le> bank_total (web3_bank s)"
  using w3.run_refines [OF assms(1) web3_start_ok [OF assms(2)]] w3.run_total [OF assms(1) web3_start_ok [OF assms(2)]] by blast

theorem web3_refines_bank_witness:
  "\<exists>s. web3_step w3sv [] (web3_start w3sv 7 (Some db_a)) s \<and> web3_ok s \<and> 0 \<le> held (web3_bank s) ''0xb''"
proof -
  let ?s = "snd (web3_serve w3sv [] [] 8 (CallTransfer (Some pay_b)) (web3_start w3sv 7 (Some db_a)))"
  have "web3_step w3sv [] (web3_start w3sv 7 (Some db_a)) ?s" by (rule web3_step.call)
  moreover from this have "(web3_step w3sv [])\<^sup>*\<^sup>* (web3_start w3sv 7 (Some db_a)) ?s" by blast
  from web3_refines_bank [OF this] have "web3_ok ?s \<and> 0 \<le> held (web3_bank ?s) ''0xb''" using db_a_ok by auto
  ultimately show ?thesis by blast
qed

text \<open>C37: in database mode a transfer that passes the checks of the request either fails and leaves the database as it was, or
  it moves exactly its amount, which the payer had, keeps the total, answers with the new balances, and the transaction it reports
  is found again under its hash.\<close>

theorem web3_transfer:
  assumes "w_db s = Some d" "db_ok d" "checkChain sv (trq_chain q) = Inr c" "w3_normalizeAddress (trq_from q) = fr"
    "w3_normalizeAddress (trq_to q) = to" "fr \<noteq> []" "to \<noteq> []" "fr \<noteq> to" "parsePositiveInt (trq_value q) = Inr amount"
  shows "\<exists>r s'. Transfer sv nano (Some q) s = (Some r, s') \<and>
    (case r of
       Inl e \<Rightarrow> s' = s
     | Inr x \<Rightarrow>
         amount \<le> held (web3_bank s) fr \<and> web3_bank s' = bank_move fr to amount (web3_bank s) \<and> bank_total (web3_bank s') = bank_total (web3_bank s) \<and>
         (\<exists>d'. w_db s' = Some d' \<and> getLocalTxDB (et_hash (trs_tx x)) d' = Some (trs_tx x)))"
proof -
  obtain r d' where t: "transferDB nano q fr to amount c d = (r, d')" by fastforce
  have n: "coll fr = fr" "coll to = to" using assms(4,5) coll_normalized by metis+
  have T: "Transfer sv nano (Some q) s = (Some r, s\<lparr>w_db := Some d'\<rparr>)"
    using Transfer_db [OF assms(1,3,4-9)] t by (simp add: onDB_def)
  note b = transferDB_bank [OF t assms(2)]
  show ?thesis
  proof (cases r)
    case (Inl e)
    have "0 < amount" using assms(9) by (rule parsed_pos)
    then have "d' = d" using b n assms(8) Inl by simp
    moreover have "s\<lparr>w_db := Some d\<rparr> = s" using assms(1) by simp
    ultimately show ?thesis using T Inl by simp
  next
    case (Inr x)
    have "0 < amount" using assms(9) by (rule parsed_pos)
    then have m: "amount \<le> held (db_bank d) fr" "db_bank d' = bank_move fr to amount (db_bank d)" "getLocalTxDB (et_hash (trs_tx x)) d' = Some (trs_tx x)"
      using b n assms(8) Inr by auto
    have "finite (dom (db_bank d))" using db_bank_ok [OF assms(2)] by (simp add: bank_ok_def)
    then have "bank_total (db_bank d') = bank_total (db_bank d)" using m(2) bank_move_total assms(8) by simp
    then show ?thesis using T Inr m assms(1) by (auto simp: web3_bank_def)
  qed
qed

theorem web3_transfer_witness:
  "\<exists>x s'. Transfer w3sv 8 (Some pay_b) st_db = (Some (Inr x), s') \<and> web3_bank s' = bank_move ''0xa'' ''0xb'' 2 (web3_bank st_db)"
proof -
  have d: "w_db st_db = Some db_a" by (simp add: st_db_def)
  have "case fst (Transfer w3sv 8 (Some pay_b) st_db) of Some (Inr _) \<Rightarrow> True | _ \<Rightarrow> False" by code_simp
  then obtain x where x: "fst (Transfer w3sv 8 (Some pay_b) st_db) = Some (Inr x)" by (auto split: option.splits sum.splits)
  from web3_transfer [OF d db_a_ok pay_b_checks(1-3) _ _ _ pay_b_checks(4), of 8] obtain r s' where
    r: "Transfer w3sv 8 (Some pay_b) st_db = (Some r, s')" and c: "case r of Inl e \<Rightarrow> s' = st_db | Inr x \<Rightarrow>
      2 \<le> held (web3_bank st_db) ''0xa'' \<and> web3_bank s' = bank_move ''0xa'' ''0xb'' 2 (web3_bank st_db) \<and>
      bank_total (web3_bank s') = bank_total (web3_bank st_db) \<and>
      (\<exists>d'. w_db s' = Some d' \<and> getLocalTxDB (et_hash (trs_tx x)) d' = Some (trs_tx x))" by auto
  have "r = Inr x" using r x by simp
  then show ?thesis using r c by auto
qed

text \<open>C28: in memory mode without a node, a transfer that passes all its checks moves the money, records the transaction and then
  waits for ever for the lock it holds, which the event log wants to take again. From then on no call of
  anyone changes anything, and none is answered with success but the transaction stream, which takes no lock: it
  answers what it answered before.\<close>

theorem memory_transfer_hangs:
  assumes "w_db s = None" "wsv_rpc sv = None" "\<not> w_mu s" "checkChain sv (trq_chain q) = Inr c" "w3_normalizeAddress (trq_from q) = fr"
    "w3_normalizeAddress (trq_to q) = to" "fr \<noteq> []" "to \<noteq> []" "fr \<noteq> to" "parsePositiveInt (trq_value q) = Inr amount"
    "map_of (w_accounts s) fr = Some a" "amount \<le> as_balance a"
  shows "\<exists>s'. Transfer sv nano (Some q) s = (None, s') \<and> mem_bank s' = bank_move fr to amount (mem_bank s) \<and>
    (\<forall>s'' keys nano' call. (web3_step sv apiKey)\<^sup>*\<^sup>* s' s'' \<longrightarrow>
       s'' = s' \<and>
       (case call of
          CallSubscribeTransactions _ \<Rightarrow> fst (web3_serve sv apiKey keys nano' call s'') = fst (web3_serve sv apiKey keys nano' call s)
        | _ \<Rightarrow> \<forall>x. fst (web3_serve sv apiKey keys nano' call s'') \<noteq> Some (Inr x)))"
proof -
  let ?o = "opened nano to c (s\<lparr>w_mu := True\<rparr>)"
  let ?s = "moved nano fr to amount c ?o"
  have T: "Transfer sv nano (Some q) s = (None, ?s)"
    using Transfer_mem [OF assms(1,4-10)] transfer_hangs [OF assms(1,3,9,11,12)] by simp
  obtain ta where "map_of (w_accounts ?o) to = Some ta" using opened_simps(3) by blast
  moreover have "map_of (w_accounts ?o) fr = Some a" using assms(9,11) by simp
  ultimately have "mem_bank ?s = bank_move fr to amount (mem_bank ?o)"
    using moved_run assms(1,9,10,12) parsed_pos by simp
  also have "\<dots> = bank_move fr to amount (mem_bank s)"
    using assms(9) by (auto simp: opened_def mem_bank_def bank_move_def held_def update_conv' fun_eq_iff)
  finally have m: "mem_bank ?s = bank_move fr to amount (mem_bank s)" .
  have stop: "w_db ?s = None" "w_mu ?s" using assms(1) by simp_all
  have "fst (web3_serve sv apiKey keys n (CallSubscribeTransactions r) ?s) = fst (web3_serve sv apiKey keys n (CallSubscribeTransactions r) s)"
    for keys n r using subscribe_pure [of sv apiKey keys n r] by (metis fst_conv)
  then have answers: "case call of
          CallSubscribeTransactions _ \<Rightarrow> fst (web3_serve sv apiKey keys n call ?s) = fst (web3_serve sv apiKey keys n call s)
        | _ \<Rightarrow> \<forall>x. fst (web3_serve sv apiKey keys n call ?s) \<noteq> Some (Inr x)" for keys n call
    using stuck_for_ever [OF rtranclp.rtrancl_refl assms(2) stop, of call apiKey keys n]
    by (cases call) (simp_all add: takes_no_lock_def)
  have same: "s'' = ?s" if "(web3_step sv apiKey)\<^sup>*\<^sup>* ?s s''" for s''
    using stuck_for_ever [OF that assms(2) stop] by (rule conjunct1)
  show ?thesis
  proof (intro exI [of _ ?s] conjI allI impI T m)
    fix s'' keys nano' call
    assume "(web3_step sv apiKey)\<^sup>*\<^sup>* ?s s''"
    then show e: "s'' = ?s" by (rule same)
    show "case call of
          CallSubscribeTransactions _ \<Rightarrow> fst (web3_serve sv apiKey keys nano' call s'') = fst (web3_serve sv apiKey keys nano' call s)
        | _ \<Rightarrow> \<forall>x. fst (web3_serve sv apiKey keys nano' call s'') \<noteq> Some (Inr x)"
      unfolding e by (rule answers)
  qed
qed

definition all_txs :: subscribe_request where
  "all_txs = \<lparr>sr_chain = 0, sr_address = [], sr_include_failed = True, sr_lightweight = False\<rparr>"

theorem memory_transfer_hangs_witness:
  "\<exists>s'. Transfer w3sv 8 (Some pay_b) st_mem = (None, s') \<and> mem_bank s' = bank_move ''0xa'' ''0xb'' 2 (mem_bank st_mem) \<and>
    fst (web3_serve w3sv [] [] 9 (CallGetUser (Some ''u'')) s') = None \<and>
    (\<exists>x. fst (web3_serve w3sv [] [] 9 (CallSubscribeTransactions (Some all_txs)) s') = Some (Inr x))"
proof -
  have m: "w_db st_mem = None" "wsv_rpc w3sv = None" "\<not> w_mu st_mem" "map_of (w_accounts st_mem) ''0xa'' \<noteq> None"
    "2 \<le> as_balance (the (map_of (w_accounts st_mem) ''0xa''))" by (simp_all add: st_mem_def st_db_def w3sv_def)
  then obtain a where a: "map_of (w_accounts st_mem) ''0xa'' = Some a" "2 \<le> as_balance a" by auto
  from memory_transfer_hangs [OF m(1-3) pay_b_checks(1-3) _ _ _ pay_b_checks(4) a, of 8 "[]"] obtain s' where
    s: "Transfer w3sv 8 (Some pay_b) st_mem = (None, s')" "mem_bank s' = bank_move ''0xa'' ''0xb'' 2 (mem_bank st_mem)" and
    c: "\<And>s'' keys nano' call. (web3_step w3sv [])\<^sup>*\<^sup>* s' s'' \<Longrightarrow>
       (case call of
          CallSubscribeTransactions _ \<Rightarrow> fst (web3_serve w3sv [] keys nano' call s'') = fst (web3_serve w3sv [] keys nano' call st_mem)
        | _ \<Rightarrow> \<forall>x. fst (web3_serve w3sv [] keys nano' call s'') \<noteq> Some (Inr x))" by auto
  have "fst (web3_serve w3sv [] [] 9 (CallSubscribeTransactions (Some all_txs)) s') =
      fst (web3_serve w3sv [] [] 9 (CallSubscribeTransactions (Some all_txs)) st_mem)"
    using c [OF rtranclp.rtrancl_refl, of "[]" 9 "CallSubscribeTransactions (Some all_txs)"] by simp
  moreover have "case fst (web3_serve w3sv [] [] 9 (CallSubscribeTransactions (Some all_txs)) st_mem) of Some (Inr x) \<Rightarrow> True | _ \<Rightarrow> False"
    by code_simp
  then have "\<exists>x. fst (web3_serve w3sv [] [] 9 (CallSubscribeTransactions (Some all_txs)) st_mem) = Some (Inr x)"
    by (auto split: option.splits sum.splits)
  moreover have "fst (web3_serve w3sv [] [] 9 (CallGetUser (Some ''u'')) (snd (Transfer w3sv 8 (Some pay_b) st_mem))) = None" by code_simp
  ultimately show ?thesis using s by auto
qed

subsection \<open>The stream of event logs\<close>

text \<open>C24: a tick of the log stream in database mode sends the next 200 matching rows above the last id in the order of their ids,
  and the next tick continues exactly after them; an event that is written meanwhile is appended to
  what is still to come if it matches. So to a receiver that takes everything each matching event is sent once.\<close>

theorem log_stream_complete:
  assumes "events_ok d" "SubscribeLogs_tick (\<lambda>_. Inr ()) req lastID d = (r, out, lastID')" "lastID < wdb_next d" "wdb_next d \<noteq> - 1"
  shows "out = map (\<lambda>x. log_shape req (er_event x)) (take 200 (pending_logs req lastID d)) \<and>
    pending_logs req lastID' d = drop 200 (pending_logs req lastID d) \<and>
    (\<forall>nano ev. events_ok (insert_event nano ev d) \<and>
      pending_logs req lastID (insert_event nano ev d) = pending_logs req lastID d @
        (let row = last (wdb_events (insert_event nano ev d)) in if log_where req row then [row] else []))"
  using tick_delivers [OF assms(1,2)] insert_event_pending [OF assms(1,3,4)] by blast

definition ev_a :: log_event where
  "ev_a = buildTransferLog 0 (new_transfer_tx 0 ''0xa'' ''0xb'' 2 1 1)"

definition all_logs :: subscribe_logs_request where
  "all_logs = \<lparr>sl_chain = 0, sl_contract = [], sl_topic0 = [], sl_lightweight = False\<rparr>"

theorem log_stream_complete_witness:
  "\<exists>out lastID'. SubscribeLogs_tick (\<lambda>_. Inr ()) all_logs 0 (insert_event 0 ev_a no_db) = (Inr (), out, lastID') \<and>
    out = map (\<lambda>x. log_shape all_logs (er_event x)) (pending_logs all_logs 0 (insert_event 0 ev_a no_db)) \<and>
    pending_logs all_logs lastID' (insert_event 0 ev_a no_db) = [] \<and> pending_logs all_logs 0 (insert_event 0 ev_a no_db) \<noteq> []"
proof -
  let ?d = "insert_event 0 ev_a no_db"
  have d: "events_ok ?d" "wdb_next ?d = 2" "length (pending_logs all_logs 0 ?d) = 1"
    by (simp_all add: events_ok_def insert_event_def no_db_def pending_logs_def all_logs_def log_where_def w3_normalizeAddress_def trim_space_def
        trim_right_def)
  obtain r out lastID' where t: "SubscribeLogs_tick (\<lambda>_. Inr ()) all_logs 0 ?d = (r, out, lastID')" by (cases "SubscribeLogs_tick (\<lambda>_. Inr ()) all_logs 0 ?d") auto
  have "r = Inr ()" using tick_delivers [OF d(1) t] by simp
  moreover note log_stream_complete [OF d(1) t]
  ultimately show ?thesis using t d by auto
qed

end
