(* ===== verification/Http.thy ===== *)
theory Http
  imports User_Store Eth
begin

text \<open>
  What the handlers of \<open>internal/api\<close> use of Gin and of the standard library: the request, the
  parameters, the binding of a JSON body to a struct, \<open>strconv\<close>, \<open>math/big\<close> text, and the tokens of
  \<open>jwt.go\<close> with \<open>middleware.go\<close>.

  Conventions.
  \<^item> \<open>rq_body\<close> is the JSON value the body holds, or the error of reading it: the text of a body and its syntax
    are left to \<open>encoding/json\<close>. Which struct fields a value fills is modelled: the last member of a name
    decides, letter case does not count, and \<open>null\<close> leaves a field alone.
  \<^item> \<open>rq_file\<close> is the form field \<open>file\<close>: name and contents.
  \<^item> A field with \<open>binding:"required"\<close> must not be the zero value.
  \<^item> golang-jwt is the record \<open>jwt_lib\<close>; what a theorem asks of it is \<open>jwt_ok\<close>. The texts of the library's own errors are
    abbreviated.
\<close>

subsection \<open>Requests\<close>

datatype json =
    JNull
  | JBool bool
  | JInt int
  | JNum string
  | JStr string
  | JArr "json list"
  | JObj "(string \<times> json) list"

record request =
  rq_method :: string
  rq_path :: string
  rq_query :: "(string \<times> string) list"
  rq_headers :: "(string \<times> string) list"
  rq_body :: "json res"
  rq_file :: "(string \<times> string) option"
  rq_host :: string
  rq_tls :: bool

text \<open>\<open>gin.Context\<close>: the request with the path parameters, the keys that the middleware sets, and the
  clock in milliseconds and in nanoseconds.\<close>

record gctx =
  gc_rq :: request
  gc_params :: "(string \<times> string) list"
  gc_username :: string
  gc_uid :: string
  gc_now :: time
  gc_nano :: int

definition Param :: "gctx \<Rightarrow> string \<Rightarrow> string" where
  "Param c k = (case map_of (gc_params c) k of None \<Rightarrow> [] | Some v \<Rightarrow> v)"

definition DefaultQuery :: "gctx \<Rightarrow> string \<Rightarrow> string \<Rightarrow> string" where
  "DefaultQuery c k v0 = (case map_of (rq_query (gc_rq c)) k of None \<Rightarrow> v0 | Some v \<Rightarrow> v)"

definition Query :: "gctx \<Rightarrow> string \<Rightarrow> string" where
  "Query c k = DefaultQuery c k []"

text \<open>Header names do not depend on letter case.\<close>

definition header_of :: "request \<Rightarrow> string \<Rightarrow> string" where
  "header_of rq k = (case List.find (\<lambda>h. equal_fold (fst h) k) (rq_headers rq) of None \<Rightarrow> [] | Some h \<Rightarrow> snd h)"

definition GetHeader :: "gctx \<Rightarrow> string \<Rightarrow> string" where
  "GetHeader c k = header_of (gc_rq c) k"

subsection \<open>Numbers in text\<close>

text \<open>\<open>strconv.ParseInt\<close> and \<open>ParseUint\<close> to base 10 and 64 bits; \<open>Atoi\<close> with its error thrown away gives the
  nearest number when the text is out of range and 0 when it is no number.\<close>

definition ParseInt :: "string \<Rightarrow> int option" where
  "ParseInt s = (case big_set_string s of
     None \<Rightarrow> None
   | Some i \<Rightarrow> if - (2 ^ 63) \<le> i \<and> i < 2 ^ 63 then Some i else None)"

definition ParseUint :: "string \<Rightarrow> u64 option" where
  "ParseUint s = (case parse_digits s of
     None \<Rightarrow> None
   | Some n \<Rightarrow> if int n < 2 ^ 64 then Some (word_of_nat n) else None)"

definition atoi :: "string \<Rightarrow> int" where
  "atoi s = (case big_set_string s of
     None \<Rightarrow> 0
   | Some i \<Rightarrow> max (- (2 ^ 63)) (min (2 ^ 63 - 1) i))"

text \<open>\<open>(*big.Rat).SetFrac(num, den).FloatString(prec)\<close> for a positive denominator: the nearest decimal of
  that many digits, halves away from zero.\<close>

definition pad0 :: "nat \<Rightarrow> string \<Rightarrow> string" where
  "pad0 n s = replicate (n - length s) CHR ''0'' @ s"

definition rat_float_string :: "int \<Rightarrow> nat \<Rightarrow> nat \<Rightarrow> string" where
  "rat_float_string num den prec =
     (let a = nat \<bar>num\<bar>; q = a div den; p = 10 ^ prec;
          x = a mod den * p; r = x div den; r2 = x mod den;
          up = (if den \<le> 2 * r2 then 1 else 0);
          whole = (if p \<le> r + up then q + 1 else q);
          part = (if p \<le> r + up then r + up - p else r + up)
      in (if num < 0 then ''-'' else []) @ nat_str whole @
         (if prec = 0 then [] else ''.'' @ pad0 prec (nat_str part)))"

subsection \<open>Binding a JSON body\<close>

definition json_members :: "string \<Rightarrow> json \<Rightarrow> json list" where
  "json_members f j = (case j of JObj ms \<Rightarrow> map snd (filter (\<lambda>m. equal_fold (fst m) f) ms) | _ \<Rightarrow> [])"

definition is_struct :: "json \<Rightarrow> bool" where
  "is_struct j = (case j of JNull \<Rightarrow> True | JObj _ \<Rightarrow> True | _ \<Rightarrow> False)"

definition str_field :: "string \<Rightarrow> json \<Rightarrow> string" where
  "str_field f j = foldl (\<lambda>acc v. case v of JStr s \<Rightarrow> s | _ \<Rightarrow> acc) [] (json_members f j)"

definition str_ok :: "string \<Rightarrow> json \<Rightarrow> bool" where
  "str_ok f j = list_all (\<lambda>v. case v of JStr _ \<Rightarrow> True | JNull \<Rightarrow> True | _ \<Rightarrow> False) (json_members f j)"

definition bool_field :: "string \<Rightarrow> json \<Rightarrow> bool" where
  "bool_field f j = foldl (\<lambda>acc v. case v of JBool b \<Rightarrow> b | _ \<Rightarrow> acc) False (json_members f j)"

text \<open>A pointer field: \<open>null\<close> sets it to nil.\<close>

definition opt_bool_field :: "string \<Rightarrow> json \<Rightarrow> bool option" where
  "opt_bool_field f j = foldl (\<lambda>acc v. case v of JBool b \<Rightarrow> Some b | JNull \<Rightarrow> None | _ \<Rightarrow> acc) None (json_members f j)"

definition bool_ok :: "string \<Rightarrow> json \<Rightarrow> bool" where
  "bool_ok f j = list_all (\<lambda>v. case v of JBool _ \<Rightarrow> True | JNull \<Rightarrow> True | _ \<Rightarrow> False) (json_members f j)"

definition is_int64 :: "int \<Rightarrow> bool" where
  "is_int64 i \<longleftrightarrow> - (2 ^ 63) \<le> i \<and> i < 2 ^ 63"

definition int_field :: "string \<Rightarrow> json \<Rightarrow> int" where
  "int_field f j = foldl (\<lambda>acc v. case v of JInt i \<Rightarrow> if is_int64 i then i else acc | _ \<Rightarrow> acc) 0 (json_members f j)"

definition int_ok :: "string \<Rightarrow> json \<Rightarrow> bool" where
  "int_ok f j = list_all (\<lambda>v. case v of JInt i \<Rightarrow> is_int64 i | JNull \<Rightarrow> True | _ \<Rightarrow> False) (json_members f j)"

text \<open>\<open>ShouldBindJSON\<close>: a body of another shape or with a member of another type is refused, then a struct whose
  required fields are not all set. \<open>strs\<close> are the string fields, \<open>reqd\<close> the required ones among them.\<close>

definition ShouldBindJSON :: "gctx \<Rightarrow> (json \<Rightarrow> bool) \<Rightarrow> (json \<Rightarrow> bool) \<Rightarrow> json res" where
  "ShouldBindJSON c typed reqd =
     bindR (rq_body (gc_rq c)) (\<lambda>j.
     if \<not> is_struct j \<or> \<not> typed j then Inl (GoErr ''json: cannot unmarshal'')
     else if \<not> reqd j then Inl (GoErr ''failed on the 'required' tag'')
     else Inr j)"

definition strs_ok :: "string list \<Rightarrow> json \<Rightarrow> bool" where
  "strs_ok fs j = list_all (\<lambda>f. str_ok f j) fs"

definition strs_set :: "string list \<Rightarrow> json \<Rightarrow> bool" where
  "strs_set fs j = list_all (\<lambda>f. str_field f j \<noteq> []) fs"

subsection \<open>Tokens\<close>

text \<open>\<open>Claims\<close>; the two instants are numeric dates, in seconds.\<close>

record claims =
  cl_username :: string
  cl_uid :: string
  cl_exp :: int
  cl_iat :: int

text \<open>\<open>SignedString\<close> with HS256 and a key; \<open>ParseWithClaims\<close> with the key, at a time, which gives the claims and
  whether the token is valid.\<close>

record jwt_lib =
  jwt_sign :: "string \<Rightarrow> claims \<Rightarrow> string res"
  jwt_parse :: "string \<Rightarrow> time \<Rightarrow> string \<Rightarrow> (claims \<times> bool) res"

text \<open>\<open>time.Duration(hours) * time.Hour\<close> wraps around in its 64 bits of nanoseconds.\<close>

definition go_hours :: "int \<Rightarrow> time" where
  "go_hours h = sint (word_of_int (h * 3600000000000) :: 64 word) div 1000000"

definition jwt_hours :: "config \<Rightarrow> int" where
  "jwt_hours cfg = (if ExpireHours (JWT cfg) \<le> 0 then 24 else ExpireHours (JWT cfg))"

definition new_claims :: "config \<Rightarrow> time \<Rightarrow> string \<Rightarrow> string \<Rightarrow> claims" where
  "new_claims cfg now username userID =
     \<lparr>cl_username = username, cl_uid = userID, cl_exp = (now + go_hours (jwt_hours cfg)) div 1000, cl_iat = now div 1000\<rparr>"

definition SignJWT :: "jwt_lib \<Rightarrow> config \<Rightarrow> time \<Rightarrow> string \<Rightarrow> string \<Rightarrow> string res" where
  "SignJWT l cfg now username userID =
     (if JwtSecret (JWT cfg) = [] then Inl (GoErr ''jwt secret empty'')
      else jwt_sign l (JwtSecret (JWT cfg)) (new_claims cfg now username userID))"

definition ParseJWT :: "jwt_lib \<Rightarrow> config \<Rightarrow> time \<Rightarrow> string \<Rightarrow> claims res" where
  "ParseJWT l cfg now token =
     bindR (jwt_parse l (JwtSecret (JWT cfg)) now token) (\<lambda>(cl, valid).
     if valid then Inr cl else Inl (GoErr ''invalid token''))"

text \<open>\<open>JWTMiddleware\<close>: the claims that go on to the handler, or the text of the refusal.\<close>

definition JWTMiddleware :: "jwt_lib \<Rightarrow> config \<Rightarrow> time \<Rightarrow> request \<Rightarrow> string + claims" where
  "JWTMiddleware l cfg now rq =
     (let raw = header_of rq ''Authorization'' in
      if raw = [] \<or> \<not> has_prefix raw ''Bearer '' then Inl ''missing bearer token''
      else case ParseJWT l cfg now (trim_prefix raw ''Bearer '') of
        Inl _ \<Rightarrow> Inl ''invalid token''
      | Inr cl \<Rightarrow> Inr cl)"

subsection \<open>Lemmas: tokens\<close>

text \<open>Signing with HS256 does not fail, and a signed token parses to its claims before it expires and is refused
  from then on. The dates are numbers that a \<open>float64\<close> holds.\<close>

definition jwt_ok :: "jwt_lib \<Rightarrow> bool" where
  "jwt_ok l \<longleftrightarrow> (\<forall>key cl. 0 \<le> cl_exp cl \<and> cl_exp cl < 2 ^ 53 \<longrightarrow> (\<exists>token. jwt_sign l key cl = Inr token \<and>
     (\<forall>now. if now < 1000 * cl_exp cl then jwt_parse l key now token = Inr (cl, True)
        else \<exists>err. jwt_parse l key now token = Inl err)))"

lemma has_prefix_append [simp]: "has_prefix (p @ s) p"
  by (induction p) auto

lemma trim_prefix_append [simp]: "trim_prefix (p @ s) p = s"
  by (simp add: trim_prefix_def)

lemma Middleware_iff:
  "JWTMiddleware l cfg now rq = Inr cl \<longleftrightarrow>
     (has_prefix (header_of rq ''Authorization'') ''Bearer '' \<and>
      ParseJWT l cfg now (trim_prefix (header_of rq ''Authorization'') ''Bearer '') = Inr cl)"
  by (auto simp: JWTMiddleware_def Let_def split: sum.splits)

lemma token_issued:
  assumes "jwt_ok l" "JwtSecret (JWT cfg) \<noteq> []"
    "0 \<le> cl_exp (new_claims cfg now u i)" "cl_exp (new_claims cfg now u i) < 2 ^ 53"
  obtains token where "SignJWT l cfg now u i = Inr token"
    "\<And>rq later. header_of rq ''Authorization'' = ''Bearer '' @ token \<Longrightarrow> JWTMiddleware l cfg later rq =
      (if later < 1000 * cl_exp (new_claims cfg now u i) then Inr (new_claims cfg now u i) else Inl ''invalid token'')"
proof -
  let ?cl = "new_claims cfg now u i"
  obtain token where t: "jwt_sign l (JwtSecret (JWT cfg)) ?cl = Inr token"
    and p: "if later < 1000 * cl_exp ?cl then jwt_parse l (JwtSecret (JWT cfg)) later token = Inr (?cl, True)
        else \<exists>err. jwt_parse l (JwtSecret (JWT cfg)) later token = Inl err" for later
    using assms(1,3,4) unfolding jwt_ok_def by meson
  have b: "has_prefix (''Bearer '' @ token) ''Bearer ''" "trim_prefix (''Bearer '' @ token) ''Bearer '' = token"
    by (rule has_prefix_append, rule trim_prefix_append)
  have "JWTMiddleware l cfg later rq = (if later < 1000 * cl_exp ?cl then Inr ?cl else Inl ''invalid token'')"
    if "header_of rq ''Authorization'' = ''Bearer '' @ token" for rq later
    unfolding JWTMiddleware_def that Let_def b using p [of later] by (auto simp: ParseJWT_def split: if_splits)
  moreover have "SignJWT l cfg now u i = Inr token" using t assms(2) by (simp add: SignJWT_def)
  ultimately show thesis using that by blast
qed

lemma go_hours_small:
  assumes "0 \<le> h" "h \<le> 2562047"
  shows "go_hours h = 3600000 * h"
proof -
  have s: "sint (word_of_int i :: 64 word) = i" if "0 \<le> i" "i < 2 ^ 63" for i :: int
    using that by (simp add: signed_of_int signed_take_bit_int_eq_self)
  show ?thesis
    using assms s [of "h * 3600000000000"] by (simp add: go_hours_def del: of_int_mult)
qed

subsection \<open>Lemmas: bindings\<close>

lemma ShouldBind_Inr:
  "ShouldBindJSON c typed reqd = Inr j \<longleftrightarrow> rq_body (gc_rq c) = Inr j \<and> is_struct j \<and> typed j \<and> reqd j"
  by (cases "rq_body (gc_rq c)") (auto simp: ShouldBindJSON_def)

end
