(* ===== verification/Api_Core.thy ===== *)
theory Api_Core
  imports Http Pipeline Eth_Scan Webhook_Service
begin

text \<open>
  What the handlers of \<open>internal/api\<close> share: the services that \<open>NewRouter\<close> is given, the state they work on,
  replies, and the way a handler goes from one call to the next.

  The state holds the database with the indexer's part of the process (\<open>ix_state\<close>), the transactions sent,
  the counters of the webhook service, the registry of wallets, the pipeline, the goroutines
  that handlers started and that have not run, and the uploaded files. A handler that panics is answered 500 by
  \<open>gin.Recovery\<close>. The bodies of replies are constructors with the values that \<open>gin.H\<close> holds; their keys, where all the
  values are one struct or list, are left out.
\<close>

subsection \<open>The services\<close>

text \<open>The blocks and transactions of go-ethereum with the fields that only the chain handlers show, and the calls
  of its client that only they make.\<close>

record full_block = block +
  blk_nonce :: u64
  blk_miner :: address
  blk_difficulty :: int
  blk_extra :: bytes
  blk_gas_limit :: u64
  blk_root :: hash
  blk_tx_root :: hash
  blk_receipt_root :: hash
  blk_uncle_hash :: hash
  blk_mix :: hash
  blk_bloom :: bytes
  blk_base_fee :: "int option"

record full_receipt = receipt +
  rc_tx_hash :: hash
  rc_block_hash :: hash
  rc_tx_index :: nat

record chain_client =
  cc_latest :: "full_block res"
  cc_by_number :: "u64 \<Rightarrow> full_block res"
  cc_by_hash :: "hash \<Rightarrow> (full_block option) res"
  cc_transaction :: "hash \<Rightarrow> (signed_tx option \<times> bool) res"
  cc_receipt :: "hash \<Rightarrow> full_receipt res"
  cc_code :: "address \<Rightarrow> bytes res"
  cc_is_hash :: "string \<Rightarrow> bool"

text \<open>Gin's routing: of the registered methods and patterns the one that a method and path belong to, with the
  parameters of the path.\<close>

type_synonym gin_find = "(string \<times> string) list \<Rightarrow> string \<Rightarrow> string \<Rightarrow> ((string \<times> string) \<times> (string \<times> string) list) option"

text \<open>The arguments of \<open>NewRouter\<close>, nil as \<open>None\<close>; a store is its chain id. The last fields are the libraries:
  golang-jwt, Gin's routing, \<open>url.ParseRequestURI\<close>, \<open>(*big.Rat).SetString\<close> with numerator and denominator, SHA-256
  and the HTTP client.\<close>

record api =
  ap_cfg :: config
  ap_backend :: backend
  ap_chain :: chain_client
  ap_users :: user_store
  ap_indexer :: "engine option"
  ap_tracker :: "tracker option"
  ap_txsvc :: "tx_service option"
  ap_balstore :: "int option"
  ap_balsync :: "syncer option"
  ap_registry :: bool
  ap_exchange :: "ex_service option"
  ap_webhook :: "wh_service option"
  ap_jwt :: jwt_lib
  ap_gin :: gin_find
  ap_parse_uri :: "string \<Rightarrow> bool"
  ap_rat :: "string \<Rightarrow> (int \<times> nat) option"
  ap_sha256 :: "string \<Rightarrow> bytes"
  ap_http_get :: "string \<Rightarrow> int res"

subsection \<open>The state\<close>

record api_state =
  as_ix :: ix_state
  as_sent :: "signed_tx list"
  as_met :: metrics
  as_reg :: registry
  as_bus :: bus
  as_async :: "string list"
  as_jobs :: "tx_parties list"
  as_index :: "string \<rightharpoonup> string"
  as_files :: "string \<rightharpoonup> string"

definition as_db :: "api_state \<Rightarrow> db" where
  "as_db s = ixs_db (as_ix s)"

definition set_db :: "db \<Rightarrow> api_state \<Rightarrow> api_state" where
  "set_db d s = s\<lparr>as_ix := (as_ix s)\<lparr>ixs_db := d\<rparr>\<rparr>"

type_synonym 'a apitx = "(api_state, 'a) tx"

definition dbA :: "'a dbtx \<Rightarrow> 'a apitx" where
  "dbA m = (\<lambda>s. case m (as_db s) of (r, d') \<Rightarrow> (r, set_db d' s))"

definition readA :: "(db \<Rightarrow> 'a res) \<Rightarrow> 'a apitx" where
  "readA f = readT (\<lambda>s. f (as_db s))"

definition sysA :: "'a systx \<Rightarrow> 'a apitx" where
  "sysA m = (\<lambda>s. case m \<lparr>sys_db = as_db s, sys_sent = as_sent s\<rparr> of
     (r, y) \<Rightarrow> (r, (set_db (sys_db y) s)\<lparr>as_sent := sys_sent y\<rparr>))"

definition whA :: "'a whtx \<Rightarrow> 'a apitx" where
  "whA m = (\<lambda>s. case m \<lparr>whs_db = as_db s, whs_met = as_met s\<rparr> of
     (r, w) \<Rightarrow> (r, (set_db (whs_db w) s)\<lparr>as_met := whs_met w\<rparr>))"

subsection \<open>Replies\<close>

datatype hval =
    HNull
  | HStr string
  | HInt int
  | HU64 u64
  | HBool bool
  | HTime time
  | HStrs "string list"
  | HObjs "(string \<times> hval) list list"

record wh_status =
  wst_enabled :: bool
  wst_workers :: int
  wst_batch :: int
  wst_pending :: nat
  wst_processing :: nat
  wst_metrics :: "metrics option"

datatype (plugins only: code) api_body =
    BNone
  | BErr string
  | BObj "(string \<times> hval) list"
  | BToken string user
  | BUsers "user list"
  | BAccounts string "account_balance list"
  | BEntries string "ledger_entry list"
  | BDeposits "deposit list"
  | BWithdraw withdraw_request
  | BWithdraws "withdraw_request list"
  | BReports "reconcile_report list"
  | BWhStatus wh_status
  | BMerchant merchant
  | BMerchants "merchant list"
  | BPayment payment
  | BDeliveries "delivery list"
  | BTx tx_row
  | BTxs string string int "tx_row list"
  | BRegistered bool custodial_wallet
  | BWallet custodial_wallet
  | BWallets "custodial_wallet list"
  | BBalance bal_row
  | BBalances string "bal_row list"
  | BIxStatus ix_status
  | BBlock block_row
  | BBlocks int int "block_row list"
  | BSynced u64 int "synced_tx_row list"
  | BEvents string string u64 int "event_log_row list"
  | BScans int "gap_scan_row list"
  | BFile string string

type_synonym response = "int \<times> api_body"
type_synonym handler = "gctx \<Rightarrow> api_state \<Rightarrow> response \<times> api_state"

definition JSON :: "int \<Rightarrow> api_body \<Rightarrow> api_state \<Rightarrow> response \<times> api_state" where
  "JSON code b s = ((code, b), s)"

text \<open>A call whose error the first continuation answers.\<close>

definition call :: "'a apitx \<Rightarrow> (go_error \<Rightarrow> api_state \<Rightarrow> response \<times> api_state) \<Rightarrow>
    ('a \<Rightarrow> api_state \<Rightarrow> response \<times> api_state) \<Rightarrow> api_state \<Rightarrow> response \<times> api_state" where
  "call m f g s = (case m s of
     (Inl (GoPanic p), s') \<Rightarrow> JSON 500 BNone s'
   | (Inl e, s') \<Rightarrow> f e s'
   | (Inr x, s') \<Rightarrow> g x s')"

text \<open>\<open>c.JSON(code, gin.H{"error": err.Error()})\<close>.\<close>

definition failJSON :: "int \<Rightarrow> go_error \<Rightarrow> api_state \<Rightarrow> response \<times> api_state" where
  "failJSON code e = JSON code (BErr (err_text e))"

text \<open>A struct from the body, refused with 400.\<close>

definition withBody :: "gctx \<Rightarrow> (gctx \<Rightarrow> 'b res) \<Rightarrow> ('b \<Rightarrow> api_state \<Rightarrow> response \<times> api_state) \<Rightarrow>
    api_state \<Rightarrow> response \<times> api_state" where
  "withBody c bind g = (case bind c of Inl e \<Rightarrow> failJSON 400 e | Inr b \<Rightarrow> g b)"

definition ap_geth :: "api \<Rightarrow> geth" where
  "ap_geth ap = bk_geth (ap_backend ap)"

subsection \<open>\<open>handlers_auth.go\<close>, \<open>handlers_stats.go\<close>, \<open>handlers_tools.go\<close>\<close>

record login_req =
  lr_username :: string
  lr_password :: string

definition BindLoginReq :: "gctx \<Rightarrow> login_req res" where
  "BindLoginReq c =
     bindR (ShouldBindJSON c (strs_ok [''username'', ''password'']) (strs_set [''username'', ''password''])) (\<lambda>j.
     Inr \<lparr>lr_username = str_field ''username'' j, lr_password = str_field ''password'' j\<rparr>)"

definition HandleLogin :: "api \<Rightarrow> handler" where
  "HandleLogin ap c =
     withBody c BindLoginReq (\<lambda>req.
     case Authenticate (ap_users ap) (lr_username req) (lr_password req) of
       None \<Rightarrow> JSON 401 (BErr ''invalid credentials'')
     | Some u \<Rightarrow>
         (case SignJWT (ap_jwt ap) (ap_cfg ap) (gc_now c) (usr_name u) (usr_id u) of
            Inl e \<Rightarrow> failJSON 500 e
          | Inr token \<Rightarrow> JSON 200 (BToken token u)))"

definition HandleListUsers :: "api \<Rightarrow> handler" where
  "HandleListUsers ap c = JSON 200 (BUsers (UserList (ap_users ap)))"

definition HandlePipelineStats :: handler where
  "HandlePipelineStats c s =
     (case BusStats (as_bus s) of (h, t, recent) \<Rightarrow>
      JSON 200 (BObj [(''headers_processed'', HU64 h), (''transfers_processed'', HU64 t), (''recent'', HStrs recent)]) s)"

text \<open>\<open>crawler.HeadStatus\<close>: a GET and the status of its answer.\<close>

definition HeadStatus :: "api \<Rightarrow> string \<Rightarrow> int res" where
  "HeadStatus ap url = (if url = [] then Inl (GoErr ''empty url'') else ap_http_get ap url)"

definition HandleHTTPProbe :: "api \<Rightarrow> handler" where
  "HandleHTTPProbe ap c =
     (let url = Query c ''url'' in
      case HeadStatus ap url of
        Inl e \<Rightarrow> failJSON 400 e
      | Inr code \<Rightarrow> JSON 200 (BObj [(''url'', HStr url), (''status'', HInt code)]))"

subsection \<open>Lemmas\<close>

named_theorems api_simps "handlers, step by step"

lemma JSON_apply [simp]: "JSON code b s = ((code, b), s)"
  by (simp add: JSON_def)

lemma failJSON_apply [simp]: "failJSON code e s = ((code, BErr (err_text e)), s)"
  by (simp add: failJSON_def)

lemma as_db_set [simp]: "as_db (set_db d s) = d"
  by (simp add: as_db_def set_db_def)

lemma as_db_sent [simp]: "as_db (s\<lparr>as_sent := x\<rparr>) = as_db s" "as_db (s\<lparr>as_met := m\<rparr>) = as_db s"
  "as_db (s\<lparr>as_reg := r\<rparr>) = as_db s" "as_db (s\<lparr>as_async := a\<rparr>) = as_db s" "as_db (s\<lparr>as_jobs := j\<rparr>) = as_db s"
  "as_db (s\<lparr>as_index := i\<rparr>) = as_db s" "as_db (s\<lparr>as_files := f\<rparr>) = as_db s" "as_db (s\<lparr>as_bus := b\<rparr>) = as_db s"
  by (simp_all add: as_db_def)

lemma dbA_snd [simp]: "as_db (snd (dbA m s)) = snd (m (as_db s))"
  by (simp add: dbA_def split: prod.split)

lemma readA_snd [simp]: "snd (readA f s) = s"
  by (simp add: readA_def)

text \<open>What holds of the state after every outcome of the call, and of the replies that follow, holds of the handler.\<close>

lemma call_keeps:
  assumes "P (snd (m s))" "\<And>e s'. P s' \<Longrightarrow> P (snd (f e s'))" "\<And>x s'. P s' \<Longrightarrow> P (snd (g x s'))"
  shows "P (snd (call m f g s))"
  using assms by (cases "m s") (auto simp: call_def split: sum.splits go_error.splits)

lemma withBody_keeps:
  assumes "P s" "\<And>b. P (snd (g b s))"
  shows "P (snd (withBody c bind g s))"
  using assms by (auto simp: withBody_def split: sum.splits)

end
