(* ===== verification/Api_Exchange.thy ===== *)
theory Api_Exchange
  imports Api_Core
begin

text \<open>
  \<open>api/handlers_exchange.go\<close> and \<open>api/handlers_webhook.go\<close>: ledger, deposits, withdrawals and their review,
  merchants, payments and the webhook outbox over HTTP. Lists cannot fail here, since failures of the database are not modelled.
\<close>

subsection \<open>Ledger and deposits\<close>

definition withExchange :: "api \<Rightarrow> (ex_service \<Rightarrow> api_state \<Rightarrow> response \<times> api_state) \<Rightarrow> api_state \<Rightarrow> response \<times> api_state" where
  "withExchange ap k =
     (case ap_exchange ap of None \<Rightarrow> JSON 503 (BErr ''exchange not enabled'') | Some svc \<Rightarrow> k svc)"

definition HandleLedgerBalances :: "api \<Rightarrow> handler" where
  "HandleLedgerBalances ap c = withExchange ap (\<lambda>svc s.
     let userID = trim_space (Param c ''user_id'') in
     if userID = [] then JSON 400 (BErr ''user_id required'') s
     else JSON 200 (BAccounts userID (ListBalances (xs_store svc) userID (as_db s))) s)"

definition HandleLedgerEntries :: "api \<Rightarrow> handler" where
  "HandleLedgerEntries ap c = withExchange ap (\<lambda>svc s.
     let userID = trim_space (Param c ''user_id''); limit = atoi (DefaultQuery c ''limit'' ''100'') in
     JSON 200 (BEntries userID (ListEntries (xs_store svc) userID limit (as_db s))) s)"

definition HandleDepositList :: "api \<Rightarrow> handler" where
  "HandleDepositList ap c = withExchange ap (\<lambda>svc s.
     let userID = trim_space (Query c ''user_id''); limit = atoi (DefaultQuery c ''limit'' ''100'') in
     JSON 200 (BDeposits (ListDeposits (xs_store svc) userID limit (as_db s))) s)"

subsection \<open>Withdrawals\<close>

record create_withdraw_body =
  wb_user :: string
  wb_token :: string
  wb_to :: string
  wb_amount :: string
  wb_idem :: string

definition BindCreateWithdraw :: "gctx \<Rightarrow> create_withdraw_body res" where
  "BindCreateWithdraw c =
     bindR (ShouldBindJSON c
       (strs_ok [''user_id'', ''token_address'', ''to'', ''amount_wei'', ''idempotency_key''])
       (strs_set [''user_id'', ''to'', ''amount_wei''])) (\<lambda>j.
     Inr \<lparr>wb_user = str_field ''user_id'' j, wb_token = str_field ''token_address'' j, wb_to = str_field ''to'' j,
       wb_amount = str_field ''amount_wei'' j, wb_idem = str_field ''idempotency_key'' j\<rparr>)"

definition HandleWithdrawCreate :: "api \<Rightarrow> handler" where
  "HandleWithdrawCreate ap c = withExchange ap (\<lambda>svc.
     withBody c BindCreateWithdraw (\<lambda>req.
     if \<not> IsHexAddress (ap_geth ap) (wb_to req) then JSON 400 (BErr ''invalid to address'')
     else
       let idem = (if wb_idem req = [] then trim_space (GetHeader c ''Idempotency-Key'') else wb_idem req) in
       call (dbA (CreateWithdraw svc (gc_now c)
           \<lparr>cw_user = wb_user req, cw_token = wb_token req, cw_to = wb_to req, cw_amount = wb_amount req,
            cw_idem_key = idem\<rparr>))
         (\<lambda>e. failJSON (if e = ErrInsufficientBalance \<or> e = ErrInvalidWei then 400 else 500) e)
         (\<lambda>w. JSON 201 (BWithdraw w))))"

definition HandleWithdrawList :: "api \<Rightarrow> handler" where
  "HandleWithdrawList ap c = withExchange ap (\<lambda>svc s.
     let userID = trim_space (Query c ''user_id''); status = trim_space (Query c ''status'');
         limit = atoi (DefaultQuery c ''limit'' ''100'') in
     JSON 200 (BWithdraws (ListWithdraws (xs_store svc) userID status limit (as_db s))) s)"

definition HandleWithdrawGet :: "api \<Rightarrow> handler" where
  "HandleWithdrawGet ap c = withExchange ap (\<lambda>svc.
     case ParseInt (Param c ''id'') of
       None \<Rightarrow> JSON 400 (BErr ''invalid id'')
     | Some i \<Rightarrow>
         call (readA (GetWithdraw (xs_store svc) i))
           (\<lambda>e. if e = ErrNoRows then JSON 404 (BErr ''not found'') else failJSON 500 e)
           (\<lambda>w. JSON 200 (BWithdraw w)))"

record review_withdraw_body =
  rv_reviewer :: string
  rv_reason :: string

text \<open>An approval ignores the error of the binding: the fields that could be filled are filled. A rejection does not.\<close>

definition PartialReview :: "gctx \<Rightarrow> review_withdraw_body" where
  "PartialReview c = (case rq_body (gc_rq c) of
     Inl _ \<Rightarrow> \<lparr>rv_reviewer = [], rv_reason = []\<rparr>
   | Inr j \<Rightarrow> \<lparr>rv_reviewer = str_field ''reviewer'' j, rv_reason = str_field ''reject_reason'' j\<rparr>)"

definition BindReview :: "gctx \<Rightarrow> review_withdraw_body res" where
  "BindReview c =
     bindR (ShouldBindJSON c (strs_ok [''reviewer'', ''reject_reason'']) (\<lambda>_. True)) (\<lambda>j.
     Inr \<lparr>rv_reviewer = str_field ''reviewer'' j, rv_reason = str_field ''reject_reason'' j\<rparr>)"

definition reviewer_of :: "gctx \<Rightarrow> review_withdraw_body \<Rightarrow> string" where
  "reviewer_of c req = (if rv_reviewer req = [] then gc_username c else rv_reviewer req)"

definition HandleWithdrawApprove :: "api \<Rightarrow> handler" where
  "HandleWithdrawApprove ap c = withExchange ap (\<lambda>svc.
     case ParseInt (Param c ''id'') of
       None \<Rightarrow> JSON 400 (BErr ''invalid id'')
     | Some i \<Rightarrow>
         call (dbA (ApproveWithdraw svc (gc_now c) i (reviewer_of c (PartialReview c))))
           (failJSON 400) (\<lambda>w. JSON 200 (BWithdraw w)))"

definition HandleWithdrawReject :: "api \<Rightarrow> handler" where
  "HandleWithdrawReject ap c = withExchange ap (\<lambda>svc.
     case ParseInt (Param c ''id'') of
       None \<Rightarrow> JSON 400 (BErr ''invalid id'')
     | Some i \<Rightarrow>
         withBody c BindReview (\<lambda>req.
         call (dbA (RejectWithdraw svc (gc_now c) i (reviewer_of c req) (rv_reason req)))
           (failJSON 400) (\<lambda>w. JSON 200 (BWithdraw w))))"

definition HandleReconcileReport :: "api \<Rightarrow> handler" where
  "HandleReconcileReport ap c = withExchange ap (\<lambda>svc.
     call (readA (RunReconcile svc (gc_now c))) (failJSON 500) (\<lambda>reports. JSON 200 (BReports reports)))"

subsection \<open>Merchants and payments\<close>

definition withWebhook :: "api \<Rightarrow> (wh_service \<Rightarrow> api_state \<Rightarrow> response \<times> api_state) \<Rightarrow> api_state \<Rightarrow> response \<times> api_state" where
  "withWebhook ap k =
     (case ap_webhook ap of None \<Rightarrow> JSON 503 (BErr ''webhook not enabled'') | Some svc \<Rightarrow> k svc)"

text \<open>\<open>Service.Status\<close>; the rates that \<open>Snapshot\<close> computes in floating point are left out, the counters they are
  computed from stand for them.\<close>

definition WhStatus :: "wh_service \<Rightarrow> db \<Rightarrow> metrics \<Rightarrow> wh_status" where
  "WhStatus svc d m =
     (if \<not> WhEnabled svc
      then \<lparr>wst_enabled = False, wst_workers = 0, wst_batch = 0, wst_pending = 0, wst_processing = 0, wst_metrics = None\<rparr>
      else \<lparr>wst_enabled = True, wst_workers = WhWorkers (Webhook (ws_cfg svc)), wst_batch = WhBatchSize (Webhook (ws_cfg svc)),
            wst_pending = WhCountOutboxByStatus (ws_store svc) ObPending d,
            wst_processing = WhCountOutboxByStatus (ws_store svc) ObProcessing d, wst_metrics = Some m\<rparr>)"

definition HandleWebhookStatus :: "api \<Rightarrow> handler" where
  "HandleWebhookStatus ap c = withWebhook ap (\<lambda>svc s. JSON 200 (BWhStatus (WhStatus svc (as_db s) (as_met s))) s)"

record register_merchant_body =
  mb_id :: string
  mb_name :: string
  mb_url :: string
  mb_secret :: string
  mb_ledger_user :: string
  mb_enabled :: "bool option"

definition BindRegisterMerchant :: "gctx \<Rightarrow> register_merchant_body res" where
  "BindRegisterMerchant c =
     bindR (ShouldBindJSON c
       (\<lambda>j. strs_ok [''merchant_id'', ''name'', ''webhook_url'', ''secret'', ''ledger_user_id''] j \<and> bool_ok ''enabled'' j)
       (strs_set [''merchant_id'', ''webhook_url''])) (\<lambda>j.
     Inr \<lparr>mb_id = str_field ''merchant_id'' j, mb_name = str_field ''name'' j, mb_url = str_field ''webhook_url'' j,
       mb_secret = str_field ''secret'' j, mb_ledger_user = str_field ''ledger_user_id'' j,
       mb_enabled = opt_bool_field ''enabled'' j\<rparr>)"

definition HandleMerchantRegister :: "api \<Rightarrow> handler" where
  "HandleMerchantRegister ap c = withWebhook ap (\<lambda>svc.
     withBody c BindRegisterMerchant (\<lambda>body.
     call (dbA (RegisterMerchant (ap_parse_uri ap) svc (gc_now c)
         \<lparr>rm_id = mb_id body, rm_name = mb_name body, rm_url = mb_url body, rm_secret = mb_secret body,
          rm_ledger_user = mb_ledger_user body,
          rm_enabled = (case mb_enabled body of None \<Rightarrow> True | Some b \<Rightarrow> b)\<rparr>))
       (failJSON 400) (\<lambda>m. JSON 201 (BMerchant m))))"

definition HandleMerchantList :: "api \<Rightarrow> handler" where
  "HandleMerchantList ap c = withWebhook ap (\<lambda>svc s.
     JSON 200 (BMerchants (ListMerchants (ws_store svc) (atoi (DefaultQuery c ''limit'' ''50'')) (as_db s))) s)"

definition BindBinding :: "gctx \<Rightarrow> string res" where
  "BindBinding c =
     bindR (ShouldBindJSON c (strs_ok [''payer_user_id'']) (strs_set [''payer_user_id''])) (\<lambda>j.
     Inr (str_field ''payer_user_id'' j))"

definition HandleMerchantBind :: "api \<Rightarrow> handler" where
  "HandleMerchantBind ap c = withWebhook ap (\<lambda>svc.
     let merchantID = trim_space (Param c ''merchant_id'') in
     withBody c BindBinding (\<lambda>payer.
     call (dbA (AddBinding svc (gc_now c) merchantID payer)) (failJSON 400)
       (\<lambda>_. JSON 200 (BObj [(''merchant_id'', HStr merchantID), (''payer_user_id'', HStr payer), (''status'', HStr ''bound'')]))))"

record create_payment_body =
  pb_merchant :: string
  pb_order :: string
  pb_payer :: string
  pb_amount :: string
  pb_token :: string
  pb_idem :: string

definition BindCreatePayment :: "gctx \<Rightarrow> create_payment_body res" where
  "BindCreatePayment c =
     bindR (ShouldBindJSON c
       (strs_ok [''merchant_id'', ''order_id'', ''payer_user_id'', ''amount_wei'', ''token_address'', ''idempotency_key''])
       (strs_set [''merchant_id'', ''order_id'', ''payer_user_id'', ''amount_wei''])) (\<lambda>j.
     Inr \<lparr>pb_merchant = str_field ''merchant_id'' j, pb_order = str_field ''order_id'' j,
       pb_payer = str_field ''payer_user_id'' j, pb_amount = str_field ''amount_wei'' j,
       pb_token = str_field ''token_address'' j, pb_idem = str_field ''idempotency_key'' j\<rparr>)"

text \<open>Every error is answered with 400.\<close>

definition HandleMerchantPayment :: "api \<Rightarrow> handler" where
  "HandleMerchantPayment ap c = withWebhook ap (\<lambda>svc.
     withBody c BindCreatePayment (\<lambda>body.
     call (whA (CreatePayment svc (gc_now c)
         \<lparr>cp_merchant = pb_merchant body, cp_order = pb_order body, cp_payer = pb_payer body, cp_token = pb_token body,
          cp_amount = pb_amount body, cp_idem = pb_idem body\<rparr>))
       (failJSON 400) (\<lambda>pay. JSON 201 (BPayment pay))))"

subsection \<open>Deliveries and the load test\<close>

definition HandleWebhookDeliveries :: "api \<Rightarrow> handler" where
  "HandleWebhookDeliveries ap c = withWebhook ap (\<lambda>svc s.
     let merchantID = trim_space (Query c ''merchant_id''); limit = atoi (DefaultQuery c ''limit'' ''50'') in
     JSON 200 (BDeliveries (ListDeliveries (ws_store svc) merchantID limit (as_db s))) s)"

definition HandleWebhookRequeue :: "api \<Rightarrow> handler" where
  "HandleWebhookRequeue ap c = withWebhook ap (\<lambda>svc.
     case ParseUint (Param c ''id'') of
       None \<Rightarrow> JSON 400 (BErr ''invalid outbox id'')
     | Some i \<Rightarrow>
         call (dbA (Requeue svc (gc_now c) (uint i))) (failJSON 400)
           (\<lambda>_. JSON 200 (BObj [(''outbox_id'', HU64 i), (''status'', HStr ''pending'')])))"

definition BindBenchEnqueue :: "gctx \<Rightarrow> (string \<times> int) res" where
  "BindBenchEnqueue c =
     bindR (ShouldBindJSON c (\<lambda>j. str_ok ''merchant_id'' j \<and> int_ok ''count'' j)
       (\<lambda>j. str_field ''merchant_id'' j \<noteq> [] \<and> int_field ''count'' j \<noteq> 0)) (\<lambda>j.
     Inr (str_field ''merchant_id'' j, int_field ''count'' j))"

definition HandleWebhookBenchEnqueue :: "api \<Rightarrow> handler" where
  "HandleWebhookBenchEnqueue ap c = withWebhook ap (\<lambda>svc.
     withBody c BindBenchEnqueue (\<lambda>(merchantID, count).
     if count \<le> 0 \<or> 50000 < count then JSON 400 (BErr ''count must be 1..50000'')
     else
       call (whA (BenchEnqueue svc (gc_now c) (gc_nano c) merchantID count)) (failJSON 400)
         (\<lambda>n. JSON 202 (BObj [(''merchant_id'', HStr merchantID), (''enqueued'', HInt (int n)),
            (''message'', HStr ''outbox items created; workers will deliver asynchronously'')]))))"

definition HandleWebhookMockReceive :: handler where
  "HandleWebhookMockReceive c = JSON 200 (BObj [(''ok'', HBool True), (''received'', HBool True)])"

end
