(* ===== verification/Api_Tx.thy ===== *)
theory Api_Tx
  imports Api_Core
begin

text \<open>
  \<open>api/handlers_tx.go\<close> and \<open>api/handlers_dev_send.go\<close>: transactions over HTTP, signed by the caller or, when the
  configuration allows it, with a key in the request; and the two conversions between ether and wei,
  \<open>parseTransferValue\<close> and \<open>weiToETHString\<close> of \<open>api/handlers_chain.go\<close>.
\<close>

subsection \<open>Amounts, hashes and keys\<close>

definition parseTransferValue :: "(string \<Rightarrow> (int \<times> nat) option) \<Rightarrow> string \<Rightarrow> string \<Rightarrow> int res" where
  "parseTransferValue rat weiStr ethStr =
     (if weiStr \<noteq> [] then
        (case big_set_string weiStr of
           None \<Rightarrow> Inl (GoErr ''value_wei must be a positive decimal string'')
         | Some v \<Rightarrow> if v \<le> 0 then Inl (GoErr ''value_wei must be a positive decimal string'') else Inr v)
      else if ethStr = [] then Inl (GoErr ''provide value_wei or value_eth'')
      else case rat ethStr of
        None \<Rightarrow> Inl (GoErr ''invalid value_eth'')
      | Some (num, den) \<Rightarrow>
          if num \<le> 0 then Inl (GoErr ''value_eth must be positive'')
          else
            let v = (num * 10 ^ 18) div int den in
            if v \<le> 0 then Inl (GoErr ''amount too small'') else Inr v)"

text \<open>\<open>strings.TrimRight\<close> and \<open>TrimSuffix\<close>.\<close>

definition trim_suffix :: "string \<Rightarrow> string \<Rightarrow> string" where
  "trim_suffix s p = rev (trim_prefix (rev s) (rev p))"

definition weiToETHString :: "int \<Rightarrow> string" where
  "weiToETHString w =
     (if w = 0 then ''0''
      else
        let s = rat_float_string w (10 ^ 18) 18 in
        if \<not> str_contains s ''.'' then s
        else trim_suffix (trim_right (\<lambda>c. c = CHR ''0'') s) ''.'')"

definition normalizeTxHash :: "string \<Rightarrow> string" where
  "normalizeTxHash raw0 =
     (let raw = trim_space raw0 in
      if raw = [] then raw
      else if \<not> has_prefix raw ''0x'' \<and> \<not> has_prefix raw ''0X'' then ''0x'' @ raw
      else raw)"

definition parsePrivateKey :: "geth \<Rightarrow> string \<Rightarrow> privkey res" where
  "parsePrivateKey g pkHex0 =
     (let pkHex = trim_space pkHex0 in
      HexToECDSA g (if has_prefix pkHex ''0x'' \<or> has_prefix pkHex ''0X'' then drop 2 pkHex else pkHex))"

subsection \<open>Bodies\<close>

record send_tx_body =
  sb_from_key :: string
  sb_to :: string
  sb_value_wei :: string
  sb_value_eth :: string
  sb_biz_id :: string
  sb_biz_type :: string
  sb_idem :: string

record submit_tx_body =
  ub_signed_raw :: string
  ub_biz_id :: string
  ub_biz_type :: string
  ub_idem :: string
  ub_replaces :: string

record send_erc20_body =
  eb_from_key :: string
  eb_token :: string
  eb_to :: string
  eb_amount :: string
  eb_biz_id :: string
  eb_biz_type :: string
  eb_idem :: string

definition BindSendTx :: "gctx \<Rightarrow> send_tx_body res" where
  "BindSendTx c =
     bindR (ShouldBindJSON c
       (strs_ok [''from_private_key'', ''to'', ''value_wei'', ''value_eth'', ''biz_id'', ''biz_type'', ''idempotency_key''])
       (strs_set [''to''])) (\<lambda>j.
     Inr \<lparr>sb_from_key = str_field ''from_private_key'' j, sb_to = str_field ''to'' j,
       sb_value_wei = str_field ''value_wei'' j, sb_value_eth = str_field ''value_eth'' j,
       sb_biz_id = str_field ''biz_id'' j, sb_biz_type = str_field ''biz_type'' j, sb_idem = str_field ''idempotency_key'' j\<rparr>)"

definition BindSubmitTx :: "gctx \<Rightarrow> submit_tx_body res" where
  "BindSubmitTx c =
     bindR (ShouldBindJSON c
       (strs_ok [''signed_raw_tx'', ''biz_id'', ''biz_type'', ''idempotency_key'', ''replaces_hash''])
       (strs_set [''signed_raw_tx''])) (\<lambda>j.
     Inr \<lparr>ub_signed_raw = str_field ''signed_raw_tx'' j, ub_biz_id = str_field ''biz_id'' j,
       ub_biz_type = str_field ''biz_type'' j, ub_idem = str_field ''idempotency_key'' j,
       ub_replaces = str_field ''replaces_hash'' j\<rparr>)"

definition BindSendERC20 :: "gctx \<Rightarrow> send_erc20_body res" where
  "BindSendERC20 c =
     bindR (ShouldBindJSON c
       (strs_ok [''from_private_key'', ''token'', ''to'', ''amount_wei'', ''biz_id'', ''biz_type'', ''idempotency_key''])
       (strs_set [''from_private_key'', ''token'', ''to'', ''amount_wei''])) (\<lambda>j.
     Inr \<lparr>eb_from_key = str_field ''from_private_key'' j, eb_token = str_field ''token'' j, eb_to = str_field ''to'' j,
       eb_amount = str_field ''amount_wei'' j, eb_biz_id = str_field ''biz_id'' j, eb_biz_type = str_field ''biz_type'' j,
       eb_idem = str_field ''idempotency_key'' j\<rparr>)"

definition BindSpeedUp :: "gctx \<Rightarrow> string res" where
  "BindSpeedUp c =
     bindR (ShouldBindJSON c (strs_ok [''from_private_key'']) (strs_set [''from_private_key''])) (\<lambda>j.
     Inr (str_field ''from_private_key'' j))"

text \<open>A \<open>SendMeta\<close> without the hash it replaces.\<close>

definition sendMetaFromRequest :: "gctx \<Rightarrow> string \<Rightarrow> string \<Rightarrow> string \<Rightarrow> send_meta" where
  "sendMetaFromRequest c bizID bizType idempotency =
     \<lparr>sm_biz_id = bizID, sm_biz_type = bizType,
      sm_idem = (if idempotency = [] then trim_space (GetHeader c ''Idempotency-Key'') else idempotency), sm_replaces = []\<rparr>"

subsection \<open>Sending\<close>

definition withTxService :: "api \<Rightarrow> (tx_service \<Rightarrow> api_state \<Rightarrow> response \<times> api_state) \<Rightarrow> api_state \<Rightarrow> response \<times> api_state" where
  "withTxService ap k =
     (case ap_txsvc ap of None \<Rightarrow> JSON 503 (BErr ''tx tracker not enabled'') | Some svc \<Rightarrow> k svc)"

definition HandleTxSubmit :: "api \<Rightarrow> handler" where
  "HandleTxSubmit ap c = withTxService ap (\<lambda>svc.
     withBody c BindSubmitTx (\<lambda>req.
     let idem = (if ub_idem req = [] then trim_space (GetHeader c ''Idempotency-Key'') else ub_idem req) in
     if RequireIdempotencyKey (TxTracker (ap_cfg ap)) \<and> idem = [] then JSON 400 (BErr ''idempotency key required'')
     else
       call (sysA (SubmitRaw svc (gc_now c)
           \<lparr>sq_signed_raw = ub_signed_raw req, sq_biz_id = ub_biz_id req, sq_biz_type = ub_biz_type req, sq_idem = idem,
            sq_replaces = normalizeTxHash (ub_replaces req)\<rparr>))
         (\<lambda>e. failJSON (if e = ErrIdempotencyConflict then 409 else 502) e)
         (\<lambda>row. JSON 202 (BTx row))))"

definition HandleTxSend :: "api \<Rightarrow> handler" where
  "HandleTxSend ap c =
     (if \<not> DevSendEnabled (Eth (ap_cfg ap))
      then JSON 403 (BErr (''custodial send disabled: use POST /tx/submit with signed_raw_tx, '' @
             ''or set eth.dev_send_enabled=true for local Anvil''))
      else withTxService ap (\<lambda>svc.
        withBody c BindSendTx (\<lambda>req.
        let to = trim_space (sb_to req) in
        if trim_space (sb_from_key req) = [] then JSON 400 (BErr ''from_private_key required for custodial send'')
        else if \<not> IsHexAddress (ap_geth ap) to then JSON 400 (BErr ''invalid to address'')
        else case parseTransferValue (ap_rat ap) (trim_space (sb_value_wei req)) (trim_space (sb_value_eth req)) of
          Inl e \<Rightarrow> failJSON 400 e
        | Inr val \<Rightarrow>
            (case parsePrivateKey (ap_geth ap) (sb_from_key req) of
               Inl e \<Rightarrow> failJSON 400 e
             | Inr key \<Rightarrow>
                 call (sysA (SendNative svc (gc_now c) key (HexToAddress (ap_geth ap) to) (int_str val)
                     (sendMetaFromRequest c (sb_biz_id req) (sb_biz_type req) (sb_idem req))))
                   (failJSON 502) (\<lambda>row. JSON 202 (BTx row))))))"

definition HandleTxSendERC20 :: "api \<Rightarrow> handler" where
  "HandleTxSendERC20 ap c =
     (if \<not> DevSendEnabled (Eth (ap_cfg ap)) then JSON 403 (BErr ''custodial send disabled'')
      else withTxService ap (\<lambda>svc.
        withBody c BindSendERC20 (\<lambda>req.
        case parsePrivateKey (ap_geth ap) (eb_from_key req) of
          Inl e \<Rightarrow> failJSON 400 e
        | Inr key \<Rightarrow>
            let g = ap_geth ap; token = trim_space (eb_token req); to = trim_space (eb_to req) in
            if \<not> IsHexAddress g token \<or> \<not> IsHexAddress g to then JSON 400 (BErr ''invalid token or to address'')
            else
              call (sysA (SendERC20 svc (gc_now c) key (HexToAddress g token) (HexToAddress g to) (eb_amount req)
                  (sendMetaFromRequest c (eb_biz_id req) (eb_biz_type req) (eb_idem req))))
                (failJSON 502) (\<lambda>row. JSON 202 (BTx row)))))"

definition HandleTxSpeedUp :: "api \<Rightarrow> handler" where
  "HandleTxSpeedUp ap c =
     (if \<not> DevSendEnabled (Eth (ap_cfg ap))
      then JSON 403 (BErr ''custodial speed-up disabled; use POST /tx/submit with replaces_hash'')
      else withTxService ap (\<lambda>svc.
        let hash = normalizeTxHash (Param c ''hash'') in
        withBody c BindSpeedUp (\<lambda>pk.
        case parsePrivateKey (ap_geth ap) pk of
          Inl e \<Rightarrow> failJSON 400 e
        | Inr key \<Rightarrow>
            call (sysA (SpeedUp svc (gc_now c) key hash)) (failJSON 502) (\<lambda>row. JSON 202 (BTx row)))))"

subsection \<open>Reading\<close>

text \<open>The tracker of the program reports withdrawals to the exchange service when there is one
  (\<open>SetWithdrawHandler\<close> in \<open>cmd/chain-backend/main.go\<close>).\<close>

definition hooked :: "api \<Rightarrow> time \<Rightarrow> tracker \<Rightarrow> tracker" where
  "hooked ap now tr = tr\<lparr>tk_withdraw := map_option (\<lambda>xs. exchange_handler xs now) (ap_exchange ap)\<rparr>"

text \<open>A refresh may start balance refreshes in the background.\<close>

definition refreshA :: "api \<Rightarrow> tracker \<Rightarrow> time \<Rightarrow> string \<Rightarrow> tx_row apitx" where
  "refreshA ap tr now h =
     bindT (dbA (RefreshOne (hooked ap now tr) now h)) (\<lambda>(row, jobs).
     bindT (modT (\<lambda>s. s\<lparr>as_jobs := as_jobs s @ jobs\<rparr>)) (\<lambda>_. retT row))"

definition withTracker :: "api \<Rightarrow> (tracker \<Rightarrow> api_state \<Rightarrow> response \<times> api_state) \<Rightarrow> api_state \<Rightarrow> response \<times> api_state" where
  "withTracker ap k =
     (case ap_tracker ap of None \<Rightarrow> JSON 503 (BErr ''tx tracker not enabled'') | Some tr \<Rightarrow> k tr)"

definition HandleTxGet :: "api \<Rightarrow> handler" where
  "HandleTxGet ap c = withTracker ap (\<lambda>tr.
     let raw = normalizeTxHash (Param c ''hash'') in
     if raw = [] then JSON 400 (BErr ''hash required'')
     else
       call (refreshA ap tr (gc_now c) raw)
         (\<lambda>e. if e = ErrNoRows then JSON 404 (BErr ''tx not found'') else failJSON 500 e)
         (\<lambda>row. JSON 200 (BTx row)))"

definition HandleTxList :: "api \<Rightarrow> handler" where
  "HandleTxList ap c = withTracker ap (\<lambda>tr s.
     let fr = trim_space (Query c ''from''); status = trim_space (Query c ''status'');
         limit = clamp_limit 200 50 (atoi (DefaultQuery c ''limit'' ''50'')) in
     JSON 200 (BTxs fr status limit (ListByFrom (tk_store tr) fr status limit (as_db s))) s)"

subsection \<open>Lemmas: ether and wei\<close>

text \<open>\<open>(*big.Rat).SetString\<close> on decimal text: digits, or digits with a point and more digits, give the fraction they
  denote.\<close>

definition rat_decimal :: "(string \<Rightarrow> (int \<times> nat) option) \<Rightarrow> bool" where
  "rat_decimal rat \<longleftrightarrow> (\<forall>ip fp. ip \<noteq> [] \<longrightarrow> list_all is_digit (ip @ fp) \<longrightarrow>
     (\<exists>num den. rat (ip @ (if fp = [] then [] else ''.'' @ fp)) = Some (num, den) \<and> 0 < den \<and>
        num * 10 ^ length fp = int (digits_val (ip @ fp)) * int den))"

lemma digits_val_append: "digits_val (s @ t) = digits_val s * 10 ^ length t + digits_val t"
proof (induction t rule: rev_induct)
  case (snoc c t)
  have "digits_val (s @ t @ [c]) = 10 * digits_val (s @ t) + (of_char c - 48)"
    using digits_val_append_one [of "s @ t" c] by simp
  with snoc.IH show ?case by (simp add: algebra_simps)
qed (simp add: digits_val_def)

lemma digits_val_zeros [simp]: "digits_val (replicate n CHR ''0'') = 0"
  by (induction n) (simp_all add: digits_val_def)

lemma length_nat_str: "n < 10 ^ k \<Longrightarrow> 0 < k \<Longrightarrow> length (nat_str n) \<le> k"
proof (induction n arbitrary: k rule: nat_str.induct)
  case (1 n)
  show ?case
  proof (cases "n < 10")
    case True
    then show ?thesis using "1.prems" by (subst nat_str.simps) simp
  next
    case False
    then obtain j where k: "k = Suc j" "0 < j" using "1.prems" by (cases k; cases "k - 1") auto
    then have "n div 10 < 10 ^ j" using "1.prems" by (simp add: less_mult_imp_div_less mult.commute)
    then show ?thesis using "1.IH" [OF False _ k(2)] False k by (subst nat_str.simps) simp
  qed
qed

lemma pad0_facts:
  assumes "r < 10 ^ k" "0 < k"
  shows "length (pad0 k (nat_str r)) = k \<and> digits_val (pad0 k (nat_str r)) = r \<and> list_all is_digit (pad0 k (nat_str r))"
proof -
  have z: "is_digit CHR ''0''" by code_simp
  show ?thesis
    using length_nat_str [OF assms] nat_str_digits [of r] z by (auto simp: pad0_def digits_val_append list_all_iff)
qed

text \<open>The trailing zeros of a text.\<close>

lemma trim_zeros: "\<exists>n. f = trim_right (\<lambda>c. c = z) f @ replicate n z"
proof -
  have t: "takeWhile (\<lambda>c. c = z) xs = replicate (length (takeWhile (\<lambda>c. c = z) xs)) z" for xs
    by (metis (mono_tags) replicate_length_same set_takeWhileD)
  have "f = rev (takeWhile (\<lambda>c. c = z) (rev f) @ dropWhile (\<lambda>c. c = z) (rev f))"
    by (simp only: takeWhile_dropWhile_id rev_rev_ident)
  also have "\<dots> = trim_right (\<lambda>c. c = z) f @ rev (takeWhile (\<lambda>c. c = z) (rev f))"
    by (simp add: trim_right_def del: takeWhile_dropWhile_id)
  finally show ?thesis by (metis t rev_replicate)
qed

lemma trim_right_stop: "\<not> p c \<Longrightarrow> trim_right p (a @ c # f) = a @ c # trim_right p f"
  by (simp add: trim_right_def dropWhile_append)

lemma trim_suffix_point:
  assumes "list_all is_digit g"
  shows "trim_suffix (a @ CHR ''.'' # g) ''.'' = a @ (if g = [] then [] else CHR ''.'' # g)"
proof (cases g rule: rev_cases)
  case (snoc h c)
  then have "c \<noteq> CHR ''.''" using assms by (auto simp: is_digit_def)
  then show ?thesis using snoc by (simp add: trim_suffix_def trim_prefix_def)
qed (simp add: trim_suffix_def trim_prefix_def)

lemma rat_float_wei:
  assumes "0 \<le> w"
  shows "rat_float_string w (10 ^ 18) 18 = nat_str (nat w div 10 ^ 18) @ CHR ''.'' # pad0 18 (nat_str (nat w mod 10 ^ 18))"
proof -
  have "\<not> 10 ^ 18 \<le> nat w mod 10 ^ 18" by (simp add: not_le)
  then show ?thesis using assms by (simp add: rat_float_string_def Let_def)
qed

lemma str_contains_char: "str_contains (a @ c # f) [c]"
  by (induction a) auto

lemma weiToETH_text:
  assumes "0 < w"
  obtains g n where "weiToETHString w = nat_str (nat w div 10 ^ 18) @ (if g = [] then [] else CHR ''.'' # g)"
    "list_all is_digit g" "pad0 18 (nat_str (nat w mod 10 ^ 18)) = g @ replicate n CHR ''0''"
proof -
  let ?a = "nat_str (nat w div 10 ^ 18)" and ?f = "pad0 18 (nat_str (nat w mod 10 ^ 18))"
  let ?g = "trim_right (\<lambda>c. c = CHR ''0'') ?f"
  obtain n where f: "?f = ?g @ replicate n CHR ''0''" using trim_zeros by blast
  have "list_all is_digit ?f" using pad0_facts [of "nat w mod 10 ^ 18" 18] by simp
  then have g: "list_all is_digit ?g" using f by (metis list_all_append)
  have dot: "str_contains (?a @ CHR ''.'' # ?f) ''.''" by (rule str_contains_char)
  have "weiToETHString w = ?a @ (if ?g = [] then [] else CHR ''.'' # ?g)"
    using assms dot trim_suffix_point [OF g, of ?a]
    by (simp add: weiToETHString_def Let_def rat_float_wei [simplified] trim_right_stop)
  then show thesis using that g f by blast
qed

lemma parse_weiToETH:
  assumes "rat_decimal rat" "0 < w"
  shows "parseTransferValue rat [] (weiToETHString w) = Inr w"
proof -
  let ?a = "nat_str (nat w div 10 ^ 18)" and ?f = "pad0 18 (nat_str (nat w mod 10 ^ 18))"
  obtain g n where t: "weiToETHString w = ?a @ (if g = [] then [] else ''.'' @ g)" and g: "list_all is_digit g"
    and f: "?f = g @ replicate n CHR ''0''" using weiToETH_text [OF assms(2)] by (metis append_Cons append_Nil)
  have a: "?a \<noteq> []" "list_all is_digit (?a @ g)" using nat_str_digits g by auto
  obtain num den where r: "rat (weiToETHString w) = Some (num, den)" "0 < den"
      "num * 10 ^ length g = int (digits_val (?a @ g)) * int den"
    using assms(1) a unfolding rat_decimal_def t by blast
  have len: "length g + n = 18" and v: "digits_val (g @ replicate n CHR ''0'') = nat w mod 10 ^ 18"
    using pad0_facts [of "nat w mod 10 ^ 18" 18] f by auto
  have "digits_val (?a @ g) * 10 ^ n = digits_val (?a @ (g @ replicate n CHR ''0''))"
    using digits_val_append [of "?a @ g" "replicate n CHR ''0''"] by simp
  also have "\<dots> = nat w div 10 ^ 18 * 10 ^ (length g + n) + nat w mod 10 ^ 18"
    by (subst digits_val_append) (simp add: v)
  also have "\<dots> = nat w" unfolding len by (rule div_mult_mod_eq)
  finally have d: "int (digits_val (?a @ g)) * 10 ^ n = w" using assms(2)
    by (metis of_nat_mult of_nat_power of_nat_numeral int_nat_eq less_imp_le)
  have "num * 10 ^ 18 = num * 10 ^ length g * 10 ^ n" using len by (metis power_add mult.assoc)
  then have m: "num * 10 ^ 18 = w * int den" using r(3) d by (simp add: algebra_simps)
  then have "0 < num" using assms(2) r(2) by (metis mult_pos_pos of_nat_0_less_iff zero_less_mult_pos2 zero_less_numeral zero_less_power)
  moreover have "num * 10 ^ 18 div int den = w" using m r(2) by simp
  moreover have "weiToETHString w \<noteq> []" using t a(1) by simp
  ultimately show ?thesis using r(1) assms(2) by (simp add: parseTransferValue_def Let_def)
qed

end
