(* ===== verification/Api_Wallet.thy ===== *)
theory Api_Wallet
  imports Api_Tx
begin

text \<open>
  \<open>api/handlers_wallet.go\<close> and \<open>api/handlers_balance.go\<close>: custodial wallets and balances over HTTP. A
  registration starts the first refresh of the wallet in the background (\<open>as_async\<close>).
\<close>

subsection \<open>Wallets\<close>

definition disabled_reply :: "api_state \<Rightarrow> response \<times> api_state" where
  "disabled_reply = JSON 503 (BErr ''balance sync not enabled'')"

definition withStore :: "api \<Rightarrow> (int \<Rightarrow> api_state \<Rightarrow> response \<times> api_state) \<Rightarrow> api_state \<Rightarrow> response \<times> api_state" where
  "withStore ap k = (case ap_balstore ap of None \<Rightarrow> disabled_reply | Some ch \<Rightarrow> k ch)"

definition withSyncer :: "api \<Rightarrow> (syncer \<Rightarrow> api_state \<Rightarrow> response \<times> api_state) \<Rightarrow> api_state \<Rightarrow> response \<times> api_state" where
  "withSyncer ap k = (case ap_balsync ap of None \<Rightarrow> disabled_reply | Some sy \<Rightarrow> k sy)"

definition walletErrorStatus :: "go_error \<Rightarrow> int" where
  "walletErrorStatus e =
     (if e = ErrDepositRequiresUserID \<or> e = ErrWalletTypeImmutable then 400
      else if e = ErrWalletOwnerConflict then 409
      else if e = ErrWalletNotFound then 404
      else if e = ErrWalletDisabled then 409
      else 500)"

definition walletFail :: "go_error \<Rightarrow> api_state \<Rightarrow> response \<times> api_state" where
  "walletFail e = failJSON (walletErrorStatus e) e"

record register_wallet_body =
  rw_address :: string
  rw_user :: string
  rw_label :: string
  rw_type :: string

definition BindRegisterWallet :: "gctx \<Rightarrow> register_wallet_body res" where
  "BindRegisterWallet c =
     bindR (ShouldBindJSON c (strs_ok [''address'', ''user_id'', ''label'', ''wallet_type'']) (strs_set [''address''])) (\<lambda>j.
     Inr \<lparr>rw_address = str_field ''address'' j, rw_user = str_field ''user_id'' j, rw_label = str_field ''label'' j,
       rw_type = str_field ''wallet_type'' j\<rparr>)"

definition upsert_registry :: "api \<Rightarrow> custodial_wallet \<Rightarrow> api_state \<Rightarrow> api_state" where
  "upsert_registry ap w s = (if ap_registry ap then s\<lparr>as_reg := RegUpsert w (as_reg s)\<rparr> else s)"

definition RefreshWalletAsync :: "string \<Rightarrow> api_state \<Rightarrow> api_state" where
  "RefreshWalletAsync address s = s\<lparr>as_async := as_async s @ [address]\<rparr>"

definition HandleWalletRegister :: "api \<Rightarrow> handler" where
  "HandleWalletRegister ap c = withStore ap (\<lambda>ch. withSyncer ap (\<lambda>sy.
     withBody c BindRegisterWallet (\<lambda>req.
     let addr0 = trim_space (rw_address req); g = ap_geth ap in
     if \<not> IsHexAddress g addr0 then JSON 400 (BErr ''invalid address'')
     else
       let addr = AddressHex g (HexToAddress g addr0); wt = trim_space (rw_type req) in
       if wt \<noteq> [] \<and> wt \<noteq> WalletTypeHot \<and> wt \<noteq> WalletTypeDeposit \<and> wt \<noteq> WalletTypeTreasury
       then JSON 400 (BErr ''wallet_type must be hot, deposit, or treasury'')
       else
         call (dbA (RegisterWallet ch (gc_now c)
             \<lparr>rp_address = addr, rp_user = rw_user req, rp_label = rw_label req, rp_type = wt\<rparr>))
           walletFail
           (\<lambda>r s. JSON (if rr_created r then 201 else 200) (BRegistered (rr_created r) (rr_wallet r))
              (RefreshWalletAsync (cus_address (rr_wallet r)) (upsert_registry ap (rr_wallet r) s))))))"

definition HandleWalletList :: "api \<Rightarrow> handler" where
  "HandleWalletList ap c = withStore ap (\<lambda>ch s.
     let userID = trim_space (Query c ''user_id''); wt = trim_space (Query c ''wallet_type'');
         enabledOnly = (DefaultQuery c ''enabled'' ''true'' \<noteq> ''false'');
         limit = atoi (DefaultQuery c ''limit'' ''100'') in
     JSON 200 (BWallets (ListWallets ch userID wt enabledOnly limit (as_db s))) s)"

text \<open>The address of the path, refused with 400.\<close>

definition withAddr :: "api \<Rightarrow> gctx \<Rightarrow> string \<Rightarrow> (string \<Rightarrow> api_state \<Rightarrow> response \<times> api_state) \<Rightarrow>
    api_state \<Rightarrow> response \<times> api_state" where
  "withAddr ap c msg k =
     (let addr = trim_space (Param c ''addr'') in
      if \<not> IsHexAddress (ap_geth ap) addr then JSON 400 (BErr msg) else k addr)"

definition HandleWalletGet :: "api \<Rightarrow> handler" where
  "HandleWalletGet ap c = withStore ap (\<lambda>ch. withAddr ap c ''invalid address'' (\<lambda>addr.
     call (readA (GetWallet ch addr))
       (\<lambda>e. if e = ErrNoRows then JSON 404 (BErr ''wallet not registered'') else failJSON 500 e)
       (\<lambda>w. JSON 200 (BWallet w))))"

definition BindSetEnabled :: "gctx \<Rightarrow> bool res" where
  "BindSetEnabled c = bindR (ShouldBindJSON c (bool_ok ''enabled'') (\<lambda>_. True)) (\<lambda>j. Inr (bool_field ''enabled'' j))"

definition HandleWalletSetEnabled :: "api \<Rightarrow> handler" where
  "HandleWalletSetEnabled ap c = withStore ap (\<lambda>ch. withAddr ap c ''invalid address'' (\<lambda>addr.
     withBody c BindSetEnabled (\<lambda>enabled.
     call (dbA (SetWalletEnabled ch (gc_now c) addr enabled)) walletFail (\<lambda>_.
     call (readA (GetWallet ch addr)) (failJSON 500)
       (\<lambda>w s. JSON 200 (BWallet w) (upsert_registry ap w s))))))"

text \<open>The list that follows a refresh cannot fail; a syncer without a store panics there.\<close>

definition refreshed_list :: "syncer \<Rightarrow> string \<Rightarrow> api_state \<Rightarrow> response \<times> api_state" where
  "refreshed_list sy address s = (case sy_store sy of
     None \<Rightarrow> JSON 500 BNone s
   | Some ch \<Rightarrow> JSON 200 (BBalances address (ListByAddress ch address (as_db s))) s)"

definition HandleWalletRefresh :: "api \<Rightarrow> handler" where
  "HandleWalletRefresh ap c = withSyncer ap (\<lambda>sy. withStore ap (\<lambda>ch. withAddr ap c ''invalid address'' (\<lambda>addr.
     call (readA (GetWallet ch addr))
       (\<lambda>e. if e = ErrNoRows then failJSON 404 ErrWalletNotFound else failJSON 500 e) (\<lambda>w.
     if \<not> cus_enabled w then failJSON 409 ErrWalletDisabled
     else
       call (dbA (RefreshWallet sy (gc_now c) (cus_address w))) walletFail (\<lambda>_.
       refreshed_list sy (cus_address w))))))"

definition HandleWalletBackfill :: "api \<Rightarrow> handler" where
  "HandleWalletBackfill ap c = withSyncer ap (\<lambda>sy.
     call (dbA (RefreshAllRegistered sy (gc_now c))) (failJSON 500)
       (\<lambda>n. JSON 200 (BObj [(''message'', HStr ''backfill done''), (''wallets_refreshed'', HInt (int n))])))"

subsection \<open>Balances\<close>

definition displayToken :: "string \<Rightarrow> string" where
  "displayToken token = (if token = [] then ''native'' else token)"

definition stored_balance :: "string \<Rightarrow> string \<Rightarrow> bool \<Rightarrow> bal_row \<Rightarrow> api_body" where
  "stored_balance addr token stale row = BObj
     ([(''address'', HStr addr), (''token_address'', HStr (displayToken token)), (''balance_wei'', HStr (br_wei row)),
       (''block_number'', HU64 (br_block row)), (''source_tx_hash'', HStr (br_source_tx row)),
       (''updated_at'', HTime (br_updated row)), (''source'', HStr ''database''), (''stale'', HBool stale)] @
      (if token = NativeToken then
         (case big_set_string (br_wei row) of None \<Rightarrow> [] | Some w \<Rightarrow> [(''balance_eth'', HStr (weiToETHString w))])
       else []))"

text \<open>The balance of the chain, for the native token and for an ERC-20 token.\<close>

definition rpc_balance :: "api \<Rightarrow> string \<Rightarrow> string \<Rightarrow> api_state \<Rightarrow> response \<times> api_state" where
  "rpc_balance ap addr token =
     (let g = ap_geth ap in
      if token = NativeToken then
        (case BalanceAt (ap_backend ap) addr of
           Inl e \<Rightarrow> failJSON 502 e
         | Inr w \<Rightarrow> JSON 200 (BObj [(''address'', HStr addr), (''token_address'', HStr ''native''),
             (''balance_wei'', HStr (int_str w)), (''balance_eth'', HStr (weiToETHString w)), (''source'', HStr ''rpc'')]))
      else if \<not> IsHexAddress g token then JSON 400 (BErr ''invalid token address'')
      else
        (case ERC20BalanceOf (ap_backend ap) (HexToAddress g token) (HexToAddress g addr) of
           Inl e \<Rightarrow> failJSON 502 e
         | Inr w \<Rightarrow> JSON 200 (BObj [(''address'', HStr addr), (''token_address'', HStr token),
             (''balance_wei'', HStr (int_str w)), (''source'', HStr ''rpc'')])))"

definition HandleBalanceCached :: "api \<Rightarrow> handler" where
  "HandleBalanceCached ap c = withAddr ap c ''invalid hex address'' (\<lambda>addr s.
     let source = to_lower (trim_space (DefaultQuery c ''source'' ''auto''));
         token = trim_space (DefaultQuery c ''token'' NativeToken);
         bs = BalanceSync (ap_cfg ap) in
     case ap_balstore ap of
       None \<Rightarrow> rpc_balance ap addr token s
     | Some ch \<Rightarrow>
         if BalanceSyncEnabled bs \<and> source \<noteq> ''rpc'' then
           (case Get ch addr token (as_db s) of
              Inr row \<Rightarrow>
                let stale = (StaleSec bs * 1000 < gc_now c - br_updated row) in
                if source = ''db'' \<or> \<not> stale then JSON 200 (stored_balance addr token stale row) s
                else rpc_balance ap addr token s
            | Inl e \<Rightarrow>
                if e \<noteq> ErrNoRows \<and> source = ''db'' then failJSON 500 e s
                else if source = ''db'' then JSON 404 (BErr ''balance snapshot not found'') s
                else rpc_balance ap addr token s)
         else rpc_balance ap addr token s)"

definition HandleBalancesList :: "api \<Rightarrow> handler" where
  "HandleBalancesList ap c = withStore ap (\<lambda>ch. withAddr ap c ''invalid hex address'' (\<lambda>addr s.
     JSON 200 (BBalances addr (ListByAddress ch addr (as_db s))) s))"

definition refreshed_one :: "syncer \<Rightarrow> string \<Rightarrow> string \<Rightarrow> api_state \<Rightarrow> response \<times> api_state" where
  "refreshed_one sy addr token s = (case sy_store sy of
     None \<Rightarrow> JSON 500 BNone s
   | Some ch \<Rightarrow>
       (case Get ch addr token (as_db s) of
          Inl _ \<Rightarrow> JSON 200 (BObj [(''message'', HStr ''refreshed''), (''address'', HStr addr)]) s
        | Inr row \<Rightarrow> JSON 200 (BBalance row) s))"

definition HandleBalanceRefresh :: "api \<Rightarrow> handler" where
  "HandleBalanceRefresh ap c = withSyncer ap (\<lambda>sy. withAddr ap c ''invalid hex address'' (\<lambda>addr.
     let token = trim_space (DefaultQuery c ''token'' NativeToken); g = ap_geth ap in
     if token = NativeToken then
       call (dbA (RefreshNative sy (gc_now c) addr [] 0)) (failJSON 502) (\<lambda>_. refreshed_one sy addr token)
     else if \<not> IsHexAddress g token then JSON 400 (BErr ''invalid token'')
     else
       call (dbA (RefreshERC20 sy (gc_now c) (HexToAddress g token) addr [] 0)) (failJSON 502)
         (\<lambda>_. refreshed_one sy addr token)))"

end
