(* ===== verification/Api_Chain.thy ===== *)
theory Api_Chain
  imports Api_Wallet
begin

text \<open>
  \<open>api/handlers_chain.go\<close> and \<open>api/handlers_contract.go\<close>: what the node knows of blocks, transactions, accounts
  and contracts. These handlers leave the state alone. The scan for the transactions of an account may not end, its
  handler then gives no reply (\<open>None\<close>).
\<close>

subsection \<open>Blocks\<close>

definition queryIncludeTxHashes :: "gctx \<Rightarrow> bool" where
  "queryIncludeTxHashes c \<longleftrightarrow> trim_space (to_lower (Query c ''tx_hashes'')) \<in> {''1'', ''true'', ''yes''}"

definition hex0x :: "bytes \<Rightarrow> string" where
  "hex0x bs = ''0x'' @ hex_encode bs"

definition blockDetailJSON :: "geth \<Rightarrow> full_block \<Rightarrow> bool \<Rightarrow> (string \<times> hval) list" where
  "blockDetailJSON g blk includeTxHashes =
     [(''number'', HU64 (blk_number blk)), (''hash'', HStr (HashHex g (blk_hash blk))),
      (''parent_hash'', HStr (HashHex g (blk_parent blk))), (''timestamp'', HU64 (blk_time blk)),
      (''nonce'', HStr (hex0x (be_bytes 8 (uint (blk_nonce blk))))), (''miner'', HStr (AddressHex g (blk_miner blk))),
      (''difficulty'', HStr (int_str (blk_difficulty blk))), (''extra_data'', HStr (hex0x (blk_extra blk))),
      (''gas_limit'', HU64 (blk_gas_limit blk)), (''gas_used'', HU64 (blk_gas_used blk)),
      (''state_root'', HStr (HashHex g (blk_root blk))), (''transactions_root'', HStr (HashHex g (blk_tx_root blk))),
      (''receipts_root'', HStr (HashHex g (blk_receipt_root blk))), (''uncles_hash'', HStr (HashHex g (blk_uncle_hash blk))),
      (''mix_hash'', HStr (HashHex g (blk_mix blk))), (''logs_bloom'', HStr (hex0x (blk_bloom blk))),
      (''tx_count'', HInt (int (length (blk_txs blk))))] @
     (case blk_base_fee blk of None \<Rightarrow> [] | Some bf \<Rightarrow> [(''base_fee_per_gas'', HStr (int_str bf))]) @
     (if includeTxHashes then [(''transaction_hashes'', HStrs (map (\<lambda>tx. HashHex g (TxHash g tx)) (blk_txs blk)))] else [])"

definition block_reply :: "api \<Rightarrow> gctx \<Rightarrow> full_block res \<Rightarrow> api_state \<Rightarrow> response \<times> api_state" where
  "block_reply ap c r =
     (case r of
        Inl e \<Rightarrow> failJSON 502 e
      | Inr blk \<Rightarrow> JSON 200 (BObj (blockDetailJSON (ap_geth ap) blk (queryIncludeTxHashes c))))"

definition HandleLatestBlock :: "api \<Rightarrow> handler" where
  "HandleLatestBlock ap c = block_reply ap c (cc_latest (ap_chain ap))"

definition HandleBlockByNumber :: "api \<Rightarrow> handler" where
  "HandleBlockByNumber ap c =
     (case ParseUint (Param c ''number'') of
        None \<Rightarrow> JSON 400 (BErr ''invalid block number'')
      | Some n \<Rightarrow> block_reply ap c (cc_by_number (ap_chain ap) n))"

definition hash_param :: "gctx \<Rightarrow> string" where
  "hash_param c = (let raw = trim_space (Param c ''hash'') in if has_prefix raw ''0x'' then raw else ''0x'' @ raw)"

definition HandleBlockByHash :: "api \<Rightarrow> handler" where
  "HandleBlockByHash ap c =
     (if \<not> cc_is_hash (ap_chain ap) (hash_param c) then JSON 400 (BErr ''invalid block hash'')
      else case cc_by_hash (ap_chain ap) (HexToHash (ap_geth ap) (hash_param c)) of
        Inl e \<Rightarrow> failJSON 502 e
      | Inr None \<Rightarrow> JSON 404 (BErr ''block not found'')
      | Inr (Some blk) \<Rightarrow> block_reply ap c (Inr blk))"

subsection \<open>Transactions\<close>

definition HandleTxReceipt :: "api \<Rightarrow> handler" where
  "HandleTxReceipt ap c =
     (case cc_receipt (ap_chain ap) (HexToHash (ap_geth ap) (Param c ''hash'')) of
        Inl e \<Rightarrow> failJSON 502 e
      | Inr rc \<Rightarrow> JSON 200 (BObj [(''tx_hash'', HStr (HashHex (ap_geth ap) (rc_tx_hash rc))), (''status'', HU64 (rc_status rc)),
          (''gas_used'', HU64 (rc_gas_used rc)), (''block'', HU64 (rc_block rc)), (''logs_count'', HInt (int (length (rc_logs rc))))]))"

fun tx_type_num :: "tx_type \<Rightarrow> nat" where
  "tx_type_num LegacyTxType = 0"
| "tx_type_num DynamicFeeTxType = 2"
| "tx_type_num (OtherTxType n) = n"

text \<open>Access-list transactions are of type 1, blob transactions of type 3.\<close>

definition tx_fee_fields :: "tx_data \<Rightarrow> (string \<times> hval) list" where
  "tx_fee_fields t =
     (let n = tx_type_num (td_type t) in
      if n = 0 \<or> n = 1 then [(''gas_price'', HStr (int_str (td_gas_price t)))]
      else if n = 2 \<or> n = 3 then
        [(''max_fee_per_gas'', HStr (int_str (td_fee_cap t))), (''max_priority_fee_per_gas'', HStr (int_str (td_tip t)))]
      else [])"

definition tx_receipt_fields :: "geth \<Rightarrow> full_receipt \<Rightarrow> (string \<times> hval) list" where
  "tx_receipt_fields g rc =
     [(''block_number'', HU64 (rc_block rc)), (''block_hash'', HStr (HashHex g (rc_block_hash rc))),
      (''tx_index'', HInt (int (rc_tx_index rc))), (''status'', HU64 (rc_status rc)), (''gas_used'', HU64 (rc_gas_used rc))] @
     (if rc_contract rc \<noteq> 0 then [(''contract_address'', HStr (AddressHex g (rc_contract rc)))] else [])"

definition transactionDetailJSON :: "api \<Rightarrow> signed_tx \<Rightarrow> bool \<Rightarrow> ((string \<times> hval) list) res" where
  "transactionDetailJSON ap tx isPending =
     (let g = ap_geth ap; t = stx_data tx; chain = bk_chain (ap_backend ap) in
      bindR (Sender g chain tx) (\<lambda>fr.
      Inr ([(''hash'', HStr (HashHex g (TxHash g tx))), (''from'', HStr (AddressHex g fr)), (''nonce'', HU64 (td_nonce t)),
        (''value_wei'', HStr (int_str (td_value t))), (''value_eth'', HStr (weiToETHString (td_value t))),
        (''gas'', HU64 (td_gas t)), (''input'', HStr (hex0x (td_data t))), (''type'', HInt (int (tx_type_num (td_type t)))),
        (''pending'', HBool isPending), (''chain_id'', HStr (int_str chain))] @
       (case td_to t of Some a \<Rightarrow> [(''to'', HStr (AddressHex g a))]
        | None \<Rightarrow> [(''to'', HNull), (''contract_creation'', HBool True)]) @
       tx_fee_fields t @
       (if isPending then []
        else case cc_receipt (ap_chain ap) (HexToHash g (HashHex g (TxHash g tx))) of
          Inl _ \<Rightarrow> [] | Inr rc \<Rightarrow> tx_receipt_fields g rc))))"

definition HandleTransaction :: "api \<Rightarrow> handler" where
  "HandleTransaction ap c =
     (if \<not> cc_is_hash (ap_chain ap) (hash_param c) then JSON 400 (BErr ''invalid tx hash'')
      else case cc_transaction (ap_chain ap) (HexToHash (ap_geth ap) (hash_param c)) of
        Inl e \<Rightarrow> failJSON 502 e
      | Inr (None, _) \<Rightarrow> JSON 404 (BErr ''transaction not found'')
      | Inr (Some tx, pending) \<Rightarrow>
          (case transactionDetailJSON ap tx pending of Inl e \<Rightarrow> failJSON 502 e | Inr out \<Rightarrow> JSON 200 (BObj out)))"

subsection \<open>Accounts\<close>

text \<open>The balance of an account with its source and, when it was stored, the time of storing.\<close>

definition account_wei :: "api \<Rightarrow> string \<Rightarrow> db \<Rightarrow> (int \<times> time option) res" where
  "account_wei ap addr d =
     (let stored =
        (case ap_balstore ap of
           None \<Rightarrow> None
         | Some ch \<Rightarrow>
             if BalanceSyncEnabled (BalanceSync (ap_cfg ap)) then
               (case Get ch addr NativeToken d of
                  Inl _ \<Rightarrow> None
                | Inr row \<Rightarrow> map_option (\<lambda>w. (w, Some (br_updated row))) (big_set_string (br_wei row)))
             else None)
      in case stored of
           Some r \<Rightarrow> Inr r
         | None \<Rightarrow> bindR (BalanceAt (ap_backend ap) addr) (\<lambda>w. Inr (w, None)))"

definition HandleAccountInfo :: "api \<Rightarrow> handler" where
  "HandleAccountInfo ap c = withAddr ap c ''invalid hex address'' (\<lambda>addr s.
     let a = HexToAddress (ap_geth ap) addr in
     case bindR (account_wei ap addr (as_db s)) (\<lambda>(w, upd).
          bindR (NonceAt (ap_backend ap) a) (\<lambda>nonce.
          bindR (cc_code (ap_chain ap) a) (\<lambda>code. Inr (w, upd, nonce, code)))) of
       Inl e \<Rightarrow> failJSON 502 e s
     | Inr (w, upd, nonce, code) \<Rightarrow> JSON 200 (BObj
         ([(''address'', HStr addr), (''balance_wei'', HStr (int_str w)), (''balance_eth'', HStr (weiToETHString w)),
           (''balance_source'', HStr (if upd = None then ''rpc'' else ''database'')), (''nonce'', HU64 nonce),
           (''is_contract'', HBool (code \<noteq> [])), (''code_size'', HInt (int (length code))),
           (''chain_id'', HStr (int_str (bk_chain (ap_backend ap))))] @
          (case upd of None \<Rightarrow> [] | Some t \<Rightarrow> [(''balance_updated_at'', HTime t)]))) s)"

definition to_block_param :: "api \<Rightarrow> gctx \<Rightarrow> response + u64" where
  "to_block_param ap c =
     (let raw = trim_space (Query c ''to_block'') in
      if raw = [] \<or> equal_fold raw ''latest'' then
        (case BlockNumber (ap_backend ap) of Inl e \<Rightarrow> Inl (502, BErr (err_text e)) | Inr n \<Rightarrow> Inr n)
      else (case ParseUint raw of None \<Rightarrow> Inl (400, BErr ''invalid to_block'') | Some n \<Rightarrow> Inr n))"

definition limit_param :: "gctx \<Rightarrow> int option" where
  "limit_param c =
     (let raw = trim_space (Query c ''limit'') in
      if raw = [] then Some MaxAccountTxResults
      else (case ParseInt raw of
        None \<Rightarrow> None
      | Some n \<Rightarrow> if n \<le> 0 then None else Some (min n MaxAccountTxResults)))"

definition account_tx_row :: "geth \<Rightarrow> account_tx_ref \<Rightarrow> (string \<times> hval) list" where
  "account_tx_row g r =
     [(''tx_hash'', HStr (HashHex g (ar_tx_hash r))), (''block_number'', HU64 (ar_block r)),
      (''block_hash'', HStr (HashHex g (ar_block_hash r))), (''tx_index'', HInt (int (ar_index r))),
      (''from'', HStr (AddressHex g (ar_from r))), (''value_wei'', HStr (int_str (ar_value r)))] @
     (case ar_to r of None \<Rightarrow> [] | Some a \<Rightarrow> [(''to'', HStr (AddressHex g a))])"

text \<open>The request, its replies before the scan, and the reply that the scan gives.\<close>

definition account_tx_query :: "api \<Rightarrow> gctx \<Rightarrow> response + (string \<times> u64 \<times> u64 \<times> int)" where
  "account_tx_query ap c =
     (let addr = trim_space (Param c ''addr'') in
      if \<not> IsHexAddress (ap_geth ap) addr then Inl (400, BErr ''invalid hex address'')
      else case ParseUint (trim_space (DefaultQuery c ''from_block'' ''0'')) of
        None \<Rightarrow> Inl (400, BErr ''invalid from_block'')
      | Some fr \<Rightarrow>
          (case to_block_param ap c of
             Inl r \<Rightarrow> Inl r
           | Inr to \<Rightarrow>
               if to < fr then Inl (400, BErr ''to_block must be >= from_block'')
               else if to - fr + 1 > MaxAccountTxBlockSpan
               then Inl (400, BObj [(''error'', HStr ''block range too large''), (''max_blocks'', HU64 MaxAccountTxBlockSpan)])
               else (case limit_param c of
                 None \<Rightarrow> Inl (400, BErr ''invalid limit'')
               | Some limit \<Rightarrow> Inr (addr, fr, to, limit))))"

definition HandleAccountTransactions :: "api \<Rightarrow> gctx \<Rightarrow> response option" where
  "HandleAccountTransactions ap c =
     (case account_tx_query ap c of
        Inl r \<Rightarrow> Some r
      | Inr (addr, fr, to, limit) \<Rightarrow>
          map_option (\<lambda>res. case res of
              Inl e \<Rightarrow> (502, BErr (err_text e))
            | Inr refs \<Rightarrow> (200, BObj [(''address'', HStr addr), (''from_block'', HU64 fr), (''to_block'', HU64 to),
                (''limit'', HInt limit), (''returned'', HInt (int (length refs))),
                (''transactions'', HObjs (map (account_tx_row (ap_geth ap)) refs))]))
            (TransactionsForAddress (ap_backend ap) (HexToAddress (ap_geth ap) addr) fr to limit))"

subsection \<open>Contracts\<close>

text \<open>\<open>balance_display\<close> is the raw balance by the token's decimals, cut to eight places and without trailing zeros.\<close>

definition display_balance :: "int \<Rightarrow> 8 word \<Rightarrow> string" where
  "display_balance bal dec =
     trim_right (\<lambda>c. c = CHR ''.'') (trim_right (\<lambda>c. c = CHR ''0'') (rat_float_string bal (10 ^ unat dec) 8))"

definition HandleERC20Balance :: "api \<Rightarrow> handler" where
  "HandleERC20Balance ap c =
     (let g = ap_geth ap; b = ap_backend ap; tok = trim_space (Query c ''token''); hold = trim_space (Query c ''holder'') in
      if \<not> IsHexAddress g tok \<or> \<not> IsHexAddress g hold
      then JSON 400 (BErr ''query token and holder must be valid hex addresses'')
      else case ERC20BalanceOf b (HexToAddress g tok) (HexToAddress g hold) of
        Inl e \<Rightarrow> failJSON 502 e
      | Inr bal \<Rightarrow> JSON 200 (BObj
          ([(''token'', HStr tok), (''holder'', HStr hold), (''balance_raw'', HStr (int_str bal))] @
           (case ERC20DecimalsSymbol b (HexToAddress g tok) of
              Inl _ \<Rightarrow> []
            | Inr (dec, symb) \<Rightarrow> [(''symbol'', HStr symb), (''decimals'', HInt (uint dec)),
                (''balance_display'', HStr (display_balance bal dec))]))))"

definition HandleERC20TokenInfo :: "api \<Rightarrow> handler" where
  "HandleERC20TokenInfo ap c =
     (let g = ap_geth ap; tok = trim_space (Query c ''token'') in
      if \<not> IsHexAddress g tok then JSON 400 (BErr ''invalid token address'')
      else case ERC20DecimalsSymbol (ap_backend ap) (HexToAddress g tok) of
        Inl e \<Rightarrow> failJSON 502 e
      | Inr (dec, symb) \<Rightarrow> JSON 200 (BObj [(''token'', HStr tok), (''symbol'', HStr symb), (''decimals'', HInt (uint dec))]))"

definition HandleCounterNumber :: "api \<Rightarrow> handler" where
  "HandleCounterNumber ap c =
     (let g = ap_geth ap; addr = trim_space (Query c ''contract'') in
      if \<not> IsHexAddress g addr then JSON 400 (BErr ''invalid contract address'')
      else case CounterNumber (ap_backend ap) (HexToAddress g addr) of
        Inl e \<Rightarrow> failJSON 502 e
      | Inr n \<Rightarrow> JSON 200 (BObj [(''contract'', HStr addr), (''number'', HStr (int_str n))]))"

end
