(* ===== verification/Api_Files.thy ===== *)
theory Api_Files
  imports Api_Core
begin

text \<open>
  \<open>api/handlers_file.go\<close>: uploaded files are kept under their time and name, and found again by the SHA-256 of their
  contents through an index in memory. The file system is a map from paths to contents; its failures are not modelled.
\<close>

subsection \<open>Paths\<close>

text \<open>\<open>filepath.Base\<close>, \<open>Clean\<close> and \<open>Join\<close> on Unix.\<close>

definition slash :: char where "slash = CHR ''/''"

definition path_base :: "string \<Rightarrow> string" where
  "path_base p =
     (if p = [] then ''.''
      else
        let q = trim_right (\<lambda>c. c = slash) p in
        if q = [] then [slash] else rev (takeWhile (\<lambda>c. c \<noteq> slash) (rev q)))"

fun split_path :: "string \<Rightarrow> string \<Rightarrow> string list" where
  "split_path acc [] = [rev acc]"
| "split_path acc (c # cs) = (if c = slash then rev acc # split_path [] cs else split_path (c # acc) cs)"

definition clean_step :: "bool \<Rightarrow> string \<Rightarrow> string list \<Rightarrow> string list" where
  "clean_step rooted seg out =
     (if seg = [] \<or> seg = ''.'' then out
      else if seg = ''..'' then
        (case out of
           [] \<Rightarrow> if rooted then [] else [''..'']
         | prev # rest \<Rightarrow> if prev = ''..'' then ''..'' # out else rest)
      else seg # out)"

fun join_path :: "string list \<Rightarrow> string" where
  "join_path [] = []"
| "join_path [s] = s"
| "join_path (s # t # ts) = s @ slash # join_path (t # ts)"

definition path_clean :: "string \<Rightarrow> string" where
  "path_clean p =
     (let rooted = (p \<noteq> [] \<and> hd p = slash);
          segs = rev (fold (clean_step rooted) (split_path [] p) []);
          q = (if rooted then [slash] else []) @ join_path segs
      in if q = [] then ''.'' else q)"

definition path_join :: "string \<Rightarrow> string \<Rightarrow> string" where
  "path_join dir name =
     (let ps = filter (\<lambda>x. x \<noteq> []) [dir, name] in if ps = [] then [] else path_clean (join_path ps))"

subsection \<open>Upload and download\<close>

definition isSHA256Hex :: "string \<Rightarrow> bool" where
  "isSHA256Hex s \<longleftrightarrow> length s = 64 \<and>
     list_all (\<lambda>c. let n = of_char c :: nat in (48 \<le> n \<and> n \<le> 57) \<or> (97 \<le> n \<and> n \<le> 102)) s"

definition downloadBySHAPath :: "string \<Rightarrow> string" where
  "downloadBySHAPath shaHex = ''/api/v1/files/by-sha/'' @ shaHex"

definition absoluteDownloadBySHAURL :: "config \<Rightarrow> gctx \<Rightarrow> string \<Rightarrow> string" where
  "absoluteDownloadBySHAURL cfg c shaHex =
     (let rel = downloadBySHAPath shaHex; base = trim_space (PublicBaseURL (Server cfg));
          xfp = trim_space (GetHeader c ''X-Forwarded-Proto'');
          scheme = (if xfp \<noteq> [] then xfp else if rq_tls (gc_rq c) then ''https'' else ''http'')
      in if base \<noteq> [] then rev (trim_prefix (rev base) [slash]) @ rel
         else scheme @ ''://'' @ rq_host (gc_rq c) @ rel)"

definition stored_name :: "int \<Rightarrow> string \<Rightarrow> string" where
  "stored_name nano filename = int_str nano @ ''_'' @ path_base filename"

definition stored_path :: "api \<Rightarrow> string \<Rightarrow> string" where
  "stored_path ap name = path_join (UploadDir (ap_cfg ap)) name"

definition sha_hex :: "api \<Rightarrow> string \<Rightarrow> string" where
  "sha_hex ap content = hex_encode (ap_sha256 ap content)"

definition HandleUpload :: "api \<Rightarrow> handler" where
  "HandleUpload ap c =
     (case rq_file (gc_rq c) of
        None \<Rightarrow> JSON 400 (BErr ''need form field file'')
      | Some (filename, content) \<Rightarrow> (\<lambda>s.
          let name = stored_name (gc_nano c) filename; sum = sha_hex ap content in
          JSON 200 (BObj [(''stored_as'', HStr name), (''sha256'', HStr sum), (''size'', HInt (int (length content))),
              (''download_path'', HStr (downloadBySHAPath sum)),
              (''download_url'', HStr (absoluteDownloadBySHAURL (ap_cfg ap) c sum))])
            (s\<lparr>as_files := (as_files s)(stored_path ap name \<mapsto> content), as_index := (as_index s)(sum \<mapsto> name)\<rparr>)))"

definition HandleDownloadBySHA :: "api \<Rightarrow> handler" where
  "HandleDownloadBySHA ap c s =
     (let sha = trim_prefix (to_lower (trim_space (Param c ''sha''))) ''0x'' in
      if \<not> isSHA256Hex sha then JSON 400 (BErr ''invalid sha256'') s
      else case as_index s sha of
        None \<Rightarrow> JSON 404 (BErr ''unknown file or server restarted (index in memory only)'') s
      | Some stored \<Rightarrow>
          let baseName = path_base stored in
          (case as_files s (stored_path ap baseName) of
             None \<Rightarrow> JSON 404 (BErr ''file missing on disk'') s
           | Some content \<Rightarrow> JSON 200 (BFile baseName content) s))"

end
