(* ===== verification/Api_Router.thy ===== *)
theory Api_Router
  imports Api_Exchange Api_Chain Api_Files
begin

text \<open>
  \<open>api/handlers_indexer.go\<close> and \<open>api/router.go\<close>: the routes, those behind the token middleware, and the service
  of one request.
\<close>

subsection \<open>The index\<close>

definition withIndexer :: "api \<Rightarrow> (engine \<Rightarrow> api_state \<Rightarrow> response \<times> api_state) \<Rightarrow> api_state \<Rightarrow> response \<times> api_state" where
  "withIndexer ap k = (case ap_indexer ap of None \<Rightarrow> JSON 500 BNone | Some e \<Rightarrow> k e)"

definition HandleIndexerStatus :: "api \<Rightarrow> handler" where
  "HandleIndexerStatus ap c = withIndexer ap (\<lambda>e s. JSON 200 (BIxStatus (IxStatus e (as_ix s))) s)"

definition HandleIndexerBlocks :: "api \<Rightarrow> handler" where
  "HandleIndexerBlocks ap c = withIndexer ap (\<lambda>e s.
     let fr = atoi (DefaultQuery c ''from'' ''0''); limit = clamp_limit 100 20 (atoi (DefaultQuery c ''limit'' ''20'')) in
     JSON 200 (BBlocks fr limit (ListBlocks (ie_store e) fr limit (as_db s))) s)"

definition HandleIndexerBlockByNumber :: "api \<Rightarrow> handler" where
  "HandleIndexerBlockByNumber ap c = withIndexer ap (\<lambda>e s.
     case ParseUint (Param c ''number'') of
       None \<Rightarrow> JSON 400 (BErr ''invalid block number'') s
     | Some num \<Rightarrow>
         let cached = GetCachedBlock e (gc_now c) num (as_ix s) in
         if cached \<noteq> [] then JSON 200 (BObj [(''source'', HStr ''cache''), (''data'', HStr cached)]) s
         else
           (case GetBlockByNumber (ie_store e) num (as_db s) of
              Inl err \<Rightarrow> if err = ErrNoRows then JSON 404 (BErr ''block not synced yet'') s else failJSON 500 err s
            | Inr row \<Rightarrow> JSON 200 (BBlock row) s))"

definition block_number_query :: "gctx \<Rightarrow> u64 option" where
  "block_number_query c =
     (let raw = Query c ''block_number'' in if raw = [] then Some 0 else ParseUint raw)"

definition HandleIndexerTransactions :: "api \<Rightarrow> handler" where
  "HandleIndexerTransactions ap c = withIndexer ap (\<lambda>e s.
     case block_number_query c of
       None \<Rightarrow> JSON 400 (BErr ''invalid block_number'') s
     | Some blockNum \<Rightarrow>
         let limit = clamp_limit 200 50 (atoi (DefaultQuery c ''limit'' ''50'')) in
         JSON 200 (BSynced blockNum limit (ListTransactions (ie_store e) blockNum limit (as_db s))) s)"

definition HandleIndexerEvents :: "api \<Rightarrow> handler" where
  "HandleIndexerEvents ap c = withIndexer ap (\<lambda>e s.
     let contract = trim_space (Query c ''contract''); eventName = trim_space (Query c ''event_name'') in
     case block_number_query c of
       None \<Rightarrow> JSON 400 (BErr ''invalid block_number'') s
     | Some blockNum \<Rightarrow>
         let limit = clamp_limit 200 50 (atoi (DefaultQuery c ''limit'' ''50'')) in
         JSON 200 (BEvents contract eventName blockNum limit
           (ListEvents (ie_store e) contract eventName blockNum limit (as_db s))) s)"

definition HandleIndexerGapScans :: "api \<Rightarrow> handler" where
  "HandleIndexerGapScans ap c = withIndexer ap (\<lambda>e s.
     let limit = clamp_limit 50 10 (atoi (DefaultQuery c ''limit'' ''10'')) in
     JSON 200 (BScans limit (fst (ListRecentGapScans (ie_store e) limit (as_db s)))) s)"

subsection \<open>Routes\<close>

text \<open>A handler that may not answer; a registration: method and pattern, whether the token middleware stands before it,
  and the handler. \<open>served\<close> embeds the handlers without an unbounded loop of their own. They are total functions of the state, so
  that one of them waits for the database or the node for ever is not expressed: nothing here claims that they answer.\<close>

type_synonym endpoint = "gctx \<Rightarrow> api_state \<Rightarrow> (response \<times> api_state) option"

type_synonym registration = "(string \<times> string) \<times> bool \<times> endpoint"

definition served :: "handler \<Rightarrow> endpoint" where
  "served h c s = Some (h c s)"

definition HandleHealth :: handler where
  "HandleHealth c = JSON 200 (BObj [(''status'', HStr ''ok''), (''service'', HStr ''chain-backend'')])"

definition account_transactions :: "api \<Rightarrow> endpoint" where
  "account_transactions ap c s = map_option (\<lambda>r. (r, s)) (HandleAccountTransactions ap c)"

definition v1 :: "string \<Rightarrow> bool \<Rightarrow> string \<Rightarrow> endpoint \<Rightarrow> registration" where
  "v1 m authz pat h = ((m, ''/api/v1'' @ pat), authz, h)"

definition base_routes :: "api \<Rightarrow> registration list" where
  "base_routes ap =
    [((''GET'', ''/health''), False, served HandleHealth),
     v1 ''POST'' False ''/auth/login'' (served (HandleLogin ap)),
     v1 ''GET'' True ''/users'' (served (HandleListUsers ap)),
     v1 ''GET'' True ''/blocks/latest'' (served (HandleLatestBlock ap)),
     v1 ''GET'' True ''/blocks/hash/:hash'' (served (HandleBlockByHash ap)),
     v1 ''GET'' True ''/blocks/:number'' (served (HandleBlockByNumber ap)),
     v1 ''GET'' True ''/transactions/:hash/receipt'' (served (HandleTxReceipt ap)),
     v1 ''GET'' True ''/transactions/:hash'' (served (HandleTransaction ap)),
     v1 ''GET'' True ''/accounts/:addr/transactions'' (account_transactions ap),
     v1 ''GET'' True ''/accounts/:addr/transaction'' (account_transactions ap),
     v1 ''GET'' True ''/accounts/:addr/balance'' (served (HandleBalanceCached ap)),
     v1 ''GET'' True ''/accounts/:addr/balances'' (served (HandleBalancesList ap)),
     v1 ''POST'' True ''/accounts/:addr/balance/refresh'' (served (HandleBalanceRefresh ap)),
     v1 ''GET'' True ''/accounts/:addr'' (served (HandleAccountInfo ap)),
     v1 ''POST'' True ''/wallets'' (served (HandleWalletRegister ap)),
     v1 ''GET'' True ''/wallets'' (served (HandleWalletList ap)),
     v1 ''POST'' True ''/wallets/backfill'' (served (HandleWalletBackfill ap)),
     v1 ''GET'' True ''/wallets/:addr'' (served (HandleWalletGet ap)),
     v1 ''PATCH'' True ''/wallets/:addr'' (served (HandleWalletSetEnabled ap)),
     v1 ''POST'' True ''/wallets/:addr/refresh'' (served (HandleWalletRefresh ap)),
     v1 ''POST'' False ''/webhook/mock/receive'' (served HandleWebhookMockReceive)]"

definition webhook_routes :: "api \<Rightarrow> registration list" where
  "webhook_routes ap =
    [v1 ''GET'' True ''/webhook/status'' (served (HandleWebhookStatus ap)),
     v1 ''POST'' True ''/webhook/merchants'' (served (HandleMerchantRegister ap)),
     v1 ''GET'' True ''/webhook/merchants'' (served (HandleMerchantList ap)),
     v1 ''POST'' True ''/webhook/merchants/:merchant_id/bindings'' (served (HandleMerchantBind ap)),
     v1 ''POST'' True ''/webhook/payments'' (served (HandleMerchantPayment ap)),
     v1 ''GET'' True ''/webhook/deliveries'' (served (HandleWebhookDeliveries ap)),
     v1 ''POST'' True ''/webhook/outbox/:id/requeue'' (served (HandleWebhookRequeue ap)),
     v1 ''POST'' True ''/webhook/bench/enqueue'' (served (HandleWebhookBenchEnqueue ap))]"

definition exchange_routes :: "api \<Rightarrow> registration list" where
  "exchange_routes ap =
    [v1 ''GET'' True ''/ledger/:user_id/balances'' (served (HandleLedgerBalances ap)),
     v1 ''GET'' True ''/ledger/:user_id/entries'' (served (HandleLedgerEntries ap)),
     v1 ''GET'' True ''/deposits'' (served (HandleDepositList ap)),
     v1 ''POST'' True ''/withdrawals'' (served (HandleWithdrawCreate ap)),
     v1 ''GET'' True ''/withdrawals'' (served (HandleWithdrawList ap)),
     v1 ''GET'' True ''/withdrawals/:id'' (served (HandleWithdrawGet ap)),
     v1 ''POST'' True ''/withdrawals/:id/approve'' (served (HandleWithdrawApprove ap)),
     v1 ''POST'' True ''/withdrawals/:id/reject'' (served (HandleWithdrawReject ap)),
     v1 ''GET'' True ''/reconcile'' (served (HandleReconcileReport ap))]"

definition indexer_routes :: "api \<Rightarrow> registration list" where
  "indexer_routes ap =
    [v1 ''GET'' True ''/indexer/status'' (served (HandleIndexerStatus ap)),
     v1 ''GET'' True ''/indexer/blocks'' (served (HandleIndexerBlocks ap)),
     v1 ''GET'' True ''/indexer/blocks/:number'' (served (HandleIndexerBlockByNumber ap)),
     v1 ''GET'' True ''/indexer/transactions'' (served (HandleIndexerTransactions ap)),
     v1 ''GET'' True ''/indexer/events'' (served (HandleIndexerEvents ap)),
     v1 ''GET'' True ''/indexer/gap-scans'' (served (HandleIndexerGapScans ap))]"

definition tool_routes :: "api \<Rightarrow> registration list" where
  "tool_routes ap =
    [v1 ''GET'' True ''/contracts/erc20/balance'' (served (HandleERC20Balance ap)),
     v1 ''GET'' True ''/contracts/erc20/info'' (served (HandleERC20TokenInfo ap)),
     v1 ''GET'' True ''/contracts/counter/number'' (served (HandleCounterNumber ap)),
     v1 ''GET'' True ''/pipeline/stats'' (served HandlePipelineStats)]"

definition tx_routes :: "api \<Rightarrow> registration list" where
  "tx_routes ap =
    [v1 ''GET'' True ''/tools/http-probe'' (served (HandleHTTPProbe ap)),
     v1 ''POST'' True ''/tx/submit'' (served (HandleTxSubmit ap)),
     v1 ''POST'' True ''/tx/send'' (served (HandleTxSend ap)),
     v1 ''POST'' True ''/tx/send-erc20'' (served (HandleTxSendERC20 ap)),
     v1 ''POST'' True ''/tx/:hash/speed-up'' (served (HandleTxSpeedUp ap)),
     v1 ''GET'' True ''/tx/:hash'' (served (HandleTxGet ap)),
     v1 ''GET'' True ''/tx'' (served (HandleTxList ap)),
     v1 ''POST'' True ''/files/upload'' (served (HandleUpload ap)),
     v1 ''GET'' True ''/files/by-sha/:sha'' (served (HandleDownloadBySHA ap))]"

definition NewRouter :: "api \<Rightarrow> registration list" where
  "NewRouter ap =
     base_routes ap @ (if ap_webhook ap \<noteq> None then webhook_routes ap else []) @
     (if ap_exchange ap \<noteq> None then exchange_routes ap else []) @ tool_routes ap @
     (if ap_indexer ap \<noteq> None then indexer_routes ap else []) @ tx_routes ap"

text \<open>One request: routing, the middleware where it stands before the route, the handler. The clock is read once.\<close>

definition api_serve :: "api \<Rightarrow> time \<Rightarrow> int \<Rightarrow> request \<Rightarrow> api_state \<Rightarrow> (response \<times> api_state) option" where
  "api_serve ap now nano rq s =
     (let table = NewRouter ap;
          ctx = (\<lambda>params u i. \<lparr>gc_rq = rq, gc_params = params, gc_username = u, gc_uid = i, gc_now = now, gc_nano = nano\<rparr>) in
      case ap_gin ap (map fst table) (rq_method rq) (rq_path rq) of
        None \<Rightarrow> Some ((404, BErr ''404 page not found''), s)
      | Some (pat, params) \<Rightarrow>
          (case map_of table pat of
             None \<Rightarrow> Some ((404, BErr ''404 page not found''), s)
           | Some (authz, h) \<Rightarrow>
               if \<not> authz then h (ctx params [] []) s
               else (case JWTMiddleware (ap_jwt ap) (ap_cfg ap) now rq of
                 Inl msg \<Rightarrow> Some ((401, BErr msg), s)
               | Inr cl \<Rightarrow> h (ctx params (cl_username cl) (cl_uid cl)) s)))"

end
