(* ===== verification/Api_System.thy ===== *)
theory Api_System
  imports Api_Router Indexer_Invariant
begin

text \<open>
  The whole back end: HTTP requests between the rounds of the services, the tracker, the reconciler and the
  goroutines that requests start, all on one state. The locale \<open>api_client\<close> traverses the handlers once for any
  property of the exchange's, the webhook service's and the indexer's tables.
\<close>

subsection \<open>Tables that transactions, wallets and balances leave alone\<close>

lemma ex_tables_wallets [simp]:
  "ex_tables (d\<lparr>balances := b\<rparr>) = ex_tables d" "ex_tables (d\<lparr>wallets := w\<rparr>) = ex_tables d"
  "ex_tables (d\<lparr>ctrs := (ctrs d)\<lparr>ai_tx_outbox := n\<rparr>\<rparr>) = ex_tables d"
  "ex_tables (d\<lparr>ctrs := (ctrs d)\<lparr>ai_tx_outbox := n\<rparr>, tx_outbox := t\<rparr>) = ex_tables d"
  by (simp_all add: ex_tables_def ix_part_def)

lemma wallet_ops_ex:
  "ex_tables (snd (RegisterWallet ch now p d)) = ex_tables d"
  "ex_tables (snd (SetWalletEnabled ch now a b d)) = ex_tables d"
  unfolding RegisterWallet_def insert_wallet_stmt_def Let_def
  by (auto simp: SetWalletEnabled_def Let_def intro!: bindT_snd [where P = "\<lambda>x. ex_tables x = ex_tables d"] split: sum.split option.split)

lemma refresh_ex:
  "ex_tables (snd (RefreshNative sy now a tx n d)) = ex_tables d"
  "ex_tables (snd (RefreshERC20 sy now tok a tx n d)) = ex_tables d"
  by (auto simp: RefreshNative_def RefreshERC20_def Upsert_def Let_def bindT_apply split: sum.splits option.splits)

lemma RefreshWallet_ex: "ex_tables (snd (RefreshWallet sy now a d)) = ex_tables d"
  unfolding RefreshWallet_def Let_def
  by (auto simp: refresh_ex intro!: bindT_snd [where P = "\<lambda>x. ex_tables x = ex_tables d"]
      forT_snd [where P = "\<lambda>x. ex_tables x = ex_tables d"] split: option.split sum.split)

lemma RefreshAll_ex: "ex_tables (snd (RefreshAllRegistered sy now d)) = ex_tables d"
  unfolding RefreshAllRegistered_def
  by (auto simp: RefreshWallet_ex intro!: bindT_snd [where P = "\<lambda>x. ex_tables x = ex_tables d"]
      forT_snd [where P = "\<lambda>x. ex_tables x = ex_tables d"] split: option.split)

lemma RefreshForTx_ex: "ex_tables (snd (RefreshForTx sy now p d)) = ex_tables d"
  unfolding RefreshForTx_def Let_def
  by (auto simp: refresh_ex intro!: bindT_snd [where P = "\<lambda>x. ex_tables x = ex_tables d"] split: prod.split)

lemma SubmitRaw_ex: "ex_tables (sys_db (snd (SubmitRaw sv now req s))) = ex_tables (sys_db s)"
  unfolding SubmitRaw_def Let_def
  by (auto intro!: bindT_snd [where P = "\<lambda>x. ex_tables (sys_db x) = ex_tables (sys_db s)"] split: sum.split)

lemma SpeedUp_ex: "ex_tables (sys_db (snd (SpeedUp sv now k h s))) = ex_tables (sys_db s)"
  unfolding SpeedUp_def Let_def
  by (auto intro!: bindT_snd [where P = "\<lambda>x. ex_tables (sys_db x) = ex_tables (sys_db s)"] split: prod.split)

lemma updateFields_ex: "ex_tables (snd (updateFields ch now h st b cf g e d)) = ex_tables d"
  by (simp add: updateFields_def)

lemma insertTxOutbox_ex: "ex_tables (snd (insertTxOutbox ch now h b st st' p d)) = ex_tables d"
  by (simp add: insertTxOutbox_def ex_tables_def ix_part_def)

lemma track_stmts_ex:
  "ex_tables (snd (TransitionStatus ch now h st b cf g e d)) = ex_tables d"
  "ex_tables (snd (MarkReplacedSiblings ch now fr n h d)) = ex_tables d"
  "ex_tables (snd (IncrementBroadcastRetry ch now h d)) = ex_tables d"
  unfolding TransitionStatus_def MarkReplacedSiblings_def IncrementBroadcastRetry_def Let_def
  by (auto simp: updateFields_ex insertTxOutbox_ex
      intro!: bindT_snd [where P = "\<lambda>x. ex_tables x = ex_tables d"] forT_snd [where P = "\<lambda>x. ex_tables x = ex_tables d"])

lemma outbox_tick_ex: "ex_tables (snd (outboxWorkerTick now d)) = ex_tables d"
  unfolding outboxWorkerTick_def
  by (auto simp: TxClaimOutboxBatch_eq publishOutbox_def TxMarkOutboxDone_def
      intro!: bindT_snd [where P = "\<lambda>x. ex_tables x = ex_tables d"] forT_snd [where P = "\<lambda>x. ex_tables x = ex_tables d"])

lemma rebroadcast_ex: "ex_tables (sys_db (snd (rebroadcast sv now row s))) = ex_tables (sys_db s)"
proof -
  let ?P = "\<lambda>x. ex_tables (sys_db x) = ex_tables (sys_db s)"
  have "?P (snd (bindT (ignoreT (dbT (IncrementBroadcastRetry ch now h))) (\<lambda>_.
      ignoreT (dbT (MarkBroadcastFailed ch now h e))) s1))" if "?P s1" for ch h e s1
    by (rule bindT_snd [where P = ?P]) (simp_all add: that track_stmts_ex)
  then show ?thesis
    by (auto simp: rebroadcast_def dest: send_ex split: sum.split prod.split)
qed

lemma reconcile_ex: "ex_tables (sys_db (snd (reconcileRunOnce cfg sv now s))) = ex_tables (sys_db s)"
  unfolding reconcileRunOnce_def
  by (auto simp: reconcileOne_def Let_def rebroadcast_ex
      intro!: bindT_snd [where P = "\<lambda>x. ex_tables (sys_db x) = ex_tables (sys_db s)"]
        forT_snd [where P = "\<lambda>x. ex_tables (sys_db x) = ex_tables (sys_db s)"] split: sum.split)

lemma sysA_snd: "as_db (snd (sysA m s)) = sys_db (snd (m \<lparr>sys_db = as_db s, sys_sent = as_sent s\<rparr>))"
  by (simp add: sysA_def case_prod_beta)

lemma whA_snd: "as_db (snd (whA m s)) = whs_db (snd (m \<lparr>whs_db = as_db s, whs_met = as_met s\<rparr>))"
  by (simp add: whA_def case_prod_beta)

subsection \<open>The traversal of the handlers\<close>

text \<open>A property of these tables that the operations of exchange and webhook service keep.\<close>

locale api_client =
  fixes P :: "db \<Rightarrow> bool"
  assumes tables: "ex_tables d' = ex_tables d \<Longrightarrow> P d \<Longrightarrow> P d'"
    and create: "P d \<Longrightarrow> P (snd (CreateWithdraw xs now p d))"
    and approve: "P d \<Longrightarrow> P (snd (ApproveWithdraw xs now i rvw d))"
    and reject: "P d \<Longrightarrow> P (snd (RejectWithdraw xs now i rvw rsn d))"
    and confirmed: "P d \<Longrightarrow> P (snd (OnWithdrawTxConfirmed xs now h d))"
    and failed: "P d \<Longrightarrow> P (snd (OnWithdrawTxFailed xs now h d))"
    and register: "P d \<Longrightarrow> P (snd (RegisterMerchant parse sv now q d))"
    and bind: "P d \<Longrightarrow> P (snd (AddBinding sv now m u d))"
    and requeue: "P d \<Longrightarrow> P (snd (Requeue sv now i d))"
    and pay: "P (whs_db w) \<Longrightarrow> P (whs_db (snd (CreatePayment sv now pp w)))"
    and bench: "P (whs_db w) \<Longrightarrow> P (whs_db (snd (BenchEnqueue sv now nano m k w)))"
begin

definition keeps :: "(api_state \<Rightarrow> 'r \<times> api_state) \<Rightarrow> bool" where
  "keeps m \<longleftrightarrow> (\<forall>s. P (as_db s) \<longrightarrow> P (as_db (snd (m s))))"

lemma keeps_call: "keeps m \<Longrightarrow> (\<And>e. keeps (f e)) \<Longrightarrow> (\<And>x. keeps (g x)) \<Longrightarrow> keeps (call m f g)"
  unfolding keeps_def by (auto intro!: call_keeps [where P = "\<lambda>s. P (as_db s)"])

lemma keeps_body: "(\<And>b. keeps (g b)) \<Longrightarrow> keeps (withBody c bnd g)"
  by (simp add: keeps_def withBody_def split: sum.split)

lemma keeps_reply: "keeps (JSON code b)" "keeps (failJSON code e)"
  by (simp_all add: keeps_def)

lemma keeps_db: "(\<And>d. P d \<Longrightarrow> P (snd (m d))) \<Longrightarrow> keeps (dbA m)"
  by (simp add: keeps_def)

lemma keeps_same: "(\<And>s. as_db (snd (m s)) = as_db s) \<Longrightarrow> keeps m"
  by (simp add: keeps_def)

lemma keeps_read: "keeps (readA f)"
  by (rule keeps_same) simp

lemma keeps_sys:
  assumes "\<And>y. ex_tables (sys_db (snd (m y))) = ex_tables (sys_db y)"
  shows "keeps (sysA m)"
proof -
  have "P (as_db (snd (sysA m s)))" if "P (as_db s)" for s
    using tables [OF assms [of "\<lparr>sys_db = as_db s, sys_sent = as_sent s\<rparr>"]] that by (simp add: sysA_snd)
  then show ?thesis by (simp add: keeps_def)
qed

lemma keeps_wh:
  assumes "\<And>w. P (whs_db w) \<Longrightarrow> P (whs_db (snd (m w)))"
  shows "keeps (whA m)"
  using assms by (simp add: keeps_def whA_snd)

lemma keeps_if: "keeps a \<Longrightarrow> keeps b \<Longrightarrow> keeps (if q then a else b)"
  by simp

lemma keeps_tables: "(\<And>d. ex_tables (snd (m d)) = ex_tables d) \<Longrightarrow> keeps (dbA m)"
  by (rule keeps_db) (blast intro: tables)

lemmas keeps_rules = keeps_call keeps_body keeps_reply keeps_read keeps_if

lemma exchange_handlers:
  "keeps (HandleWithdrawCreate ap c)" "keeps (HandleWithdrawApprove ap c)" "keeps (HandleWithdrawReject ap c)"
  "keeps (HandleWithdrawGet ap c)" "keeps (HandleReconcileReport ap c)"
  unfolding HandleWithdrawCreate_def HandleWithdrawApprove_def HandleWithdrawReject_def HandleWithdrawGet_def
    HandleReconcileReport_def withExchange_def Let_def
  by (auto intro!: keeps_rules keeps_db create approve reject split: option.split)

lemma webhook_handlers:
  "keeps (HandleMerchantRegister ap c)" "keeps (HandleMerchantBind ap c)" "keeps (HandleMerchantPayment ap c)"
  "keeps (HandleWebhookRequeue ap c)" "keeps (HandleWebhookBenchEnqueue ap c)"
  unfolding HandleMerchantRegister_def HandleMerchantBind_def HandleMerchantPayment_def
    HandleWebhookRequeue_def HandleWebhookBenchEnqueue_def withWebhook_def Let_def
  by (auto intro!: keeps_rules keeps_db register bind requeue keeps_wh pay bench split: option.split)

lemma tx_handlers:
  "keeps (HandleTxSubmit ap c)" "keeps (HandleTxSend ap c)" "keeps (HandleTxSendERC20 ap c)" "keeps (HandleTxSpeedUp ap c)"
  unfolding HandleTxSubmit_def HandleTxSend_def HandleTxSendERC20_def HandleTxSpeedUp_def withTxService_def Let_def
  by (auto intro!: keeps_rules keeps_sys SubmitRaw_ex SpeedUp_ex Send_ex split: option.split sum.split)

lemma wallet_handlers:
  "keeps (HandleWalletRegister ap c)" "keeps (HandleWalletGet ap c)" "keeps (HandleWalletSetEnabled ap c)"
  "keeps (HandleWalletRefresh ap c)" "keeps (HandleWalletBackfill ap c)" "keeps (HandleBalanceRefresh ap c)"
proof -
  have k: "keeps (\<lambda>s. JSON x y (RefreshWalletAsync a (upsert_registry ap w s)))" "keeps (\<lambda>s. JSON x y (upsert_registry ap w s))"
    "keeps (refreshed_list sy a)" "keeps (refreshed_one sy a t)" "keeps disabled_reply" "keeps (walletFail e)" for x y a w sy t e
    by (auto intro!: keeps_same simp: RefreshWalletAsync_def upsert_registry_def refreshed_list_def refreshed_one_def
        disabled_reply_def walletFail_def split: option.split sum.split)
  note d = keeps_tables [OF wallet_ops_ex(1)] keeps_tables [OF wallet_ops_ex(2)] keeps_tables [OF RefreshWallet_ex]
    keeps_tables [OF RefreshAll_ex] keeps_tables [OF refresh_ex(1)] keeps_tables [OF refresh_ex(2)]
  show "keeps (HandleWalletRegister ap c)" "keeps (HandleWalletGet ap c)" "keeps (HandleWalletSetEnabled ap c)"
    "keeps (HandleWalletRefresh ap c)" "keeps (HandleWalletBackfill ap c)" "keeps (HandleBalanceRefresh ap c)"
    unfolding HandleWalletRegister_def HandleWalletGet_def HandleWalletSetEnabled_def HandleWalletRefresh_def
      HandleWalletBackfill_def HandleBalanceRefresh_def withStore_def withSyncer_def withAddr_def Let_def
    by (auto intro!: keeps_rules k d simp del: JSON_apply failJSON_apply split: option.split)
qed

lemma notify_keeps:
  assumes "P d"
  shows "P (snd (notify_failed (hooked ap now tr) row d))" "P (snd (notify_confirmed (hooked ap now tr) row d))"
  using assms confirmed failed
  by (auto simp: notify_failed_def notify_confirmed_def hooked_def exchange_handler_def split: option.split)

lemma bind_keeps: "P (snd (m d)) \<Longrightarrow> (\<And>x d'. P d' \<Longrightarrow> P (snd (k x d'))) \<Longrightarrow> P (snd (bindT m k d))"
  by (rule bindT_snd [where P = P])

lemma stmts_keep:
  assumes "P d"
  shows "P (snd (TransitionStatus ch now h st b cf g e d))" "P (snd (MarkReplacedSiblings ch now fr n h d))"
    "P (snd (MarkBroadcastPending ch now h d))"
  by (rule tables [OF _ assms], simp add: track_stmts_ex)+

lemma case_keeps:
  assumes "P (snd (m d))" "\<And>d1. P d1 \<Longrightarrow> P (snd (k d1))"
  shows "P (snd (case m d of (Inl _, d1) \<Rightarrow> (Inr x, d1) | (Inr _, d1) \<Rightarrow> k d1))"
  using assms by (cases "m d") (auto split: sum.split)

lemma track_keeps:
  assumes "P d"
  shows "P (snd (track_receipt (hooked ap now0 tr) now row head d))"
proof -
  have dn: "P (snd (track_done (hooked ap now0 tr) row cf b d'))" if "P d'" for cf b d'
    unfolding track_done_def by (rule bind_keeps) (simp_all add: notify_keeps that)
  have "P (snd (track_success (hooked ap now0 tr) now row b cf g d))" for b cf g
    unfolding track_success_def Let_def
    by (rule bind_keeps, simp add: stmts_keep assms, rule case_keeps) (simp_all add: stmts_keep dn)
  then show ?thesis
    by (auto simp: track_receipt_def Let_def assms stmts_keep notify_keeps intro!: bind_keeps split: sum.split)
qed

lemma trackOne_keeps: "P d \<Longrightarrow> P (snd (trackOne (hooked ap now0 tr) now row head d))"
  by (auto simp: trackOne_def track_keeps stmts_keep intro!: bind_keeps split: sum.split)

lemma RefreshOne_keeps: "P d \<Longrightarrow> P (snd (RefreshOne (hooked ap now0 tr) now h d))"
  by (auto simp: RefreshOne_def trackOne_keeps intro!: bind_keeps split: sum.split)

lemma concatT_keeps: "P d \<Longrightarrow> (\<And>x d. P d \<Longrightarrow> P (snd (f x d))) \<Longrightarrow> P (snd (concatT xs f d))"
  by (induction xs arbitrary: d) (auto intro!: bind_keeps)

lemma trackRunOnce_keeps: "P d \<Longrightarrow> P (snd (trackRunOnce (hooked ap now0 tr) now d))"
  by (auto simp: trackRunOnce_def intro!: bind_keeps concatT_keeps trackOne_keeps split: sum.split)

lemma HandleTxGet_keeps: "keeps (HandleTxGet ap c)"
proof -
  have "keeps (refreshA ap tr now h)" for tr now h
    unfolding keeps_def refreshA_def
    by (auto intro!: bindT_snd [where P = "\<lambda>s. P (as_db s)"] RefreshOne_keeps)
  then show ?thesis
    unfolding HandleTxGet_def withTracker_def Let_def by (auto intro!: keeps_rules split: option.split)
qed

end

subsection \<open>Handlers that leave the state alone\<close>

definition reads :: "handler \<Rightarrow> bool" where
  "reads h \<longleftrightarrow> (\<forall>c s. snd (h c s) = s)"

lemma call_reads: "snd (m s) = s \<Longrightarrow> (\<And>e. snd (f e s) = s) \<Longrightarrow> (\<And>x. snd (g x s) = s) \<Longrightarrow> snd (call m f g s) = s"
  by (cases "m s") (auto simp: call_def split: sum.splits go_error.splits)

lemma with_reads:
  "(\<And>x. snd (k x s) = s) \<Longrightarrow> snd (withExchange ap k s) = s" "(\<And>x. snd (k1 x s) = s) \<Longrightarrow> snd (withWebhook ap k1 s) = s"
  "(\<And>x. snd (k2 x s) = s) \<Longrightarrow> snd (withStore ap k2 s) = s" "(\<And>x. snd (k3 x s) = s) \<Longrightarrow> snd (withAddr ap c msg k3 s) = s"
  "(\<And>x. snd (k4 x s) = s) \<Longrightarrow> snd (withTracker ap k4 s) = s" "(\<And>x. snd (k5 x s) = s) \<Longrightarrow> snd (withIndexer ap k5 s) = s"
  "(\<And>x. snd (k6 x s) = s) \<Longrightarrow> snd (withBody c bnd k6 s) = s"
  by (simp_all add: withExchange_def withWebhook_def withStore_def withAddr_def withTracker_def withIndexer_def withBody_def
      disabled_reply_def Let_def split: option.split sum.split)

text \<open>The replies are not looked into.\<close>

lemma snd_if: "snd x = s \<Longrightarrow> snd y = s \<Longrightarrow> snd (if b then x else y) = s" "snd (k s) = s \<Longrightarrow> snd (l s) = s \<Longrightarrow> snd ((if b then k else l) s) = s"
  by simp_all

lemma snd_case:
  "(\<And>e. snd (f e) = s) \<Longrightarrow> (\<And>x. snd (g x) = s) \<Longrightarrow> snd (case r of Inl e \<Rightarrow> f e | Inr x \<Rightarrow> g x) = s"
  "(\<And>e. snd (f1 e s) = s) \<Longrightarrow> (\<And>x. snd (g1 x s) = s) \<Longrightarrow> snd ((case r of Inl e \<Rightarrow> f1 e | Inr x \<Rightarrow> g1 x) s) = s"
  "snd n = s \<Longrightarrow> (\<And>x. snd (h x) = s) \<Longrightarrow> snd (case o1 of None \<Rightarrow> n | Some x \<Rightarrow> h x) = s"
  "snd (n1 s) = s \<Longrightarrow> (\<And>x. snd (h1 x s) = s) \<Longrightarrow> snd ((case o1 of None \<Rightarrow> n1 | Some x \<Rightarrow> h1 x) s) = s"
  "(\<And>a b. snd (k a b) = s) \<Longrightarrow> snd (case p of (a, b) \<Rightarrow> k a b) = s"
  "(\<And>a b. snd (k1 a b s) = s) \<Longrightarrow> snd ((case p of (a, b) \<Rightarrow> k1 a b) s) = s"
  by (simp_all split: sum.split option.split prod.split)

lemma snd_reply: "snd (JSON code b s) = s" "snd (failJSON code e s) = s"
  by simp_all

lemma block_reply_reads: "snd (block_reply ap c r s) = s"
  unfolding block_reply_def by (intro snd_case snd_reply)

lemma rpc_balance_reads: "snd (rpc_balance ap a t s) = s"
  unfolding rpc_balance_def Let_def by (intro snd_if snd_case snd_reply)

lemmas reads_rules = allI with_reads call_reads readA_snd snd_if snd_case snd_reply block_reply_reads rpc_balance_reads

lemma reading_handlers:
  "reads HandleHealth" "reads (HandleLogin ap)" "reads (HandleListUsers ap)" "reads HandleWebhookMockReceive"
  "reads HandlePipelineStats" "reads (HandleHTTPProbe ap)" "reads (HandleLedgerBalances ap)" "reads (HandleLedgerEntries ap)"
  "reads (HandleDepositList ap)" "reads (HandleWithdrawList ap)" "reads (HandleWithdrawGet ap)" "reads (HandleReconcileReport ap)"
  "reads (HandleWebhookStatus ap)" "reads (HandleMerchantList ap)" "reads (HandleWebhookDeliveries ap)"
  "reads (HandleTxList ap)" "reads (HandleWalletList ap)" "reads (HandleWalletGet ap)" "reads (HandleBalancesList ap)"
  "reads (HandleDownloadBySHA ap)"
  unfolding reads_def HandleHealth_def HandleLogin_def HandleListUsers_def HandleWebhookMockReceive_def HandlePipelineStats_def
    HandleHTTPProbe_def HandleLedgerBalances_def HandleLedgerEntries_def HandleDepositList_def HandleWithdrawList_def
    HandleWithdrawGet_def HandleReconcileReport_def HandleWebhookStatus_def HandleMerchantList_def HandleWebhookDeliveries_def
    HandleTxList_def HandleWalletList_def HandleWalletGet_def HandleBalancesList_def HandleDownloadBySHA_def Let_def
  by (intro reads_rules)+

lemma chain_handlers:
  "reads (HandleLatestBlock ap)" "reads (HandleBlockByNumber ap)" "reads (HandleBlockByHash ap)" "reads (HandleTxReceipt ap)"
  "reads (HandleTransaction ap)" "reads (HandleAccountInfo ap)" "reads (HandleERC20Balance ap)" "reads (HandleERC20TokenInfo ap)"
  "reads (HandleCounterNumber ap)" "reads (HandleBalanceCached ap)"
  unfolding reads_def HandleLatestBlock_def HandleBlockByNumber_def HandleBlockByHash_def HandleTxReceipt_def
    HandleTransaction_def HandleAccountInfo_def HandleERC20Balance_def HandleERC20TokenInfo_def HandleCounterNumber_def
    HandleBalanceCached_def Let_def
  by (intro reads_rules)+

lemma indexer_handlers:
  "reads (HandleIndexerStatus ap)" "reads (HandleIndexerBlocks ap)" "reads (HandleIndexerBlockByNumber ap)"
  "reads (HandleIndexerTransactions ap)" "reads (HandleIndexerEvents ap)" "reads (HandleIndexerGapScans ap)"
  unfolding reads_def HandleIndexerStatus_def HandleIndexerBlocks_def HandleIndexerBlockByNumber_def
    HandleIndexerTransactions_def HandleIndexerEvents_def HandleIndexerGapScans_def Let_def
  by (intro reads_rules)+

end
