(* ===== verification/Api_Server.thy ===== *)
theory Api_Server
  imports Api_System
begin

text \<open>
  The service of a request as a whole: where it can go, what the routes without a token can do, and that every route keeps
  the invariants of the exchange, the webhook service and the index. The runs of the server interleave requests with
  the rounds of the services.
\<close>

subsection \<open>The routes\<close>

definition endpoint_reads :: "endpoint \<Rightarrow> bool" where
  "endpoint_reads h \<longleftrightarrow> (\<forall>c s r s'. h c s = Some (r, s') \<longrightarrow> s' = s)"

lemma served_reads: "reads h \<Longrightarrow> endpoint_reads (served h)"
  by (auto simp: endpoint_reads_def served_def reads_def) (metis snd_conv)

lemma account_transactions_reads: "endpoint_reads (account_transactions ap)"
  by (simp add: endpoint_reads_def account_transactions_def)

text \<open>Three routes are open, and they leave the state alone.\<close>

lemma open_routes:
  assumes "(pat, False, h) \<in> set (NewRouter ap)"
  shows "pat \<in> {(''GET'', ''/health''), (''POST'', ''/api/v1/auth/login''), (''POST'', ''/api/v1/webhook/mock/receive'')} \<and>
    endpoint_reads h"
  using assms
  by (auto simp: NewRouter_def base_routes_def webhook_routes_def exchange_routes_def tool_routes_def indexer_routes_def
      tx_routes_def v1_def reading_handlers intro!: served_reads split: if_splits)

lemmas all_routes = NewRouter_def base_routes_def webhook_routes_def exchange_routes_def tool_routes_def indexer_routes_def
  tx_routes_def v1_def

text \<open>The ways a request can go.\<close>

lemma api_serve_cases:
  assumes "api_serve ap now nano rq s = Some (r, s')"
  obtains (nowhere) "s' = s" "fst r = 404"
  | (refused) "s' = s" "fst r = 401" "\<nexists>cl. JWTMiddleware (ap_jwt ap) (ap_cfg ap) now rq = Inr cl"
  | (unguarded) pat params h c where "(pat, False, h) \<in> set (NewRouter ap)" "h c s = Some (r, s')"
      "ap_gin ap (map fst (NewRouter ap)) (rq_method rq) (rq_path rq) = Some (pat, params)"
  | (guarded) pat h c cl where "(pat, True, h) \<in> set (NewRouter ap)" "h c s = Some (r, s')"
      "JWTMiddleware (ap_jwt ap) (ap_cfg ap) now rq = Inr cl" "gc_rq c = rq" "gc_now c = now"
      "gc_username c = cl_username cl" "gc_uid c = cl_uid cl"
proof (cases "ap_gin ap (map fst (NewRouter ap)) (rq_method rq) (rq_path rq)")
  case None
  with assms nowhere show ?thesis by (auto simp: api_serve_def)
next
  case (Some x)
  obtain pat params where x: "x = (pat, params)" by fastforce
  show ?thesis
  proof (cases "map_of (NewRouter ap) pat")
    case None
    with assms Some x nowhere show ?thesis by (auto simp: api_serve_def)
  next
    case entry: (Some y)
    obtain authz h where y: "y = (authz, h)" by fastforce
    have mem: "(pat, authz, h) \<in> set (NewRouter ap)" using entry y by (auto dest: map_of_SomeD)
    show ?thesis
    proof (cases authz)
      case False
      with assms Some x entry y have "\<exists>c. h c s = Some (r, s')" by (auto simp: api_serve_def Let_def)
      moreover have "(pat, False, h) \<in> set (NewRouter ap)" using mem False by simp
      ultimately show ?thesis using unguarded Some x by blast
    next
      case True
      show ?thesis
      proof (cases "JWTMiddleware (ap_jwt ap) (ap_cfg ap) now rq")
        case (Inl msg)
        with assms Some x entry y True refused show ?thesis by (auto simp: api_serve_def Let_def)
      next
        case (Inr cl)
        show ?thesis
          using assms Some x entry y True Inr mem
          by (intro guarded [of pat h "\<lparr>gc_rq = rq, gc_params = params, gc_username = cl_username cl, gc_uid = cl_uid cl,
                gc_now = now, gc_nano = nano\<rparr>" cl]) (simp_all add: api_serve_def Let_def)
      qed
    qed
  qed
qed

context api_client
begin

definition endpoint_keeps :: "endpoint \<Rightarrow> bool" where
  "endpoint_keeps h \<longleftrightarrow> (\<forall>c s r s'. h c s = Some (r, s') \<longrightarrow> P (as_db s) \<longrightarrow> P (as_db s'))"

lemma endpoint_reads_keeps: "endpoint_reads h \<Longrightarrow> endpoint_keeps h"
  unfolding endpoint_reads_def endpoint_keeps_def by blast

lemma served_keeps: "(\<And>c. keeps (h c)) \<Longrightarrow> endpoint_keeps (served h)"
  by (auto simp: endpoint_keeps_def served_def keeps_def) (metis snd_conv)

lemma upload_keeps: "keeps (HandleUpload ap c)"
  by (rule keeps_same) (simp add: HandleUpload_def Let_def split: option.split prod.split)

lemma endpoint_keepsD: "endpoint_keeps h \<Longrightarrow> h c s = Some (r, s') \<Longrightarrow> P (as_db s) \<Longrightarrow> P (as_db s')"
  unfolding endpoint_keeps_def by blast

lemma routes_keep:
  assumes "(pat, authz, h) \<in> set (NewRouter ap)"
  shows "endpoint_keeps h"
proof -
  note r = endpoint_reads_keeps [OF served_reads] endpoint_reads_keeps [OF account_transactions_reads] served_keeps
  have "list_all (\<lambda>x. endpoint_keeps (snd (snd x))) (NewRouter ap)"
    by (simp add: all_routes r reading_handlers chain_handlers indexer_handlers exchange_handlers webhook_handlers tx_handlers
        wallet_handlers HandleTxGet_keeps upload_keeps)
  then show ?thesis using assms by (auto simp: list_all_iff)
qed

lemma api_serve_keeps:
  assumes "api_serve ap now nano rq s = Some (r, s')" "P (as_db s)"
  shows "P (as_db s')"
  using assms(1)
  by (cases rule: api_serve_cases) (use assms(2) in \<open>auto dest: routes_keep [THEN endpoint_keepsD]\<close>)

end

subsection \<open>Tokens guard the state\<close>

lemma serve_guarded:
  assumes "api_serve ap now nano rq s = Some (r, s')"
  shows "s' = s \<or> (\<exists>cl. JWTMiddleware (ap_jwt ap) (ap_cfg ap) now rq = Inr cl)"
  using assms
proof (cases rule: api_serve_cases)
  case (unguarded pat params h c)
  with open_routes [OF unguarded(1)] show ?thesis unfolding endpoint_reads_def by blast
qed auto

subsection \<open>The invariants of the services\<close>

lemma backend_inv_tables:
  assumes "ex_tables d' = ex_tables d" "backend_inv d"
  shows "backend_inv d'"
proof -
  have b: "books d' = books d" using assms(1) by (auto simp: ex_tables_def intro!: books_cong)
  have w: "same_wd d d'" and p: "pay_view d' = pay_view d" and x: "ix_part d' = ix_part d"
    using assms(1) by (auto simp: ex_tables_def same_wd_def pay_view_def)
  have "wh_outbox_ok d' = wh_outbox_ok d" using assms(1) by (auto simp: ex_tables_def wh_outbox_ok_def)
  then show ?thesis
    using assms(2) b same_wd_inv [OF w] payments_inv_view [OF p] index_rel_part [OF x]
    by (simp add: backend_inv_def platform_inv_def exchange_inv_def index_rel_def)
qed

lemma ex_step_backend:
  assumes "ex_step xs (Some (notified sv now dp)) s s'" "backend_inv (sys_db s)"
  shows "backend_inv (sys_db s')"
  using backend_step_inv [OF backend_step.platform [OF platform_step.exchange], of xs sv now dp "undefined\<lparr>ixs_db := sys_db s\<rparr>"
      "sys_sent s" s' undefined undefined] assms
  by (cases s) simp

lemma wh_step_backend:
  assumes "wh_step sv w w'" "backend_inv (whs_db w)"
  shows "backend_inv (whs_db w')"
  using wh_step_inv [OF assms(1)] assms(2) index_rel_part [of "whs_db w'" "whs_db w"]
  by (simp add: backend_inv_def index_rel_def)

interpretation backend: api_client backend_inv
proof unfold_locales
  show "backend_inv d'" if "ex_tables d' = ex_tables d" "backend_inv d" for d d'
    using that by (rule backend_inv_tables)
  fix d :: db and xs :: ex_service and now :: time and sv :: wh_service
  assume b: "backend_inv d"
  let ?s = "\<lparr>sys_db = d, sys_sent = []\<rparr>" and ?w = "\<lparr>whs_db = d, whs_met = undefined\<rparr>"
  note x = ex_step_backend [of xs undefined now undefined ?s] and w = wh_step_backend [of sv ?w]
  show "backend_inv (snd (CreateWithdraw xs now p d))" for p
    using x [OF ex_step.create] b by simp
  show "backend_inv (snd (ApproveWithdraw xs now i rvw d))" for i rvw
    using x [OF ex_step.approve] b by simp
  show "backend_inv (snd (RejectWithdraw xs now i rvw rsn d))" for i rvw rsn
    using x [OF ex_step.reject] b by simp
  show "backend_inv (snd (OnWithdrawTxConfirmed xs now h d))" for h
    using x [OF ex_step.confirmed] b by simp
  show "backend_inv (snd (OnWithdrawTxFailed xs now h d))" for h
    using x [OF ex_step.failed] b by simp
  show "backend_inv (snd (RegisterMerchant parse sv now q d))" for parse q
    using w [OF wh_step.register] b by (simp add: dbW_def case_prod_beta)
  show "backend_inv (snd (AddBinding sv now m u d))" for m u
    using w [OF wh_step.bind] b by (simp add: dbW_def case_prod_beta)
  show "backend_inv (snd (Requeue sv now i d))" for i
    using w [OF wh_step.requeue] b by (simp add: dbW_def case_prod_beta)
next
  show "backend_inv (whs_db (snd (CreatePayment sv now pp w)))" if "backend_inv (whs_db w)" for w sv now pp
    using wh_step_backend [OF wh_step.pay that] .
  show "backend_inv (whs_db (snd (BenchEnqueue sv now nano m k w)))" if "backend_inv (whs_db w)" for w sv now nano m k
    using wh_step_backend [OF wh_step.bench that] .
qed

subsection \<open>Runs of the whole server\<close>

text \<open>A step is a request, a round of the services or of the tracker, or a goroutine that a request started, in any
  order. The deposit processor and the refreshes see the registry as it is. The pipeline's workers are those of
  \<open>Pipeline\<close>; what they count is left open here.\<close>

inductive server_step :: "api \<Rightarrow> ex_service \<Rightarrow> wh_service \<Rightarrow> deposit_processor \<Rightarrow> engine \<Rightarrow> api_state \<Rightarrow> api_state \<Rightarrow> bool"
  for ap xs sv dp e where
  request: "api_serve ap now nano rq s = Some (r, s') \<Longrightarrow> server_step ap xs sv dp e s s'"
| wallet_refresh: "ap_balsync ap = Some sy \<Longrightarrow> as_async s = us @ a # vs \<Longrightarrow>
    server_step ap xs sv dp e s (snd (dbA (RefreshWallet sy now a) (s\<lparr>as_async := us @ vs\<rparr>)))"
| tx_refresh: "ap_balsync ap = Some sy \<Longrightarrow> as_jobs s = js @ p # ks \<Longrightarrow>
    server_step ap xs sv dp e s
      (snd (dbA (RefreshForTx (sy\<lparr>sy_registry := Some (as_reg s)\<rparr>) now p) (s\<lparr>as_jobs := js @ ks\<rparr>)))"
| backfill: "ap_balsync ap = Some sy \<Longrightarrow> server_step ap xs sv dp e s (snd (dbA (RefreshAllRegistered sy now) s))"
| reload: "ap_balstore ap = Some ch \<Longrightarrow> server_step ap xs sv dp e s (s\<lparr>as_reg := Reload ch (as_db s) (as_reg s)\<rparr>)"
| track: "ap_tracker ap = Some tr \<Longrightarrow> dbA (trackRunOnce (hooked ap now tr) now) s = (res, s1) \<Longrightarrow>
    server_step ap xs sv dp e s (s1\<lparr>as_jobs := as_jobs s1 @ (case res of Inl _ \<Rightarrow> [] | Inr jobs \<Rightarrow> jobs)\<rparr>)"
| publish: "ap_tracker ap = Some tr \<Longrightarrow> server_step ap xs sv dp e s (snd (dbA (outboxWorkerTick now) s))"
| reconcile: "ap_txsvc ap = Some ts \<Longrightarrow>
    server_step ap xs sv dp e s (snd (sysA (reconcileRunOnce (ap_cfg ap) ts now) s))"
| pipeline: "server_step ap xs sv dp e s (s\<lparr>as_bus := b\<rparr>)"
| services: "backend_step xs sv (dp\<lparr>dpr_registry := Some (as_reg s)\<rparr>) e (as_ix s, as_sent s, as_met s) (i, l, m) \<Longrightarrow>
    server_step ap xs sv dp e s (s\<lparr>as_ix := i, as_sent := l, as_met := m\<rparr>)"

inductive_cases server_stepE: "server_step ap xs sv dp e s s'"

lemma server_step_inv:
  assumes "server_step ap xs sv dp e s s'" "backend_inv (as_db s)"
  shows "backend_inv (as_db s')"
  using assms(1)
proof (cases rule: server_step.cases)
  case (request now nano rq r)
  then show ?thesis using assms(2) by (rule backend.api_serve_keeps)
next
  case (wallet_refresh sy us a vs now)
  then show ?thesis using assms(2) backend_inv_tables [OF RefreshWallet_ex] by simp
next
  case (tx_refresh sy js p ks now)
  then show ?thesis using assms(2) backend_inv_tables [OF RefreshForTx_ex] by simp
next
  case (backfill sy now)
  then show ?thesis using assms(2) backend_inv_tables [OF RefreshAll_ex] by simp
next
  case (track tr now res s1)
  then have "as_db s1 = snd (trackRunOnce (hooked ap now tr) now (as_db s))" by (metis dbA_snd snd_conv)
  then show ?thesis using assms(2) backend.trackRunOnce_keeps track by simp
next
  case (publish tr now)
  then show ?thesis using assms(2) backend_inv_tables [OF outbox_tick_ex] by simp
next
  case (reconcile ts now)
  then show ?thesis
    using assms(2) backend_inv_tables [OF reconcile_ex [of "ap_cfg ap" ts now "\<lparr>sys_db = as_db s, sys_sent = as_sent s\<rparr>"]]
    by (simp add: sysA_snd)
next
  case (services i l m)
  then show ?thesis using backend_step_inv [OF services(2)] assms(2) by (simp add: as_db_def)
qed (use assms(2) in simp_all)

lemma server_reachable_inv:
  assumes "(server_step ap xs sv dp e)\<^sup>*\<^sup>* s s'" "backend_inv (as_db s)"
  shows "backend_inv (as_db s')"
  using assms by (induction rule: rtranclp_induct) (auto dest: server_step_inv)

end
