(* ===== verification/Api_Properties.thy ===== *)
theory Api_Properties
  imports Api_Server Indexer_Properties
begin

text \<open>
  The properties of the HTTP API: which requests need a token, when a login is given one and what it is good for,
  the invariants of the whole server, and the two conversions of amounts.
\<close>

subsection \<open>Samples\<close>

text \<open>One user, tokens that spell out their claims, routes without parameters, decimal text as the only rationals, and
  the wallet store.\<close>

definition cfg1 :: config where
  "cfg1 = cfg0\<lparr>Users := [\<lparr>seed_username = ''ann'', seed_password = ''pw''\<rparr>]\<rparr>"

definition claims0 :: claims where
  "claims0 = new_claims cfg1 1000 ''ann'' ''1''"

fun spell :: "string \<Rightarrow> string" where
  "spell [] = ''.''"
| "spell (c # cs) = CHR ''_'' # c # spell cs"

fun unspell :: "string \<Rightarrow> string \<times> string" where
  "unspell (x # c # cs) = (if x = CHR ''_'' then (c # fst (unspell cs), snd (unspell cs)) else ([], c # cs))"
| "unspell cs = ([], [])"

lemma unspell_spell [simp]: "unspell (spell s @ t) = (s, t)"
  by (induction s) (cases t, simp_all)

lemma unspell_spell_end [simp]: "unspell (spell s) = (s, [])"
  using unspell_spell [of s "[]"] by (simp del: unspell_spell)

definition spell_claims :: "claims \<Rightarrow> string" where
  "spell_claims cl = spell (cl_username cl) @ spell (cl_uid cl) @ spell (int_str (cl_exp cl)) @ spell (int_str (cl_iat cl))"

definition unspell_claims :: "string \<Rightarrow> claims option" where
  "unspell_claims t =
     (let (u, t1) = unspell t; (i, t2) = unspell t1; (e, t3) = unspell t2; (a, t4) = unspell t3
      in case (big_set_string e, big_set_string a) of
           (Some ex, Some ia) \<Rightarrow> Some \<lparr>cl_username = u, cl_uid = i, cl_exp = ex, cl_iat = ia\<rparr>
         | _ \<Rightarrow> None)"

lemma unspell_spell_claims: "unspell_claims (spell_claims cl) = Some cl"
  by (simp add: unspell_claims_def spell_claims_def)

definition jwt0 :: jwt_lib where
  "jwt0 = \<lparr>jwt_sign = (\<lambda>k cl. Inr (spell_claims cl)),
     jwt_parse = (\<lambda>k now t. case unspell_claims t of
        Some cl \<Rightarrow> if now < 1000 * cl_exp cl then Inr (cl, True) else Inl (GoErr ''token is expired'')
      | None \<Rightarrow> Inl (GoErr ''token is malformed''))\<rparr>"

definition gin0 :: gin_find where
  "gin0 routes m p = (if (m, p) \<in> set routes then Some ((m, p), []) else None)"

definition rat0 :: "string \<Rightarrow> (int \<times> nat) option" where
  "rat0 s =
     (let ip = takeWhile (\<lambda>c. c \<noteq> CHR ''.'') s; fp = drop 1 (dropWhile (\<lambda>c. c \<noteq> CHR ''.'') s) in
      if ip \<noteq> [] \<and> list_all is_digit (ip @ fp) then Some (int (digits_val (ip @ fp)), 10 ^ length fp) else None)"

definition chain0 :: chain_client where
  "chain0 = \<lparr>cc_latest = Inl (GoErr ''n''), cc_by_number = (\<lambda>n. Inl (GoErr ''n'')), cc_by_hash = (\<lambda>h. Inr None),
     cc_transaction = (\<lambda>h. Inr (None, False)), cc_receipt = (\<lambda>h. Inl (GoErr ''n'')), cc_code = (\<lambda>a. Inr []),
     cc_is_hash = (\<lambda>s. True)\<rparr>"

definition ap0 :: api where
  "ap0 = \<lparr>ap_cfg = cfg1, ap_backend = backend0, ap_chain = chain0, ap_users = NewUserStore (Users cfg1),
     ap_indexer = None, ap_tracker = None, ap_txsvc = None, ap_balstore = Some 1,
     ap_balsync = Some \<lparr>sy_cfg = Some cfg1, sy_backend = backend0, sy_store = Some 1, sy_registry = None\<rparr>,
     ap_registry = True, ap_exchange = None, ap_webhook = None, ap_jwt = jwt0, ap_gin = gin0,
     ap_parse_uri = (\<lambda>s. True), ap_rat = rat0, ap_sha256 = (\<lambda>s. []), ap_http_get = (\<lambda>u. Inr 200)\<rparr>"

definition as0 :: api_state where
  "as0 = \<lparr>as_ix = is0, as_sent = [], as_met = NewMetrics 0, as_reg = NewRegistry,
     as_bus = NewBus \<lparr>lc_workers = 0, lc_buffer = 0\<rparr> None, as_async = [], as_jobs = [], as_index = Map.empty, as_files = Map.empty\<rparr>"

definition login_rq :: request where
  "login_rq = \<lparr>rq_method = ''POST'', rq_path = ''/api/v1/auth/login'', rq_query = [], rq_headers = [],
     rq_body = Inr (JObj [(''username'', JStr ''ann''), (''password'', JStr ''pw'')]), rq_file = None, rq_host = ''h'', rq_tls = False\<rparr>"

definition upload_rq :: request where
  "upload_rq = \<lparr>rq_method = ''POST'', rq_path = ''/api/v1/files/upload'', rq_query = [],
     rq_headers = [(''authorization'', ''Bearer '' @ spell_claims claims0)], rq_body = Inr JNull, rq_file = Some (''a'', ''hi''), rq_host = ''h'', rq_tls = False\<rparr>"

lemma claims0_eval: "claims0 = \<lparr>cl_username = ''ann'', cl_uid = ''1'', cl_exp = 86401, cl_iat = 1\<rparr>"
  by (simp add: claims0_def new_claims_def jwt_hours_def cfg1_def cfg0_def go_hours_small)

lemma upload_header: "header_of upload_rq ''Authorization'' = ''Bearer '' @ spell_claims claims0"
proof -
  have "equal_fold ''authorization'' ''Authorization''" by code_simp
  then show ?thesis by (simp add: header_of_def upload_rq_def)
qed

lemma upload_token: "JWTMiddleware (ap_jwt ap0) (ap_cfg ap0) 2000 upload_rq = Inr claims0"
proof -
  have "ParseJWT (ap_jwt ap0) (ap_cfg ap0) 2000 (spell_claims claims0) = Inr claims0"
    by (simp add: ParseJWT_def ap0_def jwt0_def unspell_spell_claims claims0_eval)
  then show ?thesis by (simp only: Middleware_iff upload_header has_prefix_append trim_prefix_append simp_thms)
qed

lemma upload_served:
  "\<exists>r s'. api_serve ap0 2000 7 upload_rq as0 = Some (r, s') \<and> as_index s' [] \<noteq> None \<and> as_ix s' = is0"
proof -
  have n: "ap_webhook ap0 = None" "ap_exchange ap0 = None" "ap_indexer ap0 = None" "ap_gin ap0 = gin0"
    "sha_hex ap0 ''hi'' = []" by (simp_all add: ap0_def sha_hex_def)
  have rq: "rq_method upload_rq = ''POST''" "rq_path upload_rq = ''/api/v1/files/upload''" "rq_file upload_rq = Some (''a'', ''hi'')"
    by (simp_all add: upload_rq_def)
  have m: "map_of (NewRouter ap0) (''POST'', ''/api/v1/files/upload'') = Some (True, served (HandleUpload ap0))"
    by (simp add: all_routes n)
  have "(''POST'', ''/api/v1/files/upload'') \<in> set (map fst (NewRouter ap0))"
    unfolding set_map by (rule rev_image_eqI [OF map_of_SomeD [OF m]]) (rule fst_conv [symmetric])
  then have g: "ap_gin ap0 (map fst (NewRouter ap0)) (rq_method upload_rq) (rq_path upload_rq) =
      Some ((''POST'', ''/api/v1/files/upload''), [])" by (simp only: n rq gin0_def if_True)
  let ?c = "\<lparr>gc_rq = upload_rq, gc_params = [], gc_username = cl_username claims0, gc_uid = cl_uid claims0, gc_now = 2000, gc_nano = 7\<rparr>"
  have s: "api_serve ap0 2000 7 upload_rq as0 = served (HandleUpload ap0) ?c as0"
    by (simp only: api_serve_def Let_def g m upload_token option.case prod.case sum.case not_True_eq_False if_False)
  have f: "rq_file (gc_rq ?c) = Some (''a'', ''hi'')" by (simp only: gctx.select_convs rq)
  have i: "as_ix as0 = is0" by (simp add: as0_def)
  show ?thesis
    unfolding s served_def HandleUpload_def f option.case prod.case Let_def n JSON_def by (simp add: i)
qed

lemma jwt0_ok: "jwt_ok jwt0"
  by (simp add: jwt_ok_def jwt0_def unspell_spell_claims)

lemma rat0_decimal: "rat_decimal rat0"
proof -
  have "rat0 (ip @ (if fp = [] then [] else ''.'' @ fp)) = Some (int (digits_val (ip @ fp)), 10 ^ length fp)"
    if "ip \<noteq> []" "list_all is_digit (ip @ fp)" for ip fp
  proof -
    have "\<not> is_digit CHR ''.''" by code_simp
    then have "\<forall>c\<in>set ip. c \<noteq> CHR ''.''" using that(2) by (auto simp: list_all_iff)
    then have "takeWhile (\<lambda>c. c \<noteq> CHR ''.'') ip = ip" "dropWhile (\<lambda>c. c \<noteq> CHR ''.'') ip = []" by simp_all
    then show ?thesis using that \<open>\<forall>c\<in>set ip. c \<noteq> CHR ''.''\<close>
      by (simp add: rat0_def Let_def takeWhile_append dropWhile_append)
  qed
  then show ?thesis by (auto simp: rat_decimal_def)
qed

subsection \<open>Tokens\<close>



text \<open>C8: what a login answers. A body that does not bind is refused with 400. A name and password that are not those of
  the last entry of that name in the configuration are refused with 401. An empty signing secret gives 500. In every other case
  the answer is 200 with a token and the user of that name. The middleware then accepts the token, with the user's name and
  id, strictly before the whole second in which the configured hours (24 if none are set) have passed since the login, and
  refuses it from then on. No login changes the state. The bound on the hours keeps the duration within 64 bits; that on the
  clock keeps the dates exact as \<open>float64\<close>; \<open>jwt_ok\<close> is what golang-jwt is relied on for.\<close>

theorem login_token:
  assumes "jwt_ok (ap_jwt ap)" "ap_users ap = NewUserStore (Users (ap_cfg ap))"
    "0 \<le> gc_now c" "gc_now c < 2 ^ 53" "jwt_hours (ap_cfg ap) \<le> 2562047"
  shows "case BindLoginReq c of
      Inl err \<Rightarrow> HandleLogin ap c s = ((400, BErr (err_text err)), s)
    | Inr req \<Rightarrow>
        if \<not> (\<exists>x. List.find (\<lambda>x. seed_username x = lr_username req) (rev (Users (ap_cfg ap))) = Some x \<and>
               seed_password x = lr_password req)
        then HandleLogin ap c s = ((401, BErr ''invalid credentials''), s)
        else if JwtSecret (JWT (ap_cfg ap)) = [] then HandleLogin ap c s = ((500, BErr ''jwt secret empty''), s)
        else \<exists>token u. HandleLogin ap c s = ((200, BToken token u), s) \<and> usr_name u = lr_username req \<and>
          (\<forall>rq later. header_of rq ''Authorization'' = ''Bearer '' @ token \<longrightarrow>
            (if later < 1000 * ((gc_now c + 3600000 * jwt_hours (ap_cfg ap)) div 1000)
             then \<exists>cl. JWTMiddleware (ap_jwt ap) (ap_cfg ap) later rq = Inr cl \<and> cl_username cl = usr_name u \<and> cl_uid cl = usr_id u
             else JWTMiddleware (ap_jwt ap) (ap_cfg ap) later rq = Inl ''invalid token''))"
proof (cases "BindLoginReq c")
  case (Inl err)
  then show ?thesis by (simp add: HandleLogin_def withBody_def)
next
  case (Inr req)
  let ?h = "jwt_hours (ap_cfg ap)" and ?cfg = "ap_cfg ap"
  note creds = Authenticate_iff [of "Users ?cfg" "lr_username req" "lr_password req", folded assms(2)]
  show ?thesis
  proof (cases "Authenticate (ap_users ap) (lr_username req) (lr_password req)")
    case None
    then show ?thesis using creds Inr by (auto simp: HandleLogin_def withBody_def)
  next
    case (Some u)
    have name: "usr_name u = lr_username req" using Some assms(2) Authenticate_name by metis
    have "0 \<le> ?h" by (simp add: jwt_hours_def)
    then have ex: "cl_exp (new_claims ?cfg (gc_now c) (usr_name u) (usr_id u)) = (gc_now c + 3600000 * ?h) div 1000"
      using assms(5) by (simp add: new_claims_def go_hours_small)
    show ?thesis
    proof (cases "JwtSecret (JWT ?cfg) = []")
      case True
      then show ?thesis using creds Inr Some by (auto simp: HandleLogin_def withBody_def SignJWT_def)
    next
      case False
      have "0 \<le> (gc_now c + 3600000 * ?h) div 1000" "(gc_now c + 3600000 * ?h) div 1000 < 2 ^ 53"
        using assms(3-5) \<open>0 \<le> ?h\<close> by auto
      then obtain token where t: "SignJWT (ap_jwt ap) ?cfg (gc_now c) (usr_name u) (usr_id u) = Inr token"
        "\<And>rq later. header_of rq ''Authorization'' = ''Bearer '' @ token \<Longrightarrow> JWTMiddleware (ap_jwt ap) ?cfg later rq =
          (if later < 1000 * ((gc_now c + 3600000 * ?h) div 1000) then Inr (new_claims ?cfg (gc_now c) (usr_name u) (usr_id u))
           else Inl ''invalid token'')"
        using token_issued [OF assms(1) False] unfolding ex [symmetric] by metis
      have "HandleLogin ap c s = ((200, BToken token u), s)"
        using Inr Some t(1) by (simp add: HandleLogin_def withBody_def)
      moreover have "\<exists>x. List.find (\<lambda>x. seed_username x = lr_username req) (rev (Users ?cfg)) = Some x \<and> seed_password x = lr_password req"
        using creds Some by blast
      moreover have "cl_username (new_claims ?cfg (gc_now c) (usr_name u) (usr_id u)) = usr_name u"
        "cl_uid (new_claims ?cfg (gc_now c) (usr_name u) (usr_id u)) = usr_id u" by (simp_all add: new_claims_def)
      ultimately show ?thesis using Inr False name t(2) by auto
    qed
  qed
qed

definition login_ctx :: gctx where
  "login_ctx = \<lparr>gc_rq = login_rq, gc_params = [], gc_username = [], gc_uid = [], gc_now = 1000, gc_nano = 0\<rparr>"

theorem login_token_witness:
  "\<exists>token u. HandleLogin ap0 login_ctx as0 = ((200, BToken token u), as0) \<and> usr_name u = ''ann'' \<and>
     (\<forall>rq. header_of rq ''Authorization'' = ''Bearer '' @ token \<longrightarrow>
       (\<exists>cl. JWTMiddleware jwt0 cfg1 86400999 rq = Inr cl \<and> cl_username cl = ''ann'') \<and>
       JWTMiddleware jwt0 cfg1 86401000 rq = Inl ''invalid token'')"
proof -
  have req: "BindLoginReq login_ctx = Inr \<lparr>lr_username = ''ann'', lr_password = ''pw''\<rparr>" by code_simp
  have ap: "ap_jwt ap0 = jwt0" "ap_users ap0 = NewUserStore (Users (ap_cfg ap0))" "jwt_hours cfg1 = 24" "JwtSecret (JWT cfg1) = ''s''"
    "ap_cfg ap0 = cfg1" "gc_now login_ctx = 1000" "Users cfg1 = [\<lparr>seed_username = ''ann'', seed_password = ''pw''\<rparr>]"
    by (simp_all add: ap0_def jwt_hours_def cfg1_def cfg0_def login_ctx_def)
  have pre: "jwt_ok (ap_jwt ap0)" "0 \<le> gc_now login_ctx" "gc_now login_ctx < 2 ^ 53" "jwt_hours (ap_cfg ap0) \<le> 2562047"
    by (simp_all add: ap jwt0_ok)
  have "\<exists>token u. HandleLogin ap0 login_ctx as0 = ((200, BToken token u), as0) \<and> usr_name u = ''ann'' \<and>
      (\<forall>rq later. header_of rq ''Authorization'' = ''Bearer '' @ token \<longrightarrow>
        (if later < 86401000 then \<exists>cl. JWTMiddleware jwt0 cfg1 later rq = Inr cl \<and> cl_username cl = usr_name u \<and> cl_uid cl = usr_id u
         else JWTMiddleware jwt0 cfg1 later rq = Inl ''invalid token''))"
    using login_token [OF pre(1) ap(2) pre(2-4), of as0] unfolding req sum.case ap(1) ap(3-7) by simp
  then obtain token u where l: "HandleLogin ap0 login_ctx as0 = ((200, BToken token u), as0)" "usr_name u = ''ann''"
    and p: "\<And>rq later. header_of rq ''Authorization'' = ''Bearer '' @ token \<Longrightarrow>
      (if later < 86401000 then \<exists>cl. JWTMiddleware jwt0 cfg1 later rq = Inr cl \<and> cl_username cl = usr_name u \<and> cl_uid cl = usr_id u
       else JWTMiddleware jwt0 cfg1 later rq = Inl ''invalid token'')" by blast
  have "(\<exists>cl. JWTMiddleware jwt0 cfg1 86400999 rq = Inr cl \<and> cl_username cl = ''ann'') \<and>
      JWTMiddleware jwt0 cfg1 86401000 rq = Inl ''invalid token''" if "header_of rq ''Authorization'' = ''Bearer '' @ token" for rq
    using p [OF that, of 86400999] p [OF that, of 86401000] l(2) by auto
  with l show ?thesis by blast
qed

subsection \<open>Runs\<close>

text \<open>C33: whatever requests are served, in any order with the rounds of the services, the tracker, the
  reconciler and the goroutines that requests start: the books balance, no deposit is credited twice, the withdraw table is well
  formed, no event is enqueued twice under a key, every payment stands for one debit and one credit in the journal,
  and the index keeps its unique keys and a checkpoint whose confirmed number is at most its last.\<close>

theorem server_sound:
  assumes "(server_step ap xs sv dp e)\<^sup>*\<^sup>* s s'" "platform_inv (as_db s)" "index_ok (as_db s)"
  shows "ledger_inv (as_db s') \<and> credits_once (as_db s') \<and> withdraws_inv (as_db s') \<and>
    distinct (map who_key (wh_outbox (as_db s'))) \<and>
    (\<forall>r\<in>set (payments (as_db s')). payment_posted (filter is_pay (entries (as_db s'))) r) \<and> index_ok (as_db s')"
  using server_reachable_inv [OF assms(1)] assms(2,3)
  by (auto simp: backend_inv_def platform_inv_def exchange_inv_def books_def wh_outbox_ok_def payments_inv_def pay_view_def)

theorem server_sound_witness:
  "\<exists>s'. as_index s' [] \<noteq> None \<and> map ph_key (pending_headers (as_db s')) = [(1, 5)] \<and> ledger_inv (as_db s') \<and> index_ok (as_db s')"
proof -
  obtain r s1 where rs: "api_serve ap0 2000 7 upload_rq as0 = Some (r, s1)" and u: "as_index s1 [] \<noteq> None" "as_ix s1 = is0"
    using upload_served by blast
  let ?sv = "\<lparr>ws_cfg = cfg0, ws_store = 1, ws_exstore = Some 1\<rparr>" and ?dp = "dp0\<lparr>dpr_registry := Some (as_reg s1)\<rparr>"
  let ?i = "snd (EnqueueHeader (ie0\<lparr>ie_deposit := Some (notified ?sv 9 ?dp)\<rparr>) 1000 5 50 is0)"
  let ?s = "s1\<lparr>as_ix := ?i, as_sent := as_sent s1, as_met := as_met s1\<rparr>"
  have "backend_step xs0 ?sv ?dp ie0 (is0, as_sent s1, as_met s1) (?i, as_sent s1, as_met s1)"
    by (rule backend_step.indexer [where now = 9], rule ix_step.header)
  then have "server_step ap0 xs0 ?sv dp0 ie0 s1 ?s" using server_step.services [where xs = xs0 and sv = ?sv and dp = dp0 and s = s1 and e = ie0 and ap = ap0,
        unfolded u(2)] by blast
  then have "(server_step ap0 xs0 ?sv dp0 ie0)\<^sup>*\<^sup>* as0 ?s"
    using server_step.request [OF rs, where xs = xs0 and sv = ?sv and dp = dp0 and e = ie0] by (meson converse_rtranclp_into_rtranclp r_into_rtranclp)
  from server_sound [OF this] is0_inv have "ledger_inv (as_db ?s) \<and> index_ok (as_db ?s)" by (simp add: as0_def as_db_def)
  moreover have "map ph_key (pending_headers (as_db ?s)) = [(1, 5)]"
    by (simp add: as_db_def EnqueueHeader_def bindT_apply EnqueuePendingHeader_def send_job_def is0_def empty_db_def ie0_def ph_key_def)
  moreover have "as_index ?s [] \<noteq> None" using u(1) by simp
  ultimately show ?thesis by (intro exI [of _ ?s] conjI) simp_all
qed

subsection \<open>Amounts\<close>

text \<open>C21: the ether text that the API shows for an amount of wei, given back as \<open>value_eth\<close>, is that amount: no digit
  is lost to the eighteen places or to the trailing zeros that are cut. \<open>SetString\<close> of \<open>big.Rat\<close> reads decimal text.\<close>

theorem wei_eth_roundtrip:
  assumes "rat_decimal rat" "0 < w"
  shows "parseTransferValue rat [] (weiToETHString w) = Inr w"
  using assms by (rule parse_weiToETH)

theorem wei_eth_roundtrip_witness:
  "parseTransferValue rat0 [] (weiToETHString 1500000000000000000) = Inr 1500000000000000000"
  by (rule wei_eth_roundtrip [OF rat0_decimal]) simp

end
