(* ===== verification/Backend_Main.thy ===== *)
theory Backend_Main
  imports Api_Router Exchange_Service
begin

text \<open>
  \<open>cmd/chain-backend/main.go\<close>, which of the services exist for a configuration and how they are put together, and
  \<open>grpcsvc/chain.go\<close>. Opening the database and running the DDL of a package succeed or fail (\<open>boot_env\<close>). The notifier that
  \<open>SetDepositNotifier\<close> hands to the deposit processor, and the withdraw handler of the tracker, are added where they
  are called (\<open>notified\<close>, \<open>hooked\<close>), since they carry the clock.
\<close>

subsection \<open>The services of a configuration\<close>

record boot_env =
  be_mysql :: bool
  be_balance :: bool
  be_exchange :: bool
  be_webhook :: bool
  be_tx :: bool

record wired =
  wi_balstore :: "int option"
  wi_registry :: "registry option"
  wi_balsync :: "syncer option"
  wi_exstore :: "int option"
  wi_deposit :: "deposit_processor option"
  wi_webhook :: "wh_service option"
  wi_indexer :: "engine option"
  wi_tracker :: "tracker option"
  wi_txsvc :: "tx_service option"
  wi_exchange :: "ex_service option"

definition no_services :: wired where
  "no_services = \<lparr>wi_balstore = None, wi_registry = None, wi_balsync = None, wi_exstore = None, wi_deposit = None,
     wi_webhook = None, wi_indexer = None, wi_tracker = None, wi_txsvc = None, wi_exchange = None\<rparr>"

definition wire_balance :: "boot_env \<Rightarrow> config \<Rightarrow> backend \<Rightarrow> db \<Rightarrow> wired \<Rightarrow> wired" where
  "wire_balance env cfg b d w =
     (if BalanceSyncEnabled (BalanceSync cfg) \<and> be_balance env then
        let ch = EthChainID (Eth cfg); reg = Reload ch d NewRegistry in
        w\<lparr>wi_balstore := Some ch, wi_registry := Some reg,
          wi_balsync := Some \<lparr>sy_cfg = Some cfg, sy_backend = b, sy_store = Some ch, sy_registry = Some reg\<rparr>\<rparr>
      else w)"

definition wire_exchange :: "boot_env \<Rightarrow> config \<Rightarrow> wired \<Rightarrow> wired" where
  "wire_exchange env cfg w =
     (if ExchangeEnabled (Exchange cfg) \<and> wi_balstore w \<noteq> None \<and> be_exchange env then
        let ch = EthChainID (Eth cfg) in
        w\<lparr>wi_exstore := Some ch, wi_deposit := Some (NewDepositProcessor cfg ch (wi_registry w))\<rparr>
      else w)"

definition wire_webhook :: "boot_env \<Rightarrow> config \<Rightarrow> wired \<Rightarrow> wired" where
  "wire_webhook env cfg w =
     (if WebhookEnabled (Webhook cfg) \<and> wi_exstore w \<noteq> None \<and> be_webhook env then
        w\<lparr>wi_webhook := Some \<lparr>ws_cfg = cfg, ws_store = EthChainID (Eth cfg), ws_exstore = wi_exstore w\<rparr>\<rparr>
      else w)"

definition wire_indexer :: "config \<Rightarrow> backend \<Rightarrow> event_lib \<Rightarrow> (sync_payload \<Rightarrow> string) \<Rightarrow> wired \<Rightarrow> wired" where
  "wire_indexer cfg b lib js w =
     (if \<not> IndexerEnabled (Indexer cfg) then w
      else case NewEngine cfg b lib js of
        Inl _ \<Rightarrow> w
      | Inr e0 \<Rightarrow>
          let e1 = (if wi_balsync w \<noteq> None then SetBalanceSyncer True e0 else e0);
              e2 = (if wi_deposit w \<noteq> None then SetDepositProcessor (wi_deposit w) e1 else e1)
          in w\<lparr>wi_indexer := Some e2\<rparr>)"

definition wire_tx :: "boot_env \<Rightarrow> config \<Rightarrow> backend \<Rightarrow> wired \<Rightarrow> wired" where
  "wire_tx env cfg b w =
     (if TxTrackerEnabled (TxTracker cfg) \<and> be_tx env then
        let ch = EthChainID (Eth cfg);
            svc = \<lparr>ts_backend = b, ts_store = ch, ts_use1559 = UseEIP1559 (TxTracker cfg),
              ts_bump = SpeedUpGasBumpPercent (TxTracker cfg)\<rparr>;
            w1 = w\<lparr>wi_tracker := Some \<lparr>tk_cfg = cfg, tk_backend = b, tk_store = ch, tk_balsync = (wi_balsync w \<noteq> None),
              tk_withdraw = None\<rparr>, wi_txsvc := Some svc\<rparr>
        in (case (wi_exstore w, wi_balstore w) of
              (Some ex, Some bal) \<Rightarrow>
                w1\<lparr>wi_exchange := Some \<lparr>xs_cfg = cfg, xs_store = ex, xs_balstore = bal, xs_geth = bk_geth b,
                  xs_signer = Some (NewSigner (bk_geth b) cfg), xs_txsvc = Some svc\<rparr>\<rparr>
            | _ \<Rightarrow> w1)
      else w)"

definition wire :: "boot_env \<Rightarrow> config \<Rightarrow> backend \<Rightarrow> event_lib \<Rightarrow> (sync_payload \<Rightarrow> string) \<Rightarrow> db \<Rightarrow> wired" where
  "wire env cfg b lib js d =
     (if MySQLEnabled (MySQL cfg) \<and> be_mysql env
      then wire_tx env cfg b (wire_indexer cfg b lib js (wire_webhook env cfg (wire_exchange env cfg (wire_balance env cfg b d no_services))))
      else no_services)"

text \<open>The arguments of \<open>NewRouter\<close>; \<open>libs\<close> holds the libraries and the chain client. A node of another chain ends the program.\<close>

definition start_backend :: "boot_env \<Rightarrow> config \<Rightarrow> backend \<Rightarrow> event_lib \<Rightarrow> (sync_payload \<Rightarrow> string) \<Rightarrow> db \<Rightarrow> api \<Rightarrow>
    (api \<times> bus) res" where
  "start_backend env cfg b lib js d libs =
     bindR (VerifyChainID b) (\<lambda>_.
     let w = wire env cfg b lib js d in
     Inr (libs\<lparr>ap_cfg := cfg, ap_backend := b, ap_users := NewUserStore (Users cfg), ap_indexer := wi_indexer w,
            ap_tracker := wi_tracker w, ap_txsvc := wi_txsvc w, ap_balstore := wi_balstore w, ap_balsync := wi_balsync w,
            ap_registry := (wi_registry w \<noteq> None), ap_exchange := wi_exchange w, ap_webhook := wi_webhook w\<rparr>,
          NewBus \<lparr>lc_workers = WorkerCount (Listener cfg), lc_buffer = ChannelBuffer (Listener cfg)\<rparr> (wi_indexer w)))"

subsection \<open>\<open>grpcsvc\<close>\<close>

record block_summary =
  bsum_number :: u64
  bsum_hash :: string
  bsum_timestamp :: u64
  bsum_tx_count :: "32 word"

definition Ping :: "unit res \<Rightarrow> unit res" where
  "Ping ctx_err = ctx_err"

definition GetLatestBlock :: "api \<Rightarrow> block_summary res" where
  "GetLatestBlock ap =
     bindR (cc_latest (ap_chain ap)) (\<lambda>blk.
     Inr \<lparr>bsum_number = blk_number blk, bsum_hash = HashHex (ap_geth ap) (blk_hash blk), bsum_timestamp = blk_time blk,
       bsum_tx_count = of_nat (length (blk_txs blk))\<rparr>)"

subsection \<open>Lemmas\<close>

text \<open>What each stage sets, and what it leaves.\<close>

lemma wire_balance_fields [simp]:
  "wi_balstore (wire_balance env cfg b d no_services) =
     (if BalanceSyncEnabled (BalanceSync cfg) \<and> be_balance env then Some (EthChainID (Eth cfg)) else None)"
  "wi_exstore (wire_balance env cfg b d no_services) = None" "wi_deposit (wire_balance env cfg b d no_services) = None"
  "wi_webhook (wire_balance env cfg b d no_services) = None" "wi_indexer (wire_balance env cfg b d no_services) = None"
  "wi_tracker (wire_balance env cfg b d no_services) = None" "wi_exchange (wire_balance env cfg b d no_services) = None"
  "wi_txsvc (wire_balance env cfg b d no_services) = None"
  by (simp_all add: wire_balance_def no_services_def Let_def)

definition exchange_runs :: "boot_env \<Rightarrow> config \<Rightarrow> wired \<Rightarrow> bool" where
  "exchange_runs env cfg w \<longleftrightarrow> ExchangeEnabled (Exchange cfg) \<and> wi_balstore w \<noteq> None \<and> be_exchange env"

lemma wire_exchange_fields [simp]:
  "wi_balstore (wire_exchange env cfg w) = wi_balstore w" "wi_balsync (wire_exchange env cfg w) = wi_balsync w"
  "wi_exstore (wire_exchange env cfg w) = (if exchange_runs env cfg w then Some (EthChainID (Eth cfg)) else wi_exstore w)"
  "wi_deposit (wire_exchange env cfg w) =
     (if exchange_runs env cfg w then Some (NewDepositProcessor cfg (EthChainID (Eth cfg)) (wi_registry w)) else wi_deposit w)"
  "wi_webhook (wire_exchange env cfg w) = wi_webhook w" "wi_indexer (wire_exchange env cfg w) = wi_indexer w"
  "wi_tracker (wire_exchange env cfg w) = wi_tracker w" "wi_exchange (wire_exchange env cfg w) = wi_exchange w"
  "wi_txsvc (wire_exchange env cfg w) = wi_txsvc w"
  by (auto simp: wire_exchange_def exchange_runs_def Let_def)

lemma wire_webhook_fields [simp]:
  "wi_balstore (wire_webhook env cfg w) = wi_balstore w" "wi_balsync (wire_webhook env cfg w) = wi_balsync w"
  "wi_exstore (wire_webhook env cfg w) = wi_exstore w" "wi_deposit (wire_webhook env cfg w) = wi_deposit w"
  "wi_indexer (wire_webhook env cfg w) = wi_indexer w"
  "wi_tracker (wire_webhook env cfg w) = wi_tracker w" "wi_exchange (wire_webhook env cfg w) = wi_exchange w"
  "wi_txsvc (wire_webhook env cfg w) = wi_txsvc w"
  "wi_webhook (wire_webhook env cfg w) =
     (if WebhookEnabled (Webhook cfg) \<and> wi_exstore w \<noteq> None \<and> be_webhook env
      then Some \<lparr>ws_cfg = cfg, ws_store = EthChainID (Eth cfg), ws_exstore = wi_exstore w\<rparr> else wi_webhook w)"
  by (auto simp: wire_webhook_def)

lemma wire_indexer_fields [simp]:
  "wi_balstore (wire_indexer cfg b lib js w) = wi_balstore w" "wi_balsync (wire_indexer cfg b lib js w) = wi_balsync w"
  "wi_exstore (wire_indexer cfg b lib js w) = wi_exstore w" "wi_deposit (wire_indexer cfg b lib js w) = wi_deposit w"
  "wi_webhook (wire_indexer cfg b lib js w) = wi_webhook w"
  "wi_tracker (wire_indexer cfg b lib js w) = wi_tracker w" "wi_exchange (wire_indexer cfg b lib js w) = wi_exchange w"
  "wi_txsvc (wire_indexer cfg b lib js w) = wi_txsvc w"
  by (simp_all add: wire_indexer_def Let_def split: sum.split)

lemma wire_indexer_engine:
  assumes "wi_indexer (wire_indexer cfg b lib js w) = Some e" "wi_indexer w = None"
  shows "ie_deposit e = wi_deposit w \<and> ie_balsync e = (wi_balsync w \<noteq> None) \<and> ie_backend e = b"
proof -
  obtain e0 where e0: "NewEngine cfg b lib js = Inr e0" "IndexerEnabled (Indexer cfg)"
    using assms by (auto simp: wire_indexer_def split: if_splits sum.splits)
  have "ie_deposit e0 = None \<and> ie_balsync e0 = False \<and> ie_backend e0 = b"
    using e0(1) by (auto simp: NewEngine_def bindR_def split: sum.splits)
  then show ?thesis
    using assms(1) e0 by (auto simp: wire_indexer_def Let_def SetBalanceSyncer_def SetDepositProcessor_def split: if_splits)
qed

lemma wire_tx_fields [simp]:
  "wi_balstore (wire_tx env cfg b w) = wi_balstore w" "wi_balsync (wire_tx env cfg b w) = wi_balsync w"
  "wi_deposit (wire_tx env cfg b w) = wi_deposit w" "wi_webhook (wire_tx env cfg b w) = wi_webhook w"
  "wi_indexer (wire_tx env cfg b w) = wi_indexer w"
  by (simp_all add: wire_tx_def Let_def split: option.split)

lemma wire_tx_exchange:
  assumes "wi_exchange w = None"
  shows "wi_exchange (wire_tx env cfg b w) \<noteq> None \<longleftrightarrow>
    TxTrackerEnabled (TxTracker cfg) \<and> be_tx env \<and> wi_exstore w \<noteq> None \<and> wi_balstore w \<noteq> None"
  using assms by (auto simp: wire_tx_def Let_def split: option.split)

text \<open>Which services exist: the exchange service needs the tracker, the deposit processor does not. Without the tracker
  deposits are credited to a ledger that no route shows.\<close>

lemma wire_services:
  "(wi_deposit (wire env cfg b lib js d) \<noteq> None \<longleftrightarrow>
     MySQLEnabled (MySQL cfg) \<and> be_mysql env \<and> BalanceSyncEnabled (BalanceSync cfg) \<and> be_balance env \<and>
     ExchangeEnabled (Exchange cfg) \<and> be_exchange env) \<and>
   (wi_exchange (wire env cfg b lib js d) \<noteq> None \<longleftrightarrow>
     wi_deposit (wire env cfg b lib js d) \<noteq> None \<and> TxTrackerEnabled (TxTracker cfg) \<and> be_tx env) \<and>
   (wi_webhook (wire env cfg b lib js d) \<noteq> None \<longleftrightarrow>
     wi_deposit (wire env cfg b lib js d) \<noteq> None \<and> WebhookEnabled (Webhook cfg) \<and> be_webhook env)"
proof (cases "MySQLEnabled (MySQL cfg) \<and> be_mysql env")
  case True
  let ?w = "wire_indexer cfg b lib js (wire_webhook env cfg (wire_exchange env cfg (wire_balance env cfg b d no_services)))"
  have w: "wire env cfg b lib js d = wire_tx env cfg b ?w" using True by (simp add: wire_def)
  have x: "wi_exchange ?w = None" by simp
  show ?thesis
    unfolding w wire_tx_exchange [OF x]
    using True by (cases "BalanceSyncEnabled (BalanceSync cfg) \<and> be_balance env") (auto simp: exchange_runs_def)
next
  case False
  then have "wire env cfg b lib js d = no_services" by (auto simp: wire_def)
  then show ?thesis using False by (auto simp: no_services_def)
qed

lemma wire_engine:
  assumes "wi_indexer (wire env cfg b lib js d) = Some e"
  shows "ie_deposit e = wi_deposit (wire env cfg b lib js d) \<and> ie_backend e = b"
proof -
  have "wi_indexer no_services = None" by (simp add: no_services_def)
  then show ?thesis using assms by (auto simp: wire_def split: if_splits dest: wire_indexer_engine)
qed

end
