(* ===== verification/Spec2Isabelle.thy ===== *)
theory Spec2Isabelle
  imports Exchange_Properties Tx_Properties Webhook_Properties Indexer_Properties Wallet_Properties Node_Properties Web3_Properties
    Api_Properties Backend_Main
begin

text \<open>
  A verification library of the custodial exchange backend under \<open>src/internal\<close> and of the gRPC demonstration
  server \<open>src/cmd/web3-grpc-server/main.go\<close>.

  \<^bold>\<open>The program.\<close> The backend keeps an off-chain ledger of user balances in MySQL. The
  indexer follows the chain, stores blocks, transactions and events, repairs reorganisations,
  and hands native transfers and ERC-20 logs to the deposit
  processor, which credits users, reverses credits after a reorganisation, and notifies
  merchants through the webhook outbox. Users ask
  for withdrawals, which freeze their balance; an approved one is claimed by a worker,
  signed and broadcast through the transaction service, which allocates nonces and writes
  a tracker row before it sends; the tracker follows the transaction and reports its
  outcome back to the exchange. The balance syncer mirrors on-chain balances, which the
  reconciliation compares with the liabilities of the ledger. The webhook service keeps
  merchants, moves payments on the ledger, and its workers deliver the events with retries.
  The gRPC demonstration server is a program of its own: it keeps accounts, users, transactions and event logs in
  a database of its own when it can open one, otherwise in maps under one mutex, and streams transactions and logs to clients.

  \<^bold>\<open>The model.\<close> A statement sequence on the database is a function from \<open>db\<close> to a
  result and a new \<open>db\<close> (\<open>Schema\<close>, \<open>Prelude\<close>); a service method that also broadcasts
  works on \<open>sys\<close>, the database with the list of the transactions handed to the node, the webhook
  service on \<open>wh_state\<close> (with its counters) and the indexer on \<open>ix_state\<close> (with cache, job queue and counters).
  Errors are values of \<open>go_error\<close>, a panic is its constructor \<open>GoPanic\<close>. A transaction
  is \<open>run_tx\<close>: on an error every table is as before, counters excepted. Text columns compare under
  MySQL's case-insensitive collation (\<open>sql_eq\<close>). Each method runs to its end as one
  step; what other connections do between the statements of one method is modelled where the
  code depends on it (reads outside the transaction). Goroutines are modelled by one round of
  their loop, and the step relations let the rounds interleave in any order. go-ethereum, the node, the ABI package, the HTTP client,
  HMAC, JSON text and golang-jwt are records of functions or arguments (\<open>geth\<close>, \<open>node\<close>, \<open>event_lib\<close>, \<open>wh_client\<close>); what a
  theorem asks of them is a named hypothesis. In the gRPC server the mutex is part of the state and a
  call that never returns is \<open>None\<close>.

  \<^bold>\<open>The theories.\<close>
  \<^item> \<open>Wei\<close>, \<open>Exchange_Ledger\<close>, \<open>Exchange_Store\<close>: \<open>exchange/wei.go\<close>, \<open>ledger.go\<close>, \<open>store.go\<close>. The locale
    \<open>posting\<close> is the contract of the seven postings.
  \<^item> \<open>Exchange_Deposit\<close>: \<open>exchange/deposit.go\<close>. The locale \<open>deposit_capture\<close> is what it
    asks of the webhook notifier.
  \<^item> \<open>Exchange_Service\<close>, \<open>Exchange_Withdraw\<close>: \<open>exchange/service.go\<close>, \<open>reconcile.go\<close>, \<open>worker.go\<close>.
  \<^item> \<open>Exchange_System\<close>: every handler as a step (\<open>ex_step\<close>). The locales \<open>withdraw_client\<close> and \<open>exchange_client\<close>
    traverse the handlers once for any invariant of the database.
  \<^item> \<open>Config\<close>, \<open>Signer\<close>, \<open>Eth\<close>, \<open>Eth_Transfer\<close>, \<open>Balance\<close>: the packages of these names. The locale \<open>keyed_table\<close>
    is the contract of a table with a key (upsert, then look up).
  \<^item> \<open>Outbox\<close>: the locale of an outbox table with its claim and finish operations, interpreted on the
    outboxes of tracker, webhooks and indexer.
  \<^item> \<open>Tx_Store\<close>, \<open>Tx_Service\<close>, \<open>Tx_Tracker\<close>, \<open>Tx_System\<close>: the package \<open>tx\<close> and the runs of its services. The locale
    \<open>tracker_hook\<close> is what the tracker asks of the withdraw handler, interpreted on the exchange's handler.
  \<^item> \<open>Webhook_Store\<close>, \<open>Webhook_Service\<close>: the package \<open>webhook\<close>; \<open>Webhook_System\<close>: it as the notifier of deposits;
    \<open>Webhook_Delivery\<close>: attempts, retries and their end.
  \<^item> \<open>Platform\<close>: exchange and webhook service on one database (\<open>platform_step\<close>, \<open>platform_inv\<close>). The locale
    \<open>capture_frame\<close> is a view of the database that captures leave alone.
  \<^item> \<open>Cache\<close>: \<open>cache/memory.go\<close>, with the contract of a cache with expiry and claims as the locale \<open>timed_cache\<close>.
  \<^item> \<open>Indexer_Store\<close>, \<open>Indexer_Events\<close>, \<open>Indexer_Engine\<close>: the package \<open>indexer\<close>.
  \<^item> \<open>Indexer_System\<close>: its goroutines as steps (\<open>ix_step\<close>). The locales \<open>tail_client\<close>, \<open>capture_client\<close>, \<open>index_client\<close> and
    \<open>rest_client\<close> traverse the engine once for any relation between the database before and after.
  \<^item> \<open>Indexer_Invariant\<close>: the invariant of the index and the runs of all services together (\<open>backend_step\<close>).
  \<^item> \<open>Indexer_Sync\<close>, \<open>Indexer_Deposits\<close>, \<open>Indexer_Scan\<close>: what a synced block, its deposits, the lock and a gap scan leave behind.
  \<^item> \<open>Pipeline\<close>: \<open>pipeline/bus.go\<close> and \<open>eth/listener.go\<close>, the subscriptions as sequences of events (\<open>pipe_step\<close>); \<open>Eth_Scan\<close>:
    \<open>eth/account_tx.go\<close>; \<open>User_Store\<close>: \<open>store/userstore.go\<close>.
  \<^item> \<open>Web3_Server\<close>, \<open>Web3_Calls\<close>, \<open>Web3_System\<close>: \<open>cmd/web3-grpc-server/main.go\<close>, its state and database, its calls, its
    start, lock, API key and log stream. \<open>Web3_Bank\<close>: the abstract bank they refine, the locale \<open>bank_store\<close> being what
    a transfer asks of the account table.
  \<^item> \<open>Http\<close>: requests, parameters, the binding of JSON bodies, \<open>api/jwt.go\<close> and \<open>middleware.go\<close>; \<open>Api_Core\<close>: the services and the
    state of the HTTP API, replies, and the handlers of \<open>handlers_auth.go\<close>, \<open>handlers_stats.go\<close>, \<open>handlers_tools.go\<close>.
  \<^item> \<open>Api_Exchange\<close>, \<open>Api_Tx\<close>, \<open>Api_Wallet\<close>, \<open>Api_Chain\<close>, \<open>Api_Files\<close>, \<open>Api_Router\<close>: the other handlers, the
    routes, and the service of one request (\<open>api_serve\<close>). A handler is a function of the request and the state
    \<open>api_state\<close>, which holds the states of all services.
  \<^item> \<open>Api_System\<close>, \<open>Api_Server\<close>: the locale \<open>api_client\<close> traverses the handlers once for any property of the tables of
    exchange, webhooks and index; \<open>server_step\<close> interleaves requests with the rounds of all services.
  \<^item> \<open>Backend_Main\<close>: \<open>cmd/chain-backend/main.go\<close>, which services exist for a configuration, and \<open>grpcsvc/chain.go\<close>.
  \<^item> \<open>Samples\<close> and the theories \<open>Exchange_Properties\<close>, \<open>Tx_Properties\<close>, \<open>Webhook_Properties\<close>, \<open>Indexer_Properties\<close>,
    \<open>Wallet_Properties\<close>, \<open>Node_Properties\<close>, \<open>Web3_Properties\<close>, \<open>Api_Properties\<close>: concrete states, and the properties with their witnesses.

  \<^bold>\<open>What is shown.\<close> Money: every account equals its journal and no deposit is credited twice over all runs of
  the exchange; each posting moves exactly its amount; payments conserve the liabilities and happen once; a
  reorganisation reverses exactly what it must; a reconciliation is ok exactly when the recorded custody equals the
  liabilities. Withdrawals: the life cycle, single broadcast, single debit, and the two defects that
  keep a failed withdrawal frozen and a new one from being created. Transactions: nothing is sent untracked but a raw transaction
  submitted under the key of an unfinished one, which is collected by the runs; nonces are
  consecutive, statuses follow their machine, every change of a status is in the outbox, the price of a speed-up. Webhooks: what a
  delivery does and that deliveries end, requeued ones included. Indexer: a
  synced block is the node's and continues the stored chain, gap scans are complete below their limit, locks exclude,
  loops end, the exact condition under which deposits are taken, and that they are then credited. All services: their invariants
  hold together on the shared database. Node side: the pipeline hands on what the node announced, the account scan finds every
  transaction of its range. The gRPC server: its calls refine the bank, a log stream misses nothing, and a transfer in memory mode without a node
  waits for its own lock for ever, after which nothing but the transaction stream is answered with success. HTTP: nothing changes
  without a token, what a login answers in every case and until when its token is accepted,
  amounts survive their conversion to ether and back, and the invariants of all services hold over every run of requests and rounds.

  \<^bold>\<open>Bounds.\<close> No definition uses fuel: loops are structural recursion over lists, and the loop over
  block numbers that may not end is a \<open>partial_function\<close> whose value at the largest number is shown to be \<open>None\<close>. Heights, nonces and
  gas are 64-bit words and wrap around as in Go, and so does the factor of a speed-up; amounts are unbounded integers, of which the ABI
  encoding keeps the low 256 bits.

  \<^bold>\<open>Not modelled.\<close> The syntax of JSON and the routing of Gin (parameters of the API), failures of the
  file system; starting goroutines, listening and shutting down in \<open>cmd/chain-backend\<close>; the client, the load generator and the demonstration
  programs, which carry no state of the backend; generated code; the Redis client; opening the
  database, running the DDL and loading the configuration file; floating-point rates of the
  webhook status. Column widths, isolation between overlapping transactions and failures of the database itself are not
  modelled either. Text is ASCII: case mapping, trimming and the collation of MySQL are those of ASCII letters and blanks. An HTTP
  handler is a total function of the state, so that one which waits for the database or the node for ever is not expressed; only the
  account scan, whose loop may not end by itself, is a partial function.
\<close>

end
